(* ===== verification/Java_Prelude.thy ===== *)
theory Java_Prelude
  imports Main "HOL-Library.Word"
begin

text \<open>
  What every component shares: the Java machine types as words, the exceptions the code
  raises or relies on as values, the pieces of \<open>java.lang.String\<close> and
  \<open>java.lang.Integer\<close> the sources call, and the generic interfaces (locales) that several
  components implement or use.

  Strings are lists of 8-bit characters, so the model covers the Latin-1 range of Java's
  UTF-16 code units. A reference that the code compares with \<open>null\<close> is an \<open>option\<close>.
\<close>

named_theorems java_simps

section \<open>Machine types and exceptions\<close>

type_synonym byte = "8 word"
type_synonym jshort = "16 word"
type_synonym jint = "32 word"
type_synonym jlong = "64 word"

datatype exn =
    NullPointerException
  | IllegalArgumentException string
  | NegativeArraySizeException
  | BufferUnderflowException
  | StringIndexOutOfBoundsException
  | ArrayIndexOutOfBoundsException
  | NumberFormatException
  | IOException
  | EncoderException string
  | RuntimeException string

type_synonym 'a result = "exn + 'a"

fun bind_result :: "'a result \<Rightarrow> ('a \<Rightarrow> 'b result) \<Rightarrow> 'b result" where
  "bind_result (Inl e) f = Inl e"
| "bind_result (Inr a) f = f a"

lemma bind_result_Inr_iff:
  "bind_result r f = Inr b \<longleftrightarrow> (\<exists>a. r = Inr a \<and> f a = Inr b)"
  by (cases r) auto

lemma bind_result_Inl_iff:
  "bind_result r f = Inl e \<longleftrightarrow> r = Inl e \<or> (\<exists>a. r = Inr a \<and> f a = Inl e)"
  by (cases r) auto

section \<open>Signed words\<close>

lemma sint_word_of_int_exact:
  assumes "- (2 ^ (LENGTH('a) - 1)) \<le> k" and "k < 2 ^ (LENGTH('a) - 1)"
  shows "sint (word_of_int k :: 'a::len word) = k"
  using assms by (simp add: sint_sbintrunc' signed_take_bit_int_eq_self_iff)

section \<open>Strings\<close>

text \<open>\<open>StringUtils.isEmpty\<close> and \<open>isNotEmpty\<close>: \<open>null\<close> counts as empty.\<close>

fun is_empty_str :: "string option \<Rightarrow> bool" where
  "is_empty_str None = True"
| "is_empty_str (Some s) = (s = [])"

lemma not_is_empty_str [simp]: "\<not> is_empty_str x \<longleftrightarrow> (\<exists>s. x = Some s \<and> s \<noteq> [])"
  by (cases x) auto

text \<open>String concatenation writes a null reference as the four letters \<open>null\<close>.\<close>

fun str_of :: "string option \<Rightarrow> string" where
  "str_of None = ''null''"
| "str_of (Some s) = s"

text \<open>
  \<open>Character.toLowerCase\<close> on Latin-1: the ASCII capitals and the accented capitals
  (the code points 192 to 222 except the multiplication sign 215) move up by 32.
\<close>

definition is_upper_latin1 :: "nat \<Rightarrow> bool" where
  "is_upper_latin1 n \<longleftrightarrow> (65 \<le> n \<and> n \<le> 90) \<or> (192 \<le> n \<and> n \<le> 222 \<and> n \<noteq> 215)"

definition lower_char :: "char \<Rightarrow> char" where
  "lower_char c = (if is_upper_latin1 (of_char c) then char_of (of_char c + 32 :: nat) else c)"

definition to_lower_case :: "string \<Rightarrow> string" where
  "to_lower_case s = map lower_char s"

definition equals_ignore_case :: "string \<Rightarrow> string \<Rightarrow> bool" where
  "equals_ignore_case a b \<longleftrightarrow> to_lower_case a = to_lower_case b"

lemma equals_ignore_case_refl [simp]: "equals_ignore_case a a"
  by (simp add: equals_ignore_case_def)

lemma equals_ignore_case_sym: "equals_ignore_case a b \<longleftrightarrow> equals_ignore_case b a"
  by (auto simp: equals_ignore_case_def)

text \<open>\<open>String.trim\<close> removes the characters up to the space on both ends.\<close>

definition trim :: "string \<Rightarrow> string" where
  "trim s = rev (dropWhile (\<lambda>c. (of_char c :: nat) \<le> 32)
              (rev (dropWhile (\<lambda>c. (of_char c :: nat) \<le> 32) s)))"

text \<open>
  \<open>String.split\<close> on one literal character: the pieces between the separators without the
  empty pieces at the end; a string without the separator is its own only piece.
  \<open>split_limit2\<close> is \<open>split(sep, 2)\<close>, which cuts at the first separator only.
\<close>

fun pieces :: "char \<Rightarrow> string \<Rightarrow> string list" where
  "pieces sep [] = [[]]"
| "pieces sep (c # cs) =
     (if c = sep then [] # pieces sep cs
      else (case pieces sep cs of [] \<Rightarrow> [[c]] | p # ps \<Rightarrow> (c # p) # ps))"

definition drop_trailing_empty :: "string list \<Rightarrow> string list" where
  "drop_trailing_empty ps = rev (dropWhile (\<lambda>p. p = []) (rev ps))"

definition split_char :: "char \<Rightarrow> string \<Rightarrow> string list" where
  "split_char sep s = (if sep \<in> set s then drop_trailing_empty (pieces sep s) else [s])"

definition split_limit2 :: "char \<Rightarrow> string \<Rightarrow> string list" where
  "split_limit2 sep s =
     (if sep \<in> set s
      then [takeWhile (\<lambda>c. c \<noteq> sep) s, tl (dropWhile (\<lambda>c. c \<noteq> sep) s)]
      else [s])"

fun join_char :: "char \<Rightarrow> string list \<Rightarrow> string" where
  "join_char sep [] = []"
| "join_char sep [p] = p"
| "join_char sep (p # ps) = p @ sep # join_char sep ps"

lemma pieces_nonempty [simp]: "pieces sep s \<noteq> []"
  by (induction s) (auto split: list.splits)

lemma pieces_no_sep: "sep \<notin> set s \<Longrightarrow> pieces sep s = [s]"
  by (induction s) auto

lemma pieces_append:
  "sep \<notin> set p \<Longrightarrow> pieces sep (p @ sep # s) = p # pieces sep s"
  by (induction p) auto

lemma pieces_join:
  "ps \<noteq> [] \<Longrightarrow> \<forall>p \<in> set ps. sep \<notin> set p \<Longrightarrow> pieces sep (join_char sep ps) = ps"
proof (induction sep ps rule: join_char.induct)
  case (3 sep p q ps)
  then show ?case by (simp add: pieces_append)
qed (simp_all add: pieces_no_sep)

lemma drop_trailing_empty_id: "ps = [] \<or> last ps \<noteq> [] \<Longrightarrow> drop_trailing_empty ps = ps"
  by (cases ps rule: rev_cases) (auto simp: drop_trailing_empty_def)

lemma set_join_char: "sep \<in> set (join_char sep ps) \<longleftrightarrow>
   (\<exists>p \<in> set ps. sep \<in> set p) \<or> 2 \<le> length ps"
  by (induction sep ps rule: join_char.induct) auto

lemma split_char_join:
  assumes "ps \<noteq> []" and "\<forall>p \<in> set ps. sep \<notin> set p" and "last ps \<noteq> []"
  shows "split_char sep (join_char sep ps) = ps"
proof (cases "sep \<in> set (join_char sep ps)")
  case True
  with assms show ?thesis
    by (simp add: split_char_def pieces_join drop_trailing_empty_id)
next
  case False
  with assms have "length ps < 2" by (auto simp: set_join_char)
  with assms(1) obtain p where "ps = [p]" by (cases ps) (auto simp: less_Suc_eq_0_disj)
  with assms show ?thesis by (simp add: split_char_def)
qed

text \<open>\<open>getBytes\<close> and \<open>new String\<close> on 8-bit characters, one byte each.\<close>

definition str_bytes :: "string \<Rightarrow> byte list" where
  "str_bytes s = map (\<lambda>c. of_nat (of_char c)) s"

definition bytes_str :: "byte list \<Rightarrow> string" where
  "bytes_str bs = map (\<lambda>b. char_of (unat b)) bs"

lemma bytes_str_str_bytes [simp]: "bytes_str (str_bytes s) = s"
proof -
  have "unat (of_nat (of_char c) :: byte) = of_char c" for c :: char
    by (simp add: unat_of_nat)
  then show ?thesis by (simp add: bytes_str_def str_bytes_def comp_def)
qed

section \<open>Decimal integers\<close>

text \<open>
  \<open>Integer.parseInt\<close>, \<open>Long.parseLong\<close> and \<open>Short.parseShort\<close>: an optional sign, at
  least one ASCII digit, a value in the range of the type; anything else raises
  \<open>NumberFormatException\<close>, which is \<open>None\<close> here.
\<close>

definition digit_val :: "char \<Rightarrow> nat option" where
  "digit_val c = (let n = of_char c in if 48 \<le> n \<and> n \<le> 57 then Some (n - 48) else None)"

fun digits_val :: "nat \<Rightarrow> string \<Rightarrow> nat option" where
  "digits_val acc [] = Some acc"
| "digits_val acc (c # cs) =
     (case digit_val c of None \<Rightarrow> None | Some d \<Rightarrow> digits_val (10 * acc + d) cs)"

definition unsigned_val :: "string \<Rightarrow> nat option" where
  "unsigned_val s = (if s = [] then None else digits_val 0 s)"

definition parse_signed :: "string \<Rightarrow> int option" where
  "parse_signed s =
     (case s of
        [] \<Rightarrow> None
      | c # cs \<Rightarrow>
          if c = CHR ''-'' then map_option (\<lambda>n. - int n) (unsigned_val cs)
          else if c = CHR ''+'' then map_option int (unsigned_val cs)
          else map_option int (unsigned_val s))"

definition parse_ranged :: "nat \<Rightarrow> string \<Rightarrow> int option" where
  "parse_ranged bits s =
     (case parse_signed s of
        None \<Rightarrow> None
      | Some v \<Rightarrow> if - (2 ^ (bits - 1)) \<le> v \<and> v < 2 ^ (bits - 1) then Some v else None)"

abbreviation parse_short :: "string \<Rightarrow> int option" where
  "parse_short \<equiv> parse_ranged 16"

abbreviation parse_int :: "string \<Rightarrow> int option" where
  "parse_int \<equiv> parse_ranged 32"

abbreviation parse_long :: "string \<Rightarrow> int option" where
  "parse_long \<equiv> parse_ranged 64"

lemma parse_ranged_bounds:
  "parse_ranged bits s = Some v \<Longrightarrow> - (2 ^ (bits - 1)) \<le> v \<and> v < 2 ^ (bits - 1)"
  by (auto simp: parse_ranged_def split: option.splits if_splits)

lemma parse_ranged_mono:
  assumes "parse_ranged m s = Some v" and "m \<le> n"
  shows "parse_ranged n s = Some v"
proof -
  have le: "(2::int) ^ (m - 1) \<le> 2 ^ (n - 1)"
    using assms(2) by (intro power_increasing) auto
  from assms(1) have v: "parse_signed s = Some v" and b: "- (2 ^ (m - 1)) \<le> v" "v < 2 ^ (m - 1)"
    by (auto simp: parse_ranged_def split: option.splits if_splits)
  from b le have "- (2 ^ (n - 1)) \<le> v \<and> v < 2 ^ (n - 1)" by linarith
  with v show ?thesis by (simp add: parse_ranged_def)
qed

text \<open>Decimal printing (\<open>String.valueOf\<close>) and its round trip.\<close>

definition digit_char :: "nat \<Rightarrow> char" where
  "digit_char d = char_of (48 + d)"

fun show_nat :: "nat \<Rightarrow> string" where
  "show_nat n = (if n < 10 then [digit_char n] else show_nat (n div 10) @ [digit_char (n mod 10)])"

declare show_nat.simps [simp del]

definition show_int :: "int \<Rightarrow> string" where
  "show_int v = (if v < 0 then CHR ''-'' # show_nat (nat (- v)) else show_nat (nat v))"

lemma digit_val_digit_char [simp]: "d < 10 \<Longrightarrow> digit_val (digit_char d) = Some d"
  by (simp add: digit_val_def digit_char_def Let_def)

lemma digits_val_snoc:
  "digits_val acc (cs @ [c]) =
     (case digits_val acc cs of None \<Rightarrow> None | Some v \<Rightarrow> map_option (\<lambda>d. 10 * v + d) (digit_val c))"
  by (induction cs arbitrary: acc) (auto split: option.splits)

lemma digits_val_show_nat: "digits_val 0 (show_nat n) = Some n"
proof (induction n rule: show_nat.induct)
  case (1 n)
  then show ?case
    by (cases "n < 10") (simp_all add: show_nat.simps [of n] digits_val_snoc)
qed

lemma show_nat_nonempty [simp]: "show_nat n \<noteq> []"
  by (subst show_nat.simps) simp

lemma show_nat_digits: "c \<in> set (show_nat n) \<Longrightarrow> \<exists>d < 10. c = digit_char d"
proof (induction n rule: show_nat.induct)
  case (1 n)
  show ?case
  proof (cases "n < 10")
    case True
    with "1.prems" show ?thesis by (simp add: show_nat.simps [of n]) blast
  next
    case False
    with "1.prems" have "c \<in> set (show_nat (n div 10)) \<or> c = digit_char (n mod 10)"
      by (simp add: show_nat.simps [of n] disj_commute)
    moreover have "n mod 10 < 10" by simp
    ultimately show ?thesis using "1.IH" [OF False] by blast
  qed
qed

lemma digit_char_code: "d < 10 \<Longrightarrow> of_char (digit_char d) = 48 + d"
  by (simp add: digit_char_def)

lemma digit_char_neq:
  "d < 10 \<Longrightarrow> (of_char c :: nat) < 48 \<or> 57 < (of_char c :: nat) \<Longrightarrow> digit_char d \<noteq> c"
  by (auto simp: digit_char_def)

lemma show_nat_no_char:
  "(of_char c :: nat) < 48 \<or> 57 < (of_char c :: nat) \<Longrightarrow> c \<notin> set (show_nat n)"
  by (auto dest!: show_nat_digits simp: digit_char_code)

lemma parse_signed_show_int: "parse_signed (show_int v) = Some v"
proof (cases "v < 0")
  case True
  then show ?thesis by (simp add: show_int_def parse_signed_def unsigned_val_def digits_val_show_nat)
next
  case False
  obtain c cs where cs: "show_nat (nat v) = c # cs" by (cases "show_nat (nat v)") auto
  then have "c \<in> set (show_nat (nat v))" by simp
  then have "c \<noteq> CHR ''-''" "c \<noteq> CHR ''+''" by (auto dest!: show_nat_digits simp: digit_char_neq)
  moreover have "unsigned_val (c # cs) = Some (nat v)"
    using digits_val_show_nat [of "nat v"] cs by (simp add: unsigned_val_def)
  ultimately show ?thesis using False cs by (simp add: show_int_def parse_signed_def)
qed

lemma parse_ranged_show_int:
  "- (2 ^ (bits - 1)) \<le> v \<Longrightarrow> v < 2 ^ (bits - 1) \<Longrightarrow> parse_ranged bits (show_int v) = Some v"
  by (simp add: parse_ranged_def parse_signed_show_int)

lemma show_int_inj: "show_int v = show_int w \<Longrightarrow> v = w"
  by (metis option.inject parse_signed_show_int)

lemma show_int_nonempty [simp]: "show_int v \<noteq> []"
  by (simp add: show_int_def)

end
