(* ===== verification/Obj_Mac.thy ===== *)
theory Obj_Mac
  imports Java_Prelude
begin

text \<open>
  \<open>native/include/openssl/obj_mac.h\<close>, the object registry the native code is compiled against: for
  each object the short name (\<open>SN_\<close>), the long name (\<open>LN_\<close>), the numeric id (\<open>NID_\<close>) and the
  object identifier (\<open>OBJ_\<close>), any of which may be missing, in the order of the file. An identifier is
  a list of arcs in which another object's identifier may be included by its macro name. One table
  holds the definitions of at most 150 lines of the header.
\<close>

datatype oid_part = Ref string | Arc nat

datatype registry_entry =
  Entry (macro: string) (short_name: "string option") (long_name: "string option")
    (nid: "nat option") (body: "oid_part list")

definition objects_01 :: "registry_entry list" where
  "objects_01 = [
     Entry ''undef'' (Some ''UNDEF'') (Some ''undefined'') (Some 0) [Arc 0],
     Entry ''itu_t'' (Some ''ITU-T'') (Some ''itu-t'') (Some 645) [Arc 0],
     Entry ''ccitt'' None None (Some 404) [Ref ''itu_t''],
     Entry ''iso'' (Some ''ISO'') (Some ''iso'') (Some 181) [Arc 1],
     Entry ''joint_iso_itu_t'' (Some ''JOINT-ISO-ITU-T'') (Some ''joint-iso-itu-t'') (Some 646) [Arc 2],
     Entry ''joint_iso_ccitt'' None None (Some 393) [Ref ''joint_iso_itu_t''],
     Entry ''member_body'' (Some ''member-body'') (Some ''ISO Member Body'') (Some 182) [Ref ''iso'', Arc 2],
     Entry ''identified_organization'' (Some ''identified-organization'') None (Some 676) [Ref ''iso'', Arc 3],
     Entry ''hmac_md5'' (Some ''HMAC-MD5'') (Some ''hmac-md5'') (Some 780) [Ref ''identified_organization'', Arc 6, Arc 1, Arc 5, Arc 5, Arc 8, Arc 1, Arc 1],
     Entry ''hmac_sha1'' (Some ''HMAC-SHA1'') (Some ''hmac-sha1'') (Some 781) [Ref ''identified_organization'', Arc 6, Arc 1, Arc 5, Arc 5, Arc 8, Arc 1, Arc 2],
     Entry ''certicom_arc'' (Some ''certicom-arc'') None (Some 677) [Ref ''identified_organization'', Arc 132],
     Entry ''international_organizations'' (Some ''international-organizations'') (Some ''International Organizations'') (Some 647) [Ref ''joint_iso_itu_t'', Arc 23],
     Entry ''wap'' (Some ''wap'') None (Some 678) [Ref ''international_organizations'', Arc 43],
     Entry ''wap_wsg'' (Some ''wap-wsg'') None (Some 679) [Ref ''wap'', Arc 1],
     Entry ''selected_attribute_types'' (Some ''selected-attribute-types'') (Some ''Selected Attribute Types'') (Some 394) [Ref ''joint_iso_itu_t'', Arc 5, Arc 1, Arc 5],
     Entry ''clearance'' (Some ''clearance'') None (Some 395) [Ref ''selected_attribute_types'', Arc 55],
     Entry ''ISO_US'' (Some ''ISO-US'') (Some ''ISO US Member Body'') (Some 183) [Ref ''member_body'', Arc 840],
     Entry ''X9_57'' (Some ''X9-57'') (Some ''X9.57'') (Some 184) [Ref ''ISO_US'', Arc 10040],
     Entry ''X9cm'' (Some ''X9cm'') (Some ''X9.57 CM ?'') (Some 185) [Ref ''X9_57'', Arc 4],
     Entry ''dsa'' (Some ''DSA'') (Some ''dsaEncryption'') (Some 116) [Ref ''X9cm'', Arc 1],
     Entry ''dsaWithSHA1'' (Some ''DSA-SHA1'') (Some ''dsaWithSHA1'') (Some 113) [Ref ''X9cm'', Arc 3],
     Entry ''ansi_X9_62'' (Some ''ansi-X9-62'') (Some ''ANSI X9.62'') (Some 405) [Ref ''ISO_US'', Arc 10045],
     Entry ''X9_62_id_fieldType'' None None None [Ref ''ansi_X9_62'', Arc 1],
     Entry ''X9_62_prime_field'' (Some ''prime-field'') None (Some 406) [Ref ''X9_62_id_fieldType'', Arc 1],
     Entry ''X9_62_characteristic_two_field'' (Some ''characteristic-two-field'') None (Some 407) [Ref ''X9_62_id_fieldType'', Arc 2],
     Entry ''X9_62_id_characteristic_two_basis'' (Some ''id-characteristic-two-basis'') None (Some 680) [Ref ''X9_62_characteristic_two_field'', Arc 3],
     Entry ''X9_62_onBasis'' (Some ''onBasis'') None (Some 681) [Ref ''X9_62_id_characteristic_two_basis'', Arc 1],
     Entry ''X9_62_tpBasis'' (Some ''tpBasis'') None (Some 682) [Ref ''X9_62_id_characteristic_two_basis'', Arc 2],
     Entry ''X9_62_ppBasis'' (Some ''ppBasis'') None (Some 683) [Ref ''X9_62_id_characteristic_two_basis'', Arc 3],
     Entry ''X9_62_id_publicKeyType'' None None None [Ref ''ansi_X9_62'', Arc 2],
     Entry ''X9_62_id_ecPublicKey'' (Some ''id-ecPublicKey'') None (Some 408) [Ref ''X9_62_id_publicKeyType'', Arc 1],
     Entry ''X9_62_ellipticCurve'' None None None [Ref ''ansi_X9_62'', Arc 3],
     Entry ''X9_62_c_TwoCurve'' None None None [Ref ''X9_62_ellipticCurve'', Arc 0],
     Entry ''X9_62_c2pnb163v1'' (Some ''c2pnb163v1'') None (Some 684) [Ref ''X9_62_c_TwoCurve'', Arc 1],
     Entry ''X9_62_c2pnb163v2'' (Some ''c2pnb163v2'') None (Some 685) [Ref ''X9_62_c_TwoCurve'', Arc 2],
     Entry ''X9_62_c2pnb163v3'' (Some ''c2pnb163v3'') None (Some 686) [Ref ''X9_62_c_TwoCurve'', Arc 3]]"

definition objects_02 :: "registry_entry list" where
  "objects_02 = [
     Entry ''X9_62_c2pnb176v1'' (Some ''c2pnb176v1'') None (Some 687) [Ref ''X9_62_c_TwoCurve'', Arc 4],
     Entry ''X9_62_c2tnb191v1'' (Some ''c2tnb191v1'') None (Some 688) [Ref ''X9_62_c_TwoCurve'', Arc 5],
     Entry ''X9_62_c2tnb191v2'' (Some ''c2tnb191v2'') None (Some 689) [Ref ''X9_62_c_TwoCurve'', Arc 6],
     Entry ''X9_62_c2tnb191v3'' (Some ''c2tnb191v3'') None (Some 690) [Ref ''X9_62_c_TwoCurve'', Arc 7],
     Entry ''X9_62_c2onb191v4'' (Some ''c2onb191v4'') None (Some 691) [Ref ''X9_62_c_TwoCurve'', Arc 8],
     Entry ''X9_62_c2onb191v5'' (Some ''c2onb191v5'') None (Some 692) [Ref ''X9_62_c_TwoCurve'', Arc 9],
     Entry ''X9_62_c2pnb208w1'' (Some ''c2pnb208w1'') None (Some 693) [Ref ''X9_62_c_TwoCurve'', Arc 10],
     Entry ''X9_62_c2tnb239v1'' (Some ''c2tnb239v1'') None (Some 694) [Ref ''X9_62_c_TwoCurve'', Arc 11],
     Entry ''X9_62_c2tnb239v2'' (Some ''c2tnb239v2'') None (Some 695) [Ref ''X9_62_c_TwoCurve'', Arc 12],
     Entry ''X9_62_c2tnb239v3'' (Some ''c2tnb239v3'') None (Some 696) [Ref ''X9_62_c_TwoCurve'', Arc 13],
     Entry ''X9_62_c2onb239v4'' (Some ''c2onb239v4'') None (Some 697) [Ref ''X9_62_c_TwoCurve'', Arc 14],
     Entry ''X9_62_c2onb239v5'' (Some ''c2onb239v5'') None (Some 698) [Ref ''X9_62_c_TwoCurve'', Arc 15],
     Entry ''X9_62_c2pnb272w1'' (Some ''c2pnb272w1'') None (Some 699) [Ref ''X9_62_c_TwoCurve'', Arc 16],
     Entry ''X9_62_c2pnb304w1'' (Some ''c2pnb304w1'') None (Some 700) [Ref ''X9_62_c_TwoCurve'', Arc 17],
     Entry ''X9_62_c2tnb359v1'' (Some ''c2tnb359v1'') None (Some 701) [Ref ''X9_62_c_TwoCurve'', Arc 18],
     Entry ''X9_62_c2pnb368w1'' (Some ''c2pnb368w1'') None (Some 702) [Ref ''X9_62_c_TwoCurve'', Arc 19],
     Entry ''X9_62_c2tnb431r1'' (Some ''c2tnb431r1'') None (Some 703) [Ref ''X9_62_c_TwoCurve'', Arc 20],
     Entry ''X9_62_primeCurve'' None None None [Ref ''X9_62_ellipticCurve'', Arc 1],
     Entry ''X9_62_prime192v1'' (Some ''prime192v1'') None (Some 409) [Ref ''X9_62_primeCurve'', Arc 1],
     Entry ''X9_62_prime192v2'' (Some ''prime192v2'') None (Some 410) [Ref ''X9_62_primeCurve'', Arc 2],
     Entry ''X9_62_prime192v3'' (Some ''prime192v3'') None (Some 411) [Ref ''X9_62_primeCurve'', Arc 3],
     Entry ''X9_62_prime239v1'' (Some ''prime239v1'') None (Some 412) [Ref ''X9_62_primeCurve'', Arc 4],
     Entry ''X9_62_prime239v2'' (Some ''prime239v2'') None (Some 413) [Ref ''X9_62_primeCurve'', Arc 5],
     Entry ''X9_62_prime239v3'' (Some ''prime239v3'') None (Some 414) [Ref ''X9_62_primeCurve'', Arc 6],
     Entry ''X9_62_prime256v1'' (Some ''prime256v1'') None (Some 415) [Ref ''X9_62_primeCurve'', Arc 7],
     Entry ''X9_62_id_ecSigType'' None None None [Ref ''ansi_X9_62'', Arc 4],
     Entry ''ecdsa_with_SHA1'' (Some ''ecdsa-with-SHA1'') None (Some 416) [Ref ''X9_62_id_ecSigType'', Arc 1],
     Entry ''ecdsa_with_Recommended'' (Some ''ecdsa-with-Recommended'') None (Some 791) [Ref ''X9_62_id_ecSigType'', Arc 2],
     Entry ''ecdsa_with_Specified'' (Some ''ecdsa-with-Specified'') None (Some 792) [Ref ''X9_62_id_ecSigType'', Arc 3],
     Entry ''ecdsa_with_SHA224'' (Some ''ecdsa-with-SHA224'') None (Some 793) [Ref ''ecdsa_with_Specified'', Arc 1],
     Entry ''ecdsa_with_SHA256'' (Some ''ecdsa-with-SHA256'') None (Some 794) [Ref ''ecdsa_with_Specified'', Arc 2],
     Entry ''ecdsa_with_SHA384'' (Some ''ecdsa-with-SHA384'') None (Some 795) [Ref ''ecdsa_with_Specified'', Arc 3],
     Entry ''ecdsa_with_SHA512'' (Some ''ecdsa-with-SHA512'') None (Some 796) [Ref ''ecdsa_with_Specified'', Arc 4],
     Entry ''secg_ellipticCurve'' None None None [Ref ''certicom_arc'', Arc 0],
     Entry ''secp112r1'' (Some ''secp112r1'') None (Some 704) [Ref ''secg_ellipticCurve'', Arc 6],
     Entry ''secp112r2'' (Some ''secp112r2'') None (Some 705) [Ref ''secg_ellipticCurve'', Arc 7],
     Entry ''secp128r1'' (Some ''secp128r1'') None (Some 706) [Ref ''secg_ellipticCurve'', Arc 28],
     Entry ''secp128r2'' (Some ''secp128r2'') None (Some 707) [Ref ''secg_ellipticCurve'', Arc 29],
     Entry ''secp160k1'' (Some ''secp160k1'') None (Some 708) [Ref ''secg_ellipticCurve'', Arc 9]]"

definition objects_03 :: "registry_entry list" where
  "objects_03 = [
     Entry ''secp160r1'' (Some ''secp160r1'') None (Some 709) [Ref ''secg_ellipticCurve'', Arc 8],
     Entry ''secp160r2'' (Some ''secp160r2'') None (Some 710) [Ref ''secg_ellipticCurve'', Arc 30],
     Entry ''secp192k1'' (Some ''secp192k1'') None (Some 711) [Ref ''secg_ellipticCurve'', Arc 31],
     Entry ''secp224k1'' (Some ''secp224k1'') None (Some 712) [Ref ''secg_ellipticCurve'', Arc 32],
     Entry ''secp224r1'' (Some ''secp224r1'') None (Some 713) [Ref ''secg_ellipticCurve'', Arc 33],
     Entry ''secp256k1'' (Some ''secp256k1'') None (Some 714) [Ref ''secg_ellipticCurve'', Arc 10],
     Entry ''secp384r1'' (Some ''secp384r1'') None (Some 715) [Ref ''secg_ellipticCurve'', Arc 34],
     Entry ''secp521r1'' (Some ''secp521r1'') None (Some 716) [Ref ''secg_ellipticCurve'', Arc 35],
     Entry ''sect113r1'' (Some ''sect113r1'') None (Some 717) [Ref ''secg_ellipticCurve'', Arc 4],
     Entry ''sect113r2'' (Some ''sect113r2'') None (Some 718) [Ref ''secg_ellipticCurve'', Arc 5],
     Entry ''sect131r1'' (Some ''sect131r1'') None (Some 719) [Ref ''secg_ellipticCurve'', Arc 22],
     Entry ''sect131r2'' (Some ''sect131r2'') None (Some 720) [Ref ''secg_ellipticCurve'', Arc 23],
     Entry ''sect163k1'' (Some ''sect163k1'') None (Some 721) [Ref ''secg_ellipticCurve'', Arc 1],
     Entry ''sect163r1'' (Some ''sect163r1'') None (Some 722) [Ref ''secg_ellipticCurve'', Arc 2],
     Entry ''sect163r2'' (Some ''sect163r2'') None (Some 723) [Ref ''secg_ellipticCurve'', Arc 15],
     Entry ''sect193r1'' (Some ''sect193r1'') None (Some 724) [Ref ''secg_ellipticCurve'', Arc 24],
     Entry ''sect193r2'' (Some ''sect193r2'') None (Some 725) [Ref ''secg_ellipticCurve'', Arc 25],
     Entry ''sect233k1'' (Some ''sect233k1'') None (Some 726) [Ref ''secg_ellipticCurve'', Arc 26],
     Entry ''sect233r1'' (Some ''sect233r1'') None (Some 727) [Ref ''secg_ellipticCurve'', Arc 27],
     Entry ''sect239k1'' (Some ''sect239k1'') None (Some 728) [Ref ''secg_ellipticCurve'', Arc 3],
     Entry ''sect283k1'' (Some ''sect283k1'') None (Some 729) [Ref ''secg_ellipticCurve'', Arc 16],
     Entry ''sect283r1'' (Some ''sect283r1'') None (Some 730) [Ref ''secg_ellipticCurve'', Arc 17],
     Entry ''sect409k1'' (Some ''sect409k1'') None (Some 731) [Ref ''secg_ellipticCurve'', Arc 36],
     Entry ''sect409r1'' (Some ''sect409r1'') None (Some 732) [Ref ''secg_ellipticCurve'', Arc 37],
     Entry ''sect571k1'' (Some ''sect571k1'') None (Some 733) [Ref ''secg_ellipticCurve'', Arc 38],
     Entry ''sect571r1'' (Some ''sect571r1'') None (Some 734) [Ref ''secg_ellipticCurve'', Arc 39],
     Entry ''wap_wsg_idm_ecid'' None None None [Ref ''wap_wsg'', Arc 4],
     Entry ''wap_wsg_idm_ecid_wtls1'' (Some ''wap-wsg-idm-ecid-wtls1'') None (Some 735) [Ref ''wap_wsg_idm_ecid'', Arc 1],
     Entry ''wap_wsg_idm_ecid_wtls3'' (Some ''wap-wsg-idm-ecid-wtls3'') None (Some 736) [Ref ''wap_wsg_idm_ecid'', Arc 3],
     Entry ''wap_wsg_idm_ecid_wtls4'' (Some ''wap-wsg-idm-ecid-wtls4'') None (Some 737) [Ref ''wap_wsg_idm_ecid'', Arc 4],
     Entry ''wap_wsg_idm_ecid_wtls5'' (Some ''wap-wsg-idm-ecid-wtls5'') None (Some 738) [Ref ''wap_wsg_idm_ecid'', Arc 5],
     Entry ''wap_wsg_idm_ecid_wtls6'' (Some ''wap-wsg-idm-ecid-wtls6'') None (Some 739) [Ref ''wap_wsg_idm_ecid'', Arc 6],
     Entry ''wap_wsg_idm_ecid_wtls7'' (Some ''wap-wsg-idm-ecid-wtls7'') None (Some 740) [Ref ''wap_wsg_idm_ecid'', Arc 7],
     Entry ''wap_wsg_idm_ecid_wtls8'' (Some ''wap-wsg-idm-ecid-wtls8'') None (Some 741) [Ref ''wap_wsg_idm_ecid'', Arc 8],
     Entry ''wap_wsg_idm_ecid_wtls9'' (Some ''wap-wsg-idm-ecid-wtls9'') None (Some 742) [Ref ''wap_wsg_idm_ecid'', Arc 9],
     Entry ''wap_wsg_idm_ecid_wtls10'' (Some ''wap-wsg-idm-ecid-wtls10'') None (Some 743) [Ref ''wap_wsg_idm_ecid'', Arc 10],
     Entry ''wap_wsg_idm_ecid_wtls11'' (Some ''wap-wsg-idm-ecid-wtls11'') None (Some 744) [Ref ''wap_wsg_idm_ecid'', Arc 11],
     Entry ''wap_wsg_idm_ecid_wtls12'' (Some ''wap-wsg-idm-ecid-wtls12'') None (Some 745) [Ref ''wap_wsg_idm_ecid'', Arc 12]]"

definition objects_04 :: "registry_entry list" where
  "objects_04 = [
     Entry ''cast5_cbc'' (Some ''CAST5-CBC'') (Some ''cast5-cbc'') (Some 108) [Ref ''ISO_US'', Arc 113533, Arc 7, Arc 66, Arc 10],
     Entry ''cast5_ecb'' (Some ''CAST5-ECB'') (Some ''cast5-ecb'') (Some 109) [],
     Entry ''cast5_cfb64'' (Some ''CAST5-CFB'') (Some ''cast5-cfb'') (Some 110) [],
     Entry ''cast5_ofb64'' (Some ''CAST5-OFB'') (Some ''cast5-ofb'') (Some 111) [],
     Entry ''pbeWithMD5AndCast5_CBC'' None (Some ''pbeWithMD5AndCast5CBC'') (Some 112) [Ref ''ISO_US'', Arc 113533, Arc 7, Arc 66, Arc 12],
     Entry ''id_PasswordBasedMAC'' (Some ''id-PasswordBasedMAC'') (Some ''password based MAC'') (Some 782) [Ref ''ISO_US'', Arc 113533, Arc 7, Arc 66, Arc 13],
     Entry ''id_DHBasedMac'' (Some ''id-DHBasedMac'') (Some ''Diffie-Hellman based MAC'') (Some 783) [Ref ''ISO_US'', Arc 113533, Arc 7, Arc 66, Arc 30],
     Entry ''rsadsi'' (Some ''rsadsi'') (Some ''RSA Data Security, Inc.'') (Some 1) [Ref ''ISO_US'', Arc 113549],
     Entry ''pkcs'' (Some ''pkcs'') (Some ''RSA Data Security, Inc. PKCS'') (Some 2) [Ref ''rsadsi'', Arc 1],
     Entry ''pkcs1'' (Some ''pkcs1'') None (Some 186) [Ref ''pkcs'', Arc 1],
     Entry ''rsaEncryption'' None (Some ''rsaEncryption'') (Some 6) [Ref ''pkcs1'', Arc 1],
     Entry ''md2WithRSAEncryption'' (Some ''RSA-MD2'') (Some ''md2WithRSAEncryption'') (Some 7) [Ref ''pkcs1'', Arc 2],
     Entry ''md4WithRSAEncryption'' (Some ''RSA-MD4'') (Some ''md4WithRSAEncryption'') (Some 396) [Ref ''pkcs1'', Arc 3],
     Entry ''md5WithRSAEncryption'' (Some ''RSA-MD5'') (Some ''md5WithRSAEncryption'') (Some 8) [Ref ''pkcs1'', Arc 4],
     Entry ''sha1WithRSAEncryption'' (Some ''RSA-SHA1'') (Some ''sha1WithRSAEncryption'') (Some 65) [Ref ''pkcs1'', Arc 5],
     Entry ''rsaesOaep'' (Some ''RSAES-OAEP'') (Some ''rsaesOaep'') (Some 919) [Ref ''pkcs1'', Arc 7],
     Entry ''mgf1'' (Some ''MGF1'') (Some ''mgf1'') (Some 911) [Ref ''pkcs1'', Arc 8],
     Entry ''rsassaPss'' (Some ''RSASSA-PSS'') (Some ''rsassaPss'') (Some 912) [Ref ''pkcs1'', Arc 10],
     Entry ''sha256WithRSAEncryption'' (Some ''RSA-SHA256'') (Some ''sha256WithRSAEncryption'') (Some 668) [Ref ''pkcs1'', Arc 11],
     Entry ''sha384WithRSAEncryption'' (Some ''RSA-SHA384'') (Some ''sha384WithRSAEncryption'') (Some 669) [Ref ''pkcs1'', Arc 12],
     Entry ''sha512WithRSAEncryption'' (Some ''RSA-SHA512'') (Some ''sha512WithRSAEncryption'') (Some 670) [Ref ''pkcs1'', Arc 13],
     Entry ''sha224WithRSAEncryption'' (Some ''RSA-SHA224'') (Some ''sha224WithRSAEncryption'') (Some 671) [Ref ''pkcs1'', Arc 14],
     Entry ''pkcs3'' (Some ''pkcs3'') None (Some 27) [Ref ''pkcs'', Arc 3],
     Entry ''dhKeyAgreement'' None (Some ''dhKeyAgreement'') (Some 28) [Ref ''pkcs3'', Arc 1],
     Entry ''pkcs5'' (Some ''pkcs5'') None (Some 187) [Ref ''pkcs'', Arc 5],
     Entry ''pbeWithMD2AndDES_CBC'' (Some ''PBE-MD2-DES'') (Some ''pbeWithMD2AndDES-CBC'') (Some 9) [Ref ''pkcs5'', Arc 1],
     Entry ''pbeWithMD5AndDES_CBC'' (Some ''PBE-MD5-DES'') (Some ''pbeWithMD5AndDES-CBC'') (Some 10) [Ref ''pkcs5'', Arc 3],
     Entry ''pbeWithMD2AndRC2_CBC'' (Some ''PBE-MD2-RC2-64'') (Some ''pbeWithMD2AndRC2-CBC'') (Some 168) [Ref ''pkcs5'', Arc 4],
     Entry ''pbeWithMD5AndRC2_CBC'' (Some ''PBE-MD5-RC2-64'') (Some ''pbeWithMD5AndRC2-CBC'') (Some 169) [Ref ''pkcs5'', Arc 6],
     Entry ''pbeWithSHA1AndDES_CBC'' (Some ''PBE-SHA1-DES'') (Some ''pbeWithSHA1AndDES-CBC'') (Some 170) [Ref ''pkcs5'', Arc 10],
     Entry ''pbeWithSHA1AndRC2_CBC'' (Some ''PBE-SHA1-RC2-64'') (Some ''pbeWithSHA1AndRC2-CBC'') (Some 68) [Ref ''pkcs5'', Arc 11],
     Entry ''id_pbkdf2'' None (Some ''PBKDF2'') (Some 69) [Ref ''pkcs5'', Arc 12]]"

definition objects_05 :: "registry_entry list" where
  "objects_05 = [
     Entry ''pbes2'' None (Some ''PBES2'') (Some 161) [Ref ''pkcs5'', Arc 13],
     Entry ''pbmac1'' None (Some ''PBMAC1'') (Some 162) [Ref ''pkcs5'', Arc 14],
     Entry ''pkcs7'' (Some ''pkcs7'') None (Some 20) [Ref ''pkcs'', Arc 7],
     Entry ''pkcs7_data'' None (Some ''pkcs7-data'') (Some 21) [Ref ''pkcs7'', Arc 1],
     Entry ''pkcs7_signed'' None (Some ''pkcs7-signedData'') (Some 22) [Ref ''pkcs7'', Arc 2],
     Entry ''pkcs7_enveloped'' None (Some ''pkcs7-envelopedData'') (Some 23) [Ref ''pkcs7'', Arc 3],
     Entry ''pkcs7_signedAndEnveloped'' None (Some ''pkcs7-signedAndEnvelopedData'') (Some 24) [Ref ''pkcs7'', Arc 4],
     Entry ''pkcs7_digest'' None (Some ''pkcs7-digestData'') (Some 25) [Ref ''pkcs7'', Arc 5],
     Entry ''pkcs7_encrypted'' None (Some ''pkcs7-encryptedData'') (Some 26) [Ref ''pkcs7'', Arc 6],
     Entry ''pkcs9'' (Some ''pkcs9'') None (Some 47) [Ref ''pkcs'', Arc 9],
     Entry ''pkcs9_emailAddress'' None (Some ''emailAddress'') (Some 48) [Ref ''pkcs9'', Arc 1],
     Entry ''pkcs9_unstructuredName'' None (Some ''unstructuredName'') (Some 49) [Ref ''pkcs9'', Arc 2],
     Entry ''pkcs9_contentType'' None (Some ''contentType'') (Some 50) [Ref ''pkcs9'', Arc 3],
     Entry ''pkcs9_messageDigest'' None (Some ''messageDigest'') (Some 51) [Ref ''pkcs9'', Arc 4],
     Entry ''pkcs9_signingTime'' None (Some ''signingTime'') (Some 52) [Ref ''pkcs9'', Arc 5],
     Entry ''pkcs9_countersignature'' None (Some ''countersignature'') (Some 53) [Ref ''pkcs9'', Arc 6],
     Entry ''pkcs9_challengePassword'' None (Some ''challengePassword'') (Some 54) [Ref ''pkcs9'', Arc 7],
     Entry ''pkcs9_unstructuredAddress'' None (Some ''unstructuredAddress'') (Some 55) [Ref ''pkcs9'', Arc 8],
     Entry ''pkcs9_extCertAttributes'' None (Some ''extendedCertificateAttributes'') (Some 56) [Ref ''pkcs9'', Arc 9],
     Entry ''ext_req'' (Some ''extReq'') (Some ''Extension Request'') (Some 172) [Ref ''pkcs9'', Arc 14],
     Entry ''SMIMECapabilities'' (Some ''SMIME-CAPS'') (Some ''S/MIME Capabilities'') (Some 167) [Ref ''pkcs9'', Arc 15],
     Entry ''SMIME'' (Some ''SMIME'') (Some ''S/MIME'') (Some 188) [Ref ''pkcs9'', Arc 16],
     Entry ''id_smime_mod'' (Some ''id-smime-mod'') None (Some 189) [Ref ''SMIME'', Arc 0],
     Entry ''id_smime_ct'' (Some ''id-smime-ct'') None (Some 190) [Ref ''SMIME'', Arc 1],
     Entry ''id_smime_aa'' (Some ''id-smime-aa'') None (Some 191) [Ref ''SMIME'', Arc 2],
     Entry ''id_smime_alg'' (Some ''id-smime-alg'') None (Some 192) [Ref ''SMIME'', Arc 3],
     Entry ''id_smime_cd'' (Some ''id-smime-cd'') None (Some 193) [Ref ''SMIME'', Arc 4],
     Entry ''id_smime_spq'' (Some ''id-smime-spq'') None (Some 194) [Ref ''SMIME'', Arc 5],
     Entry ''id_smime_cti'' (Some ''id-smime-cti'') None (Some 195) [Ref ''SMIME'', Arc 6],
     Entry ''id_smime_mod_cms'' (Some ''id-smime-mod-cms'') None (Some 196) [Ref ''id_smime_mod'', Arc 1],
     Entry ''id_smime_mod_ess'' (Some ''id-smime-mod-ess'') None (Some 197) [Ref ''id_smime_mod'', Arc 2],
     Entry ''id_smime_mod_oid'' (Some ''id-smime-mod-oid'') None (Some 198) [Ref ''id_smime_mod'', Arc 3],
     Entry ''id_smime_mod_msg_v3'' (Some ''id-smime-mod-msg-v3'') None (Some 199) [Ref ''id_smime_mod'', Arc 4],
     Entry ''id_smime_mod_ets_eSignature_88'' (Some ''id-smime-mod-ets-eSignature-88'') None (Some 200) [Ref ''id_smime_mod'', Arc 5],
     Entry ''id_smime_mod_ets_eSignature_97'' (Some ''id-smime-mod-ets-eSignature-97'') None (Some 201) [Ref ''id_smime_mod'', Arc 6],
     Entry ''id_smime_mod_ets_eSigPolicy_88'' (Some ''id-smime-mod-ets-eSigPolicy-88'') None (Some 202) [Ref ''id_smime_mod'', Arc 7],
     Entry ''id_smime_mod_ets_eSigPolicy_97'' (Some ''id-smime-mod-ets-eSigPolicy-97'') None (Some 203) [Ref ''id_smime_mod'', Arc 8]]"

definition objects_06 :: "registry_entry list" where
  "objects_06 = [
     Entry ''id_smime_ct_receipt'' (Some ''id-smime-ct-receipt'') None (Some 204) [Ref ''id_smime_ct'', Arc 1],
     Entry ''id_smime_ct_authData'' (Some ''id-smime-ct-authData'') None (Some 205) [Ref ''id_smime_ct'', Arc 2],
     Entry ''id_smime_ct_publishCert'' (Some ''id-smime-ct-publishCert'') None (Some 206) [Ref ''id_smime_ct'', Arc 3],
     Entry ''id_smime_ct_TSTInfo'' (Some ''id-smime-ct-TSTInfo'') None (Some 207) [Ref ''id_smime_ct'', Arc 4],
     Entry ''id_smime_ct_TDTInfo'' (Some ''id-smime-ct-TDTInfo'') None (Some 208) [Ref ''id_smime_ct'', Arc 5],
     Entry ''id_smime_ct_contentInfo'' (Some ''id-smime-ct-contentInfo'') None (Some 209) [Ref ''id_smime_ct'', Arc 6],
     Entry ''id_smime_ct_DVCSRequestData'' (Some ''id-smime-ct-DVCSRequestData'') None (Some 210) [Ref ''id_smime_ct'', Arc 7],
     Entry ''id_smime_ct_DVCSResponseData'' (Some ''id-smime-ct-DVCSResponseData'') None (Some 211) [Ref ''id_smime_ct'', Arc 8],
     Entry ''id_smime_ct_compressedData'' (Some ''id-smime-ct-compressedData'') None (Some 786) [Ref ''id_smime_ct'', Arc 9],
     Entry ''id_ct_asciiTextWithCRLF'' (Some ''id-ct-asciiTextWithCRLF'') None (Some 787) [Ref ''id_smime_ct'', Arc 27],
     Entry ''id_smime_aa_receiptRequest'' (Some ''id-smime-aa-receiptRequest'') None (Some 212) [Ref ''id_smime_aa'', Arc 1],
     Entry ''id_smime_aa_securityLabel'' (Some ''id-smime-aa-securityLabel'') None (Some 213) [Ref ''id_smime_aa'', Arc 2],
     Entry ''id_smime_aa_mlExpandHistory'' (Some ''id-smime-aa-mlExpandHistory'') None (Some 214) [Ref ''id_smime_aa'', Arc 3],
     Entry ''id_smime_aa_contentHint'' (Some ''id-smime-aa-contentHint'') None (Some 215) [Ref ''id_smime_aa'', Arc 4],
     Entry ''id_smime_aa_msgSigDigest'' (Some ''id-smime-aa-msgSigDigest'') None (Some 216) [Ref ''id_smime_aa'', Arc 5],
     Entry ''id_smime_aa_encapContentType'' (Some ''id-smime-aa-encapContentType'') None (Some 217) [Ref ''id_smime_aa'', Arc 6],
     Entry ''id_smime_aa_contentIdentifier'' (Some ''id-smime-aa-contentIdentifier'') None (Some 218) [Ref ''id_smime_aa'', Arc 7],
     Entry ''id_smime_aa_macValue'' (Some ''id-smime-aa-macValue'') None (Some 219) [Ref ''id_smime_aa'', Arc 8],
     Entry ''id_smime_aa_equivalentLabels'' (Some ''id-smime-aa-equivalentLabels'') None (Some 220) [Ref ''id_smime_aa'', Arc 9],
     Entry ''id_smime_aa_contentReference'' (Some ''id-smime-aa-contentReference'') None (Some 221) [Ref ''id_smime_aa'', Arc 10],
     Entry ''id_smime_aa_encrypKeyPref'' (Some ''id-smime-aa-encrypKeyPref'') None (Some 222) [Ref ''id_smime_aa'', Arc 11],
     Entry ''id_smime_aa_signingCertificate'' (Some ''id-smime-aa-signingCertificate'') None (Some 223) [Ref ''id_smime_aa'', Arc 12],
     Entry ''id_smime_aa_smimeEncryptCerts'' (Some ''id-smime-aa-smimeEncryptCerts'') None (Some 224) [Ref ''id_smime_aa'', Arc 13],
     Entry ''id_smime_aa_timeStampToken'' (Some ''id-smime-aa-timeStampToken'') None (Some 225) [Ref ''id_smime_aa'', Arc 14],
     Entry ''id_smime_aa_ets_sigPolicyId'' (Some ''id-smime-aa-ets-sigPolicyId'') None (Some 226) [Ref ''id_smime_aa'', Arc 15],
     Entry ''id_smime_aa_ets_commitmentType'' (Some ''id-smime-aa-ets-commitmentType'') None (Some 227) [Ref ''id_smime_aa'', Arc 16],
     Entry ''id_smime_aa_ets_signerLocation'' (Some ''id-smime-aa-ets-signerLocation'') None (Some 228) [Ref ''id_smime_aa'', Arc 17],
     Entry ''id_smime_aa_ets_signerAttr'' (Some ''id-smime-aa-ets-signerAttr'') None (Some 229) [Ref ''id_smime_aa'', Arc 18],
     Entry ''id_smime_aa_ets_otherSigCert'' (Some ''id-smime-aa-ets-otherSigCert'') None (Some 230) [Ref ''id_smime_aa'', Arc 19],
     Entry ''id_smime_aa_ets_contentTimestamp'' (Some ''id-smime-aa-ets-contentTimestamp'') None (Some 231) [Ref ''id_smime_aa'', Arc 20],
     Entry ''id_smime_aa_ets_CertificateRefs'' (Some ''id-smime-aa-ets-CertificateRefs'') None (Some 232) [Ref ''id_smime_aa'', Arc 21],
     Entry ''id_smime_aa_ets_RevocationRefs'' (Some ''id-smime-aa-ets-RevocationRefs'') None (Some 233) [Ref ''id_smime_aa'', Arc 22],
     Entry ''id_smime_aa_ets_certValues'' (Some ''id-smime-aa-ets-certValues'') None (Some 234) [Ref ''id_smime_aa'', Arc 23],
     Entry ''id_smime_aa_ets_revocationValues'' (Some ''id-smime-aa-ets-revocationValues'') None (Some 235) [Ref ''id_smime_aa'', Arc 24],
     Entry ''id_smime_aa_ets_escTimeStamp'' (Some ''id-smime-aa-ets-escTimeStamp'') None (Some 236) [Ref ''id_smime_aa'', Arc 25],
     Entry ''id_smime_aa_ets_certCRLTimestamp'' (Some ''id-smime-aa-ets-certCRLTimestamp'') None (Some 237) [Ref ''id_smime_aa'', Arc 26],
     Entry ''id_smime_aa_ets_archiveTimeStamp'' (Some ''id-smime-aa-ets-archiveTimeStamp'') None (Some 238) [Ref ''id_smime_aa'', Arc 27]]"

definition objects_07 :: "registry_entry list" where
  "objects_07 = [
     Entry ''id_smime_aa_signatureType'' (Some ''id-smime-aa-signatureType'') None (Some 239) [Ref ''id_smime_aa'', Arc 28],
     Entry ''id_smime_aa_dvcs_dvc'' (Some ''id-smime-aa-dvcs-dvc'') None (Some 240) [Ref ''id_smime_aa'', Arc 29],
     Entry ''id_smime_alg_ESDHwith3DES'' (Some ''id-smime-alg-ESDHwith3DES'') None (Some 241) [Ref ''id_smime_alg'', Arc 1],
     Entry ''id_smime_alg_ESDHwithRC2'' (Some ''id-smime-alg-ESDHwithRC2'') None (Some 242) [Ref ''id_smime_alg'', Arc 2],
     Entry ''id_smime_alg_3DESwrap'' (Some ''id-smime-alg-3DESwrap'') None (Some 243) [Ref ''id_smime_alg'', Arc 3],
     Entry ''id_smime_alg_RC2wrap'' (Some ''id-smime-alg-RC2wrap'') None (Some 244) [Ref ''id_smime_alg'', Arc 4],
     Entry ''id_smime_alg_ESDH'' (Some ''id-smime-alg-ESDH'') None (Some 245) [Ref ''id_smime_alg'', Arc 5],
     Entry ''id_smime_alg_CMS3DESwrap'' (Some ''id-smime-alg-CMS3DESwrap'') None (Some 246) [Ref ''id_smime_alg'', Arc 6],
     Entry ''id_smime_alg_CMSRC2wrap'' (Some ''id-smime-alg-CMSRC2wrap'') None (Some 247) [Ref ''id_smime_alg'', Arc 7],
     Entry ''id_alg_PWRI_KEK'' (Some ''id-alg-PWRI-KEK'') None (Some 893) [Ref ''id_smime_alg'', Arc 9],
     Entry ''id_smime_cd_ldap'' (Some ''id-smime-cd-ldap'') None (Some 248) [Ref ''id_smime_cd'', Arc 1],
     Entry ''id_smime_spq_ets_sqt_uri'' (Some ''id-smime-spq-ets-sqt-uri'') None (Some 249) [Ref ''id_smime_spq'', Arc 1],
     Entry ''id_smime_spq_ets_sqt_unotice'' (Some ''id-smime-spq-ets-sqt-unotice'') None (Some 250) [Ref ''id_smime_spq'', Arc 2],
     Entry ''id_smime_cti_ets_proofOfOrigin'' (Some ''id-smime-cti-ets-proofOfOrigin'') None (Some 251) [Ref ''id_smime_cti'', Arc 1],
     Entry ''id_smime_cti_ets_proofOfReceipt'' (Some ''id-smime-cti-ets-proofOfReceipt'') None (Some 252) [Ref ''id_smime_cti'', Arc 2],
     Entry ''id_smime_cti_ets_proofOfDelivery'' (Some ''id-smime-cti-ets-proofOfDelivery'') None (Some 253) [Ref ''id_smime_cti'', Arc 3],
     Entry ''id_smime_cti_ets_proofOfSender'' (Some ''id-smime-cti-ets-proofOfSender'') None (Some 254) [Ref ''id_smime_cti'', Arc 4],
     Entry ''id_smime_cti_ets_proofOfApproval'' (Some ''id-smime-cti-ets-proofOfApproval'') None (Some 255) [Ref ''id_smime_cti'', Arc 5],
     Entry ''id_smime_cti_ets_proofOfCreation'' (Some ''id-smime-cti-ets-proofOfCreation'') None (Some 256) [Ref ''id_smime_cti'', Arc 6],
     Entry ''friendlyName'' None (Some ''friendlyName'') (Some 156) [Ref ''pkcs9'', Arc 20],
     Entry ''localKeyID'' None (Some ''localKeyID'') (Some 157) [Ref ''pkcs9'', Arc 21],
     Entry ''ms_csp_name'' (Some ''CSPName'') (Some ''Microsoft CSP Name'') (Some 417) [Arc 1, Arc 3, Arc 6, Arc 1, Arc 4, Arc 1, Arc 311, Arc 17, Arc 1],
     Entry ''LocalKeySet'' (Some ''LocalKeySet'') (Some ''Microsoft Local Key set'') (Some 856) [Arc 1, Arc 3, Arc 6, Arc 1, Arc 4, Arc 1, Arc 311, Arc 17, Arc 2],
     Entry ''certTypes'' None None None [Ref ''pkcs9'', Arc 22],
     Entry ''x509Certificate'' None (Some ''x509Certificate'') (Some 158) [Ref ''certTypes'', Arc 1],
     Entry ''sdsiCertificate'' None (Some ''sdsiCertificate'') (Some 159) [Ref ''certTypes'', Arc 2],
     Entry ''crlTypes'' None None None [Ref ''pkcs9'', Arc 23],
     Entry ''x509Crl'' None (Some ''x509Crl'') (Some 160) [Ref ''crlTypes'', Arc 1],
     Entry ''pkcs12'' None None None [Ref ''pkcs'', Arc 12],
     Entry ''pkcs12_pbeids'' None None None [Ref ''pkcs12'', Arc 1],
     Entry ''pbe_WithSHA1And128BitRC4'' (Some ''PBE-SHA1-RC4-128'') (Some ''pbeWithSHA1And128BitRC4'') (Some 144) [Ref ''pkcs12_pbeids'', Arc 1],
     Entry ''pbe_WithSHA1And40BitRC4'' (Some ''PBE-SHA1-RC4-40'') (Some ''pbeWithSHA1And40BitRC4'') (Some 145) [Ref ''pkcs12_pbeids'', Arc 2],
     Entry ''pbe_WithSHA1And3_Key_TripleDES_CBC'' (Some ''PBE-SHA1-3DES'') (Some ''pbeWithSHA1And3-KeyTripleDES-CBC'') (Some 146) [Ref ''pkcs12_pbeids'', Arc 3],
     Entry ''pbe_WithSHA1And2_Key_TripleDES_CBC'' (Some ''PBE-SHA1-2DES'') (Some ''pbeWithSHA1And2-KeyTripleDES-CBC'') (Some 147) [Ref ''pkcs12_pbeids'', Arc 4],
     Entry ''pbe_WithSHA1And128BitRC2_CBC'' (Some ''PBE-SHA1-RC2-128'') (Some ''pbeWithSHA1And128BitRC2-CBC'') (Some 148) [Ref ''pkcs12_pbeids'', Arc 5],
     Entry ''pbe_WithSHA1And40BitRC2_CBC'' (Some ''PBE-SHA1-RC2-40'') (Some ''pbeWithSHA1And40BitRC2-CBC'') (Some 149) [Ref ''pkcs12_pbeids'', Arc 6],
     Entry ''pkcs12_Version1'' None None None [Ref ''pkcs12'', Arc 10],
     Entry ''pkcs12_BagIds'' None None None [Ref ''pkcs12_Version1'', Arc 1]]"

definition objects_08 :: "registry_entry list" where
  "objects_08 = [
     Entry ''keyBag'' None (Some ''keyBag'') (Some 150) [Ref ''pkcs12_BagIds'', Arc 1],
     Entry ''pkcs8ShroudedKeyBag'' None (Some ''pkcs8ShroudedKeyBag'') (Some 151) [Ref ''pkcs12_BagIds'', Arc 2],
     Entry ''certBag'' None (Some ''certBag'') (Some 152) [Ref ''pkcs12_BagIds'', Arc 3],
     Entry ''crlBag'' None (Some ''crlBag'') (Some 153) [Ref ''pkcs12_BagIds'', Arc 4],
     Entry ''secretBag'' None (Some ''secretBag'') (Some 154) [Ref ''pkcs12_BagIds'', Arc 5],
     Entry ''safeContentsBag'' None (Some ''safeContentsBag'') (Some 155) [Ref ''pkcs12_BagIds'', Arc 6],
     Entry ''md2'' (Some ''MD2'') (Some ''md2'') (Some 3) [Ref ''rsadsi'', Arc 2, Arc 2],
     Entry ''md4'' (Some ''MD4'') (Some ''md4'') (Some 257) [Ref ''rsadsi'', Arc 2, Arc 4],
     Entry ''md5'' (Some ''MD5'') (Some ''md5'') (Some 4) [Ref ''rsadsi'', Arc 2, Arc 5],
     Entry ''md5_sha1'' (Some ''MD5-SHA1'') (Some ''md5-sha1'') (Some 114) [],
     Entry ''hmacWithMD5'' None (Some ''hmacWithMD5'') (Some 797) [Ref ''rsadsi'', Arc 2, Arc 6],
     Entry ''hmacWithSHA1'' None (Some ''hmacWithSHA1'') (Some 163) [Ref ''rsadsi'', Arc 2, Arc 7],
     Entry ''hmacWithSHA224'' None (Some ''hmacWithSHA224'') (Some 798) [Ref ''rsadsi'', Arc 2, Arc 8],
     Entry ''hmacWithSHA256'' None (Some ''hmacWithSHA256'') (Some 799) [Ref ''rsadsi'', Arc 2, Arc 9],
     Entry ''hmacWithSHA384'' None (Some ''hmacWithSHA384'') (Some 800) [Ref ''rsadsi'', Arc 2, Arc 10],
     Entry ''hmacWithSHA512'' None (Some ''hmacWithSHA512'') (Some 801) [Ref ''rsadsi'', Arc 2, Arc 11],
     Entry ''rc2_cbc'' (Some ''RC2-CBC'') (Some ''rc2-cbc'') (Some 37) [Ref ''rsadsi'', Arc 3, Arc 2],
     Entry ''rc2_ecb'' (Some ''RC2-ECB'') (Some ''rc2-ecb'') (Some 38) [],
     Entry ''rc2_cfb64'' (Some ''RC2-CFB'') (Some ''rc2-cfb'') (Some 39) [],
     Entry ''rc2_ofb64'' (Some ''RC2-OFB'') (Some ''rc2-ofb'') (Some 40) [],
     Entry ''rc2_40_cbc'' (Some ''RC2-40-CBC'') (Some ''rc2-40-cbc'') (Some 98) [],
     Entry ''rc2_64_cbc'' (Some ''RC2-64-CBC'') (Some ''rc2-64-cbc'') (Some 166) [],
     Entry ''rc4'' (Some ''RC4'') (Some ''rc4'') (Some 5) [Ref ''rsadsi'', Arc 3, Arc 4],
     Entry ''rc4_40'' (Some ''RC4-40'') (Some ''rc4-40'') (Some 97) [],
     Entry ''des_ede3_cbc'' (Some ''DES-EDE3-CBC'') (Some ''des-ede3-cbc'') (Some 44) [Ref ''rsadsi'', Arc 3, Arc 7],
     Entry ''rc5_cbc'' (Some ''RC5-CBC'') (Some ''rc5-cbc'') (Some 120) [Ref ''rsadsi'', Arc 3, Arc 8],
     Entry ''rc5_ecb'' (Some ''RC5-ECB'') (Some ''rc5-ecb'') (Some 121) [],
     Entry ''rc5_cfb64'' (Some ''RC5-CFB'') (Some ''rc5-cfb'') (Some 122) [],
     Entry ''rc5_ofb64'' (Some ''RC5-OFB'') (Some ''rc5-ofb'') (Some 123) [],
     Entry ''ms_ext_req'' (Some ''msExtReq'') (Some ''Microsoft Extension Request'') (Some 171) [Arc 1, Arc 3, Arc 6, Arc 1, Arc 4, Arc 1, Arc 311, Arc 2, Arc 1, Arc 14],
     Entry ''ms_code_ind'' (Some ''msCodeInd'') (Some ''Microsoft Individual Code Signing'') (Some 134) [Arc 1, Arc 3, Arc 6, Arc 1, Arc 4, Arc 1, Arc 311, Arc 2, Arc 1, Arc 21],
     Entry ''ms_code_com'' (Some ''msCodeCom'') (Some ''Microsoft Commercial Code Signing'') (Some 135) [Arc 1, Arc 3, Arc 6, Arc 1, Arc 4, Arc 1, Arc 311, Arc 2, Arc 1, Arc 22],
     Entry ''ms_ctl_sign'' (Some ''msCTLSign'') (Some ''Microsoft Trust List Signing'') (Some 136) [Arc 1, Arc 3, Arc 6, Arc 1, Arc 4, Arc 1, Arc 311, Arc 10, Arc 3, Arc 1],
     Entry ''ms_sgc'' (Some ''msSGC'') (Some ''Microsoft Server Gated Crypto'') (Some 137) [Arc 1, Arc 3, Arc 6, Arc 1, Arc 4, Arc 1, Arc 311, Arc 10, Arc 3, Arc 3]]"

definition objects_09 :: "registry_entry list" where
  "objects_09 = [
     Entry ''ms_efs'' (Some ''msEFS'') (Some ''Microsoft Encrypted File System'') (Some 138) [Arc 1, Arc 3, Arc 6, Arc 1, Arc 4, Arc 1, Arc 311, Arc 10, Arc 3, Arc 4],
     Entry ''ms_smartcard_login'' (Some ''msSmartcardLogin'') (Some ''Microsoft Smartcardlogin'') (Some 648) [Arc 1, Arc 3, Arc 6, Arc 1, Arc 4, Arc 1, Arc 311, Arc 20, Arc 2, Arc 2],
     Entry ''ms_upn'' (Some ''msUPN'') (Some ''Microsoft Universal Principal Name'') (Some 649) [Arc 1, Arc 3, Arc 6, Arc 1, Arc 4, Arc 1, Arc 311, Arc 20, Arc 2, Arc 3],
     Entry ''idea_cbc'' (Some ''IDEA-CBC'') (Some ''idea-cbc'') (Some 34) [Arc 1, Arc 3, Arc 6, Arc 1, Arc 4, Arc 1, Arc 188, Arc 7, Arc 1, Arc 1, Arc 2],
     Entry ''idea_ecb'' (Some ''IDEA-ECB'') (Some ''idea-ecb'') (Some 36) [],
     Entry ''idea_cfb64'' (Some ''IDEA-CFB'') (Some ''idea-cfb'') (Some 35) [],
     Entry ''idea_ofb64'' (Some ''IDEA-OFB'') (Some ''idea-ofb'') (Some 46) [],
     Entry ''bf_cbc'' (Some ''BF-CBC'') (Some ''bf-cbc'') (Some 91) [Arc 1, Arc 3, Arc 6, Arc 1, Arc 4, Arc 1, Arc 3029, Arc 1, Arc 2],
     Entry ''bf_ecb'' (Some ''BF-ECB'') (Some ''bf-ecb'') (Some 92) [],
     Entry ''bf_cfb64'' (Some ''BF-CFB'') (Some ''bf-cfb'') (Some 93) [],
     Entry ''bf_ofb64'' (Some ''BF-OFB'') (Some ''bf-ofb'') (Some 94) [],
     Entry ''id_pkix'' (Some ''PKIX'') None (Some 127) [Arc 1, Arc 3, Arc 6, Arc 1, Arc 5, Arc 5, Arc 7],
     Entry ''id_pkix_mod'' (Some ''id-pkix-mod'') None (Some 258) [Ref ''id_pkix'', Arc 0],
     Entry ''id_pe'' (Some ''id-pe'') None (Some 175) [Ref ''id_pkix'', Arc 1],
     Entry ''id_qt'' (Some ''id-qt'') None (Some 259) [Ref ''id_pkix'', Arc 2],
     Entry ''id_kp'' (Some ''id-kp'') None (Some 128) [Ref ''id_pkix'', Arc 3],
     Entry ''id_it'' (Some ''id-it'') None (Some 260) [Ref ''id_pkix'', Arc 4],
     Entry ''id_pkip'' (Some ''id-pkip'') None (Some 261) [Ref ''id_pkix'', Arc 5],
     Entry ''id_alg'' (Some ''id-alg'') None (Some 262) [Ref ''id_pkix'', Arc 6],
     Entry ''id_cmc'' (Some ''id-cmc'') None (Some 263) [Ref ''id_pkix'', Arc 7],
     Entry ''id_on'' (Some ''id-on'') None (Some 264) [Ref ''id_pkix'', Arc 8],
     Entry ''id_pda'' (Some ''id-pda'') None (Some 265) [Ref ''id_pkix'', Arc 9],
     Entry ''id_aca'' (Some ''id-aca'') None (Some 266) [Ref ''id_pkix'', Arc 10],
     Entry ''id_qcs'' (Some ''id-qcs'') None (Some 267) [Ref ''id_pkix'', Arc 11],
     Entry ''id_cct'' (Some ''id-cct'') None (Some 268) [Ref ''id_pkix'', Arc 12],
     Entry ''id_ppl'' (Some ''id-ppl'') None (Some 662) [Ref ''id_pkix'', Arc 21],
     Entry ''id_ad'' (Some ''id-ad'') None (Some 176) [Ref ''id_pkix'', Arc 48],
     Entry ''id_pkix1_explicit_88'' (Some ''id-pkix1-explicit-88'') None (Some 269) [Ref ''id_pkix_mod'', Arc 1],
     Entry ''id_pkix1_implicit_88'' (Some ''id-pkix1-implicit-88'') None (Some 270) [Ref ''id_pkix_mod'', Arc 2],
     Entry ''id_pkix1_explicit_93'' (Some ''id-pkix1-explicit-93'') None (Some 271) [Ref ''id_pkix_mod'', Arc 3],
     Entry ''id_pkix1_implicit_93'' (Some ''id-pkix1-implicit-93'') None (Some 272) [Ref ''id_pkix_mod'', Arc 4],
     Entry ''id_mod_crmf'' (Some ''id-mod-crmf'') None (Some 273) [Ref ''id_pkix_mod'', Arc 5],
     Entry ''id_mod_cmc'' (Some ''id-mod-cmc'') None (Some 274) [Ref ''id_pkix_mod'', Arc 6],
     Entry ''id_mod_kea_profile_88'' (Some ''id-mod-kea-profile-88'') None (Some 275) [Ref ''id_pkix_mod'', Arc 7],
     Entry ''id_mod_kea_profile_93'' (Some ''id-mod-kea-profile-93'') None (Some 276) [Ref ''id_pkix_mod'', Arc 8],
     Entry ''id_mod_cmp'' (Some ''id-mod-cmp'') None (Some 277) [Ref ''id_pkix_mod'', Arc 9]]"

definition objects_10 :: "registry_entry list" where
  "objects_10 = [
     Entry ''id_mod_qualified_cert_88'' (Some ''id-mod-qualified-cert-88'') None (Some 278) [Ref ''id_pkix_mod'', Arc 10],
     Entry ''id_mod_qualified_cert_93'' (Some ''id-mod-qualified-cert-93'') None (Some 279) [Ref ''id_pkix_mod'', Arc 11],
     Entry ''id_mod_attribute_cert'' (Some ''id-mod-attribute-cert'') None (Some 280) [Ref ''id_pkix_mod'', Arc 12],
     Entry ''id_mod_timestamp_protocol'' (Some ''id-mod-timestamp-protocol'') None (Some 281) [Ref ''id_pkix_mod'', Arc 13],
     Entry ''id_mod_ocsp'' (Some ''id-mod-ocsp'') None (Some 282) [Ref ''id_pkix_mod'', Arc 14],
     Entry ''id_mod_dvcs'' (Some ''id-mod-dvcs'') None (Some 283) [Ref ''id_pkix_mod'', Arc 15],
     Entry ''id_mod_cmp2000'' (Some ''id-mod-cmp2000'') None (Some 284) [Ref ''id_pkix_mod'', Arc 16],
     Entry ''info_access'' (Some ''authorityInfoAccess'') (Some ''Authority Information Access'') (Some 177) [Ref ''id_pe'', Arc 1],
     Entry ''biometricInfo'' (Some ''biometricInfo'') (Some ''Biometric Info'') (Some 285) [Ref ''id_pe'', Arc 2],
     Entry ''qcStatements'' (Some ''qcStatements'') None (Some 286) [Ref ''id_pe'', Arc 3],
     Entry ''ac_auditEntity'' (Some ''ac-auditEntity'') None (Some 287) [Ref ''id_pe'', Arc 4],
     Entry ''ac_targeting'' (Some ''ac-targeting'') None (Some 288) [Ref ''id_pe'', Arc 5],
     Entry ''aaControls'' (Some ''aaControls'') None (Some 289) [Ref ''id_pe'', Arc 6],
     Entry ''sbgp_ipAddrBlock'' (Some ''sbgp-ipAddrBlock'') None (Some 290) [Ref ''id_pe'', Arc 7],
     Entry ''sbgp_autonomousSysNum'' (Some ''sbgp-autonomousSysNum'') None (Some 291) [Ref ''id_pe'', Arc 8],
     Entry ''sbgp_routerIdentifier'' (Some ''sbgp-routerIdentifier'') None (Some 292) [Ref ''id_pe'', Arc 9],
     Entry ''ac_proxying'' (Some ''ac-proxying'') None (Some 397) [Ref ''id_pe'', Arc 10],
     Entry ''sinfo_access'' (Some ''subjectInfoAccess'') (Some ''Subject Information Access'') (Some 398) [Ref ''id_pe'', Arc 11],
     Entry ''proxyCertInfo'' (Some ''proxyCertInfo'') (Some ''Proxy Certificate Information'') (Some 663) [Ref ''id_pe'', Arc 14],
     Entry ''id_qt_cps'' (Some ''id-qt-cps'') (Some ''Policy Qualifier CPS'') (Some 164) [Ref ''id_qt'', Arc 1],
     Entry ''id_qt_unotice'' (Some ''id-qt-unotice'') (Some ''Policy Qualifier User Notice'') (Some 165) [Ref ''id_qt'', Arc 2],
     Entry ''textNotice'' (Some ''textNotice'') None (Some 293) [Ref ''id_qt'', Arc 3],
     Entry ''server_auth'' (Some ''serverAuth'') (Some ''TLS Web Server Authentication'') (Some 129) [Ref ''id_kp'', Arc 1],
     Entry ''client_auth'' (Some ''clientAuth'') (Some ''TLS Web Client Authentication'') (Some 130) [Ref ''id_kp'', Arc 2],
     Entry ''code_sign'' (Some ''codeSigning'') (Some ''Code Signing'') (Some 131) [Ref ''id_kp'', Arc 3],
     Entry ''email_protect'' (Some ''emailProtection'') (Some ''E-mail Protection'') (Some 132) [Ref ''id_kp'', Arc 4],
     Entry ''ipsecEndSystem'' (Some ''ipsecEndSystem'') (Some ''IPSec End System'') (Some 294) [Ref ''id_kp'', Arc 5],
     Entry ''ipsecTunnel'' (Some ''ipsecTunnel'') (Some ''IPSec Tunnel'') (Some 295) [Ref ''id_kp'', Arc 6],
     Entry ''ipsecUser'' (Some ''ipsecUser'') (Some ''IPSec User'') (Some 296) [Ref ''id_kp'', Arc 7],
     Entry ''time_stamp'' (Some ''timeStamping'') (Some ''Time Stamping'') (Some 133) [Ref ''id_kp'', Arc 8],
     Entry ''OCSP_sign'' (Some ''OCSPSigning'') (Some ''OCSP Signing'') (Some 180) [Ref ''id_kp'', Arc 9],
     Entry ''dvcs'' (Some ''DVCS'') (Some ''dvcs'') (Some 297) [Ref ''id_kp'', Arc 10],
     Entry ''id_it_caProtEncCert'' (Some ''id-it-caProtEncCert'') None (Some 298) [Ref ''id_it'', Arc 1]]"

definition objects_11 :: "registry_entry list" where
  "objects_11 = [
     Entry ''id_it_signKeyPairTypes'' (Some ''id-it-signKeyPairTypes'') None (Some 299) [Ref ''id_it'', Arc 2],
     Entry ''id_it_encKeyPairTypes'' (Some ''id-it-encKeyPairTypes'') None (Some 300) [Ref ''id_it'', Arc 3],
     Entry ''id_it_preferredSymmAlg'' (Some ''id-it-preferredSymmAlg'') None (Some 301) [Ref ''id_it'', Arc 4],
     Entry ''id_it_caKeyUpdateInfo'' (Some ''id-it-caKeyUpdateInfo'') None (Some 302) [Ref ''id_it'', Arc 5],
     Entry ''id_it_currentCRL'' (Some ''id-it-currentCRL'') None (Some 303) [Ref ''id_it'', Arc 6],
     Entry ''id_it_unsupportedOIDs'' (Some ''id-it-unsupportedOIDs'') None (Some 304) [Ref ''id_it'', Arc 7],
     Entry ''id_it_subscriptionRequest'' (Some ''id-it-subscriptionRequest'') None (Some 305) [Ref ''id_it'', Arc 8],
     Entry ''id_it_subscriptionResponse'' (Some ''id-it-subscriptionResponse'') None (Some 306) [Ref ''id_it'', Arc 9],
     Entry ''id_it_keyPairParamReq'' (Some ''id-it-keyPairParamReq'') None (Some 307) [Ref ''id_it'', Arc 10],
     Entry ''id_it_keyPairParamRep'' (Some ''id-it-keyPairParamRep'') None (Some 308) [Ref ''id_it'', Arc 11],
     Entry ''id_it_revPassphrase'' (Some ''id-it-revPassphrase'') None (Some 309) [Ref ''id_it'', Arc 12],
     Entry ''id_it_implicitConfirm'' (Some ''id-it-implicitConfirm'') None (Some 310) [Ref ''id_it'', Arc 13],
     Entry ''id_it_confirmWaitTime'' (Some ''id-it-confirmWaitTime'') None (Some 311) [Ref ''id_it'', Arc 14],
     Entry ''id_it_origPKIMessage'' (Some ''id-it-origPKIMessage'') None (Some 312) [Ref ''id_it'', Arc 15],
     Entry ''id_it_suppLangTags'' (Some ''id-it-suppLangTags'') None (Some 784) [Ref ''id_it'', Arc 16],
     Entry ''id_regCtrl'' (Some ''id-regCtrl'') None (Some 313) [Ref ''id_pkip'', Arc 1],
     Entry ''id_regInfo'' (Some ''id-regInfo'') None (Some 314) [Ref ''id_pkip'', Arc 2],
     Entry ''id_regCtrl_regToken'' (Some ''id-regCtrl-regToken'') None (Some 315) [Ref ''id_regCtrl'', Arc 1],
     Entry ''id_regCtrl_authenticator'' (Some ''id-regCtrl-authenticator'') None (Some 316) [Ref ''id_regCtrl'', Arc 2],
     Entry ''id_regCtrl_pkiPublicationInfo'' (Some ''id-regCtrl-pkiPublicationInfo'') None (Some 317) [Ref ''id_regCtrl'', Arc 3],
     Entry ''id_regCtrl_pkiArchiveOptions'' (Some ''id-regCtrl-pkiArchiveOptions'') None (Some 318) [Ref ''id_regCtrl'', Arc 4],
     Entry ''id_regCtrl_oldCertID'' (Some ''id-regCtrl-oldCertID'') None (Some 319) [Ref ''id_regCtrl'', Arc 5],
     Entry ''id_regCtrl_protocolEncrKey'' (Some ''id-regCtrl-protocolEncrKey'') None (Some 320) [Ref ''id_regCtrl'', Arc 6],
     Entry ''id_regInfo_utf8Pairs'' (Some ''id-regInfo-utf8Pairs'') None (Some 321) [Ref ''id_regInfo'', Arc 1],
     Entry ''id_regInfo_certReq'' (Some ''id-regInfo-certReq'') None (Some 322) [Ref ''id_regInfo'', Arc 2],
     Entry ''id_alg_des40'' (Some ''id-alg-des40'') None (Some 323) [Ref ''id_alg'', Arc 1],
     Entry ''id_alg_noSignature'' (Some ''id-alg-noSignature'') None (Some 324) [Ref ''id_alg'', Arc 2],
     Entry ''id_alg_dh_sig_hmac_sha1'' (Some ''id-alg-dh-sig-hmac-sha1'') None (Some 325) [Ref ''id_alg'', Arc 3],
     Entry ''id_alg_dh_pop'' (Some ''id-alg-dh-pop'') None (Some 326) [Ref ''id_alg'', Arc 4],
     Entry ''id_cmc_statusInfo'' (Some ''id-cmc-statusInfo'') None (Some 327) [Ref ''id_cmc'', Arc 1],
     Entry ''id_cmc_identification'' (Some ''id-cmc-identification'') None (Some 328) [Ref ''id_cmc'', Arc 2],
     Entry ''id_cmc_identityProof'' (Some ''id-cmc-identityProof'') None (Some 329) [Ref ''id_cmc'', Arc 3],
     Entry ''id_cmc_dataReturn'' (Some ''id-cmc-dataReturn'') None (Some 330) [Ref ''id_cmc'', Arc 4],
     Entry ''id_cmc_transactionId'' (Some ''id-cmc-transactionId'') None (Some 331) [Ref ''id_cmc'', Arc 5],
     Entry ''id_cmc_senderNonce'' (Some ''id-cmc-senderNonce'') None (Some 332) [Ref ''id_cmc'', Arc 6],
     Entry ''id_cmc_recipientNonce'' (Some ''id-cmc-recipientNonce'') None (Some 333) [Ref ''id_cmc'', Arc 7],
     Entry ''id_cmc_addExtensions'' (Some ''id-cmc-addExtensions'') None (Some 334) [Ref ''id_cmc'', Arc 8]]"

definition objects_12 :: "registry_entry list" where
  "objects_12 = [
     Entry ''id_cmc_encryptedPOP'' (Some ''id-cmc-encryptedPOP'') None (Some 335) [Ref ''id_cmc'', Arc 9],
     Entry ''id_cmc_decryptedPOP'' (Some ''id-cmc-decryptedPOP'') None (Some 336) [Ref ''id_cmc'', Arc 10],
     Entry ''id_cmc_lraPOPWitness'' (Some ''id-cmc-lraPOPWitness'') None (Some 337) [Ref ''id_cmc'', Arc 11],
     Entry ''id_cmc_getCert'' (Some ''id-cmc-getCert'') None (Some 338) [Ref ''id_cmc'', Arc 15],
     Entry ''id_cmc_getCRL'' (Some ''id-cmc-getCRL'') None (Some 339) [Ref ''id_cmc'', Arc 16],
     Entry ''id_cmc_revokeRequest'' (Some ''id-cmc-revokeRequest'') None (Some 340) [Ref ''id_cmc'', Arc 17],
     Entry ''id_cmc_regInfo'' (Some ''id-cmc-regInfo'') None (Some 341) [Ref ''id_cmc'', Arc 18],
     Entry ''id_cmc_responseInfo'' (Some ''id-cmc-responseInfo'') None (Some 342) [Ref ''id_cmc'', Arc 19],
     Entry ''id_cmc_queryPending'' (Some ''id-cmc-queryPending'') None (Some 343) [Ref ''id_cmc'', Arc 21],
     Entry ''id_cmc_popLinkRandom'' (Some ''id-cmc-popLinkRandom'') None (Some 344) [Ref ''id_cmc'', Arc 22],
     Entry ''id_cmc_popLinkWitness'' (Some ''id-cmc-popLinkWitness'') None (Some 345) [Ref ''id_cmc'', Arc 23],
     Entry ''id_cmc_confirmCertAcceptance'' (Some ''id-cmc-confirmCertAcceptance'') None (Some 346) [Ref ''id_cmc'', Arc 24],
     Entry ''id_on_personalData'' (Some ''id-on-personalData'') None (Some 347) [Ref ''id_on'', Arc 1],
     Entry ''id_on_permanentIdentifier'' (Some ''id-on-permanentIdentifier'') (Some ''Permanent Identifier'') (Some 858) [Ref ''id_on'', Arc 3],
     Entry ''id_pda_dateOfBirth'' (Some ''id-pda-dateOfBirth'') None (Some 348) [Ref ''id_pda'', Arc 1],
     Entry ''id_pda_placeOfBirth'' (Some ''id-pda-placeOfBirth'') None (Some 349) [Ref ''id_pda'', Arc 2],
     Entry ''id_pda_gender'' (Some ''id-pda-gender'') None (Some 351) [Ref ''id_pda'', Arc 3],
     Entry ''id_pda_countryOfCitizenship'' (Some ''id-pda-countryOfCitizenship'') None (Some 352) [Ref ''id_pda'', Arc 4],
     Entry ''id_pda_countryOfResidence'' (Some ''id-pda-countryOfResidence'') None (Some 353) [Ref ''id_pda'', Arc 5],
     Entry ''id_aca_authenticationInfo'' (Some ''id-aca-authenticationInfo'') None (Some 354) [Ref ''id_aca'', Arc 1],
     Entry ''id_aca_accessIdentity'' (Some ''id-aca-accessIdentity'') None (Some 355) [Ref ''id_aca'', Arc 2],
     Entry ''id_aca_chargingIdentity'' (Some ''id-aca-chargingIdentity'') None (Some 356) [Ref ''id_aca'', Arc 3],
     Entry ''id_aca_group'' (Some ''id-aca-group'') None (Some 357) [Ref ''id_aca'', Arc 4],
     Entry ''id_aca_role'' (Some ''id-aca-role'') None (Some 358) [Ref ''id_aca'', Arc 5],
     Entry ''id_aca_encAttrs'' (Some ''id-aca-encAttrs'') None (Some 399) [Ref ''id_aca'', Arc 6],
     Entry ''id_qcs_pkixQCSyntax_v1'' (Some ''id-qcs-pkixQCSyntax-v1'') None (Some 359) [Ref ''id_qcs'', Arc 1],
     Entry ''id_cct_crs'' (Some ''id-cct-crs'') None (Some 360) [Ref ''id_cct'', Arc 1],
     Entry ''id_cct_PKIData'' (Some ''id-cct-PKIData'') None (Some 361) [Ref ''id_cct'', Arc 2],
     Entry ''id_cct_PKIResponse'' (Some ''id-cct-PKIResponse'') None (Some 362) [Ref ''id_cct'', Arc 3],
     Entry ''id_ppl_anyLanguage'' (Some ''id-ppl-anyLanguage'') (Some ''Any language'') (Some 664) [Ref ''id_ppl'', Arc 0],
     Entry ''id_ppl_inheritAll'' (Some ''id-ppl-inheritAll'') (Some ''Inherit all'') (Some 665) [Ref ''id_ppl'', Arc 1],
     Entry ''Independent'' (Some ''id-ppl-independent'') (Some ''Independent'') (Some 667) [Ref ''id_ppl'', Arc 2],
     Entry ''ad_OCSP'' (Some ''OCSP'') (Some ''OCSP'') (Some 178) [Ref ''id_ad'', Arc 1],
     Entry ''ad_ca_issuers'' (Some ''caIssuers'') (Some ''CA Issuers'') (Some 179) [Ref ''id_ad'', Arc 2],
     Entry ''ad_timeStamping'' (Some ''ad_timestamping'') (Some ''AD Time Stamping'') (Some 363) [Ref ''id_ad'', Arc 3]]"

definition objects_13 :: "registry_entry list" where
  "objects_13 = [
     Entry ''ad_dvcs'' (Some ''AD_DVCS'') (Some ''ad dvcs'') (Some 364) [Ref ''id_ad'', Arc 4],
     Entry ''caRepository'' (Some ''caRepository'') (Some ''CA Repository'') (Some 785) [Ref ''id_ad'', Arc 5],
     Entry ''id_pkix_OCSP'' None None None [Ref ''ad_OCSP''],
     Entry ''id_pkix_OCSP_basic'' (Some ''basicOCSPResponse'') (Some ''Basic OCSP Response'') (Some 365) [Ref ''id_pkix_OCSP'', Arc 1],
     Entry ''id_pkix_OCSP_Nonce'' (Some ''Nonce'') (Some ''OCSP Nonce'') (Some 366) [Ref ''id_pkix_OCSP'', Arc 2],
     Entry ''id_pkix_OCSP_CrlID'' (Some ''CrlID'') (Some ''OCSP CRL ID'') (Some 367) [Ref ''id_pkix_OCSP'', Arc 3],
     Entry ''id_pkix_OCSP_acceptableResponses'' (Some ''acceptableResponses'') (Some ''Acceptable OCSP Responses'') (Some 368) [Ref ''id_pkix_OCSP'', Arc 4],
     Entry ''id_pkix_OCSP_noCheck'' (Some ''noCheck'') (Some ''OCSP No Check'') (Some 369) [Ref ''id_pkix_OCSP'', Arc 5],
     Entry ''id_pkix_OCSP_archiveCutoff'' (Some ''archiveCutoff'') (Some ''OCSP Archive Cutoff'') (Some 370) [Ref ''id_pkix_OCSP'', Arc 6],
     Entry ''id_pkix_OCSP_serviceLocator'' (Some ''serviceLocator'') (Some ''OCSP Service Locator'') (Some 371) [Ref ''id_pkix_OCSP'', Arc 7],
     Entry ''id_pkix_OCSP_extendedStatus'' (Some ''extendedStatus'') (Some ''Extended OCSP Status'') (Some 372) [Ref ''id_pkix_OCSP'', Arc 8],
     Entry ''id_pkix_OCSP_valid'' (Some ''valid'') None (Some 373) [Ref ''id_pkix_OCSP'', Arc 9],
     Entry ''id_pkix_OCSP_path'' (Some ''path'') None (Some 374) [Ref ''id_pkix_OCSP'', Arc 10],
     Entry ''id_pkix_OCSP_trustRoot'' (Some ''trustRoot'') (Some ''Trust Root'') (Some 375) [Ref ''id_pkix_OCSP'', Arc 11],
     Entry ''algorithm'' (Some ''algorithm'') (Some ''algorithm'') (Some 376) [Arc 1, Arc 3, Arc 14, Arc 3, Arc 2],
     Entry ''md5WithRSA'' (Some ''RSA-NP-MD5'') (Some ''md5WithRSA'') (Some 104) [Ref ''algorithm'', Arc 3],
     Entry ''des_ecb'' (Some ''DES-ECB'') (Some ''des-ecb'') (Some 29) [Ref ''algorithm'', Arc 6],
     Entry ''des_cbc'' (Some ''DES-CBC'') (Some ''des-cbc'') (Some 31) [Ref ''algorithm'', Arc 7],
     Entry ''des_ofb64'' (Some ''DES-OFB'') (Some ''des-ofb'') (Some 45) [Ref ''algorithm'', Arc 8],
     Entry ''des_cfb64'' (Some ''DES-CFB'') (Some ''des-cfb'') (Some 30) [Ref ''algorithm'', Arc 9],
     Entry ''rsaSignature'' (Some ''rsaSignature'') None (Some 377) [Ref ''algorithm'', Arc 11],
     Entry ''dsa_2'' (Some ''DSA-old'') (Some ''dsaEncryption-old'') (Some 67) [Ref ''algorithm'', Arc 12],
     Entry ''dsaWithSHA'' (Some ''DSA-SHA'') (Some ''dsaWithSHA'') (Some 66) [Ref ''algorithm'', Arc 13],
     Entry ''shaWithRSAEncryption'' (Some ''RSA-SHA'') (Some ''shaWithRSAEncryption'') (Some 42) [Ref ''algorithm'', Arc 15],
     Entry ''des_ede_ecb'' (Some ''DES-EDE'') (Some ''des-ede'') (Some 32) [Ref ''algorithm'', Arc 17],
     Entry ''des_ede3_ecb'' (Some ''DES-EDE3'') (Some ''des-ede3'') (Some 33) [],
     Entry ''des_ede_cbc'' (Some ''DES-EDE-CBC'') (Some ''des-ede-cbc'') (Some 43) [],
     Entry ''des_ede_cfb64'' (Some ''DES-EDE-CFB'') (Some ''des-ede-cfb'') (Some 60) [],
     Entry ''des_ede3_cfb64'' (Some ''DES-EDE3-CFB'') (Some ''des-ede3-cfb'') (Some 61) [],
     Entry ''des_ede_ofb64'' (Some ''DES-EDE-OFB'') (Some ''des-ede-ofb'') (Some 62) [],
     Entry ''des_ede3_ofb64'' (Some ''DES-EDE3-OFB'') (Some ''des-ede3-ofb'') (Some 63) [],
     Entry ''desx_cbc'' (Some ''DESX-CBC'') (Some ''desx-cbc'') (Some 80) []]"

definition objects_14 :: "registry_entry list" where
  "objects_14 = [
     Entry ''sha'' (Some ''SHA'') (Some ''sha'') (Some 41) [Ref ''algorithm'', Arc 18],
     Entry ''sha1'' (Some ''SHA1'') (Some ''sha1'') (Some 64) [Ref ''algorithm'', Arc 26],
     Entry ''dsaWithSHA1_2'' (Some ''DSA-SHA1-old'') (Some ''dsaWithSHA1-old'') (Some 70) [Ref ''algorithm'', Arc 27],
     Entry ''sha1WithRSA'' (Some ''RSA-SHA1-2'') (Some ''sha1WithRSA'') (Some 115) [Ref ''algorithm'', Arc 29],
     Entry ''ripemd160'' (Some ''RIPEMD160'') (Some ''ripemd160'') (Some 117) [Arc 1, Arc 3, Arc 36, Arc 3, Arc 2, Arc 1],
     Entry ''ripemd160WithRSA'' (Some ''RSA-RIPEMD160'') (Some ''ripemd160WithRSA'') (Some 119) [Arc 1, Arc 3, Arc 36, Arc 3, Arc 3, Arc 1, Arc 2],
     Entry ''sxnet'' (Some ''SXNetID'') (Some ''Strong Extranet ID'') (Some 143) [Arc 1, Arc 3, Arc 101, Arc 1, Arc 4, Arc 1],
     Entry ''X500'' (Some ''X500'') (Some ''directory services (X.500)'') (Some 11) [Arc 2, Arc 5],
     Entry ''X509'' (Some ''X509'') None (Some 12) [Ref ''X500'', Arc 4],
     Entry ''commonName'' (Some ''CN'') (Some ''commonName'') (Some 13) [Ref ''X509'', Arc 3],
     Entry ''surname'' (Some ''SN'') (Some ''surname'') (Some 100) [Ref ''X509'', Arc 4],
     Entry ''serialNumber'' None (Some ''serialNumber'') (Some 105) [Ref ''X509'', Arc 5],
     Entry ''countryName'' (Some ''C'') (Some ''countryName'') (Some 14) [Ref ''X509'', Arc 6],
     Entry ''localityName'' (Some ''L'') (Some ''localityName'') (Some 15) [Ref ''X509'', Arc 7],
     Entry ''stateOrProvinceName'' (Some ''ST'') (Some ''stateOrProvinceName'') (Some 16) [Ref ''X509'', Arc 8],
     Entry ''streetAddress'' (Some ''street'') (Some ''streetAddress'') (Some 660) [Ref ''X509'', Arc 9],
     Entry ''organizationName'' (Some ''O'') (Some ''organizationName'') (Some 17) [Ref ''X509'', Arc 10],
     Entry ''organizationalUnitName'' (Some ''OU'') (Some ''organizationalUnitName'') (Some 18) [Ref ''X509'', Arc 11],
     Entry ''title'' (Some ''title'') (Some ''title'') (Some 106) [Ref ''X509'', Arc 12],
     Entry ''description'' None (Some ''description'') (Some 107) [Ref ''X509'', Arc 13],
     Entry ''searchGuide'' None (Some ''searchGuide'') (Some 859) [Ref ''X509'', Arc 14],
     Entry ''businessCategory'' None (Some ''businessCategory'') (Some 860) [Ref ''X509'', Arc 15],
     Entry ''postalAddress'' None (Some ''postalAddress'') (Some 861) [Ref ''X509'', Arc 16],
     Entry ''postalCode'' None (Some ''postalCode'') (Some 661) [Ref ''X509'', Arc 17],
     Entry ''postOfficeBox'' None (Some ''postOfficeBox'') (Some 862) [Ref ''X509'', Arc 18],
     Entry ''physicalDeliveryOfficeName'' None (Some ''physicalDeliveryOfficeName'') (Some 863) [Ref ''X509'', Arc 19],
     Entry ''telephoneNumber'' None (Some ''telephoneNumber'') (Some 864) [Ref ''X509'', Arc 20],
     Entry ''telexNumber'' None (Some ''telexNumber'') (Some 865) [Ref ''X509'', Arc 21],
     Entry ''teletexTerminalIdentifier'' None (Some ''teletexTerminalIdentifier'') (Some 866) [Ref ''X509'', Arc 22],
     Entry ''facsimileTelephoneNumber'' None (Some ''facsimileTelephoneNumber'') (Some 867) [Ref ''X509'', Arc 23],
     Entry ''x121Address'' None (Some ''x121Address'') (Some 868) [Ref ''X509'', Arc 24],
     Entry ''internationaliSDNNumber'' None (Some ''internationaliSDNNumber'') (Some 869) [Ref ''X509'', Arc 25],
     Entry ''registeredAddress'' None (Some ''registeredAddress'') (Some 870) [Ref ''X509'', Arc 26]]"

definition objects_15 :: "registry_entry list" where
  "objects_15 = [
     Entry ''destinationIndicator'' None (Some ''destinationIndicator'') (Some 871) [Ref ''X509'', Arc 27],
     Entry ''preferredDeliveryMethod'' None (Some ''preferredDeliveryMethod'') (Some 872) [Ref ''X509'', Arc 28],
     Entry ''presentationAddress'' None (Some ''presentationAddress'') (Some 873) [Ref ''X509'', Arc 29],
     Entry ''supportedApplicationContext'' None (Some ''supportedApplicationContext'') (Some 874) [Ref ''X509'', Arc 30],
     Entry ''member'' (Some ''member'') None (Some 875) [Ref ''X509'', Arc 31],
     Entry ''owner'' (Some ''owner'') None (Some 876) [Ref ''X509'', Arc 32],
     Entry ''roleOccupant'' None (Some ''roleOccupant'') (Some 877) [Ref ''X509'', Arc 33],
     Entry ''seeAlso'' (Some ''seeAlso'') None (Some 878) [Ref ''X509'', Arc 34],
     Entry ''userPassword'' None (Some ''userPassword'') (Some 879) [Ref ''X509'', Arc 35],
     Entry ''userCertificate'' None (Some ''userCertificate'') (Some 880) [Ref ''X509'', Arc 36],
     Entry ''cACertificate'' None (Some ''cACertificate'') (Some 881) [Ref ''X509'', Arc 37],
     Entry ''authorityRevocationList'' None (Some ''authorityRevocationList'') (Some 882) [Ref ''X509'', Arc 38],
     Entry ''certificateRevocationList'' None (Some ''certificateRevocationList'') (Some 883) [Ref ''X509'', Arc 39],
     Entry ''crossCertificatePair'' None (Some ''crossCertificatePair'') (Some 884) [Ref ''X509'', Arc 40],
     Entry ''name'' (Some ''name'') (Some ''name'') (Some 173) [Ref ''X509'', Arc 41],
     Entry ''givenName'' (Some ''GN'') (Some ''givenName'') (Some 99) [Ref ''X509'', Arc 42],
     Entry ''initials'' (Some ''initials'') (Some ''initials'') (Some 101) [Ref ''X509'', Arc 43],
     Entry ''generationQualifier'' None (Some ''generationQualifier'') (Some 509) [Ref ''X509'', Arc 44],
     Entry ''x500UniqueIdentifier'' None (Some ''x500UniqueIdentifier'') (Some 503) [Ref ''X509'', Arc 45],
     Entry ''dnQualifier'' (Some ''dnQualifier'') (Some ''dnQualifier'') (Some 174) [Ref ''X509'', Arc 46],
     Entry ''enhancedSearchGuide'' None (Some ''enhancedSearchGuide'') (Some 885) [Ref ''X509'', Arc 47],
     Entry ''protocolInformation'' None (Some ''protocolInformation'') (Some 886) [Ref ''X509'', Arc 48],
     Entry ''distinguishedName'' None (Some ''distinguishedName'') (Some 887) [Ref ''X509'', Arc 49],
     Entry ''uniqueMember'' None (Some ''uniqueMember'') (Some 888) [Ref ''X509'', Arc 50],
     Entry ''houseIdentifier'' None (Some ''houseIdentifier'') (Some 889) [Ref ''X509'', Arc 51],
     Entry ''supportedAlgorithms'' None (Some ''supportedAlgorithms'') (Some 890) [Ref ''X509'', Arc 52],
     Entry ''deltaRevocationList'' None (Some ''deltaRevocationList'') (Some 891) [Ref ''X509'', Arc 53],
     Entry ''dmdName'' (Some ''dmdName'') None (Some 892) [Ref ''X509'', Arc 54],
     Entry ''pseudonym'' None (Some ''pseudonym'') (Some 510) [Ref ''X509'', Arc 65],
     Entry ''role'' (Some ''role'') (Some ''role'') (Some 400) [Ref ''X509'', Arc 72],
     Entry ''X500algorithms'' (Some ''X500algorithms'') (Some ''directory services - algorithms'') (Some 378) [Ref ''X500'', Arc 8],
     Entry ''rsa'' (Some ''RSA'') (Some ''rsa'') (Some 19) [Ref ''X500algorithms'', Arc 1, Arc 1],
     Entry ''mdc2WithRSA'' (Some ''RSA-MDC2'') (Some ''mdc2WithRSA'') (Some 96) [Ref ''X500algorithms'', Arc 3, Arc 100],
     Entry ''mdc2'' (Some ''MDC2'') (Some ''mdc2'') (Some 95) [Ref ''X500algorithms'', Arc 3, Arc 101],
     Entry ''id_ce'' (Some ''id-ce'') None (Some 81) [Ref ''X500'', Arc 29]]"

definition objects_16 :: "registry_entry list" where
  "objects_16 = [
     Entry ''subject_directory_attributes'' (Some ''subjectDirectoryAttributes'') (Some ''X509v3 Subject Directory Attributes'') (Some 769) [Ref ''id_ce'', Arc 9],
     Entry ''subject_key_identifier'' (Some ''subjectKeyIdentifier'') (Some ''X509v3 Subject Key Identifier'') (Some 82) [Ref ''id_ce'', Arc 14],
     Entry ''key_usage'' (Some ''keyUsage'') (Some ''X509v3 Key Usage'') (Some 83) [Ref ''id_ce'', Arc 15],
     Entry ''private_key_usage_period'' (Some ''privateKeyUsagePeriod'') (Some ''X509v3 Private Key Usage Period'') (Some 84) [Ref ''id_ce'', Arc 16],
     Entry ''subject_alt_name'' (Some ''subjectAltName'') (Some ''X509v3 Subject Alternative Name'') (Some 85) [Ref ''id_ce'', Arc 17],
     Entry ''issuer_alt_name'' (Some ''issuerAltName'') (Some ''X509v3 Issuer Alternative Name'') (Some 86) [Ref ''id_ce'', Arc 18],
     Entry ''basic_constraints'' (Some ''basicConstraints'') (Some ''X509v3 Basic Constraints'') (Some 87) [Ref ''id_ce'', Arc 19],
     Entry ''crl_number'' (Some ''crlNumber'') (Some ''X509v3 CRL Number'') (Some 88) [Ref ''id_ce'', Arc 20],
     Entry ''crl_reason'' (Some ''CRLReason'') (Some ''X509v3 CRL Reason Code'') (Some 141) [Ref ''id_ce'', Arc 21],
     Entry ''invalidity_date'' (Some ''invalidityDate'') (Some ''Invalidity Date'') (Some 142) [Ref ''id_ce'', Arc 24],
     Entry ''delta_crl'' (Some ''deltaCRL'') (Some ''X509v3 Delta CRL Indicator'') (Some 140) [Ref ''id_ce'', Arc 27],
     Entry ''issuing_distribution_point'' (Some ''issuingDistributionPoint'') (Some ''X509v3 Issuing Distrubution Point'') (Some 770) [Ref ''id_ce'', Arc 28],
     Entry ''certificate_issuer'' (Some ''certificateIssuer'') (Some ''X509v3 Certificate Issuer'') (Some 771) [Ref ''id_ce'', Arc 29],
     Entry ''name_constraints'' (Some ''nameConstraints'') (Some ''X509v3 Name Constraints'') (Some 666) [Ref ''id_ce'', Arc 30],
     Entry ''crl_distribution_points'' (Some ''crlDistributionPoints'') (Some ''X509v3 CRL Distribution Points'') (Some 103) [Ref ''id_ce'', Arc 31],
     Entry ''certificate_policies'' (Some ''certificatePolicies'') (Some ''X509v3 Certificate Policies'') (Some 89) [Ref ''id_ce'', Arc 32],
     Entry ''any_policy'' (Some ''anyPolicy'') (Some ''X509v3 Any Policy'') (Some 746) [Ref ''certificate_policies'', Arc 0],
     Entry ''policy_mappings'' (Some ''policyMappings'') (Some ''X509v3 Policy Mappings'') (Some 747) [Ref ''id_ce'', Arc 33],
     Entry ''authority_key_identifier'' (Some ''authorityKeyIdentifier'') (Some ''X509v3 Authority Key Identifier'') (Some 90) [Ref ''id_ce'', Arc 35],
     Entry ''policy_constraints'' (Some ''policyConstraints'') (Some ''X509v3 Policy Constraints'') (Some 401) [Ref ''id_ce'', Arc 36],
     Entry ''ext_key_usage'' (Some ''extendedKeyUsage'') (Some ''X509v3 Extended Key Usage'') (Some 126) [Ref ''id_ce'', Arc 37],
     Entry ''freshest_crl'' (Some ''freshestCRL'') (Some ''X509v3 Freshest CRL'') (Some 857) [Ref ''id_ce'', Arc 46],
     Entry ''inhibit_any_policy'' (Some ''inhibitAnyPolicy'') (Some ''X509v3 Inhibit Any Policy'') (Some 748) [Ref ''id_ce'', Arc 54],
     Entry ''target_information'' (Some ''targetInformation'') (Some ''X509v3 AC Targeting'') (Some 402) [Ref ''id_ce'', Arc 55],
     Entry ''no_rev_avail'' (Some ''noRevAvail'') (Some ''X509v3 No Revocation Available'') (Some 403) [Ref ''id_ce'', Arc 56],
     Entry ''anyExtendedKeyUsage'' (Some ''anyExtendedKeyUsage'') (Some ''Any Extended Key Usage'') (Some 910) [Ref ''ext_key_usage'', Arc 0],
     Entry ''netscape'' (Some ''Netscape'') (Some ''Netscape Communications Corp.'') (Some 57) [Arc 2, Arc 16, Arc 840, Arc 1, Arc 113730],
     Entry ''netscape_cert_extension'' (Some ''nsCertExt'') (Some ''Netscape Certificate Extension'') (Some 58) [Ref ''netscape'', Arc 1],
     Entry ''netscape_data_type'' (Some ''nsDataType'') (Some ''Netscape Data Type'') (Some 59) [Ref ''netscape'', Arc 2],
     Entry ''netscape_cert_type'' (Some ''nsCertType'') (Some ''Netscape Cert Type'') (Some 71) [Ref ''netscape_cert_extension'', Arc 1]]"

definition objects_17 :: "registry_entry list" where
  "objects_17 = [
     Entry ''netscape_base_url'' (Some ''nsBaseUrl'') (Some ''Netscape Base Url'') (Some 72) [Ref ''netscape_cert_extension'', Arc 2],
     Entry ''netscape_revocation_url'' (Some ''nsRevocationUrl'') (Some ''Netscape Revocation Url'') (Some 73) [Ref ''netscape_cert_extension'', Arc 3],
     Entry ''netscape_ca_revocation_url'' (Some ''nsCaRevocationUrl'') (Some ''Netscape CA Revocation Url'') (Some 74) [Ref ''netscape_cert_extension'', Arc 4],
     Entry ''netscape_renewal_url'' (Some ''nsRenewalUrl'') (Some ''Netscape Renewal Url'') (Some 75) [Ref ''netscape_cert_extension'', Arc 7],
     Entry ''netscape_ca_policy_url'' (Some ''nsCaPolicyUrl'') (Some ''Netscape CA Policy Url'') (Some 76) [Ref ''netscape_cert_extension'', Arc 8],
     Entry ''netscape_ssl_server_name'' (Some ''nsSslServerName'') (Some ''Netscape SSL Server Name'') (Some 77) [Ref ''netscape_cert_extension'', Arc 12],
     Entry ''netscape_comment'' (Some ''nsComment'') (Some ''Netscape Comment'') (Some 78) [Ref ''netscape_cert_extension'', Arc 13],
     Entry ''netscape_cert_sequence'' (Some ''nsCertSequence'') (Some ''Netscape Certificate Sequence'') (Some 79) [Ref ''netscape_data_type'', Arc 5],
     Entry ''ns_sgc'' (Some ''nsSGC'') (Some ''Netscape Server Gated Crypto'') (Some 139) [Ref ''netscape'', Arc 4, Arc 1],
     Entry ''org'' (Some ''ORG'') (Some ''org'') (Some 379) [Ref ''iso'', Arc 3],
     Entry ''dod'' (Some ''DOD'') (Some ''dod'') (Some 380) [Ref ''org'', Arc 6],
     Entry ''iana'' (Some ''IANA'') (Some ''iana'') (Some 381) [Ref ''dod'', Arc 1],
     Entry ''internet'' None None None [Ref ''iana''],
     Entry ''Directory'' (Some ''directory'') (Some ''Directory'') (Some 382) [Ref ''internet'', Arc 1],
     Entry ''Management'' (Some ''mgmt'') (Some ''Management'') (Some 383) [Ref ''internet'', Arc 2],
     Entry ''Experimental'' (Some ''experimental'') (Some ''Experimental'') (Some 384) [Ref ''internet'', Arc 3],
     Entry ''Private'' (Some ''private'') (Some ''Private'') (Some 385) [Ref ''internet'', Arc 4],
     Entry ''Security'' (Some ''security'') (Some ''Security'') (Some 386) [Ref ''internet'', Arc 5],
     Entry ''SNMPv2'' (Some ''snmpv2'') (Some ''SNMPv2'') (Some 387) [Ref ''internet'', Arc 6],
     Entry ''Mail'' None (Some ''Mail'') (Some 388) [Ref ''internet'', Arc 7],
     Entry ''Enterprises'' (Some ''enterprises'') (Some ''Enterprises'') (Some 389) [Ref ''Private'', Arc 1],
     Entry ''dcObject'' (Some ''dcobject'') (Some ''dcObject'') (Some 390) [Ref ''Enterprises'', Arc 1466, Arc 344],
     Entry ''mime_mhs'' (Some ''mime-mhs'') (Some ''MIME MHS'') (Some 504) [Ref ''Mail'', Arc 1],
     Entry ''mime_mhs_headings'' (Some ''mime-mhs-headings'') (Some ''mime-mhs-headings'') (Some 505) [Ref ''mime_mhs'', Arc 1],
     Entry ''mime_mhs_bodies'' (Some ''mime-mhs-bodies'') (Some ''mime-mhs-bodies'') (Some 506) [Ref ''mime_mhs'', Arc 2],
     Entry ''id_hex_partial_message'' (Some ''id-hex-partial-message'') (Some ''id-hex-partial-message'') (Some 507) [Ref ''mime_mhs_headings'', Arc 1],
     Entry ''id_hex_multipart_message'' (Some ''id-hex-multipart-message'') (Some ''id-hex-multipart-message'') (Some 508) [Ref ''mime_mhs_headings'', Arc 2],
     Entry ''rle_compression'' (Some ''RLE'') (Some ''run length compression'') (Some 124) [Arc 1, Arc 1, Arc 1, Arc 1, Arc 666, Arc 1],
     Entry ''zlib_compression'' (Some ''ZLIB'') (Some ''zlib compression'') (Some 125) [Ref ''id_smime_alg'', Arc 8],
     Entry ''csor'' None None None [Arc 2, Arc 16, Arc 840, Arc 1, Arc 101, Arc 3],
     Entry ''nistAlgorithms'' None None None [Ref ''csor'', Arc 4],
     Entry ''aes'' None None None [Ref ''nistAlgorithms'', Arc 1]]"

definition objects_18 :: "registry_entry list" where
  "objects_18 = [
     Entry ''aes_128_ecb'' (Some ''AES-128-ECB'') (Some ''aes-128-ecb'') (Some 418) [Ref ''aes'', Arc 1],
     Entry ''aes_128_cbc'' (Some ''AES-128-CBC'') (Some ''aes-128-cbc'') (Some 419) [Ref ''aes'', Arc 2],
     Entry ''aes_128_ofb128'' (Some ''AES-128-OFB'') (Some ''aes-128-ofb'') (Some 420) [Ref ''aes'', Arc 3],
     Entry ''aes_128_cfb128'' (Some ''AES-128-CFB'') (Some ''aes-128-cfb'') (Some 421) [Ref ''aes'', Arc 4],
     Entry ''id_aes128_wrap'' (Some ''id-aes128-wrap'') None (Some 788) [Ref ''aes'', Arc 5],
     Entry ''aes_128_gcm'' (Some ''id-aes128-GCM'') (Some ''aes-128-gcm'') (Some 895) [Ref ''aes'', Arc 6],
     Entry ''aes_128_ccm'' (Some ''id-aes128-CCM'') (Some ''aes-128-ccm'') (Some 896) [Ref ''aes'', Arc 7],
     Entry ''id_aes128_wrap_pad'' (Some ''id-aes128-wrap-pad'') None (Some 897) [Ref ''aes'', Arc 8],
     Entry ''aes_192_ecb'' (Some ''AES-192-ECB'') (Some ''aes-192-ecb'') (Some 422) [Ref ''aes'', Arc 21],
     Entry ''aes_192_cbc'' (Some ''AES-192-CBC'') (Some ''aes-192-cbc'') (Some 423) [Ref ''aes'', Arc 22],
     Entry ''aes_192_ofb128'' (Some ''AES-192-OFB'') (Some ''aes-192-ofb'') (Some 424) [Ref ''aes'', Arc 23],
     Entry ''aes_192_cfb128'' (Some ''AES-192-CFB'') (Some ''aes-192-cfb'') (Some 425) [Ref ''aes'', Arc 24],
     Entry ''id_aes192_wrap'' (Some ''id-aes192-wrap'') None (Some 789) [Ref ''aes'', Arc 25],
     Entry ''aes_192_gcm'' (Some ''id-aes192-GCM'') (Some ''aes-192-gcm'') (Some 898) [Ref ''aes'', Arc 26],
     Entry ''aes_192_ccm'' (Some ''id-aes192-CCM'') (Some ''aes-192-ccm'') (Some 899) [Ref ''aes'', Arc 27],
     Entry ''id_aes192_wrap_pad'' (Some ''id-aes192-wrap-pad'') None (Some 900) [Ref ''aes'', Arc 28],
     Entry ''aes_256_ecb'' (Some ''AES-256-ECB'') (Some ''aes-256-ecb'') (Some 426) [Ref ''aes'', Arc 41],
     Entry ''aes_256_cbc'' (Some ''AES-256-CBC'') (Some ''aes-256-cbc'') (Some 427) [Ref ''aes'', Arc 42],
     Entry ''aes_256_ofb128'' (Some ''AES-256-OFB'') (Some ''aes-256-ofb'') (Some 428) [Ref ''aes'', Arc 43],
     Entry ''aes_256_cfb128'' (Some ''AES-256-CFB'') (Some ''aes-256-cfb'') (Some 429) [Ref ''aes'', Arc 44],
     Entry ''id_aes256_wrap'' (Some ''id-aes256-wrap'') None (Some 790) [Ref ''aes'', Arc 45],
     Entry ''aes_256_gcm'' (Some ''id-aes256-GCM'') (Some ''aes-256-gcm'') (Some 901) [Ref ''aes'', Arc 46],
     Entry ''aes_256_ccm'' (Some ''id-aes256-CCM'') (Some ''aes-256-ccm'') (Some 902) [Ref ''aes'', Arc 47],
     Entry ''id_aes256_wrap_pad'' (Some ''id-aes256-wrap-pad'') None (Some 903) [Ref ''aes'', Arc 48],
     Entry ''aes_128_cfb1'' (Some ''AES-128-CFB1'') (Some ''aes-128-cfb1'') (Some 650) [],
     Entry ''aes_192_cfb1'' (Some ''AES-192-CFB1'') (Some ''aes-192-cfb1'') (Some 651) [],
     Entry ''aes_256_cfb1'' (Some ''AES-256-CFB1'') (Some ''aes-256-cfb1'') (Some 652) [],
     Entry ''aes_128_cfb8'' (Some ''AES-128-CFB8'') (Some ''aes-128-cfb8'') (Some 653) [],
     Entry ''aes_192_cfb8'' (Some ''AES-192-CFB8'') (Some ''aes-192-cfb8'') (Some 654) [],
     Entry ''aes_256_cfb8'' (Some ''AES-256-CFB8'') (Some ''aes-256-cfb8'') (Some 655) [],
     Entry ''aes_128_ctr'' (Some ''AES-128-CTR'') (Some ''aes-128-ctr'') (Some 904) [],
     Entry ''aes_192_ctr'' (Some ''AES-192-CTR'') (Some ''aes-192-ctr'') (Some 905) [],
     Entry ''aes_256_ctr'' (Some ''AES-256-CTR'') (Some ''aes-256-ctr'') (Some 906) []]"

definition objects_19 :: "registry_entry list" where
  "objects_19 = [
     Entry ''aes_128_xts'' (Some ''AES-128-XTS'') (Some ''aes-128-xts'') (Some 913) [],
     Entry ''aes_256_xts'' (Some ''AES-256-XTS'') (Some ''aes-256-xts'') (Some 914) [],
     Entry ''des_cfb1'' (Some ''DES-CFB1'') (Some ''des-cfb1'') (Some 656) [],
     Entry ''des_cfb8'' (Some ''DES-CFB8'') (Some ''des-cfb8'') (Some 657) [],
     Entry ''des_ede3_cfb1'' (Some ''DES-EDE3-CFB1'') (Some ''des-ede3-cfb1'') (Some 658) [],
     Entry ''des_ede3_cfb8'' (Some ''DES-EDE3-CFB8'') (Some ''des-ede3-cfb8'') (Some 659) [],
     Entry ''nist_hashalgs'' None None None [Ref ''nistAlgorithms'', Arc 2],
     Entry ''sha256'' (Some ''SHA256'') (Some ''sha256'') (Some 672) [Ref ''nist_hashalgs'', Arc 1],
     Entry ''sha384'' (Some ''SHA384'') (Some ''sha384'') (Some 673) [Ref ''nist_hashalgs'', Arc 2],
     Entry ''sha512'' (Some ''SHA512'') (Some ''sha512'') (Some 674) [Ref ''nist_hashalgs'', Arc 3],
     Entry ''sha224'' (Some ''SHA224'') (Some ''sha224'') (Some 675) [Ref ''nist_hashalgs'', Arc 4],
     Entry ''dsa_with_sha2'' None None None [Ref ''nistAlgorithms'', Arc 3],
     Entry ''dsa_with_SHA224'' (Some ''dsa_with_SHA224'') None (Some 802) [Ref ''dsa_with_sha2'', Arc 1],
     Entry ''dsa_with_SHA256'' (Some ''dsa_with_SHA256'') None (Some 803) [Ref ''dsa_with_sha2'', Arc 2],
     Entry ''hold_instruction_code'' (Some ''holdInstructionCode'') (Some ''Hold Instruction Code'') (Some 430) [Ref ''id_ce'', Arc 23],
     Entry ''holdInstruction'' None None None [Ref ''X9_57'', Arc 2],
     Entry ''hold_instruction_none'' (Some ''holdInstructionNone'') (Some ''Hold Instruction None'') (Some 431) [Ref ''holdInstruction'', Arc 1],
     Entry ''hold_instruction_call_issuer'' (Some ''holdInstructionCallIssuer'') (Some ''Hold Instruction Call Issuer'') (Some 432) [Ref ''holdInstruction'', Arc 2],
     Entry ''hold_instruction_reject'' (Some ''holdInstructionReject'') (Some ''Hold Instruction Reject'') (Some 433) [Ref ''holdInstruction'', Arc 3],
     Entry ''data'' (Some ''data'') None (Some 434) [Ref ''itu_t'', Arc 9],
     Entry ''pss'' (Some ''pss'') None (Some 435) [Ref ''data'', Arc 2342],
     Entry ''ucl'' (Some ''ucl'') None (Some 436) [Ref ''pss'', Arc 19200300],
     Entry ''pilot'' (Some ''pilot'') None (Some 437) [Ref ''ucl'', Arc 100],
     Entry ''pilotAttributeType'' None (Some ''pilotAttributeType'') (Some 438) [Ref ''pilot'', Arc 1],
     Entry ''pilotAttributeSyntax'' None (Some ''pilotAttributeSyntax'') (Some 439) [Ref ''pilot'', Arc 3],
     Entry ''pilotObjectClass'' None (Some ''pilotObjectClass'') (Some 440) [Ref ''pilot'', Arc 4],
     Entry ''pilotGroups'' None (Some ''pilotGroups'') (Some 441) [Ref ''pilot'', Arc 10],
     Entry ''iA5StringSyntax'' None (Some ''iA5StringSyntax'') (Some 442) [Ref ''pilotAttributeSyntax'', Arc 4],
     Entry ''caseIgnoreIA5StringSyntax'' None (Some ''caseIgnoreIA5StringSyntax'') (Some 443) [Ref ''pilotAttributeSyntax'', Arc 5],
     Entry ''pilotObject'' None (Some ''pilotObject'') (Some 444) [Ref ''pilotObjectClass'', Arc 3],
     Entry ''pilotPerson'' None (Some ''pilotPerson'') (Some 445) [Ref ''pilotObjectClass'', Arc 4],
     Entry ''account'' (Some ''account'') None (Some 446) [Ref ''pilotObjectClass'', Arc 5],
     Entry ''document'' (Some ''document'') None (Some 447) [Ref ''pilotObjectClass'', Arc 6],
     Entry ''room'' (Some ''room'') None (Some 448) [Ref ''pilotObjectClass'', Arc 7],
     Entry ''documentSeries'' None (Some ''documentSeries'') (Some 449) [Ref ''pilotObjectClass'', Arc 9],
     Entry ''Domain'' (Some ''domain'') (Some ''Domain'') (Some 392) [Ref ''pilotObjectClass'', Arc 13],
     Entry ''rFC822localPart'' None (Some ''rFC822localPart'') (Some 450) [Ref ''pilotObjectClass'', Arc 14]]"

definition objects_20 :: "registry_entry list" where
  "objects_20 = [
     Entry ''dNSDomain'' None (Some ''dNSDomain'') (Some 451) [Ref ''pilotObjectClass'', Arc 15],
     Entry ''domainRelatedObject'' None (Some ''domainRelatedObject'') (Some 452) [Ref ''pilotObjectClass'', Arc 17],
     Entry ''friendlyCountry'' None (Some ''friendlyCountry'') (Some 453) [Ref ''pilotObjectClass'', Arc 18],
     Entry ''simpleSecurityObject'' None (Some ''simpleSecurityObject'') (Some 454) [Ref ''pilotObjectClass'', Arc 19],
     Entry ''pilotOrganization'' None (Some ''pilotOrganization'') (Some 455) [Ref ''pilotObjectClass'', Arc 20],
     Entry ''pilotDSA'' None (Some ''pilotDSA'') (Some 456) [Ref ''pilotObjectClass'', Arc 21],
     Entry ''qualityLabelledData'' None (Some ''qualityLabelledData'') (Some 457) [Ref ''pilotObjectClass'', Arc 22],
     Entry ''userId'' (Some ''UID'') (Some ''userId'') (Some 458) [Ref ''pilotAttributeType'', Arc 1],
     Entry ''textEncodedORAddress'' None (Some ''textEncodedORAddress'') (Some 459) [Ref ''pilotAttributeType'', Arc 2],
     Entry ''rfc822Mailbox'' (Some ''mail'') (Some ''rfc822Mailbox'') (Some 460) [Ref ''pilotAttributeType'', Arc 3],
     Entry ''info'' (Some ''info'') None (Some 461) [Ref ''pilotAttributeType'', Arc 4],
     Entry ''favouriteDrink'' None (Some ''favouriteDrink'') (Some 462) [Ref ''pilotAttributeType'', Arc 5],
     Entry ''roomNumber'' None (Some ''roomNumber'') (Some 463) [Ref ''pilotAttributeType'', Arc 6],
     Entry ''photo'' (Some ''photo'') None (Some 464) [Ref ''pilotAttributeType'', Arc 7],
     Entry ''userClass'' None (Some ''userClass'') (Some 465) [Ref ''pilotAttributeType'', Arc 8],
     Entry ''host'' (Some ''host'') None (Some 466) [Ref ''pilotAttributeType'', Arc 9],
     Entry ''manager'' (Some ''manager'') None (Some 467) [Ref ''pilotAttributeType'', Arc 10],
     Entry ''documentIdentifier'' None (Some ''documentIdentifier'') (Some 468) [Ref ''pilotAttributeType'', Arc 11],
     Entry ''documentTitle'' None (Some ''documentTitle'') (Some 469) [Ref ''pilotAttributeType'', Arc 12],
     Entry ''documentVersion'' None (Some ''documentVersion'') (Some 470) [Ref ''pilotAttributeType'', Arc 13],
     Entry ''documentAuthor'' None (Some ''documentAuthor'') (Some 471) [Ref ''pilotAttributeType'', Arc 14],
     Entry ''documentLocation'' None (Some ''documentLocation'') (Some 472) [Ref ''pilotAttributeType'', Arc 15],
     Entry ''homeTelephoneNumber'' None (Some ''homeTelephoneNumber'') (Some 473) [Ref ''pilotAttributeType'', Arc 20],
     Entry ''secretary'' (Some ''secretary'') None (Some 474) [Ref ''pilotAttributeType'', Arc 21],
     Entry ''otherMailbox'' None (Some ''otherMailbox'') (Some 475) [Ref ''pilotAttributeType'', Arc 22],
     Entry ''lastModifiedTime'' None (Some ''lastModifiedTime'') (Some 476) [Ref ''pilotAttributeType'', Arc 23],
     Entry ''lastModifiedBy'' None (Some ''lastModifiedBy'') (Some 477) [Ref ''pilotAttributeType'', Arc 24],
     Entry ''domainComponent'' (Some ''DC'') (Some ''domainComponent'') (Some 391) [Ref ''pilotAttributeType'', Arc 25],
     Entry ''aRecord'' None (Some ''aRecord'') (Some 478) [Ref ''pilotAttributeType'', Arc 26],
     Entry ''pilotAttributeType27'' None (Some ''pilotAttributeType27'') (Some 479) [Ref ''pilotAttributeType'', Arc 27],
     Entry ''mXRecord'' None (Some ''mXRecord'') (Some 480) [Ref ''pilotAttributeType'', Arc 28],
     Entry ''nSRecord'' None (Some ''nSRecord'') (Some 481) [Ref ''pilotAttributeType'', Arc 29],
     Entry ''sOARecord'' None (Some ''sOARecord'') (Some 482) [Ref ''pilotAttributeType'', Arc 30],
     Entry ''cNAMERecord'' None (Some ''cNAMERecord'') (Some 483) [Ref ''pilotAttributeType'', Arc 31],
     Entry ''associatedDomain'' None (Some ''associatedDomain'') (Some 484) [Ref ''pilotAttributeType'', Arc 37],
     Entry ''associatedName'' None (Some ''associatedName'') (Some 485) [Ref ''pilotAttributeType'', Arc 38],
     Entry ''homePostalAddress'' None (Some ''homePostalAddress'') (Some 486) [Ref ''pilotAttributeType'', Arc 39]]"

definition objects_21 :: "registry_entry list" where
  "objects_21 = [
     Entry ''personalTitle'' None (Some ''personalTitle'') (Some 487) [Ref ''pilotAttributeType'', Arc 40],
     Entry ''mobileTelephoneNumber'' None (Some ''mobileTelephoneNumber'') (Some 488) [Ref ''pilotAttributeType'', Arc 41],
     Entry ''pagerTelephoneNumber'' None (Some ''pagerTelephoneNumber'') (Some 489) [Ref ''pilotAttributeType'', Arc 42],
     Entry ''friendlyCountryName'' None (Some ''friendlyCountryName'') (Some 490) [Ref ''pilotAttributeType'', Arc 43],
     Entry ''organizationalStatus'' None (Some ''organizationalStatus'') (Some 491) [Ref ''pilotAttributeType'', Arc 45],
     Entry ''janetMailbox'' None (Some ''janetMailbox'') (Some 492) [Ref ''pilotAttributeType'', Arc 46],
     Entry ''mailPreferenceOption'' None (Some ''mailPreferenceOption'') (Some 493) [Ref ''pilotAttributeType'', Arc 47],
     Entry ''buildingName'' None (Some ''buildingName'') (Some 494) [Ref ''pilotAttributeType'', Arc 48],
     Entry ''dSAQuality'' None (Some ''dSAQuality'') (Some 495) [Ref ''pilotAttributeType'', Arc 49],
     Entry ''singleLevelQuality'' None (Some ''singleLevelQuality'') (Some 496) [Ref ''pilotAttributeType'', Arc 50],
     Entry ''subtreeMinimumQuality'' None (Some ''subtreeMinimumQuality'') (Some 497) [Ref ''pilotAttributeType'', Arc 51],
     Entry ''subtreeMaximumQuality'' None (Some ''subtreeMaximumQuality'') (Some 498) [Ref ''pilotAttributeType'', Arc 52],
     Entry ''personalSignature'' None (Some ''personalSignature'') (Some 499) [Ref ''pilotAttributeType'', Arc 53],
     Entry ''dITRedirect'' None (Some ''dITRedirect'') (Some 500) [Ref ''pilotAttributeType'', Arc 54],
     Entry ''audio'' (Some ''audio'') None (Some 501) [Ref ''pilotAttributeType'', Arc 55],
     Entry ''documentPublisher'' None (Some ''documentPublisher'') (Some 502) [Ref ''pilotAttributeType'', Arc 56],
     Entry ''id_set'' (Some ''id-set'') (Some ''Secure Electronic Transactions'') (Some 512) [Ref ''international_organizations'', Arc 42],
     Entry ''set_ctype'' (Some ''set-ctype'') (Some ''content types'') (Some 513) [Ref ''id_set'', Arc 0],
     Entry ''set_msgExt'' (Some ''set-msgExt'') (Some ''message extensions'') (Some 514) [Ref ''id_set'', Arc 1],
     Entry ''set_attr'' (Some ''set-attr'') None (Some 515) [Ref ''id_set'', Arc 3],
     Entry ''set_policy'' (Some ''set-policy'') None (Some 516) [Ref ''id_set'', Arc 5],
     Entry ''set_certExt'' (Some ''set-certExt'') (Some ''certificate extensions'') (Some 517) [Ref ''id_set'', Arc 7],
     Entry ''set_brand'' (Some ''set-brand'') None (Some 518) [Ref ''id_set'', Arc 8],
     Entry ''setct_PANData'' (Some ''setct-PANData'') None (Some 519) [Ref ''set_ctype'', Arc 0],
     Entry ''setct_PANToken'' (Some ''setct-PANToken'') None (Some 520) [Ref ''set_ctype'', Arc 1],
     Entry ''setct_PANOnly'' (Some ''setct-PANOnly'') None (Some 521) [Ref ''set_ctype'', Arc 2],
     Entry ''setct_OIData'' (Some ''setct-OIData'') None (Some 522) [Ref ''set_ctype'', Arc 3],
     Entry ''setct_PI'' (Some ''setct-PI'') None (Some 523) [Ref ''set_ctype'', Arc 4],
     Entry ''setct_PIData'' (Some ''setct-PIData'') None (Some 524) [Ref ''set_ctype'', Arc 5],
     Entry ''setct_PIDataUnsigned'' (Some ''setct-PIDataUnsigned'') None (Some 525) [Ref ''set_ctype'', Arc 6],
     Entry ''setct_HODInput'' (Some ''setct-HODInput'') None (Some 526) [Ref ''set_ctype'', Arc 7],
     Entry ''setct_AuthResBaggage'' (Some ''setct-AuthResBaggage'') None (Some 527) [Ref ''set_ctype'', Arc 8],
     Entry ''setct_AuthRevReqBaggage'' (Some ''setct-AuthRevReqBaggage'') None (Some 528) [Ref ''set_ctype'', Arc 9],
     Entry ''setct_AuthRevResBaggage'' (Some ''setct-AuthRevResBaggage'') None (Some 529) [Ref ''set_ctype'', Arc 10],
     Entry ''setct_CapTokenSeq'' (Some ''setct-CapTokenSeq'') None (Some 530) [Ref ''set_ctype'', Arc 11],
     Entry ''setct_PInitResData'' (Some ''setct-PInitResData'') None (Some 531) [Ref ''set_ctype'', Arc 12]]"

definition objects_22 :: "registry_entry list" where
  "objects_22 = [
     Entry ''setct_PI_TBS'' (Some ''setct-PI-TBS'') None (Some 532) [Ref ''set_ctype'', Arc 13],
     Entry ''setct_PResData'' (Some ''setct-PResData'') None (Some 533) [Ref ''set_ctype'', Arc 14],
     Entry ''setct_AuthReqTBS'' (Some ''setct-AuthReqTBS'') None (Some 534) [Ref ''set_ctype'', Arc 16],
     Entry ''setct_AuthResTBS'' (Some ''setct-AuthResTBS'') None (Some 535) [Ref ''set_ctype'', Arc 17],
     Entry ''setct_AuthResTBSX'' (Some ''setct-AuthResTBSX'') None (Some 536) [Ref ''set_ctype'', Arc 18],
     Entry ''setct_AuthTokenTBS'' (Some ''setct-AuthTokenTBS'') None (Some 537) [Ref ''set_ctype'', Arc 19],
     Entry ''setct_CapTokenData'' (Some ''setct-CapTokenData'') None (Some 538) [Ref ''set_ctype'', Arc 20],
     Entry ''setct_CapTokenTBS'' (Some ''setct-CapTokenTBS'') None (Some 539) [Ref ''set_ctype'', Arc 21],
     Entry ''setct_AcqCardCodeMsg'' (Some ''setct-AcqCardCodeMsg'') None (Some 540) [Ref ''set_ctype'', Arc 22],
     Entry ''setct_AuthRevReqTBS'' (Some ''setct-AuthRevReqTBS'') None (Some 541) [Ref ''set_ctype'', Arc 23],
     Entry ''setct_AuthRevResData'' (Some ''setct-AuthRevResData'') None (Some 542) [Ref ''set_ctype'', Arc 24],
     Entry ''setct_AuthRevResTBS'' (Some ''setct-AuthRevResTBS'') None (Some 543) [Ref ''set_ctype'', Arc 25],
     Entry ''setct_CapReqTBS'' (Some ''setct-CapReqTBS'') None (Some 544) [Ref ''set_ctype'', Arc 26],
     Entry ''setct_CapReqTBSX'' (Some ''setct-CapReqTBSX'') None (Some 545) [Ref ''set_ctype'', Arc 27],
     Entry ''setct_CapResData'' (Some ''setct-CapResData'') None (Some 546) [Ref ''set_ctype'', Arc 28],
     Entry ''setct_CapRevReqTBS'' (Some ''setct-CapRevReqTBS'') None (Some 547) [Ref ''set_ctype'', Arc 29],
     Entry ''setct_CapRevReqTBSX'' (Some ''setct-CapRevReqTBSX'') None (Some 548) [Ref ''set_ctype'', Arc 30],
     Entry ''setct_CapRevResData'' (Some ''setct-CapRevResData'') None (Some 549) [Ref ''set_ctype'', Arc 31],
     Entry ''setct_CredReqTBS'' (Some ''setct-CredReqTBS'') None (Some 550) [Ref ''set_ctype'', Arc 32],
     Entry ''setct_CredReqTBSX'' (Some ''setct-CredReqTBSX'') None (Some 551) [Ref ''set_ctype'', Arc 33],
     Entry ''setct_CredResData'' (Some ''setct-CredResData'') None (Some 552) [Ref ''set_ctype'', Arc 34],
     Entry ''setct_CredRevReqTBS'' (Some ''setct-CredRevReqTBS'') None (Some 553) [Ref ''set_ctype'', Arc 35],
     Entry ''setct_CredRevReqTBSX'' (Some ''setct-CredRevReqTBSX'') None (Some 554) [Ref ''set_ctype'', Arc 36],
     Entry ''setct_CredRevResData'' (Some ''setct-CredRevResData'') None (Some 555) [Ref ''set_ctype'', Arc 37],
     Entry ''setct_PCertReqData'' (Some ''setct-PCertReqData'') None (Some 556) [Ref ''set_ctype'', Arc 38],
     Entry ''setct_PCertResTBS'' (Some ''setct-PCertResTBS'') None (Some 557) [Ref ''set_ctype'', Arc 39],
     Entry ''setct_BatchAdminReqData'' (Some ''setct-BatchAdminReqData'') None (Some 558) [Ref ''set_ctype'', Arc 40],
     Entry ''setct_BatchAdminResData'' (Some ''setct-BatchAdminResData'') None (Some 559) [Ref ''set_ctype'', Arc 41],
     Entry ''setct_CardCInitResTBS'' (Some ''setct-CardCInitResTBS'') None (Some 560) [Ref ''set_ctype'', Arc 42],
     Entry ''setct_MeAqCInitResTBS'' (Some ''setct-MeAqCInitResTBS'') None (Some 561) [Ref ''set_ctype'', Arc 43],
     Entry ''setct_RegFormResTBS'' (Some ''setct-RegFormResTBS'') None (Some 562) [Ref ''set_ctype'', Arc 44],
     Entry ''setct_CertReqData'' (Some ''setct-CertReqData'') None (Some 563) [Ref ''set_ctype'', Arc 45],
     Entry ''setct_CertReqTBS'' (Some ''setct-CertReqTBS'') None (Some 564) [Ref ''set_ctype'', Arc 46],
     Entry ''setct_CertResData'' (Some ''setct-CertResData'') None (Some 565) [Ref ''set_ctype'', Arc 47],
     Entry ''setct_CertInqReqTBS'' (Some ''setct-CertInqReqTBS'') None (Some 566) [Ref ''set_ctype'', Arc 48],
     Entry ''setct_ErrorTBS'' (Some ''setct-ErrorTBS'') None (Some 567) [Ref ''set_ctype'', Arc 49],
     Entry ''setct_PIDualSignedTBE'' (Some ''setct-PIDualSignedTBE'') None (Some 568) [Ref ''set_ctype'', Arc 50]]"

definition objects_23 :: "registry_entry list" where
  "objects_23 = [
     Entry ''setct_PIUnsignedTBE'' (Some ''setct-PIUnsignedTBE'') None (Some 569) [Ref ''set_ctype'', Arc 51],
     Entry ''setct_AuthReqTBE'' (Some ''setct-AuthReqTBE'') None (Some 570) [Ref ''set_ctype'', Arc 52],
     Entry ''setct_AuthResTBE'' (Some ''setct-AuthResTBE'') None (Some 571) [Ref ''set_ctype'', Arc 53],
     Entry ''setct_AuthResTBEX'' (Some ''setct-AuthResTBEX'') None (Some 572) [Ref ''set_ctype'', Arc 54],
     Entry ''setct_AuthTokenTBE'' (Some ''setct-AuthTokenTBE'') None (Some 573) [Ref ''set_ctype'', Arc 55],
     Entry ''setct_CapTokenTBE'' (Some ''setct-CapTokenTBE'') None (Some 574) [Ref ''set_ctype'', Arc 56],
     Entry ''setct_CapTokenTBEX'' (Some ''setct-CapTokenTBEX'') None (Some 575) [Ref ''set_ctype'', Arc 57],
     Entry ''setct_AcqCardCodeMsgTBE'' (Some ''setct-AcqCardCodeMsgTBE'') None (Some 576) [Ref ''set_ctype'', Arc 58],
     Entry ''setct_AuthRevReqTBE'' (Some ''setct-AuthRevReqTBE'') None (Some 577) [Ref ''set_ctype'', Arc 59],
     Entry ''setct_AuthRevResTBE'' (Some ''setct-AuthRevResTBE'') None (Some 578) [Ref ''set_ctype'', Arc 60],
     Entry ''setct_AuthRevResTBEB'' (Some ''setct-AuthRevResTBEB'') None (Some 579) [Ref ''set_ctype'', Arc 61],
     Entry ''setct_CapReqTBE'' (Some ''setct-CapReqTBE'') None (Some 580) [Ref ''set_ctype'', Arc 62],
     Entry ''setct_CapReqTBEX'' (Some ''setct-CapReqTBEX'') None (Some 581) [Ref ''set_ctype'', Arc 63],
     Entry ''setct_CapResTBE'' (Some ''setct-CapResTBE'') None (Some 582) [Ref ''set_ctype'', Arc 64],
     Entry ''setct_CapRevReqTBE'' (Some ''setct-CapRevReqTBE'') None (Some 583) [Ref ''set_ctype'', Arc 65],
     Entry ''setct_CapRevReqTBEX'' (Some ''setct-CapRevReqTBEX'') None (Some 584) [Ref ''set_ctype'', Arc 66],
     Entry ''setct_CapRevResTBE'' (Some ''setct-CapRevResTBE'') None (Some 585) [Ref ''set_ctype'', Arc 67],
     Entry ''setct_CredReqTBE'' (Some ''setct-CredReqTBE'') None (Some 586) [Ref ''set_ctype'', Arc 68],
     Entry ''setct_CredReqTBEX'' (Some ''setct-CredReqTBEX'') None (Some 587) [Ref ''set_ctype'', Arc 69],
     Entry ''setct_CredResTBE'' (Some ''setct-CredResTBE'') None (Some 588) [Ref ''set_ctype'', Arc 70],
     Entry ''setct_CredRevReqTBE'' (Some ''setct-CredRevReqTBE'') None (Some 589) [Ref ''set_ctype'', Arc 71],
     Entry ''setct_CredRevReqTBEX'' (Some ''setct-CredRevReqTBEX'') None (Some 590) [Ref ''set_ctype'', Arc 72],
     Entry ''setct_CredRevResTBE'' (Some ''setct-CredRevResTBE'') None (Some 591) [Ref ''set_ctype'', Arc 73],
     Entry ''setct_BatchAdminReqTBE'' (Some ''setct-BatchAdminReqTBE'') None (Some 592) [Ref ''set_ctype'', Arc 74],
     Entry ''setct_BatchAdminResTBE'' (Some ''setct-BatchAdminResTBE'') None (Some 593) [Ref ''set_ctype'', Arc 75],
     Entry ''setct_RegFormReqTBE'' (Some ''setct-RegFormReqTBE'') None (Some 594) [Ref ''set_ctype'', Arc 76],
     Entry ''setct_CertReqTBE'' (Some ''setct-CertReqTBE'') None (Some 595) [Ref ''set_ctype'', Arc 77],
     Entry ''setct_CertReqTBEX'' (Some ''setct-CertReqTBEX'') None (Some 596) [Ref ''set_ctype'', Arc 78],
     Entry ''setct_CertResTBE'' (Some ''setct-CertResTBE'') None (Some 597) [Ref ''set_ctype'', Arc 79],
     Entry ''setct_CRLNotificationTBS'' (Some ''setct-CRLNotificationTBS'') None (Some 598) [Ref ''set_ctype'', Arc 80],
     Entry ''setct_CRLNotificationResTBS'' (Some ''setct-CRLNotificationResTBS'') None (Some 599) [Ref ''set_ctype'', Arc 81],
     Entry ''setct_BCIDistributionTBS'' (Some ''setct-BCIDistributionTBS'') None (Some 600) [Ref ''set_ctype'', Arc 82],
     Entry ''setext_genCrypt'' (Some ''setext-genCrypt'') (Some ''generic cryptogram'') (Some 601) [Ref ''set_msgExt'', Arc 1],
     Entry ''setext_miAuth'' (Some ''setext-miAuth'') (Some ''merchant initiated auth'') (Some 602) [Ref ''set_msgExt'', Arc 3],
     Entry ''setext_pinSecure'' (Some ''setext-pinSecure'') None (Some 603) [Ref ''set_msgExt'', Arc 4],
     Entry ''setext_pinAny'' (Some ''setext-pinAny'') None (Some 604) [Ref ''set_msgExt'', Arc 5],
     Entry ''setext_track2'' (Some ''setext-track2'') None (Some 605) [Ref ''set_msgExt'', Arc 7]]"

definition objects_24 :: "registry_entry list" where
  "objects_24 = [
     Entry ''setext_cv'' (Some ''setext-cv'') (Some ''additional verification'') (Some 606) [Ref ''set_msgExt'', Arc 8],
     Entry ''set_policy_root'' (Some ''set-policy-root'') None (Some 607) [Ref ''set_policy'', Arc 0],
     Entry ''setCext_hashedRoot'' (Some ''setCext-hashedRoot'') None (Some 608) [Ref ''set_certExt'', Arc 0],
     Entry ''setCext_certType'' (Some ''setCext-certType'') None (Some 609) [Ref ''set_certExt'', Arc 1],
     Entry ''setCext_merchData'' (Some ''setCext-merchData'') None (Some 610) [Ref ''set_certExt'', Arc 2],
     Entry ''setCext_cCertRequired'' (Some ''setCext-cCertRequired'') None (Some 611) [Ref ''set_certExt'', Arc 3],
     Entry ''setCext_tunneling'' (Some ''setCext-tunneling'') None (Some 612) [Ref ''set_certExt'', Arc 4],
     Entry ''setCext_setExt'' (Some ''setCext-setExt'') None (Some 613) [Ref ''set_certExt'', Arc 5],
     Entry ''setCext_setQualf'' (Some ''setCext-setQualf'') None (Some 614) [Ref ''set_certExt'', Arc 6],
     Entry ''setCext_PGWYcapabilities'' (Some ''setCext-PGWYcapabilities'') None (Some 615) [Ref ''set_certExt'', Arc 7],
     Entry ''setCext_TokenIdentifier'' (Some ''setCext-TokenIdentifier'') None (Some 616) [Ref ''set_certExt'', Arc 8],
     Entry ''setCext_Track2Data'' (Some ''setCext-Track2Data'') None (Some 617) [Ref ''set_certExt'', Arc 9],
     Entry ''setCext_TokenType'' (Some ''setCext-TokenType'') None (Some 618) [Ref ''set_certExt'', Arc 10],
     Entry ''setCext_IssuerCapabilities'' (Some ''setCext-IssuerCapabilities'') None (Some 619) [Ref ''set_certExt'', Arc 11],
     Entry ''setAttr_Cert'' (Some ''setAttr-Cert'') None (Some 620) [Ref ''set_attr'', Arc 0],
     Entry ''setAttr_PGWYcap'' (Some ''setAttr-PGWYcap'') (Some ''payment gateway capabilities'') (Some 621) [Ref ''set_attr'', Arc 1],
     Entry ''setAttr_TokenType'' (Some ''setAttr-TokenType'') None (Some 622) [Ref ''set_attr'', Arc 2],
     Entry ''setAttr_IssCap'' (Some ''setAttr-IssCap'') (Some ''issuer capabilities'') (Some 623) [Ref ''set_attr'', Arc 3],
     Entry ''set_rootKeyThumb'' (Some ''set-rootKeyThumb'') None (Some 624) [Ref ''setAttr_Cert'', Arc 0],
     Entry ''set_addPolicy'' (Some ''set-addPolicy'') None (Some 625) [Ref ''setAttr_Cert'', Arc 1],
     Entry ''setAttr_Token_EMV'' (Some ''setAttr-Token-EMV'') None (Some 626) [Ref ''setAttr_TokenType'', Arc 1],
     Entry ''setAttr_Token_B0Prime'' (Some ''setAttr-Token-B0Prime'') None (Some 627) [Ref ''setAttr_TokenType'', Arc 2],
     Entry ''setAttr_IssCap_CVM'' (Some ''setAttr-IssCap-CVM'') None (Some 628) [Ref ''setAttr_IssCap'', Arc 3],
     Entry ''setAttr_IssCap_T2'' (Some ''setAttr-IssCap-T2'') None (Some 629) [Ref ''setAttr_IssCap'', Arc 4],
     Entry ''setAttr_IssCap_Sig'' (Some ''setAttr-IssCap-Sig'') None (Some 630) [Ref ''setAttr_IssCap'', Arc 5],
     Entry ''setAttr_GenCryptgrm'' (Some ''setAttr-GenCryptgrm'') (Some ''generate cryptogram'') (Some 631) [Ref ''setAttr_IssCap_CVM'', Arc 1],
     Entry ''setAttr_T2Enc'' (Some ''setAttr-T2Enc'') (Some ''encrypted track 2'') (Some 632) [Ref ''setAttr_IssCap_T2'', Arc 1],
     Entry ''setAttr_T2cleartxt'' (Some ''setAttr-T2cleartxt'') (Some ''cleartext track 2'') (Some 633) [Ref ''setAttr_IssCap_T2'', Arc 2],
     Entry ''setAttr_TokICCsig'' (Some ''setAttr-TokICCsig'') (Some ''ICC or token signature'') (Some 634) [Ref ''setAttr_IssCap_Sig'', Arc 1],
     Entry ''setAttr_SecDevSig'' (Some ''setAttr-SecDevSig'') (Some ''secure device signature'') (Some 635) [Ref ''setAttr_IssCap_Sig'', Arc 2],
     Entry ''set_brand_IATA_ATA'' (Some ''set-brand-IATA-ATA'') None (Some 636) [Ref ''set_brand'', Arc 1],
     Entry ''set_brand_Diners'' (Some ''set-brand-Diners'') None (Some 637) [Ref ''set_brand'', Arc 30],
     Entry ''set_brand_AmericanExpress'' (Some ''set-brand-AmericanExpress'') None (Some 638) [Ref ''set_brand'', Arc 34],
     Entry ''set_brand_JCB'' (Some ''set-brand-JCB'') None (Some 639) [Ref ''set_brand'', Arc 35],
     Entry ''set_brand_Visa'' (Some ''set-brand-Visa'') None (Some 640) [Ref ''set_brand'', Arc 4]]"

definition objects_25 :: "registry_entry list" where
  "objects_25 = [
     Entry ''set_brand_MasterCard'' (Some ''set-brand-MasterCard'') None (Some 641) [Ref ''set_brand'', Arc 5],
     Entry ''set_brand_Novus'' (Some ''set-brand-Novus'') None (Some 642) [Ref ''set_brand'', Arc 6011],
     Entry ''des_cdmf'' (Some ''DES-CDMF'') (Some ''des-cdmf'') (Some 643) [Ref ''rsadsi'', Arc 3, Arc 10],
     Entry ''rsaOAEPEncryptionSET'' (Some ''rsaOAEPEncryptionSET'') None (Some 644) [Ref ''rsadsi'', Arc 1, Arc 1, Arc 6],
     Entry ''ipsec3'' (Some ''Oakley-EC2N-3'') (Some ''ipsec3'') (Some 749) [],
     Entry ''ipsec4'' (Some ''Oakley-EC2N-4'') (Some ''ipsec4'') (Some 750) [],
     Entry ''whirlpool'' (Some ''whirlpool'') None (Some 804) [Ref ''iso'', Arc 0, Arc 10118, Arc 3, Arc 0, Arc 55],
     Entry ''cryptopro'' (Some ''cryptopro'') None (Some 805) [Ref ''member_body'', Arc 643, Arc 2, Arc 2],
     Entry ''cryptocom'' (Some ''cryptocom'') None (Some 806) [Ref ''member_body'', Arc 643, Arc 2, Arc 9],
     Entry ''id_GostR3411_94_with_GostR3410_2001'' (Some ''id-GostR3411-94-with-GostR3410-2001'') (Some ''GOST R 34.11-94 with GOST R 34.10-2001'') (Some 807) [Ref ''cryptopro'', Arc 3],
     Entry ''id_GostR3411_94_with_GostR3410_94'' (Some ''id-GostR3411-94-with-GostR3410-94'') (Some ''GOST R 34.11-94 with GOST R 34.10-94'') (Some 808) [Ref ''cryptopro'', Arc 4],
     Entry ''id_GostR3411_94'' (Some ''md_gost94'') (Some ''GOST R 34.11-94'') (Some 809) [Ref ''cryptopro'', Arc 9],
     Entry ''id_HMACGostR3411_94'' (Some ''id-HMACGostR3411-94'') (Some ''HMAC GOST 34.11-94'') (Some 810) [Ref ''cryptopro'', Arc 10],
     Entry ''id_GostR3410_2001'' (Some ''gost2001'') (Some ''GOST R 34.10-2001'') (Some 811) [Ref ''cryptopro'', Arc 19],
     Entry ''id_GostR3410_94'' (Some ''gost94'') (Some ''GOST R 34.10-94'') (Some 812) [Ref ''cryptopro'', Arc 20],
     Entry ''id_Gost28147_89'' (Some ''gost89'') (Some ''GOST 28147-89'') (Some 813) [Ref ''cryptopro'', Arc 21],
     Entry ''gost89_cnt'' (Some ''gost89-cnt'') None (Some 814) [],
     Entry ''id_Gost28147_89_MAC'' (Some ''gost-mac'') (Some ''GOST 28147-89 MAC'') (Some 815) [Ref ''cryptopro'', Arc 22],
     Entry ''id_GostR3411_94_prf'' (Some ''prf-gostr3411-94'') (Some ''GOST R 34.11-94 PRF'') (Some 816) [Ref ''cryptopro'', Arc 23],
     Entry ''id_GostR3410_2001DH'' (Some ''id-GostR3410-2001DH'') (Some ''GOST R 34.10-2001 DH'') (Some 817) [Ref ''cryptopro'', Arc 98],
     Entry ''id_GostR3410_94DH'' (Some ''id-GostR3410-94DH'') (Some ''GOST R 34.10-94 DH'') (Some 818) [Ref ''cryptopro'', Arc 99],
     Entry ''id_Gost28147_89_CryptoPro_KeyMeshing'' (Some ''id-Gost28147-89-CryptoPro-KeyMeshing'') None (Some 819) [Ref ''cryptopro'', Arc 14, Arc 1],
     Entry ''id_Gost28147_89_None_KeyMeshing'' (Some ''id-Gost28147-89-None-KeyMeshing'') None (Some 820) [Ref ''cryptopro'', Arc 14, Arc 0],
     Entry ''id_GostR3411_94_TestParamSet'' (Some ''id-GostR3411-94-TestParamSet'') None (Some 821) [Ref ''cryptopro'', Arc 30, Arc 0],
     Entry ''id_GostR3411_94_CryptoProParamSet'' (Some ''id-GostR3411-94-CryptoProParamSet'') None (Some 822) [Ref ''cryptopro'', Arc 30, Arc 1],
     Entry ''id_Gost28147_89_TestParamSet'' (Some ''id-Gost28147-89-TestParamSet'') None (Some 823) [Ref ''cryptopro'', Arc 31, Arc 0],
     Entry ''id_Gost28147_89_CryptoPro_A_ParamSet'' (Some ''id-Gost28147-89-CryptoPro-A-ParamSet'') None (Some 824) [Ref ''cryptopro'', Arc 31, Arc 1],
     Entry ''id_Gost28147_89_CryptoPro_B_ParamSet'' (Some ''id-Gost28147-89-CryptoPro-B-ParamSet'') None (Some 825) [Ref ''cryptopro'', Arc 31, Arc 2],
     Entry ''id_Gost28147_89_CryptoPro_C_ParamSet'' (Some ''id-Gost28147-89-CryptoPro-C-ParamSet'') None (Some 826) [Ref ''cryptopro'', Arc 31, Arc 3],
     Entry ''id_Gost28147_89_CryptoPro_D_ParamSet'' (Some ''id-Gost28147-89-CryptoPro-D-ParamSet'') None (Some 827) [Ref ''cryptopro'', Arc 31, Arc 4],
     Entry ''id_Gost28147_89_CryptoPro_Oscar_1_1_ParamSet'' (Some ''id-Gost28147-89-CryptoPro-Oscar-1-1-ParamSet'') None (Some 828) [Ref ''cryptopro'', Arc 31, Arc 5],
     Entry ''id_Gost28147_89_CryptoPro_Oscar_1_0_ParamSet'' (Some ''id-Gost28147-89-CryptoPro-Oscar-1-0-ParamSet'') None (Some 829) [Ref ''cryptopro'', Arc 31, Arc 6],
     Entry ''id_Gost28147_89_CryptoPro_RIC_1_ParamSet'' (Some ''id-Gost28147-89-CryptoPro-RIC-1-ParamSet'') None (Some 830) [Ref ''cryptopro'', Arc 31, Arc 7],
     Entry ''id_GostR3410_94_TestParamSet'' (Some ''id-GostR3410-94-TestParamSet'') None (Some 831) [Ref ''cryptopro'', Arc 32, Arc 0],
     Entry ''id_GostR3410_94_CryptoPro_A_ParamSet'' (Some ''id-GostR3410-94-CryptoPro-A-ParamSet'') None (Some 832) [Ref ''cryptopro'', Arc 32, Arc 2]]"

definition objects_26 :: "registry_entry list" where
  "objects_26 = [
     Entry ''id_GostR3410_94_CryptoPro_B_ParamSet'' (Some ''id-GostR3410-94-CryptoPro-B-ParamSet'') None (Some 833) [Ref ''cryptopro'', Arc 32, Arc 3],
     Entry ''id_GostR3410_94_CryptoPro_C_ParamSet'' (Some ''id-GostR3410-94-CryptoPro-C-ParamSet'') None (Some 834) [Ref ''cryptopro'', Arc 32, Arc 4],
     Entry ''id_GostR3410_94_CryptoPro_D_ParamSet'' (Some ''id-GostR3410-94-CryptoPro-D-ParamSet'') None (Some 835) [Ref ''cryptopro'', Arc 32, Arc 5],
     Entry ''id_GostR3410_94_CryptoPro_XchA_ParamSet'' (Some ''id-GostR3410-94-CryptoPro-XchA-ParamSet'') None (Some 836) [Ref ''cryptopro'', Arc 33, Arc 1],
     Entry ''id_GostR3410_94_CryptoPro_XchB_ParamSet'' (Some ''id-GostR3410-94-CryptoPro-XchB-ParamSet'') None (Some 837) [Ref ''cryptopro'', Arc 33, Arc 2],
     Entry ''id_GostR3410_94_CryptoPro_XchC_ParamSet'' (Some ''id-GostR3410-94-CryptoPro-XchC-ParamSet'') None (Some 838) [Ref ''cryptopro'', Arc 33, Arc 3],
     Entry ''id_GostR3410_2001_TestParamSet'' (Some ''id-GostR3410-2001-TestParamSet'') None (Some 839) [Ref ''cryptopro'', Arc 35, Arc 0],
     Entry ''id_GostR3410_2001_CryptoPro_A_ParamSet'' (Some ''id-GostR3410-2001-CryptoPro-A-ParamSet'') None (Some 840) [Ref ''cryptopro'', Arc 35, Arc 1],
     Entry ''id_GostR3410_2001_CryptoPro_B_ParamSet'' (Some ''id-GostR3410-2001-CryptoPro-B-ParamSet'') None (Some 841) [Ref ''cryptopro'', Arc 35, Arc 2],
     Entry ''id_GostR3410_2001_CryptoPro_C_ParamSet'' (Some ''id-GostR3410-2001-CryptoPro-C-ParamSet'') None (Some 842) [Ref ''cryptopro'', Arc 35, Arc 3],
     Entry ''id_GostR3410_2001_CryptoPro_XchA_ParamSet'' (Some ''id-GostR3410-2001-CryptoPro-XchA-ParamSet'') None (Some 843) [Ref ''cryptopro'', Arc 36, Arc 0],
     Entry ''id_GostR3410_2001_CryptoPro_XchB_ParamSet'' (Some ''id-GostR3410-2001-CryptoPro-XchB-ParamSet'') None (Some 844) [Ref ''cryptopro'', Arc 36, Arc 1],
     Entry ''id_GostR3410_94_a'' (Some ''id-GostR3410-94-a'') None (Some 845) [Ref ''id_GostR3410_94'', Arc 1],
     Entry ''id_GostR3410_94_aBis'' (Some ''id-GostR3410-94-aBis'') None (Some 846) [Ref ''id_GostR3410_94'', Arc 2],
     Entry ''id_GostR3410_94_b'' (Some ''id-GostR3410-94-b'') None (Some 847) [Ref ''id_GostR3410_94'', Arc 3],
     Entry ''id_GostR3410_94_bBis'' (Some ''id-GostR3410-94-bBis'') None (Some 848) [Ref ''id_GostR3410_94'', Arc 4],
     Entry ''id_Gost28147_89_cc'' (Some ''id-Gost28147-89-cc'') (Some ''GOST 28147-89 Cryptocom ParamSet'') (Some 849) [Ref ''cryptocom'', Arc 1, Arc 6, Arc 1],
     Entry ''id_GostR3410_94_cc'' (Some ''gost94cc'') (Some ''GOST 34.10-94 Cryptocom'') (Some 850) [Ref ''cryptocom'', Arc 1, Arc 5, Arc 3],
     Entry ''id_GostR3410_2001_cc'' (Some ''gost2001cc'') (Some ''GOST 34.10-2001 Cryptocom'') (Some 851) [Ref ''cryptocom'', Arc 1, Arc 5, Arc 4],
     Entry ''id_GostR3411_94_with_GostR3410_94_cc'' (Some ''id-GostR3411-94-with-GostR3410-94-cc'') (Some ''GOST R 34.11-94 with GOST R 34.10-94 Cryptocom'') (Some 852) [Ref ''cryptocom'', Arc 1, Arc 3, Arc 3],
     Entry ''id_GostR3411_94_with_GostR3410_2001_cc'' (Some ''id-GostR3411-94-with-GostR3410-2001-cc'') (Some ''GOST R 34.11-94 with GOST R 34.10-2001 Cryptocom'') (Some 853) [Ref ''cryptocom'', Arc 1, Arc 3, Arc 4],
     Entry ''id_GostR3410_2001_ParamSet_cc'' (Some ''id-GostR3410-2001-ParamSet-cc'') (Some ''GOST R 3410-2001 Parameter Set Cryptocom'') (Some 854) [Ref ''cryptocom'', Arc 1, Arc 8, Arc 1],
     Entry ''camellia_128_cbc'' (Some ''CAMELLIA-128-CBC'') (Some ''camellia-128-cbc'') (Some 751) [Arc 1, Arc 2, Arc 392, Arc 200011, Arc 61, Arc 1, Arc 1, Arc 1, Arc 2],
     Entry ''camellia_192_cbc'' (Some ''CAMELLIA-192-CBC'') (Some ''camellia-192-cbc'') (Some 752) [Arc 1, Arc 2, Arc 392, Arc 200011, Arc 61, Arc 1, Arc 1, Arc 1, Arc 3],
     Entry ''camellia_256_cbc'' (Some ''CAMELLIA-256-CBC'') (Some ''camellia-256-cbc'') (Some 753) [Arc 1, Arc 2, Arc 392, Arc 200011, Arc 61, Arc 1, Arc 1, Arc 1, Arc 4],
     Entry ''id_camellia128_wrap'' (Some ''id-camellia128-wrap'') None (Some 907) [Arc 1, Arc 2, Arc 392, Arc 200011, Arc 61, Arc 1, Arc 1, Arc 3, Arc 2],
     Entry ''id_camellia192_wrap'' (Some ''id-camellia192-wrap'') None (Some 908) [Arc 1, Arc 2, Arc 392, Arc 200011, Arc 61, Arc 1, Arc 1, Arc 3, Arc 3],
     Entry ''id_camellia256_wrap'' (Some ''id-camellia256-wrap'') None (Some 909) [Arc 1, Arc 2, Arc 392, Arc 200011, Arc 61, Arc 1, Arc 1, Arc 3, Arc 4],
     Entry ''ntt_ds'' None None None [Arc 0, Arc 3, Arc 4401, Arc 5],
     Entry ''camellia'' None None None [Ref ''ntt_ds'', Arc 3, Arc 1, Arc 9],
     Entry ''camellia_128_ecb'' (Some ''CAMELLIA-128-ECB'') (Some ''camellia-128-ecb'') (Some 754) [Ref ''camellia'', Arc 1],
     Entry ''camellia_128_ofb128'' (Some ''CAMELLIA-128-OFB'') (Some ''camellia-128-ofb'') (Some 766) [Ref ''camellia'', Arc 3],
     Entry ''camellia_128_cfb128'' (Some ''CAMELLIA-128-CFB'') (Some ''camellia-128-cfb'') (Some 757) [Ref ''camellia'', Arc 4],
     Entry ''camellia_192_ecb'' (Some ''CAMELLIA-192-ECB'') (Some ''camellia-192-ecb'') (Some 755) [Ref ''camellia'', Arc 21],
     Entry ''camellia_192_ofb128'' (Some ''CAMELLIA-192-OFB'') (Some ''camellia-192-ofb'') (Some 767) [Ref ''camellia'', Arc 23]]"

definition objects_27 :: "registry_entry list" where
  "objects_27 = [
     Entry ''camellia_192_cfb128'' (Some ''CAMELLIA-192-CFB'') (Some ''camellia-192-cfb'') (Some 758) [Ref ''camellia'', Arc 24],
     Entry ''camellia_256_ecb'' (Some ''CAMELLIA-256-ECB'') (Some ''camellia-256-ecb'') (Some 756) [Ref ''camellia'', Arc 41],
     Entry ''camellia_256_ofb128'' (Some ''CAMELLIA-256-OFB'') (Some ''camellia-256-ofb'') (Some 768) [Ref ''camellia'', Arc 43],
     Entry ''camellia_256_cfb128'' (Some ''CAMELLIA-256-CFB'') (Some ''camellia-256-cfb'') (Some 759) [Ref ''camellia'', Arc 44],
     Entry ''camellia_128_cfb1'' (Some ''CAMELLIA-128-CFB1'') (Some ''camellia-128-cfb1'') (Some 760) [],
     Entry ''camellia_192_cfb1'' (Some ''CAMELLIA-192-CFB1'') (Some ''camellia-192-cfb1'') (Some 761) [],
     Entry ''camellia_256_cfb1'' (Some ''CAMELLIA-256-CFB1'') (Some ''camellia-256-cfb1'') (Some 762) [],
     Entry ''camellia_128_cfb8'' (Some ''CAMELLIA-128-CFB8'') (Some ''camellia-128-cfb8'') (Some 763) [],
     Entry ''camellia_192_cfb8'' (Some ''CAMELLIA-192-CFB8'') (Some ''camellia-192-cfb8'') (Some 764) [],
     Entry ''camellia_256_cfb8'' (Some ''CAMELLIA-256-CFB8'') (Some ''camellia-256-cfb8'') (Some 765) [],
     Entry ''kisa'' (Some ''KISA'') (Some ''kisa'') (Some 773) [Ref ''member_body'', Arc 410, Arc 200004],
     Entry ''seed_ecb'' (Some ''SEED-ECB'') (Some ''seed-ecb'') (Some 776) [Ref ''kisa'', Arc 1, Arc 3],
     Entry ''seed_cbc'' (Some ''SEED-CBC'') (Some ''seed-cbc'') (Some 777) [Ref ''kisa'', Arc 1, Arc 4],
     Entry ''seed_cfb128'' (Some ''SEED-CFB'') (Some ''seed-cfb'') (Some 779) [Ref ''kisa'', Arc 1, Arc 5],
     Entry ''seed_ofb128'' (Some ''SEED-OFB'') (Some ''seed-ofb'') (Some 778) [Ref ''kisa'', Arc 1, Arc 6],
     Entry ''hmac'' (Some ''HMAC'') (Some ''hmac'') (Some 855) [],
     Entry ''cmac'' (Some ''CMAC'') (Some ''cmac'') (Some 894) [],
     Entry ''rc4_hmac_md5'' (Some ''RC4-HMAC-MD5'') (Some ''rc4-hmac-md5'') (Some 915) [],
     Entry ''aes_128_cbc_hmac_sha1'' (Some ''AES-128-CBC-HMAC-SHA1'') (Some ''aes-128-cbc-hmac-sha1'') (Some 916) [],
     Entry ''aes_192_cbc_hmac_sha1'' (Some ''AES-192-CBC-HMAC-SHA1'') (Some ''aes-192-cbc-hmac-sha1'') (Some 917) [],
     Entry ''aes_256_cbc_hmac_sha1'' (Some ''AES-256-CBC-HMAC-SHA1'') (Some ''aes-256-cbc-hmac-sha1'') (Some 918) []]"

lemmas objects_defs =
  objects_01_def objects_02_def objects_03_def objects_04_def objects_05_def
  objects_06_def objects_07_def objects_08_def objects_09_def objects_10_def
  objects_11_def objects_12_def objects_13_def objects_14_def objects_15_def
  objects_16_def objects_17_def objects_18_def objects_19_def objects_20_def
  objects_21_def objects_22_def objects_23_def objects_24_def objects_25_def
  objects_26_def objects_27_def

definition registry :: "registry_entry list list" where
  "registry = [objects_01, objects_02, objects_03, objects_04, objects_05, objects_06, objects_07,
     objects_08, objects_09, objects_10, objects_11, objects_12, objects_13, objects_14,
     objects_15, objects_16, objects_17, objects_18, objects_19, objects_20, objects_21,
     objects_22, objects_23, objects_24, objects_25, objects_26, objects_27]"

end
