(* ===== verification/Obj_Registry.thy ===== *)
theory Obj_Registry
  imports Obj_Mac
begin

text \<open>
  The numeric ids (\<open>NID_\<close>) of the object registry of \<open>obj_mac.h\<close>, over all its tables. OpenSSL
  uses them as the names of objects and as indices of its tables.
\<close>

section \<open>The ids of a table\<close>

fun nids :: "registry_entry list \<Rightarrow> nat list" where
  "nids [] = []"
| "nids (Entry m sn ln (Some n) b # es) = n # nids es"
| "nids (Entry m sn ln None b # es) = nids es"

section \<open>Numeric ids\<close>

lemma nids_01: "nids objects_01 =
    [0, 645, 404, 181, 646, 393, 182, 676, 780, 781, 677, 647, 678, 679, 394, 395, 183, 184, 185,
     116, 113, 405, 406, 407, 680, 681, 682, 683, 408, 684, 685, 686]"
  by (simp only: objects_01_def nids.simps)

lemma nids_02: "nids objects_02 =
    [687, 688, 689, 690, 691, 692, 693, 694, 695, 696, 697, 698, 699, 700, 701, 702, 703, 409, 410,
     411, 412, 413, 414, 415, 416, 791, 792, 793, 794, 795, 796, 704, 705, 706, 707, 708]"
  by (simp only: objects_02_def nids.simps)

lemma nids_03: "nids objects_03 =
    [709, 710, 711, 712, 713, 714, 715, 716, 717, 718, 719, 720, 721, 722, 723, 724, 725, 726, 727,
     728, 729, 730, 731, 732, 733, 734, 735, 736, 737, 738, 739, 740, 741, 742, 743, 744, 745]"
  by (simp only: objects_03_def nids.simps)

lemma nids_04: "nids objects_04 =
    [108, 109, 110, 111, 112, 782, 783, 1, 2, 186, 6, 7, 396, 8, 65, 919, 911, 912, 668, 669, 670,
     671, 27, 28, 187, 9, 10, 168, 169, 170, 68, 69]"
  by (simp only: objects_04_def nids.simps)

lemma nids_05: "nids objects_05 =
    [161, 162, 20, 21, 22, 23, 24, 25, 26, 47, 48, 49, 50, 51, 52, 53, 54, 55, 56, 172, 167, 188,
     189, 190, 191, 192, 193, 194, 195, 196, 197, 198, 199, 200, 201, 202, 203]"
  by (simp only: objects_05_def nids.simps)

lemma nids_06: "nids objects_06 =
    [204, 205, 206, 207, 208, 209, 210, 211, 786, 787, 212, 213, 214, 215, 216, 217, 218, 219, 220,
     221, 222, 223, 224, 225, 226, 227, 228, 229, 230, 231, 232, 233, 234, 235, 236, 237, 238]"
  by (simp only: objects_06_def nids.simps)

lemma nids_07: "nids objects_07 =
    [239, 240, 241, 242, 243, 244, 245, 246, 247, 893, 248, 249, 250, 251, 252, 253, 254, 255, 256,
     156, 157, 417, 856, 158, 159, 160, 144, 145, 146, 147, 148, 149]"
  by (simp only: objects_07_def nids.simps)

lemma nids_08: "nids objects_08 =
    [150, 151, 152, 153, 154, 155, 3, 257, 4, 114, 797, 163, 798, 799, 800, 801, 37, 38, 39, 40, 98,
     166, 5, 97, 44, 120, 121, 122, 123, 171, 134, 135, 136, 137]"
  by (simp only: objects_08_def nids.simps)

lemma nids_09: "nids objects_09 =
    [138, 648, 649, 34, 36, 35, 46, 91, 92, 93, 94, 127, 258, 175, 259, 128, 260, 261, 262, 263,
     264, 265, 266, 267, 268, 662, 176, 269, 270, 271, 272, 273, 274, 275, 276, 277]"
  by (simp only: objects_09_def nids.simps)

lemma nids_10: "nids objects_10 =
    [278, 279, 280, 281, 282, 283, 284, 177, 285, 286, 287, 288, 289, 290, 291, 292, 397, 398, 663,
     164, 165, 293, 129, 130, 131, 132, 294, 295, 296, 133, 180, 297, 298]"
  by (simp only: objects_10_def nids.simps)

lemma nids_11: "nids objects_11 =
    [299, 300, 301, 302, 303, 304, 305, 306, 307, 308, 309, 310, 311, 312, 784, 313, 314, 315, 316,
     317, 318, 319, 320, 321, 322, 323, 324, 325, 326, 327, 328, 329, 330, 331, 332, 333, 334]"
  by (simp only: objects_11_def nids.simps)

lemma nids_12: "nids objects_12 =
    [335, 336, 337, 338, 339, 340, 341, 342, 343, 344, 345, 346, 347, 858, 348, 349, 351, 352, 353,
     354, 355, 356, 357, 358, 399, 359, 360, 361, 362, 664, 665, 667, 178, 179, 363]"
  by (simp only: objects_12_def nids.simps)

lemma nids_13: "nids objects_13 =
    [364, 785, 365, 366, 367, 368, 369, 370, 371, 372, 373, 374, 375, 376, 104, 29, 31, 45, 30, 377,
     67, 66, 42, 32, 33, 43, 60, 61, 62, 63, 80]"
  by (simp only: objects_13_def nids.simps)

lemma nids_14: "nids objects_14 =
    [41, 64, 70, 115, 117, 119, 143, 11, 12, 13, 100, 105, 14, 15, 16, 660, 17, 18, 106, 107, 859,
     860, 861, 661, 862, 863, 864, 865, 866, 867, 868, 869, 870]"
  by (simp only: objects_14_def nids.simps)

lemma nids_15: "nids objects_15 =
    [871, 872, 873, 874, 875, 876, 877, 878, 879, 880, 881, 882, 883, 884, 173, 99, 101, 509, 503,
     174, 885, 886, 887, 888, 889, 890, 891, 892, 510, 400, 378, 19, 96, 95, 81]"
  by (simp only: objects_15_def nids.simps)

lemma nids_16: "nids objects_16 =
    [769, 82, 83, 84, 85, 86, 87, 88, 141, 142, 140, 770, 771, 666, 103, 89, 746, 747, 90, 401, 126,
     857, 748, 402, 403, 910, 57, 58, 59, 71]"
  by (simp only: objects_16_def nids.simps)

lemma nids_17: "nids objects_17 =
    [72, 73, 74, 75, 76, 77, 78, 79, 139, 379, 380, 381, 382, 383, 384, 385, 386, 387, 388, 389,
     390, 504, 505, 506, 507, 508, 124, 125]"
  by (simp only: objects_17_def nids.simps)

lemma nids_18: "nids objects_18 =
    [418, 419, 420, 421, 788, 895, 896, 897, 422, 423, 424, 425, 789, 898, 899, 900, 426, 427, 428,
     429, 790, 901, 902, 903, 650, 651, 652, 653, 654, 655, 904, 905, 906]"
  by (simp only: objects_18_def nids.simps)

lemma nids_19: "nids objects_19 =
    [913, 914, 656, 657, 658, 659, 672, 673, 674, 675, 802, 803, 430, 431, 432, 433, 434, 435, 436,
     437, 438, 439, 440, 441, 442, 443, 444, 445, 446, 447, 448, 449, 392, 450]"
  by (simp only: objects_19_def nids.simps)

lemma nids_20: "nids objects_20 =
    [451, 452, 453, 454, 455, 456, 457, 458, 459, 460, 461, 462, 463, 464, 465, 466, 467, 468, 469,
     470, 471, 472, 473, 474, 475, 476, 477, 391, 478, 479, 480, 481, 482, 483, 484, 485, 486]"
  by (simp only: objects_20_def nids.simps)

lemma nids_21: "nids objects_21 =
    [487, 488, 489, 490, 491, 492, 493, 494, 495, 496, 497, 498, 499, 500, 501, 502, 512, 513, 514,
     515, 516, 517, 518, 519, 520, 521, 522, 523, 524, 525, 526, 527, 528, 529, 530, 531]"
  by (simp only: objects_21_def nids.simps)

lemma nids_22: "nids objects_22 =
    [532, 533, 534, 535, 536, 537, 538, 539, 540, 541, 542, 543, 544, 545, 546, 547, 548, 549, 550,
     551, 552, 553, 554, 555, 556, 557, 558, 559, 560, 561, 562, 563, 564, 565, 566, 567, 568]"
  by (simp only: objects_22_def nids.simps)

lemma nids_23: "nids objects_23 =
    [569, 570, 571, 572, 573, 574, 575, 576, 577, 578, 579, 580, 581, 582, 583, 584, 585, 586, 587,
     588, 589, 590, 591, 592, 593, 594, 595, 596, 597, 598, 599, 600, 601, 602, 603, 604, 605]"
  by (simp only: objects_23_def nids.simps)

lemma nids_24: "nids objects_24 =
    [606, 607, 608, 609, 610, 611, 612, 613, 614, 615, 616, 617, 618, 619, 620, 621, 622, 623, 624,
     625, 626, 627, 628, 629, 630, 631, 632, 633, 634, 635, 636, 637, 638, 639, 640]"
  by (simp only: objects_24_def nids.simps)

lemma nids_25: "nids objects_25 =
    [641, 642, 643, 644, 749, 750, 804, 805, 806, 807, 808, 809, 810, 811, 812, 813, 814, 815, 816,
     817, 818, 819, 820, 821, 822, 823, 824, 825, 826, 827, 828, 829, 830, 831, 832]"
  by (simp only: objects_25_def nids.simps)

lemma nids_26: "nids objects_26 =
    [833, 834, 835, 836, 837, 838, 839, 840, 841, 842, 843, 844, 845, 846, 847, 848, 849, 850, 851,
     852, 853, 854, 751, 752, 753, 907, 908, 909, 754, 766, 757, 755, 767]"
  by (simp only: objects_26_def nids.simps)

lemma nids_27: "nids objects_27 =
    [758, 756, 768, 759, 760, 761, 762, 763, 764, 765, 773, 776, 777, 779, 778, 855, 894, 915, 916,
     917, 918]"
  by (simp only: objects_27_def nids.simps)

lemmas nids_tables =
  nids_01 nids_02 nids_03 nids_04 nids_05 nids_06 nids_07 nids_08 nids_09
  nids_10 nids_11 nids_12 nids_13 nids_14 nids_15 nids_16 nids_17 nids_18
  nids_19 nids_20 nids_21 nids_22 nids_23 nids_24 nids_25 nids_26 nids_27

definition registry_nids :: "nat list" where
  "registry_nids = concat (map nids registry)"


definition nids_part_0 :: "nat list" where
  "nids_part_0 = nids objects_01 @ nids objects_02 @ nids objects_03 @ nids objects_04 @ nids objects_05 @ nids objects_06 @ nids objects_07"

lemma part_0: "nids_part_0 =
    [0, 645, 404, 181, 646, 393, 182, 676, 780, 781, 677, 647, 678, 679, 394, 395, 183, 184, 185,
     116, 113, 405, 406, 407, 680, 681, 682, 683, 408, 684, 685, 686, 687, 688, 689, 690, 691, 692,
     693, 694, 695, 696, 697, 698, 699, 700, 701, 702, 703, 409, 410, 411, 412, 413, 414, 415, 416,
     791, 792, 793, 794, 795, 796, 704, 705, 706, 707, 708, 709, 710, 711, 712, 713, 714, 715, 716,
     717, 718, 719, 720, 721, 722, 723, 724, 725, 726, 727, 728, 729, 730, 731, 732, 733, 734, 735,
     736, 737, 738, 739, 740, 741, 742, 743, 744, 745, 108, 109, 110, 111, 112, 782, 783, 1, 2, 186,
     6, 7, 396, 8, 65, 919, 911, 912, 668, 669, 670, 671, 27, 28, 187, 9, 10, 168, 169, 170, 68, 69,
     161, 162, 20, 21, 22, 23, 24, 25, 26, 47, 48, 49, 50, 51, 52, 53, 54, 55, 56, 172, 167, 188,
     189, 190, 191, 192, 193, 194, 195, 196, 197, 198, 199, 200, 201, 202, 203, 204, 205, 206, 207,
     208, 209, 210, 211, 786, 787, 212, 213, 214, 215, 216, 217, 218, 219, 220, 221, 222, 223, 224,
     225, 226, 227, 228, 229, 230, 231, 232, 233, 234, 235, 236, 237, 238, 239, 240, 241, 242, 243,
     244, 245, 246, 247, 893, 248, 249, 250, 251, 252, 253, 254, 255, 256, 156, 157, 417, 856, 158,
     159, 160, 144, 145, 146, 147, 148, 149]"
  by (simp only: nids_part_0_def nids_tables append.simps)

lemma distinct_part_0: "distinct nids_part_0"
  by (simp add: part_0)

lemma small_part_0: "list_all (\<lambda>n. n < 920) nids_part_0"
  by (simp add: part_0)

definition nids_part_1 :: "nat list" where
  "nids_part_1 = nids objects_08 @ nids objects_09 @ nids objects_10 @ nids objects_11 @ nids objects_12 @ nids objects_13 @ nids objects_14"

lemma part_1: "nids_part_1 =
    [150, 151, 152, 153, 154, 155, 3, 257, 4, 114, 797, 163, 798, 799, 800, 801, 37, 38, 39, 40, 98,
     166, 5, 97, 44, 120, 121, 122, 123, 171, 134, 135, 136, 137, 138, 648, 649, 34, 36, 35, 46, 91,
     92, 93, 94, 127, 258, 175, 259, 128, 260, 261, 262, 263, 264, 265, 266, 267, 268, 662, 176,
     269, 270, 271, 272, 273, 274, 275, 276, 277, 278, 279, 280, 281, 282, 283, 284, 177, 285, 286,
     287, 288, 289, 290, 291, 292, 397, 398, 663, 164, 165, 293, 129, 130, 131, 132, 294, 295, 296,
     133, 180, 297, 298, 299, 300, 301, 302, 303, 304, 305, 306, 307, 308, 309, 310, 311, 312, 784,
     313, 314, 315, 316, 317, 318, 319, 320, 321, 322, 323, 324, 325, 326, 327, 328, 329, 330, 331,
     332, 333, 334, 335, 336, 337, 338, 339, 340, 341, 342, 343, 344, 345, 346, 347, 858, 348, 349,
     351, 352, 353, 354, 355, 356, 357, 358, 399, 359, 360, 361, 362, 664, 665, 667, 178, 179, 363,
     364, 785, 365, 366, 367, 368, 369, 370, 371, 372, 373, 374, 375, 376, 104, 29, 31, 45, 30, 377,
     67, 66, 42, 32, 33, 43, 60, 61, 62, 63, 80, 41, 64, 70, 115, 117, 119, 143, 11, 12, 13, 100,
     105, 14, 15, 16, 660, 17, 18, 106, 107, 859, 860, 861, 661, 862, 863, 864, 865, 866, 867, 868,
     869, 870]"
  by (simp only: nids_part_1_def nids_tables append.simps)

lemma distinct_part_1: "distinct nids_part_1"
  by (simp add: part_1)

lemma small_part_1: "list_all (\<lambda>n. n < 920) nids_part_1"
  by (simp add: part_1)

definition nids_part_2 :: "nat list" where
  "nids_part_2 = nids objects_15 @ nids objects_16 @ nids objects_17 @ nids objects_18 @ nids objects_19 @ nids objects_20"

lemma part_2: "nids_part_2 =
    [871, 872, 873, 874, 875, 876, 877, 878, 879, 880, 881, 882, 883, 884, 173, 99, 101, 509, 503,
     174, 885, 886, 887, 888, 889, 890, 891, 892, 510, 400, 378, 19, 96, 95, 81, 769, 82, 83, 84,
     85, 86, 87, 88, 141, 142, 140, 770, 771, 666, 103, 89, 746, 747, 90, 401, 126, 857, 748, 402,
     403, 910, 57, 58, 59, 71, 72, 73, 74, 75, 76, 77, 78, 79, 139, 379, 380, 381, 382, 383, 384,
     385, 386, 387, 388, 389, 390, 504, 505, 506, 507, 508, 124, 125, 418, 419, 420, 421, 788, 895,
     896, 897, 422, 423, 424, 425, 789, 898, 899, 900, 426, 427, 428, 429, 790, 901, 902, 903, 650,
     651, 652, 653, 654, 655, 904, 905, 906, 913, 914, 656, 657, 658, 659, 672, 673, 674, 675, 802,
     803, 430, 431, 432, 433, 434, 435, 436, 437, 438, 439, 440, 441, 442, 443, 444, 445, 446, 447,
     448, 449, 392, 450, 451, 452, 453, 454, 455, 456, 457, 458, 459, 460, 461, 462, 463, 464, 465,
     466, 467, 468, 469, 470, 471, 472, 473, 474, 475, 476, 477, 391, 478, 479, 480, 481, 482, 483,
     484, 485, 486]"
  by (simp only: nids_part_2_def nids_tables append.simps)

lemma distinct_part_2: "distinct nids_part_2"
  by (simp add: part_2)

lemma small_part_2: "list_all (\<lambda>n. n < 920) nids_part_2"
  by (simp add: part_2)

definition nids_part_3 :: "nat list" where
  "nids_part_3 = nids objects_21 @ nids objects_22 @ nids objects_23 @ nids objects_24 @ nids objects_25 @ nids objects_26 @ nids objects_27"

lemma part_3: "nids_part_3 =
    [487, 488, 489, 490, 491, 492, 493, 494, 495, 496, 497, 498, 499, 500, 501, 502, 512, 513, 514,
     515, 516, 517, 518, 519, 520, 521, 522, 523, 524, 525, 526, 527, 528, 529, 530, 531, 532, 533,
     534, 535, 536, 537, 538, 539, 540, 541, 542, 543, 544, 545, 546, 547, 548, 549, 550, 551, 552,
     553, 554, 555, 556, 557, 558, 559, 560, 561, 562, 563, 564, 565, 566, 567, 568, 569, 570, 571,
     572, 573, 574, 575, 576, 577, 578, 579, 580, 581, 582, 583, 584, 585, 586, 587, 588, 589, 590,
     591, 592, 593, 594, 595, 596, 597, 598, 599, 600, 601, 602, 603, 604, 605, 606, 607, 608, 609,
     610, 611, 612, 613, 614, 615, 616, 617, 618, 619, 620, 621, 622, 623, 624, 625, 626, 627, 628,
     629, 630, 631, 632, 633, 634, 635, 636, 637, 638, 639, 640, 641, 642, 643, 644, 749, 750, 804,
     805, 806, 807, 808, 809, 810, 811, 812, 813, 814, 815, 816, 817, 818, 819, 820, 821, 822, 823,
     824, 825, 826, 827, 828, 829, 830, 831, 832, 833, 834, 835, 836, 837, 838, 839, 840, 841, 842,
     843, 844, 845, 846, 847, 848, 849, 850, 851, 852, 853, 854, 751, 752, 753, 907, 908, 909, 754,
     766, 757, 755, 767, 758, 756, 768, 759, 760, 761, 762, 763, 764, 765, 773, 776, 777, 779, 778,
     855, 894, 915, 916, 917, 918]"
  by (simp only: nids_part_3_def nids_tables append.simps)

lemma distinct_part_3: "distinct nids_part_3"
  by (simp add: part_3)

lemma small_part_3: "list_all (\<lambda>n. n < 920) nids_part_3"
  by (simp add: part_3)

lemma disjoint_0_1: "list_all (\<lambda>n. n \<notin> set nids_part_0) nids_part_1"
  by (simp add: part_0 part_1)

lemma disjoint_0_2: "list_all (\<lambda>n. n \<notin> set nids_part_0) nids_part_2"
  by (simp add: part_0 part_2)

lemma disjoint_0_3: "list_all (\<lambda>n. n \<notin> set nids_part_0) nids_part_3"
  by (simp add: part_0 part_3)

lemma disjoint_1_2: "list_all (\<lambda>n. n \<notin> set nids_part_1) nids_part_2"
  by (simp add: part_1 part_2)

lemma disjoint_1_3: "list_all (\<lambda>n. n \<notin> set nids_part_1) nids_part_3"
  by (simp add: part_1 part_3)

lemma disjoint_2_3: "list_all (\<lambda>n. n \<notin> set nids_part_2) nids_part_3"
  by (simp add: part_2 part_3)

lemma registry_nids_parts: "registry_nids = nids_part_0 @ nids_part_1 @ nids_part_2 @ nids_part_3"
  by (simp add: registry_nids_def registry_def nids_part_0_def nids_part_1_def nids_part_2_def nids_part_3_def)

lemmas disjoint_parts = disjoint_0_1 disjoint_0_2 disjoint_0_3 disjoint_1_2 disjoint_1_3 disjoint_2_3

section \<open>Identifiers\<close>

text \<open>
  An \<open>OBJ_\<close> macro expands to the numbers of its identifier, the macros in it included. The header
  declares every macro it uses above the use, so that the expansion of \<open>OBJ_\<close> of an entry can be computed
  from the entries above it; \<open>oid\<close> takes them latest first.
\<close>

fun expand :: "(string \<Rightarrow> nat list option) \<Rightarrow> oid_part list \<Rightarrow> nat list option" where
  "expand f [] = Some []"
| "expand f (Arc a # ps) = map_option (Cons a) (expand f ps)"
| "expand f (Ref r # ps) = (case f r of None \<Rightarrow> None | Some as \<Rightarrow> map_option (append as) (expand f ps))"

fun oid :: "registry_entry list \<Rightarrow> string \<Rightarrow> nat list option" where
  "oid [] r = None"
| "oid (Entry m sn ln n b # es) r = (if r = m then expand (oid es) b else oid es r)"

fun part_known :: "string list \<Rightarrow> oid_part \<Rightarrow> bool" where
  "part_known seen (Ref r) = (r \<in> set seen)"
| "part_known seen (Arc a) = True"

fun refs_known :: "string list \<Rightarrow> registry_entry list \<Rightarrow> bool" where
  "refs_known seen [] = True"
| "refs_known seen (Entry m sn ln n b # es) = (list_all (part_known seen) b \<and> refs_known (m # seen) es)"

fun tables_known :: "string list \<Rightarrow> registry_entry list list \<Rightarrow> bool" where
  "tables_known seen [] = True"
| "tables_known seen (t # ts) = (refs_known seen t \<and> tables_known (rev (map macro t) @ seen) ts)"

lemma part_known_mono: "part_known seen p \<Longrightarrow> set seen \<subseteq> set seen' \<Longrightarrow> part_known seen' p"
  by (cases p) auto

lemma refs_known_mono: "refs_known seen es \<Longrightarrow> set seen \<subseteq> set seen' \<Longrightarrow> refs_known seen' es"
  by (induction seen es arbitrary: seen' rule: refs_known.induct)
    (auto simp: list_all_iff subset_iff intro: part_known_mono)

lemma refs_known_append: "refs_known seen (xs @ ys) \<longleftrightarrow> refs_known seen xs \<and> refs_known (rev (map macro xs) @ seen) ys"
  by (induction seen xs rule: refs_known.induct) auto

lemma tables_known_concat: "tables_known seen ts \<longleftrightarrow> refs_known seen (concat ts)"
  by (induction seen ts rule: tables_known.induct) (simp_all add: refs_known_append)

lemma expand_known: "list_all (part_known seen) b \<Longrightarrow> \<forall>r \<in> set seen. f r \<noteq> None \<Longrightarrow> expand f b \<noteq> None"
  by (induction f b rule: expand.induct) auto

lemma known_expands:
  "refs_known seen (xs @ Entry m sn ln n b # ys) \<Longrightarrow> \<forall>r \<in> set seen. oid prev r \<noteq> None \<Longrightarrow> expand (oid (rev xs @ prev)) b \<noteq> None"
proof (induction xs arbitrary: seen prev)
  case Nil
  then show ?case using expand_known [of seen b "oid prev"] by simp
next
  case (Cons x xs)
  obtain m' sn' ln' n' b' where x: "x = Entry m' sn' ln' n' b'" by (cases x)
  from Cons.prems have "list_all (part_known seen) b'" "refs_known (m' # seen) (xs @ Entry m sn ln n b # ys)" by (simp_all add: x)
  moreover from this(1) Cons.prems(2) have "expand (oid prev) b' \<noteq> None" by (rule expand_known)
  then have "\<forall>r \<in> set (m' # seen). oid (x # prev) r \<noteq> None" using Cons.prems(2) by (simp add: x)
  ultimately have "expand (oid (rev xs @ x # prev)) b \<noteq> None" by (intro Cons.IH)
  then show ?case by simp
qed

text \<open>The references of each table, to itself and to the tables above.\<close>

lemma refs_01: "refs_known [] objects_01"
  by (simp add: objects_01_def)

lemma refs_02: "refs_known [''X9_62_c_TwoCurve'', ''X9_62_ellipticCurve'', ''ansi_X9_62'', ''certicom_arc''] objects_02"
  by (simp add: objects_02_def)

lemma refs_03: "refs_known [''secg_ellipticCurve'', ''wap_wsg''] objects_03"
  by (simp add: objects_03_def)

lemma refs_04: "refs_known [''ISO_US''] objects_04"
  by (simp add: objects_04_def)

lemma refs_05: "refs_known [''pkcs5'', ''pkcs''] objects_05"
  by (simp add: objects_05_def)

lemma refs_06: "refs_known [''id_smime_ct'', ''id_smime_aa''] objects_06"
  by (simp add: objects_06_def)

lemma refs_07: "refs_known [''id_smime_aa'', ''id_smime_alg'', ''id_smime_cd'', ''id_smime_spq'', ''id_smime_cti'', ''pkcs9'', ''pkcs''] objects_07"
  by (simp add: objects_07_def)

lemma refs_08: "refs_known [''pkcs12_BagIds'', ''rsadsi''] objects_08"
  by (simp add: objects_08_def)

lemma refs_09: "refs_known [] objects_09"
  by (simp add: objects_09_def)

lemma refs_10: "refs_known [''id_pkix_mod'', ''id_pe'', ''id_qt'', ''id_kp'', ''id_it''] objects_10"
  by (simp add: objects_10_def)

lemma refs_11: "refs_known [''id_it'', ''id_pkip'', ''id_alg'', ''id_cmc''] objects_11"
  by (simp add: objects_11_def)

lemma refs_12: "refs_known [''id_cmc'', ''id_on'', ''id_pda'', ''id_aca'', ''id_qcs'', ''id_cct'', ''id_ppl'', ''id_ad''] objects_12"
  by (simp add: objects_12_def)

lemma refs_13: "refs_known [''id_ad'', ''ad_OCSP''] objects_13"
  by (simp add: objects_13_def)

lemma refs_14: "refs_known [''algorithm''] objects_14"
  by (simp add: objects_14_def)

lemma refs_15: "refs_known [''X509'', ''X500''] objects_15"
  by (simp add: objects_15_def)

lemma refs_16: "refs_known [''id_ce''] objects_16"
  by (simp add: objects_16_def)

lemma refs_17: "refs_known [''netscape_cert_extension'', ''netscape_data_type'', ''netscape'', ''iso'', ''id_smime_alg''] objects_17"
  by (simp add: objects_17_def)

lemma refs_18: "refs_known [''aes''] objects_18"
  by (simp add: objects_18_def)

lemma refs_19: "refs_known [''nistAlgorithms'', ''id_ce'', ''X9_57'', ''itu_t''] objects_19"
  by (simp add: objects_19_def)

lemma refs_20: "refs_known [''pilotObjectClass'', ''pilotAttributeType''] objects_20"
  by (simp add: objects_20_def)

lemma refs_21: "refs_known [''pilotAttributeType'', ''international_organizations''] objects_21"
  by (simp add: objects_21_def)

lemma refs_22: "refs_known [''set_ctype''] objects_22"
  by (simp add: objects_22_def)

lemma refs_23: "refs_known [''set_ctype'', ''set_msgExt''] objects_23"
  by (simp add: objects_23_def)

lemma refs_24: "refs_known [''set_msgExt'', ''set_policy'', ''set_certExt'', ''set_attr'', ''set_brand''] objects_24"
  by (simp add: objects_24_def)

lemma refs_25: "refs_known [''set_brand'', ''rsadsi'', ''iso'', ''member_body''] objects_25"
  by (simp add: objects_25_def)

lemma refs_26: "refs_known [''cryptopro'', ''id_GostR3410_94'', ''cryptocom''] objects_26"
  by (simp add: objects_26_def)

lemma refs_27: "refs_known [''camellia'', ''member_body''] objects_27"
  by (simp add: objects_27_def)

lemma above_01:
  "''ISO_US'' \<in> macro ` set objects_01"
  "''X9_57'' \<in> macro ` set objects_01"
  "''X9_62_c_TwoCurve'' \<in> macro ` set objects_01"
  "''X9_62_ellipticCurve'' \<in> macro ` set objects_01"
  "''ansi_X9_62'' \<in> macro ` set objects_01"
  "''certicom_arc'' \<in> macro ` set objects_01"
  "''international_organizations'' \<in> macro ` set objects_01"
  "''iso'' \<in> macro ` set objects_01"
  "''itu_t'' \<in> macro ` set objects_01"
  "''member_body'' \<in> macro ` set objects_01"
  "''wap_wsg'' \<in> macro ` set objects_01"
  by (simp_all add: objects_01_def)

lemma above_02:
  "''secg_ellipticCurve'' \<in> macro ` set objects_02"
  by (simp_all add: objects_02_def)

lemma above_04:
  "''pkcs'' \<in> macro ` set objects_04"
  "''pkcs5'' \<in> macro ` set objects_04"
  "''rsadsi'' \<in> macro ` set objects_04"
  by (simp_all add: objects_04_def)

lemma above_05:
  "''id_smime_aa'' \<in> macro ` set objects_05"
  "''id_smime_alg'' \<in> macro ` set objects_05"
  "''id_smime_cd'' \<in> macro ` set objects_05"
  "''id_smime_ct'' \<in> macro ` set objects_05"
  "''id_smime_cti'' \<in> macro ` set objects_05"
  "''id_smime_spq'' \<in> macro ` set objects_05"
  "''pkcs9'' \<in> macro ` set objects_05"
  by (simp_all add: objects_05_def)

lemma above_07:
  "''pkcs12_BagIds'' \<in> macro ` set objects_07"
  by (simp_all add: objects_07_def)

lemma above_09:
  "''id_aca'' \<in> macro ` set objects_09"
  "''id_ad'' \<in> macro ` set objects_09"
  "''id_alg'' \<in> macro ` set objects_09"
  "''id_cct'' \<in> macro ` set objects_09"
  "''id_cmc'' \<in> macro ` set objects_09"
  "''id_it'' \<in> macro ` set objects_09"
  "''id_kp'' \<in> macro ` set objects_09"
  "''id_on'' \<in> macro ` set objects_09"
  "''id_pda'' \<in> macro ` set objects_09"
  "''id_pe'' \<in> macro ` set objects_09"
  "''id_pkip'' \<in> macro ` set objects_09"
  "''id_pkix_mod'' \<in> macro ` set objects_09"
  "''id_ppl'' \<in> macro ` set objects_09"
  "''id_qcs'' \<in> macro ` set objects_09"
  "''id_qt'' \<in> macro ` set objects_09"
  by (simp_all add: objects_09_def)

lemma above_12:
  "''ad_OCSP'' \<in> macro ` set objects_12"
  by (simp_all add: objects_12_def)

lemma above_13:
  "''algorithm'' \<in> macro ` set objects_13"
  by (simp_all add: objects_13_def)

lemma above_14:
  "''X500'' \<in> macro ` set objects_14"
  "''X509'' \<in> macro ` set objects_14"
  by (simp_all add: objects_14_def)

lemma above_15:
  "''id_ce'' \<in> macro ` set objects_15"
  by (simp_all add: objects_15_def)

lemma above_16:
  "''netscape'' \<in> macro ` set objects_16"
  "''netscape_cert_extension'' \<in> macro ` set objects_16"
  "''netscape_data_type'' \<in> macro ` set objects_16"
  by (simp_all add: objects_16_def)

lemma above_17:
  "''aes'' \<in> macro ` set objects_17"
  "''nistAlgorithms'' \<in> macro ` set objects_17"
  by (simp_all add: objects_17_def)

lemma above_19:
  "''pilotAttributeType'' \<in> macro ` set objects_19"
  "''pilotObjectClass'' \<in> macro ` set objects_19"
  by (simp_all add: objects_19_def)

lemma above_21:
  "''set_attr'' \<in> macro ` set objects_21"
  "''set_brand'' \<in> macro ` set objects_21"
  "''set_certExt'' \<in> macro ` set objects_21"
  "''set_ctype'' \<in> macro ` set objects_21"
  "''set_msgExt'' \<in> macro ` set objects_21"
  "''set_policy'' \<in> macro ` set objects_21"
  by (simp_all add: objects_21_def)

lemma above_25:
  "''cryptocom'' \<in> macro ` set objects_25"
  "''cryptopro'' \<in> macro ` set objects_25"
  "''id_GostR3410_94'' \<in> macro ` set objects_25"
  by (simp_all add: objects_25_def)

lemma above_26:
  "''camellia'' \<in> macro ` set objects_26"
  by (simp_all add: objects_26_def)

lemmas above = above_01 above_02 above_04 above_05 above_07 above_09 above_12 above_13 above_14 above_15 above_16 above_17 above_19 above_21 above_25 above_26

lemma registry_known: "tables_known [] registry"
  unfolding registry_def
  by (simp only: tables_known.simps, intro conjI TrueI)
    (rule refs_known_mono [OF refs_01], simp add: above,
     rule refs_known_mono [OF refs_02], simp add: above,
     rule refs_known_mono [OF refs_03], simp add: above,
     rule refs_known_mono [OF refs_04], simp add: above,
     rule refs_known_mono [OF refs_05], simp add: above,
     rule refs_known_mono [OF refs_06], simp add: above,
     rule refs_known_mono [OF refs_07], simp add: above,
     rule refs_known_mono [OF refs_08], simp add: above,
     rule refs_known_mono [OF refs_09], simp add: above,
     rule refs_known_mono [OF refs_10], simp add: above,
     rule refs_known_mono [OF refs_11], simp add: above,
     rule refs_known_mono [OF refs_12], simp add: above,
     rule refs_known_mono [OF refs_13], simp add: above,
     rule refs_known_mono [OF refs_14], simp add: above,
     rule refs_known_mono [OF refs_15], simp add: above,
     rule refs_known_mono [OF refs_16], simp add: above,
     rule refs_known_mono [OF refs_17], simp add: above,
     rule refs_known_mono [OF refs_18], simp add: above,
     rule refs_known_mono [OF refs_19], simp add: above,
     rule refs_known_mono [OF refs_20], simp add: above,
     rule refs_known_mono [OF refs_21], simp add: above,
     rule refs_known_mono [OF refs_22], simp add: above,
     rule refs_known_mono [OF refs_23], simp add: above,
     rule refs_known_mono [OF refs_24], simp add: above,
     rule refs_known_mono [OF refs_25], simp add: above,
     rule refs_known_mono [OF refs_26], simp add: above,
     rule refs_known_mono [OF refs_27], simp add: above)

lemma parts_of_registry: "concat registry = xs @ x # ys \<Longrightarrow> expand (oid (rev xs)) (body x) \<noteq> None"
  using known_expands [of "[]" xs _ _ _ _ _ ys "[]"] registry_known
  by (cases x) (simp add: tables_known_concat)

text \<open>
  Claim C38. The 913 numeric ids of the registry are pairwise distinct and below 920: an id names one
  object, and a table of 920 entries indexed by them has room for each.
\<close>

theorem nids_distinct: "distinct registry_nids \<and> list_all (\<lambda>n. n < 920) registry_nids \<and> length registry_nids = 913"
proof (intro conjI)
  show "distinct registry_nids"
    using disjoint_parts
    by (auto simp: registry_nids_parts distinct_part_0 distinct_part_1 distinct_part_2 distinct_part_3 list_all_iff)
  show "list_all (\<lambda>n. n < 920) registry_nids"
    by (simp add: registry_nids_parts small_part_0 small_part_1 small_part_2 small_part_3)
  show "length registry_nids = 913"
    by (simp add: registry_nids_parts part_0 part_1 part_2 part_3)
qed

end
