(* ===== verification/Error_Registry.thy ===== *)
theory Error_Registry
  imports Error_Codes
begin

text \<open>
  Error codes as OpenSSL packs them (the macros of \<open>native/include/openssl/err.h\<close>): a library, a function
  and a reason in one \<open>unsigned long\<close> of 64 bits, and the reasons all libraries share. With the tables
  of the headers a packed code can be read back in one way only.
\<close>

unbundle bit_operations_syntax

section \<open>The macros\<close>

definition ERR_PACK :: "64 word \<Rightarrow> 64 word \<Rightarrow> 64 word \<Rightarrow> 64 word" where
  "ERR_PACK l f r = ((l AND 0xff) * 0x1000000) OR ((f AND 0xfff) * 0x1000) OR (r AND 0xfff)"

definition ERR_GET_LIB :: "64 word \<Rightarrow> 32 word" where
  "ERR_GET_LIB l = ucast (drop_bit 24 l AND 0xff)"

definition ERR_GET_FUNC :: "64 word \<Rightarrow> 32 word" where
  "ERR_GET_FUNC l = ucast (drop_bit 12 l AND 0xfff)"

definition ERR_GET_REASON :: "64 word \<Rightarrow> 32 word" where
  "ERR_GET_REASON l = ucast (l AND 0xfff)"

definition ERR_R_FATAL :: nat where "ERR_R_FATAL = 64"

definition ERR_FATAL_ERROR :: "64 word \<Rightarrow> 32 word" where
  "ERR_FATAL_ERROR l = ucast (l AND of_nat ERR_R_FATAL)"

text \<open>The reasons of every library: an error of another library, and the common ones.\<close>

definition general_reasons :: codes where
  "general_reasons =
    map (\<lambda>n. (n @ ''_LIB'', ERR_LIB n))
      [''SYS'', ''BN'', ''RSA'', ''DH'', ''EVP'', ''BUF'', ''OBJ'', ''PEM'', ''DSA'', ''X509'', ''ASN1'', ''CONF'', ''CRYPTO'',
       ''EC'', ''SSL'', ''BIO'', ''PKCS7'', ''X509V3'', ''PKCS12'', ''RAND'', ''DSO'', ''ENGINE'', ''OCSP'', ''UI'', ''COMP'',
       ''ECDSA'', ''ECDH'', ''STORE'', ''TS'']
    @ [(''NESTED_ASN1_ERROR'', 58), (''BAD_ASN1_OBJECT_HEADER'', 59), (''BAD_GET_ASN1_OBJECT_CALL'', 60),
       (''EXPECTING_AN_ASN1_SEQUENCE'', 61), (''ASN1_LENGTH_MISMATCH'', 62), (''MISSING_ASN1_EOS'', 63),
       (''FATAL'', ERR_R_FATAL), (''MALLOC_FAILURE'', 1 OR ERR_R_FATAL),
       (''SHOULD_NOT_HAVE_BEEN_CALLED'', 2 OR ERR_R_FATAL), (''PASSED_NULL_PARAMETER'', 3 OR ERR_R_FATAL),
       (''INTERNAL_ERROR'', 4 OR ERR_R_FATAL), (''DISABLED'', 5 OR ERR_R_FATAL)]"

section \<open>Packing\<close>

text \<open>The parts of a packed code are the lowest 8, 12 and 12 bits of what was packed.\<close>

lemma masks: "(0xff :: 64 word) = mask 8" "(0xfff :: 64 word) = mask 12"
  by (simp_all add: mask_eq_exp_minus_1)

lemma pack_bits:
  "ERR_PACK l f r = push_bit 24 (take_bit 8 l) OR push_bit 12 (take_bit 12 f) OR take_bit 12 r"
  by (simp add: ERR_PACK_def masks take_bit_eq_mask push_bit_eq_mult mult.commute)

lemma pack_parts:
  "ERR_GET_LIB (ERR_PACK l f r) = ucast (take_bit 8 l)"
  "ERR_GET_FUNC (ERR_PACK l f r) = ucast (take_bit 12 f)"
  "ERR_GET_REASON (ERR_PACK l f r) = ucast (take_bit 12 r)"
  unfolding ERR_GET_LIB_def ERR_GET_FUNC_def ERR_GET_REASON_def pack_bits masks
  by (rule arg_cong [where f = ucast], rule bit_word_eqI, auto simp: bit_simps)+

lemma small_part:
  assumes "n < 2 ^ k" and "k \<le> 32"
  shows "unat (ucast (take_bit k (of_nat n :: 64 word)) :: 32 word) = n"
proof -
  have "take_bit (min k 32) n = n" using assms by (intro take_bit_nat_eq_self) (simp add: min_def)
  then show ?thesis by (simp add: unsigned_ucast_eq unsigned_take_bit_eq unsigned_of_nat take_bit_take_bit)
qed

section \<open>Reading a code\<close>

text \<open>
  What a packed code stands for: its library, and in the tables of the library the names of the
  function and of the reason, which may be one of its own or a general one.
\<close>

definition code_name :: "codes \<Rightarrow> nat \<Rightarrow> string option" where
  "code_name cs n = map_option fst (List.find (\<lambda>c. snd c = n) cs)"

definition read_code :: "64 word \<Rightarrow> (string \<times> string option \<times> string option) option" where
  "read_code e =
     map_option (\<lambda>l. (el_name l, code_name (el_functions l) (unat (ERR_GET_FUNC e)),
                      code_name (el_reasons l @ general_reasons) (unat (ERR_GET_REASON e))))
       (List.find (\<lambda>l. el_number l = unat (ERR_GET_LIB e)) error_libraries)"

lemma code_name_distinct:
  assumes "distinct (map snd cs)" and "(s, n) \<in> set cs"
  shows "code_name cs n = Some s"
proof -
  obtain c where c: "List.find (\<lambda>c. snd c = n) cs = Some c" using assms(2) by (cases "List.find (\<lambda>c. snd c = n) cs") (auto simp: find_None_iff)
  then have "c \<in> set cs" "snd c = n" by (auto simp: find_Some_iff)
  have "inj_on snd (set cs)" using assms(1) by (simp add: distinct_map)
  from inj_onD [OF this _ \<open>c \<in> set cs\<close> assms(2)] \<open>snd c = n\<close> have "c = (s, n)" by simp
  then show ?thesis by (simp add: code_name_def c)
qed

lemma find_distinct:
  assumes "distinct (map f xs)" and "x \<in> set xs"
  shows "List.find (\<lambda>y. f y = f x) xs = Some x"
proof -
  obtain y where y: "List.find (\<lambda>y. f y = f x) xs = Some y" using assms(2) by (cases "List.find (\<lambda>y. f y = f x) xs") (auto simp: find_None_iff)
  then have "y \<in> set xs" "f y = f x" by (auto simp: find_Some_iff)
  moreover have "inj_on f (set xs)" using assms(1) by (simp add: distinct_map)
  ultimately have "y = x" using assms(2) by (auto dest: inj_onD)
  with y show ?thesis by simp
qed

section \<open>The tables\<close>

text \<open>In every table each number is used once and fits its field, and a reason of a library is not a general one.\<close>

definition numbers_ok :: "codes \<Rightarrow> bool" where
  "numbers_ok cs \<longleftrightarrow> distinct (map snd cs) \<and> list_all (\<lambda>c. snd c < 4096) cs"

definition own_reasons :: "codes \<Rightarrow> bool" where
  "own_reasons cs \<longleftrightarrow> list_all (\<lambda>c. 99 \<le> snd c) cs"

definition library_ok :: "error_library \<Rightarrow> bool" where
  "library_ok l \<longleftrightarrow> el_number l < 256 \<and> numbers_ok (el_functions l) \<and> numbers_ok (el_reasons l) \<and> own_reasons (el_reasons l)"

lemmas ok_defs = numbers_ok_def own_reasons_def

lemma table_SSL: "numbers_ok (functions_SSL_1 @ functions_SSL_2)" "numbers_ok (reasons_SSL_1 @ reasons_SSL_2)"
    "own_reasons (reasons_SSL_1 @ reasons_SSL_2)"
  by (simp_all add: ok_defs functions_SSL_1_def functions_SSL_2_def reasons_SSL_1_def reasons_SSL_2_def)

lemma tables_1:
  "numbers_ok functions_ASN1" "numbers_ok reasons_ASN1" "own_reasons reasons_ASN1" "numbers_ok functions_BIO"
  "numbers_ok reasons_BIO" "own_reasons reasons_BIO" "numbers_ok functions_BN" "numbers_ok reasons_BN"
  "own_reasons reasons_BN" "numbers_ok functions_BUF" "numbers_ok functions_CMS"
  by (simp_all add: ok_defs functions_ASN1_def reasons_ASN1_def functions_BIO_def reasons_BIO_def functions_BN_def reasons_BN_def functions_BUF_def functions_CMS_def)

lemma tables_2:
  "numbers_ok reasons_CMS" "own_reasons reasons_CMS" "numbers_ok functions_COMP" "numbers_ok reasons_COMP"
  "own_reasons reasons_COMP" "numbers_ok functions_CONF" "numbers_ok reasons_CONF" "own_reasons reasons_CONF"
  "numbers_ok functions_CRYPTO" "numbers_ok reasons_CRYPTO" "own_reasons reasons_CRYPTO" "numbers_ok functions_DH"
  by (simp_all add: ok_defs reasons_CMS_def functions_COMP_def reasons_COMP_def functions_CONF_def reasons_CONF_def functions_CRYPTO_def reasons_CRYPTO_def functions_DH_def)

lemma tables_3:
  "numbers_ok reasons_DH" "own_reasons reasons_DH" "numbers_ok functions_DSA" "numbers_ok reasons_DSA"
  "own_reasons reasons_DSA" "numbers_ok functions_DSO" "numbers_ok reasons_DSO" "own_reasons reasons_DSO"
  "numbers_ok functions_EC" "numbers_ok reasons_EC" "own_reasons reasons_EC" "numbers_ok functions_ECDH"
  by (simp_all add: ok_defs reasons_DH_def functions_DSA_def reasons_DSA_def functions_DSO_def reasons_DSO_def functions_EC_def reasons_EC_def functions_ECDH_def)

lemma tables_4:
  "numbers_ok reasons_ECDH" "own_reasons reasons_ECDH" "numbers_ok functions_ECDSA" "numbers_ok reasons_ECDSA"
  "own_reasons reasons_ECDSA" "numbers_ok functions_ENGINE" "numbers_ok reasons_ENGINE" "own_reasons reasons_ENGINE"
  "numbers_ok functions_SYS" "numbers_ok functions_EVP" "numbers_ok reasons_EVP" "own_reasons reasons_EVP"
  by (simp_all add: ok_defs reasons_ECDH_def functions_ECDSA_def reasons_ECDSA_def functions_ENGINE_def reasons_ENGINE_def functions_SYS_def functions_EVP_def reasons_EVP_def)

lemma tables_5:
  "numbers_ok functions_OBJ" "numbers_ok reasons_OBJ" "own_reasons reasons_OBJ" "numbers_ok functions_OCSP"
  "numbers_ok reasons_OCSP" "own_reasons reasons_OCSP" "numbers_ok functions_PEM" "numbers_ok reasons_PEM"
  "own_reasons reasons_PEM" "numbers_ok functions_PKCS12" "numbers_ok reasons_PKCS12" "own_reasons reasons_PKCS12"
  by (simp_all add: ok_defs functions_OBJ_def reasons_OBJ_def functions_OCSP_def reasons_OCSP_def functions_PEM_def reasons_PEM_def functions_PKCS12_def reasons_PKCS12_def)

lemma tables_6:
  "numbers_ok functions_PKCS7" "numbers_ok reasons_PKCS7" "own_reasons reasons_PKCS7" "numbers_ok functions_RAND"
  "numbers_ok reasons_RAND" "own_reasons reasons_RAND" "numbers_ok functions_RSA" "numbers_ok reasons_RSA"
  "own_reasons reasons_RSA" "numbers_ok functions_TS" "numbers_ok reasons_TS" "own_reasons reasons_TS"
  by (simp_all add: ok_defs functions_PKCS7_def reasons_PKCS7_def functions_RAND_def reasons_RAND_def functions_RSA_def reasons_RSA_def functions_TS_def reasons_TS_def)

lemma tables_7:
  "numbers_ok functions_UI" "numbers_ok reasons_UI" "own_reasons reasons_UI" "numbers_ok functions_X509"
  "numbers_ok reasons_X509" "own_reasons reasons_X509" "numbers_ok functions_X509V3" "numbers_ok reasons_X509V3"
  "own_reasons reasons_X509V3"
  by (simp_all add: ok_defs functions_UI_def reasons_UI_def functions_X509_def reasons_X509_def functions_X509V3_def reasons_X509V3_def)

lemmas tables = table_SSL tables_1 tables_2 tables_3 tables_4 tables_5 tables_6 tables_7

lemma numbers_ok_Nil: "numbers_ok []" "own_reasons []"
  by (simp_all add: ok_defs)

lemma libraries_ok: "list_all library_ok error_libraries"
  by (simp add: error_libraries_def library_ok_def tables numbers_ok_Nil ERR_LIB_def ERR_LIBS_def)

lemma libraries_distinct: "distinct (map el_number error_libraries)"
  by (simp add: error_libraries_def ERR_LIB_def ERR_LIBS_def)

lemma general_reasons_ok: "numbers_ok general_reasons" "list_all (\<lambda>c. snd c < 99) general_reasons"
  by (simp_all add: general_reasons_def ok_defs ERR_R_FATAL_def ERR_LIB_def ERR_LIBS_def)

section \<open>Every code can be read\<close>

lemma and_one_bit: "(x :: 64 word) AND push_bit n 1 = (if bit x n then push_bit n 1 else 0)"
  by (rule bit_word_eqI) (auto simp: bit_simps)

lemma fatal_bit: "ERR_FATAL_ERROR (ERR_PACK l f (of_nat n)) \<noteq> 0 \<longleftrightarrow> bit n 6"
proof -
  have "ERR_FATAL_ERROR x \<noteq> 0 \<longleftrightarrow> bit x 6" for x
    using and_one_bit [of x 6] by (simp add: ERR_FATAL_ERROR_def ERR_R_FATAL_def)
  moreover have "bit (ERR_PACK l f (of_nat n)) 6 \<longleftrightarrow> bit n 6" unfolding pack_bits by (simp add: bit_simps)
  ultimately show ?thesis by simp
qed

text \<open>
  Claim C39. No two error codes of OpenSSL look alike: whatever library, function and reason of its
  headers is packed, the code is read back to exactly these three, and never to those of another
  library or to a general reason where one of the library was meant. The flag of a fatal error is
  set exactly if the number of the reason has the bit 64.
\<close>

theorem error_codes_readable:
  assumes "l \<in> set error_libraries" and "(f, nf) \<in> set (el_functions l)" and "(r, nr) \<in> set (el_reasons l @ general_reasons)"
  shows "read_code (ERR_PACK (of_nat (el_number l)) (of_nat nf) (of_nat nr)) = Some (el_name l, Some f, Some r)
    \<and> (ERR_FATAL_ERROR (ERR_PACK (of_nat (el_number l)) (of_nat nf) (of_nat nr)) \<noteq> 0 \<longleftrightarrow> bit nr 6)"
proof -
  have ok: "library_ok l" using libraries_ok assms(1) by (simp add: list_all_iff)
  let ?e = "ERR_PACK (of_nat (el_number l)) (of_nat nf) (of_nat nr)"
  have small: "el_number l < 2 ^ 8" "nf < 2 ^ 12" "nr < 2 ^ 12"
    using ok assms(2,3) general_reasons_ok(1) by (auto simp: library_ok_def numbers_ok_def list_all_iff)
  have parts: "unat (ERR_GET_LIB ?e) = el_number l" "unat (ERR_GET_FUNC ?e) = nf" "unat (ERR_GET_REASON ?e) = nr"
    unfolding pack_parts by (rule small_part [OF small(1)], simp, rule small_part [OF small(2)], simp, rule small_part [OF small(3)], simp)
  have lib: "List.find (\<lambda>k. el_number k = el_number l) error_libraries = Some l"
    by (rule find_distinct [OF libraries_distinct assms(1)])
  have fn: "code_name (el_functions l) nf = Some f"
    by (rule code_name_distinct [OF _ assms(2)]) (use ok in \<open>simp add: library_ok_def numbers_ok_def\<close>)
  have "snd ` set (el_reasons l) \<inter> snd ` set general_reasons = {}"
    using ok general_reasons_ok(2) by (force simp: library_ok_def own_reasons_def list_all_iff)
  then have "distinct (map snd (el_reasons l @ general_reasons))"
    using ok general_reasons_ok(1) by (simp add: library_ok_def numbers_ok_def)
  then have re: "code_name (el_reasons l @ general_reasons) nr = Some r" by (rule code_name_distinct [OF _ assms(3)])
  show ?thesis unfolding read_code_def parts fatal_bit by (simp add: lib fn re)
qed

lemma evp_library: "\<lparr>el_name = ''EVP'', el_number = ERR_LIB ''EVP'', el_functions = functions_EVP, el_reasons = reasons_EVP\<rparr> \<in> set error_libraries"
  unfolding error_libraries_def by simp

text \<open>A wrong password makes the decryption of the EVP library fail, and the code of this says it is fatal.\<close>

theorem error_codes_readable_witness:
  "read_code (ERR_PACK 6 101 100) = Some (''EVP'', Some ''EVP_DECRYPTFINAL_EX'', Some ''BAD_DECRYPT'') \<and> ERR_FATAL_ERROR (ERR_PACK 6 101 100) \<noteq> 0"
proof -
  have "(''EVP_DECRYPTFINAL_EX'', 101) \<in> set functions_EVP" "(''BAD_DECRYPT'', 100) \<in> set (reasons_EVP @ general_reasons)"
    by (simp_all add: functions_EVP_def reasons_EVP_def)
  moreover have "ERR_LIB ''EVP'' = 6" by (simp add: ERR_LIB_def ERR_LIBS_def)
  moreover have "bit (100 :: nat) 6" by (simp add: bit_iff_odd)
  ultimately show ?thesis using error_codes_readable [OF evp_library, of "''EVP_DECRYPTFINAL_EX''" 101 "''BAD_DECRYPT''" 100] by simp
qed

text \<open>
  Two comments of \<open>err.h\<close> are not what the code does: the general reason for the library of time stamps
  is 47, not 45, and 99, said to be the last general code, is used by libraries of their own.
\<close>

lemma comments_of_err:
  "(''TS_LIB'', 47) \<in> set general_reasons"
  "\<exists>l \<in> set error_libraries. \<exists>c \<in> set (el_reasons l). snd c = 99"
proof -
  show "(''TS_LIB'', 47) \<in> set general_reasons"
    by (simp add: general_reasons_def ERR_LIB_def ERR_LIBS_def)
  have "\<exists>c \<in> set reasons_COMP. snd c = 99" by (simp add: reasons_COMP_def)
  then show "\<exists>l \<in> set error_libraries. \<exists>c \<in> set (el_reasons l). snd c = 99"
    unfolding error_libraries_def by simp
qed

end
