(* ===== verification/Typed_Macros.thy ===== *)
theory Typed_Macros
  imports Java_Prelude
begin

text \<open>
  The typed containers of \<open>openssl/safestack.h\<close>, \<open>lhash.h\<close> and \<open>asn1.h\<close>: what the generic macros expand to. C keeps
  stacks and hashes of untyped pointers; a macro calls a library function on arguments that are
  checked against a type, as \<open>1 ? p : (type *)0\<close> must be well-typed, and casts what it returns. The model
  of an expansion is the call with its cast and checks, and the typing of the calls is the C rule for
  exactly these checks. The library functions themselves are not in the repository.
\<close>

section \<open>Expansions\<close>

text \<open>The parameters of the macros.\<close>

datatype param =
    P_st | P_i | P_val | P_ptr | P_cmp | P_free_func
  | P_pp | P_length | P_d2i_func | P_i2d_func | P_ex_tag | P_ex_class | P_is_set | P_buf | P_len
  | P_algor | P_pass | P_passlen | P_oct | P_seq
  | P_lh | P_inst | P_fn | P_arg_type | P_arg | P_out

text \<open>
  The checks: a stack, a pointer to a stack, a value pointer, the same for constant pointers, a
  comparison, the two kinds of free functions, the codecs and a hash of a type; the callbacks of a
  hash by name; a pointer whose type is a parameter; and arguments passed as they are.
\<close>

datatype checked =
    StackOf string param | StackPtrOf string param | StackAsPtr string param
  | PtrOf string param | ConstStackOf string param | ConstPtrOf string param
  | CmpFunc string param | FreeFunc string param | FreeFunc2 string param
  | D2IOf string param | I2DOf string param
  | HashOf string param | HashFn string | CompFn string | ParamPtrOf param param | Raw param

text \<open>What the result is cast to: a stack or hash of a type, a pointer to it, the type itself, a comparison.\<close>

datatype cast = NoCast | ToStack string | ToHash string | ToPtr string | ToType string | ToCmp string

datatype expansion = Call cast string "checked list" | Field checked string

datatype macro_def = Macro string "param list" expansion

section \<open>The generic macros\<close>

definition SKM_sk_new :: "string \<Rightarrow> param \<Rightarrow> expansion" where
  "SKM_sk_new type cmp = Call (ToStack type) ''sk_new'' [CmpFunc type cmp]"

definition SKM_sk_new_null :: "string \<Rightarrow> expansion" where
  "SKM_sk_new_null type = Call (ToStack type) ''sk_new_null'' []"

definition SKM_sk_free :: "string \<Rightarrow> param \<Rightarrow> expansion" where
  "SKM_sk_free type st = Call NoCast ''sk_free'' [StackOf type st]"

definition SKM_sk_num :: "string \<Rightarrow> param \<Rightarrow> expansion" where
  "SKM_sk_num type st = Call NoCast ''sk_num'' [StackOf type st]"

definition SKM_sk_value :: "string \<Rightarrow> param \<Rightarrow> param \<Rightarrow> expansion" where
  "SKM_sk_value type st i = Call (ToPtr type) ''sk_value'' [StackOf type st, Raw i]"

definition SKM_sk_set :: "string \<Rightarrow> param \<Rightarrow> param \<Rightarrow> param \<Rightarrow> expansion" where
  "SKM_sk_set type st i val = Call NoCast ''sk_set'' [StackOf type st, Raw i, PtrOf type val]"

definition SKM_sk_zero :: "string \<Rightarrow> param \<Rightarrow> expansion" where
  "SKM_sk_zero type st = Call NoCast ''sk_zero'' [StackOf type st]"

definition SKM_sk_push :: "string \<Rightarrow> param \<Rightarrow> param \<Rightarrow> expansion" where
  "SKM_sk_push type st val = Call NoCast ''sk_push'' [StackOf type st, PtrOf type val]"

definition SKM_sk_unshift :: "string \<Rightarrow> param \<Rightarrow> param \<Rightarrow> expansion" where
  "SKM_sk_unshift type st val = Call NoCast ''sk_unshift'' [StackOf type st, PtrOf type val]"

definition SKM_sk_find :: "string \<Rightarrow> param \<Rightarrow> param \<Rightarrow> expansion" where
  "SKM_sk_find type st val = Call NoCast ''sk_find'' [StackOf type st, PtrOf type val]"

definition SKM_sk_find_ex :: "string \<Rightarrow> param \<Rightarrow> param \<Rightarrow> expansion" where
  "SKM_sk_find_ex type st val = Call NoCast ''sk_find_ex'' [StackOf type st, PtrOf type val]"

definition SKM_sk_delete :: "string \<Rightarrow> param \<Rightarrow> param \<Rightarrow> expansion" where
  "SKM_sk_delete type st i = Call (ToPtr type) ''sk_delete'' [StackOf type st, Raw i]"

definition SKM_sk_delete_ptr :: "string \<Rightarrow> param \<Rightarrow> param \<Rightarrow> expansion" where
  "SKM_sk_delete_ptr type st ptr = Call (ToPtr type) ''sk_delete_ptr'' [StackOf type st, PtrOf type ptr]"

definition SKM_sk_insert :: "string \<Rightarrow> param \<Rightarrow> param \<Rightarrow> param \<Rightarrow> expansion" where
  "SKM_sk_insert type st val i = Call NoCast ''sk_insert'' [StackOf type st, PtrOf type val, Raw i]"

definition SKM_sk_set_cmp_func :: "string \<Rightarrow> param \<Rightarrow> param \<Rightarrow> expansion" where
  "SKM_sk_set_cmp_func type st cmp = Call (ToCmp type) ''sk_set_cmp_func'' [StackOf type st, CmpFunc type cmp]"

definition SKM_sk_dup :: "string \<Rightarrow> param \<Rightarrow> expansion" where
  "SKM_sk_dup type st = Call (ToStack type) ''sk_dup'' [StackOf type st]"

definition SKM_sk_pop_free :: "string \<Rightarrow> param \<Rightarrow> param \<Rightarrow> expansion" where
  "SKM_sk_pop_free type st free_func = Call NoCast ''sk_pop_free'' [StackOf type st, FreeFunc type free_func]"

definition SKM_sk_shift :: "string \<Rightarrow> param \<Rightarrow> expansion" where
  "SKM_sk_shift type st = Call (ToPtr type) ''sk_shift'' [StackOf type st]"

definition SKM_sk_pop :: "string \<Rightarrow> param \<Rightarrow> expansion" where
  "SKM_sk_pop type st = Call (ToPtr type) ''sk_pop'' [StackOf type st]"

definition SKM_sk_sort :: "string \<Rightarrow> param \<Rightarrow> expansion" where
  "SKM_sk_sort type st = Call NoCast ''sk_sort'' [StackOf type st]"

definition SKM_sk_is_sorted :: "string \<Rightarrow> param \<Rightarrow> expansion" where
  "SKM_sk_is_sorted type st = Call NoCast ''sk_is_sorted'' [StackOf type st]"

definition SKM_ASN1_SET_OF_d2i ::
  "string \<Rightarrow> param \<Rightarrow> param \<Rightarrow> param \<Rightarrow> param \<Rightarrow> param \<Rightarrow> param \<Rightarrow> param \<Rightarrow> expansion" where
  "SKM_ASN1_SET_OF_d2i type st pp len d2i_func free_func ex_tag ex_class =
     Call (ToStack type) ''d2i_ASN1_SET''
       [StackPtrOf type st, Raw pp, Raw len, D2IOf type d2i_func, FreeFunc type free_func, Raw ex_tag, Raw ex_class]"

definition SKM_ASN1_SET_OF_i2d ::
  "string \<Rightarrow> param \<Rightarrow> param \<Rightarrow> param \<Rightarrow> param \<Rightarrow> param \<Rightarrow> param \<Rightarrow> expansion" where
  "SKM_ASN1_SET_OF_i2d type st pp i2d_func ex_tag ex_class is_set =
     Call NoCast ''i2d_ASN1_SET''
       [StackOf type st, Raw pp, I2DOf type i2d_func, Raw ex_tag, Raw ex_class, Raw is_set]"

definition SKM_ASN1_seq_pack :: "string \<Rightarrow> param \<Rightarrow> param \<Rightarrow> param \<Rightarrow> param \<Rightarrow> expansion" where
  "SKM_ASN1_seq_pack type st i2d_func buf len =
     Call NoCast ''ASN1_seq_pack'' [StackAsPtr type st, I2DOf type i2d_func, Raw buf, Raw len]"

definition SKM_ASN1_seq_unpack :: "string \<Rightarrow> param \<Rightarrow> param \<Rightarrow> param \<Rightarrow> param \<Rightarrow> expansion" where
  "SKM_ASN1_seq_unpack type buf len d2i_func free_func =
     Call (ToStack type) ''ASN1_seq_unpack'' [Raw buf, Raw len, D2IOf type d2i_func, FreeFunc type free_func]"

definition SKM_PKCS12_decrypt_d2i ::
  "string \<Rightarrow> param \<Rightarrow> param \<Rightarrow> param \<Rightarrow> param \<Rightarrow> param \<Rightarrow> param \<Rightarrow> param \<Rightarrow> expansion" where
  "SKM_PKCS12_decrypt_d2i type algor d2i_func free_func pass passlen oct seq =
     Call (ToStack type) ''PKCS12_decrypt_d2i''
       [Raw algor, D2IOf type d2i_func, FreeFunc type free_func, Raw pass, Raw passlen, Raw oct, Raw seq]"

definition LHM_lh_new :: "string \<Rightarrow> string \<Rightarrow> expansion" where
  "LHM_lh_new type name = Call (ToHash type) ''lh_new'' [HashFn name, CompFn name]"

definition LHM_lh_error :: "string \<Rightarrow> param \<Rightarrow> expansion" where
  "LHM_lh_error type lh = Call NoCast ''lh_error'' [HashOf type lh]"

definition LHM_lh_insert :: "string \<Rightarrow> param \<Rightarrow> param \<Rightarrow> expansion" where
  "LHM_lh_insert type lh inst = Call (ToPtr type) ''lh_insert'' [HashOf type lh, PtrOf type inst]"

definition LHM_lh_retrieve :: "string \<Rightarrow> param \<Rightarrow> param \<Rightarrow> expansion" where
  "LHM_lh_retrieve type lh inst = Call (ToPtr type) ''lh_retrieve'' [HashOf type lh, PtrOf type inst]"

definition LHM_lh_delete :: "string \<Rightarrow> param \<Rightarrow> param \<Rightarrow> expansion" where
  "LHM_lh_delete type lh inst = Call (ToPtr type) ''lh_delete'' [HashOf type lh, PtrOf type inst]"

definition LHM_lh_doall :: "string \<Rightarrow> param \<Rightarrow> param \<Rightarrow> expansion" where
  "LHM_lh_doall type lh fn = Call NoCast ''lh_doall'' [HashOf type lh, Raw fn]"

definition LHM_lh_doall_arg :: "string \<Rightarrow> param \<Rightarrow> param \<Rightarrow> param \<Rightarrow> param \<Rightarrow> expansion" where
  "LHM_lh_doall_arg type lh fn arg_type arg =
     Call NoCast ''lh_doall_arg'' [HashOf type lh, Raw fn, ParamPtrOf arg_type arg]"

definition LHM_lh_num_items :: "string \<Rightarrow> param \<Rightarrow> expansion" where
  "LHM_lh_num_items type lh = Call NoCast ''lh_num_items'' [HashOf type lh]"

definition LHM_lh_down_load :: "string \<Rightarrow> param \<Rightarrow> expansion" where
  "LHM_lh_down_load type lh = Field (HashOf type lh) ''down_load''"

definition LHM_lh_node_stats_bio :: "string \<Rightarrow> param \<Rightarrow> param \<Rightarrow> expansion" where
  "LHM_lh_node_stats_bio type lh out = Call NoCast ''lh_node_stats_bio'' [HashOf type lh, Raw out]"

definition LHM_lh_node_usage_stats_bio :: "string \<Rightarrow> param \<Rightarrow> param \<Rightarrow> expansion" where
  "LHM_lh_node_usage_stats_bio type lh out = Call NoCast ''lh_node_usage_stats_bio'' [HashOf type lh, Raw out]"

definition LHM_lh_stats_bio :: "string \<Rightarrow> param \<Rightarrow> param \<Rightarrow> expansion" where
  "LHM_lh_stats_bio type lh out = Call NoCast ''lh_stats_bio'' [HashOf type lh, Raw out]"

definition LHM_lh_free :: "string \<Rightarrow> param \<Rightarrow> expansion" where
  "LHM_lh_free type lh = Call NoCast ''lh_free'' [HashOf type lh]"

lemmas SKM_sk_defs = SKM_sk_new_def SKM_sk_new_null_def SKM_sk_free_def SKM_sk_num_def SKM_sk_value_def SKM_sk_set_def
  SKM_sk_zero_def SKM_sk_push_def SKM_sk_unshift_def SKM_sk_find_def SKM_sk_find_ex_def SKM_sk_delete_def
  SKM_sk_delete_ptr_def SKM_sk_insert_def SKM_sk_set_cmp_func_def SKM_sk_dup_def SKM_sk_pop_free_def
  SKM_sk_shift_def SKM_sk_pop_def SKM_sk_sort_def SKM_sk_is_sorted_def

lemmas SKM_set_defs = SKM_ASN1_SET_OF_d2i_def SKM_ASN1_SET_OF_i2d_def SKM_ASN1_seq_pack_def SKM_ASN1_seq_unpack_def
  SKM_PKCS12_decrypt_d2i_def

lemmas LHM_defs = LHM_lh_new_def LHM_lh_error_def LHM_lh_insert_def LHM_lh_retrieve_def LHM_lh_delete_def
  LHM_lh_doall_def LHM_lh_doall_arg_def LHM_lh_num_items_def LHM_lh_down_load_def LHM_lh_node_stats_bio_def
  LHM_lh_node_usage_stats_bio_def LHM_lh_stats_bio_def LHM_lh_free_def

section \<open>Types\<close>

datatype ctype = Named string | PtrTo ctype

text \<open>The three element types that are pointers themselves, with what \<open>DECLARE_SPECIAL_STACK_OF\<close> says they point to.\<close>

definition special_stacks :: "(string \<times> string) list" where
  "special_stacks = [(''OPENSSL_STRING'', ''char''), (''OPENSSL_BLOCK'', ''void''), (''OPENSSL_PSTRING'', ''OPENSSL_STRING'')]"

definition ctype_of :: "string \<Rightarrow> ctype" where
  "ctype_of t =
     (if t = ''OPENSSL_STRING'' then PtrTo (Named ''char'')
      else if t = ''OPENSSL_CSTRING'' then PtrTo (Named ''const char'')
      else if t = ''OPENSSL_BLOCK'' then PtrTo (Named ''void'')
      else if t = ''OPENSSL_PSTRING'' then PtrTo (PtrTo (Named ''char''))
      else Named t)"

text \<open>The type of the elements of a stack; those of a hash are always pointers to its type.\<close>

definition elem_type :: "string \<Rightarrow> ctype" where
  "elem_type T = (case map_of special_stacks T of Some t \<Rightarrow> PtrTo (ctype_of t) | None \<Rightarrow> PtrTo (ctype_of T))"

definition is_special :: "string \<Rightarrow> bool" where
  "is_special T \<longleftrightarrow> T \<in> fst ` set special_stacks"

lemma elem_type_special: "is_special T \<Longrightarrow> elem_type T = ctype_of T"
  by (auto simp: is_special_def special_stacks_def elem_type_def ctype_of_def)

lemma elem_type_plain: "\<not> is_special T \<Longrightarrow> elem_type T = PtrTo (ctype_of T)"
  by (auto simp: is_special_def special_stacks_def elem_type_def)

section \<open>Typing\<close>

text \<open>
  An argument is right for a container of \<open>T\<close> with elements of type \<open>E\<close> when its check asks for this
  container, for one of its elements, or for a function on its elements. The headers do not define the check of constant
  pointers, so what uses it does not compile.
\<close>

fun arg_ok :: "string \<Rightarrow> ctype \<Rightarrow> checked \<Rightarrow> bool" where
  "arg_ok T E (StackOf t p) = (t = T)"
| "arg_ok T E (StackPtrOf t p) = (t = T)"
| "arg_ok T E (StackAsPtr t p) = (t = T)"
| "arg_ok T E (HashOf t p) = (t = T)"
| "arg_ok T E (PtrOf t p) = (PtrTo (ctype_of t) = E)"
| "arg_ok T E (ConstStackOf t p) = False"
| "arg_ok T E (ConstPtrOf t p) = False"
| "arg_ok T E (CmpFunc t p) = (PtrTo (ctype_of t) = E)"
| "arg_ok T E (FreeFunc t p) = (PtrTo (ctype_of t) = E)"
| "arg_ok T E (FreeFunc2 t p) = (ctype_of t = E)"
| "arg_ok T E (D2IOf t p) = (PtrTo (ctype_of t) = E)"
| "arg_ok T E (I2DOf t p) = (PtrTo (ctype_of t) = E)"
| "arg_ok T E (HashFn name) = (name = to_lower_case T)"
| "arg_ok T E (CompFn name) = (name = to_lower_case T)"
| "arg_ok T E (ParamPtrOf t p) = True"
| "arg_ok T E (Raw p) = True"

fun arg_params :: "checked \<Rightarrow> param list" where
  "arg_params (StackOf t p) = [p]"
| "arg_params (StackPtrOf t p) = [p]"
| "arg_params (StackAsPtr t p) = [p]"
| "arg_params (HashOf t p) = [p]"
| "arg_params (PtrOf t p) = [p]"
| "arg_params (ConstStackOf t p) = [p]"
| "arg_params (ConstPtrOf t p) = [p]"
| "arg_params (CmpFunc t p) = [p]"
| "arg_params (FreeFunc t p) = [p]"
| "arg_params (FreeFunc2 t p) = [p]"
| "arg_params (D2IOf t p) = [p]"
| "arg_params (I2DOf t p) = [p]"
| "arg_params (HashFn name) = []"
| "arg_params (CompFn name) = []"
| "arg_params (ParamPtrOf t p) = [t, p]"
| "arg_params (Raw p) = [p]"

text \<open>What an operation answers: a new container, an element, the old comparison, or a number or nothing.\<close>

datatype answer_kind = Container | Element | Comparison | Plain

definition answer_of :: "string \<Rightarrow> answer_kind" where
  "answer_of fn =
     (if fn \<in> set [''sk_new'', ''sk_new_null'', ''sk_dup'', ''d2i_ASN1_SET'', ''ASN1_seq_unpack'', ''PKCS12_decrypt_d2i'', ''lh_new'']
      then Container
      else if fn \<in> set [''sk_value'', ''sk_delete'', ''sk_delete_ptr'', ''sk_shift'', ''sk_pop'', ''lh_insert'', ''lh_retrieve'', ''lh_delete'']
      then Element
      else if fn = ''sk_set_cmp_func'' then Comparison else Plain)"

fun cast_ok :: "string \<Rightarrow> ctype \<Rightarrow> answer_kind \<Rightarrow> cast \<Rightarrow> bool" where
  "cast_ok T E Container (ToStack t) = (t = T)"
| "cast_ok T E Container (ToHash t) = (t = T)"
| "cast_ok T E Element (ToPtr t) = (PtrTo (ctype_of t) = E)"
| "cast_ok T E Element (ToType t) = (ctype_of t = E)"
| "cast_ok T E Comparison (ToCmp t) = (PtrTo (ctype_of t) = E)"
| "cast_ok T E Plain NoCast = True"
| "cast_ok T E _ _ = False"

fun expansion_ok :: "string \<Rightarrow> ctype \<Rightarrow> string \<Rightarrow> param list \<Rightarrow> expansion \<Rightarrow> bool" where
  "expansion_ok T E fn ps (Call c f args) \<longleftrightarrow>
     f = fn \<and> concat (map arg_params args) = ps \<and> list_all (arg_ok T E) args \<and> cast_ok T E (answer_of fn) c"
| "expansion_ok T E fn ps (Field a f) \<longleftrightarrow> ''lh_'' @ f = fn \<and> arg_params a = ps \<and> arg_ok T E a"

text \<open>The macros of a table that are not typed for \<open>T\<close> and \<open>E\<close>; \<open>fn\<close> gives the library function a name stands for.\<close>

definition misused :: "(string \<Rightarrow> string) \<Rightarrow> ctype \<Rightarrow> string \<Rightarrow> macro_def list \<Rightarrow> string list" where
  "misused fn E T tab =
     map (\<lambda>m. case m of Macro op ps e \<Rightarrow> op) (filter (\<lambda>m. case m of Macro op ps e \<Rightarrow> \<not> expansion_ok T E (fn op) ps e) tab)"

definition names_of :: "macro_def list \<Rightarrow> string list" where
  "names_of tab = map (\<lambda>m. case m of Macro op ps e \<Rightarrow> op) tab"

end
