(* ===== verification/Stack_Tables_1.thy ===== *)
theory Stack_Tables_1
  imports Typed_Macros
begin

text \<open>
  The stack macros of \<open>safestack.h\<close>, from \<open>sk_ACCESS_DESCRIPTION_new\<close> to \<open>sk_EVP_PKEY_METHOD_is_sorted\<close>: for each element type the macros in
  the order of the header, with their parameters and expansions.
\<close>

definition sk_ACCESS_DESCRIPTION :: "macro_def list" where
  "sk_ACCESS_DESCRIPTION =
     [Macro ''new'' [P_cmp] (SKM_sk_new ''ACCESS_DESCRIPTION'' P_cmp),
      Macro ''new_null'' [] (SKM_sk_new_null ''ACCESS_DESCRIPTION''),
      Macro ''free'' [P_st] (SKM_sk_free ''ACCESS_DESCRIPTION'' P_st),
      Macro ''num'' [P_st] (SKM_sk_num ''ACCESS_DESCRIPTION'' P_st),
      Macro ''value'' [P_st, P_i] (SKM_sk_value ''ACCESS_DESCRIPTION'' P_st P_i),
      Macro ''set'' [P_st, P_i, P_val] (SKM_sk_set ''ACCESS_DESCRIPTION'' P_st P_i P_val),
      Macro ''zero'' [P_st] (SKM_sk_zero ''ACCESS_DESCRIPTION'' P_st),
      Macro ''push'' [P_st, P_val] (SKM_sk_push ''ACCESS_DESCRIPTION'' P_st P_val),
      Macro ''unshift'' [P_st, P_val] (SKM_sk_unshift ''ACCESS_DESCRIPTION'' P_st P_val),
      Macro ''find'' [P_st, P_val] (SKM_sk_find ''ACCESS_DESCRIPTION'' P_st P_val),
      Macro ''find_ex'' [P_st, P_val] (SKM_sk_find_ex ''ACCESS_DESCRIPTION'' P_st P_val),
      Macro ''delete'' [P_st, P_i] (SKM_sk_delete ''ACCESS_DESCRIPTION'' P_st P_i),
      Macro ''delete_ptr'' [P_st, P_ptr] (SKM_sk_delete_ptr ''ACCESS_DESCRIPTION'' P_st P_ptr),
      Macro ''insert'' [P_st, P_val, P_i] (SKM_sk_insert ''ACCESS_DESCRIPTION'' P_st P_val P_i),
      Macro ''set_cmp_func'' [P_st, P_cmp] (SKM_sk_set_cmp_func ''ACCESS_DESCRIPTION'' P_st P_cmp),
      Macro ''dup'' [P_st] (SKM_sk_dup ''ACCESS_DESCRIPTION'' P_st),
      Macro ''pop_free'' [P_st, P_free_func] (SKM_sk_pop_free ''ACCESS_DESCRIPTION'' P_st P_free_func),
      Macro ''shift'' [P_st] (SKM_sk_shift ''ACCESS_DESCRIPTION'' P_st),
      Macro ''pop'' [P_st] (SKM_sk_pop ''ACCESS_DESCRIPTION'' P_st),
      Macro ''sort'' [P_st] (SKM_sk_sort ''ACCESS_DESCRIPTION'' P_st),
      Macro ''is_sorted'' [P_st] (SKM_sk_is_sorted ''ACCESS_DESCRIPTION'' P_st)]"

definition sk_ASIdOrRange :: "macro_def list" where
  "sk_ASIdOrRange =
     [Macro ''new'' [P_cmp] (SKM_sk_new ''ASIdOrRange'' P_cmp),
      Macro ''new_null'' [] (SKM_sk_new_null ''ASIdOrRange''),
      Macro ''free'' [P_st] (SKM_sk_free ''ASIdOrRange'' P_st),
      Macro ''num'' [P_st] (SKM_sk_num ''ASIdOrRange'' P_st),
      Macro ''value'' [P_st, P_i] (SKM_sk_value ''ASIdOrRange'' P_st P_i),
      Macro ''set'' [P_st, P_i, P_val] (SKM_sk_set ''ASIdOrRange'' P_st P_i P_val),
      Macro ''zero'' [P_st] (SKM_sk_zero ''ASIdOrRange'' P_st),
      Macro ''push'' [P_st, P_val] (SKM_sk_push ''ASIdOrRange'' P_st P_val),
      Macro ''unshift'' [P_st, P_val] (SKM_sk_unshift ''ASIdOrRange'' P_st P_val),
      Macro ''find'' [P_st, P_val] (SKM_sk_find ''ASIdOrRange'' P_st P_val),
      Macro ''find_ex'' [P_st, P_val] (SKM_sk_find_ex ''ASIdOrRange'' P_st P_val),
      Macro ''delete'' [P_st, P_i] (SKM_sk_delete ''ASIdOrRange'' P_st P_i),
      Macro ''delete_ptr'' [P_st, P_ptr] (SKM_sk_delete_ptr ''ASIdOrRange'' P_st P_ptr),
      Macro ''insert'' [P_st, P_val, P_i] (SKM_sk_insert ''ASIdOrRange'' P_st P_val P_i),
      Macro ''set_cmp_func'' [P_st, P_cmp] (SKM_sk_set_cmp_func ''ASIdOrRange'' P_st P_cmp),
      Macro ''dup'' [P_st] (SKM_sk_dup ''ASIdOrRange'' P_st),
      Macro ''pop_free'' [P_st, P_free_func] (SKM_sk_pop_free ''ASIdOrRange'' P_st P_free_func),
      Macro ''shift'' [P_st] (SKM_sk_shift ''ASIdOrRange'' P_st),
      Macro ''pop'' [P_st] (SKM_sk_pop ''ASIdOrRange'' P_st),
      Macro ''sort'' [P_st] (SKM_sk_sort ''ASIdOrRange'' P_st),
      Macro ''is_sorted'' [P_st] (SKM_sk_is_sorted ''ASIdOrRange'' P_st)]"

definition sk_ASN1_GENERALSTRING :: "macro_def list" where
  "sk_ASN1_GENERALSTRING =
     [Macro ''new'' [P_cmp] (SKM_sk_new ''ASN1_GENERALSTRING'' P_cmp),
      Macro ''new_null'' [] (SKM_sk_new_null ''ASN1_GENERALSTRING''),
      Macro ''free'' [P_st] (SKM_sk_free ''ASN1_GENERALSTRING'' P_st),
      Macro ''num'' [P_st] (SKM_sk_num ''ASN1_GENERALSTRING'' P_st),
      Macro ''value'' [P_st, P_i] (SKM_sk_value ''ASN1_GENERALSTRING'' P_st P_i),
      Macro ''set'' [P_st, P_i, P_val] (SKM_sk_set ''ASN1_GENERALSTRING'' P_st P_i P_val),
      Macro ''zero'' [P_st] (SKM_sk_zero ''ASN1_GENERALSTRING'' P_st),
      Macro ''push'' [P_st, P_val] (SKM_sk_push ''ASN1_GENERALSTRING'' P_st P_val),
      Macro ''unshift'' [P_st, P_val] (SKM_sk_unshift ''ASN1_GENERALSTRING'' P_st P_val),
      Macro ''find'' [P_st, P_val] (SKM_sk_find ''ASN1_GENERALSTRING'' P_st P_val),
      Macro ''find_ex'' [P_st, P_val] (SKM_sk_find_ex ''ASN1_GENERALSTRING'' P_st P_val),
      Macro ''delete'' [P_st, P_i] (SKM_sk_delete ''ASN1_GENERALSTRING'' P_st P_i),
      Macro ''delete_ptr'' [P_st, P_ptr] (SKM_sk_delete_ptr ''ASN1_GENERALSTRING'' P_st P_ptr),
      Macro ''insert'' [P_st, P_val, P_i] (SKM_sk_insert ''ASN1_GENERALSTRING'' P_st P_val P_i),
      Macro ''set_cmp_func'' [P_st, P_cmp] (SKM_sk_set_cmp_func ''ASN1_GENERALSTRING'' P_st P_cmp),
      Macro ''dup'' [P_st] (SKM_sk_dup ''ASN1_GENERALSTRING'' P_st),
      Macro ''pop_free'' [P_st, P_free_func] (SKM_sk_pop_free ''ASN1_GENERALSTRING'' P_st P_free_func),
      Macro ''shift'' [P_st] (SKM_sk_shift ''ASN1_GENERALSTRING'' P_st),
      Macro ''pop'' [P_st] (SKM_sk_pop ''ASN1_GENERALSTRING'' P_st),
      Macro ''sort'' [P_st] (SKM_sk_sort ''ASN1_GENERALSTRING'' P_st),
      Macro ''is_sorted'' [P_st] (SKM_sk_is_sorted ''ASN1_GENERALSTRING'' P_st)]"

definition sk_ASN1_INTEGER :: "macro_def list" where
  "sk_ASN1_INTEGER =
     [Macro ''new'' [P_cmp] (SKM_sk_new ''ASN1_INTEGER'' P_cmp),
      Macro ''new_null'' [] (SKM_sk_new_null ''ASN1_INTEGER''),
      Macro ''free'' [P_st] (SKM_sk_free ''ASN1_INTEGER'' P_st),
      Macro ''num'' [P_st] (SKM_sk_num ''ASN1_INTEGER'' P_st),
      Macro ''value'' [P_st, P_i] (SKM_sk_value ''ASN1_INTEGER'' P_st P_i),
      Macro ''set'' [P_st, P_i, P_val] (SKM_sk_set ''ASN1_INTEGER'' P_st P_i P_val),
      Macro ''zero'' [P_st] (SKM_sk_zero ''ASN1_INTEGER'' P_st),
      Macro ''push'' [P_st, P_val] (SKM_sk_push ''ASN1_INTEGER'' P_st P_val),
      Macro ''unshift'' [P_st, P_val] (SKM_sk_unshift ''ASN1_INTEGER'' P_st P_val),
      Macro ''find'' [P_st, P_val] (SKM_sk_find ''ASN1_INTEGER'' P_st P_val),
      Macro ''find_ex'' [P_st, P_val] (SKM_sk_find_ex ''ASN1_INTEGER'' P_st P_val),
      Macro ''delete'' [P_st, P_i] (SKM_sk_delete ''ASN1_INTEGER'' P_st P_i),
      Macro ''delete_ptr'' [P_st, P_ptr] (SKM_sk_delete_ptr ''ASN1_INTEGER'' P_st P_ptr),
      Macro ''insert'' [P_st, P_val, P_i] (SKM_sk_insert ''ASN1_INTEGER'' P_st P_val P_i),
      Macro ''set_cmp_func'' [P_st, P_cmp] (SKM_sk_set_cmp_func ''ASN1_INTEGER'' P_st P_cmp),
      Macro ''dup'' [P_st] (SKM_sk_dup ''ASN1_INTEGER'' P_st),
      Macro ''pop_free'' [P_st, P_free_func] (SKM_sk_pop_free ''ASN1_INTEGER'' P_st P_free_func),
      Macro ''shift'' [P_st] (SKM_sk_shift ''ASN1_INTEGER'' P_st),
      Macro ''pop'' [P_st] (SKM_sk_pop ''ASN1_INTEGER'' P_st),
      Macro ''sort'' [P_st] (SKM_sk_sort ''ASN1_INTEGER'' P_st),
      Macro ''is_sorted'' [P_st] (SKM_sk_is_sorted ''ASN1_INTEGER'' P_st)]"

definition sk_ASN1_OBJECT :: "macro_def list" where
  "sk_ASN1_OBJECT =
     [Macro ''new'' [P_cmp] (SKM_sk_new ''ASN1_OBJECT'' P_cmp),
      Macro ''new_null'' [] (SKM_sk_new_null ''ASN1_OBJECT''),
      Macro ''free'' [P_st] (SKM_sk_free ''ASN1_OBJECT'' P_st),
      Macro ''num'' [P_st] (SKM_sk_num ''ASN1_OBJECT'' P_st),
      Macro ''value'' [P_st, P_i] (SKM_sk_value ''ASN1_OBJECT'' P_st P_i),
      Macro ''set'' [P_st, P_i, P_val] (SKM_sk_set ''ASN1_OBJECT'' P_st P_i P_val),
      Macro ''zero'' [P_st] (SKM_sk_zero ''ASN1_OBJECT'' P_st),
      Macro ''push'' [P_st, P_val] (SKM_sk_push ''ASN1_OBJECT'' P_st P_val),
      Macro ''unshift'' [P_st, P_val] (SKM_sk_unshift ''ASN1_OBJECT'' P_st P_val),
      Macro ''find'' [P_st, P_val] (SKM_sk_find ''ASN1_OBJECT'' P_st P_val),
      Macro ''find_ex'' [P_st, P_val] (SKM_sk_find_ex ''ASN1_OBJECT'' P_st P_val),
      Macro ''delete'' [P_st, P_i] (SKM_sk_delete ''ASN1_OBJECT'' P_st P_i),
      Macro ''delete_ptr'' [P_st, P_ptr] (SKM_sk_delete_ptr ''ASN1_OBJECT'' P_st P_ptr),
      Macro ''insert'' [P_st, P_val, P_i] (SKM_sk_insert ''ASN1_OBJECT'' P_st P_val P_i),
      Macro ''set_cmp_func'' [P_st, P_cmp] (SKM_sk_set_cmp_func ''ASN1_OBJECT'' P_st P_cmp),
      Macro ''dup'' [P_st] (SKM_sk_dup ''ASN1_OBJECT'' P_st),
      Macro ''pop_free'' [P_st, P_free_func] (SKM_sk_pop_free ''ASN1_OBJECT'' P_st P_free_func),
      Macro ''shift'' [P_st] (SKM_sk_shift ''ASN1_OBJECT'' P_st),
      Macro ''pop'' [P_st] (SKM_sk_pop ''ASN1_OBJECT'' P_st),
      Macro ''sort'' [P_st] (SKM_sk_sort ''ASN1_OBJECT'' P_st),
      Macro ''is_sorted'' [P_st] (SKM_sk_is_sorted ''ASN1_OBJECT'' P_st)]"

definition sk_ASN1_STRING_TABLE :: "macro_def list" where
  "sk_ASN1_STRING_TABLE =
     [Macro ''new'' [P_cmp] (SKM_sk_new ''ASN1_STRING_TABLE'' P_cmp),
      Macro ''new_null'' [] (SKM_sk_new_null ''ASN1_STRING_TABLE''),
      Macro ''free'' [P_st] (SKM_sk_free ''ASN1_STRING_TABLE'' P_st),
      Macro ''num'' [P_st] (SKM_sk_num ''ASN1_STRING_TABLE'' P_st),
      Macro ''value'' [P_st, P_i] (SKM_sk_value ''ASN1_STRING_TABLE'' P_st P_i),
      Macro ''set'' [P_st, P_i, P_val] (SKM_sk_set ''ASN1_STRING_TABLE'' P_st P_i P_val),
      Macro ''zero'' [P_st] (SKM_sk_zero ''ASN1_STRING_TABLE'' P_st),
      Macro ''push'' [P_st, P_val] (SKM_sk_push ''ASN1_STRING_TABLE'' P_st P_val),
      Macro ''unshift'' [P_st, P_val] (SKM_sk_unshift ''ASN1_STRING_TABLE'' P_st P_val),
      Macro ''find'' [P_st, P_val] (SKM_sk_find ''ASN1_STRING_TABLE'' P_st P_val),
      Macro ''find_ex'' [P_st, P_val] (SKM_sk_find_ex ''ASN1_STRING_TABLE'' P_st P_val),
      Macro ''delete'' [P_st, P_i] (SKM_sk_delete ''ASN1_STRING_TABLE'' P_st P_i),
      Macro ''delete_ptr'' [P_st, P_ptr] (SKM_sk_delete_ptr ''ASN1_STRING_TABLE'' P_st P_ptr),
      Macro ''insert'' [P_st, P_val, P_i] (SKM_sk_insert ''ASN1_STRING_TABLE'' P_st P_val P_i),
      Macro ''set_cmp_func'' [P_st, P_cmp] (SKM_sk_set_cmp_func ''ASN1_STRING_TABLE'' P_st P_cmp),
      Macro ''dup'' [P_st] (SKM_sk_dup ''ASN1_STRING_TABLE'' P_st),
      Macro ''pop_free'' [P_st, P_free_func] (SKM_sk_pop_free ''ASN1_STRING_TABLE'' P_st P_free_func),
      Macro ''shift'' [P_st] (SKM_sk_shift ''ASN1_STRING_TABLE'' P_st),
      Macro ''pop'' [P_st] (SKM_sk_pop ''ASN1_STRING_TABLE'' P_st),
      Macro ''sort'' [P_st] (SKM_sk_sort ''ASN1_STRING_TABLE'' P_st),
      Macro ''is_sorted'' [P_st] (SKM_sk_is_sorted ''ASN1_STRING_TABLE'' P_st)]"

definition sk_ASN1_TYPE :: "macro_def list" where
  "sk_ASN1_TYPE =
     [Macro ''new'' [P_cmp] (SKM_sk_new ''ASN1_TYPE'' P_cmp),
      Macro ''new_null'' [] (SKM_sk_new_null ''ASN1_TYPE''),
      Macro ''free'' [P_st] (SKM_sk_free ''ASN1_TYPE'' P_st),
      Macro ''num'' [P_st] (SKM_sk_num ''ASN1_TYPE'' P_st),
      Macro ''value'' [P_st, P_i] (SKM_sk_value ''ASN1_TYPE'' P_st P_i),
      Macro ''set'' [P_st, P_i, P_val] (SKM_sk_set ''ASN1_TYPE'' P_st P_i P_val),
      Macro ''zero'' [P_st] (SKM_sk_zero ''ASN1_TYPE'' P_st),
      Macro ''push'' [P_st, P_val] (SKM_sk_push ''ASN1_TYPE'' P_st P_val),
      Macro ''unshift'' [P_st, P_val] (SKM_sk_unshift ''ASN1_TYPE'' P_st P_val),
      Macro ''find'' [P_st, P_val] (SKM_sk_find ''ASN1_TYPE'' P_st P_val),
      Macro ''find_ex'' [P_st, P_val] (SKM_sk_find_ex ''ASN1_TYPE'' P_st P_val),
      Macro ''delete'' [P_st, P_i] (SKM_sk_delete ''ASN1_TYPE'' P_st P_i),
      Macro ''delete_ptr'' [P_st, P_ptr] (SKM_sk_delete_ptr ''ASN1_TYPE'' P_st P_ptr),
      Macro ''insert'' [P_st, P_val, P_i] (SKM_sk_insert ''ASN1_TYPE'' P_st P_val P_i),
      Macro ''set_cmp_func'' [P_st, P_cmp] (SKM_sk_set_cmp_func ''ASN1_TYPE'' P_st P_cmp),
      Macro ''dup'' [P_st] (SKM_sk_dup ''ASN1_TYPE'' P_st),
      Macro ''pop_free'' [P_st, P_free_func] (SKM_sk_pop_free ''ASN1_TYPE'' P_st P_free_func),
      Macro ''shift'' [P_st] (SKM_sk_shift ''ASN1_TYPE'' P_st),
      Macro ''pop'' [P_st] (SKM_sk_pop ''ASN1_TYPE'' P_st),
      Macro ''sort'' [P_st] (SKM_sk_sort ''ASN1_TYPE'' P_st),
      Macro ''is_sorted'' [P_st] (SKM_sk_is_sorted ''ASN1_TYPE'' P_st)]"

definition sk_ASN1_UTF8STRING :: "macro_def list" where
  "sk_ASN1_UTF8STRING =
     [Macro ''new'' [P_cmp] (SKM_sk_new ''ASN1_UTF8STRING'' P_cmp),
      Macro ''new_null'' [] (SKM_sk_new_null ''ASN1_UTF8STRING''),
      Macro ''free'' [P_st] (SKM_sk_free ''ASN1_UTF8STRING'' P_st),
      Macro ''num'' [P_st] (SKM_sk_num ''ASN1_UTF8STRING'' P_st),
      Macro ''value'' [P_st, P_i] (SKM_sk_value ''ASN1_UTF8STRING'' P_st P_i),
      Macro ''set'' [P_st, P_i, P_val] (SKM_sk_set ''ASN1_UTF8STRING'' P_st P_i P_val),
      Macro ''zero'' [P_st] (SKM_sk_zero ''ASN1_UTF8STRING'' P_st),
      Macro ''push'' [P_st, P_val] (SKM_sk_push ''ASN1_UTF8STRING'' P_st P_val),
      Macro ''unshift'' [P_st, P_val] (SKM_sk_unshift ''ASN1_UTF8STRING'' P_st P_val),
      Macro ''find'' [P_st, P_val] (SKM_sk_find ''ASN1_UTF8STRING'' P_st P_val),
      Macro ''find_ex'' [P_st, P_val] (SKM_sk_find_ex ''ASN1_UTF8STRING'' P_st P_val),
      Macro ''delete'' [P_st, P_i] (SKM_sk_delete ''ASN1_UTF8STRING'' P_st P_i),
      Macro ''delete_ptr'' [P_st, P_ptr] (SKM_sk_delete_ptr ''ASN1_UTF8STRING'' P_st P_ptr),
      Macro ''insert'' [P_st, P_val, P_i] (SKM_sk_insert ''ASN1_UTF8STRING'' P_st P_val P_i),
      Macro ''set_cmp_func'' [P_st, P_cmp] (SKM_sk_set_cmp_func ''ASN1_UTF8STRING'' P_st P_cmp),
      Macro ''dup'' [P_st] (SKM_sk_dup ''ASN1_UTF8STRING'' P_st),
      Macro ''pop_free'' [P_st, P_free_func] (SKM_sk_pop_free ''ASN1_UTF8STRING'' P_st P_free_func),
      Macro ''shift'' [P_st] (SKM_sk_shift ''ASN1_UTF8STRING'' P_st),
      Macro ''pop'' [P_st] (SKM_sk_pop ''ASN1_UTF8STRING'' P_st),
      Macro ''sort'' [P_st] (SKM_sk_sort ''ASN1_UTF8STRING'' P_st),
      Macro ''is_sorted'' [P_st] (SKM_sk_is_sorted ''ASN1_UTF8STRING'' P_st)]"

definition sk_ASN1_VALUE :: "macro_def list" where
  "sk_ASN1_VALUE =
     [Macro ''new'' [P_cmp] (SKM_sk_new ''ASN1_VALUE'' P_cmp),
      Macro ''new_null'' [] (SKM_sk_new_null ''ASN1_VALUE''),
      Macro ''free'' [P_st] (SKM_sk_free ''ASN1_VALUE'' P_st),
      Macro ''num'' [P_st] (SKM_sk_num ''ASN1_VALUE'' P_st),
      Macro ''value'' [P_st, P_i] (SKM_sk_value ''ASN1_VALUE'' P_st P_i),
      Macro ''set'' [P_st, P_i, P_val] (SKM_sk_set ''ASN1_VALUE'' P_st P_i P_val),
      Macro ''zero'' [P_st] (SKM_sk_zero ''ASN1_VALUE'' P_st),
      Macro ''push'' [P_st, P_val] (SKM_sk_push ''ASN1_VALUE'' P_st P_val),
      Macro ''unshift'' [P_st, P_val] (SKM_sk_unshift ''ASN1_VALUE'' P_st P_val),
      Macro ''find'' [P_st, P_val] (SKM_sk_find ''ASN1_VALUE'' P_st P_val),
      Macro ''find_ex'' [P_st, P_val] (SKM_sk_find_ex ''ASN1_VALUE'' P_st P_val),
      Macro ''delete'' [P_st, P_i] (SKM_sk_delete ''ASN1_VALUE'' P_st P_i),
      Macro ''delete_ptr'' [P_st, P_ptr] (SKM_sk_delete_ptr ''ASN1_VALUE'' P_st P_ptr),
      Macro ''insert'' [P_st, P_val, P_i] (SKM_sk_insert ''ASN1_VALUE'' P_st P_val P_i),
      Macro ''set_cmp_func'' [P_st, P_cmp] (SKM_sk_set_cmp_func ''ASN1_VALUE'' P_st P_cmp),
      Macro ''dup'' [P_st] (SKM_sk_dup ''ASN1_VALUE'' P_st),
      Macro ''pop_free'' [P_st, P_free_func] (SKM_sk_pop_free ''ASN1_VALUE'' P_st P_free_func),
      Macro ''shift'' [P_st] (SKM_sk_shift ''ASN1_VALUE'' P_st),
      Macro ''pop'' [P_st] (SKM_sk_pop ''ASN1_VALUE'' P_st),
      Macro ''sort'' [P_st] (SKM_sk_sort ''ASN1_VALUE'' P_st),
      Macro ''is_sorted'' [P_st] (SKM_sk_is_sorted ''ASN1_VALUE'' P_st)]"

definition sk_BIO :: "macro_def list" where
  "sk_BIO =
     [Macro ''new'' [P_cmp] (SKM_sk_new ''BIO'' P_cmp),
      Macro ''new_null'' [] (SKM_sk_new_null ''BIO''),
      Macro ''free'' [P_st] (SKM_sk_free ''BIO'' P_st),
      Macro ''num'' [P_st] (SKM_sk_num ''BIO'' P_st),
      Macro ''value'' [P_st, P_i] (SKM_sk_value ''BIO'' P_st P_i),
      Macro ''set'' [P_st, P_i, P_val] (SKM_sk_set ''BIO'' P_st P_i P_val),
      Macro ''zero'' [P_st] (SKM_sk_zero ''BIO'' P_st),
      Macro ''push'' [P_st, P_val] (SKM_sk_push ''BIO'' P_st P_val),
      Macro ''unshift'' [P_st, P_val] (SKM_sk_unshift ''BIO'' P_st P_val),
      Macro ''find'' [P_st, P_val] (SKM_sk_find ''BIO'' P_st P_val),
      Macro ''find_ex'' [P_st, P_val] (SKM_sk_find_ex ''BIO'' P_st P_val),
      Macro ''delete'' [P_st, P_i] (SKM_sk_delete ''BIO'' P_st P_i),
      Macro ''delete_ptr'' [P_st, P_ptr] (SKM_sk_delete_ptr ''BIO'' P_st P_ptr),
      Macro ''insert'' [P_st, P_val, P_i] (SKM_sk_insert ''BIO'' P_st P_val P_i),
      Macro ''set_cmp_func'' [P_st, P_cmp] (SKM_sk_set_cmp_func ''BIO'' P_st P_cmp),
      Macro ''dup'' [P_st] (SKM_sk_dup ''BIO'' P_st),
      Macro ''pop_free'' [P_st, P_free_func] (SKM_sk_pop_free ''BIO'' P_st P_free_func),
      Macro ''shift'' [P_st] (SKM_sk_shift ''BIO'' P_st),
      Macro ''pop'' [P_st] (SKM_sk_pop ''BIO'' P_st),
      Macro ''sort'' [P_st] (SKM_sk_sort ''BIO'' P_st),
      Macro ''is_sorted'' [P_st] (SKM_sk_is_sorted ''BIO'' P_st)]"

definition sk_BY_DIR_ENTRY :: "macro_def list" where
  "sk_BY_DIR_ENTRY =
     [Macro ''new'' [P_cmp] (SKM_sk_new ''BY_DIR_ENTRY'' P_cmp),
      Macro ''new_null'' [] (SKM_sk_new_null ''BY_DIR_ENTRY''),
      Macro ''free'' [P_st] (SKM_sk_free ''BY_DIR_ENTRY'' P_st),
      Macro ''num'' [P_st] (SKM_sk_num ''BY_DIR_ENTRY'' P_st),
      Macro ''value'' [P_st, P_i] (SKM_sk_value ''BY_DIR_ENTRY'' P_st P_i),
      Macro ''set'' [P_st, P_i, P_val] (SKM_sk_set ''BY_DIR_ENTRY'' P_st P_i P_val),
      Macro ''zero'' [P_st] (SKM_sk_zero ''BY_DIR_ENTRY'' P_st),
      Macro ''push'' [P_st, P_val] (SKM_sk_push ''BY_DIR_ENTRY'' P_st P_val),
      Macro ''unshift'' [P_st, P_val] (SKM_sk_unshift ''BY_DIR_ENTRY'' P_st P_val),
      Macro ''find'' [P_st, P_val] (SKM_sk_find ''BY_DIR_ENTRY'' P_st P_val),
      Macro ''find_ex'' [P_st, P_val] (SKM_sk_find_ex ''BY_DIR_ENTRY'' P_st P_val),
      Macro ''delete'' [P_st, P_i] (SKM_sk_delete ''BY_DIR_ENTRY'' P_st P_i),
      Macro ''delete_ptr'' [P_st, P_ptr] (SKM_sk_delete_ptr ''BY_DIR_ENTRY'' P_st P_ptr),
      Macro ''insert'' [P_st, P_val, P_i] (SKM_sk_insert ''BY_DIR_ENTRY'' P_st P_val P_i),
      Macro ''set_cmp_func'' [P_st, P_cmp] (SKM_sk_set_cmp_func ''BY_DIR_ENTRY'' P_st P_cmp),
      Macro ''dup'' [P_st] (SKM_sk_dup ''BY_DIR_ENTRY'' P_st),
      Macro ''pop_free'' [P_st, P_free_func] (SKM_sk_pop_free ''BY_DIR_ENTRY'' P_st P_free_func),
      Macro ''shift'' [P_st] (SKM_sk_shift ''BY_DIR_ENTRY'' P_st),
      Macro ''pop'' [P_st] (SKM_sk_pop ''BY_DIR_ENTRY'' P_st),
      Macro ''sort'' [P_st] (SKM_sk_sort ''BY_DIR_ENTRY'' P_st),
      Macro ''is_sorted'' [P_st] (SKM_sk_is_sorted ''BY_DIR_ENTRY'' P_st)]"

definition sk_BY_DIR_HASH :: "macro_def list" where
  "sk_BY_DIR_HASH =
     [Macro ''new'' [P_cmp] (SKM_sk_new ''BY_DIR_HASH'' P_cmp),
      Macro ''new_null'' [] (SKM_sk_new_null ''BY_DIR_HASH''),
      Macro ''free'' [P_st] (SKM_sk_free ''BY_DIR_HASH'' P_st),
      Macro ''num'' [P_st] (SKM_sk_num ''BY_DIR_HASH'' P_st),
      Macro ''value'' [P_st, P_i] (SKM_sk_value ''BY_DIR_HASH'' P_st P_i),
      Macro ''set'' [P_st, P_i, P_val] (SKM_sk_set ''BY_DIR_HASH'' P_st P_i P_val),
      Macro ''zero'' [P_st] (SKM_sk_zero ''BY_DIR_HASH'' P_st),
      Macro ''push'' [P_st, P_val] (SKM_sk_push ''BY_DIR_HASH'' P_st P_val),
      Macro ''unshift'' [P_st, P_val] (SKM_sk_unshift ''BY_DIR_HASH'' P_st P_val),
      Macro ''find'' [P_st, P_val] (SKM_sk_find ''BY_DIR_HASH'' P_st P_val),
      Macro ''find_ex'' [P_st, P_val] (SKM_sk_find_ex ''BY_DIR_HASH'' P_st P_val),
      Macro ''delete'' [P_st, P_i] (SKM_sk_delete ''BY_DIR_HASH'' P_st P_i),
      Macro ''delete_ptr'' [P_st, P_ptr] (SKM_sk_delete_ptr ''BY_DIR_HASH'' P_st P_ptr),
      Macro ''insert'' [P_st, P_val, P_i] (SKM_sk_insert ''BY_DIR_HASH'' P_st P_val P_i),
      Macro ''set_cmp_func'' [P_st, P_cmp] (SKM_sk_set_cmp_func ''BY_DIR_HASH'' P_st P_cmp),
      Macro ''dup'' [P_st] (SKM_sk_dup ''BY_DIR_HASH'' P_st),
      Macro ''pop_free'' [P_st, P_free_func] (SKM_sk_pop_free ''BY_DIR_HASH'' P_st P_free_func),
      Macro ''shift'' [P_st] (SKM_sk_shift ''BY_DIR_HASH'' P_st),
      Macro ''pop'' [P_st] (SKM_sk_pop ''BY_DIR_HASH'' P_st),
      Macro ''sort'' [P_st] (SKM_sk_sort ''BY_DIR_HASH'' P_st),
      Macro ''is_sorted'' [P_st] (SKM_sk_is_sorted ''BY_DIR_HASH'' P_st)]"

definition sk_CMS_CertificateChoices :: "macro_def list" where
  "sk_CMS_CertificateChoices =
     [Macro ''new'' [P_cmp] (SKM_sk_new ''CMS_CertificateChoices'' P_cmp),
      Macro ''new_null'' [] (SKM_sk_new_null ''CMS_CertificateChoices''),
      Macro ''free'' [P_st] (SKM_sk_free ''CMS_CertificateChoices'' P_st),
      Macro ''num'' [P_st] (SKM_sk_num ''CMS_CertificateChoices'' P_st),
      Macro ''value'' [P_st, P_i] (SKM_sk_value ''CMS_CertificateChoices'' P_st P_i),
      Macro ''set'' [P_st, P_i, P_val] (SKM_sk_set ''CMS_CertificateChoices'' P_st P_i P_val),
      Macro ''zero'' [P_st] (SKM_sk_zero ''CMS_CertificateChoices'' P_st),
      Macro ''push'' [P_st, P_val] (SKM_sk_push ''CMS_CertificateChoices'' P_st P_val),
      Macro ''unshift'' [P_st, P_val] (SKM_sk_unshift ''CMS_CertificateChoices'' P_st P_val),
      Macro ''find'' [P_st, P_val] (SKM_sk_find ''CMS_CertificateChoices'' P_st P_val),
      Macro ''find_ex'' [P_st, P_val] (SKM_sk_find_ex ''CMS_CertificateChoices'' P_st P_val),
      Macro ''delete'' [P_st, P_i] (SKM_sk_delete ''CMS_CertificateChoices'' P_st P_i),
      Macro ''delete_ptr'' [P_st, P_ptr] (SKM_sk_delete_ptr ''CMS_CertificateChoices'' P_st P_ptr),
      Macro ''insert'' [P_st, P_val, P_i] (SKM_sk_insert ''CMS_CertificateChoices'' P_st P_val P_i),
      Macro ''set_cmp_func'' [P_st, P_cmp] (SKM_sk_set_cmp_func ''CMS_CertificateChoices'' P_st P_cmp),
      Macro ''dup'' [P_st] (SKM_sk_dup ''CMS_CertificateChoices'' P_st),
      Macro ''pop_free'' [P_st, P_free_func] (SKM_sk_pop_free ''CMS_CertificateChoices'' P_st P_free_func),
      Macro ''shift'' [P_st] (SKM_sk_shift ''CMS_CertificateChoices'' P_st),
      Macro ''pop'' [P_st] (SKM_sk_pop ''CMS_CertificateChoices'' P_st),
      Macro ''sort'' [P_st] (SKM_sk_sort ''CMS_CertificateChoices'' P_st),
      Macro ''is_sorted'' [P_st] (SKM_sk_is_sorted ''CMS_CertificateChoices'' P_st)]"

definition sk_CMS_RecipientInfo :: "macro_def list" where
  "sk_CMS_RecipientInfo =
     [Macro ''new'' [P_cmp] (SKM_sk_new ''CMS_RecipientInfo'' P_cmp),
      Macro ''new_null'' [] (SKM_sk_new_null ''CMS_RecipientInfo''),
      Macro ''free'' [P_st] (SKM_sk_free ''CMS_RecipientInfo'' P_st),
      Macro ''num'' [P_st] (SKM_sk_num ''CMS_RecipientInfo'' P_st),
      Macro ''value'' [P_st, P_i] (SKM_sk_value ''CMS_RecipientInfo'' P_st P_i),
      Macro ''set'' [P_st, P_i, P_val] (SKM_sk_set ''CMS_RecipientInfo'' P_st P_i P_val),
      Macro ''zero'' [P_st] (SKM_sk_zero ''CMS_RecipientInfo'' P_st),
      Macro ''push'' [P_st, P_val] (SKM_sk_push ''CMS_RecipientInfo'' P_st P_val),
      Macro ''unshift'' [P_st, P_val] (SKM_sk_unshift ''CMS_RecipientInfo'' P_st P_val),
      Macro ''find'' [P_st, P_val] (SKM_sk_find ''CMS_RecipientInfo'' P_st P_val),
      Macro ''find_ex'' [P_st, P_val] (SKM_sk_find_ex ''CMS_RecipientInfo'' P_st P_val),
      Macro ''delete'' [P_st, P_i] (SKM_sk_delete ''CMS_RecipientInfo'' P_st P_i),
      Macro ''delete_ptr'' [P_st, P_ptr] (SKM_sk_delete_ptr ''CMS_RecipientInfo'' P_st P_ptr),
      Macro ''insert'' [P_st, P_val, P_i] (SKM_sk_insert ''CMS_RecipientInfo'' P_st P_val P_i),
      Macro ''set_cmp_func'' [P_st, P_cmp] (SKM_sk_set_cmp_func ''CMS_RecipientInfo'' P_st P_cmp),
      Macro ''dup'' [P_st] (SKM_sk_dup ''CMS_RecipientInfo'' P_st),
      Macro ''pop_free'' [P_st, P_free_func] (SKM_sk_pop_free ''CMS_RecipientInfo'' P_st P_free_func),
      Macro ''shift'' [P_st] (SKM_sk_shift ''CMS_RecipientInfo'' P_st),
      Macro ''pop'' [P_st] (SKM_sk_pop ''CMS_RecipientInfo'' P_st),
      Macro ''sort'' [P_st] (SKM_sk_sort ''CMS_RecipientInfo'' P_st),
      Macro ''is_sorted'' [P_st] (SKM_sk_is_sorted ''CMS_RecipientInfo'' P_st)]"

definition sk_CMS_RevocationInfoChoice :: "macro_def list" where
  "sk_CMS_RevocationInfoChoice =
     [Macro ''new'' [P_cmp] (SKM_sk_new ''CMS_RevocationInfoChoice'' P_cmp),
      Macro ''new_null'' [] (SKM_sk_new_null ''CMS_RevocationInfoChoice''),
      Macro ''free'' [P_st] (SKM_sk_free ''CMS_RevocationInfoChoice'' P_st),
      Macro ''num'' [P_st] (SKM_sk_num ''CMS_RevocationInfoChoice'' P_st),
      Macro ''value'' [P_st, P_i] (SKM_sk_value ''CMS_RevocationInfoChoice'' P_st P_i),
      Macro ''set'' [P_st, P_i, P_val] (SKM_sk_set ''CMS_RevocationInfoChoice'' P_st P_i P_val),
      Macro ''zero'' [P_st] (SKM_sk_zero ''CMS_RevocationInfoChoice'' P_st),
      Macro ''push'' [P_st, P_val] (SKM_sk_push ''CMS_RevocationInfoChoice'' P_st P_val),
      Macro ''unshift'' [P_st, P_val] (SKM_sk_unshift ''CMS_RevocationInfoChoice'' P_st P_val),
      Macro ''find'' [P_st, P_val] (SKM_sk_find ''CMS_RevocationInfoChoice'' P_st P_val),
      Macro ''find_ex'' [P_st, P_val] (SKM_sk_find_ex ''CMS_RevocationInfoChoice'' P_st P_val),
      Macro ''delete'' [P_st, P_i] (SKM_sk_delete ''CMS_RevocationInfoChoice'' P_st P_i),
      Macro ''delete_ptr'' [P_st, P_ptr] (SKM_sk_delete_ptr ''CMS_RevocationInfoChoice'' P_st P_ptr),
      Macro ''insert'' [P_st, P_val, P_i] (SKM_sk_insert ''CMS_RevocationInfoChoice'' P_st P_val P_i),
      Macro ''set_cmp_func'' [P_st, P_cmp] (SKM_sk_set_cmp_func ''CMS_RevocationInfoChoice'' P_st P_cmp),
      Macro ''dup'' [P_st] (SKM_sk_dup ''CMS_RevocationInfoChoice'' P_st),
      Macro ''pop_free'' [P_st, P_free_func] (SKM_sk_pop_free ''CMS_RevocationInfoChoice'' P_st P_free_func),
      Macro ''shift'' [P_st] (SKM_sk_shift ''CMS_RevocationInfoChoice'' P_st),
      Macro ''pop'' [P_st] (SKM_sk_pop ''CMS_RevocationInfoChoice'' P_st),
      Macro ''sort'' [P_st] (SKM_sk_sort ''CMS_RevocationInfoChoice'' P_st),
      Macro ''is_sorted'' [P_st] (SKM_sk_is_sorted ''CMS_RevocationInfoChoice'' P_st)]"

definition sk_CMS_SignerInfo :: "macro_def list" where
  "sk_CMS_SignerInfo =
     [Macro ''new'' [P_cmp] (SKM_sk_new ''CMS_SignerInfo'' P_cmp),
      Macro ''new_null'' [] (SKM_sk_new_null ''CMS_SignerInfo''),
      Macro ''free'' [P_st] (SKM_sk_free ''CMS_SignerInfo'' P_st),
      Macro ''num'' [P_st] (SKM_sk_num ''CMS_SignerInfo'' P_st),
      Macro ''value'' [P_st, P_i] (SKM_sk_value ''CMS_SignerInfo'' P_st P_i),
      Macro ''set'' [P_st, P_i, P_val] (SKM_sk_set ''CMS_SignerInfo'' P_st P_i P_val),
      Macro ''zero'' [P_st] (SKM_sk_zero ''CMS_SignerInfo'' P_st),
      Macro ''push'' [P_st, P_val] (SKM_sk_push ''CMS_SignerInfo'' P_st P_val),
      Macro ''unshift'' [P_st, P_val] (SKM_sk_unshift ''CMS_SignerInfo'' P_st P_val),
      Macro ''find'' [P_st, P_val] (SKM_sk_find ''CMS_SignerInfo'' P_st P_val),
      Macro ''find_ex'' [P_st, P_val] (SKM_sk_find_ex ''CMS_SignerInfo'' P_st P_val),
      Macro ''delete'' [P_st, P_i] (SKM_sk_delete ''CMS_SignerInfo'' P_st P_i),
      Macro ''delete_ptr'' [P_st, P_ptr] (SKM_sk_delete_ptr ''CMS_SignerInfo'' P_st P_ptr),
      Macro ''insert'' [P_st, P_val, P_i] (SKM_sk_insert ''CMS_SignerInfo'' P_st P_val P_i),
      Macro ''set_cmp_func'' [P_st, P_cmp] (SKM_sk_set_cmp_func ''CMS_SignerInfo'' P_st P_cmp),
      Macro ''dup'' [P_st] (SKM_sk_dup ''CMS_SignerInfo'' P_st),
      Macro ''pop_free'' [P_st, P_free_func] (SKM_sk_pop_free ''CMS_SignerInfo'' P_st P_free_func),
      Macro ''shift'' [P_st] (SKM_sk_shift ''CMS_SignerInfo'' P_st),
      Macro ''pop'' [P_st] (SKM_sk_pop ''CMS_SignerInfo'' P_st),
      Macro ''sort'' [P_st] (SKM_sk_sort ''CMS_SignerInfo'' P_st),
      Macro ''is_sorted'' [P_st] (SKM_sk_is_sorted ''CMS_SignerInfo'' P_st)]"

definition sk_CONF_IMODULE :: "macro_def list" where
  "sk_CONF_IMODULE =
     [Macro ''new'' [P_cmp] (SKM_sk_new ''CONF_IMODULE'' P_cmp),
      Macro ''new_null'' [] (SKM_sk_new_null ''CONF_IMODULE''),
      Macro ''free'' [P_st] (SKM_sk_free ''CONF_IMODULE'' P_st),
      Macro ''num'' [P_st] (SKM_sk_num ''CONF_IMODULE'' P_st),
      Macro ''value'' [P_st, P_i] (SKM_sk_value ''CONF_IMODULE'' P_st P_i),
      Macro ''set'' [P_st, P_i, P_val] (SKM_sk_set ''CONF_IMODULE'' P_st P_i P_val),
      Macro ''zero'' [P_st] (SKM_sk_zero ''CONF_IMODULE'' P_st),
      Macro ''push'' [P_st, P_val] (SKM_sk_push ''CONF_IMODULE'' P_st P_val),
      Macro ''unshift'' [P_st, P_val] (SKM_sk_unshift ''CONF_IMODULE'' P_st P_val),
      Macro ''find'' [P_st, P_val] (SKM_sk_find ''CONF_IMODULE'' P_st P_val),
      Macro ''find_ex'' [P_st, P_val] (SKM_sk_find_ex ''CONF_IMODULE'' P_st P_val),
      Macro ''delete'' [P_st, P_i] (SKM_sk_delete ''CONF_IMODULE'' P_st P_i),
      Macro ''delete_ptr'' [P_st, P_ptr] (SKM_sk_delete_ptr ''CONF_IMODULE'' P_st P_ptr),
      Macro ''insert'' [P_st, P_val, P_i] (SKM_sk_insert ''CONF_IMODULE'' P_st P_val P_i),
      Macro ''set_cmp_func'' [P_st, P_cmp] (SKM_sk_set_cmp_func ''CONF_IMODULE'' P_st P_cmp),
      Macro ''dup'' [P_st] (SKM_sk_dup ''CONF_IMODULE'' P_st),
      Macro ''pop_free'' [P_st, P_free_func] (SKM_sk_pop_free ''CONF_IMODULE'' P_st P_free_func),
      Macro ''shift'' [P_st] (SKM_sk_shift ''CONF_IMODULE'' P_st),
      Macro ''pop'' [P_st] (SKM_sk_pop ''CONF_IMODULE'' P_st),
      Macro ''sort'' [P_st] (SKM_sk_sort ''CONF_IMODULE'' P_st),
      Macro ''is_sorted'' [P_st] (SKM_sk_is_sorted ''CONF_IMODULE'' P_st)]"

definition sk_CONF_MODULE :: "macro_def list" where
  "sk_CONF_MODULE =
     [Macro ''new'' [P_cmp] (SKM_sk_new ''CONF_MODULE'' P_cmp),
      Macro ''new_null'' [] (SKM_sk_new_null ''CONF_MODULE''),
      Macro ''free'' [P_st] (SKM_sk_free ''CONF_MODULE'' P_st),
      Macro ''num'' [P_st] (SKM_sk_num ''CONF_MODULE'' P_st),
      Macro ''value'' [P_st, P_i] (SKM_sk_value ''CONF_MODULE'' P_st P_i),
      Macro ''set'' [P_st, P_i, P_val] (SKM_sk_set ''CONF_MODULE'' P_st P_i P_val),
      Macro ''zero'' [P_st] (SKM_sk_zero ''CONF_MODULE'' P_st),
      Macro ''push'' [P_st, P_val] (SKM_sk_push ''CONF_MODULE'' P_st P_val),
      Macro ''unshift'' [P_st, P_val] (SKM_sk_unshift ''CONF_MODULE'' P_st P_val),
      Macro ''find'' [P_st, P_val] (SKM_sk_find ''CONF_MODULE'' P_st P_val),
      Macro ''find_ex'' [P_st, P_val] (SKM_sk_find_ex ''CONF_MODULE'' P_st P_val),
      Macro ''delete'' [P_st, P_i] (SKM_sk_delete ''CONF_MODULE'' P_st P_i),
      Macro ''delete_ptr'' [P_st, P_ptr] (SKM_sk_delete_ptr ''CONF_MODULE'' P_st P_ptr),
      Macro ''insert'' [P_st, P_val, P_i] (SKM_sk_insert ''CONF_MODULE'' P_st P_val P_i),
      Macro ''set_cmp_func'' [P_st, P_cmp] (SKM_sk_set_cmp_func ''CONF_MODULE'' P_st P_cmp),
      Macro ''dup'' [P_st] (SKM_sk_dup ''CONF_MODULE'' P_st),
      Macro ''pop_free'' [P_st, P_free_func] (SKM_sk_pop_free ''CONF_MODULE'' P_st P_free_func),
      Macro ''shift'' [P_st] (SKM_sk_shift ''CONF_MODULE'' P_st),
      Macro ''pop'' [P_st] (SKM_sk_pop ''CONF_MODULE'' P_st),
      Macro ''sort'' [P_st] (SKM_sk_sort ''CONF_MODULE'' P_st),
      Macro ''is_sorted'' [P_st] (SKM_sk_is_sorted ''CONF_MODULE'' P_st)]"

definition sk_CONF_VALUE :: "macro_def list" where
  "sk_CONF_VALUE =
     [Macro ''new'' [P_cmp] (SKM_sk_new ''CONF_VALUE'' P_cmp),
      Macro ''new_null'' [] (SKM_sk_new_null ''CONF_VALUE''),
      Macro ''free'' [P_st] (SKM_sk_free ''CONF_VALUE'' P_st),
      Macro ''num'' [P_st] (SKM_sk_num ''CONF_VALUE'' P_st),
      Macro ''value'' [P_st, P_i] (SKM_sk_value ''CONF_VALUE'' P_st P_i),
      Macro ''set'' [P_st, P_i, P_val] (SKM_sk_set ''CONF_VALUE'' P_st P_i P_val),
      Macro ''zero'' [P_st] (SKM_sk_zero ''CONF_VALUE'' P_st),
      Macro ''push'' [P_st, P_val] (SKM_sk_push ''CONF_VALUE'' P_st P_val),
      Macro ''unshift'' [P_st, P_val] (SKM_sk_unshift ''CONF_VALUE'' P_st P_val),
      Macro ''find'' [P_st, P_val] (SKM_sk_find ''CONF_VALUE'' P_st P_val),
      Macro ''find_ex'' [P_st, P_val] (SKM_sk_find_ex ''CONF_VALUE'' P_st P_val),
      Macro ''delete'' [P_st, P_i] (SKM_sk_delete ''CONF_VALUE'' P_st P_i),
      Macro ''delete_ptr'' [P_st, P_ptr] (SKM_sk_delete_ptr ''CONF_VALUE'' P_st P_ptr),
      Macro ''insert'' [P_st, P_val, P_i] (SKM_sk_insert ''CONF_VALUE'' P_st P_val P_i),
      Macro ''set_cmp_func'' [P_st, P_cmp] (SKM_sk_set_cmp_func ''CONF_VALUE'' P_st P_cmp),
      Macro ''dup'' [P_st] (SKM_sk_dup ''CONF_VALUE'' P_st),
      Macro ''pop_free'' [P_st, P_free_func] (SKM_sk_pop_free ''CONF_VALUE'' P_st P_free_func),
      Macro ''shift'' [P_st] (SKM_sk_shift ''CONF_VALUE'' P_st),
      Macro ''pop'' [P_st] (SKM_sk_pop ''CONF_VALUE'' P_st),
      Macro ''sort'' [P_st] (SKM_sk_sort ''CONF_VALUE'' P_st),
      Macro ''is_sorted'' [P_st] (SKM_sk_is_sorted ''CONF_VALUE'' P_st)]"

definition sk_CRYPTO_EX_DATA_FUNCS :: "macro_def list" where
  "sk_CRYPTO_EX_DATA_FUNCS =
     [Macro ''new'' [P_cmp] (SKM_sk_new ''CRYPTO_EX_DATA_FUNCS'' P_cmp),
      Macro ''new_null'' [] (SKM_sk_new_null ''CRYPTO_EX_DATA_FUNCS''),
      Macro ''free'' [P_st] (SKM_sk_free ''CRYPTO_EX_DATA_FUNCS'' P_st),
      Macro ''num'' [P_st] (SKM_sk_num ''CRYPTO_EX_DATA_FUNCS'' P_st),
      Macro ''value'' [P_st, P_i] (SKM_sk_value ''CRYPTO_EX_DATA_FUNCS'' P_st P_i),
      Macro ''set'' [P_st, P_i, P_val] (SKM_sk_set ''CRYPTO_EX_DATA_FUNCS'' P_st P_i P_val),
      Macro ''zero'' [P_st] (SKM_sk_zero ''CRYPTO_EX_DATA_FUNCS'' P_st),
      Macro ''push'' [P_st, P_val] (SKM_sk_push ''CRYPTO_EX_DATA_FUNCS'' P_st P_val),
      Macro ''unshift'' [P_st, P_val] (SKM_sk_unshift ''CRYPTO_EX_DATA_FUNCS'' P_st P_val),
      Macro ''find'' [P_st, P_val] (SKM_sk_find ''CRYPTO_EX_DATA_FUNCS'' P_st P_val),
      Macro ''find_ex'' [P_st, P_val] (SKM_sk_find_ex ''CRYPTO_EX_DATA_FUNCS'' P_st P_val),
      Macro ''delete'' [P_st, P_i] (SKM_sk_delete ''CRYPTO_EX_DATA_FUNCS'' P_st P_i),
      Macro ''delete_ptr'' [P_st, P_ptr] (SKM_sk_delete_ptr ''CRYPTO_EX_DATA_FUNCS'' P_st P_ptr),
      Macro ''insert'' [P_st, P_val, P_i] (SKM_sk_insert ''CRYPTO_EX_DATA_FUNCS'' P_st P_val P_i),
      Macro ''set_cmp_func'' [P_st, P_cmp] (SKM_sk_set_cmp_func ''CRYPTO_EX_DATA_FUNCS'' P_st P_cmp),
      Macro ''dup'' [P_st] (SKM_sk_dup ''CRYPTO_EX_DATA_FUNCS'' P_st),
      Macro ''pop_free'' [P_st, P_free_func] (SKM_sk_pop_free ''CRYPTO_EX_DATA_FUNCS'' P_st P_free_func),
      Macro ''shift'' [P_st] (SKM_sk_shift ''CRYPTO_EX_DATA_FUNCS'' P_st),
      Macro ''pop'' [P_st] (SKM_sk_pop ''CRYPTO_EX_DATA_FUNCS'' P_st),
      Macro ''sort'' [P_st] (SKM_sk_sort ''CRYPTO_EX_DATA_FUNCS'' P_st),
      Macro ''is_sorted'' [P_st] (SKM_sk_is_sorted ''CRYPTO_EX_DATA_FUNCS'' P_st)]"

definition sk_CRYPTO_dynlock :: "macro_def list" where
  "sk_CRYPTO_dynlock =
     [Macro ''new'' [P_cmp] (SKM_sk_new ''CRYPTO_dynlock'' P_cmp),
      Macro ''new_null'' [] (SKM_sk_new_null ''CRYPTO_dynlock''),
      Macro ''free'' [P_st] (SKM_sk_free ''CRYPTO_dynlock'' P_st),
      Macro ''num'' [P_st] (SKM_sk_num ''CRYPTO_dynlock'' P_st),
      Macro ''value'' [P_st, P_i] (SKM_sk_value ''CRYPTO_dynlock'' P_st P_i),
      Macro ''set'' [P_st, P_i, P_val] (SKM_sk_set ''CRYPTO_dynlock'' P_st P_i P_val),
      Macro ''zero'' [P_st] (SKM_sk_zero ''CRYPTO_dynlock'' P_st),
      Macro ''push'' [P_st, P_val] (SKM_sk_push ''CRYPTO_dynlock'' P_st P_val),
      Macro ''unshift'' [P_st, P_val] (SKM_sk_unshift ''CRYPTO_dynlock'' P_st P_val),
      Macro ''find'' [P_st, P_val] (SKM_sk_find ''CRYPTO_dynlock'' P_st P_val),
      Macro ''find_ex'' [P_st, P_val] (SKM_sk_find_ex ''CRYPTO_dynlock'' P_st P_val),
      Macro ''delete'' [P_st, P_i] (SKM_sk_delete ''CRYPTO_dynlock'' P_st P_i),
      Macro ''delete_ptr'' [P_st, P_ptr] (SKM_sk_delete_ptr ''CRYPTO_dynlock'' P_st P_ptr),
      Macro ''insert'' [P_st, P_val, P_i] (SKM_sk_insert ''CRYPTO_dynlock'' P_st P_val P_i),
      Macro ''set_cmp_func'' [P_st, P_cmp] (SKM_sk_set_cmp_func ''CRYPTO_dynlock'' P_st P_cmp),
      Macro ''dup'' [P_st] (SKM_sk_dup ''CRYPTO_dynlock'' P_st),
      Macro ''pop_free'' [P_st, P_free_func] (SKM_sk_pop_free ''CRYPTO_dynlock'' P_st P_free_func),
      Macro ''shift'' [P_st] (SKM_sk_shift ''CRYPTO_dynlock'' P_st),
      Macro ''pop'' [P_st] (SKM_sk_pop ''CRYPTO_dynlock'' P_st),
      Macro ''sort'' [P_st] (SKM_sk_sort ''CRYPTO_dynlock'' P_st),
      Macro ''is_sorted'' [P_st] (SKM_sk_is_sorted ''CRYPTO_dynlock'' P_st)]"

definition sk_DIST_POINT :: "macro_def list" where
  "sk_DIST_POINT =
     [Macro ''new'' [P_cmp] (SKM_sk_new ''DIST_POINT'' P_cmp),
      Macro ''new_null'' [] (SKM_sk_new_null ''DIST_POINT''),
      Macro ''free'' [P_st] (SKM_sk_free ''DIST_POINT'' P_st),
      Macro ''num'' [P_st] (SKM_sk_num ''DIST_POINT'' P_st),
      Macro ''value'' [P_st, P_i] (SKM_sk_value ''DIST_POINT'' P_st P_i),
      Macro ''set'' [P_st, P_i, P_val] (SKM_sk_set ''DIST_POINT'' P_st P_i P_val),
      Macro ''zero'' [P_st] (SKM_sk_zero ''DIST_POINT'' P_st),
      Macro ''push'' [P_st, P_val] (SKM_sk_push ''DIST_POINT'' P_st P_val),
      Macro ''unshift'' [P_st, P_val] (SKM_sk_unshift ''DIST_POINT'' P_st P_val),
      Macro ''find'' [P_st, P_val] (SKM_sk_find ''DIST_POINT'' P_st P_val),
      Macro ''find_ex'' [P_st, P_val] (SKM_sk_find_ex ''DIST_POINT'' P_st P_val),
      Macro ''delete'' [P_st, P_i] (SKM_sk_delete ''DIST_POINT'' P_st P_i),
      Macro ''delete_ptr'' [P_st, P_ptr] (SKM_sk_delete_ptr ''DIST_POINT'' P_st P_ptr),
      Macro ''insert'' [P_st, P_val, P_i] (SKM_sk_insert ''DIST_POINT'' P_st P_val P_i),
      Macro ''set_cmp_func'' [P_st, P_cmp] (SKM_sk_set_cmp_func ''DIST_POINT'' P_st P_cmp),
      Macro ''dup'' [P_st] (SKM_sk_dup ''DIST_POINT'' P_st),
      Macro ''pop_free'' [P_st, P_free_func] (SKM_sk_pop_free ''DIST_POINT'' P_st P_free_func),
      Macro ''shift'' [P_st] (SKM_sk_shift ''DIST_POINT'' P_st),
      Macro ''pop'' [P_st] (SKM_sk_pop ''DIST_POINT'' P_st),
      Macro ''sort'' [P_st] (SKM_sk_sort ''DIST_POINT'' P_st),
      Macro ''is_sorted'' [P_st] (SKM_sk_is_sorted ''DIST_POINT'' P_st)]"

definition sk_ENGINE :: "macro_def list" where
  "sk_ENGINE =
     [Macro ''new'' [P_cmp] (SKM_sk_new ''ENGINE'' P_cmp),
      Macro ''new_null'' [] (SKM_sk_new_null ''ENGINE''),
      Macro ''free'' [P_st] (SKM_sk_free ''ENGINE'' P_st),
      Macro ''num'' [P_st] (SKM_sk_num ''ENGINE'' P_st),
      Macro ''value'' [P_st, P_i] (SKM_sk_value ''ENGINE'' P_st P_i),
      Macro ''set'' [P_st, P_i, P_val] (SKM_sk_set ''ENGINE'' P_st P_i P_val),
      Macro ''zero'' [P_st] (SKM_sk_zero ''ENGINE'' P_st),
      Macro ''push'' [P_st, P_val] (SKM_sk_push ''ENGINE'' P_st P_val),
      Macro ''unshift'' [P_st, P_val] (SKM_sk_unshift ''ENGINE'' P_st P_val),
      Macro ''find'' [P_st, P_val] (SKM_sk_find ''ENGINE'' P_st P_val),
      Macro ''find_ex'' [P_st, P_val] (SKM_sk_find_ex ''ENGINE'' P_st P_val),
      Macro ''delete'' [P_st, P_i] (SKM_sk_delete ''ENGINE'' P_st P_i),
      Macro ''delete_ptr'' [P_st, P_ptr] (SKM_sk_delete_ptr ''ENGINE'' P_st P_ptr),
      Macro ''insert'' [P_st, P_val, P_i] (SKM_sk_insert ''ENGINE'' P_st P_val P_i),
      Macro ''set_cmp_func'' [P_st, P_cmp] (SKM_sk_set_cmp_func ''ENGINE'' P_st P_cmp),
      Macro ''dup'' [P_st] (SKM_sk_dup ''ENGINE'' P_st),
      Macro ''pop_free'' [P_st, P_free_func] (SKM_sk_pop_free ''ENGINE'' P_st P_free_func),
      Macro ''shift'' [P_st] (SKM_sk_shift ''ENGINE'' P_st),
      Macro ''pop'' [P_st] (SKM_sk_pop ''ENGINE'' P_st),
      Macro ''sort'' [P_st] (SKM_sk_sort ''ENGINE'' P_st),
      Macro ''is_sorted'' [P_st] (SKM_sk_is_sorted ''ENGINE'' P_st)]"

definition sk_ENGINE_CLEANUP_ITEM :: "macro_def list" where
  "sk_ENGINE_CLEANUP_ITEM =
     [Macro ''new'' [P_cmp] (SKM_sk_new ''ENGINE_CLEANUP_ITEM'' P_cmp),
      Macro ''new_null'' [] (SKM_sk_new_null ''ENGINE_CLEANUP_ITEM''),
      Macro ''free'' [P_st] (SKM_sk_free ''ENGINE_CLEANUP_ITEM'' P_st),
      Macro ''num'' [P_st] (SKM_sk_num ''ENGINE_CLEANUP_ITEM'' P_st),
      Macro ''value'' [P_st, P_i] (SKM_sk_value ''ENGINE_CLEANUP_ITEM'' P_st P_i),
      Macro ''set'' [P_st, P_i, P_val] (SKM_sk_set ''ENGINE_CLEANUP_ITEM'' P_st P_i P_val),
      Macro ''zero'' [P_st] (SKM_sk_zero ''ENGINE_CLEANUP_ITEM'' P_st),
      Macro ''push'' [P_st, P_val] (SKM_sk_push ''ENGINE_CLEANUP_ITEM'' P_st P_val),
      Macro ''unshift'' [P_st, P_val] (SKM_sk_unshift ''ENGINE_CLEANUP_ITEM'' P_st P_val),
      Macro ''find'' [P_st, P_val] (SKM_sk_find ''ENGINE_CLEANUP_ITEM'' P_st P_val),
      Macro ''find_ex'' [P_st, P_val] (SKM_sk_find_ex ''ENGINE_CLEANUP_ITEM'' P_st P_val),
      Macro ''delete'' [P_st, P_i] (SKM_sk_delete ''ENGINE_CLEANUP_ITEM'' P_st P_i),
      Macro ''delete_ptr'' [P_st, P_ptr] (SKM_sk_delete_ptr ''ENGINE_CLEANUP_ITEM'' P_st P_ptr),
      Macro ''insert'' [P_st, P_val, P_i] (SKM_sk_insert ''ENGINE_CLEANUP_ITEM'' P_st P_val P_i),
      Macro ''set_cmp_func'' [P_st, P_cmp] (SKM_sk_set_cmp_func ''ENGINE_CLEANUP_ITEM'' P_st P_cmp),
      Macro ''dup'' [P_st] (SKM_sk_dup ''ENGINE_CLEANUP_ITEM'' P_st),
      Macro ''pop_free'' [P_st, P_free_func] (SKM_sk_pop_free ''ENGINE_CLEANUP_ITEM'' P_st P_free_func),
      Macro ''shift'' [P_st] (SKM_sk_shift ''ENGINE_CLEANUP_ITEM'' P_st),
      Macro ''pop'' [P_st] (SKM_sk_pop ''ENGINE_CLEANUP_ITEM'' P_st),
      Macro ''sort'' [P_st] (SKM_sk_sort ''ENGINE_CLEANUP_ITEM'' P_st),
      Macro ''is_sorted'' [P_st] (SKM_sk_is_sorted ''ENGINE_CLEANUP_ITEM'' P_st)]"

definition sk_ESS_CERT_ID :: "macro_def list" where
  "sk_ESS_CERT_ID =
     [Macro ''new'' [P_cmp] (SKM_sk_new ''ESS_CERT_ID'' P_cmp),
      Macro ''new_null'' [] (SKM_sk_new_null ''ESS_CERT_ID''),
      Macro ''free'' [P_st] (SKM_sk_free ''ESS_CERT_ID'' P_st),
      Macro ''num'' [P_st] (SKM_sk_num ''ESS_CERT_ID'' P_st),
      Macro ''value'' [P_st, P_i] (SKM_sk_value ''ESS_CERT_ID'' P_st P_i),
      Macro ''set'' [P_st, P_i, P_val] (SKM_sk_set ''ESS_CERT_ID'' P_st P_i P_val),
      Macro ''zero'' [P_st] (SKM_sk_zero ''ESS_CERT_ID'' P_st),
      Macro ''push'' [P_st, P_val] (SKM_sk_push ''ESS_CERT_ID'' P_st P_val),
      Macro ''unshift'' [P_st, P_val] (SKM_sk_unshift ''ESS_CERT_ID'' P_st P_val),
      Macro ''find'' [P_st, P_val] (SKM_sk_find ''ESS_CERT_ID'' P_st P_val),
      Macro ''find_ex'' [P_st, P_val] (SKM_sk_find_ex ''ESS_CERT_ID'' P_st P_val),
      Macro ''delete'' [P_st, P_i] (SKM_sk_delete ''ESS_CERT_ID'' P_st P_i),
      Macro ''delete_ptr'' [P_st, P_ptr] (SKM_sk_delete_ptr ''ESS_CERT_ID'' P_st P_ptr),
      Macro ''insert'' [P_st, P_val, P_i] (SKM_sk_insert ''ESS_CERT_ID'' P_st P_val P_i),
      Macro ''set_cmp_func'' [P_st, P_cmp] (SKM_sk_set_cmp_func ''ESS_CERT_ID'' P_st P_cmp),
      Macro ''dup'' [P_st] (SKM_sk_dup ''ESS_CERT_ID'' P_st),
      Macro ''pop_free'' [P_st, P_free_func] (SKM_sk_pop_free ''ESS_CERT_ID'' P_st P_free_func),
      Macro ''shift'' [P_st] (SKM_sk_shift ''ESS_CERT_ID'' P_st),
      Macro ''pop'' [P_st] (SKM_sk_pop ''ESS_CERT_ID'' P_st),
      Macro ''sort'' [P_st] (SKM_sk_sort ''ESS_CERT_ID'' P_st),
      Macro ''is_sorted'' [P_st] (SKM_sk_is_sorted ''ESS_CERT_ID'' P_st)]"

definition sk_EVP_MD :: "macro_def list" where
  "sk_EVP_MD =
     [Macro ''new'' [P_cmp] (SKM_sk_new ''EVP_MD'' P_cmp),
      Macro ''new_null'' [] (SKM_sk_new_null ''EVP_MD''),
      Macro ''free'' [P_st] (SKM_sk_free ''EVP_MD'' P_st),
      Macro ''num'' [P_st] (SKM_sk_num ''EVP_MD'' P_st),
      Macro ''value'' [P_st, P_i] (SKM_sk_value ''EVP_MD'' P_st P_i),
      Macro ''set'' [P_st, P_i, P_val] (SKM_sk_set ''EVP_MD'' P_st P_i P_val),
      Macro ''zero'' [P_st] (SKM_sk_zero ''EVP_MD'' P_st),
      Macro ''push'' [P_st, P_val] (SKM_sk_push ''EVP_MD'' P_st P_val),
      Macro ''unshift'' [P_st, P_val] (SKM_sk_unshift ''EVP_MD'' P_st P_val),
      Macro ''find'' [P_st, P_val] (SKM_sk_find ''EVP_MD'' P_st P_val),
      Macro ''find_ex'' [P_st, P_val] (SKM_sk_find_ex ''EVP_MD'' P_st P_val),
      Macro ''delete'' [P_st, P_i] (SKM_sk_delete ''EVP_MD'' P_st P_i),
      Macro ''delete_ptr'' [P_st, P_ptr] (SKM_sk_delete_ptr ''EVP_MD'' P_st P_ptr),
      Macro ''insert'' [P_st, P_val, P_i] (SKM_sk_insert ''EVP_MD'' P_st P_val P_i),
      Macro ''set_cmp_func'' [P_st, P_cmp] (SKM_sk_set_cmp_func ''EVP_MD'' P_st P_cmp),
      Macro ''dup'' [P_st] (SKM_sk_dup ''EVP_MD'' P_st),
      Macro ''pop_free'' [P_st, P_free_func] (SKM_sk_pop_free ''EVP_MD'' P_st P_free_func),
      Macro ''shift'' [P_st] (SKM_sk_shift ''EVP_MD'' P_st),
      Macro ''pop'' [P_st] (SKM_sk_pop ''EVP_MD'' P_st),
      Macro ''sort'' [P_st] (SKM_sk_sort ''EVP_MD'' P_st),
      Macro ''is_sorted'' [P_st] (SKM_sk_is_sorted ''EVP_MD'' P_st)]"

definition sk_EVP_PBE_CTL :: "macro_def list" where
  "sk_EVP_PBE_CTL =
     [Macro ''new'' [P_cmp] (SKM_sk_new ''EVP_PBE_CTL'' P_cmp),
      Macro ''new_null'' [] (SKM_sk_new_null ''EVP_PBE_CTL''),
      Macro ''free'' [P_st] (SKM_sk_free ''EVP_PBE_CTL'' P_st),
      Macro ''num'' [P_st] (SKM_sk_num ''EVP_PBE_CTL'' P_st),
      Macro ''value'' [P_st, P_i] (SKM_sk_value ''EVP_PBE_CTL'' P_st P_i),
      Macro ''set'' [P_st, P_i, P_val] (SKM_sk_set ''EVP_PBE_CTL'' P_st P_i P_val),
      Macro ''zero'' [P_st] (SKM_sk_zero ''EVP_PBE_CTL'' P_st),
      Macro ''push'' [P_st, P_val] (SKM_sk_push ''EVP_PBE_CTL'' P_st P_val),
      Macro ''unshift'' [P_st, P_val] (SKM_sk_unshift ''EVP_PBE_CTL'' P_st P_val),
      Macro ''find'' [P_st, P_val] (SKM_sk_find ''EVP_PBE_CTL'' P_st P_val),
      Macro ''find_ex'' [P_st, P_val] (SKM_sk_find_ex ''EVP_PBE_CTL'' P_st P_val),
      Macro ''delete'' [P_st, P_i] (SKM_sk_delete ''EVP_PBE_CTL'' P_st P_i),
      Macro ''delete_ptr'' [P_st, P_ptr] (SKM_sk_delete_ptr ''EVP_PBE_CTL'' P_st P_ptr),
      Macro ''insert'' [P_st, P_val, P_i] (SKM_sk_insert ''EVP_PBE_CTL'' P_st P_val P_i),
      Macro ''set_cmp_func'' [P_st, P_cmp] (SKM_sk_set_cmp_func ''EVP_PBE_CTL'' P_st P_cmp),
      Macro ''dup'' [P_st] (SKM_sk_dup ''EVP_PBE_CTL'' P_st),
      Macro ''pop_free'' [P_st, P_free_func] (SKM_sk_pop_free ''EVP_PBE_CTL'' P_st P_free_func),
      Macro ''shift'' [P_st] (SKM_sk_shift ''EVP_PBE_CTL'' P_st),
      Macro ''pop'' [P_st] (SKM_sk_pop ''EVP_PBE_CTL'' P_st),
      Macro ''sort'' [P_st] (SKM_sk_sort ''EVP_PBE_CTL'' P_st),
      Macro ''is_sorted'' [P_st] (SKM_sk_is_sorted ''EVP_PBE_CTL'' P_st)]"

definition sk_EVP_PKEY_ASN1_METHOD :: "macro_def list" where
  "sk_EVP_PKEY_ASN1_METHOD =
     [Macro ''new'' [P_cmp] (SKM_sk_new ''EVP_PKEY_ASN1_METHOD'' P_cmp),
      Macro ''new_null'' [] (SKM_sk_new_null ''EVP_PKEY_ASN1_METHOD''),
      Macro ''free'' [P_st] (SKM_sk_free ''EVP_PKEY_ASN1_METHOD'' P_st),
      Macro ''num'' [P_st] (SKM_sk_num ''EVP_PKEY_ASN1_METHOD'' P_st),
      Macro ''value'' [P_st, P_i] (SKM_sk_value ''EVP_PKEY_ASN1_METHOD'' P_st P_i),
      Macro ''set'' [P_st, P_i, P_val] (SKM_sk_set ''EVP_PKEY_ASN1_METHOD'' P_st P_i P_val),
      Macro ''zero'' [P_st] (SKM_sk_zero ''EVP_PKEY_ASN1_METHOD'' P_st),
      Macro ''push'' [P_st, P_val] (SKM_sk_push ''EVP_PKEY_ASN1_METHOD'' P_st P_val),
      Macro ''unshift'' [P_st, P_val] (SKM_sk_unshift ''EVP_PKEY_ASN1_METHOD'' P_st P_val),
      Macro ''find'' [P_st, P_val] (SKM_sk_find ''EVP_PKEY_ASN1_METHOD'' P_st P_val),
      Macro ''find_ex'' [P_st, P_val] (SKM_sk_find_ex ''EVP_PKEY_ASN1_METHOD'' P_st P_val),
      Macro ''delete'' [P_st, P_i] (SKM_sk_delete ''EVP_PKEY_ASN1_METHOD'' P_st P_i),
      Macro ''delete_ptr'' [P_st, P_ptr] (SKM_sk_delete_ptr ''EVP_PKEY_ASN1_METHOD'' P_st P_ptr),
      Macro ''insert'' [P_st, P_val, P_i] (SKM_sk_insert ''EVP_PKEY_ASN1_METHOD'' P_st P_val P_i),
      Macro ''set_cmp_func'' [P_st, P_cmp] (SKM_sk_set_cmp_func ''EVP_PKEY_ASN1_METHOD'' P_st P_cmp),
      Macro ''dup'' [P_st] (SKM_sk_dup ''EVP_PKEY_ASN1_METHOD'' P_st),
      Macro ''pop_free'' [P_st, P_free_func] (SKM_sk_pop_free ''EVP_PKEY_ASN1_METHOD'' P_st P_free_func),
      Macro ''shift'' [P_st] (SKM_sk_shift ''EVP_PKEY_ASN1_METHOD'' P_st),
      Macro ''pop'' [P_st] (SKM_sk_pop ''EVP_PKEY_ASN1_METHOD'' P_st),
      Macro ''sort'' [P_st] (SKM_sk_sort ''EVP_PKEY_ASN1_METHOD'' P_st),
      Macro ''is_sorted'' [P_st] (SKM_sk_is_sorted ''EVP_PKEY_ASN1_METHOD'' P_st)]"

definition sk_EVP_PKEY_METHOD :: "macro_def list" where
  "sk_EVP_PKEY_METHOD =
     [Macro ''new'' [P_cmp] (SKM_sk_new ''EVP_PKEY_METHOD'' P_cmp),
      Macro ''new_null'' [] (SKM_sk_new_null ''EVP_PKEY_METHOD''),
      Macro ''free'' [P_st] (SKM_sk_free ''EVP_PKEY_METHOD'' P_st),
      Macro ''num'' [P_st] (SKM_sk_num ''EVP_PKEY_METHOD'' P_st),
      Macro ''value'' [P_st, P_i] (SKM_sk_value ''EVP_PKEY_METHOD'' P_st P_i),
      Macro ''set'' [P_st, P_i, P_val] (SKM_sk_set ''EVP_PKEY_METHOD'' P_st P_i P_val),
      Macro ''zero'' [P_st] (SKM_sk_zero ''EVP_PKEY_METHOD'' P_st),
      Macro ''push'' [P_st, P_val] (SKM_sk_push ''EVP_PKEY_METHOD'' P_st P_val),
      Macro ''unshift'' [P_st, P_val] (SKM_sk_unshift ''EVP_PKEY_METHOD'' P_st P_val),
      Macro ''find'' [P_st, P_val] (SKM_sk_find ''EVP_PKEY_METHOD'' P_st P_val),
      Macro ''find_ex'' [P_st, P_val] (SKM_sk_find_ex ''EVP_PKEY_METHOD'' P_st P_val),
      Macro ''delete'' [P_st, P_i] (SKM_sk_delete ''EVP_PKEY_METHOD'' P_st P_i),
      Macro ''delete_ptr'' [P_st, P_ptr] (SKM_sk_delete_ptr ''EVP_PKEY_METHOD'' P_st P_ptr),
      Macro ''insert'' [P_st, P_val, P_i] (SKM_sk_insert ''EVP_PKEY_METHOD'' P_st P_val P_i),
      Macro ''set_cmp_func'' [P_st, P_cmp] (SKM_sk_set_cmp_func ''EVP_PKEY_METHOD'' P_st P_cmp),
      Macro ''dup'' [P_st] (SKM_sk_dup ''EVP_PKEY_METHOD'' P_st),
      Macro ''pop_free'' [P_st, P_free_func] (SKM_sk_pop_free ''EVP_PKEY_METHOD'' P_st P_free_func),
      Macro ''shift'' [P_st] (SKM_sk_shift ''EVP_PKEY_METHOD'' P_st),
      Macro ''pop'' [P_st] (SKM_sk_pop ''EVP_PKEY_METHOD'' P_st),
      Macro ''sort'' [P_st] (SKM_sk_sort ''EVP_PKEY_METHOD'' P_st),
      Macro ''is_sorted'' [P_st] (SKM_sk_is_sorted ''EVP_PKEY_METHOD'' P_st)]"

lemmas stack_defs_1 =
  sk_ACCESS_DESCRIPTION_def sk_ASIdOrRange_def sk_ASN1_GENERALSTRING_def sk_ASN1_INTEGER_def sk_ASN1_OBJECT_def
  sk_ASN1_STRING_TABLE_def sk_ASN1_TYPE_def sk_ASN1_UTF8STRING_def sk_ASN1_VALUE_def sk_BIO_def
  sk_BY_DIR_ENTRY_def sk_BY_DIR_HASH_def sk_CMS_CertificateChoices_def sk_CMS_RecipientInfo_def
  sk_CMS_RevocationInfoChoice_def sk_CMS_SignerInfo_def sk_CONF_IMODULE_def sk_CONF_MODULE_def sk_CONF_VALUE_def
  sk_CRYPTO_EX_DATA_FUNCS_def sk_CRYPTO_dynlock_def sk_DIST_POINT_def sk_ENGINE_def sk_ENGINE_CLEANUP_ITEM_def
  sk_ESS_CERT_ID_def sk_EVP_MD_def sk_EVP_PBE_CTL_def sk_EVP_PKEY_ASN1_METHOD_def sk_EVP_PKEY_METHOD_def

definition plain_stacks_1 :: "(string \<times> macro_def list) list" where
  "plain_stacks_1 =
     [(''ACCESS_DESCRIPTION'', sk_ACCESS_DESCRIPTION), (''ASIdOrRange'', sk_ASIdOrRange),
      (''ASN1_GENERALSTRING'', sk_ASN1_GENERALSTRING), (''ASN1_INTEGER'', sk_ASN1_INTEGER),
      (''ASN1_OBJECT'', sk_ASN1_OBJECT), (''ASN1_STRING_TABLE'', sk_ASN1_STRING_TABLE),
      (''ASN1_TYPE'', sk_ASN1_TYPE), (''ASN1_UTF8STRING'', sk_ASN1_UTF8STRING), (''ASN1_VALUE'', sk_ASN1_VALUE),
      (''BIO'', sk_BIO), (''BY_DIR_ENTRY'', sk_BY_DIR_ENTRY), (''BY_DIR_HASH'', sk_BY_DIR_HASH),
      (''CMS_CertificateChoices'', sk_CMS_CertificateChoices), (''CMS_RecipientInfo'', sk_CMS_RecipientInfo),
      (''CMS_RevocationInfoChoice'', sk_CMS_RevocationInfoChoice), (''CMS_SignerInfo'', sk_CMS_SignerInfo),
      (''CONF_IMODULE'', sk_CONF_IMODULE), (''CONF_MODULE'', sk_CONF_MODULE), (''CONF_VALUE'', sk_CONF_VALUE),
      (''CRYPTO_EX_DATA_FUNCS'', sk_CRYPTO_EX_DATA_FUNCS), (''CRYPTO_dynlock'', sk_CRYPTO_dynlock),
      (''DIST_POINT'', sk_DIST_POINT), (''ENGINE'', sk_ENGINE), (''ENGINE_CLEANUP_ITEM'', sk_ENGINE_CLEANUP_ITEM),
      (''ESS_CERT_ID'', sk_ESS_CERT_ID), (''EVP_MD'', sk_EVP_MD), (''EVP_PBE_CTL'', sk_EVP_PBE_CTL),
      (''EVP_PKEY_ASN1_METHOD'', sk_EVP_PKEY_ASN1_METHOD), (''EVP_PKEY_METHOD'', sk_EVP_PKEY_METHOD)]"

end
