(* ===== verification/Stack_Tables_2.thy ===== *)
theory Stack_Tables_2
  imports Typed_Macros
begin

text \<open>
  The stack macros of \<open>safestack.h\<close>, from \<open>sk_GENERAL_NAME_new\<close> to \<open>sk_SRP_gN_is_sorted\<close>: for each element type the macros in
  the order of the header, with their parameters and expansions.
\<close>

definition sk_GENERAL_NAME :: "macro_def list" where
  "sk_GENERAL_NAME =
     [Macro ''new'' [P_cmp] (SKM_sk_new ''GENERAL_NAME'' P_cmp),
      Macro ''new_null'' [] (SKM_sk_new_null ''GENERAL_NAME''),
      Macro ''free'' [P_st] (SKM_sk_free ''GENERAL_NAME'' P_st),
      Macro ''num'' [P_st] (SKM_sk_num ''GENERAL_NAME'' P_st),
      Macro ''value'' [P_st, P_i] (SKM_sk_value ''GENERAL_NAME'' P_st P_i),
      Macro ''set'' [P_st, P_i, P_val] (SKM_sk_set ''GENERAL_NAME'' P_st P_i P_val),
      Macro ''zero'' [P_st] (SKM_sk_zero ''GENERAL_NAME'' P_st),
      Macro ''push'' [P_st, P_val] (SKM_sk_push ''GENERAL_NAME'' P_st P_val),
      Macro ''unshift'' [P_st, P_val] (SKM_sk_unshift ''GENERAL_NAME'' P_st P_val),
      Macro ''find'' [P_st, P_val] (SKM_sk_find ''GENERAL_NAME'' P_st P_val),
      Macro ''find_ex'' [P_st, P_val] (SKM_sk_find_ex ''GENERAL_NAME'' P_st P_val),
      Macro ''delete'' [P_st, P_i] (SKM_sk_delete ''GENERAL_NAME'' P_st P_i),
      Macro ''delete_ptr'' [P_st, P_ptr] (SKM_sk_delete_ptr ''GENERAL_NAME'' P_st P_ptr),
      Macro ''insert'' [P_st, P_val, P_i] (SKM_sk_insert ''GENERAL_NAME'' P_st P_val P_i),
      Macro ''set_cmp_func'' [P_st, P_cmp] (SKM_sk_set_cmp_func ''GENERAL_NAME'' P_st P_cmp),
      Macro ''dup'' [P_st] (SKM_sk_dup ''GENERAL_NAME'' P_st),
      Macro ''pop_free'' [P_st, P_free_func] (SKM_sk_pop_free ''GENERAL_NAME'' P_st P_free_func),
      Macro ''shift'' [P_st] (SKM_sk_shift ''GENERAL_NAME'' P_st),
      Macro ''pop'' [P_st] (SKM_sk_pop ''GENERAL_NAME'' P_st),
      Macro ''sort'' [P_st] (SKM_sk_sort ''GENERAL_NAME'' P_st),
      Macro ''is_sorted'' [P_st] (SKM_sk_is_sorted ''GENERAL_NAME'' P_st)]"

definition sk_GENERAL_NAMES :: "macro_def list" where
  "sk_GENERAL_NAMES =
     [Macro ''new'' [P_cmp] (SKM_sk_new ''GENERAL_NAMES'' P_cmp),
      Macro ''new_null'' [] (SKM_sk_new_null ''GENERAL_NAMES''),
      Macro ''free'' [P_st] (SKM_sk_free ''GENERAL_NAMES'' P_st),
      Macro ''num'' [P_st] (SKM_sk_num ''GENERAL_NAMES'' P_st),
      Macro ''value'' [P_st, P_i] (SKM_sk_value ''GENERAL_NAMES'' P_st P_i),
      Macro ''set'' [P_st, P_i, P_val] (SKM_sk_set ''GENERAL_NAMES'' P_st P_i P_val),
      Macro ''zero'' [P_st] (SKM_sk_zero ''GENERAL_NAMES'' P_st),
      Macro ''push'' [P_st, P_val] (SKM_sk_push ''GENERAL_NAMES'' P_st P_val),
      Macro ''unshift'' [P_st, P_val] (SKM_sk_unshift ''GENERAL_NAMES'' P_st P_val),
      Macro ''find'' [P_st, P_val] (SKM_sk_find ''GENERAL_NAMES'' P_st P_val),
      Macro ''find_ex'' [P_st, P_val] (SKM_sk_find_ex ''GENERAL_NAMES'' P_st P_val),
      Macro ''delete'' [P_st, P_i] (SKM_sk_delete ''GENERAL_NAMES'' P_st P_i),
      Macro ''delete_ptr'' [P_st, P_ptr] (SKM_sk_delete_ptr ''GENERAL_NAMES'' P_st P_ptr),
      Macro ''insert'' [P_st, P_val, P_i] (SKM_sk_insert ''GENERAL_NAMES'' P_st P_val P_i),
      Macro ''set_cmp_func'' [P_st, P_cmp] (SKM_sk_set_cmp_func ''GENERAL_NAMES'' P_st P_cmp),
      Macro ''dup'' [P_st] (SKM_sk_dup ''GENERAL_NAMES'' P_st),
      Macro ''pop_free'' [P_st, P_free_func] (SKM_sk_pop_free ''GENERAL_NAMES'' P_st P_free_func),
      Macro ''shift'' [P_st] (SKM_sk_shift ''GENERAL_NAMES'' P_st),
      Macro ''pop'' [P_st] (SKM_sk_pop ''GENERAL_NAMES'' P_st),
      Macro ''sort'' [P_st] (SKM_sk_sort ''GENERAL_NAMES'' P_st),
      Macro ''is_sorted'' [P_st] (SKM_sk_is_sorted ''GENERAL_NAMES'' P_st)]"

definition sk_GENERAL_SUBTREE :: "macro_def list" where
  "sk_GENERAL_SUBTREE =
     [Macro ''new'' [P_cmp] (SKM_sk_new ''GENERAL_SUBTREE'' P_cmp),
      Macro ''new_null'' [] (SKM_sk_new_null ''GENERAL_SUBTREE''),
      Macro ''free'' [P_st] (SKM_sk_free ''GENERAL_SUBTREE'' P_st),
      Macro ''num'' [P_st] (SKM_sk_num ''GENERAL_SUBTREE'' P_st),
      Macro ''value'' [P_st, P_i] (SKM_sk_value ''GENERAL_SUBTREE'' P_st P_i),
      Macro ''set'' [P_st, P_i, P_val] (SKM_sk_set ''GENERAL_SUBTREE'' P_st P_i P_val),
      Macro ''zero'' [P_st] (SKM_sk_zero ''GENERAL_SUBTREE'' P_st),
      Macro ''push'' [P_st, P_val] (SKM_sk_push ''GENERAL_SUBTREE'' P_st P_val),
      Macro ''unshift'' [P_st, P_val] (SKM_sk_unshift ''GENERAL_SUBTREE'' P_st P_val),
      Macro ''find'' [P_st, P_val] (SKM_sk_find ''GENERAL_SUBTREE'' P_st P_val),
      Macro ''find_ex'' [P_st, P_val] (SKM_sk_find_ex ''GENERAL_SUBTREE'' P_st P_val),
      Macro ''delete'' [P_st, P_i] (SKM_sk_delete ''GENERAL_SUBTREE'' P_st P_i),
      Macro ''delete_ptr'' [P_st, P_ptr] (SKM_sk_delete_ptr ''GENERAL_SUBTREE'' P_st P_ptr),
      Macro ''insert'' [P_st, P_val, P_i] (SKM_sk_insert ''GENERAL_SUBTREE'' P_st P_val P_i),
      Macro ''set_cmp_func'' [P_st, P_cmp] (SKM_sk_set_cmp_func ''GENERAL_SUBTREE'' P_st P_cmp),
      Macro ''dup'' [P_st] (SKM_sk_dup ''GENERAL_SUBTREE'' P_st),
      Macro ''pop_free'' [P_st, P_free_func] (SKM_sk_pop_free ''GENERAL_SUBTREE'' P_st P_free_func),
      Macro ''shift'' [P_st] (SKM_sk_shift ''GENERAL_SUBTREE'' P_st),
      Macro ''pop'' [P_st] (SKM_sk_pop ''GENERAL_SUBTREE'' P_st),
      Macro ''sort'' [P_st] (SKM_sk_sort ''GENERAL_SUBTREE'' P_st),
      Macro ''is_sorted'' [P_st] (SKM_sk_is_sorted ''GENERAL_SUBTREE'' P_st)]"

definition sk_IPAddressFamily :: "macro_def list" where
  "sk_IPAddressFamily =
     [Macro ''new'' [P_cmp] (SKM_sk_new ''IPAddressFamily'' P_cmp),
      Macro ''new_null'' [] (SKM_sk_new_null ''IPAddressFamily''),
      Macro ''free'' [P_st] (SKM_sk_free ''IPAddressFamily'' P_st),
      Macro ''num'' [P_st] (SKM_sk_num ''IPAddressFamily'' P_st),
      Macro ''value'' [P_st, P_i] (SKM_sk_value ''IPAddressFamily'' P_st P_i),
      Macro ''set'' [P_st, P_i, P_val] (SKM_sk_set ''IPAddressFamily'' P_st P_i P_val),
      Macro ''zero'' [P_st] (SKM_sk_zero ''IPAddressFamily'' P_st),
      Macro ''push'' [P_st, P_val] (SKM_sk_push ''IPAddressFamily'' P_st P_val),
      Macro ''unshift'' [P_st, P_val] (SKM_sk_unshift ''IPAddressFamily'' P_st P_val),
      Macro ''find'' [P_st, P_val] (SKM_sk_find ''IPAddressFamily'' P_st P_val),
      Macro ''find_ex'' [P_st, P_val] (SKM_sk_find_ex ''IPAddressFamily'' P_st P_val),
      Macro ''delete'' [P_st, P_i] (SKM_sk_delete ''IPAddressFamily'' P_st P_i),
      Macro ''delete_ptr'' [P_st, P_ptr] (SKM_sk_delete_ptr ''IPAddressFamily'' P_st P_ptr),
      Macro ''insert'' [P_st, P_val, P_i] (SKM_sk_insert ''IPAddressFamily'' P_st P_val P_i),
      Macro ''set_cmp_func'' [P_st, P_cmp] (SKM_sk_set_cmp_func ''IPAddressFamily'' P_st P_cmp),
      Macro ''dup'' [P_st] (SKM_sk_dup ''IPAddressFamily'' P_st),
      Macro ''pop_free'' [P_st, P_free_func] (SKM_sk_pop_free ''IPAddressFamily'' P_st P_free_func),
      Macro ''shift'' [P_st] (SKM_sk_shift ''IPAddressFamily'' P_st),
      Macro ''pop'' [P_st] (SKM_sk_pop ''IPAddressFamily'' P_st),
      Macro ''sort'' [P_st] (SKM_sk_sort ''IPAddressFamily'' P_st),
      Macro ''is_sorted'' [P_st] (SKM_sk_is_sorted ''IPAddressFamily'' P_st)]"

definition sk_IPAddressOrRange :: "macro_def list" where
  "sk_IPAddressOrRange =
     [Macro ''new'' [P_cmp] (SKM_sk_new ''IPAddressOrRange'' P_cmp),
      Macro ''new_null'' [] (SKM_sk_new_null ''IPAddressOrRange''),
      Macro ''free'' [P_st] (SKM_sk_free ''IPAddressOrRange'' P_st),
      Macro ''num'' [P_st] (SKM_sk_num ''IPAddressOrRange'' P_st),
      Macro ''value'' [P_st, P_i] (SKM_sk_value ''IPAddressOrRange'' P_st P_i),
      Macro ''set'' [P_st, P_i, P_val] (SKM_sk_set ''IPAddressOrRange'' P_st P_i P_val),
      Macro ''zero'' [P_st] (SKM_sk_zero ''IPAddressOrRange'' P_st),
      Macro ''push'' [P_st, P_val] (SKM_sk_push ''IPAddressOrRange'' P_st P_val),
      Macro ''unshift'' [P_st, P_val] (SKM_sk_unshift ''IPAddressOrRange'' P_st P_val),
      Macro ''find'' [P_st, P_val] (SKM_sk_find ''IPAddressOrRange'' P_st P_val),
      Macro ''find_ex'' [P_st, P_val] (SKM_sk_find_ex ''IPAddressOrRange'' P_st P_val),
      Macro ''delete'' [P_st, P_i] (SKM_sk_delete ''IPAddressOrRange'' P_st P_i),
      Macro ''delete_ptr'' [P_st, P_ptr] (SKM_sk_delete_ptr ''IPAddressOrRange'' P_st P_ptr),
      Macro ''insert'' [P_st, P_val, P_i] (SKM_sk_insert ''IPAddressOrRange'' P_st P_val P_i),
      Macro ''set_cmp_func'' [P_st, P_cmp] (SKM_sk_set_cmp_func ''IPAddressOrRange'' P_st P_cmp),
      Macro ''dup'' [P_st] (SKM_sk_dup ''IPAddressOrRange'' P_st),
      Macro ''pop_free'' [P_st, P_free_func] (SKM_sk_pop_free ''IPAddressOrRange'' P_st P_free_func),
      Macro ''shift'' [P_st] (SKM_sk_shift ''IPAddressOrRange'' P_st),
      Macro ''pop'' [P_st] (SKM_sk_pop ''IPAddressOrRange'' P_st),
      Macro ''sort'' [P_st] (SKM_sk_sort ''IPAddressOrRange'' P_st),
      Macro ''is_sorted'' [P_st] (SKM_sk_is_sorted ''IPAddressOrRange'' P_st)]"

definition sk_KRB5_APREQBODY :: "macro_def list" where
  "sk_KRB5_APREQBODY =
     [Macro ''new'' [P_cmp] (SKM_sk_new ''KRB5_APREQBODY'' P_cmp),
      Macro ''new_null'' [] (SKM_sk_new_null ''KRB5_APREQBODY''),
      Macro ''free'' [P_st] (SKM_sk_free ''KRB5_APREQBODY'' P_st),
      Macro ''num'' [P_st] (SKM_sk_num ''KRB5_APREQBODY'' P_st),
      Macro ''value'' [P_st, P_i] (SKM_sk_value ''KRB5_APREQBODY'' P_st P_i),
      Macro ''set'' [P_st, P_i, P_val] (SKM_sk_set ''KRB5_APREQBODY'' P_st P_i P_val),
      Macro ''zero'' [P_st] (SKM_sk_zero ''KRB5_APREQBODY'' P_st),
      Macro ''push'' [P_st, P_val] (SKM_sk_push ''KRB5_APREQBODY'' P_st P_val),
      Macro ''unshift'' [P_st, P_val] (SKM_sk_unshift ''KRB5_APREQBODY'' P_st P_val),
      Macro ''find'' [P_st, P_val] (SKM_sk_find ''KRB5_APREQBODY'' P_st P_val),
      Macro ''find_ex'' [P_st, P_val] (SKM_sk_find_ex ''KRB5_APREQBODY'' P_st P_val),
      Macro ''delete'' [P_st, P_i] (SKM_sk_delete ''KRB5_APREQBODY'' P_st P_i),
      Macro ''delete_ptr'' [P_st, P_ptr] (SKM_sk_delete_ptr ''KRB5_APREQBODY'' P_st P_ptr),
      Macro ''insert'' [P_st, P_val, P_i] (SKM_sk_insert ''KRB5_APREQBODY'' P_st P_val P_i),
      Macro ''set_cmp_func'' [P_st, P_cmp] (SKM_sk_set_cmp_func ''KRB5_APREQBODY'' P_st P_cmp),
      Macro ''dup'' [P_st] (SKM_sk_dup ''KRB5_APREQBODY'' P_st),
      Macro ''pop_free'' [P_st, P_free_func] (SKM_sk_pop_free ''KRB5_APREQBODY'' P_st P_free_func),
      Macro ''shift'' [P_st] (SKM_sk_shift ''KRB5_APREQBODY'' P_st),
      Macro ''pop'' [P_st] (SKM_sk_pop ''KRB5_APREQBODY'' P_st),
      Macro ''sort'' [P_st] (SKM_sk_sort ''KRB5_APREQBODY'' P_st),
      Macro ''is_sorted'' [P_st] (SKM_sk_is_sorted ''KRB5_APREQBODY'' P_st)]"

definition sk_KRB5_AUTHDATA :: "macro_def list" where
  "sk_KRB5_AUTHDATA =
     [Macro ''new'' [P_cmp] (SKM_sk_new ''KRB5_AUTHDATA'' P_cmp),
      Macro ''new_null'' [] (SKM_sk_new_null ''KRB5_AUTHDATA''),
      Macro ''free'' [P_st] (SKM_sk_free ''KRB5_AUTHDATA'' P_st),
      Macro ''num'' [P_st] (SKM_sk_num ''KRB5_AUTHDATA'' P_st),
      Macro ''value'' [P_st, P_i] (SKM_sk_value ''KRB5_AUTHDATA'' P_st P_i),
      Macro ''set'' [P_st, P_i, P_val] (SKM_sk_set ''KRB5_AUTHDATA'' P_st P_i P_val),
      Macro ''zero'' [P_st] (SKM_sk_zero ''KRB5_AUTHDATA'' P_st),
      Macro ''push'' [P_st, P_val] (SKM_sk_push ''KRB5_AUTHDATA'' P_st P_val),
      Macro ''unshift'' [P_st, P_val] (SKM_sk_unshift ''KRB5_AUTHDATA'' P_st P_val),
      Macro ''find'' [P_st, P_val] (SKM_sk_find ''KRB5_AUTHDATA'' P_st P_val),
      Macro ''find_ex'' [P_st, P_val] (SKM_sk_find_ex ''KRB5_AUTHDATA'' P_st P_val),
      Macro ''delete'' [P_st, P_i] (SKM_sk_delete ''KRB5_AUTHDATA'' P_st P_i),
      Macro ''delete_ptr'' [P_st, P_ptr] (SKM_sk_delete_ptr ''KRB5_AUTHDATA'' P_st P_ptr),
      Macro ''insert'' [P_st, P_val, P_i] (SKM_sk_insert ''KRB5_AUTHDATA'' P_st P_val P_i),
      Macro ''set_cmp_func'' [P_st, P_cmp] (SKM_sk_set_cmp_func ''KRB5_AUTHDATA'' P_st P_cmp),
      Macro ''dup'' [P_st] (SKM_sk_dup ''KRB5_AUTHDATA'' P_st),
      Macro ''pop_free'' [P_st, P_free_func] (SKM_sk_pop_free ''KRB5_AUTHDATA'' P_st P_free_func),
      Macro ''shift'' [P_st] (SKM_sk_shift ''KRB5_AUTHDATA'' P_st),
      Macro ''pop'' [P_st] (SKM_sk_pop ''KRB5_AUTHDATA'' P_st),
      Macro ''sort'' [P_st] (SKM_sk_sort ''KRB5_AUTHDATA'' P_st),
      Macro ''is_sorted'' [P_st] (SKM_sk_is_sorted ''KRB5_AUTHDATA'' P_st)]"

definition sk_KRB5_AUTHENTBODY :: "macro_def list" where
  "sk_KRB5_AUTHENTBODY =
     [Macro ''new'' [P_cmp] (SKM_sk_new ''KRB5_AUTHENTBODY'' P_cmp),
      Macro ''new_null'' [] (SKM_sk_new_null ''KRB5_AUTHENTBODY''),
      Macro ''free'' [P_st] (SKM_sk_free ''KRB5_AUTHENTBODY'' P_st),
      Macro ''num'' [P_st] (SKM_sk_num ''KRB5_AUTHENTBODY'' P_st),
      Macro ''value'' [P_st, P_i] (SKM_sk_value ''KRB5_AUTHENTBODY'' P_st P_i),
      Macro ''set'' [P_st, P_i, P_val] (SKM_sk_set ''KRB5_AUTHENTBODY'' P_st P_i P_val),
      Macro ''zero'' [P_st] (SKM_sk_zero ''KRB5_AUTHENTBODY'' P_st),
      Macro ''push'' [P_st, P_val] (SKM_sk_push ''KRB5_AUTHENTBODY'' P_st P_val),
      Macro ''unshift'' [P_st, P_val] (SKM_sk_unshift ''KRB5_AUTHENTBODY'' P_st P_val),
      Macro ''find'' [P_st, P_val] (SKM_sk_find ''KRB5_AUTHENTBODY'' P_st P_val),
      Macro ''find_ex'' [P_st, P_val] (SKM_sk_find_ex ''KRB5_AUTHENTBODY'' P_st P_val),
      Macro ''delete'' [P_st, P_i] (SKM_sk_delete ''KRB5_AUTHENTBODY'' P_st P_i),
      Macro ''delete_ptr'' [P_st, P_ptr] (SKM_sk_delete_ptr ''KRB5_AUTHENTBODY'' P_st P_ptr),
      Macro ''insert'' [P_st, P_val, P_i] (SKM_sk_insert ''KRB5_AUTHENTBODY'' P_st P_val P_i),
      Macro ''set_cmp_func'' [P_st, P_cmp] (SKM_sk_set_cmp_func ''KRB5_AUTHENTBODY'' P_st P_cmp),
      Macro ''dup'' [P_st] (SKM_sk_dup ''KRB5_AUTHENTBODY'' P_st),
      Macro ''pop_free'' [P_st, P_free_func] (SKM_sk_pop_free ''KRB5_AUTHENTBODY'' P_st P_free_func),
      Macro ''shift'' [P_st] (SKM_sk_shift ''KRB5_AUTHENTBODY'' P_st),
      Macro ''pop'' [P_st] (SKM_sk_pop ''KRB5_AUTHENTBODY'' P_st),
      Macro ''sort'' [P_st] (SKM_sk_sort ''KRB5_AUTHENTBODY'' P_st),
      Macro ''is_sorted'' [P_st] (SKM_sk_is_sorted ''KRB5_AUTHENTBODY'' P_st)]"

definition sk_KRB5_CHECKSUM :: "macro_def list" where
  "sk_KRB5_CHECKSUM =
     [Macro ''new'' [P_cmp] (SKM_sk_new ''KRB5_CHECKSUM'' P_cmp),
      Macro ''new_null'' [] (SKM_sk_new_null ''KRB5_CHECKSUM''),
      Macro ''free'' [P_st] (SKM_sk_free ''KRB5_CHECKSUM'' P_st),
      Macro ''num'' [P_st] (SKM_sk_num ''KRB5_CHECKSUM'' P_st),
      Macro ''value'' [P_st, P_i] (SKM_sk_value ''KRB5_CHECKSUM'' P_st P_i),
      Macro ''set'' [P_st, P_i, P_val] (SKM_sk_set ''KRB5_CHECKSUM'' P_st P_i P_val),
      Macro ''zero'' [P_st] (SKM_sk_zero ''KRB5_CHECKSUM'' P_st),
      Macro ''push'' [P_st, P_val] (SKM_sk_push ''KRB5_CHECKSUM'' P_st P_val),
      Macro ''unshift'' [P_st, P_val] (SKM_sk_unshift ''KRB5_CHECKSUM'' P_st P_val),
      Macro ''find'' [P_st, P_val] (SKM_sk_find ''KRB5_CHECKSUM'' P_st P_val),
      Macro ''find_ex'' [P_st, P_val] (SKM_sk_find_ex ''KRB5_CHECKSUM'' P_st P_val),
      Macro ''delete'' [P_st, P_i] (SKM_sk_delete ''KRB5_CHECKSUM'' P_st P_i),
      Macro ''delete_ptr'' [P_st, P_ptr] (SKM_sk_delete_ptr ''KRB5_CHECKSUM'' P_st P_ptr),
      Macro ''insert'' [P_st, P_val, P_i] (SKM_sk_insert ''KRB5_CHECKSUM'' P_st P_val P_i),
      Macro ''set_cmp_func'' [P_st, P_cmp] (SKM_sk_set_cmp_func ''KRB5_CHECKSUM'' P_st P_cmp),
      Macro ''dup'' [P_st] (SKM_sk_dup ''KRB5_CHECKSUM'' P_st),
      Macro ''pop_free'' [P_st, P_free_func] (SKM_sk_pop_free ''KRB5_CHECKSUM'' P_st P_free_func),
      Macro ''shift'' [P_st] (SKM_sk_shift ''KRB5_CHECKSUM'' P_st),
      Macro ''pop'' [P_st] (SKM_sk_pop ''KRB5_CHECKSUM'' P_st),
      Macro ''sort'' [P_st] (SKM_sk_sort ''KRB5_CHECKSUM'' P_st),
      Macro ''is_sorted'' [P_st] (SKM_sk_is_sorted ''KRB5_CHECKSUM'' P_st)]"

definition sk_KRB5_ENCDATA :: "macro_def list" where
  "sk_KRB5_ENCDATA =
     [Macro ''new'' [P_cmp] (SKM_sk_new ''KRB5_ENCDATA'' P_cmp),
      Macro ''new_null'' [] (SKM_sk_new_null ''KRB5_ENCDATA''),
      Macro ''free'' [P_st] (SKM_sk_free ''KRB5_ENCDATA'' P_st),
      Macro ''num'' [P_st] (SKM_sk_num ''KRB5_ENCDATA'' P_st),
      Macro ''value'' [P_st, P_i] (SKM_sk_value ''KRB5_ENCDATA'' P_st P_i),
      Macro ''set'' [P_st, P_i, P_val] (SKM_sk_set ''KRB5_ENCDATA'' P_st P_i P_val),
      Macro ''zero'' [P_st] (SKM_sk_zero ''KRB5_ENCDATA'' P_st),
      Macro ''push'' [P_st, P_val] (SKM_sk_push ''KRB5_ENCDATA'' P_st P_val),
      Macro ''unshift'' [P_st, P_val] (SKM_sk_unshift ''KRB5_ENCDATA'' P_st P_val),
      Macro ''find'' [P_st, P_val] (SKM_sk_find ''KRB5_ENCDATA'' P_st P_val),
      Macro ''find_ex'' [P_st, P_val] (SKM_sk_find_ex ''KRB5_ENCDATA'' P_st P_val),
      Macro ''delete'' [P_st, P_i] (SKM_sk_delete ''KRB5_ENCDATA'' P_st P_i),
      Macro ''delete_ptr'' [P_st, P_ptr] (SKM_sk_delete_ptr ''KRB5_ENCDATA'' P_st P_ptr),
      Macro ''insert'' [P_st, P_val, P_i] (SKM_sk_insert ''KRB5_ENCDATA'' P_st P_val P_i),
      Macro ''set_cmp_func'' [P_st, P_cmp] (SKM_sk_set_cmp_func ''KRB5_ENCDATA'' P_st P_cmp),
      Macro ''dup'' [P_st] (SKM_sk_dup ''KRB5_ENCDATA'' P_st),
      Macro ''pop_free'' [P_st, P_free_func] (SKM_sk_pop_free ''KRB5_ENCDATA'' P_st P_free_func),
      Macro ''shift'' [P_st] (SKM_sk_shift ''KRB5_ENCDATA'' P_st),
      Macro ''pop'' [P_st] (SKM_sk_pop ''KRB5_ENCDATA'' P_st),
      Macro ''sort'' [P_st] (SKM_sk_sort ''KRB5_ENCDATA'' P_st),
      Macro ''is_sorted'' [P_st] (SKM_sk_is_sorted ''KRB5_ENCDATA'' P_st)]"

definition sk_KRB5_ENCKEY :: "macro_def list" where
  "sk_KRB5_ENCKEY =
     [Macro ''new'' [P_cmp] (SKM_sk_new ''KRB5_ENCKEY'' P_cmp),
      Macro ''new_null'' [] (SKM_sk_new_null ''KRB5_ENCKEY''),
      Macro ''free'' [P_st] (SKM_sk_free ''KRB5_ENCKEY'' P_st),
      Macro ''num'' [P_st] (SKM_sk_num ''KRB5_ENCKEY'' P_st),
      Macro ''value'' [P_st, P_i] (SKM_sk_value ''KRB5_ENCKEY'' P_st P_i),
      Macro ''set'' [P_st, P_i, P_val] (SKM_sk_set ''KRB5_ENCKEY'' P_st P_i P_val),
      Macro ''zero'' [P_st] (SKM_sk_zero ''KRB5_ENCKEY'' P_st),
      Macro ''push'' [P_st, P_val] (SKM_sk_push ''KRB5_ENCKEY'' P_st P_val),
      Macro ''unshift'' [P_st, P_val] (SKM_sk_unshift ''KRB5_ENCKEY'' P_st P_val),
      Macro ''find'' [P_st, P_val] (SKM_sk_find ''KRB5_ENCKEY'' P_st P_val),
      Macro ''find_ex'' [P_st, P_val] (SKM_sk_find_ex ''KRB5_ENCKEY'' P_st P_val),
      Macro ''delete'' [P_st, P_i] (SKM_sk_delete ''KRB5_ENCKEY'' P_st P_i),
      Macro ''delete_ptr'' [P_st, P_ptr] (SKM_sk_delete_ptr ''KRB5_ENCKEY'' P_st P_ptr),
      Macro ''insert'' [P_st, P_val, P_i] (SKM_sk_insert ''KRB5_ENCKEY'' P_st P_val P_i),
      Macro ''set_cmp_func'' [P_st, P_cmp] (SKM_sk_set_cmp_func ''KRB5_ENCKEY'' P_st P_cmp),
      Macro ''dup'' [P_st] (SKM_sk_dup ''KRB5_ENCKEY'' P_st),
      Macro ''pop_free'' [P_st, P_free_func] (SKM_sk_pop_free ''KRB5_ENCKEY'' P_st P_free_func),
      Macro ''shift'' [P_st] (SKM_sk_shift ''KRB5_ENCKEY'' P_st),
      Macro ''pop'' [P_st] (SKM_sk_pop ''KRB5_ENCKEY'' P_st),
      Macro ''sort'' [P_st] (SKM_sk_sort ''KRB5_ENCKEY'' P_st),
      Macro ''is_sorted'' [P_st] (SKM_sk_is_sorted ''KRB5_ENCKEY'' P_st)]"

definition sk_KRB5_PRINCNAME :: "macro_def list" where
  "sk_KRB5_PRINCNAME =
     [Macro ''new'' [P_cmp] (SKM_sk_new ''KRB5_PRINCNAME'' P_cmp),
      Macro ''new_null'' [] (SKM_sk_new_null ''KRB5_PRINCNAME''),
      Macro ''free'' [P_st] (SKM_sk_free ''KRB5_PRINCNAME'' P_st),
      Macro ''num'' [P_st] (SKM_sk_num ''KRB5_PRINCNAME'' P_st),
      Macro ''value'' [P_st, P_i] (SKM_sk_value ''KRB5_PRINCNAME'' P_st P_i),
      Macro ''set'' [P_st, P_i, P_val] (SKM_sk_set ''KRB5_PRINCNAME'' P_st P_i P_val),
      Macro ''zero'' [P_st] (SKM_sk_zero ''KRB5_PRINCNAME'' P_st),
      Macro ''push'' [P_st, P_val] (SKM_sk_push ''KRB5_PRINCNAME'' P_st P_val),
      Macro ''unshift'' [P_st, P_val] (SKM_sk_unshift ''KRB5_PRINCNAME'' P_st P_val),
      Macro ''find'' [P_st, P_val] (SKM_sk_find ''KRB5_PRINCNAME'' P_st P_val),
      Macro ''find_ex'' [P_st, P_val] (SKM_sk_find_ex ''KRB5_PRINCNAME'' P_st P_val),
      Macro ''delete'' [P_st, P_i] (SKM_sk_delete ''KRB5_PRINCNAME'' P_st P_i),
      Macro ''delete_ptr'' [P_st, P_ptr] (SKM_sk_delete_ptr ''KRB5_PRINCNAME'' P_st P_ptr),
      Macro ''insert'' [P_st, P_val, P_i] (SKM_sk_insert ''KRB5_PRINCNAME'' P_st P_val P_i),
      Macro ''set_cmp_func'' [P_st, P_cmp] (SKM_sk_set_cmp_func ''KRB5_PRINCNAME'' P_st P_cmp),
      Macro ''dup'' [P_st] (SKM_sk_dup ''KRB5_PRINCNAME'' P_st),
      Macro ''pop_free'' [P_st, P_free_func] (SKM_sk_pop_free ''KRB5_PRINCNAME'' P_st P_free_func),
      Macro ''shift'' [P_st] (SKM_sk_shift ''KRB5_PRINCNAME'' P_st),
      Macro ''pop'' [P_st] (SKM_sk_pop ''KRB5_PRINCNAME'' P_st),
      Macro ''sort'' [P_st] (SKM_sk_sort ''KRB5_PRINCNAME'' P_st),
      Macro ''is_sorted'' [P_st] (SKM_sk_is_sorted ''KRB5_PRINCNAME'' P_st)]"

definition sk_KRB5_TKTBODY :: "macro_def list" where
  "sk_KRB5_TKTBODY =
     [Macro ''new'' [P_cmp] (SKM_sk_new ''KRB5_TKTBODY'' P_cmp),
      Macro ''new_null'' [] (SKM_sk_new_null ''KRB5_TKTBODY''),
      Macro ''free'' [P_st] (SKM_sk_free ''KRB5_TKTBODY'' P_st),
      Macro ''num'' [P_st] (SKM_sk_num ''KRB5_TKTBODY'' P_st),
      Macro ''value'' [P_st, P_i] (SKM_sk_value ''KRB5_TKTBODY'' P_st P_i),
      Macro ''set'' [P_st, P_i, P_val] (SKM_sk_set ''KRB5_TKTBODY'' P_st P_i P_val),
      Macro ''zero'' [P_st] (SKM_sk_zero ''KRB5_TKTBODY'' P_st),
      Macro ''push'' [P_st, P_val] (SKM_sk_push ''KRB5_TKTBODY'' P_st P_val),
      Macro ''unshift'' [P_st, P_val] (SKM_sk_unshift ''KRB5_TKTBODY'' P_st P_val),
      Macro ''find'' [P_st, P_val] (SKM_sk_find ''KRB5_TKTBODY'' P_st P_val),
      Macro ''find_ex'' [P_st, P_val] (SKM_sk_find_ex ''KRB5_TKTBODY'' P_st P_val),
      Macro ''delete'' [P_st, P_i] (SKM_sk_delete ''KRB5_TKTBODY'' P_st P_i),
      Macro ''delete_ptr'' [P_st, P_ptr] (SKM_sk_delete_ptr ''KRB5_TKTBODY'' P_st P_ptr),
      Macro ''insert'' [P_st, P_val, P_i] (SKM_sk_insert ''KRB5_TKTBODY'' P_st P_val P_i),
      Macro ''set_cmp_func'' [P_st, P_cmp] (SKM_sk_set_cmp_func ''KRB5_TKTBODY'' P_st P_cmp),
      Macro ''dup'' [P_st] (SKM_sk_dup ''KRB5_TKTBODY'' P_st),
      Macro ''pop_free'' [P_st, P_free_func] (SKM_sk_pop_free ''KRB5_TKTBODY'' P_st P_free_func),
      Macro ''shift'' [P_st] (SKM_sk_shift ''KRB5_TKTBODY'' P_st),
      Macro ''pop'' [P_st] (SKM_sk_pop ''KRB5_TKTBODY'' P_st),
      Macro ''sort'' [P_st] (SKM_sk_sort ''KRB5_TKTBODY'' P_st),
      Macro ''is_sorted'' [P_st] (SKM_sk_is_sorted ''KRB5_TKTBODY'' P_st)]"

definition sk_MEM_OBJECT_DATA :: "macro_def list" where
  "sk_MEM_OBJECT_DATA =
     [Macro ''new'' [P_cmp] (SKM_sk_new ''MEM_OBJECT_DATA'' P_cmp),
      Macro ''new_null'' [] (SKM_sk_new_null ''MEM_OBJECT_DATA''),
      Macro ''free'' [P_st] (SKM_sk_free ''MEM_OBJECT_DATA'' P_st),
      Macro ''num'' [P_st] (SKM_sk_num ''MEM_OBJECT_DATA'' P_st),
      Macro ''value'' [P_st, P_i] (SKM_sk_value ''MEM_OBJECT_DATA'' P_st P_i),
      Macro ''set'' [P_st, P_i, P_val] (SKM_sk_set ''MEM_OBJECT_DATA'' P_st P_i P_val),
      Macro ''zero'' [P_st] (SKM_sk_zero ''MEM_OBJECT_DATA'' P_st),
      Macro ''push'' [P_st, P_val] (SKM_sk_push ''MEM_OBJECT_DATA'' P_st P_val),
      Macro ''unshift'' [P_st, P_val] (SKM_sk_unshift ''MEM_OBJECT_DATA'' P_st P_val),
      Macro ''find'' [P_st, P_val] (SKM_sk_find ''MEM_OBJECT_DATA'' P_st P_val),
      Macro ''find_ex'' [P_st, P_val] (SKM_sk_find_ex ''MEM_OBJECT_DATA'' P_st P_val),
      Macro ''delete'' [P_st, P_i] (SKM_sk_delete ''MEM_OBJECT_DATA'' P_st P_i),
      Macro ''delete_ptr'' [P_st, P_ptr] (SKM_sk_delete_ptr ''MEM_OBJECT_DATA'' P_st P_ptr),
      Macro ''insert'' [P_st, P_val, P_i] (SKM_sk_insert ''MEM_OBJECT_DATA'' P_st P_val P_i),
      Macro ''set_cmp_func'' [P_st, P_cmp] (SKM_sk_set_cmp_func ''MEM_OBJECT_DATA'' P_st P_cmp),
      Macro ''dup'' [P_st] (SKM_sk_dup ''MEM_OBJECT_DATA'' P_st),
      Macro ''pop_free'' [P_st, P_free_func] (SKM_sk_pop_free ''MEM_OBJECT_DATA'' P_st P_free_func),
      Macro ''shift'' [P_st] (SKM_sk_shift ''MEM_OBJECT_DATA'' P_st),
      Macro ''pop'' [P_st] (SKM_sk_pop ''MEM_OBJECT_DATA'' P_st),
      Macro ''sort'' [P_st] (SKM_sk_sort ''MEM_OBJECT_DATA'' P_st),
      Macro ''is_sorted'' [P_st] (SKM_sk_is_sorted ''MEM_OBJECT_DATA'' P_st)]"

definition sk_MIME_HEADER :: "macro_def list" where
  "sk_MIME_HEADER =
     [Macro ''new'' [P_cmp] (SKM_sk_new ''MIME_HEADER'' P_cmp),
      Macro ''new_null'' [] (SKM_sk_new_null ''MIME_HEADER''),
      Macro ''free'' [P_st] (SKM_sk_free ''MIME_HEADER'' P_st),
      Macro ''num'' [P_st] (SKM_sk_num ''MIME_HEADER'' P_st),
      Macro ''value'' [P_st, P_i] (SKM_sk_value ''MIME_HEADER'' P_st P_i),
      Macro ''set'' [P_st, P_i, P_val] (SKM_sk_set ''MIME_HEADER'' P_st P_i P_val),
      Macro ''zero'' [P_st] (SKM_sk_zero ''MIME_HEADER'' P_st),
      Macro ''push'' [P_st, P_val] (SKM_sk_push ''MIME_HEADER'' P_st P_val),
      Macro ''unshift'' [P_st, P_val] (SKM_sk_unshift ''MIME_HEADER'' P_st P_val),
      Macro ''find'' [P_st, P_val] (SKM_sk_find ''MIME_HEADER'' P_st P_val),
      Macro ''find_ex'' [P_st, P_val] (SKM_sk_find_ex ''MIME_HEADER'' P_st P_val),
      Macro ''delete'' [P_st, P_i] (SKM_sk_delete ''MIME_HEADER'' P_st P_i),
      Macro ''delete_ptr'' [P_st, P_ptr] (SKM_sk_delete_ptr ''MIME_HEADER'' P_st P_ptr),
      Macro ''insert'' [P_st, P_val, P_i] (SKM_sk_insert ''MIME_HEADER'' P_st P_val P_i),
      Macro ''set_cmp_func'' [P_st, P_cmp] (SKM_sk_set_cmp_func ''MIME_HEADER'' P_st P_cmp),
      Macro ''dup'' [P_st] (SKM_sk_dup ''MIME_HEADER'' P_st),
      Macro ''pop_free'' [P_st, P_free_func] (SKM_sk_pop_free ''MIME_HEADER'' P_st P_free_func),
      Macro ''shift'' [P_st] (SKM_sk_shift ''MIME_HEADER'' P_st),
      Macro ''pop'' [P_st] (SKM_sk_pop ''MIME_HEADER'' P_st),
      Macro ''sort'' [P_st] (SKM_sk_sort ''MIME_HEADER'' P_st),
      Macro ''is_sorted'' [P_st] (SKM_sk_is_sorted ''MIME_HEADER'' P_st)]"

definition sk_MIME_PARAM :: "macro_def list" where
  "sk_MIME_PARAM =
     [Macro ''new'' [P_cmp] (SKM_sk_new ''MIME_PARAM'' P_cmp),
      Macro ''new_null'' [] (SKM_sk_new_null ''MIME_PARAM''),
      Macro ''free'' [P_st] (SKM_sk_free ''MIME_PARAM'' P_st),
      Macro ''num'' [P_st] (SKM_sk_num ''MIME_PARAM'' P_st),
      Macro ''value'' [P_st, P_i] (SKM_sk_value ''MIME_PARAM'' P_st P_i),
      Macro ''set'' [P_st, P_i, P_val] (SKM_sk_set ''MIME_PARAM'' P_st P_i P_val),
      Macro ''zero'' [P_st] (SKM_sk_zero ''MIME_PARAM'' P_st),
      Macro ''push'' [P_st, P_val] (SKM_sk_push ''MIME_PARAM'' P_st P_val),
      Macro ''unshift'' [P_st, P_val] (SKM_sk_unshift ''MIME_PARAM'' P_st P_val),
      Macro ''find'' [P_st, P_val] (SKM_sk_find ''MIME_PARAM'' P_st P_val),
      Macro ''find_ex'' [P_st, P_val] (SKM_sk_find_ex ''MIME_PARAM'' P_st P_val),
      Macro ''delete'' [P_st, P_i] (SKM_sk_delete ''MIME_PARAM'' P_st P_i),
      Macro ''delete_ptr'' [P_st, P_ptr] (SKM_sk_delete_ptr ''MIME_PARAM'' P_st P_ptr),
      Macro ''insert'' [P_st, P_val, P_i] (SKM_sk_insert ''MIME_PARAM'' P_st P_val P_i),
      Macro ''set_cmp_func'' [P_st, P_cmp] (SKM_sk_set_cmp_func ''MIME_PARAM'' P_st P_cmp),
      Macro ''dup'' [P_st] (SKM_sk_dup ''MIME_PARAM'' P_st),
      Macro ''pop_free'' [P_st, P_free_func] (SKM_sk_pop_free ''MIME_PARAM'' P_st P_free_func),
      Macro ''shift'' [P_st] (SKM_sk_shift ''MIME_PARAM'' P_st),
      Macro ''pop'' [P_st] (SKM_sk_pop ''MIME_PARAM'' P_st),
      Macro ''sort'' [P_st] (SKM_sk_sort ''MIME_PARAM'' P_st),
      Macro ''is_sorted'' [P_st] (SKM_sk_is_sorted ''MIME_PARAM'' P_st)]"

definition sk_NAME_FUNCS :: "macro_def list" where
  "sk_NAME_FUNCS =
     [Macro ''new'' [P_cmp] (SKM_sk_new ''NAME_FUNCS'' P_cmp),
      Macro ''new_null'' [] (SKM_sk_new_null ''NAME_FUNCS''),
      Macro ''free'' [P_st] (SKM_sk_free ''NAME_FUNCS'' P_st),
      Macro ''num'' [P_st] (SKM_sk_num ''NAME_FUNCS'' P_st),
      Macro ''value'' [P_st, P_i] (SKM_sk_value ''NAME_FUNCS'' P_st P_i),
      Macro ''set'' [P_st, P_i, P_val] (SKM_sk_set ''NAME_FUNCS'' P_st P_i P_val),
      Macro ''zero'' [P_st] (SKM_sk_zero ''NAME_FUNCS'' P_st),
      Macro ''push'' [P_st, P_val] (SKM_sk_push ''NAME_FUNCS'' P_st P_val),
      Macro ''unshift'' [P_st, P_val] (SKM_sk_unshift ''NAME_FUNCS'' P_st P_val),
      Macro ''find'' [P_st, P_val] (SKM_sk_find ''NAME_FUNCS'' P_st P_val),
      Macro ''find_ex'' [P_st, P_val] (SKM_sk_find_ex ''NAME_FUNCS'' P_st P_val),
      Macro ''delete'' [P_st, P_i] (SKM_sk_delete ''NAME_FUNCS'' P_st P_i),
      Macro ''delete_ptr'' [P_st, P_ptr] (SKM_sk_delete_ptr ''NAME_FUNCS'' P_st P_ptr),
      Macro ''insert'' [P_st, P_val, P_i] (SKM_sk_insert ''NAME_FUNCS'' P_st P_val P_i),
      Macro ''set_cmp_func'' [P_st, P_cmp] (SKM_sk_set_cmp_func ''NAME_FUNCS'' P_st P_cmp),
      Macro ''dup'' [P_st] (SKM_sk_dup ''NAME_FUNCS'' P_st),
      Macro ''pop_free'' [P_st, P_free_func] (SKM_sk_pop_free ''NAME_FUNCS'' P_st P_free_func),
      Macro ''shift'' [P_st] (SKM_sk_shift ''NAME_FUNCS'' P_st),
      Macro ''pop'' [P_st] (SKM_sk_pop ''NAME_FUNCS'' P_st),
      Macro ''sort'' [P_st] (SKM_sk_sort ''NAME_FUNCS'' P_st),
      Macro ''is_sorted'' [P_st] (SKM_sk_is_sorted ''NAME_FUNCS'' P_st)]"

definition sk_OCSP_CERTID :: "macro_def list" where
  "sk_OCSP_CERTID =
     [Macro ''new'' [P_cmp] (SKM_sk_new ''OCSP_CERTID'' P_cmp),
      Macro ''new_null'' [] (SKM_sk_new_null ''OCSP_CERTID''),
      Macro ''free'' [P_st] (SKM_sk_free ''OCSP_CERTID'' P_st),
      Macro ''num'' [P_st] (SKM_sk_num ''OCSP_CERTID'' P_st),
      Macro ''value'' [P_st, P_i] (SKM_sk_value ''OCSP_CERTID'' P_st P_i),
      Macro ''set'' [P_st, P_i, P_val] (SKM_sk_set ''OCSP_CERTID'' P_st P_i P_val),
      Macro ''zero'' [P_st] (SKM_sk_zero ''OCSP_CERTID'' P_st),
      Macro ''push'' [P_st, P_val] (SKM_sk_push ''OCSP_CERTID'' P_st P_val),
      Macro ''unshift'' [P_st, P_val] (SKM_sk_unshift ''OCSP_CERTID'' P_st P_val),
      Macro ''find'' [P_st, P_val] (SKM_sk_find ''OCSP_CERTID'' P_st P_val),
      Macro ''find_ex'' [P_st, P_val] (SKM_sk_find_ex ''OCSP_CERTID'' P_st P_val),
      Macro ''delete'' [P_st, P_i] (SKM_sk_delete ''OCSP_CERTID'' P_st P_i),
      Macro ''delete_ptr'' [P_st, P_ptr] (SKM_sk_delete_ptr ''OCSP_CERTID'' P_st P_ptr),
      Macro ''insert'' [P_st, P_val, P_i] (SKM_sk_insert ''OCSP_CERTID'' P_st P_val P_i),
      Macro ''set_cmp_func'' [P_st, P_cmp] (SKM_sk_set_cmp_func ''OCSP_CERTID'' P_st P_cmp),
      Macro ''dup'' [P_st] (SKM_sk_dup ''OCSP_CERTID'' P_st),
      Macro ''pop_free'' [P_st, P_free_func] (SKM_sk_pop_free ''OCSP_CERTID'' P_st P_free_func),
      Macro ''shift'' [P_st] (SKM_sk_shift ''OCSP_CERTID'' P_st),
      Macro ''pop'' [P_st] (SKM_sk_pop ''OCSP_CERTID'' P_st),
      Macro ''sort'' [P_st] (SKM_sk_sort ''OCSP_CERTID'' P_st),
      Macro ''is_sorted'' [P_st] (SKM_sk_is_sorted ''OCSP_CERTID'' P_st)]"

definition sk_OCSP_ONEREQ :: "macro_def list" where
  "sk_OCSP_ONEREQ =
     [Macro ''new'' [P_cmp] (SKM_sk_new ''OCSP_ONEREQ'' P_cmp),
      Macro ''new_null'' [] (SKM_sk_new_null ''OCSP_ONEREQ''),
      Macro ''free'' [P_st] (SKM_sk_free ''OCSP_ONEREQ'' P_st),
      Macro ''num'' [P_st] (SKM_sk_num ''OCSP_ONEREQ'' P_st),
      Macro ''value'' [P_st, P_i] (SKM_sk_value ''OCSP_ONEREQ'' P_st P_i),
      Macro ''set'' [P_st, P_i, P_val] (SKM_sk_set ''OCSP_ONEREQ'' P_st P_i P_val),
      Macro ''zero'' [P_st] (SKM_sk_zero ''OCSP_ONEREQ'' P_st),
      Macro ''push'' [P_st, P_val] (SKM_sk_push ''OCSP_ONEREQ'' P_st P_val),
      Macro ''unshift'' [P_st, P_val] (SKM_sk_unshift ''OCSP_ONEREQ'' P_st P_val),
      Macro ''find'' [P_st, P_val] (SKM_sk_find ''OCSP_ONEREQ'' P_st P_val),
      Macro ''find_ex'' [P_st, P_val] (SKM_sk_find_ex ''OCSP_ONEREQ'' P_st P_val),
      Macro ''delete'' [P_st, P_i] (SKM_sk_delete ''OCSP_ONEREQ'' P_st P_i),
      Macro ''delete_ptr'' [P_st, P_ptr] (SKM_sk_delete_ptr ''OCSP_ONEREQ'' P_st P_ptr),
      Macro ''insert'' [P_st, P_val, P_i] (SKM_sk_insert ''OCSP_ONEREQ'' P_st P_val P_i),
      Macro ''set_cmp_func'' [P_st, P_cmp] (SKM_sk_set_cmp_func ''OCSP_ONEREQ'' P_st P_cmp),
      Macro ''dup'' [P_st] (SKM_sk_dup ''OCSP_ONEREQ'' P_st),
      Macro ''pop_free'' [P_st, P_free_func] (SKM_sk_pop_free ''OCSP_ONEREQ'' P_st P_free_func),
      Macro ''shift'' [P_st] (SKM_sk_shift ''OCSP_ONEREQ'' P_st),
      Macro ''pop'' [P_st] (SKM_sk_pop ''OCSP_ONEREQ'' P_st),
      Macro ''sort'' [P_st] (SKM_sk_sort ''OCSP_ONEREQ'' P_st),
      Macro ''is_sorted'' [P_st] (SKM_sk_is_sorted ''OCSP_ONEREQ'' P_st)]"

definition sk_OCSP_RESPID :: "macro_def list" where
  "sk_OCSP_RESPID =
     [Macro ''new'' [P_cmp] (SKM_sk_new ''OCSP_RESPID'' P_cmp),
      Macro ''new_null'' [] (SKM_sk_new_null ''OCSP_RESPID''),
      Macro ''free'' [P_st] (SKM_sk_free ''OCSP_RESPID'' P_st),
      Macro ''num'' [P_st] (SKM_sk_num ''OCSP_RESPID'' P_st),
      Macro ''value'' [P_st, P_i] (SKM_sk_value ''OCSP_RESPID'' P_st P_i),
      Macro ''set'' [P_st, P_i, P_val] (SKM_sk_set ''OCSP_RESPID'' P_st P_i P_val),
      Macro ''zero'' [P_st] (SKM_sk_zero ''OCSP_RESPID'' P_st),
      Macro ''push'' [P_st, P_val] (SKM_sk_push ''OCSP_RESPID'' P_st P_val),
      Macro ''unshift'' [P_st, P_val] (SKM_sk_unshift ''OCSP_RESPID'' P_st P_val),
      Macro ''find'' [P_st, P_val] (SKM_sk_find ''OCSP_RESPID'' P_st P_val),
      Macro ''find_ex'' [P_st, P_val] (SKM_sk_find_ex ''OCSP_RESPID'' P_st P_val),
      Macro ''delete'' [P_st, P_i] (SKM_sk_delete ''OCSP_RESPID'' P_st P_i),
      Macro ''delete_ptr'' [P_st, P_ptr] (SKM_sk_delete_ptr ''OCSP_RESPID'' P_st P_ptr),
      Macro ''insert'' [P_st, P_val, P_i] (SKM_sk_insert ''OCSP_RESPID'' P_st P_val P_i),
      Macro ''set_cmp_func'' [P_st, P_cmp] (SKM_sk_set_cmp_func ''OCSP_RESPID'' P_st P_cmp),
      Macro ''dup'' [P_st] (SKM_sk_dup ''OCSP_RESPID'' P_st),
      Macro ''pop_free'' [P_st, P_free_func] (SKM_sk_pop_free ''OCSP_RESPID'' P_st P_free_func),
      Macro ''shift'' [P_st] (SKM_sk_shift ''OCSP_RESPID'' P_st),
      Macro ''pop'' [P_st] (SKM_sk_pop ''OCSP_RESPID'' P_st),
      Macro ''sort'' [P_st] (SKM_sk_sort ''OCSP_RESPID'' P_st),
      Macro ''is_sorted'' [P_st] (SKM_sk_is_sorted ''OCSP_RESPID'' P_st)]"

definition sk_OCSP_SINGLERESP :: "macro_def list" where
  "sk_OCSP_SINGLERESP =
     [Macro ''new'' [P_cmp] (SKM_sk_new ''OCSP_SINGLERESP'' P_cmp),
      Macro ''new_null'' [] (SKM_sk_new_null ''OCSP_SINGLERESP''),
      Macro ''free'' [P_st] (SKM_sk_free ''OCSP_SINGLERESP'' P_st),
      Macro ''num'' [P_st] (SKM_sk_num ''OCSP_SINGLERESP'' P_st),
      Macro ''value'' [P_st, P_i] (SKM_sk_value ''OCSP_SINGLERESP'' P_st P_i),
      Macro ''set'' [P_st, P_i, P_val] (SKM_sk_set ''OCSP_SINGLERESP'' P_st P_i P_val),
      Macro ''zero'' [P_st] (SKM_sk_zero ''OCSP_SINGLERESP'' P_st),
      Macro ''push'' [P_st, P_val] (SKM_sk_push ''OCSP_SINGLERESP'' P_st P_val),
      Macro ''unshift'' [P_st, P_val] (SKM_sk_unshift ''OCSP_SINGLERESP'' P_st P_val),
      Macro ''find'' [P_st, P_val] (SKM_sk_find ''OCSP_SINGLERESP'' P_st P_val),
      Macro ''find_ex'' [P_st, P_val] (SKM_sk_find_ex ''OCSP_SINGLERESP'' P_st P_val),
      Macro ''delete'' [P_st, P_i] (SKM_sk_delete ''OCSP_SINGLERESP'' P_st P_i),
      Macro ''delete_ptr'' [P_st, P_ptr] (SKM_sk_delete_ptr ''OCSP_SINGLERESP'' P_st P_ptr),
      Macro ''insert'' [P_st, P_val, P_i] (SKM_sk_insert ''OCSP_SINGLERESP'' P_st P_val P_i),
      Macro ''set_cmp_func'' [P_st, P_cmp] (SKM_sk_set_cmp_func ''OCSP_SINGLERESP'' P_st P_cmp),
      Macro ''dup'' [P_st] (SKM_sk_dup ''OCSP_SINGLERESP'' P_st),
      Macro ''pop_free'' [P_st, P_free_func] (SKM_sk_pop_free ''OCSP_SINGLERESP'' P_st P_free_func),
      Macro ''shift'' [P_st] (SKM_sk_shift ''OCSP_SINGLERESP'' P_st),
      Macro ''pop'' [P_st] (SKM_sk_pop ''OCSP_SINGLERESP'' P_st),
      Macro ''sort'' [P_st] (SKM_sk_sort ''OCSP_SINGLERESP'' P_st),
      Macro ''is_sorted'' [P_st] (SKM_sk_is_sorted ''OCSP_SINGLERESP'' P_st)]"

definition sk_PKCS12_SAFEBAG :: "macro_def list" where
  "sk_PKCS12_SAFEBAG =
     [Macro ''new'' [P_cmp] (SKM_sk_new ''PKCS12_SAFEBAG'' P_cmp),
      Macro ''new_null'' [] (SKM_sk_new_null ''PKCS12_SAFEBAG''),
      Macro ''free'' [P_st] (SKM_sk_free ''PKCS12_SAFEBAG'' P_st),
      Macro ''num'' [P_st] (SKM_sk_num ''PKCS12_SAFEBAG'' P_st),
      Macro ''value'' [P_st, P_i] (SKM_sk_value ''PKCS12_SAFEBAG'' P_st P_i),
      Macro ''set'' [P_st, P_i, P_val] (SKM_sk_set ''PKCS12_SAFEBAG'' P_st P_i P_val),
      Macro ''zero'' [P_st] (SKM_sk_zero ''PKCS12_SAFEBAG'' P_st),
      Macro ''push'' [P_st, P_val] (SKM_sk_push ''PKCS12_SAFEBAG'' P_st P_val),
      Macro ''unshift'' [P_st, P_val] (SKM_sk_unshift ''PKCS12_SAFEBAG'' P_st P_val),
      Macro ''find'' [P_st, P_val] (SKM_sk_find ''PKCS12_SAFEBAG'' P_st P_val),
      Macro ''find_ex'' [P_st, P_val] (SKM_sk_find_ex ''PKCS12_SAFEBAG'' P_st P_val),
      Macro ''delete'' [P_st, P_i] (SKM_sk_delete ''PKCS12_SAFEBAG'' P_st P_i),
      Macro ''delete_ptr'' [P_st, P_ptr] (SKM_sk_delete_ptr ''PKCS12_SAFEBAG'' P_st P_ptr),
      Macro ''insert'' [P_st, P_val, P_i] (SKM_sk_insert ''PKCS12_SAFEBAG'' P_st P_val P_i),
      Macro ''set_cmp_func'' [P_st, P_cmp] (SKM_sk_set_cmp_func ''PKCS12_SAFEBAG'' P_st P_cmp),
      Macro ''dup'' [P_st] (SKM_sk_dup ''PKCS12_SAFEBAG'' P_st),
      Macro ''pop_free'' [P_st, P_free_func] (SKM_sk_pop_free ''PKCS12_SAFEBAG'' P_st P_free_func),
      Macro ''shift'' [P_st] (SKM_sk_shift ''PKCS12_SAFEBAG'' P_st),
      Macro ''pop'' [P_st] (SKM_sk_pop ''PKCS12_SAFEBAG'' P_st),
      Macro ''sort'' [P_st] (SKM_sk_sort ''PKCS12_SAFEBAG'' P_st),
      Macro ''is_sorted'' [P_st] (SKM_sk_is_sorted ''PKCS12_SAFEBAG'' P_st)]"

definition sk_PKCS7 :: "macro_def list" where
  "sk_PKCS7 =
     [Macro ''new'' [P_cmp] (SKM_sk_new ''PKCS7'' P_cmp),
      Macro ''new_null'' [] (SKM_sk_new_null ''PKCS7''),
      Macro ''free'' [P_st] (SKM_sk_free ''PKCS7'' P_st),
      Macro ''num'' [P_st] (SKM_sk_num ''PKCS7'' P_st),
      Macro ''value'' [P_st, P_i] (SKM_sk_value ''PKCS7'' P_st P_i),
      Macro ''set'' [P_st, P_i, P_val] (SKM_sk_set ''PKCS7'' P_st P_i P_val),
      Macro ''zero'' [P_st] (SKM_sk_zero ''PKCS7'' P_st),
      Macro ''push'' [P_st, P_val] (SKM_sk_push ''PKCS7'' P_st P_val),
      Macro ''unshift'' [P_st, P_val] (SKM_sk_unshift ''PKCS7'' P_st P_val),
      Macro ''find'' [P_st, P_val] (SKM_sk_find ''PKCS7'' P_st P_val),
      Macro ''find_ex'' [P_st, P_val] (SKM_sk_find_ex ''PKCS7'' P_st P_val),
      Macro ''delete'' [P_st, P_i] (SKM_sk_delete ''PKCS7'' P_st P_i),
      Macro ''delete_ptr'' [P_st, P_ptr] (SKM_sk_delete_ptr ''PKCS7'' P_st P_ptr),
      Macro ''insert'' [P_st, P_val, P_i] (SKM_sk_insert ''PKCS7'' P_st P_val P_i),
      Macro ''set_cmp_func'' [P_st, P_cmp] (SKM_sk_set_cmp_func ''PKCS7'' P_st P_cmp),
      Macro ''dup'' [P_st] (SKM_sk_dup ''PKCS7'' P_st),
      Macro ''pop_free'' [P_st, P_free_func] (SKM_sk_pop_free ''PKCS7'' P_st P_free_func),
      Macro ''shift'' [P_st] (SKM_sk_shift ''PKCS7'' P_st),
      Macro ''pop'' [P_st] (SKM_sk_pop ''PKCS7'' P_st),
      Macro ''sort'' [P_st] (SKM_sk_sort ''PKCS7'' P_st),
      Macro ''is_sorted'' [P_st] (SKM_sk_is_sorted ''PKCS7'' P_st)]"

definition sk_PKCS7_RECIP_INFO :: "macro_def list" where
  "sk_PKCS7_RECIP_INFO =
     [Macro ''new'' [P_cmp] (SKM_sk_new ''PKCS7_RECIP_INFO'' P_cmp),
      Macro ''new_null'' [] (SKM_sk_new_null ''PKCS7_RECIP_INFO''),
      Macro ''free'' [P_st] (SKM_sk_free ''PKCS7_RECIP_INFO'' P_st),
      Macro ''num'' [P_st] (SKM_sk_num ''PKCS7_RECIP_INFO'' P_st),
      Macro ''value'' [P_st, P_i] (SKM_sk_value ''PKCS7_RECIP_INFO'' P_st P_i),
      Macro ''set'' [P_st, P_i, P_val] (SKM_sk_set ''PKCS7_RECIP_INFO'' P_st P_i P_val),
      Macro ''zero'' [P_st] (SKM_sk_zero ''PKCS7_RECIP_INFO'' P_st),
      Macro ''push'' [P_st, P_val] (SKM_sk_push ''PKCS7_RECIP_INFO'' P_st P_val),
      Macro ''unshift'' [P_st, P_val] (SKM_sk_unshift ''PKCS7_RECIP_INFO'' P_st P_val),
      Macro ''find'' [P_st, P_val] (SKM_sk_find ''PKCS7_RECIP_INFO'' P_st P_val),
      Macro ''find_ex'' [P_st, P_val] (SKM_sk_find_ex ''PKCS7_RECIP_INFO'' P_st P_val),
      Macro ''delete'' [P_st, P_i] (SKM_sk_delete ''PKCS7_RECIP_INFO'' P_st P_i),
      Macro ''delete_ptr'' [P_st, P_ptr] (SKM_sk_delete_ptr ''PKCS7_RECIP_INFO'' P_st P_ptr),
      Macro ''insert'' [P_st, P_val, P_i] (SKM_sk_insert ''PKCS7_RECIP_INFO'' P_st P_val P_i),
      Macro ''set_cmp_func'' [P_st, P_cmp] (SKM_sk_set_cmp_func ''PKCS7_RECIP_INFO'' P_st P_cmp),
      Macro ''dup'' [P_st] (SKM_sk_dup ''PKCS7_RECIP_INFO'' P_st),
      Macro ''pop_free'' [P_st, P_free_func] (SKM_sk_pop_free ''PKCS7_RECIP_INFO'' P_st P_free_func),
      Macro ''shift'' [P_st] (SKM_sk_shift ''PKCS7_RECIP_INFO'' P_st),
      Macro ''pop'' [P_st] (SKM_sk_pop ''PKCS7_RECIP_INFO'' P_st),
      Macro ''sort'' [P_st] (SKM_sk_sort ''PKCS7_RECIP_INFO'' P_st),
      Macro ''is_sorted'' [P_st] (SKM_sk_is_sorted ''PKCS7_RECIP_INFO'' P_st)]"

definition sk_PKCS7_SIGNER_INFO :: "macro_def list" where
  "sk_PKCS7_SIGNER_INFO =
     [Macro ''new'' [P_cmp] (SKM_sk_new ''PKCS7_SIGNER_INFO'' P_cmp),
      Macro ''new_null'' [] (SKM_sk_new_null ''PKCS7_SIGNER_INFO''),
      Macro ''free'' [P_st] (SKM_sk_free ''PKCS7_SIGNER_INFO'' P_st),
      Macro ''num'' [P_st] (SKM_sk_num ''PKCS7_SIGNER_INFO'' P_st),
      Macro ''value'' [P_st, P_i] (SKM_sk_value ''PKCS7_SIGNER_INFO'' P_st P_i),
      Macro ''set'' [P_st, P_i, P_val] (SKM_sk_set ''PKCS7_SIGNER_INFO'' P_st P_i P_val),
      Macro ''zero'' [P_st] (SKM_sk_zero ''PKCS7_SIGNER_INFO'' P_st),
      Macro ''push'' [P_st, P_val] (SKM_sk_push ''PKCS7_SIGNER_INFO'' P_st P_val),
      Macro ''unshift'' [P_st, P_val] (SKM_sk_unshift ''PKCS7_SIGNER_INFO'' P_st P_val),
      Macro ''find'' [P_st, P_val] (SKM_sk_find ''PKCS7_SIGNER_INFO'' P_st P_val),
      Macro ''find_ex'' [P_st, P_val] (SKM_sk_find_ex ''PKCS7_SIGNER_INFO'' P_st P_val),
      Macro ''delete'' [P_st, P_i] (SKM_sk_delete ''PKCS7_SIGNER_INFO'' P_st P_i),
      Macro ''delete_ptr'' [P_st, P_ptr] (SKM_sk_delete_ptr ''PKCS7_SIGNER_INFO'' P_st P_ptr),
      Macro ''insert'' [P_st, P_val, P_i] (SKM_sk_insert ''PKCS7_SIGNER_INFO'' P_st P_val P_i),
      Macro ''set_cmp_func'' [P_st, P_cmp] (SKM_sk_set_cmp_func ''PKCS7_SIGNER_INFO'' P_st P_cmp),
      Macro ''dup'' [P_st] (SKM_sk_dup ''PKCS7_SIGNER_INFO'' P_st),
      Macro ''pop_free'' [P_st, P_free_func] (SKM_sk_pop_free ''PKCS7_SIGNER_INFO'' P_st P_free_func),
      Macro ''shift'' [P_st] (SKM_sk_shift ''PKCS7_SIGNER_INFO'' P_st),
      Macro ''pop'' [P_st] (SKM_sk_pop ''PKCS7_SIGNER_INFO'' P_st),
      Macro ''sort'' [P_st] (SKM_sk_sort ''PKCS7_SIGNER_INFO'' P_st),
      Macro ''is_sorted'' [P_st] (SKM_sk_is_sorted ''PKCS7_SIGNER_INFO'' P_st)]"

definition sk_POLICYINFO :: "macro_def list" where
  "sk_POLICYINFO =
     [Macro ''new'' [P_cmp] (SKM_sk_new ''POLICYINFO'' P_cmp),
      Macro ''new_null'' [] (SKM_sk_new_null ''POLICYINFO''),
      Macro ''free'' [P_st] (SKM_sk_free ''POLICYINFO'' P_st),
      Macro ''num'' [P_st] (SKM_sk_num ''POLICYINFO'' P_st),
      Macro ''value'' [P_st, P_i] (SKM_sk_value ''POLICYINFO'' P_st P_i),
      Macro ''set'' [P_st, P_i, P_val] (SKM_sk_set ''POLICYINFO'' P_st P_i P_val),
      Macro ''zero'' [P_st] (SKM_sk_zero ''POLICYINFO'' P_st),
      Macro ''push'' [P_st, P_val] (SKM_sk_push ''POLICYINFO'' P_st P_val),
      Macro ''unshift'' [P_st, P_val] (SKM_sk_unshift ''POLICYINFO'' P_st P_val),
      Macro ''find'' [P_st, P_val] (SKM_sk_find ''POLICYINFO'' P_st P_val),
      Macro ''find_ex'' [P_st, P_val] (SKM_sk_find_ex ''POLICYINFO'' P_st P_val),
      Macro ''delete'' [P_st, P_i] (SKM_sk_delete ''POLICYINFO'' P_st P_i),
      Macro ''delete_ptr'' [P_st, P_ptr] (SKM_sk_delete_ptr ''POLICYINFO'' P_st P_ptr),
      Macro ''insert'' [P_st, P_val, P_i] (SKM_sk_insert ''POLICYINFO'' P_st P_val P_i),
      Macro ''set_cmp_func'' [P_st, P_cmp] (SKM_sk_set_cmp_func ''POLICYINFO'' P_st P_cmp),
      Macro ''dup'' [P_st] (SKM_sk_dup ''POLICYINFO'' P_st),
      Macro ''pop_free'' [P_st, P_free_func] (SKM_sk_pop_free ''POLICYINFO'' P_st P_free_func),
      Macro ''shift'' [P_st] (SKM_sk_shift ''POLICYINFO'' P_st),
      Macro ''pop'' [P_st] (SKM_sk_pop ''POLICYINFO'' P_st),
      Macro ''sort'' [P_st] (SKM_sk_sort ''POLICYINFO'' P_st),
      Macro ''is_sorted'' [P_st] (SKM_sk_is_sorted ''POLICYINFO'' P_st)]"

definition sk_POLICYQUALINFO :: "macro_def list" where
  "sk_POLICYQUALINFO =
     [Macro ''new'' [P_cmp] (SKM_sk_new ''POLICYQUALINFO'' P_cmp),
      Macro ''new_null'' [] (SKM_sk_new_null ''POLICYQUALINFO''),
      Macro ''free'' [P_st] (SKM_sk_free ''POLICYQUALINFO'' P_st),
      Macro ''num'' [P_st] (SKM_sk_num ''POLICYQUALINFO'' P_st),
      Macro ''value'' [P_st, P_i] (SKM_sk_value ''POLICYQUALINFO'' P_st P_i),
      Macro ''set'' [P_st, P_i, P_val] (SKM_sk_set ''POLICYQUALINFO'' P_st P_i P_val),
      Macro ''zero'' [P_st] (SKM_sk_zero ''POLICYQUALINFO'' P_st),
      Macro ''push'' [P_st, P_val] (SKM_sk_push ''POLICYQUALINFO'' P_st P_val),
      Macro ''unshift'' [P_st, P_val] (SKM_sk_unshift ''POLICYQUALINFO'' P_st P_val),
      Macro ''find'' [P_st, P_val] (SKM_sk_find ''POLICYQUALINFO'' P_st P_val),
      Macro ''find_ex'' [P_st, P_val] (SKM_sk_find_ex ''POLICYQUALINFO'' P_st P_val),
      Macro ''delete'' [P_st, P_i] (SKM_sk_delete ''POLICYQUALINFO'' P_st P_i),
      Macro ''delete_ptr'' [P_st, P_ptr] (SKM_sk_delete_ptr ''POLICYQUALINFO'' P_st P_ptr),
      Macro ''insert'' [P_st, P_val, P_i] (SKM_sk_insert ''POLICYQUALINFO'' P_st P_val P_i),
      Macro ''set_cmp_func'' [P_st, P_cmp] (SKM_sk_set_cmp_func ''POLICYQUALINFO'' P_st P_cmp),
      Macro ''dup'' [P_st] (SKM_sk_dup ''POLICYQUALINFO'' P_st),
      Macro ''pop_free'' [P_st, P_free_func] (SKM_sk_pop_free ''POLICYQUALINFO'' P_st P_free_func),
      Macro ''shift'' [P_st] (SKM_sk_shift ''POLICYQUALINFO'' P_st),
      Macro ''pop'' [P_st] (SKM_sk_pop ''POLICYQUALINFO'' P_st),
      Macro ''sort'' [P_st] (SKM_sk_sort ''POLICYQUALINFO'' P_st),
      Macro ''is_sorted'' [P_st] (SKM_sk_is_sorted ''POLICYQUALINFO'' P_st)]"

definition sk_POLICY_MAPPING :: "macro_def list" where
  "sk_POLICY_MAPPING =
     [Macro ''new'' [P_cmp] (SKM_sk_new ''POLICY_MAPPING'' P_cmp),
      Macro ''new_null'' [] (SKM_sk_new_null ''POLICY_MAPPING''),
      Macro ''free'' [P_st] (SKM_sk_free ''POLICY_MAPPING'' P_st),
      Macro ''num'' [P_st] (SKM_sk_num ''POLICY_MAPPING'' P_st),
      Macro ''value'' [P_st, P_i] (SKM_sk_value ''POLICY_MAPPING'' P_st P_i),
      Macro ''set'' [P_st, P_i, P_val] (SKM_sk_set ''POLICY_MAPPING'' P_st P_i P_val),
      Macro ''zero'' [P_st] (SKM_sk_zero ''POLICY_MAPPING'' P_st),
      Macro ''push'' [P_st, P_val] (SKM_sk_push ''POLICY_MAPPING'' P_st P_val),
      Macro ''unshift'' [P_st, P_val] (SKM_sk_unshift ''POLICY_MAPPING'' P_st P_val),
      Macro ''find'' [P_st, P_val] (SKM_sk_find ''POLICY_MAPPING'' P_st P_val),
      Macro ''find_ex'' [P_st, P_val] (SKM_sk_find_ex ''POLICY_MAPPING'' P_st P_val),
      Macro ''delete'' [P_st, P_i] (SKM_sk_delete ''POLICY_MAPPING'' P_st P_i),
      Macro ''delete_ptr'' [P_st, P_ptr] (SKM_sk_delete_ptr ''POLICY_MAPPING'' P_st P_ptr),
      Macro ''insert'' [P_st, P_val, P_i] (SKM_sk_insert ''POLICY_MAPPING'' P_st P_val P_i),
      Macro ''set_cmp_func'' [P_st, P_cmp] (SKM_sk_set_cmp_func ''POLICY_MAPPING'' P_st P_cmp),
      Macro ''dup'' [P_st] (SKM_sk_dup ''POLICY_MAPPING'' P_st),
      Macro ''pop_free'' [P_st, P_free_func] (SKM_sk_pop_free ''POLICY_MAPPING'' P_st P_free_func),
      Macro ''shift'' [P_st] (SKM_sk_shift ''POLICY_MAPPING'' P_st),
      Macro ''pop'' [P_st] (SKM_sk_pop ''POLICY_MAPPING'' P_st),
      Macro ''sort'' [P_st] (SKM_sk_sort ''POLICY_MAPPING'' P_st),
      Macro ''is_sorted'' [P_st] (SKM_sk_is_sorted ''POLICY_MAPPING'' P_st)]"

definition sk_SRP_gN :: "macro_def list" where
  "sk_SRP_gN =
     [Macro ''new'' [P_cmp] (SKM_sk_new ''SRP_gN'' P_cmp),
      Macro ''new_null'' [] (SKM_sk_new_null ''SRP_gN''),
      Macro ''free'' [P_st] (SKM_sk_free ''SRP_gN'' P_st),
      Macro ''num'' [P_st] (SKM_sk_num ''SRP_gN'' P_st),
      Macro ''value'' [P_st, P_i] (SKM_sk_value ''SRP_gN'' P_st P_i),
      Macro ''set'' [P_st, P_i, P_val] (SKM_sk_set ''SRP_gN'' P_st P_i P_val),
      Macro ''zero'' [P_st] (SKM_sk_zero ''SRP_gN'' P_st),
      Macro ''push'' [P_st, P_val] (SKM_sk_push ''SRP_gN'' P_st P_val),
      Macro ''unshift'' [P_st, P_val] (SKM_sk_unshift ''SRP_gN'' P_st P_val),
      Macro ''find'' [P_st, P_val] (SKM_sk_find ''SRP_gN'' P_st P_val),
      Macro ''find_ex'' [P_st, P_val] (SKM_sk_find_ex ''SRP_gN'' P_st P_val),
      Macro ''delete'' [P_st, P_i] (SKM_sk_delete ''SRP_gN'' P_st P_i),
      Macro ''delete_ptr'' [P_st, P_ptr] (SKM_sk_delete_ptr ''SRP_gN'' P_st P_ptr),
      Macro ''insert'' [P_st, P_val, P_i] (SKM_sk_insert ''SRP_gN'' P_st P_val P_i),
      Macro ''set_cmp_func'' [P_st, P_cmp] (SKM_sk_set_cmp_func ''SRP_gN'' P_st P_cmp),
      Macro ''dup'' [P_st] (SKM_sk_dup ''SRP_gN'' P_st),
      Macro ''pop_free'' [P_st, P_free_func] (SKM_sk_pop_free ''SRP_gN'' P_st P_free_func),
      Macro ''shift'' [P_st] (SKM_sk_shift ''SRP_gN'' P_st),
      Macro ''pop'' [P_st] (SKM_sk_pop ''SRP_gN'' P_st),
      Macro ''sort'' [P_st] (SKM_sk_sort ''SRP_gN'' P_st),
      Macro ''is_sorted'' [P_st] (SKM_sk_is_sorted ''SRP_gN'' P_st)]"

lemmas stack_defs_2 =
  sk_GENERAL_NAME_def sk_GENERAL_NAMES_def sk_GENERAL_SUBTREE_def sk_IPAddressFamily_def sk_IPAddressOrRange_def
  sk_KRB5_APREQBODY_def sk_KRB5_AUTHDATA_def sk_KRB5_AUTHENTBODY_def sk_KRB5_CHECKSUM_def sk_KRB5_ENCDATA_def
  sk_KRB5_ENCKEY_def sk_KRB5_PRINCNAME_def sk_KRB5_TKTBODY_def sk_MEM_OBJECT_DATA_def sk_MIME_HEADER_def
  sk_MIME_PARAM_def sk_NAME_FUNCS_def sk_OCSP_CERTID_def sk_OCSP_ONEREQ_def sk_OCSP_RESPID_def
  sk_OCSP_SINGLERESP_def sk_PKCS12_SAFEBAG_def sk_PKCS7_def sk_PKCS7_RECIP_INFO_def sk_PKCS7_SIGNER_INFO_def
  sk_POLICYINFO_def sk_POLICYQUALINFO_def sk_POLICY_MAPPING_def sk_SRP_gN_def

definition plain_stacks_2 :: "(string \<times> macro_def list) list" where
  "plain_stacks_2 =
     [(''GENERAL_NAME'', sk_GENERAL_NAME), (''GENERAL_NAMES'', sk_GENERAL_NAMES),
      (''GENERAL_SUBTREE'', sk_GENERAL_SUBTREE), (''IPAddressFamily'', sk_IPAddressFamily),
      (''IPAddressOrRange'', sk_IPAddressOrRange), (''KRB5_APREQBODY'', sk_KRB5_APREQBODY),
      (''KRB5_AUTHDATA'', sk_KRB5_AUTHDATA), (''KRB5_AUTHENTBODY'', sk_KRB5_AUTHENTBODY),
      (''KRB5_CHECKSUM'', sk_KRB5_CHECKSUM), (''KRB5_ENCDATA'', sk_KRB5_ENCDATA), (''KRB5_ENCKEY'', sk_KRB5_ENCKEY),
      (''KRB5_PRINCNAME'', sk_KRB5_PRINCNAME), (''KRB5_TKTBODY'', sk_KRB5_TKTBODY),
      (''MEM_OBJECT_DATA'', sk_MEM_OBJECT_DATA), (''MIME_HEADER'', sk_MIME_HEADER), (''MIME_PARAM'', sk_MIME_PARAM),
      (''NAME_FUNCS'', sk_NAME_FUNCS), (''OCSP_CERTID'', sk_OCSP_CERTID), (''OCSP_ONEREQ'', sk_OCSP_ONEREQ),
      (''OCSP_RESPID'', sk_OCSP_RESPID), (''OCSP_SINGLERESP'', sk_OCSP_SINGLERESP),
      (''PKCS12_SAFEBAG'', sk_PKCS12_SAFEBAG), (''PKCS7'', sk_PKCS7), (''PKCS7_RECIP_INFO'', sk_PKCS7_RECIP_INFO),
      (''PKCS7_SIGNER_INFO'', sk_PKCS7_SIGNER_INFO), (''POLICYINFO'', sk_POLICYINFO),
      (''POLICYQUALINFO'', sk_POLICYQUALINFO), (''POLICY_MAPPING'', sk_POLICY_MAPPING), (''SRP_gN'', sk_SRP_gN)]"

end
