(* ===== verification/Stack_Tables_3.thy ===== *)
theory Stack_Tables_3
  imports Typed_Macros
begin

text \<open>
  The stack macros of \<open>safestack.h\<close>, from \<open>sk_SRP_gN_cache_new\<close> to \<open>sk_void_is_sorted\<close>: for each element type the macros in
  the order of the header, with their parameters and expansions.
\<close>

definition sk_SRP_gN_cache :: "macro_def list" where
  "sk_SRP_gN_cache =
     [Macro ''new'' [P_cmp] (SKM_sk_new ''SRP_gN_cache'' P_cmp),
      Macro ''new_null'' [] (SKM_sk_new_null ''SRP_gN_cache''),
      Macro ''free'' [P_st] (SKM_sk_free ''SRP_gN_cache'' P_st),
      Macro ''num'' [P_st] (SKM_sk_num ''SRP_gN_cache'' P_st),
      Macro ''value'' [P_st, P_i] (SKM_sk_value ''SRP_gN_cache'' P_st P_i),
      Macro ''set'' [P_st, P_i, P_val] (SKM_sk_set ''SRP_gN_cache'' P_st P_i P_val),
      Macro ''zero'' [P_st] (SKM_sk_zero ''SRP_gN_cache'' P_st),
      Macro ''push'' [P_st, P_val] (SKM_sk_push ''SRP_gN_cache'' P_st P_val),
      Macro ''unshift'' [P_st, P_val] (SKM_sk_unshift ''SRP_gN_cache'' P_st P_val),
      Macro ''find'' [P_st, P_val] (SKM_sk_find ''SRP_gN_cache'' P_st P_val),
      Macro ''find_ex'' [P_st, P_val] (SKM_sk_find_ex ''SRP_gN_cache'' P_st P_val),
      Macro ''delete'' [P_st, P_i] (SKM_sk_delete ''SRP_gN_cache'' P_st P_i),
      Macro ''delete_ptr'' [P_st, P_ptr] (SKM_sk_delete_ptr ''SRP_gN_cache'' P_st P_ptr),
      Macro ''insert'' [P_st, P_val, P_i] (SKM_sk_insert ''SRP_gN_cache'' P_st P_val P_i),
      Macro ''set_cmp_func'' [P_st, P_cmp] (SKM_sk_set_cmp_func ''SRP_gN_cache'' P_st P_cmp),
      Macro ''dup'' [P_st] (SKM_sk_dup ''SRP_gN_cache'' P_st),
      Macro ''pop_free'' [P_st, P_free_func] (SKM_sk_pop_free ''SRP_gN_cache'' P_st P_free_func),
      Macro ''shift'' [P_st] (SKM_sk_shift ''SRP_gN_cache'' P_st),
      Macro ''pop'' [P_st] (SKM_sk_pop ''SRP_gN_cache'' P_st),
      Macro ''sort'' [P_st] (SKM_sk_sort ''SRP_gN_cache'' P_st),
      Macro ''is_sorted'' [P_st] (SKM_sk_is_sorted ''SRP_gN_cache'' P_st)]"

definition sk_SRP_user_pwd :: "macro_def list" where
  "sk_SRP_user_pwd =
     [Macro ''new'' [P_cmp] (SKM_sk_new ''SRP_user_pwd'' P_cmp),
      Macro ''new_null'' [] (SKM_sk_new_null ''SRP_user_pwd''),
      Macro ''free'' [P_st] (SKM_sk_free ''SRP_user_pwd'' P_st),
      Macro ''num'' [P_st] (SKM_sk_num ''SRP_user_pwd'' P_st),
      Macro ''value'' [P_st, P_i] (SKM_sk_value ''SRP_user_pwd'' P_st P_i),
      Macro ''set'' [P_st, P_i, P_val] (SKM_sk_set ''SRP_user_pwd'' P_st P_i P_val),
      Macro ''zero'' [P_st] (SKM_sk_zero ''SRP_user_pwd'' P_st),
      Macro ''push'' [P_st, P_val] (SKM_sk_push ''SRP_user_pwd'' P_st P_val),
      Macro ''unshift'' [P_st, P_val] (SKM_sk_unshift ''SRP_user_pwd'' P_st P_val),
      Macro ''find'' [P_st, P_val] (SKM_sk_find ''SRP_user_pwd'' P_st P_val),
      Macro ''find_ex'' [P_st, P_val] (SKM_sk_find_ex ''SRP_user_pwd'' P_st P_val),
      Macro ''delete'' [P_st, P_i] (SKM_sk_delete ''SRP_user_pwd'' P_st P_i),
      Macro ''delete_ptr'' [P_st, P_ptr] (SKM_sk_delete_ptr ''SRP_user_pwd'' P_st P_ptr),
      Macro ''insert'' [P_st, P_val, P_i] (SKM_sk_insert ''SRP_user_pwd'' P_st P_val P_i),
      Macro ''set_cmp_func'' [P_st, P_cmp] (SKM_sk_set_cmp_func ''SRP_user_pwd'' P_st P_cmp),
      Macro ''dup'' [P_st] (SKM_sk_dup ''SRP_user_pwd'' P_st),
      Macro ''pop_free'' [P_st, P_free_func] (SKM_sk_pop_free ''SRP_user_pwd'' P_st P_free_func),
      Macro ''shift'' [P_st] (SKM_sk_shift ''SRP_user_pwd'' P_st),
      Macro ''pop'' [P_st] (SKM_sk_pop ''SRP_user_pwd'' P_st),
      Macro ''sort'' [P_st] (SKM_sk_sort ''SRP_user_pwd'' P_st),
      Macro ''is_sorted'' [P_st] (SKM_sk_is_sorted ''SRP_user_pwd'' P_st)]"

definition sk_SRTP_PROTECTION_PROFILE :: "macro_def list" where
  "sk_SRTP_PROTECTION_PROFILE =
     [Macro ''new'' [P_cmp] (SKM_sk_new ''SRTP_PROTECTION_PROFILE'' P_cmp),
      Macro ''new_null'' [] (SKM_sk_new_null ''SRTP_PROTECTION_PROFILE''),
      Macro ''free'' [P_st] (SKM_sk_free ''SRTP_PROTECTION_PROFILE'' P_st),
      Macro ''num'' [P_st] (SKM_sk_num ''SRTP_PROTECTION_PROFILE'' P_st),
      Macro ''value'' [P_st, P_i] (SKM_sk_value ''SRTP_PROTECTION_PROFILE'' P_st P_i),
      Macro ''set'' [P_st, P_i, P_val] (SKM_sk_set ''SRTP_PROTECTION_PROFILE'' P_st P_i P_val),
      Macro ''zero'' [P_st] (SKM_sk_zero ''SRTP_PROTECTION_PROFILE'' P_st),
      Macro ''push'' [P_st, P_val] (SKM_sk_push ''SRTP_PROTECTION_PROFILE'' P_st P_val),
      Macro ''unshift'' [P_st, P_val] (SKM_sk_unshift ''SRTP_PROTECTION_PROFILE'' P_st P_val),
      Macro ''find'' [P_st, P_val] (SKM_sk_find ''SRTP_PROTECTION_PROFILE'' P_st P_val),
      Macro ''find_ex'' [P_st, P_val] (SKM_sk_find_ex ''SRTP_PROTECTION_PROFILE'' P_st P_val),
      Macro ''delete'' [P_st, P_i] (SKM_sk_delete ''SRTP_PROTECTION_PROFILE'' P_st P_i),
      Macro ''delete_ptr'' [P_st, P_ptr] (SKM_sk_delete_ptr ''SRTP_PROTECTION_PROFILE'' P_st P_ptr),
      Macro ''insert'' [P_st, P_val, P_i] (SKM_sk_insert ''SRTP_PROTECTION_PROFILE'' P_st P_val P_i),
      Macro ''set_cmp_func'' [P_st, P_cmp] (SKM_sk_set_cmp_func ''SRTP_PROTECTION_PROFILE'' P_st P_cmp),
      Macro ''dup'' [P_st] (SKM_sk_dup ''SRTP_PROTECTION_PROFILE'' P_st),
      Macro ''pop_free'' [P_st, P_free_func] (SKM_sk_pop_free ''SRTP_PROTECTION_PROFILE'' P_st P_free_func),
      Macro ''shift'' [P_st] (SKM_sk_shift ''SRTP_PROTECTION_PROFILE'' P_st),
      Macro ''pop'' [P_st] (SKM_sk_pop ''SRTP_PROTECTION_PROFILE'' P_st),
      Macro ''sort'' [P_st] (SKM_sk_sort ''SRTP_PROTECTION_PROFILE'' P_st),
      Macro ''is_sorted'' [P_st] (SKM_sk_is_sorted ''SRTP_PROTECTION_PROFILE'' P_st)]"

definition sk_SSL_CIPHER :: "macro_def list" where
  "sk_SSL_CIPHER =
     [Macro ''new'' [P_cmp] (SKM_sk_new ''SSL_CIPHER'' P_cmp),
      Macro ''new_null'' [] (SKM_sk_new_null ''SSL_CIPHER''),
      Macro ''free'' [P_st] (SKM_sk_free ''SSL_CIPHER'' P_st),
      Macro ''num'' [P_st] (SKM_sk_num ''SSL_CIPHER'' P_st),
      Macro ''value'' [P_st, P_i] (SKM_sk_value ''SSL_CIPHER'' P_st P_i),
      Macro ''set'' [P_st, P_i, P_val] (SKM_sk_set ''SSL_CIPHER'' P_st P_i P_val),
      Macro ''zero'' [P_st] (SKM_sk_zero ''SSL_CIPHER'' P_st),
      Macro ''push'' [P_st, P_val] (SKM_sk_push ''SSL_CIPHER'' P_st P_val),
      Macro ''unshift'' [P_st, P_val] (SKM_sk_unshift ''SSL_CIPHER'' P_st P_val),
      Macro ''find'' [P_st, P_val] (SKM_sk_find ''SSL_CIPHER'' P_st P_val),
      Macro ''find_ex'' [P_st, P_val] (SKM_sk_find_ex ''SSL_CIPHER'' P_st P_val),
      Macro ''delete'' [P_st, P_i] (SKM_sk_delete ''SSL_CIPHER'' P_st P_i),
      Macro ''delete_ptr'' [P_st, P_ptr] (SKM_sk_delete_ptr ''SSL_CIPHER'' P_st P_ptr),
      Macro ''insert'' [P_st, P_val, P_i] (SKM_sk_insert ''SSL_CIPHER'' P_st P_val P_i),
      Macro ''set_cmp_func'' [P_st, P_cmp] (SKM_sk_set_cmp_func ''SSL_CIPHER'' P_st P_cmp),
      Macro ''dup'' [P_st] (SKM_sk_dup ''SSL_CIPHER'' P_st),
      Macro ''pop_free'' [P_st, P_free_func] (SKM_sk_pop_free ''SSL_CIPHER'' P_st P_free_func),
      Macro ''shift'' [P_st] (SKM_sk_shift ''SSL_CIPHER'' P_st),
      Macro ''pop'' [P_st] (SKM_sk_pop ''SSL_CIPHER'' P_st),
      Macro ''sort'' [P_st] (SKM_sk_sort ''SSL_CIPHER'' P_st),
      Macro ''is_sorted'' [P_st] (SKM_sk_is_sorted ''SSL_CIPHER'' P_st)]"

definition sk_SSL_COMP :: "macro_def list" where
  "sk_SSL_COMP =
     [Macro ''new'' [P_cmp] (SKM_sk_new ''SSL_COMP'' P_cmp),
      Macro ''new_null'' [] (SKM_sk_new_null ''SSL_COMP''),
      Macro ''free'' [P_st] (SKM_sk_free ''SSL_COMP'' P_st),
      Macro ''num'' [P_st] (SKM_sk_num ''SSL_COMP'' P_st),
      Macro ''value'' [P_st, P_i] (SKM_sk_value ''SSL_COMP'' P_st P_i),
      Macro ''set'' [P_st, P_i, P_val] (SKM_sk_set ''SSL_COMP'' P_st P_i P_val),
      Macro ''zero'' [P_st] (SKM_sk_zero ''SSL_COMP'' P_st),
      Macro ''push'' [P_st, P_val] (SKM_sk_push ''SSL_COMP'' P_st P_val),
      Macro ''unshift'' [P_st, P_val] (SKM_sk_unshift ''SSL_COMP'' P_st P_val),
      Macro ''find'' [P_st, P_val] (SKM_sk_find ''SSL_COMP'' P_st P_val),
      Macro ''find_ex'' [P_st, P_val] (SKM_sk_find_ex ''SSL_COMP'' P_st P_val),
      Macro ''delete'' [P_st, P_i] (SKM_sk_delete ''SSL_COMP'' P_st P_i),
      Macro ''delete_ptr'' [P_st, P_ptr] (SKM_sk_delete_ptr ''SSL_COMP'' P_st P_ptr),
      Macro ''insert'' [P_st, P_val, P_i] (SKM_sk_insert ''SSL_COMP'' P_st P_val P_i),
      Macro ''set_cmp_func'' [P_st, P_cmp] (SKM_sk_set_cmp_func ''SSL_COMP'' P_st P_cmp),
      Macro ''dup'' [P_st] (SKM_sk_dup ''SSL_COMP'' P_st),
      Macro ''pop_free'' [P_st, P_free_func] (SKM_sk_pop_free ''SSL_COMP'' P_st P_free_func),
      Macro ''shift'' [P_st] (SKM_sk_shift ''SSL_COMP'' P_st),
      Macro ''pop'' [P_st] (SKM_sk_pop ''SSL_COMP'' P_st),
      Macro ''sort'' [P_st] (SKM_sk_sort ''SSL_COMP'' P_st),
      Macro ''is_sorted'' [P_st] (SKM_sk_is_sorted ''SSL_COMP'' P_st)]"

definition sk_STACK_OF_X509_NAME_ENTRY :: "macro_def list" where
  "sk_STACK_OF_X509_NAME_ENTRY =
     [Macro ''new'' [P_cmp] (SKM_sk_new ''STACK_OF_X509_NAME_ENTRY'' P_cmp),
      Macro ''new_null'' [] (SKM_sk_new_null ''STACK_OF_X509_NAME_ENTRY''),
      Macro ''free'' [P_st] (SKM_sk_free ''STACK_OF_X509_NAME_ENTRY'' P_st),
      Macro ''num'' [P_st] (SKM_sk_num ''STACK_OF_X509_NAME_ENTRY'' P_st),
      Macro ''value'' [P_st, P_i] (SKM_sk_value ''STACK_OF_X509_NAME_ENTRY'' P_st P_i),
      Macro ''set'' [P_st, P_i, P_val] (SKM_sk_set ''STACK_OF_X509_NAME_ENTRY'' P_st P_i P_val),
      Macro ''zero'' [P_st] (SKM_sk_zero ''STACK_OF_X509_NAME_ENTRY'' P_st),
      Macro ''push'' [P_st, P_val] (SKM_sk_push ''STACK_OF_X509_NAME_ENTRY'' P_st P_val),
      Macro ''unshift'' [P_st, P_val] (SKM_sk_unshift ''STACK_OF_X509_NAME_ENTRY'' P_st P_val),
      Macro ''find'' [P_st, P_val] (SKM_sk_find ''STACK_OF_X509_NAME_ENTRY'' P_st P_val),
      Macro ''find_ex'' [P_st, P_val] (SKM_sk_find_ex ''STACK_OF_X509_NAME_ENTRY'' P_st P_val),
      Macro ''delete'' [P_st, P_i] (SKM_sk_delete ''STACK_OF_X509_NAME_ENTRY'' P_st P_i),
      Macro ''delete_ptr'' [P_st, P_ptr] (SKM_sk_delete_ptr ''STACK_OF_X509_NAME_ENTRY'' P_st P_ptr),
      Macro ''insert'' [P_st, P_val, P_i] (SKM_sk_insert ''STACK_OF_X509_NAME_ENTRY'' P_st P_val P_i),
      Macro ''set_cmp_func'' [P_st, P_cmp] (SKM_sk_set_cmp_func ''STACK_OF_X509_NAME_ENTRY'' P_st P_cmp),
      Macro ''dup'' [P_st] (SKM_sk_dup ''STACK_OF_X509_NAME_ENTRY'' P_st),
      Macro ''pop_free'' [P_st, P_free_func] (SKM_sk_pop_free ''STACK_OF_X509_NAME_ENTRY'' P_st P_free_func),
      Macro ''shift'' [P_st] (SKM_sk_shift ''STACK_OF_X509_NAME_ENTRY'' P_st),
      Macro ''pop'' [P_st] (SKM_sk_pop ''STACK_OF_X509_NAME_ENTRY'' P_st),
      Macro ''sort'' [P_st] (SKM_sk_sort ''STACK_OF_X509_NAME_ENTRY'' P_st),
      Macro ''is_sorted'' [P_st] (SKM_sk_is_sorted ''STACK_OF_X509_NAME_ENTRY'' P_st)]"

definition sk_STORE_ATTR_INFO :: "macro_def list" where
  "sk_STORE_ATTR_INFO =
     [Macro ''new'' [P_cmp] (SKM_sk_new ''STORE_ATTR_INFO'' P_cmp),
      Macro ''new_null'' [] (SKM_sk_new_null ''STORE_ATTR_INFO''),
      Macro ''free'' [P_st] (SKM_sk_free ''STORE_ATTR_INFO'' P_st),
      Macro ''num'' [P_st] (SKM_sk_num ''STORE_ATTR_INFO'' P_st),
      Macro ''value'' [P_st, P_i] (SKM_sk_value ''STORE_ATTR_INFO'' P_st P_i),
      Macro ''set'' [P_st, P_i, P_val] (SKM_sk_set ''STORE_ATTR_INFO'' P_st P_i P_val),
      Macro ''zero'' [P_st] (SKM_sk_zero ''STORE_ATTR_INFO'' P_st),
      Macro ''push'' [P_st, P_val] (SKM_sk_push ''STORE_ATTR_INFO'' P_st P_val),
      Macro ''unshift'' [P_st, P_val] (SKM_sk_unshift ''STORE_ATTR_INFO'' P_st P_val),
      Macro ''find'' [P_st, P_val] (SKM_sk_find ''STORE_ATTR_INFO'' P_st P_val),
      Macro ''find_ex'' [P_st, P_val] (SKM_sk_find_ex ''STORE_ATTR_INFO'' P_st P_val),
      Macro ''delete'' [P_st, P_i] (SKM_sk_delete ''STORE_ATTR_INFO'' P_st P_i),
      Macro ''delete_ptr'' [P_st, P_ptr] (SKM_sk_delete_ptr ''STORE_ATTR_INFO'' P_st P_ptr),
      Macro ''insert'' [P_st, P_val, P_i] (SKM_sk_insert ''STORE_ATTR_INFO'' P_st P_val P_i),
      Macro ''set_cmp_func'' [P_st, P_cmp] (SKM_sk_set_cmp_func ''STORE_ATTR_INFO'' P_st P_cmp),
      Macro ''dup'' [P_st] (SKM_sk_dup ''STORE_ATTR_INFO'' P_st),
      Macro ''pop_free'' [P_st, P_free_func] (SKM_sk_pop_free ''STORE_ATTR_INFO'' P_st P_free_func),
      Macro ''shift'' [P_st] (SKM_sk_shift ''STORE_ATTR_INFO'' P_st),
      Macro ''pop'' [P_st] (SKM_sk_pop ''STORE_ATTR_INFO'' P_st),
      Macro ''sort'' [P_st] (SKM_sk_sort ''STORE_ATTR_INFO'' P_st),
      Macro ''is_sorted'' [P_st] (SKM_sk_is_sorted ''STORE_ATTR_INFO'' P_st)]"

definition sk_STORE_OBJECT :: "macro_def list" where
  "sk_STORE_OBJECT =
     [Macro ''new'' [P_cmp] (SKM_sk_new ''STORE_OBJECT'' P_cmp),
      Macro ''new_null'' [] (SKM_sk_new_null ''STORE_OBJECT''),
      Macro ''free'' [P_st] (SKM_sk_free ''STORE_OBJECT'' P_st),
      Macro ''num'' [P_st] (SKM_sk_num ''STORE_OBJECT'' P_st),
      Macro ''value'' [P_st, P_i] (SKM_sk_value ''STORE_OBJECT'' P_st P_i),
      Macro ''set'' [P_st, P_i, P_val] (SKM_sk_set ''STORE_OBJECT'' P_st P_i P_val),
      Macro ''zero'' [P_st] (SKM_sk_zero ''STORE_OBJECT'' P_st),
      Macro ''push'' [P_st, P_val] (SKM_sk_push ''STORE_OBJECT'' P_st P_val),
      Macro ''unshift'' [P_st, P_val] (SKM_sk_unshift ''STORE_OBJECT'' P_st P_val),
      Macro ''find'' [P_st, P_val] (SKM_sk_find ''STORE_OBJECT'' P_st P_val),
      Macro ''find_ex'' [P_st, P_val] (SKM_sk_find_ex ''STORE_OBJECT'' P_st P_val),
      Macro ''delete'' [P_st, P_i] (SKM_sk_delete ''STORE_OBJECT'' P_st P_i),
      Macro ''delete_ptr'' [P_st, P_ptr] (SKM_sk_delete_ptr ''STORE_OBJECT'' P_st P_ptr),
      Macro ''insert'' [P_st, P_val, P_i] (SKM_sk_insert ''STORE_OBJECT'' P_st P_val P_i),
      Macro ''set_cmp_func'' [P_st, P_cmp] (SKM_sk_set_cmp_func ''STORE_OBJECT'' P_st P_cmp),
      Macro ''dup'' [P_st] (SKM_sk_dup ''STORE_OBJECT'' P_st),
      Macro ''pop_free'' [P_st, P_free_func] (SKM_sk_pop_free ''STORE_OBJECT'' P_st P_free_func),
      Macro ''shift'' [P_st] (SKM_sk_shift ''STORE_OBJECT'' P_st),
      Macro ''pop'' [P_st] (SKM_sk_pop ''STORE_OBJECT'' P_st),
      Macro ''sort'' [P_st] (SKM_sk_sort ''STORE_OBJECT'' P_st),
      Macro ''is_sorted'' [P_st] (SKM_sk_is_sorted ''STORE_OBJECT'' P_st)]"

definition sk_SXNETID :: "macro_def list" where
  "sk_SXNETID =
     [Macro ''new'' [P_cmp] (SKM_sk_new ''SXNETID'' P_cmp),
      Macro ''new_null'' [] (SKM_sk_new_null ''SXNETID''),
      Macro ''free'' [P_st] (SKM_sk_free ''SXNETID'' P_st),
      Macro ''num'' [P_st] (SKM_sk_num ''SXNETID'' P_st),
      Macro ''value'' [P_st, P_i] (SKM_sk_value ''SXNETID'' P_st P_i),
      Macro ''set'' [P_st, P_i, P_val] (SKM_sk_set ''SXNETID'' P_st P_i P_val),
      Macro ''zero'' [P_st] (SKM_sk_zero ''SXNETID'' P_st),
      Macro ''push'' [P_st, P_val] (SKM_sk_push ''SXNETID'' P_st P_val),
      Macro ''unshift'' [P_st, P_val] (SKM_sk_unshift ''SXNETID'' P_st P_val),
      Macro ''find'' [P_st, P_val] (SKM_sk_find ''SXNETID'' P_st P_val),
      Macro ''find_ex'' [P_st, P_val] (SKM_sk_find_ex ''SXNETID'' P_st P_val),
      Macro ''delete'' [P_st, P_i] (SKM_sk_delete ''SXNETID'' P_st P_i),
      Macro ''delete_ptr'' [P_st, P_ptr] (SKM_sk_delete_ptr ''SXNETID'' P_st P_ptr),
      Macro ''insert'' [P_st, P_val, P_i] (SKM_sk_insert ''SXNETID'' P_st P_val P_i),
      Macro ''set_cmp_func'' [P_st, P_cmp] (SKM_sk_set_cmp_func ''SXNETID'' P_st P_cmp),
      Macro ''dup'' [P_st] (SKM_sk_dup ''SXNETID'' P_st),
      Macro ''pop_free'' [P_st, P_free_func] (SKM_sk_pop_free ''SXNETID'' P_st P_free_func),
      Macro ''shift'' [P_st] (SKM_sk_shift ''SXNETID'' P_st),
      Macro ''pop'' [P_st] (SKM_sk_pop ''SXNETID'' P_st),
      Macro ''sort'' [P_st] (SKM_sk_sort ''SXNETID'' P_st),
      Macro ''is_sorted'' [P_st] (SKM_sk_is_sorted ''SXNETID'' P_st)]"

definition sk_UI_STRING :: "macro_def list" where
  "sk_UI_STRING =
     [Macro ''new'' [P_cmp] (SKM_sk_new ''UI_STRING'' P_cmp),
      Macro ''new_null'' [] (SKM_sk_new_null ''UI_STRING''),
      Macro ''free'' [P_st] (SKM_sk_free ''UI_STRING'' P_st),
      Macro ''num'' [P_st] (SKM_sk_num ''UI_STRING'' P_st),
      Macro ''value'' [P_st, P_i] (SKM_sk_value ''UI_STRING'' P_st P_i),
      Macro ''set'' [P_st, P_i, P_val] (SKM_sk_set ''UI_STRING'' P_st P_i P_val),
      Macro ''zero'' [P_st] (SKM_sk_zero ''UI_STRING'' P_st),
      Macro ''push'' [P_st, P_val] (SKM_sk_push ''UI_STRING'' P_st P_val),
      Macro ''unshift'' [P_st, P_val] (SKM_sk_unshift ''UI_STRING'' P_st P_val),
      Macro ''find'' [P_st, P_val] (SKM_sk_find ''UI_STRING'' P_st P_val),
      Macro ''find_ex'' [P_st, P_val] (SKM_sk_find_ex ''UI_STRING'' P_st P_val),
      Macro ''delete'' [P_st, P_i] (SKM_sk_delete ''UI_STRING'' P_st P_i),
      Macro ''delete_ptr'' [P_st, P_ptr] (SKM_sk_delete_ptr ''UI_STRING'' P_st P_ptr),
      Macro ''insert'' [P_st, P_val, P_i] (SKM_sk_insert ''UI_STRING'' P_st P_val P_i),
      Macro ''set_cmp_func'' [P_st, P_cmp] (SKM_sk_set_cmp_func ''UI_STRING'' P_st P_cmp),
      Macro ''dup'' [P_st] (SKM_sk_dup ''UI_STRING'' P_st),
      Macro ''pop_free'' [P_st, P_free_func] (SKM_sk_pop_free ''UI_STRING'' P_st P_free_func),
      Macro ''shift'' [P_st] (SKM_sk_shift ''UI_STRING'' P_st),
      Macro ''pop'' [P_st] (SKM_sk_pop ''UI_STRING'' P_st),
      Macro ''sort'' [P_st] (SKM_sk_sort ''UI_STRING'' P_st),
      Macro ''is_sorted'' [P_st] (SKM_sk_is_sorted ''UI_STRING'' P_st)]"

definition sk_X509 :: "macro_def list" where
  "sk_X509 =
     [Macro ''new'' [P_cmp] (SKM_sk_new ''X509'' P_cmp),
      Macro ''new_null'' [] (SKM_sk_new_null ''X509''),
      Macro ''free'' [P_st] (SKM_sk_free ''X509'' P_st),
      Macro ''num'' [P_st] (SKM_sk_num ''X509'' P_st),
      Macro ''value'' [P_st, P_i] (SKM_sk_value ''X509'' P_st P_i),
      Macro ''set'' [P_st, P_i, P_val] (SKM_sk_set ''X509'' P_st P_i P_val),
      Macro ''zero'' [P_st] (SKM_sk_zero ''X509'' P_st),
      Macro ''push'' [P_st, P_val] (SKM_sk_push ''X509'' P_st P_val),
      Macro ''unshift'' [P_st, P_val] (SKM_sk_unshift ''X509'' P_st P_val),
      Macro ''find'' [P_st, P_val] (SKM_sk_find ''X509'' P_st P_val),
      Macro ''find_ex'' [P_st, P_val] (SKM_sk_find_ex ''X509'' P_st P_val),
      Macro ''delete'' [P_st, P_i] (SKM_sk_delete ''X509'' P_st P_i),
      Macro ''delete_ptr'' [P_st, P_ptr] (SKM_sk_delete_ptr ''X509'' P_st P_ptr),
      Macro ''insert'' [P_st, P_val, P_i] (SKM_sk_insert ''X509'' P_st P_val P_i),
      Macro ''set_cmp_func'' [P_st, P_cmp] (SKM_sk_set_cmp_func ''X509'' P_st P_cmp),
      Macro ''dup'' [P_st] (SKM_sk_dup ''X509'' P_st),
      Macro ''pop_free'' [P_st, P_free_func] (SKM_sk_pop_free ''X509'' P_st P_free_func),
      Macro ''shift'' [P_st] (SKM_sk_shift ''X509'' P_st),
      Macro ''pop'' [P_st] (SKM_sk_pop ''X509'' P_st),
      Macro ''sort'' [P_st] (SKM_sk_sort ''X509'' P_st),
      Macro ''is_sorted'' [P_st] (SKM_sk_is_sorted ''X509'' P_st)]"

definition sk_X509V3_EXT_METHOD :: "macro_def list" where
  "sk_X509V3_EXT_METHOD =
     [Macro ''new'' [P_cmp] (SKM_sk_new ''X509V3_EXT_METHOD'' P_cmp),
      Macro ''new_null'' [] (SKM_sk_new_null ''X509V3_EXT_METHOD''),
      Macro ''free'' [P_st] (SKM_sk_free ''X509V3_EXT_METHOD'' P_st),
      Macro ''num'' [P_st] (SKM_sk_num ''X509V3_EXT_METHOD'' P_st),
      Macro ''value'' [P_st, P_i] (SKM_sk_value ''X509V3_EXT_METHOD'' P_st P_i),
      Macro ''set'' [P_st, P_i, P_val] (SKM_sk_set ''X509V3_EXT_METHOD'' P_st P_i P_val),
      Macro ''zero'' [P_st] (SKM_sk_zero ''X509V3_EXT_METHOD'' P_st),
      Macro ''push'' [P_st, P_val] (SKM_sk_push ''X509V3_EXT_METHOD'' P_st P_val),
      Macro ''unshift'' [P_st, P_val] (SKM_sk_unshift ''X509V3_EXT_METHOD'' P_st P_val),
      Macro ''find'' [P_st, P_val] (SKM_sk_find ''X509V3_EXT_METHOD'' P_st P_val),
      Macro ''find_ex'' [P_st, P_val] (SKM_sk_find_ex ''X509V3_EXT_METHOD'' P_st P_val),
      Macro ''delete'' [P_st, P_i] (SKM_sk_delete ''X509V3_EXT_METHOD'' P_st P_i),
      Macro ''delete_ptr'' [P_st, P_ptr] (SKM_sk_delete_ptr ''X509V3_EXT_METHOD'' P_st P_ptr),
      Macro ''insert'' [P_st, P_val, P_i] (SKM_sk_insert ''X509V3_EXT_METHOD'' P_st P_val P_i),
      Macro ''set_cmp_func'' [P_st, P_cmp] (SKM_sk_set_cmp_func ''X509V3_EXT_METHOD'' P_st P_cmp),
      Macro ''dup'' [P_st] (SKM_sk_dup ''X509V3_EXT_METHOD'' P_st),
      Macro ''pop_free'' [P_st, P_free_func] (SKM_sk_pop_free ''X509V3_EXT_METHOD'' P_st P_free_func),
      Macro ''shift'' [P_st] (SKM_sk_shift ''X509V3_EXT_METHOD'' P_st),
      Macro ''pop'' [P_st] (SKM_sk_pop ''X509V3_EXT_METHOD'' P_st),
      Macro ''sort'' [P_st] (SKM_sk_sort ''X509V3_EXT_METHOD'' P_st),
      Macro ''is_sorted'' [P_st] (SKM_sk_is_sorted ''X509V3_EXT_METHOD'' P_st)]"

definition sk_X509_ALGOR :: "macro_def list" where
  "sk_X509_ALGOR =
     [Macro ''new'' [P_cmp] (SKM_sk_new ''X509_ALGOR'' P_cmp),
      Macro ''new_null'' [] (SKM_sk_new_null ''X509_ALGOR''),
      Macro ''free'' [P_st] (SKM_sk_free ''X509_ALGOR'' P_st),
      Macro ''num'' [P_st] (SKM_sk_num ''X509_ALGOR'' P_st),
      Macro ''value'' [P_st, P_i] (SKM_sk_value ''X509_ALGOR'' P_st P_i),
      Macro ''set'' [P_st, P_i, P_val] (SKM_sk_set ''X509_ALGOR'' P_st P_i P_val),
      Macro ''zero'' [P_st] (SKM_sk_zero ''X509_ALGOR'' P_st),
      Macro ''push'' [P_st, P_val] (SKM_sk_push ''X509_ALGOR'' P_st P_val),
      Macro ''unshift'' [P_st, P_val] (SKM_sk_unshift ''X509_ALGOR'' P_st P_val),
      Macro ''find'' [P_st, P_val] (SKM_sk_find ''X509_ALGOR'' P_st P_val),
      Macro ''find_ex'' [P_st, P_val] (SKM_sk_find_ex ''X509_ALGOR'' P_st P_val),
      Macro ''delete'' [P_st, P_i] (SKM_sk_delete ''X509_ALGOR'' P_st P_i),
      Macro ''delete_ptr'' [P_st, P_ptr] (SKM_sk_delete_ptr ''X509_ALGOR'' P_st P_ptr),
      Macro ''insert'' [P_st, P_val, P_i] (SKM_sk_insert ''X509_ALGOR'' P_st P_val P_i),
      Macro ''set_cmp_func'' [P_st, P_cmp] (SKM_sk_set_cmp_func ''X509_ALGOR'' P_st P_cmp),
      Macro ''dup'' [P_st] (SKM_sk_dup ''X509_ALGOR'' P_st),
      Macro ''pop_free'' [P_st, P_free_func] (SKM_sk_pop_free ''X509_ALGOR'' P_st P_free_func),
      Macro ''shift'' [P_st] (SKM_sk_shift ''X509_ALGOR'' P_st),
      Macro ''pop'' [P_st] (SKM_sk_pop ''X509_ALGOR'' P_st),
      Macro ''sort'' [P_st] (SKM_sk_sort ''X509_ALGOR'' P_st),
      Macro ''is_sorted'' [P_st] (SKM_sk_is_sorted ''X509_ALGOR'' P_st)]"

definition sk_X509_ATTRIBUTE :: "macro_def list" where
  "sk_X509_ATTRIBUTE =
     [Macro ''new'' [P_cmp] (SKM_sk_new ''X509_ATTRIBUTE'' P_cmp),
      Macro ''new_null'' [] (SKM_sk_new_null ''X509_ATTRIBUTE''),
      Macro ''free'' [P_st] (SKM_sk_free ''X509_ATTRIBUTE'' P_st),
      Macro ''num'' [P_st] (SKM_sk_num ''X509_ATTRIBUTE'' P_st),
      Macro ''value'' [P_st, P_i] (SKM_sk_value ''X509_ATTRIBUTE'' P_st P_i),
      Macro ''set'' [P_st, P_i, P_val] (SKM_sk_set ''X509_ATTRIBUTE'' P_st P_i P_val),
      Macro ''zero'' [P_st] (SKM_sk_zero ''X509_ATTRIBUTE'' P_st),
      Macro ''push'' [P_st, P_val] (SKM_sk_push ''X509_ATTRIBUTE'' P_st P_val),
      Macro ''unshift'' [P_st, P_val] (SKM_sk_unshift ''X509_ATTRIBUTE'' P_st P_val),
      Macro ''find'' [P_st, P_val] (SKM_sk_find ''X509_ATTRIBUTE'' P_st P_val),
      Macro ''find_ex'' [P_st, P_val] (SKM_sk_find_ex ''X509_ATTRIBUTE'' P_st P_val),
      Macro ''delete'' [P_st, P_i] (SKM_sk_delete ''X509_ATTRIBUTE'' P_st P_i),
      Macro ''delete_ptr'' [P_st, P_ptr] (SKM_sk_delete_ptr ''X509_ATTRIBUTE'' P_st P_ptr),
      Macro ''insert'' [P_st, P_val, P_i] (SKM_sk_insert ''X509_ATTRIBUTE'' P_st P_val P_i),
      Macro ''set_cmp_func'' [P_st, P_cmp] (SKM_sk_set_cmp_func ''X509_ATTRIBUTE'' P_st P_cmp),
      Macro ''dup'' [P_st] (SKM_sk_dup ''X509_ATTRIBUTE'' P_st),
      Macro ''pop_free'' [P_st, P_free_func] (SKM_sk_pop_free ''X509_ATTRIBUTE'' P_st P_free_func),
      Macro ''shift'' [P_st] (SKM_sk_shift ''X509_ATTRIBUTE'' P_st),
      Macro ''pop'' [P_st] (SKM_sk_pop ''X509_ATTRIBUTE'' P_st),
      Macro ''sort'' [P_st] (SKM_sk_sort ''X509_ATTRIBUTE'' P_st),
      Macro ''is_sorted'' [P_st] (SKM_sk_is_sorted ''X509_ATTRIBUTE'' P_st)]"

definition sk_X509_CRL :: "macro_def list" where
  "sk_X509_CRL =
     [Macro ''new'' [P_cmp] (SKM_sk_new ''X509_CRL'' P_cmp),
      Macro ''new_null'' [] (SKM_sk_new_null ''X509_CRL''),
      Macro ''free'' [P_st] (SKM_sk_free ''X509_CRL'' P_st),
      Macro ''num'' [P_st] (SKM_sk_num ''X509_CRL'' P_st),
      Macro ''value'' [P_st, P_i] (SKM_sk_value ''X509_CRL'' P_st P_i),
      Macro ''set'' [P_st, P_i, P_val] (SKM_sk_set ''X509_CRL'' P_st P_i P_val),
      Macro ''zero'' [P_st] (SKM_sk_zero ''X509_CRL'' P_st),
      Macro ''push'' [P_st, P_val] (SKM_sk_push ''X509_CRL'' P_st P_val),
      Macro ''unshift'' [P_st, P_val] (SKM_sk_unshift ''X509_CRL'' P_st P_val),
      Macro ''find'' [P_st, P_val] (SKM_sk_find ''X509_CRL'' P_st P_val),
      Macro ''find_ex'' [P_st, P_val] (SKM_sk_find_ex ''X509_CRL'' P_st P_val),
      Macro ''delete'' [P_st, P_i] (SKM_sk_delete ''X509_CRL'' P_st P_i),
      Macro ''delete_ptr'' [P_st, P_ptr] (SKM_sk_delete_ptr ''X509_CRL'' P_st P_ptr),
      Macro ''insert'' [P_st, P_val, P_i] (SKM_sk_insert ''X509_CRL'' P_st P_val P_i),
      Macro ''set_cmp_func'' [P_st, P_cmp] (SKM_sk_set_cmp_func ''X509_CRL'' P_st P_cmp),
      Macro ''dup'' [P_st] (SKM_sk_dup ''X509_CRL'' P_st),
      Macro ''pop_free'' [P_st, P_free_func] (SKM_sk_pop_free ''X509_CRL'' P_st P_free_func),
      Macro ''shift'' [P_st] (SKM_sk_shift ''X509_CRL'' P_st),
      Macro ''pop'' [P_st] (SKM_sk_pop ''X509_CRL'' P_st),
      Macro ''sort'' [P_st] (SKM_sk_sort ''X509_CRL'' P_st),
      Macro ''is_sorted'' [P_st] (SKM_sk_is_sorted ''X509_CRL'' P_st)]"

definition sk_X509_EXTENSION :: "macro_def list" where
  "sk_X509_EXTENSION =
     [Macro ''new'' [P_cmp] (SKM_sk_new ''X509_EXTENSION'' P_cmp),
      Macro ''new_null'' [] (SKM_sk_new_null ''X509_EXTENSION''),
      Macro ''free'' [P_st] (SKM_sk_free ''X509_EXTENSION'' P_st),
      Macro ''num'' [P_st] (SKM_sk_num ''X509_EXTENSION'' P_st),
      Macro ''value'' [P_st, P_i] (SKM_sk_value ''X509_EXTENSION'' P_st P_i),
      Macro ''set'' [P_st, P_i, P_val] (SKM_sk_set ''X509_EXTENSION'' P_st P_i P_val),
      Macro ''zero'' [P_st] (SKM_sk_zero ''X509_EXTENSION'' P_st),
      Macro ''push'' [P_st, P_val] (SKM_sk_push ''X509_EXTENSION'' P_st P_val),
      Macro ''unshift'' [P_st, P_val] (SKM_sk_unshift ''X509_EXTENSION'' P_st P_val),
      Macro ''find'' [P_st, P_val] (SKM_sk_find ''X509_EXTENSION'' P_st P_val),
      Macro ''find_ex'' [P_st, P_val] (SKM_sk_find_ex ''X509_EXTENSION'' P_st P_val),
      Macro ''delete'' [P_st, P_i] (SKM_sk_delete ''X509_EXTENSION'' P_st P_i),
      Macro ''delete_ptr'' [P_st, P_ptr] (SKM_sk_delete_ptr ''X509_EXTENSION'' P_st P_ptr),
      Macro ''insert'' [P_st, P_val, P_i] (SKM_sk_insert ''X509_EXTENSION'' P_st P_val P_i),
      Macro ''set_cmp_func'' [P_st, P_cmp] (SKM_sk_set_cmp_func ''X509_EXTENSION'' P_st P_cmp),
      Macro ''dup'' [P_st] (SKM_sk_dup ''X509_EXTENSION'' P_st),
      Macro ''pop_free'' [P_st, P_free_func] (SKM_sk_pop_free ''X509_EXTENSION'' P_st P_free_func),
      Macro ''shift'' [P_st] (SKM_sk_shift ''X509_EXTENSION'' P_st),
      Macro ''pop'' [P_st] (SKM_sk_pop ''X509_EXTENSION'' P_st),
      Macro ''sort'' [P_st] (SKM_sk_sort ''X509_EXTENSION'' P_st),
      Macro ''is_sorted'' [P_st] (SKM_sk_is_sorted ''X509_EXTENSION'' P_st)]"

definition sk_X509_INFO :: "macro_def list" where
  "sk_X509_INFO =
     [Macro ''new'' [P_cmp] (SKM_sk_new ''X509_INFO'' P_cmp),
      Macro ''new_null'' [] (SKM_sk_new_null ''X509_INFO''),
      Macro ''free'' [P_st] (SKM_sk_free ''X509_INFO'' P_st),
      Macro ''num'' [P_st] (SKM_sk_num ''X509_INFO'' P_st),
      Macro ''value'' [P_st, P_i] (SKM_sk_value ''X509_INFO'' P_st P_i),
      Macro ''set'' [P_st, P_i, P_val] (SKM_sk_set ''X509_INFO'' P_st P_i P_val),
      Macro ''zero'' [P_st] (SKM_sk_zero ''X509_INFO'' P_st),
      Macro ''push'' [P_st, P_val] (SKM_sk_push ''X509_INFO'' P_st P_val),
      Macro ''unshift'' [P_st, P_val] (SKM_sk_unshift ''X509_INFO'' P_st P_val),
      Macro ''find'' [P_st, P_val] (SKM_sk_find ''X509_INFO'' P_st P_val),
      Macro ''find_ex'' [P_st, P_val] (SKM_sk_find_ex ''X509_INFO'' P_st P_val),
      Macro ''delete'' [P_st, P_i] (SKM_sk_delete ''X509_INFO'' P_st P_i),
      Macro ''delete_ptr'' [P_st, P_ptr] (SKM_sk_delete_ptr ''X509_INFO'' P_st P_ptr),
      Macro ''insert'' [P_st, P_val, P_i] (SKM_sk_insert ''X509_INFO'' P_st P_val P_i),
      Macro ''set_cmp_func'' [P_st, P_cmp] (SKM_sk_set_cmp_func ''X509_INFO'' P_st P_cmp),
      Macro ''dup'' [P_st] (SKM_sk_dup ''X509_INFO'' P_st),
      Macro ''pop_free'' [P_st, P_free_func] (SKM_sk_pop_free ''X509_INFO'' P_st P_free_func),
      Macro ''shift'' [P_st] (SKM_sk_shift ''X509_INFO'' P_st),
      Macro ''pop'' [P_st] (SKM_sk_pop ''X509_INFO'' P_st),
      Macro ''sort'' [P_st] (SKM_sk_sort ''X509_INFO'' P_st),
      Macro ''is_sorted'' [P_st] (SKM_sk_is_sorted ''X509_INFO'' P_st)]"

definition sk_X509_LOOKUP :: "macro_def list" where
  "sk_X509_LOOKUP =
     [Macro ''new'' [P_cmp] (SKM_sk_new ''X509_LOOKUP'' P_cmp),
      Macro ''new_null'' [] (SKM_sk_new_null ''X509_LOOKUP''),
      Macro ''free'' [P_st] (SKM_sk_free ''X509_LOOKUP'' P_st),
      Macro ''num'' [P_st] (SKM_sk_num ''X509_LOOKUP'' P_st),
      Macro ''value'' [P_st, P_i] (SKM_sk_value ''X509_LOOKUP'' P_st P_i),
      Macro ''set'' [P_st, P_i, P_val] (SKM_sk_set ''X509_LOOKUP'' P_st P_i P_val),
      Macro ''zero'' [P_st] (SKM_sk_zero ''X509_LOOKUP'' P_st),
      Macro ''push'' [P_st, P_val] (SKM_sk_push ''X509_LOOKUP'' P_st P_val),
      Macro ''unshift'' [P_st, P_val] (SKM_sk_unshift ''X509_LOOKUP'' P_st P_val),
      Macro ''find'' [P_st, P_val] (SKM_sk_find ''X509_LOOKUP'' P_st P_val),
      Macro ''find_ex'' [P_st, P_val] (SKM_sk_find_ex ''X509_LOOKUP'' P_st P_val),
      Macro ''delete'' [P_st, P_i] (SKM_sk_delete ''X509_LOOKUP'' P_st P_i),
      Macro ''delete_ptr'' [P_st, P_ptr] (SKM_sk_delete_ptr ''X509_LOOKUP'' P_st P_ptr),
      Macro ''insert'' [P_st, P_val, P_i] (SKM_sk_insert ''X509_LOOKUP'' P_st P_val P_i),
      Macro ''set_cmp_func'' [P_st, P_cmp] (SKM_sk_set_cmp_func ''X509_LOOKUP'' P_st P_cmp),
      Macro ''dup'' [P_st] (SKM_sk_dup ''X509_LOOKUP'' P_st),
      Macro ''pop_free'' [P_st, P_free_func] (SKM_sk_pop_free ''X509_LOOKUP'' P_st P_free_func),
      Macro ''shift'' [P_st] (SKM_sk_shift ''X509_LOOKUP'' P_st),
      Macro ''pop'' [P_st] (SKM_sk_pop ''X509_LOOKUP'' P_st),
      Macro ''sort'' [P_st] (SKM_sk_sort ''X509_LOOKUP'' P_st),
      Macro ''is_sorted'' [P_st] (SKM_sk_is_sorted ''X509_LOOKUP'' P_st)]"

definition sk_X509_NAME :: "macro_def list" where
  "sk_X509_NAME =
     [Macro ''new'' [P_cmp] (SKM_sk_new ''X509_NAME'' P_cmp),
      Macro ''new_null'' [] (SKM_sk_new_null ''X509_NAME''),
      Macro ''free'' [P_st] (SKM_sk_free ''X509_NAME'' P_st),
      Macro ''num'' [P_st] (SKM_sk_num ''X509_NAME'' P_st),
      Macro ''value'' [P_st, P_i] (SKM_sk_value ''X509_NAME'' P_st P_i),
      Macro ''set'' [P_st, P_i, P_val] (SKM_sk_set ''X509_NAME'' P_st P_i P_val),
      Macro ''zero'' [P_st] (SKM_sk_zero ''X509_NAME'' P_st),
      Macro ''push'' [P_st, P_val] (SKM_sk_push ''X509_NAME'' P_st P_val),
      Macro ''unshift'' [P_st, P_val] (SKM_sk_unshift ''X509_NAME'' P_st P_val),
      Macro ''find'' [P_st, P_val] (SKM_sk_find ''X509_NAME'' P_st P_val),
      Macro ''find_ex'' [P_st, P_val] (SKM_sk_find_ex ''X509_NAME'' P_st P_val),
      Macro ''delete'' [P_st, P_i] (SKM_sk_delete ''X509_NAME'' P_st P_i),
      Macro ''delete_ptr'' [P_st, P_ptr] (SKM_sk_delete_ptr ''X509_NAME'' P_st P_ptr),
      Macro ''insert'' [P_st, P_val, P_i] (SKM_sk_insert ''X509_NAME'' P_st P_val P_i),
      Macro ''set_cmp_func'' [P_st, P_cmp] (SKM_sk_set_cmp_func ''X509_NAME'' P_st P_cmp),
      Macro ''dup'' [P_st] (SKM_sk_dup ''X509_NAME'' P_st),
      Macro ''pop_free'' [P_st, P_free_func] (SKM_sk_pop_free ''X509_NAME'' P_st P_free_func),
      Macro ''shift'' [P_st] (SKM_sk_shift ''X509_NAME'' P_st),
      Macro ''pop'' [P_st] (SKM_sk_pop ''X509_NAME'' P_st),
      Macro ''sort'' [P_st] (SKM_sk_sort ''X509_NAME'' P_st),
      Macro ''is_sorted'' [P_st] (SKM_sk_is_sorted ''X509_NAME'' P_st)]"

definition sk_X509_NAME_ENTRY :: "macro_def list" where
  "sk_X509_NAME_ENTRY =
     [Macro ''new'' [P_cmp] (SKM_sk_new ''X509_NAME_ENTRY'' P_cmp),
      Macro ''new_null'' [] (SKM_sk_new_null ''X509_NAME_ENTRY''),
      Macro ''free'' [P_st] (SKM_sk_free ''X509_NAME_ENTRY'' P_st),
      Macro ''num'' [P_st] (SKM_sk_num ''X509_NAME_ENTRY'' P_st),
      Macro ''value'' [P_st, P_i] (SKM_sk_value ''X509_NAME_ENTRY'' P_st P_i),
      Macro ''set'' [P_st, P_i, P_val] (SKM_sk_set ''X509_NAME_ENTRY'' P_st P_i P_val),
      Macro ''zero'' [P_st] (SKM_sk_zero ''X509_NAME_ENTRY'' P_st),
      Macro ''push'' [P_st, P_val] (SKM_sk_push ''X509_NAME_ENTRY'' P_st P_val),
      Macro ''unshift'' [P_st, P_val] (SKM_sk_unshift ''X509_NAME_ENTRY'' P_st P_val),
      Macro ''find'' [P_st, P_val] (SKM_sk_find ''X509_NAME_ENTRY'' P_st P_val),
      Macro ''find_ex'' [P_st, P_val] (SKM_sk_find_ex ''X509_NAME_ENTRY'' P_st P_val),
      Macro ''delete'' [P_st, P_i] (SKM_sk_delete ''X509_NAME_ENTRY'' P_st P_i),
      Macro ''delete_ptr'' [P_st, P_ptr] (SKM_sk_delete_ptr ''X509_NAME_ENTRY'' P_st P_ptr),
      Macro ''insert'' [P_st, P_val, P_i] (SKM_sk_insert ''X509_NAME_ENTRY'' P_st P_val P_i),
      Macro ''set_cmp_func'' [P_st, P_cmp] (SKM_sk_set_cmp_func ''X509_NAME_ENTRY'' P_st P_cmp),
      Macro ''dup'' [P_st] (SKM_sk_dup ''X509_NAME_ENTRY'' P_st),
      Macro ''pop_free'' [P_st, P_free_func] (SKM_sk_pop_free ''X509_NAME_ENTRY'' P_st P_free_func),
      Macro ''shift'' [P_st] (SKM_sk_shift ''X509_NAME_ENTRY'' P_st),
      Macro ''pop'' [P_st] (SKM_sk_pop ''X509_NAME_ENTRY'' P_st),
      Macro ''sort'' [P_st] (SKM_sk_sort ''X509_NAME_ENTRY'' P_st),
      Macro ''is_sorted'' [P_st] (SKM_sk_is_sorted ''X509_NAME_ENTRY'' P_st)]"

definition sk_X509_OBJECT :: "macro_def list" where
  "sk_X509_OBJECT =
     [Macro ''new'' [P_cmp] (SKM_sk_new ''X509_OBJECT'' P_cmp),
      Macro ''new_null'' [] (SKM_sk_new_null ''X509_OBJECT''),
      Macro ''free'' [P_st] (SKM_sk_free ''X509_OBJECT'' P_st),
      Macro ''num'' [P_st] (SKM_sk_num ''X509_OBJECT'' P_st),
      Macro ''value'' [P_st, P_i] (SKM_sk_value ''X509_OBJECT'' P_st P_i),
      Macro ''set'' [P_st, P_i, P_val] (SKM_sk_set ''X509_OBJECT'' P_st P_i P_val),
      Macro ''zero'' [P_st] (SKM_sk_zero ''X509_OBJECT'' P_st),
      Macro ''push'' [P_st, P_val] (SKM_sk_push ''X509_OBJECT'' P_st P_val),
      Macro ''unshift'' [P_st, P_val] (SKM_sk_unshift ''X509_OBJECT'' P_st P_val),
      Macro ''find'' [P_st, P_val] (SKM_sk_find ''X509_OBJECT'' P_st P_val),
      Macro ''find_ex'' [P_st, P_val] (SKM_sk_find_ex ''X509_OBJECT'' P_st P_val),
      Macro ''delete'' [P_st, P_i] (SKM_sk_delete ''X509_OBJECT'' P_st P_i),
      Macro ''delete_ptr'' [P_st, P_ptr] (SKM_sk_delete_ptr ''X509_OBJECT'' P_st P_ptr),
      Macro ''insert'' [P_st, P_val, P_i] (SKM_sk_insert ''X509_OBJECT'' P_st P_val P_i),
      Macro ''set_cmp_func'' [P_st, P_cmp] (SKM_sk_set_cmp_func ''X509_OBJECT'' P_st P_cmp),
      Macro ''dup'' [P_st] (SKM_sk_dup ''X509_OBJECT'' P_st),
      Macro ''pop_free'' [P_st, P_free_func] (SKM_sk_pop_free ''X509_OBJECT'' P_st P_free_func),
      Macro ''shift'' [P_st] (SKM_sk_shift ''X509_OBJECT'' P_st),
      Macro ''pop'' [P_st] (SKM_sk_pop ''X509_OBJECT'' P_st),
      Macro ''sort'' [P_st] (SKM_sk_sort ''X509_OBJECT'' P_st),
      Macro ''is_sorted'' [P_st] (SKM_sk_is_sorted ''X509_OBJECT'' P_st)]"

definition sk_X509_POLICY_DATA :: "macro_def list" where
  "sk_X509_POLICY_DATA =
     [Macro ''new'' [P_cmp] (SKM_sk_new ''X509_POLICY_DATA'' P_cmp),
      Macro ''new_null'' [] (SKM_sk_new_null ''X509_POLICY_DATA''),
      Macro ''free'' [P_st] (SKM_sk_free ''X509_POLICY_DATA'' P_st),
      Macro ''num'' [P_st] (SKM_sk_num ''X509_POLICY_DATA'' P_st),
      Macro ''value'' [P_st, P_i] (SKM_sk_value ''X509_POLICY_DATA'' P_st P_i),
      Macro ''set'' [P_st, P_i, P_val] (SKM_sk_set ''X509_POLICY_DATA'' P_st P_i P_val),
      Macro ''zero'' [P_st] (SKM_sk_zero ''X509_POLICY_DATA'' P_st),
      Macro ''push'' [P_st, P_val] (SKM_sk_push ''X509_POLICY_DATA'' P_st P_val),
      Macro ''unshift'' [P_st, P_val] (SKM_sk_unshift ''X509_POLICY_DATA'' P_st P_val),
      Macro ''find'' [P_st, P_val] (SKM_sk_find ''X509_POLICY_DATA'' P_st P_val),
      Macro ''find_ex'' [P_st, P_val] (SKM_sk_find_ex ''X509_POLICY_DATA'' P_st P_val),
      Macro ''delete'' [P_st, P_i] (SKM_sk_delete ''X509_POLICY_DATA'' P_st P_i),
      Macro ''delete_ptr'' [P_st, P_ptr] (SKM_sk_delete_ptr ''X509_POLICY_DATA'' P_st P_ptr),
      Macro ''insert'' [P_st, P_val, P_i] (SKM_sk_insert ''X509_POLICY_DATA'' P_st P_val P_i),
      Macro ''set_cmp_func'' [P_st, P_cmp] (SKM_sk_set_cmp_func ''X509_POLICY_DATA'' P_st P_cmp),
      Macro ''dup'' [P_st] (SKM_sk_dup ''X509_POLICY_DATA'' P_st),
      Macro ''pop_free'' [P_st, P_free_func] (SKM_sk_pop_free ''X509_POLICY_DATA'' P_st P_free_func),
      Macro ''shift'' [P_st] (SKM_sk_shift ''X509_POLICY_DATA'' P_st),
      Macro ''pop'' [P_st] (SKM_sk_pop ''X509_POLICY_DATA'' P_st),
      Macro ''sort'' [P_st] (SKM_sk_sort ''X509_POLICY_DATA'' P_st),
      Macro ''is_sorted'' [P_st] (SKM_sk_is_sorted ''X509_POLICY_DATA'' P_st)]"

definition sk_X509_POLICY_NODE :: "macro_def list" where
  "sk_X509_POLICY_NODE =
     [Macro ''new'' [P_cmp] (SKM_sk_new ''X509_POLICY_NODE'' P_cmp),
      Macro ''new_null'' [] (SKM_sk_new_null ''X509_POLICY_NODE''),
      Macro ''free'' [P_st] (SKM_sk_free ''X509_POLICY_NODE'' P_st),
      Macro ''num'' [P_st] (SKM_sk_num ''X509_POLICY_NODE'' P_st),
      Macro ''value'' [P_st, P_i] (SKM_sk_value ''X509_POLICY_NODE'' P_st P_i),
      Macro ''set'' [P_st, P_i, P_val] (SKM_sk_set ''X509_POLICY_NODE'' P_st P_i P_val),
      Macro ''zero'' [P_st] (SKM_sk_zero ''X509_POLICY_NODE'' P_st),
      Macro ''push'' [P_st, P_val] (SKM_sk_push ''X509_POLICY_NODE'' P_st P_val),
      Macro ''unshift'' [P_st, P_val] (SKM_sk_unshift ''X509_POLICY_NODE'' P_st P_val),
      Macro ''find'' [P_st, P_val] (SKM_sk_find ''X509_POLICY_NODE'' P_st P_val),
      Macro ''find_ex'' [P_st, P_val] (SKM_sk_find_ex ''X509_POLICY_NODE'' P_st P_val),
      Macro ''delete'' [P_st, P_i] (SKM_sk_delete ''X509_POLICY_NODE'' P_st P_i),
      Macro ''delete_ptr'' [P_st, P_ptr] (SKM_sk_delete_ptr ''X509_POLICY_NODE'' P_st P_ptr),
      Macro ''insert'' [P_st, P_val, P_i] (SKM_sk_insert ''X509_POLICY_NODE'' P_st P_val P_i),
      Macro ''set_cmp_func'' [P_st, P_cmp] (SKM_sk_set_cmp_func ''X509_POLICY_NODE'' P_st P_cmp),
      Macro ''dup'' [P_st] (SKM_sk_dup ''X509_POLICY_NODE'' P_st),
      Macro ''pop_free'' [P_st, P_free_func] (SKM_sk_pop_free ''X509_POLICY_NODE'' P_st P_free_func),
      Macro ''shift'' [P_st] (SKM_sk_shift ''X509_POLICY_NODE'' P_st),
      Macro ''pop'' [P_st] (SKM_sk_pop ''X509_POLICY_NODE'' P_st),
      Macro ''sort'' [P_st] (SKM_sk_sort ''X509_POLICY_NODE'' P_st),
      Macro ''is_sorted'' [P_st] (SKM_sk_is_sorted ''X509_POLICY_NODE'' P_st)]"

definition sk_X509_PURPOSE :: "macro_def list" where
  "sk_X509_PURPOSE =
     [Macro ''new'' [P_cmp] (SKM_sk_new ''X509_PURPOSE'' P_cmp),
      Macro ''new_null'' [] (SKM_sk_new_null ''X509_PURPOSE''),
      Macro ''free'' [P_st] (SKM_sk_free ''X509_PURPOSE'' P_st),
      Macro ''num'' [P_st] (SKM_sk_num ''X509_PURPOSE'' P_st),
      Macro ''value'' [P_st, P_i] (SKM_sk_value ''X509_PURPOSE'' P_st P_i),
      Macro ''set'' [P_st, P_i, P_val] (SKM_sk_set ''X509_PURPOSE'' P_st P_i P_val),
      Macro ''zero'' [P_st] (SKM_sk_zero ''X509_PURPOSE'' P_st),
      Macro ''push'' [P_st, P_val] (SKM_sk_push ''X509_PURPOSE'' P_st P_val),
      Macro ''unshift'' [P_st, P_val] (SKM_sk_unshift ''X509_PURPOSE'' P_st P_val),
      Macro ''find'' [P_st, P_val] (SKM_sk_find ''X509_PURPOSE'' P_st P_val),
      Macro ''find_ex'' [P_st, P_val] (SKM_sk_find_ex ''X509_PURPOSE'' P_st P_val),
      Macro ''delete'' [P_st, P_i] (SKM_sk_delete ''X509_PURPOSE'' P_st P_i),
      Macro ''delete_ptr'' [P_st, P_ptr] (SKM_sk_delete_ptr ''X509_PURPOSE'' P_st P_ptr),
      Macro ''insert'' [P_st, P_val, P_i] (SKM_sk_insert ''X509_PURPOSE'' P_st P_val P_i),
      Macro ''set_cmp_func'' [P_st, P_cmp] (SKM_sk_set_cmp_func ''X509_PURPOSE'' P_st P_cmp),
      Macro ''dup'' [P_st] (SKM_sk_dup ''X509_PURPOSE'' P_st),
      Macro ''pop_free'' [P_st, P_free_func] (SKM_sk_pop_free ''X509_PURPOSE'' P_st P_free_func),
      Macro ''shift'' [P_st] (SKM_sk_shift ''X509_PURPOSE'' P_st),
      Macro ''pop'' [P_st] (SKM_sk_pop ''X509_PURPOSE'' P_st),
      Macro ''sort'' [P_st] (SKM_sk_sort ''X509_PURPOSE'' P_st),
      Macro ''is_sorted'' [P_st] (SKM_sk_is_sorted ''X509_PURPOSE'' P_st)]"

definition sk_X509_REVOKED :: "macro_def list" where
  "sk_X509_REVOKED =
     [Macro ''new'' [P_cmp] (SKM_sk_new ''X509_REVOKED'' P_cmp),
      Macro ''new_null'' [] (SKM_sk_new_null ''X509_REVOKED''),
      Macro ''free'' [P_st] (SKM_sk_free ''X509_REVOKED'' P_st),
      Macro ''num'' [P_st] (SKM_sk_num ''X509_REVOKED'' P_st),
      Macro ''value'' [P_st, P_i] (SKM_sk_value ''X509_REVOKED'' P_st P_i),
      Macro ''set'' [P_st, P_i, P_val] (SKM_sk_set ''X509_REVOKED'' P_st P_i P_val),
      Macro ''zero'' [P_st] (SKM_sk_zero ''X509_REVOKED'' P_st),
      Macro ''push'' [P_st, P_val] (SKM_sk_push ''X509_REVOKED'' P_st P_val),
      Macro ''unshift'' [P_st, P_val] (SKM_sk_unshift ''X509_REVOKED'' P_st P_val),
      Macro ''find'' [P_st, P_val] (SKM_sk_find ''X509_REVOKED'' P_st P_val),
      Macro ''find_ex'' [P_st, P_val] (SKM_sk_find_ex ''X509_REVOKED'' P_st P_val),
      Macro ''delete'' [P_st, P_i] (SKM_sk_delete ''X509_REVOKED'' P_st P_i),
      Macro ''delete_ptr'' [P_st, P_ptr] (SKM_sk_delete_ptr ''X509_REVOKED'' P_st P_ptr),
      Macro ''insert'' [P_st, P_val, P_i] (SKM_sk_insert ''X509_REVOKED'' P_st P_val P_i),
      Macro ''set_cmp_func'' [P_st, P_cmp] (SKM_sk_set_cmp_func ''X509_REVOKED'' P_st P_cmp),
      Macro ''dup'' [P_st] (SKM_sk_dup ''X509_REVOKED'' P_st),
      Macro ''pop_free'' [P_st, P_free_func] (SKM_sk_pop_free ''X509_REVOKED'' P_st P_free_func),
      Macro ''shift'' [P_st] (SKM_sk_shift ''X509_REVOKED'' P_st),
      Macro ''pop'' [P_st] (SKM_sk_pop ''X509_REVOKED'' P_st),
      Macro ''sort'' [P_st] (SKM_sk_sort ''X509_REVOKED'' P_st),
      Macro ''is_sorted'' [P_st] (SKM_sk_is_sorted ''X509_REVOKED'' P_st)]"

definition sk_X509_TRUST :: "macro_def list" where
  "sk_X509_TRUST =
     [Macro ''new'' [P_cmp] (SKM_sk_new ''X509_TRUST'' P_cmp),
      Macro ''new_null'' [] (SKM_sk_new_null ''X509_TRUST''),
      Macro ''free'' [P_st] (SKM_sk_free ''X509_TRUST'' P_st),
      Macro ''num'' [P_st] (SKM_sk_num ''X509_TRUST'' P_st),
      Macro ''value'' [P_st, P_i] (SKM_sk_value ''X509_TRUST'' P_st P_i),
      Macro ''set'' [P_st, P_i, P_val] (SKM_sk_set ''X509_TRUST'' P_st P_i P_val),
      Macro ''zero'' [P_st] (SKM_sk_zero ''X509_TRUST'' P_st),
      Macro ''push'' [P_st, P_val] (SKM_sk_push ''X509_TRUST'' P_st P_val),
      Macro ''unshift'' [P_st, P_val] (SKM_sk_unshift ''X509_TRUST'' P_st P_val),
      Macro ''find'' [P_st, P_val] (SKM_sk_find ''X509_TRUST'' P_st P_val),
      Macro ''find_ex'' [P_st, P_val] (SKM_sk_find_ex ''X509_TRUST'' P_st P_val),
      Macro ''delete'' [P_st, P_i] (SKM_sk_delete ''X509_TRUST'' P_st P_i),
      Macro ''delete_ptr'' [P_st, P_ptr] (SKM_sk_delete_ptr ''X509_TRUST'' P_st P_ptr),
      Macro ''insert'' [P_st, P_val, P_i] (SKM_sk_insert ''X509_TRUST'' P_st P_val P_i),
      Macro ''set_cmp_func'' [P_st, P_cmp] (SKM_sk_set_cmp_func ''X509_TRUST'' P_st P_cmp),
      Macro ''dup'' [P_st] (SKM_sk_dup ''X509_TRUST'' P_st),
      Macro ''pop_free'' [P_st, P_free_func] (SKM_sk_pop_free ''X509_TRUST'' P_st P_free_func),
      Macro ''shift'' [P_st] (SKM_sk_shift ''X509_TRUST'' P_st),
      Macro ''pop'' [P_st] (SKM_sk_pop ''X509_TRUST'' P_st),
      Macro ''sort'' [P_st] (SKM_sk_sort ''X509_TRUST'' P_st),
      Macro ''is_sorted'' [P_st] (SKM_sk_is_sorted ''X509_TRUST'' P_st)]"

definition sk_X509_VERIFY_PARAM :: "macro_def list" where
  "sk_X509_VERIFY_PARAM =
     [Macro ''new'' [P_cmp] (SKM_sk_new ''X509_VERIFY_PARAM'' P_cmp),
      Macro ''new_null'' [] (SKM_sk_new_null ''X509_VERIFY_PARAM''),
      Macro ''free'' [P_st] (SKM_sk_free ''X509_VERIFY_PARAM'' P_st),
      Macro ''num'' [P_st] (SKM_sk_num ''X509_VERIFY_PARAM'' P_st),
      Macro ''value'' [P_st, P_i] (SKM_sk_value ''X509_VERIFY_PARAM'' P_st P_i),
      Macro ''set'' [P_st, P_i, P_val] (SKM_sk_set ''X509_VERIFY_PARAM'' P_st P_i P_val),
      Macro ''zero'' [P_st] (SKM_sk_zero ''X509_VERIFY_PARAM'' P_st),
      Macro ''push'' [P_st, P_val] (SKM_sk_push ''X509_VERIFY_PARAM'' P_st P_val),
      Macro ''unshift'' [P_st, P_val] (SKM_sk_unshift ''X509_VERIFY_PARAM'' P_st P_val),
      Macro ''find'' [P_st, P_val] (SKM_sk_find ''X509_VERIFY_PARAM'' P_st P_val),
      Macro ''find_ex'' [P_st, P_val] (SKM_sk_find_ex ''X509_VERIFY_PARAM'' P_st P_val),
      Macro ''delete'' [P_st, P_i] (SKM_sk_delete ''X509_VERIFY_PARAM'' P_st P_i),
      Macro ''delete_ptr'' [P_st, P_ptr] (SKM_sk_delete_ptr ''X509_VERIFY_PARAM'' P_st P_ptr),
      Macro ''insert'' [P_st, P_val, P_i] (SKM_sk_insert ''X509_VERIFY_PARAM'' P_st P_val P_i),
      Macro ''set_cmp_func'' [P_st, P_cmp] (SKM_sk_set_cmp_func ''X509_VERIFY_PARAM'' P_st P_cmp),
      Macro ''dup'' [P_st] (SKM_sk_dup ''X509_VERIFY_PARAM'' P_st),
      Macro ''pop_free'' [P_st, P_free_func] (SKM_sk_pop_free ''X509_VERIFY_PARAM'' P_st P_free_func),
      Macro ''shift'' [P_st] (SKM_sk_shift ''X509_VERIFY_PARAM'' P_st),
      Macro ''pop'' [P_st] (SKM_sk_pop ''X509_VERIFY_PARAM'' P_st),
      Macro ''sort'' [P_st] (SKM_sk_sort ''X509_VERIFY_PARAM'' P_st),
      Macro ''is_sorted'' [P_st] (SKM_sk_is_sorted ''X509_VERIFY_PARAM'' P_st)]"

definition sk_nid_triple :: "macro_def list" where
  "sk_nid_triple =
     [Macro ''new'' [P_cmp] (SKM_sk_new ''nid_triple'' P_cmp),
      Macro ''new_null'' [] (SKM_sk_new_null ''nid_triple''),
      Macro ''free'' [P_st] (SKM_sk_free ''nid_triple'' P_st),
      Macro ''num'' [P_st] (SKM_sk_num ''nid_triple'' P_st),
      Macro ''value'' [P_st, P_i] (SKM_sk_value ''nid_triple'' P_st P_i),
      Macro ''set'' [P_st, P_i, P_val] (SKM_sk_set ''nid_triple'' P_st P_i P_val),
      Macro ''zero'' [P_st] (SKM_sk_zero ''nid_triple'' P_st),
      Macro ''push'' [P_st, P_val] (SKM_sk_push ''nid_triple'' P_st P_val),
      Macro ''unshift'' [P_st, P_val] (SKM_sk_unshift ''nid_triple'' P_st P_val),
      Macro ''find'' [P_st, P_val] (SKM_sk_find ''nid_triple'' P_st P_val),
      Macro ''find_ex'' [P_st, P_val] (SKM_sk_find_ex ''nid_triple'' P_st P_val),
      Macro ''delete'' [P_st, P_i] (SKM_sk_delete ''nid_triple'' P_st P_i),
      Macro ''delete_ptr'' [P_st, P_ptr] (SKM_sk_delete_ptr ''nid_triple'' P_st P_ptr),
      Macro ''insert'' [P_st, P_val, P_i] (SKM_sk_insert ''nid_triple'' P_st P_val P_i),
      Macro ''set_cmp_func'' [P_st, P_cmp] (SKM_sk_set_cmp_func ''nid_triple'' P_st P_cmp),
      Macro ''dup'' [P_st] (SKM_sk_dup ''nid_triple'' P_st),
      Macro ''pop_free'' [P_st, P_free_func] (SKM_sk_pop_free ''nid_triple'' P_st P_free_func),
      Macro ''shift'' [P_st] (SKM_sk_shift ''nid_triple'' P_st),
      Macro ''pop'' [P_st] (SKM_sk_pop ''nid_triple'' P_st),
      Macro ''sort'' [P_st] (SKM_sk_sort ''nid_triple'' P_st),
      Macro ''is_sorted'' [P_st] (SKM_sk_is_sorted ''nid_triple'' P_st)]"

definition sk_void :: "macro_def list" where
  "sk_void =
     [Macro ''new'' [P_cmp] (SKM_sk_new ''void'' P_cmp),
      Macro ''new_null'' [] (SKM_sk_new_null ''void''),
      Macro ''free'' [P_st] (SKM_sk_free ''void'' P_st),
      Macro ''num'' [P_st] (SKM_sk_num ''void'' P_st),
      Macro ''value'' [P_st, P_i] (SKM_sk_value ''void'' P_st P_i),
      Macro ''set'' [P_st, P_i, P_val] (SKM_sk_set ''void'' P_st P_i P_val),
      Macro ''zero'' [P_st] (SKM_sk_zero ''void'' P_st),
      Macro ''push'' [P_st, P_val] (SKM_sk_push ''void'' P_st P_val),
      Macro ''unshift'' [P_st, P_val] (SKM_sk_unshift ''void'' P_st P_val),
      Macro ''find'' [P_st, P_val] (SKM_sk_find ''void'' P_st P_val),
      Macro ''find_ex'' [P_st, P_val] (SKM_sk_find_ex ''void'' P_st P_val),
      Macro ''delete'' [P_st, P_i] (SKM_sk_delete ''void'' P_st P_i),
      Macro ''delete_ptr'' [P_st, P_ptr] (SKM_sk_delete_ptr ''void'' P_st P_ptr),
      Macro ''insert'' [P_st, P_val, P_i] (SKM_sk_insert ''void'' P_st P_val P_i),
      Macro ''set_cmp_func'' [P_st, P_cmp] (SKM_sk_set_cmp_func ''void'' P_st P_cmp),
      Macro ''dup'' [P_st] (SKM_sk_dup ''void'' P_st),
      Macro ''pop_free'' [P_st, P_free_func] (SKM_sk_pop_free ''void'' P_st P_free_func),
      Macro ''shift'' [P_st] (SKM_sk_shift ''void'' P_st),
      Macro ''pop'' [P_st] (SKM_sk_pop ''void'' P_st),
      Macro ''sort'' [P_st] (SKM_sk_sort ''void'' P_st),
      Macro ''is_sorted'' [P_st] (SKM_sk_is_sorted ''void'' P_st)]"

lemmas stack_defs_3 =
  sk_SRP_gN_cache_def sk_SRP_user_pwd_def sk_SRTP_PROTECTION_PROFILE_def sk_SSL_CIPHER_def sk_SSL_COMP_def
  sk_STACK_OF_X509_NAME_ENTRY_def sk_STORE_ATTR_INFO_def sk_STORE_OBJECT_def sk_SXNETID_def sk_UI_STRING_def
  sk_X509_def sk_X509V3_EXT_METHOD_def sk_X509_ALGOR_def sk_X509_ATTRIBUTE_def sk_X509_CRL_def
  sk_X509_EXTENSION_def sk_X509_INFO_def sk_X509_LOOKUP_def sk_X509_NAME_def sk_X509_NAME_ENTRY_def
  sk_X509_OBJECT_def sk_X509_POLICY_DATA_def sk_X509_POLICY_NODE_def sk_X509_PURPOSE_def sk_X509_REVOKED_def
  sk_X509_TRUST_def sk_X509_VERIFY_PARAM_def sk_nid_triple_def sk_void_def

definition plain_stacks_3 :: "(string \<times> macro_def list) list" where
  "plain_stacks_3 =
     [(''SRP_gN_cache'', sk_SRP_gN_cache), (''SRP_user_pwd'', sk_SRP_user_pwd),
      (''SRTP_PROTECTION_PROFILE'', sk_SRTP_PROTECTION_PROFILE), (''SSL_CIPHER'', sk_SSL_CIPHER),
      (''SSL_COMP'', sk_SSL_COMP), (''STACK_OF_X509_NAME_ENTRY'', sk_STACK_OF_X509_NAME_ENTRY),
      (''STORE_ATTR_INFO'', sk_STORE_ATTR_INFO), (''STORE_OBJECT'', sk_STORE_OBJECT), (''SXNETID'', sk_SXNETID),
      (''UI_STRING'', sk_UI_STRING), (''X509'', sk_X509), (''X509V3_EXT_METHOD'', sk_X509V3_EXT_METHOD),
      (''X509_ALGOR'', sk_X509_ALGOR), (''X509_ATTRIBUTE'', sk_X509_ATTRIBUTE), (''X509_CRL'', sk_X509_CRL),
      (''X509_EXTENSION'', sk_X509_EXTENSION), (''X509_INFO'', sk_X509_INFO), (''X509_LOOKUP'', sk_X509_LOOKUP),
      (''X509_NAME'', sk_X509_NAME), (''X509_NAME_ENTRY'', sk_X509_NAME_ENTRY), (''X509_OBJECT'', sk_X509_OBJECT),
      (''X509_POLICY_DATA'', sk_X509_POLICY_DATA), (''X509_POLICY_NODE'', sk_X509_POLICY_NODE),
      (''X509_PURPOSE'', sk_X509_PURPOSE), (''X509_REVOKED'', sk_X509_REVOKED), (''X509_TRUST'', sk_X509_TRUST),
      (''X509_VERIFY_PARAM'', sk_X509_VERIFY_PARAM), (''nid_triple'', sk_nid_triple), (''void'', sk_void)]"

end
