(* ===== verification/Container_Tables.thy ===== *)
theory Container_Tables
  imports Typed_Macros
begin

text \<open>
  The remaining macros of \<open>safestack.h\<close>: the stacks whose elements are pointers by a type definition, the
  sets of ASN.1 values, the two decoders of PKCS12, and the hashes.
\<close>

section \<open>Special stacks\<close>

definition sk_OPENSSL_STRING :: "macro_def list" where
  "sk_OPENSSL_STRING =
     [Macro ''new'' [P_cmp] (Call (ToStack ''OPENSSL_STRING'') ''sk_new'' [CmpFunc ''char'' P_cmp]),
      Macro ''new_null'' [] (Call (ToStack ''OPENSSL_STRING'') ''sk_new_null'' []),
      Macro ''push'' [P_st, P_val] (Call NoCast ''sk_push'' [StackOf ''OPENSSL_STRING'' P_st, PtrOf ''char'' P_val]),
      Macro ''find'' [P_st, P_val] (Call NoCast ''sk_find'' [StackOf ''OPENSSL_STRING'' P_st, PtrOf ''char'' P_val]),
      Macro ''value'' [P_st, P_i] (Call (ToType ''OPENSSL_STRING'') ''sk_value'' [StackOf ''OPENSSL_STRING'' P_st, Raw P_i]),
      Macro ''num'' [P_st] (SKM_sk_num ''OPENSSL_STRING'' P_st),
      Macro ''pop_free'' [P_st, P_free_func] (Call NoCast ''sk_pop_free'' [StackOf ''OPENSSL_STRING'' P_st, FreeFunc2 ''OPENSSL_STRING'' P_free_func]),
      Macro ''insert'' [P_st, P_val, P_i] (Call NoCast ''sk_insert'' [StackOf ''OPENSSL_STRING'' P_st, PtrOf ''char'' P_val, Raw P_i]),
      Macro ''free'' [P_st] (SKM_sk_free ''OPENSSL_STRING'' P_st),
      Macro ''set'' [P_st, P_i, P_val] (Call NoCast ''sk_set'' [StackOf ''OPENSSL_STRING'' P_st, Raw P_i, PtrOf ''char'' P_val]),
      Macro ''zero'' [P_st] (SKM_sk_zero ''OPENSSL_STRING'' P_st),
      Macro ''unshift'' [P_st, P_val] (Call NoCast ''sk_unshift'' [StackOf ''OPENSSL_STRING'' P_st, PtrOf ''char'' P_val]),
      Macro ''find_ex'' [P_st, P_val] (Call NoCast ''sk_find_ex'' [ConstStackOf ''OPENSSL_STRING'' P_st, ConstPtrOf ''char'' P_val]),
      Macro ''delete'' [P_st, P_i] (SKM_sk_delete ''OPENSSL_STRING'' P_st P_i),
      Macro ''delete_ptr'' [P_st, P_ptr] (Call (ToPtr ''OPENSSL_STRING'') ''sk_delete_ptr'' [StackOf ''OPENSSL_STRING'' P_st, PtrOf ''char'' P_ptr]),
      Macro ''set_cmp_func'' [P_st, P_cmp] (Call (ToCmp ''char'') ''sk_set_cmp_func'' [StackOf ''OPENSSL_STRING'' P_st, CmpFunc ''char'' P_cmp]),
      Macro ''dup'' [P_st] (SKM_sk_dup ''OPENSSL_STRING'' P_st),
      Macro ''shift'' [P_st] (SKM_sk_shift ''OPENSSL_STRING'' P_st),
      Macro ''pop'' [P_st] (Call (ToPtr ''char'') ''sk_pop'' [StackOf ''OPENSSL_STRING'' P_st]),
      Macro ''sort'' [P_st] (SKM_sk_sort ''OPENSSL_STRING'' P_st),
      Macro ''is_sorted'' [P_st] (SKM_sk_is_sorted ''OPENSSL_STRING'' P_st)]"

definition sk_OPENSSL_BLOCK :: "macro_def list" where
  "sk_OPENSSL_BLOCK =
     [Macro ''new'' [P_cmp] (Call (ToStack ''OPENSSL_BLOCK'') ''sk_new'' [CmpFunc ''void'' P_cmp]),
      Macro ''new_null'' [] (Call (ToStack ''OPENSSL_BLOCK'') ''sk_new_null'' []),
      Macro ''push'' [P_st, P_val] (Call NoCast ''sk_push'' [StackOf ''OPENSSL_BLOCK'' P_st, PtrOf ''void'' P_val]),
      Macro ''find'' [P_st, P_val] (Call NoCast ''sk_find'' [StackOf ''OPENSSL_BLOCK'' P_st, PtrOf ''void'' P_val]),
      Macro ''value'' [P_st, P_i] (Call (ToType ''OPENSSL_BLOCK'') ''sk_value'' [StackOf ''OPENSSL_BLOCK'' P_st, Raw P_i]),
      Macro ''num'' [P_st] (SKM_sk_num ''OPENSSL_BLOCK'' P_st),
      Macro ''pop_free'' [P_st, P_free_func] (Call NoCast ''sk_pop_free'' [StackOf ''OPENSSL_BLOCK'' P_st, FreeFunc2 ''OPENSSL_BLOCK'' P_free_func]),
      Macro ''insert'' [P_st, P_val, P_i] (Call NoCast ''sk_insert'' [StackOf ''OPENSSL_BLOCK'' P_st, PtrOf ''void'' P_val, Raw P_i]),
      Macro ''free'' [P_st] (SKM_sk_free ''OPENSSL_BLOCK'' P_st),
      Macro ''set'' [P_st, P_i, P_val] (Call NoCast ''sk_set'' [StackOf ''OPENSSL_BLOCK'' P_st, Raw P_i, PtrOf ''void'' P_val]),
      Macro ''zero'' [P_st] (SKM_sk_zero ''OPENSSL_BLOCK'' P_st),
      Macro ''unshift'' [P_st, P_val] (Call NoCast ''sk_unshift'' [StackOf ''OPENSSL_BLOCK'' P_st, PtrOf ''void'' P_val]),
      Macro ''find_ex'' [P_st, P_val] (Call NoCast ''sk_find_ex'' [ConstStackOf ''OPENSSL_BLOCK'' P_st, ConstPtrOf ''void'' P_val]),
      Macro ''delete'' [P_st, P_i] (SKM_sk_delete ''OPENSSL_BLOCK'' P_st P_i),
      Macro ''delete_ptr'' [P_st, P_ptr] (Call (ToPtr ''OPENSSL_BLOCK'') ''sk_delete_ptr'' [StackOf ''OPENSSL_BLOCK'' P_st, PtrOf ''void'' P_ptr]),
      Macro ''set_cmp_func'' [P_st, P_cmp] (Call (ToCmp ''void'') ''sk_set_cmp_func'' [StackOf ''OPENSSL_BLOCK'' P_st, CmpFunc ''void'' P_cmp]),
      Macro ''dup'' [P_st] (SKM_sk_dup ''OPENSSL_BLOCK'' P_st),
      Macro ''shift'' [P_st] (SKM_sk_shift ''OPENSSL_BLOCK'' P_st),
      Macro ''pop'' [P_st] (Call (ToPtr ''void'') ''sk_pop'' [StackOf ''OPENSSL_BLOCK'' P_st]),
      Macro ''sort'' [P_st] (SKM_sk_sort ''OPENSSL_BLOCK'' P_st),
      Macro ''is_sorted'' [P_st] (SKM_sk_is_sorted ''OPENSSL_BLOCK'' P_st)]"

definition sk_OPENSSL_PSTRING :: "macro_def list" where
  "sk_OPENSSL_PSTRING =
     [Macro ''new'' [P_cmp] (Call (ToStack ''OPENSSL_PSTRING'') ''sk_new'' [CmpFunc ''OPENSSL_STRING'' P_cmp]),
      Macro ''new_null'' [] (Call (ToStack ''OPENSSL_PSTRING'') ''sk_new_null'' []),
      Macro ''push'' [P_st, P_val] (Call NoCast ''sk_push'' [StackOf ''OPENSSL_PSTRING'' P_st, PtrOf ''OPENSSL_STRING'' P_val]),
      Macro ''find'' [P_st, P_val] (Call NoCast ''sk_find'' [StackOf ''OPENSSL_PSTRING'' P_st, PtrOf ''OPENSSL_STRING'' P_val]),
      Macro ''value'' [P_st, P_i] (Call (ToType ''OPENSSL_PSTRING'') ''sk_value'' [StackOf ''OPENSSL_PSTRING'' P_st, Raw P_i]),
      Macro ''num'' [P_st] (SKM_sk_num ''OPENSSL_PSTRING'' P_st),
      Macro ''pop_free'' [P_st, P_free_func] (Call NoCast ''sk_pop_free'' [StackOf ''OPENSSL_PSTRING'' P_st, FreeFunc2 ''OPENSSL_PSTRING'' P_free_func]),
      Macro ''insert'' [P_st, P_val, P_i] (Call NoCast ''sk_insert'' [StackOf ''OPENSSL_PSTRING'' P_st, PtrOf ''OPENSSL_STRING'' P_val, Raw P_i]),
      Macro ''free'' [P_st] (SKM_sk_free ''OPENSSL_PSTRING'' P_st),
      Macro ''set'' [P_st, P_i, P_val] (Call NoCast ''sk_set'' [StackOf ''OPENSSL_PSTRING'' P_st, Raw P_i, PtrOf ''OPENSSL_STRING'' P_val]),
      Macro ''zero'' [P_st] (SKM_sk_zero ''OPENSSL_PSTRING'' P_st),
      Macro ''unshift'' [P_st, P_val] (Call NoCast ''sk_unshift'' [StackOf ''OPENSSL_PSTRING'' P_st, PtrOf ''OPENSSL_STRING'' P_val]),
      Macro ''find_ex'' [P_st, P_val] (Call NoCast ''sk_find_ex'' [ConstStackOf ''OPENSSL_PSTRING'' P_st, ConstPtrOf ''OPENSSL_STRING'' P_val]),
      Macro ''delete'' [P_st, P_i] (SKM_sk_delete ''OPENSSL_PSTRING'' P_st P_i),
      Macro ''delete_ptr'' [P_st, P_ptr] (Call (ToPtr ''OPENSSL_PSTRING'') ''sk_delete_ptr'' [StackOf ''OPENSSL_PSTRING'' P_st, PtrOf ''OPENSSL_STRING'' P_ptr]),
      Macro ''set_cmp_func'' [P_st, P_cmp] (Call (ToCmp ''OPENSSL_STRING'') ''sk_set_cmp_func'' [StackOf ''OPENSSL_PSTRING'' P_st, CmpFunc ''OPENSSL_STRING'' P_cmp]),
      Macro ''dup'' [P_st] (SKM_sk_dup ''OPENSSL_PSTRING'' P_st),
      Macro ''shift'' [P_st] (SKM_sk_shift ''OPENSSL_PSTRING'' P_st),
      Macro ''pop'' [P_st] (Call (ToPtr ''OPENSSL_STRING'') ''sk_pop'' [StackOf ''OPENSSL_PSTRING'' P_st]),
      Macro ''sort'' [P_st] (SKM_sk_sort ''OPENSSL_PSTRING'' P_st),
      Macro ''is_sorted'' [P_st] (SKM_sk_is_sorted ''OPENSSL_PSTRING'' P_st)]"

lemmas special_stack_defs = sk_OPENSSL_STRING_def sk_OPENSSL_BLOCK_def sk_OPENSSL_PSTRING_def

definition special_stack_tables :: "(string \<times> macro_def list) list" where
  "special_stack_tables =
     [(''OPENSSL_STRING'', sk_OPENSSL_STRING), (''OPENSSL_BLOCK'', sk_OPENSSL_BLOCK), (''OPENSSL_PSTRING'', sk_OPENSSL_PSTRING)]"

section \<open>Sets\<close>

definition asn1_set_ACCESS_DESCRIPTION :: "macro_def list" where
  "asn1_set_ACCESS_DESCRIPTION =
     [Macro ''d2i_ASN1_SET_OF'' [P_st, P_pp, P_length, P_d2i_func, P_free_func, P_ex_tag, P_ex_class] (SKM_ASN1_SET_OF_d2i ''ACCESS_DESCRIPTION'' P_st P_pp P_length P_d2i_func P_free_func P_ex_tag P_ex_class),
      Macro ''i2d_ASN1_SET_OF'' [P_st, P_pp, P_i2d_func, P_ex_tag, P_ex_class, P_is_set] (SKM_ASN1_SET_OF_i2d ''ACCESS_DESCRIPTION'' P_st P_pp P_i2d_func P_ex_tag P_ex_class P_is_set),
      Macro ''ASN1_seq_pack'' [P_st, P_i2d_func, P_buf, P_len] (SKM_ASN1_seq_pack ''ACCESS_DESCRIPTION'' P_st P_i2d_func P_buf P_len),
      Macro ''ASN1_seq_unpack'' [P_buf, P_len, P_d2i_func, P_free_func] (SKM_ASN1_seq_unpack ''ACCESS_DESCRIPTION'' P_buf P_len P_d2i_func P_free_func)]"

definition asn1_set_ASN1_INTEGER :: "macro_def list" where
  "asn1_set_ASN1_INTEGER =
     [Macro ''d2i_ASN1_SET_OF'' [P_st, P_pp, P_length, P_d2i_func, P_free_func, P_ex_tag, P_ex_class] (SKM_ASN1_SET_OF_d2i ''ASN1_INTEGER'' P_st P_pp P_length P_d2i_func P_free_func P_ex_tag P_ex_class),
      Macro ''i2d_ASN1_SET_OF'' [P_st, P_pp, P_i2d_func, P_ex_tag, P_ex_class, P_is_set] (SKM_ASN1_SET_OF_i2d ''ASN1_INTEGER'' P_st P_pp P_i2d_func P_ex_tag P_ex_class P_is_set),
      Macro ''ASN1_seq_pack'' [P_st, P_i2d_func, P_buf, P_len] (SKM_ASN1_seq_pack ''ASN1_INTEGER'' P_st P_i2d_func P_buf P_len),
      Macro ''ASN1_seq_unpack'' [P_buf, P_len, P_d2i_func, P_free_func] (SKM_ASN1_seq_unpack ''ASN1_INTEGER'' P_buf P_len P_d2i_func P_free_func)]"

definition asn1_set_ASN1_OBJECT :: "macro_def list" where
  "asn1_set_ASN1_OBJECT =
     [Macro ''d2i_ASN1_SET_OF'' [P_st, P_pp, P_length, P_d2i_func, P_free_func, P_ex_tag, P_ex_class] (SKM_ASN1_SET_OF_d2i ''ASN1_OBJECT'' P_st P_pp P_length P_d2i_func P_free_func P_ex_tag P_ex_class),
      Macro ''i2d_ASN1_SET_OF'' [P_st, P_pp, P_i2d_func, P_ex_tag, P_ex_class, P_is_set] (SKM_ASN1_SET_OF_i2d ''ASN1_OBJECT'' P_st P_pp P_i2d_func P_ex_tag P_ex_class P_is_set),
      Macro ''ASN1_seq_pack'' [P_st, P_i2d_func, P_buf, P_len] (SKM_ASN1_seq_pack ''ASN1_OBJECT'' P_st P_i2d_func P_buf P_len),
      Macro ''ASN1_seq_unpack'' [P_buf, P_len, P_d2i_func, P_free_func] (SKM_ASN1_seq_unpack ''ASN1_OBJECT'' P_buf P_len P_d2i_func P_free_func)]"

definition asn1_set_ASN1_TYPE :: "macro_def list" where
  "asn1_set_ASN1_TYPE =
     [Macro ''d2i_ASN1_SET_OF'' [P_st, P_pp, P_length, P_d2i_func, P_free_func, P_ex_tag, P_ex_class] (SKM_ASN1_SET_OF_d2i ''ASN1_TYPE'' P_st P_pp P_length P_d2i_func P_free_func P_ex_tag P_ex_class),
      Macro ''i2d_ASN1_SET_OF'' [P_st, P_pp, P_i2d_func, P_ex_tag, P_ex_class, P_is_set] (SKM_ASN1_SET_OF_i2d ''ASN1_TYPE'' P_st P_pp P_i2d_func P_ex_tag P_ex_class P_is_set),
      Macro ''ASN1_seq_pack'' [P_st, P_i2d_func, P_buf, P_len] (SKM_ASN1_seq_pack ''ASN1_TYPE'' P_st P_i2d_func P_buf P_len),
      Macro ''ASN1_seq_unpack'' [P_buf, P_len, P_d2i_func, P_free_func] (SKM_ASN1_seq_unpack ''ASN1_TYPE'' P_buf P_len P_d2i_func P_free_func)]"

definition asn1_set_ASN1_UTF8STRING :: "macro_def list" where
  "asn1_set_ASN1_UTF8STRING =
     [Macro ''d2i_ASN1_SET_OF'' [P_st, P_pp, P_length, P_d2i_func, P_free_func, P_ex_tag, P_ex_class] (SKM_ASN1_SET_OF_d2i ''ASN1_UTF8STRING'' P_st P_pp P_length P_d2i_func P_free_func P_ex_tag P_ex_class),
      Macro ''i2d_ASN1_SET_OF'' [P_st, P_pp, P_i2d_func, P_ex_tag, P_ex_class, P_is_set] (SKM_ASN1_SET_OF_i2d ''ASN1_UTF8STRING'' P_st P_pp P_i2d_func P_ex_tag P_ex_class P_is_set),
      Macro ''ASN1_seq_pack'' [P_st, P_i2d_func, P_buf, P_len] (SKM_ASN1_seq_pack ''ASN1_UTF8STRING'' P_st P_i2d_func P_buf P_len),
      Macro ''ASN1_seq_unpack'' [P_buf, P_len, P_d2i_func, P_free_func] (SKM_ASN1_seq_unpack ''ASN1_UTF8STRING'' P_buf P_len P_d2i_func P_free_func)]"

definition asn1_set_DIST_POINT :: "macro_def list" where
  "asn1_set_DIST_POINT =
     [Macro ''d2i_ASN1_SET_OF'' [P_st, P_pp, P_length, P_d2i_func, P_free_func, P_ex_tag, P_ex_class] (SKM_ASN1_SET_OF_d2i ''DIST_POINT'' P_st P_pp P_length P_d2i_func P_free_func P_ex_tag P_ex_class),
      Macro ''i2d_ASN1_SET_OF'' [P_st, P_pp, P_i2d_func, P_ex_tag, P_ex_class, P_is_set] (SKM_ASN1_SET_OF_i2d ''DIST_POINT'' P_st P_pp P_i2d_func P_ex_tag P_ex_class P_is_set),
      Macro ''ASN1_seq_pack'' [P_st, P_i2d_func, P_buf, P_len] (SKM_ASN1_seq_pack ''DIST_POINT'' P_st P_i2d_func P_buf P_len),
      Macro ''ASN1_seq_unpack'' [P_buf, P_len, P_d2i_func, P_free_func] (SKM_ASN1_seq_unpack ''DIST_POINT'' P_buf P_len P_d2i_func P_free_func)]"

definition asn1_set_ESS_CERT_ID :: "macro_def list" where
  "asn1_set_ESS_CERT_ID =
     [Macro ''d2i_ASN1_SET_OF'' [P_st, P_pp, P_length, P_d2i_func, P_free_func, P_ex_tag, P_ex_class] (SKM_ASN1_SET_OF_d2i ''ESS_CERT_ID'' P_st P_pp P_length P_d2i_func P_free_func P_ex_tag P_ex_class),
      Macro ''i2d_ASN1_SET_OF'' [P_st, P_pp, P_i2d_func, P_ex_tag, P_ex_class, P_is_set] (SKM_ASN1_SET_OF_i2d ''ESS_CERT_ID'' P_st P_pp P_i2d_func P_ex_tag P_ex_class P_is_set),
      Macro ''ASN1_seq_pack'' [P_st, P_i2d_func, P_buf, P_len] (SKM_ASN1_seq_pack ''ESS_CERT_ID'' P_st P_i2d_func P_buf P_len),
      Macro ''ASN1_seq_unpack'' [P_buf, P_len, P_d2i_func, P_free_func] (SKM_ASN1_seq_unpack ''ESS_CERT_ID'' P_buf P_len P_d2i_func P_free_func)]"

definition asn1_set_EVP_MD :: "macro_def list" where
  "asn1_set_EVP_MD =
     [Macro ''d2i_ASN1_SET_OF'' [P_st, P_pp, P_length, P_d2i_func, P_free_func, P_ex_tag, P_ex_class] (SKM_ASN1_SET_OF_d2i ''EVP_MD'' P_st P_pp P_length P_d2i_func P_free_func P_ex_tag P_ex_class),
      Macro ''i2d_ASN1_SET_OF'' [P_st, P_pp, P_i2d_func, P_ex_tag, P_ex_class, P_is_set] (SKM_ASN1_SET_OF_i2d ''EVP_MD'' P_st P_pp P_i2d_func P_ex_tag P_ex_class P_is_set),
      Macro ''ASN1_seq_pack'' [P_st, P_i2d_func, P_buf, P_len] (SKM_ASN1_seq_pack ''EVP_MD'' P_st P_i2d_func P_buf P_len),
      Macro ''ASN1_seq_unpack'' [P_buf, P_len, P_d2i_func, P_free_func] (SKM_ASN1_seq_unpack ''EVP_MD'' P_buf P_len P_d2i_func P_free_func)]"

definition asn1_set_GENERAL_NAME :: "macro_def list" where
  "asn1_set_GENERAL_NAME =
     [Macro ''d2i_ASN1_SET_OF'' [P_st, P_pp, P_length, P_d2i_func, P_free_func, P_ex_tag, P_ex_class] (SKM_ASN1_SET_OF_d2i ''GENERAL_NAME'' P_st P_pp P_length P_d2i_func P_free_func P_ex_tag P_ex_class),
      Macro ''i2d_ASN1_SET_OF'' [P_st, P_pp, P_i2d_func, P_ex_tag, P_ex_class, P_is_set] (SKM_ASN1_SET_OF_i2d ''GENERAL_NAME'' P_st P_pp P_i2d_func P_ex_tag P_ex_class P_is_set),
      Macro ''ASN1_seq_pack'' [P_st, P_i2d_func, P_buf, P_len] (SKM_ASN1_seq_pack ''GENERAL_NAME'' P_st P_i2d_func P_buf P_len),
      Macro ''ASN1_seq_unpack'' [P_buf, P_len, P_d2i_func, P_free_func] (SKM_ASN1_seq_unpack ''GENERAL_NAME'' P_buf P_len P_d2i_func P_free_func)]"

definition asn1_set_OCSP_ONEREQ :: "macro_def list" where
  "asn1_set_OCSP_ONEREQ =
     [Macro ''d2i_ASN1_SET_OF'' [P_st, P_pp, P_length, P_d2i_func, P_free_func, P_ex_tag, P_ex_class] (SKM_ASN1_SET_OF_d2i ''OCSP_ONEREQ'' P_st P_pp P_length P_d2i_func P_free_func P_ex_tag P_ex_class),
      Macro ''i2d_ASN1_SET_OF'' [P_st, P_pp, P_i2d_func, P_ex_tag, P_ex_class, P_is_set] (SKM_ASN1_SET_OF_i2d ''OCSP_ONEREQ'' P_st P_pp P_i2d_func P_ex_tag P_ex_class P_is_set),
      Macro ''ASN1_seq_pack'' [P_st, P_i2d_func, P_buf, P_len] (SKM_ASN1_seq_pack ''OCSP_ONEREQ'' P_st P_i2d_func P_buf P_len),
      Macro ''ASN1_seq_unpack'' [P_buf, P_len, P_d2i_func, P_free_func] (SKM_ASN1_seq_unpack ''OCSP_ONEREQ'' P_buf P_len P_d2i_func P_free_func)]"

definition asn1_set_OCSP_SINGLERESP :: "macro_def list" where
  "asn1_set_OCSP_SINGLERESP =
     [Macro ''d2i_ASN1_SET_OF'' [P_st, P_pp, P_length, P_d2i_func, P_free_func, P_ex_tag, P_ex_class] (SKM_ASN1_SET_OF_d2i ''OCSP_SINGLERESP'' P_st P_pp P_length P_d2i_func P_free_func P_ex_tag P_ex_class),
      Macro ''i2d_ASN1_SET_OF'' [P_st, P_pp, P_i2d_func, P_ex_tag, P_ex_class, P_is_set] (SKM_ASN1_SET_OF_i2d ''OCSP_SINGLERESP'' P_st P_pp P_i2d_func P_ex_tag P_ex_class P_is_set),
      Macro ''ASN1_seq_pack'' [P_st, P_i2d_func, P_buf, P_len] (SKM_ASN1_seq_pack ''OCSP_SINGLERESP'' P_st P_i2d_func P_buf P_len),
      Macro ''ASN1_seq_unpack'' [P_buf, P_len, P_d2i_func, P_free_func] (SKM_ASN1_seq_unpack ''OCSP_SINGLERESP'' P_buf P_len P_d2i_func P_free_func)]"

definition asn1_set_PKCS12_SAFEBAG :: "macro_def list" where
  "asn1_set_PKCS12_SAFEBAG =
     [Macro ''d2i_ASN1_SET_OF'' [P_st, P_pp, P_length, P_d2i_func, P_free_func, P_ex_tag, P_ex_class] (SKM_ASN1_SET_OF_d2i ''PKCS12_SAFEBAG'' P_st P_pp P_length P_d2i_func P_free_func P_ex_tag P_ex_class),
      Macro ''i2d_ASN1_SET_OF'' [P_st, P_pp, P_i2d_func, P_ex_tag, P_ex_class, P_is_set] (SKM_ASN1_SET_OF_i2d ''PKCS12_SAFEBAG'' P_st P_pp P_i2d_func P_ex_tag P_ex_class P_is_set),
      Macro ''ASN1_seq_pack'' [P_st, P_i2d_func, P_buf, P_len] (SKM_ASN1_seq_pack ''PKCS12_SAFEBAG'' P_st P_i2d_func P_buf P_len),
      Macro ''ASN1_seq_unpack'' [P_buf, P_len, P_d2i_func, P_free_func] (SKM_ASN1_seq_unpack ''PKCS12_SAFEBAG'' P_buf P_len P_d2i_func P_free_func)]"

definition asn1_set_PKCS7 :: "macro_def list" where
  "asn1_set_PKCS7 =
     [Macro ''d2i_ASN1_SET_OF'' [P_st, P_pp, P_length, P_d2i_func, P_free_func, P_ex_tag, P_ex_class] (SKM_ASN1_SET_OF_d2i ''PKCS7'' P_st P_pp P_length P_d2i_func P_free_func P_ex_tag P_ex_class),
      Macro ''i2d_ASN1_SET_OF'' [P_st, P_pp, P_i2d_func, P_ex_tag, P_ex_class, P_is_set] (SKM_ASN1_SET_OF_i2d ''PKCS7'' P_st P_pp P_i2d_func P_ex_tag P_ex_class P_is_set),
      Macro ''ASN1_seq_pack'' [P_st, P_i2d_func, P_buf, P_len] (SKM_ASN1_seq_pack ''PKCS7'' P_st P_i2d_func P_buf P_len),
      Macro ''ASN1_seq_unpack'' [P_buf, P_len, P_d2i_func, P_free_func] (SKM_ASN1_seq_unpack ''PKCS7'' P_buf P_len P_d2i_func P_free_func)]"

definition asn1_set_PKCS7_RECIP_INFO :: "macro_def list" where
  "asn1_set_PKCS7_RECIP_INFO =
     [Macro ''d2i_ASN1_SET_OF'' [P_st, P_pp, P_length, P_d2i_func, P_free_func, P_ex_tag, P_ex_class] (SKM_ASN1_SET_OF_d2i ''PKCS7_RECIP_INFO'' P_st P_pp P_length P_d2i_func P_free_func P_ex_tag P_ex_class),
      Macro ''i2d_ASN1_SET_OF'' [P_st, P_pp, P_i2d_func, P_ex_tag, P_ex_class, P_is_set] (SKM_ASN1_SET_OF_i2d ''PKCS7_RECIP_INFO'' P_st P_pp P_i2d_func P_ex_tag P_ex_class P_is_set),
      Macro ''ASN1_seq_pack'' [P_st, P_i2d_func, P_buf, P_len] (SKM_ASN1_seq_pack ''PKCS7_RECIP_INFO'' P_st P_i2d_func P_buf P_len),
      Macro ''ASN1_seq_unpack'' [P_buf, P_len, P_d2i_func, P_free_func] (SKM_ASN1_seq_unpack ''PKCS7_RECIP_INFO'' P_buf P_len P_d2i_func P_free_func)]"

definition asn1_set_PKCS7_SIGNER_INFO :: "macro_def list" where
  "asn1_set_PKCS7_SIGNER_INFO =
     [Macro ''d2i_ASN1_SET_OF'' [P_st, P_pp, P_length, P_d2i_func, P_free_func, P_ex_tag, P_ex_class] (SKM_ASN1_SET_OF_d2i ''PKCS7_SIGNER_INFO'' P_st P_pp P_length P_d2i_func P_free_func P_ex_tag P_ex_class),
      Macro ''i2d_ASN1_SET_OF'' [P_st, P_pp, P_i2d_func, P_ex_tag, P_ex_class, P_is_set] (SKM_ASN1_SET_OF_i2d ''PKCS7_SIGNER_INFO'' P_st P_pp P_i2d_func P_ex_tag P_ex_class P_is_set),
      Macro ''ASN1_seq_pack'' [P_st, P_i2d_func, P_buf, P_len] (SKM_ASN1_seq_pack ''PKCS7_SIGNER_INFO'' P_st P_i2d_func P_buf P_len),
      Macro ''ASN1_seq_unpack'' [P_buf, P_len, P_d2i_func, P_free_func] (SKM_ASN1_seq_unpack ''PKCS7_SIGNER_INFO'' P_buf P_len P_d2i_func P_free_func)]"

definition asn1_set_POLICYINFO :: "macro_def list" where
  "asn1_set_POLICYINFO =
     [Macro ''d2i_ASN1_SET_OF'' [P_st, P_pp, P_length, P_d2i_func, P_free_func, P_ex_tag, P_ex_class] (SKM_ASN1_SET_OF_d2i ''POLICYINFO'' P_st P_pp P_length P_d2i_func P_free_func P_ex_tag P_ex_class),
      Macro ''i2d_ASN1_SET_OF'' [P_st, P_pp, P_i2d_func, P_ex_tag, P_ex_class, P_is_set] (SKM_ASN1_SET_OF_i2d ''POLICYINFO'' P_st P_pp P_i2d_func P_ex_tag P_ex_class P_is_set),
      Macro ''ASN1_seq_pack'' [P_st, P_i2d_func, P_buf, P_len] (SKM_ASN1_seq_pack ''POLICYINFO'' P_st P_i2d_func P_buf P_len),
      Macro ''ASN1_seq_unpack'' [P_buf, P_len, P_d2i_func, P_free_func] (SKM_ASN1_seq_unpack ''POLICYINFO'' P_buf P_len P_d2i_func P_free_func)]"

definition asn1_set_POLICYQUALINFO :: "macro_def list" where
  "asn1_set_POLICYQUALINFO =
     [Macro ''d2i_ASN1_SET_OF'' [P_st, P_pp, P_length, P_d2i_func, P_free_func, P_ex_tag, P_ex_class] (SKM_ASN1_SET_OF_d2i ''POLICYQUALINFO'' P_st P_pp P_length P_d2i_func P_free_func P_ex_tag P_ex_class),
      Macro ''i2d_ASN1_SET_OF'' [P_st, P_pp, P_i2d_func, P_ex_tag, P_ex_class, P_is_set] (SKM_ASN1_SET_OF_i2d ''POLICYQUALINFO'' P_st P_pp P_i2d_func P_ex_tag P_ex_class P_is_set),
      Macro ''ASN1_seq_pack'' [P_st, P_i2d_func, P_buf, P_len] (SKM_ASN1_seq_pack ''POLICYQUALINFO'' P_st P_i2d_func P_buf P_len),
      Macro ''ASN1_seq_unpack'' [P_buf, P_len, P_d2i_func, P_free_func] (SKM_ASN1_seq_unpack ''POLICYQUALINFO'' P_buf P_len P_d2i_func P_free_func)]"

definition asn1_set_SXNETID :: "macro_def list" where
  "asn1_set_SXNETID =
     [Macro ''d2i_ASN1_SET_OF'' [P_st, P_pp, P_length, P_d2i_func, P_free_func, P_ex_tag, P_ex_class] (SKM_ASN1_SET_OF_d2i ''SXNETID'' P_st P_pp P_length P_d2i_func P_free_func P_ex_tag P_ex_class),
      Macro ''i2d_ASN1_SET_OF'' [P_st, P_pp, P_i2d_func, P_ex_tag, P_ex_class, P_is_set] (SKM_ASN1_SET_OF_i2d ''SXNETID'' P_st P_pp P_i2d_func P_ex_tag P_ex_class P_is_set),
      Macro ''ASN1_seq_pack'' [P_st, P_i2d_func, P_buf, P_len] (SKM_ASN1_seq_pack ''SXNETID'' P_st P_i2d_func P_buf P_len),
      Macro ''ASN1_seq_unpack'' [P_buf, P_len, P_d2i_func, P_free_func] (SKM_ASN1_seq_unpack ''SXNETID'' P_buf P_len P_d2i_func P_free_func)]"

definition asn1_set_X509 :: "macro_def list" where
  "asn1_set_X509 =
     [Macro ''d2i_ASN1_SET_OF'' [P_st, P_pp, P_length, P_d2i_func, P_free_func, P_ex_tag, P_ex_class] (SKM_ASN1_SET_OF_d2i ''X509'' P_st P_pp P_length P_d2i_func P_free_func P_ex_tag P_ex_class),
      Macro ''i2d_ASN1_SET_OF'' [P_st, P_pp, P_i2d_func, P_ex_tag, P_ex_class, P_is_set] (SKM_ASN1_SET_OF_i2d ''X509'' P_st P_pp P_i2d_func P_ex_tag P_ex_class P_is_set),
      Macro ''ASN1_seq_pack'' [P_st, P_i2d_func, P_buf, P_len] (SKM_ASN1_seq_pack ''X509'' P_st P_i2d_func P_buf P_len),
      Macro ''ASN1_seq_unpack'' [P_buf, P_len, P_d2i_func, P_free_func] (SKM_ASN1_seq_unpack ''X509'' P_buf P_len P_d2i_func P_free_func)]"

definition asn1_set_X509_ALGOR :: "macro_def list" where
  "asn1_set_X509_ALGOR =
     [Macro ''d2i_ASN1_SET_OF'' [P_st, P_pp, P_length, P_d2i_func, P_free_func, P_ex_tag, P_ex_class] (SKM_ASN1_SET_OF_d2i ''X509_ALGOR'' P_st P_pp P_length P_d2i_func P_free_func P_ex_tag P_ex_class),
      Macro ''i2d_ASN1_SET_OF'' [P_st, P_pp, P_i2d_func, P_ex_tag, P_ex_class, P_is_set] (SKM_ASN1_SET_OF_i2d ''X509_ALGOR'' P_st P_pp P_i2d_func P_ex_tag P_ex_class P_is_set),
      Macro ''ASN1_seq_pack'' [P_st, P_i2d_func, P_buf, P_len] (SKM_ASN1_seq_pack ''X509_ALGOR'' P_st P_i2d_func P_buf P_len),
      Macro ''ASN1_seq_unpack'' [P_buf, P_len, P_d2i_func, P_free_func] (SKM_ASN1_seq_unpack ''X509_ALGOR'' P_buf P_len P_d2i_func P_free_func)]"

definition asn1_set_X509_ATTRIBUTE :: "macro_def list" where
  "asn1_set_X509_ATTRIBUTE =
     [Macro ''d2i_ASN1_SET_OF'' [P_st, P_pp, P_length, P_d2i_func, P_free_func, P_ex_tag, P_ex_class] (SKM_ASN1_SET_OF_d2i ''X509_ATTRIBUTE'' P_st P_pp P_length P_d2i_func P_free_func P_ex_tag P_ex_class),
      Macro ''i2d_ASN1_SET_OF'' [P_st, P_pp, P_i2d_func, P_ex_tag, P_ex_class, P_is_set] (SKM_ASN1_SET_OF_i2d ''X509_ATTRIBUTE'' P_st P_pp P_i2d_func P_ex_tag P_ex_class P_is_set),
      Macro ''ASN1_seq_pack'' [P_st, P_i2d_func, P_buf, P_len] (SKM_ASN1_seq_pack ''X509_ATTRIBUTE'' P_st P_i2d_func P_buf P_len),
      Macro ''ASN1_seq_unpack'' [P_buf, P_len, P_d2i_func, P_free_func] (SKM_ASN1_seq_unpack ''X509_ATTRIBUTE'' P_buf P_len P_d2i_func P_free_func)]"

definition asn1_set_X509_CRL :: "macro_def list" where
  "asn1_set_X509_CRL =
     [Macro ''d2i_ASN1_SET_OF'' [P_st, P_pp, P_length, P_d2i_func, P_free_func, P_ex_tag, P_ex_class] (SKM_ASN1_SET_OF_d2i ''X509_CRL'' P_st P_pp P_length P_d2i_func P_free_func P_ex_tag P_ex_class),
      Macro ''i2d_ASN1_SET_OF'' [P_st, P_pp, P_i2d_func, P_ex_tag, P_ex_class, P_is_set] (SKM_ASN1_SET_OF_i2d ''X509_CRL'' P_st P_pp P_i2d_func P_ex_tag P_ex_class P_is_set),
      Macro ''ASN1_seq_pack'' [P_st, P_i2d_func, P_buf, P_len] (SKM_ASN1_seq_pack ''X509_CRL'' P_st P_i2d_func P_buf P_len),
      Macro ''ASN1_seq_unpack'' [P_buf, P_len, P_d2i_func, P_free_func] (SKM_ASN1_seq_unpack ''X509_CRL'' P_buf P_len P_d2i_func P_free_func)]"

definition asn1_set_X509_EXTENSION :: "macro_def list" where
  "asn1_set_X509_EXTENSION =
     [Macro ''d2i_ASN1_SET_OF'' [P_st, P_pp, P_length, P_d2i_func, P_free_func, P_ex_tag, P_ex_class] (SKM_ASN1_SET_OF_d2i ''X509_EXTENSION'' P_st P_pp P_length P_d2i_func P_free_func P_ex_tag P_ex_class),
      Macro ''i2d_ASN1_SET_OF'' [P_st, P_pp, P_i2d_func, P_ex_tag, P_ex_class, P_is_set] (SKM_ASN1_SET_OF_i2d ''X509_EXTENSION'' P_st P_pp P_i2d_func P_ex_tag P_ex_class P_is_set),
      Macro ''ASN1_seq_pack'' [P_st, P_i2d_func, P_buf, P_len] (SKM_ASN1_seq_pack ''X509_EXTENSION'' P_st P_i2d_func P_buf P_len),
      Macro ''ASN1_seq_unpack'' [P_buf, P_len, P_d2i_func, P_free_func] (SKM_ASN1_seq_unpack ''X509_EXTENSION'' P_buf P_len P_d2i_func P_free_func)]"

definition asn1_set_X509_NAME_ENTRY :: "macro_def list" where
  "asn1_set_X509_NAME_ENTRY =
     [Macro ''d2i_ASN1_SET_OF'' [P_st, P_pp, P_length, P_d2i_func, P_free_func, P_ex_tag, P_ex_class] (SKM_ASN1_SET_OF_d2i ''X509_NAME_ENTRY'' P_st P_pp P_length P_d2i_func P_free_func P_ex_tag P_ex_class),
      Macro ''i2d_ASN1_SET_OF'' [P_st, P_pp, P_i2d_func, P_ex_tag, P_ex_class, P_is_set] (SKM_ASN1_SET_OF_i2d ''X509_NAME_ENTRY'' P_st P_pp P_i2d_func P_ex_tag P_ex_class P_is_set),
      Macro ''ASN1_seq_pack'' [P_st, P_i2d_func, P_buf, P_len] (SKM_ASN1_seq_pack ''X509_NAME_ENTRY'' P_st P_i2d_func P_buf P_len),
      Macro ''ASN1_seq_unpack'' [P_buf, P_len, P_d2i_func, P_free_func] (SKM_ASN1_seq_unpack ''X509_NAME_ENTRY'' P_buf P_len P_d2i_func P_free_func)]"

definition asn1_set_X509_REVOKED :: "macro_def list" where
  "asn1_set_X509_REVOKED =
     [Macro ''d2i_ASN1_SET_OF'' [P_st, P_pp, P_length, P_d2i_func, P_free_func, P_ex_tag, P_ex_class] (SKM_ASN1_SET_OF_d2i ''X509_REVOKED'' P_st P_pp P_length P_d2i_func P_free_func P_ex_tag P_ex_class),
      Macro ''i2d_ASN1_SET_OF'' [P_st, P_pp, P_i2d_func, P_ex_tag, P_ex_class, P_is_set] (SKM_ASN1_SET_OF_i2d ''X509_REVOKED'' P_st P_pp P_i2d_func P_ex_tag P_ex_class P_is_set),
      Macro ''ASN1_seq_pack'' [P_st, P_i2d_func, P_buf, P_len] (SKM_ASN1_seq_pack ''X509_REVOKED'' P_st P_i2d_func P_buf P_len),
      Macro ''ASN1_seq_unpack'' [P_buf, P_len, P_d2i_func, P_free_func] (SKM_ASN1_seq_unpack ''X509_REVOKED'' P_buf P_len P_d2i_func P_free_func)]"

definition pkcs12_decoders :: "(string \<times> macro_def list) list" where
  "pkcs12_decoders =
     [(''PKCS12_SAFEBAG'', [Macro ''PKCS12_decrypt_d2i'' [P_algor, P_d2i_func, P_free_func, P_pass, P_passlen, P_oct, P_seq] (SKM_PKCS12_decrypt_d2i ''PKCS12_SAFEBAG'' P_algor P_d2i_func P_free_func P_pass P_passlen P_oct P_seq)]),
      (''PKCS7'', [Macro ''PKCS12_decrypt_d2i'' [P_algor, P_d2i_func, P_free_func, P_pass, P_passlen, P_oct, P_seq] (SKM_PKCS12_decrypt_d2i ''PKCS7'' P_algor P_d2i_func P_free_func P_pass P_passlen P_oct P_seq)])]"

lemmas set_defs =
  asn1_set_ACCESS_DESCRIPTION_def asn1_set_ASN1_INTEGER_def asn1_set_ASN1_OBJECT_def asn1_set_ASN1_TYPE_def
  asn1_set_ASN1_UTF8STRING_def asn1_set_DIST_POINT_def asn1_set_ESS_CERT_ID_def asn1_set_EVP_MD_def
  asn1_set_GENERAL_NAME_def asn1_set_OCSP_ONEREQ_def asn1_set_OCSP_SINGLERESP_def asn1_set_PKCS12_SAFEBAG_def
  asn1_set_PKCS7_def asn1_set_PKCS7_RECIP_INFO_def asn1_set_PKCS7_SIGNER_INFO_def asn1_set_POLICYINFO_def
  asn1_set_POLICYQUALINFO_def asn1_set_SXNETID_def asn1_set_X509_def asn1_set_X509_ALGOR_def
  asn1_set_X509_ATTRIBUTE_def asn1_set_X509_CRL_def asn1_set_X509_EXTENSION_def asn1_set_X509_NAME_ENTRY_def
  asn1_set_X509_REVOKED_def

definition set_tables :: "(string \<times> macro_def list) list" where
  "set_tables =
     [(''ACCESS_DESCRIPTION'', asn1_set_ACCESS_DESCRIPTION), (''ASN1_INTEGER'', asn1_set_ASN1_INTEGER),
      (''ASN1_OBJECT'', asn1_set_ASN1_OBJECT), (''ASN1_TYPE'', asn1_set_ASN1_TYPE),
      (''ASN1_UTF8STRING'', asn1_set_ASN1_UTF8STRING), (''DIST_POINT'', asn1_set_DIST_POINT),
      (''ESS_CERT_ID'', asn1_set_ESS_CERT_ID), (''EVP_MD'', asn1_set_EVP_MD),
      (''GENERAL_NAME'', asn1_set_GENERAL_NAME), (''OCSP_ONEREQ'', asn1_set_OCSP_ONEREQ),
      (''OCSP_SINGLERESP'', asn1_set_OCSP_SINGLERESP), (''PKCS12_SAFEBAG'', asn1_set_PKCS12_SAFEBAG),
      (''PKCS7'', asn1_set_PKCS7), (''PKCS7_RECIP_INFO'', asn1_set_PKCS7_RECIP_INFO),
      (''PKCS7_SIGNER_INFO'', asn1_set_PKCS7_SIGNER_INFO), (''POLICYINFO'', asn1_set_POLICYINFO),
      (''POLICYQUALINFO'', asn1_set_POLICYQUALINFO), (''SXNETID'', asn1_set_SXNETID), (''X509'', asn1_set_X509),
      (''X509_ALGOR'', asn1_set_X509_ALGOR), (''X509_ATTRIBUTE'', asn1_set_X509_ATTRIBUTE),
      (''X509_CRL'', asn1_set_X509_CRL), (''X509_EXTENSION'', asn1_set_X509_EXTENSION),
      (''X509_NAME_ENTRY'', asn1_set_X509_NAME_ENTRY), (''X509_REVOKED'', asn1_set_X509_REVOKED)]"

section \<open>Hashes\<close>

definition lh_ADDED_OBJ :: "macro_def list" where
  "lh_ADDED_OBJ =
     [Macro ''new'' [] (LHM_lh_new ''ADDED_OBJ'' ''added_obj''),
      Macro ''insert'' [P_lh, P_inst] (LHM_lh_insert ''ADDED_OBJ'' P_lh P_inst),
      Macro ''retrieve'' [P_lh, P_inst] (LHM_lh_retrieve ''ADDED_OBJ'' P_lh P_inst),
      Macro ''delete'' [P_lh, P_inst] (LHM_lh_delete ''ADDED_OBJ'' P_lh P_inst),
      Macro ''doall'' [P_lh, P_fn] (LHM_lh_doall ''ADDED_OBJ'' P_lh P_fn),
      Macro ''doall_arg'' [P_lh, P_fn, P_arg_type, P_arg] (LHM_lh_doall_arg ''ADDED_OBJ'' P_lh P_fn P_arg_type P_arg),
      Macro ''error'' [P_lh] (LHM_lh_error ''ADDED_OBJ'' P_lh),
      Macro ''num_items'' [P_lh] (LHM_lh_num_items ''ADDED_OBJ'' P_lh),
      Macro ''down_load'' [P_lh] (LHM_lh_down_load ''ADDED_OBJ'' P_lh),
      Macro ''node_stats_bio'' [P_lh, P_out] (LHM_lh_node_stats_bio ''ADDED_OBJ'' P_lh P_out),
      Macro ''node_usage_stats_bio'' [P_lh, P_out] (LHM_lh_node_usage_stats_bio ''ADDED_OBJ'' P_lh P_out),
      Macro ''stats_bio'' [P_lh, P_out] (LHM_lh_stats_bio ''ADDED_OBJ'' P_lh P_out),
      Macro ''free'' [P_lh] (LHM_lh_free ''ADDED_OBJ'' P_lh)]"

definition lh_APP_INFO :: "macro_def list" where
  "lh_APP_INFO =
     [Macro ''new'' [] (LHM_lh_new ''APP_INFO'' ''app_info''),
      Macro ''insert'' [P_lh, P_inst] (LHM_lh_insert ''APP_INFO'' P_lh P_inst),
      Macro ''retrieve'' [P_lh, P_inst] (LHM_lh_retrieve ''APP_INFO'' P_lh P_inst),
      Macro ''delete'' [P_lh, P_inst] (LHM_lh_delete ''APP_INFO'' P_lh P_inst),
      Macro ''doall'' [P_lh, P_fn] (LHM_lh_doall ''APP_INFO'' P_lh P_fn),
      Macro ''doall_arg'' [P_lh, P_fn, P_arg_type, P_arg] (LHM_lh_doall_arg ''APP_INFO'' P_lh P_fn P_arg_type P_arg),
      Macro ''error'' [P_lh] (LHM_lh_error ''APP_INFO'' P_lh),
      Macro ''num_items'' [P_lh] (LHM_lh_num_items ''APP_INFO'' P_lh),
      Macro ''down_load'' [P_lh] (LHM_lh_down_load ''APP_INFO'' P_lh),
      Macro ''node_stats_bio'' [P_lh, P_out] (LHM_lh_node_stats_bio ''APP_INFO'' P_lh P_out),
      Macro ''node_usage_stats_bio'' [P_lh, P_out] (LHM_lh_node_usage_stats_bio ''APP_INFO'' P_lh P_out),
      Macro ''stats_bio'' [P_lh, P_out] (LHM_lh_stats_bio ''APP_INFO'' P_lh P_out),
      Macro ''free'' [P_lh] (LHM_lh_free ''APP_INFO'' P_lh)]"

definition lh_CONF_VALUE :: "macro_def list" where
  "lh_CONF_VALUE =
     [Macro ''new'' [] (LHM_lh_new ''CONF_VALUE'' ''conf_value''),
      Macro ''insert'' [P_lh, P_inst] (LHM_lh_insert ''CONF_VALUE'' P_lh P_inst),
      Macro ''retrieve'' [P_lh, P_inst] (LHM_lh_retrieve ''CONF_VALUE'' P_lh P_inst),
      Macro ''delete'' [P_lh, P_inst] (LHM_lh_delete ''CONF_VALUE'' P_lh P_inst),
      Macro ''doall'' [P_lh, P_fn] (LHM_lh_doall ''CONF_VALUE'' P_lh P_fn),
      Macro ''doall_arg'' [P_lh, P_fn, P_arg_type, P_arg] (LHM_lh_doall_arg ''CONF_VALUE'' P_lh P_fn P_arg_type P_arg),
      Macro ''error'' [P_lh] (LHM_lh_error ''CONF_VALUE'' P_lh),
      Macro ''num_items'' [P_lh] (LHM_lh_num_items ''CONF_VALUE'' P_lh),
      Macro ''down_load'' [P_lh] (LHM_lh_down_load ''CONF_VALUE'' P_lh),
      Macro ''node_stats_bio'' [P_lh, P_out] (LHM_lh_node_stats_bio ''CONF_VALUE'' P_lh P_out),
      Macro ''node_usage_stats_bio'' [P_lh, P_out] (LHM_lh_node_usage_stats_bio ''CONF_VALUE'' P_lh P_out),
      Macro ''stats_bio'' [P_lh, P_out] (LHM_lh_stats_bio ''CONF_VALUE'' P_lh P_out),
      Macro ''free'' [P_lh] (LHM_lh_free ''CONF_VALUE'' P_lh)]"

definition lh_ENGINE_PILE :: "macro_def list" where
  "lh_ENGINE_PILE =
     [Macro ''new'' [] (LHM_lh_new ''ENGINE_PILE'' ''engine_pile''),
      Macro ''insert'' [P_lh, P_inst] (LHM_lh_insert ''ENGINE_PILE'' P_lh P_inst),
      Macro ''retrieve'' [P_lh, P_inst] (LHM_lh_retrieve ''ENGINE_PILE'' P_lh P_inst),
      Macro ''delete'' [P_lh, P_inst] (LHM_lh_delete ''ENGINE_PILE'' P_lh P_inst),
      Macro ''doall'' [P_lh, P_fn] (LHM_lh_doall ''ENGINE_PILE'' P_lh P_fn),
      Macro ''doall_arg'' [P_lh, P_fn, P_arg_type, P_arg] (LHM_lh_doall_arg ''ENGINE_PILE'' P_lh P_fn P_arg_type P_arg),
      Macro ''error'' [P_lh] (LHM_lh_error ''ENGINE_PILE'' P_lh),
      Macro ''num_items'' [P_lh] (LHM_lh_num_items ''ENGINE_PILE'' P_lh),
      Macro ''down_load'' [P_lh] (LHM_lh_down_load ''ENGINE_PILE'' P_lh),
      Macro ''node_stats_bio'' [P_lh, P_out] (LHM_lh_node_stats_bio ''ENGINE_PILE'' P_lh P_out),
      Macro ''node_usage_stats_bio'' [P_lh, P_out] (LHM_lh_node_usage_stats_bio ''ENGINE_PILE'' P_lh P_out),
      Macro ''stats_bio'' [P_lh, P_out] (LHM_lh_stats_bio ''ENGINE_PILE'' P_lh P_out),
      Macro ''free'' [P_lh] (LHM_lh_free ''ENGINE_PILE'' P_lh)]"

definition lh_ERR_STATE :: "macro_def list" where
  "lh_ERR_STATE =
     [Macro ''new'' [] (LHM_lh_new ''ERR_STATE'' ''err_state''),
      Macro ''insert'' [P_lh, P_inst] (LHM_lh_insert ''ERR_STATE'' P_lh P_inst),
      Macro ''retrieve'' [P_lh, P_inst] (LHM_lh_retrieve ''ERR_STATE'' P_lh P_inst),
      Macro ''delete'' [P_lh, P_inst] (LHM_lh_delete ''ERR_STATE'' P_lh P_inst),
      Macro ''doall'' [P_lh, P_fn] (LHM_lh_doall ''ERR_STATE'' P_lh P_fn),
      Macro ''doall_arg'' [P_lh, P_fn, P_arg_type, P_arg] (LHM_lh_doall_arg ''ERR_STATE'' P_lh P_fn P_arg_type P_arg),
      Macro ''error'' [P_lh] (LHM_lh_error ''ERR_STATE'' P_lh),
      Macro ''num_items'' [P_lh] (LHM_lh_num_items ''ERR_STATE'' P_lh),
      Macro ''down_load'' [P_lh] (LHM_lh_down_load ''ERR_STATE'' P_lh),
      Macro ''node_stats_bio'' [P_lh, P_out] (LHM_lh_node_stats_bio ''ERR_STATE'' P_lh P_out),
      Macro ''node_usage_stats_bio'' [P_lh, P_out] (LHM_lh_node_usage_stats_bio ''ERR_STATE'' P_lh P_out),
      Macro ''stats_bio'' [P_lh, P_out] (LHM_lh_stats_bio ''ERR_STATE'' P_lh P_out),
      Macro ''free'' [P_lh] (LHM_lh_free ''ERR_STATE'' P_lh)]"

definition lh_ERR_STRING_DATA :: "macro_def list" where
  "lh_ERR_STRING_DATA =
     [Macro ''new'' [] (LHM_lh_new ''ERR_STRING_DATA'' ''err_string_data''),
      Macro ''insert'' [P_lh, P_inst] (LHM_lh_insert ''ERR_STRING_DATA'' P_lh P_inst),
      Macro ''retrieve'' [P_lh, P_inst] (LHM_lh_retrieve ''ERR_STRING_DATA'' P_lh P_inst),
      Macro ''delete'' [P_lh, P_inst] (LHM_lh_delete ''ERR_STRING_DATA'' P_lh P_inst),
      Macro ''doall'' [P_lh, P_fn] (LHM_lh_doall ''ERR_STRING_DATA'' P_lh P_fn),
      Macro ''doall_arg'' [P_lh, P_fn, P_arg_type, P_arg] (LHM_lh_doall_arg ''ERR_STRING_DATA'' P_lh P_fn P_arg_type P_arg),
      Macro ''error'' [P_lh] (LHM_lh_error ''ERR_STRING_DATA'' P_lh),
      Macro ''num_items'' [P_lh] (LHM_lh_num_items ''ERR_STRING_DATA'' P_lh),
      Macro ''down_load'' [P_lh] (LHM_lh_down_load ''ERR_STRING_DATA'' P_lh),
      Macro ''node_stats_bio'' [P_lh, P_out] (LHM_lh_node_stats_bio ''ERR_STRING_DATA'' P_lh P_out),
      Macro ''node_usage_stats_bio'' [P_lh, P_out] (LHM_lh_node_usage_stats_bio ''ERR_STRING_DATA'' P_lh P_out),
      Macro ''stats_bio'' [P_lh, P_out] (LHM_lh_stats_bio ''ERR_STRING_DATA'' P_lh P_out),
      Macro ''free'' [P_lh] (LHM_lh_free ''ERR_STRING_DATA'' P_lh)]"

definition lh_EX_CLASS_ITEM :: "macro_def list" where
  "lh_EX_CLASS_ITEM =
     [Macro ''new'' [] (LHM_lh_new ''EX_CLASS_ITEM'' ''ex_class_item''),
      Macro ''insert'' [P_lh, P_inst] (LHM_lh_insert ''EX_CLASS_ITEM'' P_lh P_inst),
      Macro ''retrieve'' [P_lh, P_inst] (LHM_lh_retrieve ''EX_CLASS_ITEM'' P_lh P_inst),
      Macro ''delete'' [P_lh, P_inst] (LHM_lh_delete ''EX_CLASS_ITEM'' P_lh P_inst),
      Macro ''doall'' [P_lh, P_fn] (LHM_lh_doall ''EX_CLASS_ITEM'' P_lh P_fn),
      Macro ''doall_arg'' [P_lh, P_fn, P_arg_type, P_arg] (LHM_lh_doall_arg ''EX_CLASS_ITEM'' P_lh P_fn P_arg_type P_arg),
      Macro ''error'' [P_lh] (LHM_lh_error ''EX_CLASS_ITEM'' P_lh),
      Macro ''num_items'' [P_lh] (LHM_lh_num_items ''EX_CLASS_ITEM'' P_lh),
      Macro ''down_load'' [P_lh] (LHM_lh_down_load ''EX_CLASS_ITEM'' P_lh),
      Macro ''node_stats_bio'' [P_lh, P_out] (LHM_lh_node_stats_bio ''EX_CLASS_ITEM'' P_lh P_out),
      Macro ''node_usage_stats_bio'' [P_lh, P_out] (LHM_lh_node_usage_stats_bio ''EX_CLASS_ITEM'' P_lh P_out),
      Macro ''stats_bio'' [P_lh, P_out] (LHM_lh_stats_bio ''EX_CLASS_ITEM'' P_lh P_out),
      Macro ''free'' [P_lh] (LHM_lh_free ''EX_CLASS_ITEM'' P_lh)]"

definition lh_FUNCTION :: "macro_def list" where
  "lh_FUNCTION =
     [Macro ''new'' [] (LHM_lh_new ''FUNCTION'' ''function''),
      Macro ''insert'' [P_lh, P_inst] (LHM_lh_insert ''FUNCTION'' P_lh P_inst),
      Macro ''retrieve'' [P_lh, P_inst] (LHM_lh_retrieve ''FUNCTION'' P_lh P_inst),
      Macro ''delete'' [P_lh, P_inst] (LHM_lh_delete ''FUNCTION'' P_lh P_inst),
      Macro ''doall'' [P_lh, P_fn] (LHM_lh_doall ''FUNCTION'' P_lh P_fn),
      Macro ''doall_arg'' [P_lh, P_fn, P_arg_type, P_arg] (LHM_lh_doall_arg ''FUNCTION'' P_lh P_fn P_arg_type P_arg),
      Macro ''error'' [P_lh] (LHM_lh_error ''FUNCTION'' P_lh),
      Macro ''num_items'' [P_lh] (LHM_lh_num_items ''FUNCTION'' P_lh),
      Macro ''down_load'' [P_lh] (LHM_lh_down_load ''FUNCTION'' P_lh),
      Macro ''node_stats_bio'' [P_lh, P_out] (LHM_lh_node_stats_bio ''FUNCTION'' P_lh P_out),
      Macro ''node_usage_stats_bio'' [P_lh, P_out] (LHM_lh_node_usage_stats_bio ''FUNCTION'' P_lh P_out),
      Macro ''stats_bio'' [P_lh, P_out] (LHM_lh_stats_bio ''FUNCTION'' P_lh P_out),
      Macro ''free'' [P_lh] (LHM_lh_free ''FUNCTION'' P_lh)]"

definition lh_MEM :: "macro_def list" where
  "lh_MEM =
     [Macro ''new'' [] (LHM_lh_new ''MEM'' ''mem''),
      Macro ''insert'' [P_lh, P_inst] (LHM_lh_insert ''MEM'' P_lh P_inst),
      Macro ''retrieve'' [P_lh, P_inst] (LHM_lh_retrieve ''MEM'' P_lh P_inst),
      Macro ''delete'' [P_lh, P_inst] (LHM_lh_delete ''MEM'' P_lh P_inst),
      Macro ''doall'' [P_lh, P_fn] (LHM_lh_doall ''MEM'' P_lh P_fn),
      Macro ''doall_arg'' [P_lh, P_fn, P_arg_type, P_arg] (LHM_lh_doall_arg ''MEM'' P_lh P_fn P_arg_type P_arg),
      Macro ''error'' [P_lh] (LHM_lh_error ''MEM'' P_lh),
      Macro ''num_items'' [P_lh] (LHM_lh_num_items ''MEM'' P_lh),
      Macro ''down_load'' [P_lh] (LHM_lh_down_load ''MEM'' P_lh),
      Macro ''node_stats_bio'' [P_lh, P_out] (LHM_lh_node_stats_bio ''MEM'' P_lh P_out),
      Macro ''node_usage_stats_bio'' [P_lh, P_out] (LHM_lh_node_usage_stats_bio ''MEM'' P_lh P_out),
      Macro ''stats_bio'' [P_lh, P_out] (LHM_lh_stats_bio ''MEM'' P_lh P_out),
      Macro ''free'' [P_lh] (LHM_lh_free ''MEM'' P_lh)]"

definition lh_OBJ_NAME :: "macro_def list" where
  "lh_OBJ_NAME =
     [Macro ''new'' [] (LHM_lh_new ''OBJ_NAME'' ''obj_name''),
      Macro ''insert'' [P_lh, P_inst] (LHM_lh_insert ''OBJ_NAME'' P_lh P_inst),
      Macro ''retrieve'' [P_lh, P_inst] (LHM_lh_retrieve ''OBJ_NAME'' P_lh P_inst),
      Macro ''delete'' [P_lh, P_inst] (LHM_lh_delete ''OBJ_NAME'' P_lh P_inst),
      Macro ''doall'' [P_lh, P_fn] (LHM_lh_doall ''OBJ_NAME'' P_lh P_fn),
      Macro ''doall_arg'' [P_lh, P_fn, P_arg_type, P_arg] (LHM_lh_doall_arg ''OBJ_NAME'' P_lh P_fn P_arg_type P_arg),
      Macro ''error'' [P_lh] (LHM_lh_error ''OBJ_NAME'' P_lh),
      Macro ''num_items'' [P_lh] (LHM_lh_num_items ''OBJ_NAME'' P_lh),
      Macro ''down_load'' [P_lh] (LHM_lh_down_load ''OBJ_NAME'' P_lh),
      Macro ''node_stats_bio'' [P_lh, P_out] (LHM_lh_node_stats_bio ''OBJ_NAME'' P_lh P_out),
      Macro ''node_usage_stats_bio'' [P_lh, P_out] (LHM_lh_node_usage_stats_bio ''OBJ_NAME'' P_lh P_out),
      Macro ''stats_bio'' [P_lh, P_out] (LHM_lh_stats_bio ''OBJ_NAME'' P_lh P_out),
      Macro ''free'' [P_lh] (LHM_lh_free ''OBJ_NAME'' P_lh)]"

definition lh_OPENSSL_CSTRING :: "macro_def list" where
  "lh_OPENSSL_CSTRING =
     [Macro ''new'' [] (LHM_lh_new ''OPENSSL_CSTRING'' ''openssl_cstring''),
      Macro ''insert'' [P_lh, P_inst] (LHM_lh_insert ''OPENSSL_CSTRING'' P_lh P_inst),
      Macro ''retrieve'' [P_lh, P_inst] (LHM_lh_retrieve ''OPENSSL_CSTRING'' P_lh P_inst),
      Macro ''delete'' [P_lh, P_inst] (LHM_lh_delete ''OPENSSL_CSTRING'' P_lh P_inst),
      Macro ''doall'' [P_lh, P_fn] (LHM_lh_doall ''OPENSSL_CSTRING'' P_lh P_fn),
      Macro ''doall_arg'' [P_lh, P_fn, P_arg_type, P_arg] (LHM_lh_doall_arg ''OPENSSL_CSTRING'' P_lh P_fn P_arg_type P_arg),
      Macro ''error'' [P_lh] (LHM_lh_error ''OPENSSL_CSTRING'' P_lh),
      Macro ''num_items'' [P_lh] (LHM_lh_num_items ''OPENSSL_CSTRING'' P_lh),
      Macro ''down_load'' [P_lh] (LHM_lh_down_load ''OPENSSL_CSTRING'' P_lh),
      Macro ''node_stats_bio'' [P_lh, P_out] (LHM_lh_node_stats_bio ''OPENSSL_CSTRING'' P_lh P_out),
      Macro ''node_usage_stats_bio'' [P_lh, P_out] (LHM_lh_node_usage_stats_bio ''OPENSSL_CSTRING'' P_lh P_out),
      Macro ''stats_bio'' [P_lh, P_out] (LHM_lh_stats_bio ''OPENSSL_CSTRING'' P_lh P_out),
      Macro ''free'' [P_lh] (LHM_lh_free ''OPENSSL_CSTRING'' P_lh)]"

definition lh_OPENSSL_STRING :: "macro_def list" where
  "lh_OPENSSL_STRING =
     [Macro ''new'' [] (LHM_lh_new ''OPENSSL_STRING'' ''openssl_string''),
      Macro ''insert'' [P_lh, P_inst] (LHM_lh_insert ''OPENSSL_STRING'' P_lh P_inst),
      Macro ''retrieve'' [P_lh, P_inst] (LHM_lh_retrieve ''OPENSSL_STRING'' P_lh P_inst),
      Macro ''delete'' [P_lh, P_inst] (LHM_lh_delete ''OPENSSL_STRING'' P_lh P_inst),
      Macro ''doall'' [P_lh, P_fn] (LHM_lh_doall ''OPENSSL_STRING'' P_lh P_fn),
      Macro ''doall_arg'' [P_lh, P_fn, P_arg_type, P_arg] (LHM_lh_doall_arg ''OPENSSL_STRING'' P_lh P_fn P_arg_type P_arg),
      Macro ''error'' [P_lh] (LHM_lh_error ''OPENSSL_STRING'' P_lh),
      Macro ''num_items'' [P_lh] (LHM_lh_num_items ''OPENSSL_STRING'' P_lh),
      Macro ''down_load'' [P_lh] (LHM_lh_down_load ''OPENSSL_STRING'' P_lh),
      Macro ''node_stats_bio'' [P_lh, P_out] (LHM_lh_node_stats_bio ''OPENSSL_STRING'' P_lh P_out),
      Macro ''node_usage_stats_bio'' [P_lh, P_out] (LHM_lh_node_usage_stats_bio ''OPENSSL_STRING'' P_lh P_out),
      Macro ''stats_bio'' [P_lh, P_out] (LHM_lh_stats_bio ''OPENSSL_STRING'' P_lh P_out),
      Macro ''free'' [P_lh] (LHM_lh_free ''OPENSSL_STRING'' P_lh)]"

definition lh_SSL_SESSION :: "macro_def list" where
  "lh_SSL_SESSION =
     [Macro ''new'' [] (LHM_lh_new ''SSL_SESSION'' ''ssl_session''),
      Macro ''insert'' [P_lh, P_inst] (LHM_lh_insert ''SSL_SESSION'' P_lh P_inst),
      Macro ''retrieve'' [P_lh, P_inst] (LHM_lh_retrieve ''SSL_SESSION'' P_lh P_inst),
      Macro ''delete'' [P_lh, P_inst] (LHM_lh_delete ''SSL_SESSION'' P_lh P_inst),
      Macro ''doall'' [P_lh, P_fn] (LHM_lh_doall ''SSL_SESSION'' P_lh P_fn),
      Macro ''doall_arg'' [P_lh, P_fn, P_arg_type, P_arg] (LHM_lh_doall_arg ''SSL_SESSION'' P_lh P_fn P_arg_type P_arg),
      Macro ''error'' [P_lh] (LHM_lh_error ''SSL_SESSION'' P_lh),
      Macro ''num_items'' [P_lh] (LHM_lh_num_items ''SSL_SESSION'' P_lh),
      Macro ''down_load'' [P_lh] (LHM_lh_down_load ''SSL_SESSION'' P_lh),
      Macro ''node_stats_bio'' [P_lh, P_out] (LHM_lh_node_stats_bio ''SSL_SESSION'' P_lh P_out),
      Macro ''node_usage_stats_bio'' [P_lh, P_out] (LHM_lh_node_usage_stats_bio ''SSL_SESSION'' P_lh P_out),
      Macro ''stats_bio'' [P_lh, P_out] (LHM_lh_stats_bio ''SSL_SESSION'' P_lh P_out),
      Macro ''free'' [P_lh] (LHM_lh_free ''SSL_SESSION'' P_lh)]"

lemmas hash_defs =
  lh_ADDED_OBJ_def lh_APP_INFO_def lh_CONF_VALUE_def lh_ENGINE_PILE_def lh_ERR_STATE_def lh_ERR_STRING_DATA_def
  lh_EX_CLASS_ITEM_def lh_FUNCTION_def lh_MEM_def lh_OBJ_NAME_def lh_OPENSSL_CSTRING_def lh_OPENSSL_STRING_def
  lh_SSL_SESSION_def

definition hash_tables :: "(string \<times> macro_def list) list" where
  "hash_tables =
     [(''ADDED_OBJ'', lh_ADDED_OBJ), (''APP_INFO'', lh_APP_INFO), (''CONF_VALUE'', lh_CONF_VALUE),
      (''ENGINE_PILE'', lh_ENGINE_PILE), (''ERR_STATE'', lh_ERR_STATE), (''ERR_STRING_DATA'', lh_ERR_STRING_DATA),
      (''EX_CLASS_ITEM'', lh_EX_CLASS_ITEM), (''FUNCTION'', lh_FUNCTION), (''MEM'', lh_MEM),
      (''OBJ_NAME'', lh_OBJ_NAME), (''OPENSSL_CSTRING'', lh_OPENSSL_CSTRING),
      (''OPENSSL_STRING'', lh_OPENSSL_STRING), (''SSL_SESSION'', lh_SSL_SESSION)]"

end
