(* ===== verification/Typed_Containers.thy ===== *)
theory Typed_Containers
  imports Stack_Tables_1 Stack_Tables_2 Stack_Tables_3 Container_Tables
begin

text \<open>
  All typed containers of the headers together: every macro passes its parameters on in their order to
  the library function of its name, checked against the type in its name, and gives back an element
  as an element. The exceptions are listed in the theorems.
\<close>

section \<open>Stacks\<close>

definition stack_tables :: "(string \<times> macro_def list) list" where
  "stack_tables = plain_stacks_1 @ plain_stacks_2 @ plain_stacks_3 @ special_stack_tables"

text \<open>What the 87 plain stacks share.\<close>

definition typed_stack :: "string \<Rightarrow> macro_def list" where
  "typed_stack T =
     [Macro ''new'' [P_cmp] (SKM_sk_new T P_cmp),
      Macro ''new_null'' [] (SKM_sk_new_null T),
      Macro ''free'' [P_st] (SKM_sk_free T P_st),
      Macro ''num'' [P_st] (SKM_sk_num T P_st),
      Macro ''value'' [P_st, P_i] (SKM_sk_value T P_st P_i),
      Macro ''set'' [P_st, P_i, P_val] (SKM_sk_set T P_st P_i P_val),
      Macro ''zero'' [P_st] (SKM_sk_zero T P_st),
      Macro ''push'' [P_st, P_val] (SKM_sk_push T P_st P_val),
      Macro ''unshift'' [P_st, P_val] (SKM_sk_unshift T P_st P_val),
      Macro ''find'' [P_st, P_val] (SKM_sk_find T P_st P_val),
      Macro ''find_ex'' [P_st, P_val] (SKM_sk_find_ex T P_st P_val),
      Macro ''delete'' [P_st, P_i] (SKM_sk_delete T P_st P_i),
      Macro ''delete_ptr'' [P_st, P_ptr] (SKM_sk_delete_ptr T P_st P_ptr),
      Macro ''insert'' [P_st, P_val, P_i] (SKM_sk_insert T P_st P_val P_i),
      Macro ''set_cmp_func'' [P_st, P_cmp] (SKM_sk_set_cmp_func T P_st P_cmp),
      Macro ''dup'' [P_st] (SKM_sk_dup T P_st),
      Macro ''pop_free'' [P_st, P_free_func] (SKM_sk_pop_free T P_st P_free_func),
      Macro ''shift'' [P_st] (SKM_sk_shift T P_st),
      Macro ''pop'' [P_st] (SKM_sk_pop T P_st),
      Macro ''sort'' [P_st] (SKM_sk_sort T P_st),
      Macro ''is_sorted'' [P_st] (SKM_sk_is_sorted T P_st)]"


lemma plain_stacks:
  "list_all (\<lambda>(T, tab). tab = typed_stack T \<and> \<not> is_special T) plain_stacks_1"
  "list_all (\<lambda>(T, tab). tab = typed_stack T \<and> \<not> is_special T) plain_stacks_2"
  "list_all (\<lambda>(T, tab). tab = typed_stack T \<and> \<not> is_special T) plain_stacks_3"
  by (simp_all add: plain_stacks_1_def plain_stacks_2_def plain_stacks_3_def stack_defs_1 stack_defs_2 stack_defs_3
      typed_stack_def is_special_def special_stacks_def)

definition sk_function :: "string \<Rightarrow> string" where
  "sk_function op = ''sk_'' @ op"

text \<open>The macros of a table of stacks that are not typed.\<close>

definition sk_misused :: "string \<times> macro_def list \<Rightarrow> string \<times> string list" where
  "sk_misused e = (fst e, misused sk_function (elem_type (fst e)) (fst e) (snd e))"

lemma typed_stack_ok:
  "\<not> is_special T \<Longrightarrow> misused sk_function (elem_type T) T (typed_stack T) = []"
  by (simp add: misused_def typed_stack_def SKM_sk_defs elem_type_plain answer_of_def sk_function_def)

lemma special_misused:
  "map sk_misused special_stack_tables =
     [(''OPENSSL_STRING'', [''find_ex'', ''delete'', ''delete_ptr'', ''shift'']),
      (''OPENSSL_BLOCK'', [''find_ex'', ''delete'', ''delete_ptr'', ''shift'']),
      (''OPENSSL_PSTRING'', [''find_ex'', ''delete'', ''delete_ptr'', ''shift''])]"
  by (simp add: sk_misused_def misused_def special_stack_tables_def special_stack_defs SKM_sk_defs elem_type_def special_stacks_def
      ctype_of_def answer_of_def sk_function_def)

lemma plain_misused:
  assumes "list_all (\<lambda>(T, tab). tab = typed_stack T \<and> \<not> is_special T) ts"
  shows "filter (\<lambda>(T, ops). ops \<noteq> []) (map sk_misused ts) = []"
  using assms by (induction ts) (auto simp: sk_misused_def typed_stack_ok)

lemma stack_names:
  "distinct (map fst stack_tables)"
  "list_all (\<lambda>(T, tab). set (names_of tab) = set (names_of (typed_stack T))) stack_tables"
proof -
  show "distinct (map fst stack_tables)"
    by (simp add: stack_tables_def plain_stacks_1_def plain_stacks_2_def plain_stacks_3_def special_stack_tables_def)
  have "list_all (\<lambda>(T, tab). set (names_of tab) = set (names_of (typed_stack T))) ts"
    if "list_all (\<lambda>(T, tab). tab = typed_stack T \<and> \<not> is_special T) ts" for ts
    using that by (induction ts) auto
  then show "list_all (\<lambda>(T, tab). set (names_of tab) = set (names_of (typed_stack T))) stack_tables"
    using plain_stacks by (auto simp: stack_tables_def special_stack_tables_def special_stack_defs names_of_def typed_stack_def)
qed

section \<open>Sets and hashes\<close>

text \<open>What the sets of ASN.1 values and what the hashes share.\<close>

definition typed_set :: "string \<Rightarrow> macro_def list" where
  "typed_set T =
     [Macro ''d2i_ASN1_SET_OF'' [P_st, P_pp, P_length, P_d2i_func, P_free_func, P_ex_tag, P_ex_class] (SKM_ASN1_SET_OF_d2i T P_st P_pp P_length P_d2i_func P_free_func P_ex_tag P_ex_class),
      Macro ''i2d_ASN1_SET_OF'' [P_st, P_pp, P_i2d_func, P_ex_tag, P_ex_class, P_is_set] (SKM_ASN1_SET_OF_i2d T P_st P_pp P_i2d_func P_ex_tag P_ex_class P_is_set),
      Macro ''ASN1_seq_pack'' [P_st, P_i2d_func, P_buf, P_len] (SKM_ASN1_seq_pack T P_st P_i2d_func P_buf P_len),
      Macro ''ASN1_seq_unpack'' [P_buf, P_len, P_d2i_func, P_free_func] (SKM_ASN1_seq_unpack T P_buf P_len P_d2i_func P_free_func)]"

definition typed_hash :: "string \<Rightarrow> string \<Rightarrow> macro_def list" where
  "typed_hash T name =
     [Macro ''new'' [] (LHM_lh_new T name),
      Macro ''insert'' [P_lh, P_inst] (LHM_lh_insert T P_lh P_inst),
      Macro ''retrieve'' [P_lh, P_inst] (LHM_lh_retrieve T P_lh P_inst),
      Macro ''delete'' [P_lh, P_inst] (LHM_lh_delete T P_lh P_inst),
      Macro ''doall'' [P_lh, P_fn] (LHM_lh_doall T P_lh P_fn),
      Macro ''doall_arg'' [P_lh, P_fn, P_arg_type, P_arg] (LHM_lh_doall_arg T P_lh P_fn P_arg_type P_arg),
      Macro ''error'' [P_lh] (LHM_lh_error T P_lh),
      Macro ''num_items'' [P_lh] (LHM_lh_num_items T P_lh),
      Macro ''down_load'' [P_lh] (LHM_lh_down_load T P_lh),
      Macro ''node_stats_bio'' [P_lh, P_out] (LHM_lh_node_stats_bio T P_lh P_out),
      Macro ''node_usage_stats_bio'' [P_lh, P_out] (LHM_lh_node_usage_stats_bio T P_lh P_out),
      Macro ''stats_bio'' [P_lh, P_out] (LHM_lh_stats_bio T P_lh P_out),
      Macro ''free'' [P_lh] (LHM_lh_free T P_lh)]"

lemma set_hash_tables:
  "list_all (\<lambda>(T, tab). tab = typed_set T \<and> ctype_of T = Named T) set_tables"
  "list_all (\<lambda>(T, tab). tab = typed_hash T (to_lower_case T)) hash_tables"
  by (simp_all add: set_tables_def hash_tables_def set_defs hash_defs typed_set_def typed_hash_def ctype_of_def
      to_lower_case_def lower_char_def is_upper_latin1_def char_of_def bit_0)

text \<open>The library function behind the name of a macro.\<close>

definition lh_function :: "string \<Rightarrow> string" where
  "lh_function op = ''lh_'' @ op"

definition set_function :: "string \<Rightarrow> string" where
  "set_function op = (if op = ''d2i_ASN1_SET_OF'' then ''d2i_ASN1_SET'' else if op = ''i2d_ASN1_SET_OF'' then ''i2d_ASN1_SET'' else op)"

lemma typed_set_ok: "misused set_function (PtrTo (ctype_of T)) T (typed_set T) = []"
  by (simp add: misused_def typed_set_def SKM_set_defs answer_of_def set_function_def)

lemma typed_hash_ok: "misused lh_function (PtrTo (ctype_of T)) T (typed_hash T (to_lower_case T)) = []"
  by (simp add: misused_def typed_hash_def LHM_defs answer_of_def lh_function_def)

definition container_misused :: "(string \<Rightarrow> string) \<Rightarrow> string \<times> macro_def list \<Rightarrow> string list" where
  "container_misused fn e = misused fn (PtrTo (ctype_of (fst e))) (fst e) (snd e)"

lemma pkcs12_ok: "concat (map (container_misused set_function) pkcs12_decoders) = []"
  by (simp add: container_misused_def misused_def pkcs12_decoders_def SKM_set_defs answer_of_def set_function_def ctype_of_def)

lemma set_hash_ok:
  "list_all (\<lambda>(T, tab). tab = typed_set T) ts \<Longrightarrow> concat (map (container_misused set_function) ts) = []"
  "list_all (\<lambda>(T, tab). tab = typed_hash T (to_lower_case T)) ts \<Longrightarrow> concat (map (container_misused lh_function) ts) = []"
  by (induction ts) (auto simp: container_misused_def typed_set_ok typed_hash_ok)

lemma new_hashes:
  "list_all (\<lambda>(T, tab). tab = typed_hash T (to_lower_case T)) ts
   \<Longrightarrow> map (\<lambda>e. LHM_lh_new (fst e) (to_lower_case (fst e))) ts = map (\<lambda>e. case hd (snd e) of Macro op ps new \<Rightarrow> new) ts"
  by (induction ts) (auto simp: typed_hash_def)

text \<open>
  Claim C40. Typed containers are typed. There is one table of the same 21 operations for the stacks of each
  element type, and in the tables of all plain types every macro calls the library function of its name
  on its own parameters in their order, checks the stack and the elements against the type it is named
  after, and casts an element it returns to a pointer to this type. In the three tables whose elements
  are themselves pointers four operations are wrong: the extended search uses a check no header
  defines, and the two deletions and the shift answer a pointer to an element where they have an
  element. The sets of ASN.1 values, the two decoders of PKCS12 and the hashes have no such exception, and
  a new hash gets the callbacks named after its type in small letters.
\<close>

theorem container_macros_typed:
  "filter (\<lambda>(T, ops). ops \<noteq> []) (map sk_misused stack_tables) =
     [(''OPENSSL_STRING'', [''find_ex'', ''delete'', ''delete_ptr'', ''shift'']),
      (''OPENSSL_BLOCK'', [''find_ex'', ''delete'', ''delete_ptr'', ''shift'']),
      (''OPENSSL_PSTRING'', [''find_ex'', ''delete'', ''delete_ptr'', ''shift''])]
   \<and> distinct (map fst stack_tables)
   \<and> list_all (\<lambda>(T, tab). set (names_of tab) = set (names_of (typed_stack T))) stack_tables
   \<and> concat (map (container_misused set_function) (set_tables @ pkcs12_decoders)) = []
   \<and> concat (map (container_misused lh_function) hash_tables) = []
   \<and> map (\<lambda>e. case hd (snd e) of Macro op ps new \<Rightarrow> new) hash_tables
     = map (\<lambda>e. LHM_lh_new (fst e) (to_lower_case (fst e))) hash_tables"
proof -
  have "filter (\<lambda>(T, ops). ops \<noteq> []) (map sk_misused stack_tables) = map sk_misused special_stack_tables"
    by (simp add: stack_tables_def special_misused plain_stacks [THEN plain_misused])
  moreover have "list_all (\<lambda>(T, tab). tab = typed_set T) set_tables"
    using set_hash_tables(1) by (auto simp: list_all_iff)
  ultimately show ?thesis
    using stack_names set_hash_ok set_hash_tables(2) pkcs12_ok new_hashes [OF set_hash_tables(2)] by (simp add: special_misused)
qed

end
