(* ===== verification/Interfaces.thy ===== *)
theory Interfaces
  imports Java_Prelude
begin

text \<open>
  The contracts between components, as locales: a fixed-width byte codec (\<open>ByteBuffer\<close>'s
  put/get pairs, used by the log-file parser), a self-delimiting frame format (a record
  can be read off the front of a stream), a memoising lookup (the key, layout and
  certificate caches), a bounded FIFO queue (\<open>LinkedBlockingQueue\<close>, between the request
  threads and the sender threads), its workers and a store that keeps one value for each key (the
  documents of a collection). Every locale is interpreted in the theory of the component
  that provides it.
\<close>

section \<open>Fixed-width byte codecs\<close>

locale byte_codec =
  fixes width :: nat
    and put :: "'w \<Rightarrow> byte list"
    and get :: "byte list \<Rightarrow> 'w result"
  assumes length_put: "length (put w) = width"
    and get_put: "get (put w @ rest) = Inr w"
    and get_short: "length bs < width \<Longrightarrow> get bs = Inl BufferUnderflowException"
    and put_get: "get bs = Inr w \<Longrightarrow> take width bs = put w"
begin

lemma get_put_exact: "get (put w) = Inr w"
  using get_put [of w "[]"] by simp

lemma put_inj: "put v = put w \<Longrightarrow> v = w"
  using get_put_exact by (metis sum.inject(2))

lemma put_append_inj: "put v @ xs = put w @ ys \<Longrightarrow> v = w \<and> xs = ys"
  by (metis append_eq_append_conv length_put put_inj)

lemma get_take: "get bs = Inr w \<Longrightarrow> get (take width bs) = Inr w"
  using put_get [of bs w] by (simp add: get_put_exact)

lemma get_ok_length: "get bs = Inr w \<Longrightarrow> width \<le> length bs"
  using get_short [of bs] by (cases "length bs < width") auto

end

section \<open>Self-delimiting frames\<close>

text \<open>
  \<open>render f\<close> is the encoding of one frame, \<open>meaning f\<close> what its reader gets from it, and
  \<open>read s\<close> takes one frame off the front of a stream. The law is that reading gives the meaning
  of the frame in front, whatever follows it; then a stream of frames can be cut into frames in
  one way only.
\<close>

locale framing =
  fixes render :: "'f \<Rightarrow> 'b list"
    and good :: "'f \<Rightarrow> bool"
    and meaning :: "'f \<Rightarrow> 'm"
    and read :: "'b list \<Rightarrow> ('m \<times> 'b list) option"
  assumes read_render: "good f \<Longrightarrow> read (render f @ rest) = Some (meaning f, rest)"
    and read_nil: "read [] = None"
begin

lemma render_nonempty: "good f \<Longrightarrow> render f \<noteq> []"
  by (metis append_Nil option.distinct(1) read_nil read_render)

lemma front_unique:
  assumes "good f" and "good g" and "render f @ xs = render g @ ys"
  shows "meaning f = meaning g \<and> xs = ys"
  using assms by (metis option.inject prod.inject read_render)

lemma concat_unique:
  assumes "\<forall>f \<in> set fs. good f" and "\<forall>g \<in> set gs. good g"
    and "concat (map render fs) = concat (map render gs)"
  shows "map meaning fs = map meaning gs"
  using assms
proof (induction fs arbitrary: gs)
  case Nil
  then show ?case by (cases gs) (auto dest: render_nonempty)
next
  case (Cons f fs)
  from Cons.prems(1) have "render f \<noteq> []" by (auto dest: render_nonempty)
  with Cons.prems(3) obtain g gs' where gs: "gs = g # gs'" by (cases gs) auto
  have eq: "meaning f = meaning g \<and> concat (map render fs) = concat (map render gs')"
    using Cons.prems by (intro front_unique) (simp_all add: gs)
  have "map meaning fs = map meaning gs'"
    using Cons.prems(1,2) eq by (intro Cons.IH) (simp_all add: gs)
  with eq gs show ?case by simp
qed

end

section \<open>Memoising lookups\<close>

text \<open>
  A cache in front of a loader: \<open>fetch k c\<close> answers from the cache or loads and stores.
  \<open>cached\<close> reads the cache. The laws are the ones the code's three caches share: a hit
  answers the stored value and changes nothing; a miss answers what the loader gives and may
  store that answer (and may evict other entries), never anything else.
\<close>

locale memo_cache =
  fixes cached :: "'c \<Rightarrow> 'k \<Rightarrow> 'v option"
    and load :: "'k \<Rightarrow> 'v option"
    and fetch :: "'k \<Rightarrow> 'c \<Rightarrow> 'v option \<times> 'c"
  assumes fetch_hit: "cached c k = Some v \<Longrightarrow> fetch k c = (Some v, c)"
    and fetch_miss_value: "cached c k = None \<Longrightarrow> fst (fetch k c) = load k"
    and fetch_miss_store: "cached c k = None \<Longrightarrow> cached (snd (fetch k c)) j = Some w \<Longrightarrow>
          cached c j = Some w \<or> (j = k \<and> load k = Some w)"
    and fetch_miss_kept: "cached c k = None \<Longrightarrow> load k = Some w \<Longrightarrow>
          cached (snd (fetch k c)) k = Some w"
begin

definition coherent :: "'c \<Rightarrow> bool" where
  "coherent c \<longleftrightarrow> (\<forall>k v. cached c k = Some v \<longrightarrow> load k = Some v)"

lemma fetch_is_load: "coherent c \<Longrightarrow> fst (fetch k c) = load k"
  by (cases "cached c k") (auto simp: coherent_def fetch_hit fetch_miss_value)

lemma fetch_coherent: "coherent c \<Longrightarrow> coherent (snd (fetch k c))"
proof (cases "cached c k")
  case None
  assume "coherent c"
  with None show ?thesis
    by (auto simp: coherent_def dest: fetch_miss_store)
next
  case (Some v)
  assume "coherent c"
  with Some show ?thesis by (simp add: fetch_hit)
qed

lemma fetch_again:
  assumes "coherent c" and "load k = Some v"
  shows "fetch k (snd (fetch k c)) = (Some v, snd (fetch k c))"
proof (cases "cached c k")
  case None
  then show ?thesis using assms(2) by (simp add: fetch_hit fetch_miss_kept)
next
  case (Some w)
  with assms show ?thesis by (auto simp: fetch_hit coherent_def)
qed

lemma fetches_are_loads:
  assumes "coherent c"
  shows "coherent (snd (fold (\<lambda>k (rs, c). let (r, c') = fetch k c in (rs @ [r], c')) ks (acc, c)))
    \<and> fst (fold (\<lambda>k (rs, c). let (r, c') = fetch k c in (rs @ [r], c')) ks (acc, c))
        = acc @ map load ks"
  using assms
proof (induction ks arbitrary: acc c)
  case (Cons k ks)
  obtain r c' where f: "fetch k c = (r, c')" by fastforce
  with Cons.prems have "r = load k" and "coherent c'"
    using fetch_is_load [of c k] fetch_coherent [of c k] by simp_all
  with Cons.IH [of c' "acc @ [r]"] f show ?case by simp
qed simp

end

section \<open>Bounded FIFO queues\<close>

locale fifo_queue =
  fixes items :: "'q \<Rightarrow> 'a list"
    and capacity :: "'q \<Rightarrow> nat"
    and offer :: "'a \<Rightarrow> 'q \<Rightarrow> bool \<times> 'q"
    and poll :: "'q \<Rightarrow> 'a option \<times> 'q"
  assumes offer_room: "length (items q) < capacity q \<Longrightarrow>
          fst (offer a q) \<and> items (snd (offer a q)) = items q @ [a]"
    and offer_full: "capacity q \<le> length (items q) \<Longrightarrow> offer a q = (False, q)"
    and offer_capacity: "capacity (snd (offer a q)) = capacity q"
    and poll_empty: "items q = [] \<Longrightarrow> poll q = (None, q)"
    and poll_cons: "items q = a # as \<Longrightarrow> fst (poll q) = Some a \<and> items (snd (poll q)) = as"
    and poll_capacity: "capacity (snd (poll q)) = capacity q"
begin

definition bounded :: "'q \<Rightarrow> bool" where
  "bounded q \<longleftrightarrow> length (items q) \<le> capacity q"

lemma offer_bounded: "bounded q \<Longrightarrow> bounded (snd (offer a q))"
  using offer_room [of q a] offer_full [of q a] offer_capacity [of a q]
  by (cases "length (items q) < capacity q") (auto simp: bounded_def)

lemma poll_bounded: "bounded q \<Longrightarrow> bounded (snd (poll q))"
  using poll_empty [of q] poll_cons [of q] poll_capacity [of q]
  by (cases "items q") (auto simp: bounded_def)

lemma offer_iff_room: "fst (offer a q) \<longleftrightarrow> length (items q) < capacity q"
  using offer_room [of q a] offer_full [of q a] by (cases "length (items q) < capacity q") auto

lemma items_offer: "items (snd (offer a q)) = items q @ (if fst (offer a q) then [a] else [])"
  using offer_room [of q a] offer_full [of q a] by (cases "length (items q) < capacity q") auto

lemma items_poll: "items q = (case fst (poll q) of None \<Rightarrow> [] | Some a \<Rightarrow> [a]) @ items (snd (poll q))"
  using poll_empty [of q] poll_cons [of q] by (cases "items q") auto

lemma poll_none_iff: "fst (poll q) = None \<longleftrightarrow> items q = []"
  using poll_empty [of q] poll_cons [of q] by (cases "items q") auto

end

section \<open>Keyed stores\<close>

text \<open>
  A collection with one document per key: \<open>put\<close> stores a fresh document under its key, \<open>drop_if\<close>
  removes the documents that satisfy a condition on their contents. The contents are then a map, and
  every sequence of operations is the same sequence of updates of this map.
\<close>

locale keyed_store =
  fixes inv :: "'db \<Rightarrow> bool"
    and fresh :: "'v \<Rightarrow> bool"
    and key :: "'v \<Rightarrow> 'k"
    and stable :: "('v \<Rightarrow> bool) \<Rightarrow> bool"
    and get :: "'k \<Rightarrow> 'db \<Rightarrow> 'v option"
    and put :: "'v \<Rightarrow> 'db \<Rightarrow> 'db"
    and drop_if :: "('v \<Rightarrow> bool) \<Rightarrow> 'db \<Rightarrow> 'db"
  assumes inv_put: "inv db \<Longrightarrow> fresh v \<Longrightarrow> inv (put v db)"
    and get_put: "inv db \<Longrightarrow> fresh v \<Longrightarrow> get j (put v db) = (if j = key v then Some v else get j db)"
    and get_drop: "inv db \<Longrightarrow> stable P \<Longrightarrow>
          get j (drop_if P db) = (case get j db of None \<Rightarrow> None | Some v \<Rightarrow> if P v then None else Some v)"
    and inv_drop: "inv db \<Longrightarrow> inv (drop_if P db)"
begin

definition contents :: "'db \<Rightarrow> ('k \<rightharpoonup> 'v)" where
  "contents db = (\<lambda>k. get k db)"

lemma contents_put: "inv db \<Longrightarrow> fresh v \<Longrightarrow> contents (put v db) = (contents db)(key v \<mapsto> v)"
  by (auto simp: contents_def get_put)

lemma contents_drop:
  "inv db \<Longrightarrow> stable P \<Longrightarrow>
     contents (drop_if P db) = (\<lambda>k. case contents db k of None \<Rightarrow> None | Some v \<Rightarrow> if P v then None else Some v)"
  by (rule ext) (simp add: contents_def get_drop)

lemma put_again: "inv db \<Longrightarrow> fresh v \<Longrightarrow> fresh w \<Longrightarrow> key v = key w \<Longrightarrow> contents (put w (put v db)) = contents (put w db)"
  by (simp add: contents_put inv_put)

lemma put_drop:
  "inv db \<Longrightarrow> fresh v \<Longrightarrow> stable P \<Longrightarrow> P v \<Longrightarrow> contents (drop_if P (put v db)) (key v) = None"
  by (simp add: contents_drop contents_put inv_put)

end

section \<open>Queue workers\<close>

text \<open>
  The threads that empty a queue share a contract: a step of the thread takes from the front of
  the queue what it adds to its hand, and what leaves the hand is finished; nothing its
  surroundings do touches the hand. \<open>taken\<close> and \<open>finished\<close> read a list of events. Over any run the
  items taken are then the finished ones followed by the hand.
\<close>

locale queue_worker =
  fixes step :: "'s \<times> 'q \<Rightarrow> 'e list \<Rightarrow> 's \<times> 'q \<Rightarrow> bool"
    and env :: "'s \<Rightarrow> 's \<Rightarrow> bool"
    and hand :: "'s \<Rightarrow> 'm list"
    and items :: "'q \<Rightarrow> 'm list"
    and wf :: "'q \<Rightarrow> bool"
    and taken :: "'e list \<Rightarrow> 'm list"
    and finished :: "'e list \<Rightarrow> 'm list"
  assumes step_takes: "step (s, q) ev (s', q') \<Longrightarrow> wf q \<Longrightarrow> items q = taken ev @ items q' \<and> wf q'"
    and step_hand: "step (s, q) ev (s', q') \<Longrightarrow> wf q \<Longrightarrow> hand s @ taken ev = finished ev @ hand s'"
    and env_hand: "env s s' \<Longrightarrow> hand s' = hand s"
    and taken_append: "taken (xs @ ys) = taken xs @ taken ys"
    and finished_append: "finished (xs @ ys) = finished xs @ finished ys"
begin

definition balanced :: "'e list \<Rightarrow> 's \<Rightarrow> bool" where
  "balanced tr s \<longleftrightarrow> taken tr = finished tr @ hand s"

lemma balanced_step: "balanced tr s \<Longrightarrow> step (s, q) ev (s', q') \<Longrightarrow> wf q \<Longrightarrow> balanced (tr @ ev) s'"
  using step_hand [of s q ev s' q'] by (simp add: balanced_def taken_append finished_append)

lemma balanced_env: "balanced tr s \<Longrightarrow> env s s' \<Longrightarrow> balanced tr s'"
  using env_hand [of s s'] by (simp add: balanced_def)

lemma balanced_length: "balanced tr s \<Longrightarrow> length (finished tr) + length (hand s) = length (taken tr)"
  by (simp add: balanced_def)

end

end
