(* ===== verification/Byte_Util.thy ===== *)
theory Byte_Util
  imports Interfaces
begin

text \<open>
  \<open>util/ByteUtil.java\<close>: the big-endian conversions between \<open>long\<close>/\<open>short\<close>/\<open>int\<close> and byte
  arrays. The Java code goes through \<open>java.nio.ByteBuffer\<close>, whose \<open>putX\<close> writes the most
  significant byte first and whose \<open>getX\<close> reads from the front of the array and raises
  \<open>BufferUnderflowException\<close> when the array is too short.
\<close>

unbundle bit_operations_syntax

section \<open>Big-endian byte lists\<close>

fun be_bytes :: "nat \<Rightarrow> 'a::len word \<Rightarrow> byte list" where
  "be_bytes 0 w = []"
| "be_bytes (Suc n) w = ucast (drop_bit (8 * n) w) # be_bytes n w"

definition be_word :: "byte list \<Rightarrow> 'a::len word" where
  "be_word bs = foldl (\<lambda>acc b. push_bit 8 acc OR ucast b) 0 bs"

lemma length_be_bytes [simp]: "length (be_bytes n w) = n"
  by (induction n) auto

lemma byte_step:
  "push_bit (8 * n) (push_bit 8 acc OR ucast (ucast (drop_bit (8 * n) w) :: byte)) OR take_bit (8 * n) w
     = push_bit (8 * Suc n) acc OR take_bit (8 * Suc n) (w :: 'a::len word)"
  by (rule bit_word_eqI) (auto simp: bit_simps ac_simps)

lemma foldl_be_bytes:
  "foldl (\<lambda>acc b. push_bit 8 acc OR ucast b) acc (be_bytes n w)
     = push_bit (8 * n) acc OR take_bit (8 * n) (w :: 'a::len word)"
proof (induction n arbitrary: acc)
  case (Suc n)
  then show ?case using byte_step [of n acc w] by simp
qed simp

lemma be_word_be_bytes:
  assumes "LENGTH('a) = 8 * n"
  shows "be_word (be_bytes n w) = (w :: 'a::len word)"
proof -
  have "take_bit (8 * n) w = take_bit LENGTH('a) w" by (simp only: assms)
  then show ?thesis by (simp add: be_word_def foldl_be_bytes)
qed

lemma foldl_be_word:
  "foldl (\<lambda>acc b. push_bit 8 acc OR ucast b) acc bs
     = push_bit (8 * length bs) acc OR (be_word bs :: 'a::len word)"
proof (induction bs arbitrary: acc)
  case Nil
  show ?case by (simp add: be_word_def)
next
  case (Cons b bs)
  have "be_word (b # bs) = push_bit (8 * length bs) (ucast b) OR (be_word bs :: 'a word)"
    using Cons.IH [of "ucast b"] by (simp add: be_word_def)
  with Cons.IH [of "push_bit 8 acc OR ucast b"] show ?case
    by (simp add: push_bit_or ac_simps)
qed

lemma be_word_Cons:
  "be_word (b # bs) = push_bit (8 * length bs) (ucast b) OR (be_word bs :: 'a::len word)"
  using foldl_be_word [of "ucast b" bs] by (simp add: be_word_def)

lemma bit_be_word_bound: "bit (be_word bs :: 'a::len word) i \<Longrightarrow> i < 8 * length bs"
proof (induction bs)
  case Nil
  then show ?case by (simp add: be_word_def)
next
  case (Cons b bs)
  then show ?case
    by (auto simp: be_word_Cons bit_simps dest: bit_imp_le_length)
qed

lemma be_bytes_or_high: "k \<le> n \<Longrightarrow> be_bytes k (push_bit (8 * n) v OR w) = be_bytes k w"
proof (induction k)
  case (Suc k)
  have "(ucast (drop_bit (8 * k) (push_bit (8 * n) v OR w)) :: byte) = ucast (drop_bit (8 * k) w)"
    using Suc.prems by (intro bit_word_eqI) (auto simp: bit_simps)
  with Suc show ?case by simp
qed simp

lemma be_bytes_be_word:
  assumes "8 * length bs \<le> LENGTH('a)"
  shows "be_bytes (length bs) (be_word bs :: 'a::len word) = bs"
  using assms
proof (induction bs)
  case (Cons b bs)
  have "(ucast (drop_bit (8 * length bs)
           (push_bit (8 * length bs) (ucast b) OR (be_word bs :: 'a word))) :: byte) = b"
    using Cons.prems
    by (intro bit_word_eqI) (auto simp: bit_simps dest: bit_be_word_bound)
  with Cons show ?case by (simp add: be_word_Cons be_bytes_or_high)
qed (simp add: be_word_def)

section \<open>The conversions\<close>

definition get_be :: "nat \<Rightarrow> byte list \<Rightarrow> 'a::len word result" where
  "get_be n bs = (if length bs < n then Inl BufferUnderflowException else Inr (be_word (take n bs)))"

definition longToBytes :: "jlong \<Rightarrow> byte list" where
  "longToBytes v = be_bytes 8 v"

definition shortToBytes :: "jshort \<Rightarrow> byte list" where
  "shortToBytes v = be_bytes 2 v"

definition bytesToLong :: "byte list \<Rightarrow> jlong result" where
  "bytesToLong bs = get_be 8 bs"

definition bytesToShort :: "byte list \<Rightarrow> jshort result" where
  "bytesToShort bs = get_be 2 bs"

definition bytesToInt :: "byte list \<Rightarrow> jint result" where
  "bytesToInt bs = get_be 4 bs"

text \<open>The inverse of \<open>bytesToInt\<close>; the code has no such method, the log files' writer does.\<close>

definition int_bytes :: "jint \<Rightarrow> byte list" where
  "int_bytes v = be_bytes 4 v"

section \<open>The codec contract\<close>

lemma be_codec:
  assumes "LENGTH('a::len) = 8 * n"
  shows "byte_codec n (be_bytes n :: 'a word \<Rightarrow> byte list) (get_be n)"
proof
  fix w :: "'a word" and rest
  show "get_be n (be_bytes n w @ rest) = Inr w"
    using assms by (simp add: get_be_def be_word_be_bytes)
next
  fix bs and w :: "'a word"
  assume "get_be n bs = Inr w"
  then have "n \<le> length bs" and w: "w = be_word (take n bs)"
    by (auto simp: get_be_def split: if_splits)
  then have len: "length (take n bs) = n" by simp
  then show "take n bs = be_bytes n w"
    using be_bytes_be_word [of "take n bs", where 'a = 'a] assms by (simp add: w len)
qed (simp_all add: get_be_def)

interpretation long_codec: byte_codec 8 longToBytes bytesToLong
proof -
  have "byte_codec 8 (be_bytes 8 :: jlong \<Rightarrow> byte list) (get_be 8)" by (rule be_codec) simp
  then show "byte_codec 8 longToBytes bytesToLong"
    by (simp add: longToBytes_def [abs_def] bytesToLong_def [abs_def])
qed

interpretation short_codec: byte_codec 2 shortToBytes bytesToShort
proof -
  have "byte_codec 2 (be_bytes 2 :: jshort \<Rightarrow> byte list) (get_be 2)" by (rule be_codec) simp
  then show "byte_codec 2 shortToBytes bytesToShort"
    by (simp add: shortToBytes_def [abs_def] bytesToShort_def [abs_def])
qed

interpretation int_codec: byte_codec 4 int_bytes bytesToInt
proof -
  have "byte_codec 4 (be_bytes 4 :: jint \<Rightarrow> byte list) (get_be 4)" by (rule be_codec) simp
  then show "byte_codec 4 int_bytes bytesToInt"
    by (simp add: int_bytes_def [abs_def] bytesToInt_def [abs_def])
qed

lemmas codec_simps =
  long_codec.length_put short_codec.length_put int_codec.length_put
  long_codec.get_put short_codec.get_put int_codec.get_put
  long_codec.get_put_exact short_codec.get_put_exact int_codec.get_put_exact

end
