(* ===== verification/Native_Security.thy ===== *)
theory Native_Security
  imports Byte_Util
begin

text \<open>
  \<open>native/interface.c\<close>: the JNI function behind \<open>CryptoTool.security\<close>, which derives an AES key
  and an IV from a pass phrase with OpenSSL's \<open>EVP_BytesToKey\<close> and wraps them in a
  \<open>Certificate\<close>. OpenSSL itself is not part of the repository (only its headers are): its three
  functions are the fields of the parameter record \<open>openssl\<close>. What the C function keeps or
  leaves behind is explicit: the two globals, whether the algorithm table is loaded, how many
  UTF strings of the JVM are pinned, and the contents of the two stack buffers, which are not
  initialised before the call.
\<close>

section \<open>State\<close>

definition EVP_MAX_KEY_LENGTH :: nat where "EVP_MAX_KEY_LENGTH = 64"
definition EVP_MAX_IV_LENGTH :: nat where "EVP_MAX_IV_LENGTH = 16"

record certificate =
  cert_key :: "byte list"
  cert_iv :: "byte list"

record ('c, 'd) openssl =
  ossl_cipherbyname :: "string \<Rightarrow> 'c option"
  ossl_digestbyname :: "string \<Rightarrow> 'd option"
  ossl_bytes_to_key :: "'c \<Rightarrow> 'd \<Rightarrow> byte list option \<Rightarrow> byte list \<Rightarrow> jint \<Rightarrow> jint
     \<Rightarrow> byte list \<Rightarrow> byte list \<Rightarrow> jint \<times> byte list \<times> byte list"

record ('c, 'd) native_state =
  global_cipher :: "'c option"
  global_dgst :: "'d option"
  global_salt :: "byte list option"
  table_loaded :: bool
  pinned_strings :: nat

text \<open>
  \<open>key\<close> and \<open>iv\<close> arrive as whatever the stack holds. \<open>SetByteArrayRegion\<close> copies the first
  64 and 16 bytes into the Java arrays, and the constructor of \<open>Certificate\<close> keeps them.
\<close>

definition native_security ::
  "('c, 'd) openssl \<Rightarrow> byte list \<Rightarrow> jint \<Rightarrow> byte list \<Rightarrow> byte list
   \<Rightarrow> ('c, 'd) native_state \<Rightarrow> certificate option \<times> ('c, 'd) native_state" where
  "native_security ossl key_char key_len stack_key stack_iv s =
     (let s1 = s\<lparr>table_loaded := True,
                 global_cipher := ossl_cipherbyname ossl ''aes-256-cbc'',
                 global_dgst := ossl_digestbyname ossl ''md5''\<rparr>
      in case global_cipher s1 of
           None \<Rightarrow> (None, s1)
         | Some c \<Rightarrow>
             (case global_dgst s1 of
                None \<Rightarrow> (None, s1)
              | Some d \<Rightarrow>
                  (let s2 = s1\<lparr>pinned_strings := Suc (pinned_strings s1)\<rparr>;
                       (ok, key, iv) = ossl_bytes_to_key ossl c d (global_salt s2) key_char key_len 1
                                         stack_key stack_iv;
                       v = (if ok \<noteq> 0
                            then Some \<lparr>cert_key = take EVP_MAX_KEY_LENGTH key,
                                       cert_iv = take EVP_MAX_IV_LENGTH iv\<rparr>
                            else None)
                   in (v, s2\<lparr>pinned_strings := pinned_strings s2 - 1, table_loaded := False\<rparr>))))"

section \<open>What OpenSSL documents\<close>

text \<open>
  \<open>EVP_BytesToKey(3)\<close>: \<open>D_1 = HASH^count(data || salt)\<close>, \<open>D_i = HASH^count(D_(i-1) || data ||
  salt)\<close>; the first bytes of \<open>D_1 || D_2 || ...\<close> are the key, the next ones the IV. With MD5
  (16 bytes) and AES-256-CBC (32 and 16 bytes) that is \<open>D_1 || D_2\<close> and \<open>D_3\<close>. It writes
  exactly these bytes of the two buffers.
\<close>

definition derive_block :: "(byte list \<Rightarrow> byte list) \<Rightarrow> byte list \<Rightarrow> byte list \<Rightarrow> byte list" where
  "derive_block md5 prev data = md5 (prev @ data)"

definition derived_key :: "(byte list \<Rightarrow> byte list) \<Rightarrow> byte list \<Rightarrow> byte list" where
  "derived_key md5 data =
     (let d1 = derive_block md5 [] data; d2 = derive_block md5 d1 data in d1 @ d2)"

definition derived_iv :: "(byte list \<Rightarrow> byte list) \<Rightarrow> byte list \<Rightarrow> byte list" where
  "derived_iv md5 data =
     (let d1 = derive_block md5 [] data; d2 = derive_block md5 d1 data in derive_block md5 d2 data)"

definition evp_documented :: "('c, 'd) openssl \<Rightarrow> 'c \<Rightarrow> 'd \<Rightarrow> (byte list \<Rightarrow> byte list) \<Rightarrow> bool" where
  "evp_documented ossl c d md5 \<longleftrightarrow>
     ossl_cipherbyname ossl ''aes-256-cbc'' = Some c \<and> ossl_digestbyname ossl ''md5'' = Some d
     \<and> (\<forall>bs. length (md5 bs) = 16)
     \<and> (\<forall>data n kb ib. 0 \<le> sint n \<longrightarrow> nat (sint n) \<le> length data \<longrightarrow>
          32 \<le> length kb \<longrightarrow> 16 \<le> length ib \<longrightarrow>
          ossl_bytes_to_key ossl c d None data n 1 kb ib =
            (32, derived_key md5 (take (nat (sint n)) data) @ drop 32 kb,
             derived_iv md5 (take (nat (sint n)) data) @ drop 16 ib))"

lemma length_derived_key: "(\<forall>bs. length (md5 bs) = 16) \<Longrightarrow> length (derived_key md5 data) = 32"
  by (simp add: derived_key_def derive_block_def Let_def)

lemma length_derived_iv: "(\<forall>bs. length (md5 bs) = 16) \<Longrightarrow> length (derived_iv md5 data) = 16"
  by (simp add: derived_iv_def derive_block_def Let_def)

lemma native_security_ok:
  assumes "evp_documented ossl c d md5" and "global_salt s = None"
    and "length stack_key = EVP_MAX_KEY_LENGTH" and "length stack_iv = EVP_MAX_IV_LENGTH"
    and "0 \<le> sint n" and "nat (sint n) \<le> length data"
  shows "native_security ossl data n stack_key stack_iv s =
    (Some \<lparr>cert_key = derived_key md5 (take (nat (sint n)) data) @ drop 32 stack_key,
           cert_iv = derived_iv md5 (take (nat (sint n)) data)\<rparr>,
     s\<lparr>global_cipher := Some c, global_dgst := Some d, table_loaded := False\<rparr>)"
proof -
  have md5: "\<forall>bs. length (md5 bs) = 16" and c: "ossl_cipherbyname ossl ''aes-256-cbc'' = Some c"
    and d: "ossl_digestbyname ossl ''md5'' = Some d"
    using assms(1) by (simp_all add: evp_documented_def)
  have call: "ossl_bytes_to_key ossl c d None data n 1 stack_key stack_iv =
      (32, derived_key md5 (take (nat (sint n)) data) @ drop 32 stack_key,
       derived_iv md5 (take (nat (sint n)) data) @ drop 16 stack_iv)"
    using assms by (simp add: evp_documented_def EVP_MAX_KEY_LENGTH_def EVP_MAX_IV_LENGTH_def)
  show ?thesis
    using assms(2-4) length_derived_key [OF md5] length_derived_iv [OF md5]
    by (simp add: native_security_def c d call Let_def EVP_MAX_KEY_LENGTH_def EVP_MAX_IV_LENGTH_def)
qed

section \<open>Properties\<close>

text \<open>
  Claim C12. With OpenSSL as documented, the certificate's first 32 key bytes and its IV are the
  derived AES-256 key and IV of the pass phrase, whatever was on the stack; the other 32 bytes of
  the key array are the stack's old contents (the C code hands uninitialised memory to Java).
\<close>

theorem native_security_derives:
  assumes "evp_documented ossl c d md5" and "global_salt s = None"
    and "length stack_key = EVP_MAX_KEY_LENGTH" and "length stack_iv = EVP_MAX_IV_LENGTH"
    and "0 \<le> sint n" and "nat (sint n) \<le> length data"
  shows "\<exists>cert. fst (native_security ossl data n stack_key stack_iv s) = Some cert
    \<and> take 32 (cert_key cert) = derived_key md5 (take (nat (sint n)) data)
    \<and> drop 32 (cert_key cert) = drop 32 stack_key
    \<and> cert_iv cert = derived_iv md5 (take (nat (sint n)) data)"
proof -
  have "\<forall>bs. length (md5 bs) = 16" using assms(1) by (simp add: evp_documented_def)
  then show ?thesis
    using length_derived_key [of md5] by (simp add: native_security_ok [OF assms])
qed

definition sample_md5 :: "byte list \<Rightarrow> byte list" where
  "sample_md5 bs = replicate 16 (of_nat (length bs))"

definition sample_openssl :: "(unit, unit) openssl" where
  "sample_openssl = \<lparr>ossl_cipherbyname = (\<lambda>n. if n = ''aes-256-cbc'' then Some () else None),
     ossl_digestbyname = (\<lambda>n. if n = ''md5'' then Some () else None),
     ossl_bytes_to_key = (\<lambda>c d salt data n count kb ib.
       let t = take (nat (sint n)) data
       in (32, derived_key sample_md5 t @ drop 32 kb, derived_iv sample_md5 t @ drop 16 ib))\<rparr>"

definition fresh_native :: "(unit, unit) native_state" where
  "fresh_native = \<lparr>global_cipher = None, global_dgst = None, global_salt = None,
     table_loaded = False, pinned_strings = 0\<rparr>"

lemma sample_documented: "evp_documented sample_openssl () () sample_md5"
  by (simp add: evp_documented_def sample_openssl_def sample_md5_def Let_def)

theorem native_security_derives_witness:
  "evp_documented sample_openssl () () sample_md5 \<and>
   (\<exists>cert. fst (native_security sample_openssl [1, 2] 2 (replicate 64 7) (replicate 16 9) fresh_native) = Some cert
     \<and> drop 32 (cert_key cert) = replicate 32 7)"
  using native_security_derives [OF sample_documented, of fresh_native "replicate 64 7" "replicate 16 9" 2 "[1, 2]"]
  by (auto simp: sample_documented fresh_native_def EVP_MAX_KEY_LENGTH_def EVP_MAX_IV_LENGTH_def)

text \<open>
  Resources of the native call: whatever OpenSSL answers, the number of pinned JVM
  strings is unchanged (every \<open>GetStringUTFChars\<close> has its \<open>ReleaseStringUTFChars\<close>); the
  algorithm table is released exactly when both look-ups succeeded, so the two early returns
  leak it; and no certificate is returned on an early return.
\<close>

theorem native_security_resources:
  fixes ossl :: "('c, 'd) openssl"
  shows "pinned_strings (snd (native_security ossl data n sk si s)) = pinned_strings s
    \<and> (table_loaded (snd (native_security ossl data n sk si s)) \<longleftrightarrow>
         ossl_cipherbyname ossl ''aes-256-cbc'' = None \<or> ossl_digestbyname ossl ''md5'' = None)
    \<and> (fst (native_security ossl data n sk si s) = None
         \<or> (\<exists>c d. ossl_cipherbyname ossl ''aes-256-cbc'' = Some c
                   \<and> ossl_digestbyname ossl ''md5'' = Some d))
    \<and> global_salt (snd (native_security ossl data n sk si s)) = global_salt s"
  by (auto simp: native_security_def Let_def split: option.splits prod.splits)

end
