(* ===== verification/String_Util.thy ===== *)
theory String_Util
  imports Byte_Util
begin

text \<open>
  \<open>Constants.java\<close>, \<open>util/StringUtil.java\<close> and \<open>util/VersionUtil.java\<close>: the log levels,
  the platforms, the attachment key, the decryption-error test and the time-to-live parser.
  \<open>DigestUtils.md5Hex\<close> (commons-codec) is the parameter \<open>md5hex\<close> of \<open>attachmentKey\<close>.
\<close>

section \<open>Constants\<close>

definition VERBOSE :: jint where "VERBOSE = 1"
definition DEBUG :: jint where "DEBUG = 2"
definition INFO :: jint where "INFO = 3"
definition WARN :: jint where "WARN = 4"
definition ERROR :: jint where "ERROR = 5"
definition EXCEPTION :: jint where "EXCEPTION = 6"
definition FATAL :: jint where "FATAL = 7"

definition CACHE_DIR :: string where "CACHE_DIR = ''cache''"
definition ERROR_DIR :: string where "ERROR_DIR = ''error''"
definition CRASH_REPORT_DIR :: string where "CRASH_REPORT_DIR = ''crash''"
definition LOG_FILE_TEMP_DIR :: string where "LOG_FILE_TEMP_DIR = ''temp''"
definition WEED_TEMP_DIR :: string where "WEED_TEMP_DIR = ''weed''"
definition CRYPTO_ERROR :: string where "CRYPTO_ERROR = ''CRYPTO_ERROR''"
definition DEFAULT_GRAY_LEVEL :: jint where "DEFAULT_GRAY_LEVEL = 100"
definition PLATFORM_ALL :: jint where "PLATFORM_ALL = 0"
definition PLATFORM_ANDROID :: jint where "PLATFORM_ANDROID = 1"
definition PLATFORM_IOS :: jint where "PLATFORM_IOS = 2"
definition LOG_FILE_EXTENSION :: string where "LOG_FILE_EXTENSION = ''txt''"

lemmas platform_defs = PLATFORM_ALL_def PLATFORM_ANDROID_def PLATFORM_IOS_def
lemmas level_defs = VERBOSE_def DEBUG_def INFO_def WARN_def ERROR_def EXCEPTION_def FATAL_def

definition API_VERSION_V1 :: jint where "API_VERSION_V1 = 1"
definition API_VERSION_V2 :: jint where "API_VERSION_V2 = 2"

definition version :: "string \<Rightarrow> jint" where
  "version versionString = API_VERSION_V1"

section \<open>Levels and platforms\<close>

definition level :: "string \<Rightarrow> jint" where
  "level s =
     (if equals_ignore_case s ''verbose'' then 1
      else if equals_ignore_case s ''debug'' then 2
      else if equals_ignore_case s ''info'' then 3
      else if equals_ignore_case s ''warn'' then 4
      else if equals_ignore_case s ''error'' then 5
      else if equals_ignore_case s ''exception'' then 6
      else if equals_ignore_case s ''fatal'' then 7
      else 1)"

definition levelString :: "jint \<Rightarrow> string" where
  "levelString l =
     (if l = 1 then ''verbose''
      else if l = 2 then ''debug''
      else if l = 3 then ''info''
      else if l = 4 then ''warn''
      else if l = 5 then ''error''
      else if l = 6 then ''exception''
      else if l = 7 then ''fatal''
      else ''verbose'')"

definition platformNumber :: "string \<Rightarrow> jint" where
  "platformNumber s =
     (if equals_ignore_case s ''android'' then PLATFORM_ANDROID
      else if equals_ignore_case s ''iOS'' then PLATFORM_IOS
      else 0)"

definition platformString :: "jint \<Rightarrow> string" where
  "platformString p =
     (if p = PLATFORM_ANDROID then ''android''
      else if p = PLATFORM_IOS then ''iOS''
      else ''unknown'')"

lemmas name_defs = level_def levelString_def platformNumber_def platformString_def platform_defs
lemmas case_defs = equals_ignore_case_def to_lower_case_def lower_char_def is_upper_latin1_def

lemma level_ignores_case: "level (to_lower_case s) = level s"
proof -
  have idem: "lower_char (lower_char c) = lower_char c" for c
  proof -
    have "is_upper_latin1 (of_char c) \<Longrightarrow>
        (of_char c :: nat) + 32 < 256 \<and> \<not> is_upper_latin1 (of_char c + 32)"
      by (auto simp: is_upper_latin1_def)
    then show ?thesis by (auto simp: lower_char_def)
  qed
  have "to_lower_case (to_lower_case s) = to_lower_case s"
    by (simp add: to_lower_case_def idem)
  then show ?thesis by (simp add: level_def equals_ignore_case_def)
qed

lemma level_levelString_small:
  "level ''verbose'' = 1" "level ''debug'' = 2" "level ''info'' = 3" "level ''warn'' = 4"
  "level ''error'' = 5" "level ''exception'' = 6" "level ''fatal'' = 7"
  by (simp_all add: level_def case_defs)

lemma level_range: "level s \<in> {1, 2, 3, 4, 5, 6, 7}"
  by (simp add: level_def)

lemma levelString_level: "level (levelString l) = (if 1 \<le> l \<and> l \<le> 7 then l else 1)"
proof (cases "l \<in> {1, 2, 3, 4, 5, 6, 7}")
  case True
  then show ?thesis by (auto simp: levelString_def level_levelString_small)
next
  case False
  have "1 \<le> l \<and> l \<le> 7 \<Longrightarrow> l \<in> {1, 2, 3, 4, 5, 6, 7}"
  proof -
    assume b: "1 \<le> l \<and> l \<le> 7"
    then have "1 \<le> unat l" "unat l \<le> 7" by (simp_all add: word_le_nat_alt)
    then have "unat l \<in> {1, 2, 3, 4, 5, 6, 7}" by auto
    then show ?thesis by (auto simp: word_unat_eq_iff)
  qed
  with False show ?thesis by (auto simp: levelString_def level_levelString_small)
qed

text \<open>
  The level names and the level numbers are inverse to each other: for a number from 1
  to 7, \<open>level(levelString(l))\<close> gives it back and every other number falls back to verbose
  (1); \<open>level\<close> is case-insensitive and always a number from 1 to 7.
\<close>

theorem level_names_roundtrip:
  "level (levelString l) = (if 1 \<le> l \<and> l \<le> 7 then l else VERBOSE)
   \<and> level (to_lower_case s) = level s
   \<and> level s \<in> {VERBOSE, DEBUG, INFO, WARN, ERROR, EXCEPTION, FATAL}"
  using levelString_level [of l] level_ignores_case [of s] level_range [of s]
  by (simp add: level_defs)

lemma platform_roundtrip:
  "platformNumber (platformString p) = (if p \<in> {PLATFORM_ANDROID, PLATFORM_IOS} then p else PLATFORM_ALL)"
proof -
  have names: "platformNumber ''android'' = 1" "platformNumber ''iOS'' = 2" "platformNumber ''unknown'' = 0"
    by (simp_all add: platformNumber_def platform_defs case_defs)
  show ?thesis by (simp add: platformString_def platform_defs names)
qed

section \<open>Attachment keys\<close>

text \<open>
  \<open>String.valueOf(platform) + "-" + uid + "-" + appId.toLowerCase() + "-" + attachmentId\<close>:
  a \<open>null\<close> operand of \<open>+\<close> prints as \<open>null\<close>; the method call on \<open>appId\<close> raises.
\<close>

definition null_str :: "string option \<Rightarrow> string" where
  "null_str x = (case x of None \<Rightarrow> ''null'' | Some s \<Rightarrow> s)"

definition attachment_text :: "jint \<Rightarrow> string option \<Rightarrow> string option \<Rightarrow> string option \<Rightarrow> string result" where
  "attachment_text platform uid appId attachmentId =
     (case appId of
        None \<Rightarrow> Inl NullPointerException
      | Some a \<Rightarrow> Inr (show_int (sint platform) @ ''-'' @ null_str uid @ ''-'' @ to_lower_case a
                        @ ''-'' @ null_str attachmentId))"

definition attachmentKey ::
  "(string \<Rightarrow> string) \<Rightarrow> jint \<Rightarrow> string option \<Rightarrow> string option \<Rightarrow> string option \<Rightarrow> string result" where
  "attachmentKey md5hex platform uid appId attachmentId =
     bind_result (attachment_text platform uid appId attachmentId) (\<lambda>t. Inr (md5hex t))"

lemma append_dash_inj:
  assumes "CHR ''-'' \<notin> set a" and "CHR ''-'' \<notin> set b"
    and "a @ CHR ''-'' # xs = b @ CHR ''-'' # ys"
  shows "a = b \<and> xs = ys"
  using assms
proof (induction a arbitrary: b)
  case Nil
  then show ?case by (cases b) auto
next
  case (Cons c a)
  then show ?case by (cases b) auto
qed

definition dash_free :: "string \<Rightarrow> bool" where
  "dash_free s \<longleftrightarrow> CHR ''-'' \<notin> set s"

lemma dash_free_lower: "dash_free (to_lower_case s) \<longleftrightarrow> dash_free s"
proof -
  have "lower_char c = CHR ''-'' \<longleftrightarrow> c = CHR ''-''" for c
  proof -
    have "of_char c + 32 < (256::nat)" if "is_upper_latin1 (of_char c)"
      using that by (auto simp: is_upper_latin1_def)
    then have up: "of_char (lower_char c) = of_char c + (32::nat)" if "is_upper_latin1 (of_char c)"
      using that by (simp add: lower_char_def)
    show ?thesis
    proof (cases "is_upper_latin1 (of_char c)")
      case True
      have "lower_char c \<noteq> CHR ''-''"
      proof
        assume "lower_char c = CHR ''-''"
        then have "of_char c + 32 = (45::nat)" using up [OF True] by simp
        with True show False by (auto simp: is_upper_latin1_def)
      qed
      moreover have "c \<noteq> CHR ''-''" using True by (auto simp: is_upper_latin1_def)
      ultimately show ?thesis by simp
    next
      case False
      then show ?thesis by (simp add: lower_char_def)
    qed
  qed
  then have "CHR ''-'' \<in> lower_char ` set s \<longleftrightarrow> CHR ''-'' \<in> set s" by (metis image_iff)
  then show ?thesis by (simp add: dash_free_def to_lower_case_def)
qed

lemma dash_free_show_nonneg: "0 \<le> v \<Longrightarrow> CHR ''-'' \<notin> set (show_int v)"
  by (simp add: show_int_def show_nat_no_char)

text \<open>
  For the platforms the code knows, and identifiers without a dash, two uploads get
  the same attachment key text only if they agree on the platform, on the user id and on the
  attachment id, and on the application id up to case: the keys of different attachments
  differ as far as the hash separates different texts.
\<close>

theorem attachment_text_injective:
  assumes "0 \<le> sint p" and "0 \<le> sint q"
    and "dash_free u" and "dash_free v" and "dash_free a" and "dash_free b"
    and "attachment_text p (Some u) (Some a) (Some i) = attachment_text q (Some v) (Some b) (Some j)"
  shows "p = q \<and> u = v \<and> equals_ignore_case a b \<and> i = j"
proof -
  from assms(7) have eq:
    "show_int (sint p) @ CHR ''-'' # u @ CHR ''-'' # to_lower_case a @ CHR ''-'' # i
     = show_int (sint q) @ CHR ''-'' # v @ CHR ''-'' # to_lower_case b @ CHR ''-'' # j"
    by (simp add: attachment_text_def null_str_def)
  from append_dash_inj [OF dash_free_show_nonneg [OF assms(1)] dash_free_show_nonneg [OF assms(2)] eq]
  have pq: "show_int (sint p) = show_int (sint q)"
    and rest: "u @ CHR ''-'' # to_lower_case a @ CHR ''-'' # i
      = v @ CHR ''-'' # to_lower_case b @ CHR ''-'' # j" by simp_all
  from pq have p: "p = q" by (metis show_int_inj signed_word_eqI)
  from append_dash_inj [OF _ _ rest] assms(3,4)
  have u: "u = v" and rest': "to_lower_case a @ CHR ''-'' # i = to_lower_case b @ CHR ''-'' # j"
    by (simp_all add: dash_free_def)
  have "CHR ''-'' \<notin> set (to_lower_case a)" "CHR ''-'' \<notin> set (to_lower_case b)"
    using assms(5,6) dash_free_lower by (simp_all add: dash_free_def)
  from append_dash_inj [OF this rest'] p u show ?thesis by (simp add: equals_ignore_case_def)
qed

theorem attachment_text_injective_witness:
  "attachment_text 1 (Some ''u'') (Some ''App'') (Some ''7'')
     = attachment_text 1 (Some ''u'') (Some ''aPP'') (Some ''7'') \<and> equals_ignore_case ''App'' ''aPP''"
proof -
  have eq: "attachment_text 1 (Some ''u'') (Some ''App'') (Some ''7'')
     = attachment_text 1 (Some ''u'') (Some ''aPP'') (Some ''7'')"
    by code_simp
  then show ?thesis
    using attachment_text_injective [of 1 1 "''u''" "''u''" "''App''" "''aPP''" "''7''" "''7''"]
    by (simp add: dash_free_def)
qed

text \<open>
  The dashes are not escaped, so the hypothesis on them is needed: two different users and
  applications share a key.
\<close>

lemma attachment_text_collision:
  "attachment_text 1 (Some ''a-b'') (Some ''c'') (Some ''7'')
     = attachment_text 1 (Some ''a'') (Some ''b-c'') (Some ''7'')"
  by (simp add: attachment_text_def null_str_def case_defs)

section \<open>Decryption errors and the time to live\<close>

definition decryptError :: "string option \<Rightarrow> bool" where
  "decryptError message \<longleftrightarrow> is_empty_str message \<or> message = Some CRYPTO_ERROR"

definition SECONDS_PER_DAY :: jlong where "SECONDS_PER_DAY = 24 * 3600"

text \<open>
  \<open>durationToSecond\<close>: the number is the text up to the last character, the unit is the last
  character. The arithmetic is on \<open>long\<close>, that is on 64-bit words.
\<close>

definition unit_seconds :: "string \<Rightarrow> jlong option" where
  "unit_seconds u =
     (if u = ''m'' then Some 60
      else if u = ''h'' then Some 3600
      else if u = ''d'' then Some SECONDS_PER_DAY
      else if u = ''w'' then Some (7 * SECONDS_PER_DAY)
      else if u = ''M'' then Some (30 * SECONDS_PER_DAY)
      else if u = ''y'' then Some (360 * SECONDS_PER_DAY)
      else None)"

definition durationToSecond :: "string option \<Rightarrow> jlong result" where
  "durationToSecond ttl =
     (case ttl of
        None \<Rightarrow> Inl (IllegalArgumentException ''No ttl specify!'')
      | Some s \<Rightarrow>
          if s = [] then Inl (IllegalArgumentException ''No ttl specify!'')
          else
            (let value = take (length s - 1) s; unit = drop (length s - 1) s in
             case parse_int value of
               None \<Rightarrow> Inl (IllegalArgumentException ''Value format error!'')
             | Some v \<Rightarrow>
                 (case unit_seconds unit of
                    None \<Rightarrow> Inl (IllegalArgumentException ''Unknown unit!'')
                  | Some f \<Rightarrow> Inr (word_of_int v * f))))"

lemma unit_seconds_range: "unit_seconds u = Some f \<Longrightarrow> 0 < uint f \<and> uint f \<le> 31104000"
  by (auto simp: unit_seconds_def SECONDS_PER_DAY_def split: if_splits)

lemma sint_product_exact:
  assumes "- (2 ^ 31) \<le> v" and "v < 2 ^ 31" and "0 < uint f" and "uint f \<le> 31104000"
  shows "sint (word_of_int v * f :: jlong) = v * uint f"
proof -
  have "\<bar>v * uint f\<bar> \<le> 2 ^ 31 * 31104000"
  proof -
    have "\<bar>v\<bar> \<le> 2 ^ 31" using assms(1,2) by linarith
    moreover have "\<bar>uint f\<bar> \<le> 31104000" using assms(3,4) by linarith
    ultimately show ?thesis by (simp only: abs_mult) (rule mult_mono; simp)
  qed
  then have b: "- (2 ^ 63) \<le> v * uint f \<and> v * uint f < 2 ^ 63"
    by (auto simp: abs_le_iff)
  have "word_of_int v * f = (word_of_int (v * uint f) :: jlong)"
    by (metis wi_hom_mult word_of_int_uint)
  also have "sint \<dots> = v * uint f"
    by (rule sint_word_of_int_exact) (use b in simp_all)
  finally show ?thesis .
qed

lemma duration_value_exact:
  assumes "parse_int p = Some v" and "unit_seconds u = Some f"
  shows "sint (word_of_int v * f :: jlong) = v * uint f"
  using parse_ranged_bounds [OF assms(1)] unit_seconds_range [OF assms(2)]
  by (intro sint_product_exact) simp_all

text \<open>
  Claim C35. \<open>durationToSecond\<close> reads exactly the texts it should: it returns \<open>r\<close> if and only
  if the text is the decimal numeral of an \<open>int\<close> \<open>v\<close> followed by one known unit letter, and
  then \<open>r\<close>, as a signed \<open>long\<close>, is the exact product of \<open>v\<close> and the seconds of the unit (the
  multiplication never overflows). Every other text raises \<open>IllegalArgumentException\<close>, never
  another exception.
\<close>

theorem duration_correct:
  "(durationToSecond ttl = Inr r \<longleftrightarrow>
      (\<exists>p u v f. ttl = Some (p @ [u]) \<and> parse_int p = Some v \<and> unit_seconds [u] = Some f
                 \<and> sint r = v * uint f))
   \<and> ((\<exists>m. durationToSecond ttl = Inl (IllegalArgumentException m)) \<or> (\<exists>q. durationToSecond ttl = Inr q))"
proof (cases ttl)
  case None
  then show ?thesis by (simp add: durationToSecond_def)
next
  case (Some s)
  show ?thesis
  proof (cases s rule: rev_cases)
    case Nil
    with Some show ?thesis by (simp add: durationToSecond_def)
  next
    case (snoc p u)
    have eval: "durationToSecond (Some (p @ [u])) = (case parse_int p of
           None \<Rightarrow> Inl (IllegalArgumentException ''Value format error!'')
         | Some v \<Rightarrow> (case unit_seconds [u] of
               None \<Rightarrow> Inl (IllegalArgumentException ''Unknown unit!'')
             | Some f \<Rightarrow> Inr (word_of_int v * f)))"
      by (simp add: durationToSecond_def Let_def)
    have "word_of_int v * f = r \<longleftrightarrow> sint r = v * uint f"
      if "parse_int p = Some v" "unit_seconds [u] = Some f" for v f
      using duration_value_exact [OF that] by (metis signed_word_eqI)
    then show ?thesis
      unfolding Some snoc by (auto simp: eval split: option.splits)
  qed
qed

text \<open>The decimal text of any \<open>int\<close> and a unit letter is such a text.\<close>

lemma duration_of_decimal:
  assumes "- (2 ^ 31) \<le> v" and "v < 2 ^ 31" and "unit_seconds [u] = Some f"
  shows "durationToSecond (Some (show_int v @ [u])) = Inr (word_of_int v * f)"
proof -
  have "parse_int (show_int v) = Some v"
    using assms(1,2) by (intro parse_ranged_show_int) simp_all
  then show ?thesis by (simp add: durationToSecond_def Let_def assms(3))
qed

lemma duration_result_range:
  assumes "durationToSecond ttl = Inr r"
  shows "\<bar>sint r\<bar> \<le> 2 ^ 31 * 31104000"
proof -
  from assms obtain p u v f where v: "parse_int p = Some v" and f: "unit_seconds u = Some f"
    and r: "r = word_of_int v * f"
    by (auto simp: durationToSecond_def Let_def split: option.splits if_splits)
  have "\<bar>v\<bar> \<le> 2 ^ 31" using parse_ranged_bounds [OF v] by (auto simp: abs_le_iff)
  moreover have "\<bar>uint f\<bar> \<le> 31104000" using unit_seconds_range [OF f] by linarith
  ultimately have "\<bar>v * uint f\<bar> \<le> 2 ^ 31 * 31104000"
    by (simp only: abs_mult) (rule mult_mono; simp)
  then show ?thesis using duration_value_exact [OF v f] by (simp add: r)
qed

end
