(* ===== verification/Log_File_Parser.thy ===== *)
theory Log_File_Parser
  imports String_Util
begin

text \<open>
  \<open>parse/LogFileParser.java\<close>: the binary log-file format. A file is a sequence of records,
  each made of length-prefixed fields (time, tag, message, layout id), a 16-bit mark (-100 for
  the end of the record, 4 before a 4-byte attachment id that a second mark ends). The loop of
  \<open>parse\<close> reads record after record; a short read ends it with \<open>successful = false\<close>, an
  exception ends it and leaves \<open>successful\<close> as it was.

  The stream is the rest of the bytes with a flag that says whether reading past the end finds
  a fault (a corrupt gzip stream) or the end of the file. \<open>CryptoTool.AESDecrypt\<close> is the
  parameter \<open>dec\<close>, the listener is a pair of state-passing functions.
\<close>

section \<open>The input stream\<close>

record in_stream =
  in_data :: "byte list"
  in_fault :: bool

text \<open>
  \<open>BufferedInputStream.read(byte[])\<close> over a \<open>GZIPInputStream\<close>: fills the array or stops at the
  end of the stream; -1 at the end when nothing was read; 0 for an empty array. The unread part
  of the array keeps its initial zeros.
\<close>

definition read_chunk :: "nat \<Rightarrow> in_stream \<Rightarrow> (int \<times> byte list \<times> in_stream) result" where
  "read_chunk n s =
     (if n = 0 then Inr (0, [], s)
      else if n \<le> length (in_data s)
        then Inr (int n, take n (in_data s), s\<lparr>in_data := drop n (in_data s)\<rparr>)
      else if in_fault s then Inl IOException
      else if in_data s = [] then Inr (-1, replicate n 0, s)
      else Inr (int (length (in_data s)), in_data s @ replicate (n - length (in_data s)) 0,
                s\<lparr>in_data := []\<rparr>))"

text \<open>
  How a part of the loop body ends: with a value and the rest of the stream, with a
  \<open>break\<close> that leaves \<open>successful\<close> at the given value, or with an exception.
\<close>

datatype 'a step =
    Next 'a in_stream
  | Break bool
  | Throw exn

fun bind_step :: "'a step \<Rightarrow> ('a \<Rightarrow> in_stream \<Rightarrow> 'b step) \<Rightarrow> 'b step" where
  "bind_step (Next a s) f = f a s"
| "bind_step (Break b) f = Break b"
| "bind_step (Throw e) f = Throw e"

fun lift_step :: "'a result \<Rightarrow> in_stream \<Rightarrow> 'a step" where
  "lift_step (Inl e) s = Throw e"
| "lift_step (Inr a) s = Next a s"

text \<open>
  \<open>int bytesRead = in.read(chunk); if (bytesRead != n) { successful = false; break; }\<close>
\<close>

definition read_exact :: "nat \<Rightarrow> in_stream \<Rightarrow> byte list step" where
  "read_exact n s =
     (case read_chunk n s of
        Inl e \<Rightarrow> Throw e
      | Inr (k, chunk, s') \<Rightarrow> if k \<noteq> int n then Break False else Next chunk s')"

text \<open>\<open>new byte[length]\<close> for a \<open>short\<close> length, then the read of that many bytes.\<close>

definition read_body :: "jshort \<Rightarrow> in_stream \<Rightarrow> byte list step" where
  "read_body len s =
     (if sint len < 0 then Throw NegativeArraySizeException else read_exact (nat (sint len)) s)"

definition read_field :: "in_stream \<Rightarrow> byte list step" where
  "read_field s =
     bind_step (read_exact 2 s) (\<lambda>chunk s1.
     bind_step (lift_step (bytesToShort chunk) s1) (\<lambda>len s2.
     read_body len s2))"

section \<open>The loop body\<close>

record log_output =
  out_timestamp :: jlong
  out_tag :: string
  out_msg :: string
  out_layoutId :: jshort
  out_attachmentId :: jint

text \<open>
  The time field: here the end of the file is the regular end of the loop
  (\<open>if (bytesRead == -1) break;\<close>).
\<close>

definition read_time :: "in_stream \<Rightarrow> jlong step" where
  "read_time s =
     (case read_chunk 2 s of
        Inl e \<Rightarrow> Throw e
      | Inr (k, chunk, s1) \<Rightarrow>
          if k = -1 then Break True
          else if k \<noteq> 2 then Break False
          else bind_step (lift_step (bytesToShort chunk) s1) (\<lambda>len s2.
               bind_step (read_body len s2) (\<lambda>timeChunk s3.
               lift_step (bytesToLong timeChunk) s3)))"

definition read_layout :: "in_stream \<Rightarrow> jshort step" where
  "read_layout s = bind_step (read_field s) (\<lambda>chunk s1. lift_step (bytesToShort chunk) s1)"

definition read_mark :: "in_stream \<Rightarrow> jshort step" where
  "read_mark s = bind_step (read_exact 2 s) (\<lambda>chunk s1. lift_step (bytesToShort chunk) s1)"

text \<open>
  The end of the record after the mark \<open>value\<close>: what the body hands to \<open>listener.output\<close>, if
  anything. Any other mark, and an attachment block whose own mark is not -100, is skipped.
\<close>

definition read_tail :: "jlong \<Rightarrow> string \<Rightarrow> string \<Rightarrow> jshort \<Rightarrow> jshort \<Rightarrow> in_stream \<Rightarrow> log_output option step" where
  "read_tail timestamp tag msg layoutId value s =
     (if value = -100
      then Next (Some \<lparr>out_timestamp = timestamp, out_tag = tag, out_msg = msg,
                       out_layoutId = layoutId, out_attachmentId = -1\<rparr>) s
      else if value = 4
      then bind_step (read_exact 4 s) (\<lambda>idChunk s1.
           bind_step (lift_step (bytesToInt idChunk) s1) (\<lambda>attachmentId s2.
           bind_step (read_mark s2) (\<lambda>eof s3.
           if eof = -100
           then Next (Some \<lparr>out_timestamp = timestamp, out_tag = tag, out_msg = msg,
                            out_layoutId = layoutId, out_attachmentId = attachmentId\<rparr>) s3
           else Next None s3)))
      else Next None s)"

definition decrypt_pair :: "(byte list \<Rightarrow> string option) \<Rightarrow> byte list \<Rightarrow> byte list \<Rightarrow> (string \<times> string) option" where
  "decrypt_pair dec tagChunk msgChunk =
     (let tag = dec tagChunk; msg = dec msgChunk in
      if decryptError tag \<or> decryptError msg then None else Some (the tag, the msg))"

definition read_record :: "(byte list \<Rightarrow> string option) \<Rightarrow> in_stream \<Rightarrow> log_output option step" where
  "read_record dec s =
     bind_step (read_time s) (\<lambda>timestamp s1.
     bind_step (read_field s1) (\<lambda>tagChunk s2.
     bind_step (read_field s2) (\<lambda>msgChunk s3.
     bind_step (read_layout s3) (\<lambda>layoutId s4.
     bind_step (read_mark s4) (\<lambda>value s5.
     case decrypt_pair dec tagChunk msgChunk of
       None \<Rightarrow> Break False
     | Some (tag, msg) \<Rightarrow> read_tail timestamp tag msg layoutId value s5)))))"

section \<open>Reading consumes input\<close>

lemma bind_step_Next:
  "bind_step r f = Next b t \<longleftrightarrow> (\<exists>a s. r = Next a s \<and> f a s = Next b t)"
  by (cases r) auto

lemma lift_step_Next: "lift_step r s = Next a t \<longleftrightarrow> r = Inr a \<and> t = s"
  by (cases r) auto

lemma read_exact_consumes:
  "read_exact n s = Next c t \<Longrightarrow>
     length c = n \<and> in_data s = c @ in_data t \<and> in_fault t = in_fault s"
  by (auto simp: read_exact_def read_chunk_def split: if_splits)

definition shrinks :: "in_stream \<Rightarrow> in_stream \<Rightarrow> bool" where
  "shrinks s t \<longleftrightarrow> length (in_data t) \<le> length (in_data s)"

lemma shrinks_trans: "shrinks s t \<Longrightarrow> shrinks t u \<Longrightarrow> shrinks s u"
  by (simp add: shrinks_def)

lemma read_exact_shrinks: "read_exact n s = Next c t \<Longrightarrow> shrinks s t"
  by (auto simp: shrinks_def dest: read_exact_consumes)

lemma read_body_shrinks: "read_body l s = Next c t \<Longrightarrow> shrinks s t"
  by (auto simp: read_body_def read_exact_shrinks split: if_splits)

lemma read_field_shrinks: "read_field s = Next c t \<Longrightarrow> shrinks s t"
  by (auto simp: read_field_def bind_step_Next lift_step_Next
      intro: shrinks_trans read_exact_shrinks read_body_shrinks)

lemma read_layout_shrinks: "read_layout s = Next c t \<Longrightarrow> shrinks s t"
  by (auto simp: read_layout_def bind_step_Next lift_step_Next intro: read_field_shrinks)

lemma read_mark_shrinks: "read_mark s = Next c t \<Longrightarrow> shrinks s t"
  by (auto simp: read_mark_def bind_step_Next lift_step_Next intro: read_exact_shrinks)

lemma read_time_consumes:
  "read_time s = Next c t \<Longrightarrow> length (in_data t) < length (in_data s)"
  by (fastforce simp: read_time_def read_chunk_def bind_step_Next lift_step_Next shrinks_def
      split: if_splits sum.splits prod.splits dest: read_body_shrinks)

lemma read_tail_shrinks: "read_tail ts tag msg l v s = Next c t \<Longrightarrow> shrinks s t"
  by (auto simp: read_tail_def bind_step_Next lift_step_Next shrinks_def split: if_splits
      dest!: read_mark_shrinks read_exact_shrinks)

lemma read_record_consumes:
  "read_record dec s = Next c t \<Longrightarrow> length (in_data t) < length (in_data s)"
  by (fastforce simp: read_record_def bind_step_Next shrinks_def split: option.splits prod.splits
      dest: read_time_consumes read_field_shrinks read_layout_shrinks read_mark_shrinks read_tail_shrinks)

section \<open>The loop and the listener\<close>

text \<open>
  \<open>listener.output\<close> changes the listener's state and may raise, which the \<open>catch\<close> around the
  loop turns into its end with \<open>successful\<close> unchanged; a \<open>null\<close> listener is \<open>None\<close>.
\<close>

type_synonym 'st on_output = "log_output \<Rightarrow> 'st \<Rightarrow> exn option \<times> 'st"

function parse_loop ::
  "(byte list \<Rightarrow> string option) \<Rightarrow> 'st on_output option \<Rightarrow> in_stream \<Rightarrow> 'st \<Rightarrow> bool \<times> 'st" where
  "parse_loop dec listener s st =
     (case read_record dec s of
        Break b \<Rightarrow> (b, st)
      | Throw e \<Rightarrow> (True, st)
      | Next out t \<Rightarrow>
          (case (out, listener) of
             (Some w, Some f) \<Rightarrow>
               (case f w st of
                  (Some e, st') \<Rightarrow> (True, st')
                | (None, st') \<Rightarrow> parse_loop dec listener t st')
           | _ \<Rightarrow> parse_loop dec listener t st))"
  by pat_completeness auto
termination
  by (relation "measure (\<lambda>(dec, listener, s, st). length (in_data s))") (auto dest: read_record_consumes)

declare parse_loop.simps [simp del]

definition log_parse ::
  "(string \<Rightarrow> byte list \<Rightarrow> string option) \<Rightarrow> (byte list \<Rightarrow> byte list \<Rightarrow> string option)
   \<Rightarrow> ('st on_output \<times> (bool \<Rightarrow> 'st \<Rightarrow> 'st)) option
   \<Rightarrow> string \<Rightarrow> bool \<Rightarrow> byte list \<Rightarrow> in_stream \<Rightarrow> 'st \<Rightarrow> 'st" where
  "log_parse aes_app aes_sec listener appId compatible security s st =
     (let dec = (if compatible then aes_app appId else aes_sec security);
          (successful, st') = parse_loop dec (map_option fst listener) s st
      in case listener of None \<Rightarrow> st' | Some (out, result) \<Rightarrow> result successful st')"

section \<open>The format the writer produces\<close>

text \<open>
  The specification side: the bytes of a record as the clients write it, and what the parser is
  to report for it.
\<close>

record log_record =
  rec_time :: jlong
  rec_tag :: "byte list"
  rec_msg :: "byte list"
  rec_layout :: jshort
  rec_attachment :: "jint option"

definition field :: "byte list \<Rightarrow> byte list" where
  "field bs = shortToBytes (of_nat (length bs)) @ bs"

definition render_tail :: "jint option \<Rightarrow> byte list" where
  "render_tail att =
     (case att of
        None \<Rightarrow> shortToBytes (-100)
      | Some a \<Rightarrow> shortToBytes 4 @ int_bytes a @ shortToBytes (-100))"

definition render_head :: "log_record \<Rightarrow> byte list" where
  "render_head r = field (longToBytes (rec_time r)) @ field (rec_tag r) @ field (rec_msg r)
     @ field (shortToBytes (rec_layout r))"

definition render_record :: "log_record \<Rightarrow> byte list" where
  "render_record r = render_head r @ render_tail (rec_attachment r)"

definition wf_record :: "log_record \<Rightarrow> bool" where
  "wf_record r \<longleftrightarrow> length (rec_tag r) < 2 ^ 15 \<and> length (rec_msg r) < 2 ^ 15"

definition readable :: "(byte list \<Rightarrow> string option) \<Rightarrow> log_record \<Rightarrow> bool" where
  "readable dec r \<longleftrightarrow> wf_record r \<and> decrypt_pair dec (rec_tag r) (rec_msg r) \<noteq> None"

definition record_output :: "(byte list \<Rightarrow> string option) \<Rightarrow> log_record \<Rightarrow> log_output" where
  "record_output dec r =
     \<lparr>out_timestamp = rec_time r, out_tag = the (dec (rec_tag r)), out_msg = the (dec (rec_msg r)),
      out_layoutId = rec_layout r,
      out_attachmentId = (case rec_attachment r of None \<Rightarrow> -1 | Some a \<Rightarrow> a)\<rparr>"

abbreviation stream :: "byte list \<Rightarrow> bool \<Rightarrow> in_stream" where
  "stream bs fault \<equiv> \<lparr>in_data = bs, in_fault = fault\<rparr>"

lemma read_exact_append: "length c = n \<Longrightarrow> read_exact n (stream (c @ rest) fl) = Next c (stream rest fl)"
  by (auto simp: read_exact_def read_chunk_def)

lemma sint_short_length: "n < 2 ^ 15 \<Longrightarrow> sint (of_nat n :: jshort) = int n"
  using sint_word_of_int_exact [where 'a = 16, of "int n"] by simp

lemma read_body_append:
  "length bs < 2 ^ 15 \<Longrightarrow>
     read_body (of_nat (length bs)) (stream (bs @ rest) fl) = Next bs (stream rest fl)"
  by (simp add: read_body_def sint_short_length read_exact_append)

lemma read_field_append:
  "length bs < 2 ^ 15 \<Longrightarrow> read_field (stream (field bs @ rest) fl) = Next bs (stream rest fl)"
  by (simp add: read_field_def field_def read_exact_append codec_simps read_body_append)

lemma read_time_append:
  "read_time (stream (field (longToBytes t) @ rest) fl) = Next t (stream rest fl)"
proof -
  have c: "read_chunk 2 (stream (field (longToBytes t) @ rest) fl)
      = Inr (2, shortToBytes 8, stream (longToBytes t @ rest) fl)"
    by (simp add: read_chunk_def field_def codec_simps)
  have "read_body 8 (stream (longToBytes t @ rest) fl) = Next (longToBytes t) (stream rest fl)"
    using read_body_append [of "longToBytes t"] by (simp add: codec_simps)
  then show ?thesis by (simp add: read_time_def c codec_simps)
qed

lemma read_layout_append:
  "read_layout (stream (field (shortToBytes l) @ rest) fl) = Next l (stream rest fl)"
  by (simp add: read_layout_def read_field_append codec_simps)

lemma read_mark_append: "read_mark (stream (shortToBytes v @ rest) fl) = Next v (stream rest fl)"
  by (simp add: read_mark_def read_exact_append codec_simps)

lemmas read_append = read_field_append read_time_append read_layout_append read_mark_append

lemma read_tail_append:
  "read_tail t tag msg l (case att of None \<Rightarrow> -100 | Some _ \<Rightarrow> 4)
     (stream (case att of None \<Rightarrow> rest | Some a \<Rightarrow> int_bytes a @ shortToBytes (-100) @ rest) fl)
   = Next (Some \<lparr>out_timestamp = t, out_tag = tag, out_msg = msg, out_layoutId = l,
        out_attachmentId = (case att of None \<Rightarrow> -1 | Some a \<Rightarrow> a)\<rparr>) (stream rest fl)"
  by (cases att) (simp_all add: read_tail_def read_exact_append read_mark_append codec_simps)

lemma render_tail_split:
  "render_tail att @ rest = shortToBytes (case att of None \<Rightarrow> -100 | Some _ \<Rightarrow> 4)
     @ (case att of None \<Rightarrow> rest | Some a \<Rightarrow> int_bytes a @ shortToBytes (-100) @ rest)"
  by (cases att) (simp_all add: render_tail_def)

lemma read_record_head:
  assumes "readable dec r"
  shows "read_record dec (stream (render_head r @ shortToBytes v @ rest) fl)
    = read_tail (rec_time r) (the (dec (rec_tag r))) (the (dec (rec_msg r))) (rec_layout r) v (stream rest fl)"
  using assms
  by (auto simp: read_record_def render_head_def readable_def wf_record_def read_append
      decrypt_pair_def Let_def split: if_splits)

lemma read_record_render:
  assumes "readable dec r"
  shows "read_record dec (stream (render_record r @ rest) fl)
    = Next (Some (record_output dec r)) (stream rest fl)"
  by (simp add: render_record_def render_tail_split read_record_head [OF assms] read_tail_append
      record_output_def)

section \<open>Whole files\<close>

fun deliver :: "'st on_output \<Rightarrow> log_output list \<Rightarrow> 'st \<Rightarrow> exn option \<times> 'st" where
  "deliver f [] st = (None, st)"
| "deliver f (w # ws) st =
     (case f w st of (Some e, st') \<Rightarrow> (Some e, st') | (None, st') \<Rightarrow> deliver f ws st')"

lemma deliver_append:
  "deliver f (ws @ vs) st =
     (case deliver f ws st of (Some e, st') \<Rightarrow> (Some e, st') | (None, st') \<Rightarrow> deliver f vs st')"
  by (induction ws arbitrary: st) (auto split: prod.splits option.splits)

lemma parse_loop_stop:
  "read_record dec s = Break b \<Longrightarrow> parse_loop dec l s st = (b, st)"
  "read_record dec s = Throw e \<Longrightarrow> parse_loop dec l s st = (True, st)"
  by (simp_all add: parse_loop.simps [of dec l s])

lemma parse_loop_render:
  assumes "\<forall>r \<in> set rs. readable dec r"
  shows "parse_loop dec (Some f) (stream (concat (map render_record rs) @ rest) fl) st =
    (case deliver f (map (record_output dec) rs) st of
       (Some e, st') \<Rightarrow> (True, st')
     | (None, st') \<Rightarrow> parse_loop dec (Some f) (stream rest fl) st')"
  using assms
proof (induction rs arbitrary: st)
  case (Cons r rs)
  have "read_record dec (stream (concat (map render_record (r # rs)) @ rest) fl)
      = Next (Some (record_output dec r)) (stream (concat (map render_record rs) @ rest) fl)"
    using Cons.prems by (simp add: read_record_render)
  with Cons show ?case
    by (subst parse_loop.simps) (auto split: prod.splits option.splits)
qed simp

lemma read_record_end: "read_record dec (stream [] False) = Break True"
  by (simp add: read_record_def read_time_def read_chunk_def)

text \<open>
  Claim C1. Round trip of the log-file format: a file that is the concatenation of well-formed
  records (fields below 32768 bytes, tag and message that decrypt) is parsed into exactly these
  records, in order, each handed once to the listener, and the parse is reported successful.
  If the listener raises at some record, the records up to that one have been delivered.
\<close>

theorem parse_rendered_file:
  assumes "\<forall>r \<in> set rs. readable dec r"
  shows "parse_loop dec (Some f) (stream (concat (map render_record rs)) False) st
    = (True, snd (deliver f (map (record_output dec) rs) st))"
  using parse_loop_render [OF assms, of f "[]"]
  by (auto simp: parse_loop_stop(1) [OF read_record_end] split: prod.splits option.splits)

definition ascii_dec :: "byte list \<Rightarrow> string option" where
  "ascii_dec bs = Some (map (\<lambda>b. char_of (unat b)) bs)"

definition sample_record :: log_record where
  "sample_record = \<lparr>rec_time = 5, rec_tag = [65], rec_msg = [66, 67], rec_layout = 3,
     rec_attachment = Some 9\<rparr>"

definition recorder :: "log_output list on_output" where
  "recorder w ws = (None, ws @ [w])"

lemma sample_readable: "readable ascii_dec sample_record"
  by (simp add: readable_def wf_record_def sample_record_def decrypt_pair_def ascii_dec_def
      Let_def decryptError_def CRYPTO_ERROR_def)

lemma sample_length: "length (render_record sample_record) = 29"
  by (simp add: render_record_def render_head_def field_def sample_record_def render_tail_def codec_simps)

theorem parse_rendered_file_witness:
  "readable ascii_dec sample_record
   \<and> parse_loop ascii_dec (Some recorder) (stream (render_record sample_record) False) []
     = (True, [\<lparr>out_timestamp = 5, out_tag = map char_of [65::nat], out_msg = map char_of [66::nat, 67],
               out_layoutId = 3, out_attachmentId = 9\<rparr>])"
  using parse_rendered_file [of "[sample_record]" ascii_dec recorder "[]"] sample_readable
  by (simp add: recorder_def record_output_def) (simp add: sample_record_def ascii_dec_def)

section \<open>Truncated and corrupt files\<close>

text \<open>
  A cut inside a record: \<open>p\<close> is what is left of \<open>c @ rest\<close>, \<open>q\<close> what is missing. Each reader
  either still gets its whole field, and the cut is further on, or stops.
\<close>

definition stopped :: "bool \<Rightarrow> 'a step" where
  "stopped fl = (if fl then Throw IOException else Break False)"

lemma bind_stopped [simp]: "bind_step (stopped fl) f = stopped fl"
  by (simp add: stopped_def)

lemma read_exact_cut:
  assumes "p @ q = c @ rest" and "q \<noteq> []" and "length c = n"
  shows "(\<exists>p'. p = c @ p' \<and> p' @ q = rest) \<or> read_exact n (stream p fl) = stopped fl"
proof (cases "n \<le> length p")
  case True
  with assms have "p = c @ drop n p \<and> drop n p @ q = rest"
    by (metis append_eq_append_conv_if append_take_drop_id append_eq_conv_conj)
  then show ?thesis by blast
next
  case False
  then show ?thesis
    by (auto simp: read_exact_def read_chunk_def stopped_def)
qed

lemma read_body_cut:
  assumes "p @ q = bs @ rest" and "q \<noteq> []" and "length bs < 2 ^ 15"
  shows "(\<exists>p'. p = bs @ p' \<and> p' @ q = rest)
    \<or> read_body (of_nat (length bs)) (stream p fl) = stopped fl"
  using read_exact_cut [OF assms(1,2) refl] assms(3)
  by (simp add: read_body_def sint_short_length)

lemma read_field_cut:
  assumes "p @ q = field bs @ rest" and "q \<noteq> []" and "length bs < 2 ^ 15"
  shows "(\<exists>p'. p = field bs @ p' \<and> p' @ q = rest) \<or> read_field (stream p fl) = stopped fl"
proof -
  from assms(1) have eq: "p @ q = shortToBytes (of_nat (length bs)) @ (bs @ rest)"
    by (simp add: field_def)
  from read_exact_cut [OF eq assms(2), of 2 fl]
  consider (cut) "read_exact 2 (stream p fl) = stopped fl"
    | (len) p' where "p = shortToBytes (of_nat (length bs)) @ p'" "p' @ q = bs @ rest"
    by (auto simp: codec_simps)
  then show ?thesis
  proof cases
    case cut
    then show ?thesis by (simp add: read_field_def)
  next
    case (len p')
    from read_body_cut [OF len(2) assms(2,3), of fl] show ?thesis
      by (auto simp: len(1) field_def read_field_def read_exact_append codec_simps)
  qed
qed

lemma read_time_cut:
  assumes "p @ q = field (longToBytes t) @ rest" and "q \<noteq> []" and "p \<noteq> [] \<or> fl"
  shows "(\<exists>p'. p = field (longToBytes t) @ p' \<and> p' @ q = rest) \<or> read_time (stream p fl) = stopped fl"
proof -
  from assms(1) have eq: "p @ q = shortToBytes 8 @ (longToBytes t @ rest)"
    by (simp add: field_def codec_simps)
  from read_exact_cut [OF eq assms(2), of 2 fl]
  consider (cut) "read_exact 2 (stream p fl) = stopped fl"
    | (len) p' where "p = shortToBytes 8 @ p'" "p' @ q = longToBytes t @ rest"
    by (auto simp: codec_simps)
  then show ?thesis
  proof cases
    case cut
    with assms(3) show ?thesis
      by (auto simp: read_exact_def read_chunk_def read_time_def stopped_def split: if_splits)
  next
    case (len p')
    have c: "read_chunk 2 (stream (shortToBytes 8 @ p') fl) = Inr (2, shortToBytes 8, stream p' fl)"
      by (simp add: read_chunk_def codec_simps)
    from read_body_cut [OF len(2) assms(2), of fl] show ?thesis
      by (auto simp: len(1) field_def read_time_def c codec_simps)
  qed
qed

lemma read_layout_cut:
  assumes "p @ q = field (shortToBytes l) @ rest" and "q \<noteq> []"
  shows "(\<exists>p'. p = field (shortToBytes l) @ p' \<and> p' @ q = rest) \<or> read_layout (stream p fl) = stopped fl"
  using read_field_cut [OF assms, of fl] by (auto simp: read_layout_def codec_simps)

lemma read_mark_cut:
  assumes "p @ q = shortToBytes v @ rest" and "q \<noteq> []"
  shows "(\<exists>p'. p = shortToBytes v @ p' \<and> p' @ q = rest) \<or> read_mark (stream p fl) = stopped fl"
  using read_exact_cut [OF assms, of 2 fl] by (auto simp: read_mark_def codec_simps)

lemma read_tail_cut:
  assumes "p @ q = int_bytes a @ shortToBytes (-100)" and "q \<noteq> []"
  shows "read_tail t tag msg l 4 (stream p fl) = stopped fl"
proof -
  from read_exact_cut [OF assms, of 4 fl]
  consider (cut) "read_exact 4 (stream p fl) = stopped fl"
    | (id) p' where "p = int_bytes a @ p'" "p' @ q = shortToBytes (-100) @ []"
    by (auto simp: codec_simps)
  then show ?thesis
  proof cases
    case cut
    then show ?thesis by (simp add: read_tail_def)
  next
    case (id p')
    from read_mark_cut [OF id(2) assms(2), of fl] assms(2) id(2)
    have "read_mark (stream p' fl) = stopped fl" by auto
    then show ?thesis by (simp add: read_tail_def id(1) read_exact_append codec_simps)
  qed
qed

lemma decrypt_pair_readable:
  "readable dec r \<Longrightarrow> decrypt_pair dec (rec_tag r) (rec_msg r) = Some (the (dec (rec_tag r)), the (dec (rec_msg r)))"
  by (auto simp: readable_def decrypt_pair_def Let_def split: if_splits)

lemma read_record_cut:
  assumes r: "readable dec r" and pq: "p @ q = render_record r" and q: "q \<noteq> []"
    and p: "p \<noteq> [] \<or> fl"
  shows "read_record dec (stream p fl) = stopped fl"
proof -
  let ?v = "case rec_attachment r of None \<Rightarrow> -100 | Some _ \<Rightarrow> (4 :: jshort)"
  let ?fin = "case rec_attachment r of None \<Rightarrow> [] | Some a \<Rightarrow> int_bytes a @ shortToBytes (-100)"
  have len: "length (rec_tag r) < 2 ^ 15" "length (rec_msg r) < 2 ^ 15"
    using r by (simp_all add: readable_def wf_record_def)
  have eq: "p @ q = field (longToBytes (rec_time r)) @ field (rec_tag r) @ field (rec_msg r)
      @ field (shortToBytes (rec_layout r)) @ shortToBytes ?v @ ?fin"
    by (cases "rec_attachment r") (simp_all add: pq render_record_def render_head_def render_tail_def)
  show ?thesis
  proof (rule ccontr)
    assume no: "read_record dec (stream p fl) \<noteq> stopped fl"
    from read_time_cut [OF eq q p] no obtain p1 where p1: "p = field (longToBytes (rec_time r)) @ p1"
      and e1: "p1 @ q = field (rec_tag r) @ field (rec_msg r) @ field (shortToBytes (rec_layout r))
         @ shortToBytes ?v @ ?fin"
      by (auto simp: read_record_def)
    note no1 = no [unfolded p1 read_record_def, simplified read_time_append, simplified]
    from read_field_cut [OF e1 q len(1), of fl] no1 obtain p2 where p2: "p1 = field (rec_tag r) @ p2"
      and e2: "p2 @ q = field (rec_msg r) @ field (shortToBytes (rec_layout r)) @ shortToBytes ?v @ ?fin"
      by auto
    note no2 = no1 [unfolded p2 read_field_append [OF len(1)], simplified]
    from read_field_cut [OF e2 q len(2), of fl] no2 obtain p3 where p3: "p2 = field (rec_msg r) @ p3"
      and e3: "p3 @ q = field (shortToBytes (rec_layout r)) @ shortToBytes ?v @ ?fin"
      by auto
    note no3 = no2 [unfolded p3 read_field_append [OF len(2)], simplified]
    from read_layout_cut [OF e3 q, of fl] no3 obtain p4
      where p4: "p3 = field (shortToBytes (rec_layout r)) @ p4" and e4: "p4 @ q = shortToBytes ?v @ ?fin"
      by auto
    note no4 = no3 [unfolded p4 read_layout_append, simplified]
    from read_mark_cut [OF e4 q, of fl] no4 obtain p5 where p5: "p4 = shortToBytes ?v @ p5"
      and e5: "p5 @ q = ?fin"
      by auto
    note no5 = no4 [unfolded p5 read_mark_append, simplified, unfolded decrypt_pair_readable [OF r], simplified]
    show False
      using e5 q no5 read_tail_cut [of p5 q, OF _ q] by (cases "rec_attachment r") auto
  qed
qed

lemma parse_loop_cut:
  assumes "\<forall>r \<in> set rs. readable dec r" and "readable dec r"
    and "p @ q = render_record r" and "q \<noteq> []" and "p \<noteq> [] \<or> fl"
  shows "parse_loop dec (Some f) (stream (concat (map render_record rs) @ p) fl) st =
    (case deliver f (map (record_output dec) rs) st of (Some e, st') \<Rightarrow> (True, st') | (None, st') \<Rightarrow> (fl, st'))"
proof -
  have "parse_loop dec (Some f) (stream p fl) st' = (fl, st')" for st'
    using read_record_cut [OF assms(2-5)] by (auto simp: stopped_def parse_loop_stop split: if_splits)
  then show ?thesis
    by (auto simp: parse_loop_render [OF assms(1)] split: prod.splits option.splits)
qed

text \<open>
  Claim C7. A truncated file: when an intact gzip stream ends inside a record (after some whole
  records and a non-empty proper part \<open>p\<close> of the next one), the parser hands exactly the whole
  records to the listener, nothing of the broken one, and reports the parse unsuccessful (unless
  the listener itself raised before).
\<close>

theorem parse_truncated_file:
  assumes "\<forall>r \<in> set rs. readable dec r" and "readable dec r"
    and "p @ q = render_record r" and "p \<noteq> []" and "q \<noteq> []"
  shows "parse_loop dec (Some f) (stream (concat (map render_record rs) @ p) False) st =
    (case deliver f (map (record_output dec) rs) st of
       (Some e, st') \<Rightarrow> (True, st') | (None, st') \<Rightarrow> (False, st'))"
  using parse_loop_cut [OF assms(1-3,5), of False f st] assms(4) by simp

theorem parse_truncated_file_witness:
  "readable ascii_dec sample_record \<and> render_record sample_record = take 7 (render_record sample_record)
      @ drop 7 (render_record sample_record)
   \<and> parse_loop ascii_dec (Some recorder) (stream (take 7 (render_record sample_record)) False) []
     = (False, [])"
proof -
  have "take 7 (render_record sample_record) \<noteq> []" "drop 7 (render_record sample_record) \<noteq> []"
    using sample_length by auto
  then show ?thesis
    using parse_truncated_file [of "[]" ascii_dec sample_record "take 7 (render_record sample_record)"
      "drop 7 (render_record sample_record)" recorder "[]"] sample_readable
    by simp
qed

text \<open>
  A corrupt gzip stream is reported as a successful parse: when reading past the
  intact bytes raises (the stream is damaged inside or right before a record), the exception is
  swallowed by the \<open>catch\<close> around the loop, and the listener is told \<open>true\<close> although the file
  was not read to its end.
\<close>

theorem parse_corrupt_file_reported_successful:
  assumes "\<forall>r \<in> set rs. readable dec r" and "readable dec r"
    and "p @ q = render_record r" and "q \<noteq> []"
  shows "parse_loop dec (Some f) (stream (concat (map render_record rs) @ p) True) st =
    (True, snd (deliver f (map (record_output dec) rs) st))"
  using parse_loop_cut [OF assms, of True f st] by (auto split: prod.splits option.splits)

theorem parse_corrupt_file_witness:
  "readable ascii_dec sample_record
   \<and> parse_loop ascii_dec (Some recorder) (stream (render_record sample_record) True) []
     = (True, [record_output ascii_dec sample_record])"
proof -
  have "render_record sample_record \<noteq> []" using sample_length by auto
  then show ?thesis
    using parse_corrupt_file_reported_successful [of "[sample_record]" ascii_dec sample_record "[]"
      "render_record sample_record" recorder "[]"] sample_readable
    by (simp add: recorder_def)
qed

section \<open>Malformed records\<close>

text \<open>
  A negative length prefix (a first byte of 128 or more) makes \<open>new byte[length]\<close>
  raise: whatever follows in the file is not read, nothing is delivered, and the parse is
  reported successful.
\<close>

theorem parse_negative_length_reported_successful:
  assumes "sint len < 0"
  shows "parse_loop dec listener (stream (shortToBytes len @ rest) fl) st = (True, st)"
proof -
  have c: "read_chunk 2 (stream (shortToBytes len @ rest) fl) = Inr (2, shortToBytes len, stream rest fl)"
    by (simp add: read_chunk_def codec_simps)
  have "read_record dec (stream (shortToBytes len @ rest) fl) = Throw NegativeArraySizeException"
    using assms by (simp add: read_record_def read_time_def c codec_simps read_body_def)
  then show ?thesis by (rule parse_loop_stop)
qed

theorem parse_negative_length_witness:
  "sint (-1 :: jshort) < 0 \<and> parse_loop ascii_dec (Some recorder) (stream [255, 255, 0, 7] False) [] = (True, [])"
proof -
  have "shortToBytes (-1) = [255, 255]" by code_simp
  then show ?thesis
    using parse_negative_length_reported_successful [of "-1" ascii_dec "Some recorder" "[0, 7]" False "[]"]
    by simp
qed

text \<open>
  A record whose mark is neither -100 nor 4 is dropped without a trace: the loop goes on
  behind the mark as if the record had not been there, and \<open>successful\<close> is not touched.
\<close>

theorem parse_unknown_mark_dropped:
  assumes "readable dec r" and "v \<noteq> -100" and "v \<noteq> 4"
  shows "parse_loop dec (Some f) (stream (render_head r @ shortToBytes v @ rest) fl) st
    = parse_loop dec (Some f) (stream rest fl) st"
proof -
  have "read_record dec (stream (render_head r @ shortToBytes v @ rest) fl) = Next None (stream rest fl)"
    using assms by (simp add: read_record_head read_tail_def)
  then show ?thesis by (subst parse_loop.simps) simp
qed

theorem parse_unknown_mark_witness:
  "parse_loop ascii_dec (Some recorder) (stream (render_head sample_record @ shortToBytes 7 @ []) False) []
     = (True, [])"
  by (subst parse_unknown_mark_dropped [OF sample_readable])
    (simp_all add: parse_loop_stop(1) [OF read_record_end])

section \<open>The listener does not influence the reading\<close>

text \<open>
  Abstract specification: what a file means is the list of outputs and the ending that a listener
  that only records would see. Any listener is driven by exactly this list.
\<close>

definition file_meaning :: "(byte list \<Rightarrow> string option) \<Rightarrow> in_stream \<Rightarrow> bool \<times> log_output list" where
  "file_meaning dec s = parse_loop dec (Some recorder) s []"

lemma parse_recorder_acc:
  "parse_loop dec (Some recorder) s ws
     = (fst (parse_loop dec (Some recorder) s []), ws @ snd (parse_loop dec (Some recorder) s []))"
proof (induction "length (in_data s)" arbitrary: s ws rule: less_induct)
  case less
  show ?case
  proof (cases "read_record dec s")
    case (Next out t)
    note step = parse_loop.simps [of dec "Some recorder" s, unfolded Next]
    show ?thesis
    proof (cases out)
      case None
      then show ?thesis
        using less [OF read_record_consumes [OF Next], of ws] by (simp add: step)
    next
      case (Some w)
      then show ?thesis
        using less [OF read_record_consumes [OF Next], of "ws @ [w]"]
          less [OF read_record_consumes [OF Next], of "[w]"]
        by (simp add: step recorder_def)
    qed
  qed (simp_all add: parse_loop_stop)
qed

lemma parse_deliver_meaning:
  "parse_loop dec (Some f) s st =
    (case deliver f (snd (file_meaning dec s)) st of
       (Some e, st') \<Rightarrow> (True, st')
     | (None, st') \<Rightarrow> (fst (file_meaning dec s), st'))"
proof (induction "length (in_data s)" arbitrary: s st rule: less_induct)
  case less
  show ?case
  proof (cases "read_record dec s")
    case (Next out t)
    note IH = less [OF read_record_consumes [OF Next]]
    show ?thesis
    proof (cases out)
      case None
      then have "file_meaning dec s = file_meaning dec t"
        by (simp add: file_meaning_def parse_loop.simps [of dec "Some recorder" s] Next)
      with IH [of st] None show ?thesis
        by (auto simp: parse_loop.simps [of dec "Some f" s] Next split: prod.splits option.splits)
    next
      case (Some w)
      then have "file_meaning dec s = (fst (file_meaning dec t), w # snd (file_meaning dec t))"
        using parse_recorder_acc [of dec t "[w]"]
        by (simp add: file_meaning_def parse_loop.simps [of dec "Some recorder" s] Next recorder_def)
      with IH Some show ?thesis
        by (auto simp: parse_loop.simps [of dec "Some f" s] Next split: prod.splits option.splits)
    qed
  qed (simp_all add: parse_loop_stop file_meaning_def)
qed

text \<open>
  Claim C4. Every listener sees the same file: for any stream, well-formed or not, the parse with
  any listener is the delivery of the file's meaning (the outputs of the recording parse, in
  order), and the result is the meaning's ending unless the listener raised, which counts as
  success. In particular the loop ends on every input.
\<close>

theorem parse_refines_meaning:
  "parse_loop dec (Some f) s st =
    (case deliver f (snd (file_meaning dec s)) st of
       (Some e, st') \<Rightarrow> (True, st')
     | (None, st') \<Rightarrow> (fst (file_meaning dec s), st'))"
  by (rule parse_deliver_meaning)

section \<open>The loop ends\<close>

text \<open>
  The loop with fuel: \<open>None\<close> when the fuel is used up. Every run of the body that goes on has read a
  time of eight bytes, two fields, a layout id and a mark, so at least 20 bytes.
\<close>

fun parse_fuel ::
  "nat \<Rightarrow> (byte list \<Rightarrow> string option) \<Rightarrow> 'st on_output option \<Rightarrow> in_stream \<Rightarrow> 'st \<Rightarrow> (bool \<times> 'st) option" where
  "parse_fuel 0 dec listener s st = None"
| "parse_fuel (Suc n) dec listener s st =
     (case read_record dec s of
        Break b \<Rightarrow> Some (b, st)
      | Throw e \<Rightarrow> Some (True, st)
      | Next out t \<Rightarrow>
          (case (out, listener) of
             (Some w, Some f) \<Rightarrow>
               (case f w st of
                  (Some e, st') \<Rightarrow> Some (True, st')
                | (None, st') \<Rightarrow> parse_fuel n dec listener t st')
           | _ \<Rightarrow> parse_fuel n dec listener t st))"

definition takes :: "nat \<Rightarrow> in_stream \<Rightarrow> in_stream \<Rightarrow> bool" where
  "takes n s t \<longleftrightarrow> length (in_data t) + n \<le> length (in_data s)"

lemma takes_trans: "takes m s t \<Longrightarrow> takes n t u \<Longrightarrow> takes (m + n) s u"
  by (simp add: takes_def)

lemma takes_shrinks: "shrinks s t = takes 0 s t"
  by (simp add: takes_def shrinks_def)

lemma read_exact_takes: "read_exact n s = Next c t \<Longrightarrow> takes n s t \<and> length c = n"
  by (auto simp: takes_def dest: read_exact_consumes)

lemma read_body_takes: "read_body l s = Next c t \<Longrightarrow> takes (length c) s t"
  by (auto simp: read_body_def split: if_splits dest: read_exact_takes)

lemma read_field_takes: "read_field s = Next c t \<Longrightarrow> takes (2 + length c) s t"
  by (auto simp: read_field_def bind_step_Next lift_step_Next takes_def dest!: read_exact_takes read_body_takes)

lemma bytes_long_enough:
  "bytesToLong c = Inr v \<Longrightarrow> 8 \<le> length c" "bytesToShort c = Inr w \<Longrightarrow> 2 \<le> length c"
  by (auto simp: bytesToLong_def bytesToShort_def get_be_def split: if_splits)

lemma read_layout_takes: "read_layout s = Next c t \<Longrightarrow> takes 4 s t"
  by (fastforce simp: read_layout_def bind_step_Next lift_step_Next takes_def
      dest: read_field_takes bytes_long_enough)

lemma read_mark_takes: "read_mark s = Next c t \<Longrightarrow> takes 2 s t"
  by (auto simp: read_mark_def bind_step_Next lift_step_Next dest: read_exact_takes)

lemma read_time_takes: "read_time s = Next c t \<Longrightarrow> takes 10 s t"
  by (fastforce simp: read_time_def read_chunk_def bind_step_Next lift_step_Next takes_def
      split: if_splits sum.splits prod.splits dest: read_body_takes bytes_long_enough)

lemma read_record_takes:
  assumes "read_record dec s = Next out t"
  shows "takes 20 s t"
proof -
  from assms obtain ts s1 tag s2 msg s3 l s4 v s5 where r: "read_time s = Next ts s1" "read_field s1 = Next tag s2"
    "read_field s2 = Next msg s3" "read_layout s3 = Next l s4" "read_mark s4 = Next v s5"
    and rest: "(case decrypt_pair dec tag msg of None \<Rightarrow> Break False
       | Some (tg, mg) \<Rightarrow> read_tail ts tg mg l v s5) = Next out t"
    unfolding read_record_def bind_step_Next by (elim exE conjE)
  from rest have "\<exists>tg mg. read_tail ts tg mg l v s5 = Next out t" by (auto split: option.splits)
  then have "takes 0 s5 t" using read_tail_shrinks takes_shrinks by blast
  with read_time_takes [OF r(1)] read_field_takes [OF r(2)] read_field_takes [OF r(3)] read_layout_takes [OF r(4)]
    read_mark_takes [OF r(5)] show ?thesis by (simp add: takes_def)
qed

lemma parse_fuel_enough:
  assumes "length (in_data s) div 20 < n"
  shows "parse_fuel n dec listener s st = Some (parse_loop dec listener s st)"
  using assms
proof (induction n arbitrary: s st)
  case (Suc n)
  show ?case
  proof (cases "read_record dec s")
    case (Next out t)
    have "length (in_data t) + 20 \<le> length (in_data s)" using read_record_takes [OF Next] by (simp add: takes_def)
    then have "length (in_data t) div 20 + 1 \<le> length (in_data s) div 20"
      by (metis div_add_self2 div_le_mono zero_neq_numeral)
    with Suc have "parse_fuel n dec listener t st' = Some (parse_loop dec listener t st')" for st' by simp
    then show ?thesis
      by (auto simp: parse_loop.simps [of dec listener s] Next split: option.splits prod.splits)
  qed (simp_all add: parse_loop_stop)
qed simp

lemma meaning_length: "20 * length (snd (file_meaning dec s)) \<le> length (in_data s)"
proof (induction "length (in_data s)" arbitrary: s rule: less_induct)
  case less
  show ?case
  proof (cases "read_record dec s")
    case (Next out t)
    have t: "length (in_data t) + 20 \<le> length (in_data s)" using read_record_takes [OF Next] by (simp add: takes_def)
    moreover have "20 * length (snd (file_meaning dec t)) \<le> length (in_data t)" using t by (intro less) simp
    moreover have "length (snd (file_meaning dec s)) \<le> Suc (length (snd (file_meaning dec t)))"
      using parse_recorder_acc [of dec t "[the out]"]
      by (cases out) (simp_all add: file_meaning_def parse_loop.simps [of dec "Some recorder" s] Next recorder_def)
    ultimately show ?thesis by simp
  qed (simp_all add: file_meaning_def parse_loop_stop)
qed

text \<open>
  Claim C24. The parser ends on every input, well-formed, damaged or hostile, with every listener: one
  run of the loop body for each 20 bytes of the file and one more are always enough, and then the
  result is the one of the loop. So a file never makes more than a 20th of its size in records.
\<close>

theorem parse_terminates:
  "parse_fuel (Suc (length (in_data s) div 20)) dec listener s st = Some (parse_loop dec listener s st)
   \<and> length (snd (file_meaning dec s)) \<le> length (in_data s) div 20"
  using parse_fuel_enough [of s "Suc (length (in_data s) div 20)" dec listener st] meaning_length [of dec s]
  by (simp add: less_eq_div_iff_mult_less_eq mult.commute)

section \<open>The frame contract\<close>

definition read_front :: "(byte list \<Rightarrow> string option) \<Rightarrow> byte list \<Rightarrow> (log_output \<times> byte list) option" where
  "read_front dec bs =
     (case read_record dec (stream bs False) of Next (Some w) t \<Rightarrow> Some (w, in_data t) | _ \<Rightarrow> None)"

interpretation log_frames: framing render_record "readable dec" "record_output dec" "read_front dec"
  for dec
  by unfold_locales (simp_all add: read_front_def read_record_render read_record_end)

lemma log_files_cut_one_way:
  "\<forall>r \<in> set rs. readable dec r \<Longrightarrow> \<forall>r \<in> set ts. readable dec r \<Longrightarrow>
   concat (map render_record rs) = concat (map render_record ts) \<Longrightarrow>
   map (record_output dec) rs = map (record_output dec) ts"
  by (rule log_frames.concat_unique)

end
