(* ===== verification/Crypto_Tool.thy ===== *)
theory Crypto_Tool
  imports Native_Security Log_File_Parser
begin

text \<open>
  \<open>util/CryptoTool.java\<close>: the two decryptions, by application id (the deprecated format, with
  the certificate derived by the native code and kept in \<open>keyMap\<close>) and by an explicit AES key.
  Base64 (commons-codec) and the AES ciphers (the BC provider) are parameters: \<open>crypto\<close> holds
  them, with \<open>None\<close> for the exceptions they raise, which the code catches.

  Strings and their bytes: \<open>getBytes\<close> and \<open>new String\<close> are modelled on 8-bit characters, one
  byte each, which is what both charsets in play do on ASCII text.
\<close>

section \<open>Parameters and constants\<close>

record crypto =
  base64_encode :: "byte list \<Rightarrow> byte list"
  base64_decode :: "byte list \<Rightarrow> byte list"
  aes_cbc_decrypt :: "byte list \<Rightarrow> byte list \<Rightarrow> byte list \<Rightarrow> byte list option"
  aes_ecb_decrypt :: "byte list \<Rightarrow> byte list \<Rightarrow> byte list option"

definition errorBytes :: "byte list" where "errorBytes = [0, 0]"

definition KEY_SUFFIX :: string where "KEY_SUFFIX = ''A8P20vWlvfSu3JMO6tBjgr05UvjHAh2x''"

text \<open>The guards both methods start with: markers of a failed encryption on the client.\<close>

definition error_marker :: "byte list \<Rightarrow> bool" where
  "error_marker data \<longleftrightarrow> data = errorBytes \<or> data = str_bytes CRYPTO_ERROR"

text \<open>\<open>Arrays.copyOf(a, n)\<close>: cut or padded with zeros.\<close>

definition copy_of :: "byte list \<Rightarrow> nat \<Rightarrow> byte list" where
  "copy_of a n = take n a @ replicate (n - length a) 0"

text \<open>\<open>cipherText.split("__")\<close>.\<close>

fun pieces2 :: "string \<Rightarrow> string list" where
  "pieces2 (c # d # cs) =
     (if c = CHR ''_'' \<and> d = CHR ''_'' then [] # pieces2 cs
      else (case pieces2 (d # cs) of [] \<Rightarrow> [[c]] | p # ps \<Rightarrow> (c # p) # ps))"
| "pieces2 cs = [cs]"

definition split_underscores :: "string \<Rightarrow> string list" where
  "split_underscores s = (if length (pieces2 s) = 1 then [s] else drop_trailing_empty (pieces2 s))"

section \<open>Decryption with an explicit key\<close>

definition AESDecrypt_key :: "crypto \<Rightarrow> byte list option \<Rightarrow> byte list option \<Rightarrow> string option" where
  "AESDecrypt_key cr security data =
     (case (security, data) of
        (Some key, Some d) \<Rightarrow>
          if d = errorBytes then None
          else if d = str_bytes CRYPTO_ERROR then None
          else map_option bytes_str (aes_ecb_decrypt cr key d)
      | _ \<Rightarrow> None)"

section \<open>Decryption by application id\<close>

text \<open>
  The pass phrase is the Base64 text of the application id and the suffix. \<open>sec\<close> is the native
  method: the pass phrase and its length give a certificate or \<open>null\<close>.
\<close>

type_synonym key_map = "string \<rightharpoonup> certificate"

definition app_phrase :: "crypto \<Rightarrow> string \<Rightarrow> byte list" where
  "app_phrase cr appId = base64_encode cr (str_bytes (appId @ KEY_SUFFIX))"

definition load_certificate ::
  "crypto \<Rightarrow> (byte list \<Rightarrow> jint \<Rightarrow> certificate option) \<Rightarrow> string \<Rightarrow> certificate option" where
  "load_certificate cr sec appId =
     sec (app_phrase cr appId) (of_nat (length (app_phrase cr appId)))"

definition get_certificate ::
  "crypto \<Rightarrow> (byte list \<Rightarrow> jint \<Rightarrow> certificate option) \<Rightarrow> string \<Rightarrow> key_map
   \<Rightarrow> certificate option \<times> key_map" where
  "get_certificate cr sec appId keyMap =
     (case keyMap appId of
        Some cert \<Rightarrow> (Some cert, keyMap)
      | None \<Rightarrow>
          (case load_certificate cr sec appId of
             Some cert \<Rightarrow> (Some cert, keyMap(appId \<mapsto> cert))
           | None \<Rightarrow> (None, keyMap)))"

definition decrypt_with_certificate :: "crypto \<Rightarrow> certificate \<Rightarrow> byte list \<Rightarrow> string option" where
  "decrypt_with_certificate cr cert d =
     (let parts = split_underscores (bytes_str (base64_decode cr d)) in
      if length parts \<noteq> 2 then None
      else map_option bytes_str
             (aes_cbc_decrypt cr (copy_of (cert_key cert) 32) (cert_iv cert)
                (base64_decode cr (str_bytes (parts ! 1)))))"

definition AESDecrypt_app ::
  "crypto \<Rightarrow> (byte list \<Rightarrow> jint \<Rightarrow> certificate option) \<Rightarrow> string option \<Rightarrow> byte list option \<Rightarrow> key_map
   \<Rightarrow> string option \<times> key_map" where
  "AESDecrypt_app cr sec appId data keyMap =
     (case (appId, data) of
        (Some a, Some d) \<Rightarrow>
          if a = [] then (None, keyMap)
          else if d = errorBytes then (None, keyMap)
          else if d = str_bytes CRYPTO_ERROR then (None, keyMap)
          else
            (let (cert, keyMap') = get_certificate cr sec a keyMap in
             case cert of
               None \<Rightarrow> (None, keyMap')
             | Some c \<Rightarrow> (decrypt_with_certificate cr c d, keyMap'))
      | _ \<Rightarrow> (None, keyMap))"

section \<open>The certificate cache\<close>

interpretation certificates:
  memo_cache "\<lambda>m k. m k" "load_certificate cr sec" "get_certificate cr sec" for cr sec
  by unfold_locales (auto simp: get_certificate_def split: option.splits if_splits)

text \<open>What \<open>AESDecrypt\<close> answers for an application id when the cache is left out.\<close>

definition app_plaintext ::
  "crypto \<Rightarrow> (byte list \<Rightarrow> jint \<Rightarrow> certificate option) \<Rightarrow> string \<Rightarrow> byte list \<Rightarrow> string option" where
  "app_plaintext cr sec appId d =
     (if appId = [] \<or> error_marker d then None
      else (case load_certificate cr sec appId of
              None \<Rightarrow> None
            | Some c \<Rightarrow> decrypt_with_certificate cr c d))"

definition key_map_ok :: "crypto \<Rightarrow> (byte list \<Rightarrow> jint \<Rightarrow> certificate option) \<Rightarrow> key_map \<Rightarrow> bool" where
  "key_map_ok cr sec keyMap \<longleftrightarrow> (\<forall>a c. keyMap a = Some c \<longrightarrow> load_certificate cr sec a = Some c)"

lemma key_map_ok_coherent: "key_map_ok cr sec = certificates.coherent cr sec"
  by (simp add: fun_eq_iff key_map_ok_def certificates.coherent_def)

text \<open>
  The certificate cache is transparent: from any cache that holds only certificates the
  native code gives (the empty one at the start is such a cache), decryption answers what it would
  without a cache, and leaves such a cache.
\<close>

theorem aes_cache_transparent:
  assumes "key_map_ok cr sec keyMap"
  shows "fst (AESDecrypt_app cr sec (Some a) (Some d) keyMap) = app_plaintext cr sec a d
    \<and> key_map_ok cr sec (snd (AESDecrypt_app cr sec (Some a) (Some d) keyMap))"
proof -
  obtain cert m where f: "get_certificate cr sec a keyMap = (cert, m)" by fastforce
  have "cert = load_certificate cr sec a" and "key_map_ok cr sec m"
    using certificates.fetch_is_load [of cr sec keyMap a] certificates.fetch_coherent [of cr sec keyMap a]
      assms f by (simp_all add: key_map_ok_coherent)
  with assms f show ?thesis
    by (auto simp: AESDecrypt_app_def app_plaintext_def error_marker_def split: option.splits)
qed

definition sample_crypto :: crypto where
  "sample_crypto = \<lparr>base64_encode = id, base64_decode = id,
     aes_cbc_decrypt = (\<lambda>key iv d. Some (rev d)), aes_ecb_decrypt = (\<lambda>key d. Some (rev d))\<rparr>"

definition sample_sec :: "byte list \<Rightarrow> jint \<Rightarrow> certificate option" where
  "sample_sec phrase n = Some \<lparr>cert_key = phrase, cert_iv = replicate 16 0\<rparr>"

theorem aes_cache_transparent_witness:
  "key_map_ok sample_crypto sample_sec Map.empty
   \<and> fst (AESDecrypt_app sample_crypto sample_sec (Some ''app'') (Some (str_bytes ''v1__ih'')) Map.empty)
     = Some ''hi''"
proof -
  have ok: "key_map_ok sample_crypto sample_sec Map.empty" by (simp add: key_map_ok_def)
  have "app_plaintext sample_crypto sample_sec ''app'' (str_bytes ''v1__ih'') = Some ''hi''"
    by code_simp
  then show ?thesis using aes_cache_transparent [OF ok] ok by simp
qed

section \<open>Error markers\<close>

lemma error_marker_app: "error_marker d \<Longrightarrow> AESDecrypt_app cr sec a (Some d) m = (None, m)"
  by (auto simp: AESDecrypt_app_def error_marker_def split: option.splits)

lemma error_marker_key: "error_marker d \<Longrightarrow> AESDecrypt_key cr k (Some d) = None"
  by (auto simp: AESDecrypt_key_def error_marker_def split: option.splits)

text \<open>
  The decryption of the parser for a given file, as \<open>LogFileParser.parse\<close> selects it, with the
  certificate cache as the call finds it. From call to call the cache only gains certificates the
  native code gives, so the answers stay the same.
\<close>

definition file_decryption ::
  "crypto \<Rightarrow> (byte list \<Rightarrow> jint \<Rightarrow> certificate option) \<Rightarrow> key_map \<Rightarrow> string \<Rightarrow> bool \<Rightarrow> byte list \<Rightarrow> byte list \<Rightarrow> string option" where
  "file_decryption cr sec keyMap appId compatible security d =
     (if compatible then fst (AESDecrypt_app cr sec (Some appId) (Some d) keyMap)
      else AESDecrypt_key cr (Some security) (Some d))"

lemma file_decryption_cache:
  assumes "key_map_ok cr sec m" and "AESDecrypt_app cr sec (Some appId) (Some d') m = (r, m')"
  shows "file_decryption cr sec m' appId compatible security = file_decryption cr sec m appId compatible security"
proof -
  have "key_map_ok cr sec m'" using aes_cache_transparent [OF assms(1), of appId d'] assms(2) by simp
  with assms(1) show ?thesis by (simp add: fun_eq_iff file_decryption_def aes_cache_transparent)
qed

text \<open>
  A record whose tag or message is one of the client's error markers (the two zero bytes,
  or the text \<open>CRYPTO_ERROR\<close>) stops the parse of the file, in both formats: the records before it
  are delivered, nothing of it or after it, and the file is reported unsuccessful.
\<close>

theorem parse_stops_at_error_marker:
  assumes "\<forall>r \<in> set rs. readable (file_decryption cr sec keyMap appId compatible security) r"
    and "wf_record r" and "error_marker (rec_tag r) \<or> error_marker (rec_msg r)"
  shows "parse_loop (file_decryption cr sec keyMap appId compatible security) (Some recorder)
      (stream (concat (map render_record rs) @ render_record r @ rest) fl) ws
    = (False, ws @ map (record_output (file_decryption cr sec keyMap appId compatible security)) rs)"
proof -
  let ?dec = "file_decryption cr sec keyMap appId compatible security"
  have "decrypt_pair ?dec (rec_tag r) (rec_msg r) = None"
    using assms(3) by (auto simp: decrypt_pair_def Let_def file_decryption_def error_marker_app
        error_marker_key decryptError_def)
  then have "read_record ?dec (stream (render_record r @ rest) fl) = Break False"
    using assms(2)
    by (simp add: read_record_def render_record_def render_head_def wf_record_def read_append
        render_tail_split)
  then have stop: "parse_loop ?dec (Some recorder) (stream (render_record r @ rest) fl) ws'
      = (False, ws')" for ws'
    by (rule parse_loop_stop)
  have "deliver recorder vs ws = (None, ws @ vs)" for vs ws
    by (induction vs arbitrary: ws) (simp_all add: recorder_def)
  then show ?thesis
    by (simp add: parse_loop_render [OF assms(1)] stop)
qed

theorem parse_stops_at_error_marker_witness:
  "wf_record (sample_record\<lparr>rec_msg := [0, 0]\<rparr>) \<and> error_marker [0, 0]
   \<and> parse_loop (file_decryption sample_crypto sample_sec Map.empty ''app'' False [1]) (Some recorder)
       (stream (render_record (sample_record\<lparr>rec_msg := [0, 0]\<rparr>) @ []) False) [] = (False, [])"
  using parse_stops_at_error_marker [of "[]" sample_crypto sample_sec Map.empty "''app''" False "[1]"
      "sample_record\<lparr>rec_msg := [0, 0]\<rparr>" "[]" False "[]"]
  by (simp add: wf_record_def sample_record_def error_marker_def errorBytes_def)

section \<open>Uninitialised native memory does not reach the cipher\<close>

definition native_sec ::
  "('c, 'd) openssl \<Rightarrow> ('c, 'd) native_state \<Rightarrow> byte list \<Rightarrow> byte list \<Rightarrow> byte list \<Rightarrow> jint \<Rightarrow> certificate option" where
  "native_sec ossl s stack_key stack_iv phrase n = fst (native_security ossl phrase n stack_key stack_iv s)"

text \<open>
  A sequence of calls of the deprecated \<open>AESDecrypt\<close> with the one \<open>keyMap\<close>. Each call may come to
  run the native code, on the C globals as they are then and with whatever is on the stack.
\<close>

type_synonym ('c, 'd) aes_call =
  "('c, 'd) native_state \<times> byte list \<times> byte list \<times> string option \<times> byte list option"

fun decrypt_calls ::
  "crypto \<Rightarrow> ('c, 'd) openssl \<Rightarrow> ('c, 'd) aes_call list \<Rightarrow> key_map \<Rightarrow> string option list \<times> key_map" where
  "decrypt_calls cr ossl [] keyMap = ([], keyMap)"
| "decrypt_calls cr ossl ((s, stack_key, stack_iv, appId, data) # cs) keyMap =
     (let (r, keyMap') = AESDecrypt_app cr (native_sec ossl s stack_key stack_iv) appId data keyMap;
          (rs, keyMap'') = decrypt_calls cr ossl cs keyMap'
      in (r # rs, keyMap''))"

text \<open>No code ever assigns the global \<open>salt\<close>; the two arrays have their declared sizes.\<close>

fun call_ok :: "crypto \<Rightarrow> ('c, 'd) aes_call \<Rightarrow> bool" where
  "call_ok cr (s, stack_key, stack_iv, appId, data) \<longleftrightarrow>
     global_salt s = None \<and> length stack_key = EVP_MAX_KEY_LENGTH \<and> length stack_iv = EVP_MAX_IV_LENGTH
     \<and> (case appId of None \<Rightarrow> True | Some a \<Rightarrow> length (app_phrase cr a) < 2 ^ 31)"

text \<open>What a call should answer: a function of its application id and data alone.\<close>

definition derived_plaintext ::
  "crypto \<Rightarrow> (byte list \<Rightarrow> byte list) \<Rightarrow> string option \<Rightarrow> byte list option \<Rightarrow> string option" where
  "derived_plaintext cr md5 appId data =
     (case (appId, data) of
        (Some a, Some d) \<Rightarrow>
          if a = [] \<or> error_marker d then None
          else (let parts = split_underscores (bytes_str (base64_decode cr d)) in
                if length parts \<noteq> 2 then None
                else map_option bytes_str
                       (aes_cbc_decrypt cr (derived_key md5 (app_phrase cr a)) (derived_iv md5 (app_phrase cr a))
                          (base64_decode cr (str_bytes (parts ! 1)))))
      | _ \<Rightarrow> None)"

text \<open>The certificates in the cache come from the native code, each with some stack of its own.\<close>

definition derived_certificate :: "crypto \<Rightarrow> (byte list \<Rightarrow> byte list) \<Rightarrow> string \<Rightarrow> certificate \<Rightarrow> bool" where
  "derived_certificate cr md5 a cert \<longleftrightarrow>
     (\<exists>stack. cert = \<lparr>cert_key = derived_key md5 (app_phrase cr a) @ stack, cert_iv = derived_iv md5 (app_phrase cr a)\<rparr>)"

definition derived_map :: "crypto \<Rightarrow> (byte list \<Rightarrow> byte list) \<Rightarrow> key_map \<Rightarrow> bool" where
  "derived_map cr md5 keyMap \<longleftrightarrow> (\<forall>a cert. keyMap a = Some cert \<longrightarrow> derived_certificate cr md5 a cert)"

lemma native_derived:
  assumes "evp_documented ossl c d md5" and "call_ok cr (s, stack_key, stack_iv, Some a, data)"
  shows "\<exists>cert. load_certificate cr (native_sec ossl s stack_key stack_iv) a = Some cert \<and> derived_certificate cr md5 a cert"
proof -
  let ?p = "app_phrase cr a"
  have n: "sint (of_nat (length ?p) :: jint) = int (length ?p)"
    using sint_word_of_int_exact [where 'a = 32, of "int (length ?p)"] assms(2) by simp
  show ?thesis
    using native_security_ok [OF assms(1), of s stack_key stack_iv "of_nat (length ?p)" ?p] assms(2)
    by (simp add: load_certificate_def native_sec_def n derived_certificate_def)
qed

lemma decrypt_with_derived:
  assumes "\<forall>bs. length (md5 bs) = 16" and "derived_certificate cr md5 a cert" and "a \<noteq> []" and "\<not> error_marker d"
  shows "decrypt_with_certificate cr cert d = derived_plaintext cr md5 (Some a) (Some d)"
  using assms length_derived_key [OF assms(1), of "app_phrase cr a"]
  by (auto simp: derived_certificate_def decrypt_with_certificate_def derived_plaintext_def copy_of_def Let_def)

lemma AESDecrypt_app_derived:
  assumes "evp_documented ossl c d md5" and "call_ok cr (s, stack_key, stack_iv, appId, data)"
    and "derived_map cr md5 keyMap"
    and "AESDecrypt_app cr (native_sec ossl s stack_key stack_iv) appId data keyMap = (r, keyMap')"
  shows "r = derived_plaintext cr md5 appId data \<and> derived_map cr md5 keyMap'"
proof (cases "\<exists>a x. appId = Some a \<and> data = Some x \<and> a \<noteq> [] \<and> \<not> error_marker x")
  case False
  then show ?thesis using assms(3,4)
    by (auto simp: AESDecrypt_app_def derived_plaintext_def error_marker_def split: option.splits if_splits)
next
  case True
  then obtain a x where ax: "appId = Some a" "data = Some x" "a \<noteq> []" "\<not> error_marker x" by blast
  obtain cert where get: "get_certificate cr (native_sec ossl s stack_key stack_iv) a keyMap = (Some cert, keyMap')"
    and cert: "derived_certificate cr md5 a cert" and map: "derived_map cr md5 keyMap'"
    and r: "r = decrypt_with_certificate cr cert x"
  proof (cases "keyMap a")
    case (Some cert)
    with assms(3,4) ax that [of cert] show ?thesis
      by (auto simp: AESDecrypt_app_def get_certificate_def derived_map_def error_marker_def split: if_splits)
  next
    case None
    obtain cert where "load_certificate cr (native_sec ossl s stack_key stack_iv) a = Some cert"
      and "derived_certificate cr md5 a cert"
      using native_derived [OF assms(1), of cr s stack_key stack_iv a data] assms(2) ax by blast
    with None assms(3,4) ax that [of cert] show ?thesis
      by (auto simp: AESDecrypt_app_def get_certificate_def derived_map_def error_marker_def split: if_splits)
  qed
  have "\<forall>bs. length (md5 bs) = 16" using assms(1) by (simp add: evp_documented_def)
  with cert map r ax show ?thesis using decrypt_with_derived by blast
qed

text \<open>
  Claim C19. End to end through Java and C: with OpenSSL as documented, over any sequence of calls of
  \<open>AESDecrypt(appId, data)\<close> and their common certificate cache, every plaintext is a function of the
  call's own application id and data: AES gets the key and IV that OpenSSL derives from the
  application's pass phrase, and what was on the C stack when a certificate was made (now or in an
  earlier call that put it into the cache) never reaches it, although it is part of the
  certificate. The cache may hold any certificates the native code made, and does so afterwards;
  the empty one at the start is such a cache.
\<close>

theorem plaintext_independent_of_stack:
  assumes "evp_documented ossl c d md5" and "list_all (call_ok cr) calls" and "derived_map cr md5 keyMap"
  shows "fst (decrypt_calls cr ossl calls keyMap)
      = map (\<lambda>(s, stack_key, stack_iv, appId, data). derived_plaintext cr md5 appId data) calls
    \<and> derived_map cr md5 (snd (decrypt_calls cr ossl calls keyMap))"
  using assms(2,3)
proof (induction calls arbitrary: keyMap)
  case (Cons call calls)
  obtain s sk si a x where call: "call = (s, sk, si, a, x)" by (cases call)
  obtain r m where app: "AESDecrypt_app cr (native_sec ossl s sk si) a x keyMap = (r, m)" by fastforce
  from AESDecrypt_app_derived [OF assms(1) _ _ app] Cons.prems call
  have "r = derived_plaintext cr md5 a x" "derived_map cr md5 m" by simp_all
  with Cons.IH [of m] Cons.prems show ?case
    by (cases "decrypt_calls cr ossl calls m") (simp add: call app)
qed simp

theorem plaintext_independent_of_stack_witness:
  "fst (decrypt_calls sample_crypto sample_openssl
      [(fresh_native, replicate 64 7, replicate 16 9, Some ''app'', Some (str_bytes ''v1__ih'')),
       (fresh_native, replicate 64 0, replicate 16 0, Some ''app'', Some (str_bytes ''v1__ih''))] Map.empty)
    = [Some ''hi'', Some ''hi'']"
proof -
  let ?calls = "[(fresh_native, replicate 64 7, replicate 16 9, Some ''app'', Some (str_bytes ''v1__ih'')),
       (fresh_native, replicate 64 0, replicate 16 0, Some ''app'', Some (str_bytes ''v1__ih''))]"
  have ok: "list_all (call_ok sample_crypto) ?calls"
    by (simp add: fresh_native_def EVP_MAX_KEY_LENGTH_def EVP_MAX_IV_LENGTH_def app_phrase_def sample_crypto_def
        str_bytes_def KEY_SUFFIX_def)
  have "\<not> error_marker (str_bytes ''v1__ih'')" by code_simp
  moreover have "split_underscores (bytes_str (base64_decode sample_crypto (str_bytes ''v1__ih''))) = [''v1'', ''ih'']"
    by code_simp
  moreover have "map_option bytes_str (aes_cbc_decrypt sample_crypto k v
      (base64_decode sample_crypto (str_bytes ''ih''))) = Some ''hi''" for k v
  proof -
    have "rev (str_bytes ''ih'') = str_bytes ''hi''" by (simp add: str_bytes_def)
    then show ?thesis by (simp add: sample_crypto_def)
  qed
  ultimately have "derived_plaintext sample_crypto sample_md5 (Some ''app'') (Some (str_bytes ''v1__ih'')) = Some ''hi''"
    by (simp add: derived_plaintext_def)
  with plaintext_independent_of_stack [OF sample_documented ok, of Map.empty] show ?thesis
    by (simp add: derived_map_def)
qed

end
