(* ===== verification/Gelf_Message.thy ===== *)
theory Gelf_Message
  imports String_Util
begin

text \<open>
  The message part of the GELF client: \<open>GelfMessageLevel\<close>, \<open>GelfMessageVersion\<close>,
  \<open>GelfMessage\<close>, \<open>GelfMessageBuilder\<close> and \<open>GelfMessageJsonEncoder\<close>. A Java \<open>double\<close> is its
  64 IEEE bits; the JSON writer (Jackson) is a parameter that turns the calls the encoder makes
  into bytes. The additional fields are a map; the order in which \<open>HashMap.entrySet\<close> lists it is
  not specified by Java and is the parameter \<open>iter\<close>.
\<close>

section \<open>Levels and versions\<close>

datatype gelf_level =
    EMERGENCY | ALERT | CRITICAL | LEVEL_ERROR | WARNING | NOTICE | LEVEL_INFO | LEVEL_DEBUG

datatype gelf_version = V1_1

fun getNumericLevel :: "gelf_level \<Rightarrow> jint" where
  "getNumericLevel EMERGENCY = 0"
| "getNumericLevel ALERT = 1"
| "getNumericLevel CRITICAL = 2"
| "getNumericLevel LEVEL_ERROR = 3"
| "getNumericLevel WARNING = 4"
| "getNumericLevel NOTICE = 5"
| "getNumericLevel LEVEL_INFO = 6"
| "getNumericLevel LEVEL_DEBUG = 7"

definition level_values :: "gelf_level list" where
  "level_values = [EMERGENCY, ALERT, CRITICAL, LEVEL_ERROR, WARNING, NOTICE, LEVEL_INFO, LEVEL_DEBUG]"

definition fromNumericLevel :: "jint \<Rightarrow> gelf_level result" where
  "fromNumericLevel n =
     (case List.find (\<lambda>l. n = getNumericLevel l) level_values of
        Some l \<Rightarrow> Inr l
      | None \<Rightarrow> Inl (IllegalArgumentException (''Unknown GELF message level: '' @ show_int (sint n))))"

fun level_name :: "gelf_level \<Rightarrow> string" where
  "level_name EMERGENCY = ''EMERGENCY''"
| "level_name ALERT = ''ALERT''"
| "level_name CRITICAL = ''CRITICAL''"
| "level_name LEVEL_ERROR = ''ERROR''"
| "level_name WARNING = ''WARNING''"
| "level_name NOTICE = ''NOTICE''"
| "level_name LEVEL_INFO = ''INFO''"
| "level_name LEVEL_DEBUG = ''DEBUG''"

definition level_toString :: "gelf_level \<Rightarrow> string" where
  "level_toString l = level_name l @ ''('' @ show_int (sint (getNumericLevel l)) @ '')''"

fun version_toString :: "gelf_version \<Rightarrow> string" where
  "version_toString V1_1 = ''1.1''"

lemma fromNumericLevel_inverse: "fromNumericLevel (getNumericLevel l) = Inr l"
  by (cases l) (simp_all add: fromNumericLevel_def level_values_def)

lemma fromNumericLevel_sound: "fromNumericLevel n = Inr l \<Longrightarrow> getNumericLevel l = n"
  by (auto simp: fromNumericLevel_def find_Some_iff split: option.splits)

text \<open>The order of severity is the numeric one; \<open>values()\<close> lists every level in it.\<close>

lemma getNumericLevel_inject: "getNumericLevel a = getNumericLevel b \<longleftrightarrow> a = b"
  by (metis fromNumericLevel_inverse sum.inject(2))

instantiation gelf_level :: linorder
begin

definition less_eq_gelf_level :: "gelf_level \<Rightarrow> gelf_level \<Rightarrow> bool" where
  "less_eq_gelf_level a b \<longleftrightarrow> getNumericLevel a \<le> getNumericLevel b"

definition less_gelf_level :: "gelf_level \<Rightarrow> gelf_level \<Rightarrow> bool" where
  "less_gelf_level a b \<longleftrightarrow> getNumericLevel a < getNumericLevel b"

instance
  by standard (auto simp: less_eq_gelf_level_def less_gelf_level_def simp flip: getNumericLevel_inject)

end

lemma level_values_sorted: "sorted level_values \<and> distinct level_values \<and> set level_values = UNIV"
proof -
  have "l \<in> set level_values" for l by (cases l) (simp_all add: level_values_def)
  then show ?thesis by (auto simp: level_values_def less_eq_gelf_level_def)
qed

section \<open>Messages\<close>

type_synonym double = "64 word"

datatype gelf_value = VNull | VString string | VInt jint | VLong jlong | VDouble double

type_synonym field_map = "string option \<rightharpoonup> gelf_value"

record 'l gelf_message =
  g_version :: gelf_version
  g_host :: string
  g_message :: string
  g_fullMessage :: "string option"
  g_logMessage :: "'l option"
  g_timestamp :: double
  g_level :: "gelf_level option"
  g_fields :: field_map

definition new_message :: "double \<Rightarrow> string \<Rightarrow> string \<Rightarrow> gelf_version \<Rightarrow> 'l gelf_message" where
  "new_message now msg host v =
     \<lparr>g_version = v, g_host = host, g_message = msg, g_fullMessage = None, g_logMessage = None,
      g_timestamp = now, g_level = Some ALERT, g_fields = Map.empty\<rparr>"

definition addAdditionalField :: "string option \<Rightarrow> gelf_value \<Rightarrow> 'l gelf_message \<Rightarrow> 'l gelf_message" where
  "addAdditionalField key val g =
     (case key of None \<Rightarrow> g | Some k \<Rightarrow> g\<lparr>g_fields := (g_fields g)(Some k \<mapsto> val)\<rparr>)"

definition addAdditionalFields :: "field_map \<Rightarrow> 'l gelf_message \<Rightarrow> 'l gelf_message" where
  "addAdditionalFields fs g = g\<lparr>g_fields := g_fields g ++ fs\<rparr>"

text \<open>
  \<open>equals\<close> (on two \<open>GelfMessage\<close>s): the additional fields and the log message do not count.
  \<open>Double.compare\<close> is 0 for equal bits (the parameter-free case of two non-NaN values).
\<close>

definition message_equals :: "'l gelf_message \<Rightarrow> 'l gelf_message \<Rightarrow> bool" where
  "message_equals a b \<longleftrightarrow>
     g_version a = g_version b \<and> g_message a = g_message b \<and> g_host a = g_host b
     \<and> g_level a = g_level b \<and> g_timestamp a = g_timestamp b \<and> g_fullMessage a = g_fullMessage b"

section \<open>The builder\<close>

record gelf_builder =
  b_version :: "gelf_version option"
  b_host :: "string option"
  b_message :: "string option"
  b_fullMessage :: "string option"
  b_timestamp :: "double option"
  b_level :: "gelf_level option"
  b_fields :: field_map

definition new_builder :: "string option \<Rightarrow> string option \<Rightarrow> gelf_version option \<Rightarrow> gelf_builder" where
  "new_builder msg host v =
     \<lparr>b_version = v, b_host = host, b_message = msg, b_fullMessage = None, b_timestamp = None,
      b_level = Some ALERT, b_fields = Map.empty\<rparr>"

definition additionalField :: "string option \<Rightarrow> gelf_value \<Rightarrow> gelf_builder \<Rightarrow> gelf_builder" where
  "additionalField key val b = b\<lparr>b_fields := (b_fields b)(key \<mapsto> val)\<rparr>"

definition additionalFields :: "field_map \<Rightarrow> gelf_builder \<Rightarrow> gelf_builder" where
  "additionalFields fs b = b\<lparr>b_fields := b_fields b ++ fs\<rparr>"

definition build :: "double \<Rightarrow> gelf_builder \<Rightarrow> 'l gelf_message result" where
  "build now b =
     (case b_message b of
        None \<Rightarrow> Inl (IllegalArgumentException ''message must not be null!'')
      | Some msg \<Rightarrow>
          (case b_host b of
             None \<Rightarrow> Inl (IllegalArgumentException ''host must not be null or empty!'')
           | Some host \<Rightarrow>
               if trim host = [] then Inl (IllegalArgumentException ''host must not be null or empty!'')
               else
                 (case b_version b of
                    None \<Rightarrow> Inl (IllegalArgumentException ''version must not be null!'')
                  | Some v \<Rightarrow>
                      (let g = new_message now msg host v;
                           g1 = g\<lparr>g_level := b_level b\<rparr>;
                           g2 = (case b_fullMessage b of None \<Rightarrow> g1 | Some f \<Rightarrow> g1\<lparr>g_fullMessage := Some f\<rparr>);
                           g3 = (case b_timestamp b of None \<Rightarrow> g2 | Some t \<Rightarrow> g2\<lparr>g_timestamp := t\<rparr>)
                       in Inr (addAdditionalFields (b_fields b) g3)))))"

text \<open>
  What the builder builds: \<open>build\<close> succeeds exactly when there is a message, a version
  and a host that is more than white space; the message then carries exactly what was set (the
  current time when no timestamp was set, the additional fields and nothing else), and otherwise
  \<open>IllegalArgumentException\<close> is raised.
\<close>

theorem build_correct:
  fixes g :: "'l gelf_message"
  shows "(build now b = Inr g \<longleftrightarrow>
      (\<exists>msg host v. b_message b = Some msg \<and> b_host b = Some host \<and> trim host \<noteq> [] \<and> b_version b = Some v
        \<and> g = \<lparr>g_version = v, g_host = host, g_message = msg, g_fullMessage = b_fullMessage b,
              g_logMessage = None, g_timestamp = (case b_timestamp b of None \<Rightarrow> now | Some t \<Rightarrow> t),
              g_level = b_level b, g_fields = b_fields b\<rparr>))
    \<and> ((\<exists>m. (build now b :: 'l gelf_message result) = Inl (IllegalArgumentException m))
        \<or> (\<exists>h. (build now b :: 'l gelf_message result) = Inr h))"
  by (auto simp: build_def new_message_def addAdditionalFields_def Let_def split: option.splits if_splits)

section \<open>JSON\<close>

datatype json_call =
    StartObject
  | StringField string "string option"
  | NumberField string gelf_value
  | NullField string
  | EndObject

definition starts_with_underscore :: "string \<Rightarrow> bool" where
  "starts_with_underscore k \<longleftrightarrow> (case k of [] \<Rightarrow> False | c # cs \<Rightarrow> c = CHR ''_'')"

definition real_key :: "string \<Rightarrow> string" where
  "real_key k = (if starts_with_underscore k then k else CHR ''_'' # k)"

fun field_call :: "string \<Rightarrow> gelf_value \<Rightarrow> json_call" where
  "field_call k (VInt i) = NumberField k (VInt i)"
| "field_call k (VLong i) = NumberField k (VLong i)"
| "field_call k (VDouble d) = NumberField k (VDouble d)"
| "field_call k VNull = NullField k"
| "field_call k (VString s) = StringField k (Some s)"

fun field_calls :: "(string option \<times> gelf_value) list \<Rightarrow> json_call list result" where
  "field_calls [] = Inr []"
| "field_calls ((None, v) # es) = Inl NullPointerException"
| "field_calls ((Some k, v) # es) =
     bind_result (field_calls es) (\<lambda>cs. Inr (field_call (real_key k) v # cs))"

definition header_calls :: "'l gelf_message \<Rightarrow> json_call list" where
  "header_calls g =
     [StringField ''version'' (Some (version_toString (g_version g))),
      NumberField ''timestamp'' (VDouble (g_timestamp g)),
      StringField ''host'' (Some (g_host g)),
      StringField ''short_message'' (Some (g_message g))]
     @ (case g_level g of None \<Rightarrow> [] | Some l \<Rightarrow> [NumberField ''level'' (VInt (getNumericLevel l))])
     @ (case g_fullMessage g of None \<Rightarrow> [] | Some f \<Rightarrow> [StringField ''full_message'' (Some f)])"

definition json_calls ::
  "(field_map \<Rightarrow> (string option \<times> gelf_value) list) \<Rightarrow> 'l gelf_message \<Rightarrow> json_call list result" where
  "json_calls iter g =
     bind_result (field_calls (iter (g_fields g))) (\<lambda>cs.
       Inr ([StartObject] @ header_calls g @ cs @ [EndObject]))"

definition toJson ::
  "(json_call list \<Rightarrow> byte list) \<Rightarrow> (field_map \<Rightarrow> (string option \<times> gelf_value) list)
   \<Rightarrow> 'l gelf_message \<Rightarrow> byte list result" where
  "toJson jackson iter g = bind_result (json_calls iter g) (\<lambda>cs. Inr (jackson cs @ [0]))"

text \<open>The names of the object's members, in the order of writing.\<close>

fun call_name :: "json_call \<Rightarrow> string option" where
  "call_name (StringField k v) = Some k"
| "call_name (NumberField k v) = Some k"
| "call_name (NullField k) = Some k"
| "call_name c = None"

definition member_names :: "json_call list \<Rightarrow> string list" where
  "member_names cs = List.map_filter call_name cs"

lemma member_names_append: "member_names (xs @ ys) = member_names xs @ member_names ys"
  by (induction xs) (auto simp: member_names_def map_filter_simps split: option.splits)

lemma member_names_brackets [simp]:
  "member_names (StartObject # cs) = member_names cs" "member_names [EndObject] = []"
  by (simp_all add: member_names_def map_filter_simps)

definition iterates :: "(field_map \<Rightarrow> (string option \<times> gelf_value) list) \<Rightarrow> field_map \<Rightarrow> bool" where
  "iterates iter m \<longleftrightarrow> distinct (map fst (iter m)) \<and> map_of (iter m) = m"

lemma iterates_keys: "iterates iter m \<Longrightarrow> fst ` set (iter m) = dom m"
  by (auto simp: iterates_def dom_map_of_conv_image_fst simp flip: dom_map_of_conv_image_fst)

lemma field_calls_names:
  "None \<notin> fst ` set es \<Longrightarrow>
     \<exists>cs. field_calls es = Inr cs \<and> member_names cs = map (\<lambda>(k, v). real_key (the k)) es"
proof (induction es)
  case (Cons e es)
  obtain k v where e: "e = (Some k, v)" using Cons.prems by (cases e; cases "fst e") auto
  have "call_name (field_call (real_key k) v) = Some (real_key k)" by (cases v) simp_all
  with Cons e show ?case by (auto simp: member_names_def map_filter_simps)
qed (simp add: member_names_def map_filter_simps)

lemma field_calls_null: "None \<in> fst ` set es \<Longrightarrow> field_calls es = Inl NullPointerException"
  by (induction es rule: field_calls.induct) auto

definition reserved_names :: "string list" where
  "reserved_names = [''version'', ''timestamp'', ''host'', ''short_message'', ''level'', ''full_message'']"

lemma header_names:
  "distinct (member_names (header_calls g)) \<and> set (member_names (header_calls g)) \<subseteq> set reserved_names"
  by (cases "g_level g"; cases "g_fullMessage g")
    (simp_all add: header_calls_def member_names_def map_filter_simps reserved_names_def)

lemma real_key_reserved: "real_key k \<notin> set reserved_names"
  by (auto simp: real_key_def starts_with_underscore_def reserved_names_def split: list.splits)

definition keys_ok :: "field_map \<Rightarrow> bool" where
  "keys_ok m \<longleftrightarrow> None \<notin> dom m \<and> inj_on (\<lambda>k. real_key (the k)) (dom m)"

lemma json_members:
  assumes "iterates iter (g_fields g)" and "keys_ok (g_fields g)"
  shows "\<exists>cs. json_calls iter g = Inr cs \<and> distinct (member_names cs)
    \<and> set (member_names cs) = set (member_names (header_calls g)) \<union> (\<lambda>k. real_key (the k)) ` dom (g_fields g)"
proof -
  let ?es = "iter (g_fields g)"
  have keys: "fst ` set ?es = dom (g_fields g)" using iterates_keys [OF assms(1)] .
  then have "None \<notin> fst ` set ?es" using assms(2) by (simp add: keys_ok_def)
  from field_calls_names [OF this] obtain cs where cs: "field_calls ?es = Inr cs"
    and names: "member_names cs = map (\<lambda>(k, v). real_key (the k)) ?es" by blast
  have eq: "map (\<lambda>(k, v). real_key (the k)) ?es = map (\<lambda>k. real_key (the k)) (map fst ?es)"
    by (simp add: case_prod_beta)
  have set: "set (member_names cs) = (\<lambda>k. real_key (the k)) ` dom (g_fields g)"
    by (simp add: names eq keys [symmetric] image_image del: map_map)
  have "distinct (member_names cs)"
    unfolding names eq using assms keys
    by (simp add: distinct_map keys_ok_def iterates_def del: map_map)
  moreover have "member_names ([StartObject] @ header_calls g @ cs @ [EndObject])
      = member_names (header_calls g) @ member_names cs"
    by (simp add: member_names_append)
  moreover have "set (member_names (header_calls g)) \<inter> set (member_names cs) = {}"
    using header_names [of g] real_key_reserved by (auto simp: set)
  ultimately show ?thesis
    using header_names [of g] by (simp add: json_calls_def cs set)
qed

text \<open>
  The encoded object is a proper JSON object: if no additional field has a null key and
  no two keys differ only by a leading underscore, the encoder succeeds, and the member names are
  pairwise distinct: the fixed GELF members and one underscored member for each additional field,
  whatever order the map is iterated in.
\<close>

theorem json_members_distinct:
  assumes "iterates iter (g_fields g)" and "keys_ok (g_fields g)"
  shows "\<exists>cs. json_calls iter g = Inr cs \<and> distinct (member_names cs)
    \<and> set (member_names cs) = set (member_names (header_calls g)) \<union> (\<lambda>k. real_key (the k)) ` dom (g_fields g)"
  using json_members [OF assms] .

text \<open>A list of the entries of a map by a list of its keys: one order in which a map can be iterated.\<close>

definition entries_by :: "string option list \<Rightarrow> field_map \<Rightarrow> (string option \<times> gelf_value) list" where
  "entries_by ks m = map (\<lambda>k. (k, the (m k))) (filter (\<lambda>k. m k \<noteq> None) ks)"

lemma entries_by_iterates:
  assumes "distinct ks" and "dom m \<subseteq> set ks"
  shows "iterates (entries_by ks) m"
proof -
  have "map_of (entries_by ks m) k = m k" for k
  proof (cases "k \<in> dom m")
    case True
    with assms(2) show ?thesis
      by (auto simp: entries_by_def map_of_map_restrict restrict_map_def)
  next
    case False
    then show ?thesis by (auto simp: entries_by_def map_of_map_restrict restrict_map_def)
  qed
  with assms(1) show ?thesis by (auto simp: iterates_def entries_by_def comp_def)
qed

definition sample_message :: "unit gelf_message" where
  "sample_message = (new_message 0 ''m'' ''h'' V1_1)
     \<lparr>g_fields := [Some ''_tag'' \<mapsto> VString ''t'', Some ''uid'' \<mapsto> VNull]\<rparr>"

theorem json_members_distinct_witness:
  "iterates (entries_by [Some ''uid'', Some ''_tag'']) (g_fields sample_message) \<and> keys_ok (g_fields sample_message)
   \<and> (\<exists>cs. json_calls (entries_by [Some ''uid'', Some ''_tag'']) sample_message = Inr cs
        \<and> distinct (member_names cs) \<and> ''_uid'' \<in> set (member_names cs))"
proof -
  have it: "iterates (entries_by [Some ''uid'', Some ''_tag'']) (g_fields sample_message)"
    by (rule entries_by_iterates) (auto simp: sample_message_def)
  have ok: "keys_ok (g_fields sample_message)"
    by (auto simp: keys_ok_def sample_message_def inj_on_def real_key_def starts_with_underscore_def)
  have "''_uid'' \<in> (\<lambda>k. real_key (the k)) ` dom (g_fields sample_message)"
    by (force simp: sample_message_def real_key_def starts_with_underscore_def)
  then show ?thesis
    using json_members_distinct [OF it ok] it ok by blast
qed

text \<open>Two keys that differ by the underscore only are written as the same member twice.\<close>

lemma json_duplicate_member:
  assumes "iter m = [(Some ''a'', v), (Some ''_a'', w)]"
  shows "\<exists>cs. field_calls (iter m) = Inr cs \<and> member_names cs = [''_a'', ''_a'']"
  using field_calls_names [of "iter m"]
  by (simp add: assms real_key_def starts_with_underscore_def)

section \<open>NUL framing on TCP\<close>

text \<open>
  The encoder ends every document with a zero byte, the separator of Graylog's TCP input. The
  receiving side cuts the stream at the zero bytes.
\<close>

definition null_framed :: "byte list \<Rightarrow> byte list" where
  "null_framed doc = doc @ [0]"

definition read_to_null :: "byte list \<Rightarrow> (byte list \<times> byte list) option" where
  "read_to_null bs =
     (if 0 \<in> set bs then Some (takeWhile (\<lambda>b. b \<noteq> 0) bs, tl (dropWhile (\<lambda>b. b \<noteq> 0) bs)) else None)"

interpretation tcp_frames: framing null_framed "\<lambda>doc. 0 \<notin> set doc" "\<lambda>doc. doc" read_to_null
proof
  fix doc rest :: "byte list"
  assume "0 \<notin> set doc"
  then have "takeWhile (\<lambda>b. b \<noteq> 0) (doc @ 0 # rest) = doc"
    and "dropWhile (\<lambda>b. b \<noteq> 0) (doc @ 0 # rest) = 0 # rest"
    by (auto simp: takeWhile_append dropWhile_append)
  then show "read_to_null (null_framed doc @ rest) = Some (doc, rest)"
    by (simp add: read_to_null_def null_framed_def)
qed (simp add: read_to_null_def)

lemma toJson_framed: "toJson jackson iter g = bind_result (json_calls iter g) (\<lambda>cs. Inr (null_framed (jackson cs)))"
  by (simp add: toJson_def null_framed_def)

text \<open>
  Documents do not run into each other on the wire: with a JSON writer that never writes a
  zero byte (JSON escapes it), two sequences of messages that encode to the same byte stream have
  the same documents, message by message.
\<close>

theorem tcp_stream_unambiguous:
  fixes gs hs :: "'l gelf_message list"
  assumes "\<forall>cs. 0 \<notin> set (jackson cs)"
    and "map (toJson jackson iter) gs = map Inr bss" and "map (toJson jackson iter) hs = map Inr css"
    and "concat bss = concat css"
  shows "bss = css"
proof -
  have framed: "\<exists>docs. bs = map null_framed docs \<and> (\<forall>d \<in> set docs. 0 \<notin> set d)"
    if "map (toJson jackson iter) ms = map Inr bs" for ms :: "'l gelf_message list" and bs
    using that
  proof (induction ms arbitrary: bs)
    case (Cons g ms)
    then obtain b bs' where bs: "bs = b # bs'" and b: "toJson jackson iter g = Inr b"
      and rest: "map (toJson jackson iter) ms = map Inr bs'" by (cases bs) auto
    from Cons.IH [OF rest] obtain docs where "bs' = map null_framed docs" "\<forall>d \<in> set docs. 0 \<notin> set d"
      by blast
    moreover from b obtain cs where "b = null_framed (jackson cs)"
      by (auto simp: toJson_framed bind_result_Inr_iff)
    ultimately show ?case
      using assms(1) by (intro exI [of _ "jackson cs # docs"]) (simp add: bs)
  qed simp
  from framed [OF assms(2)] framed [OF assms(3)] obtain ds es
    where ds: "bss = map null_framed ds" "\<forall>d \<in> set ds. 0 \<notin> set d"
      and es: "css = map null_framed es" "\<forall>d \<in> set es. 0 \<notin> set d" by blast
  have "map (\<lambda>doc. doc) ds = map (\<lambda>doc. doc) es"
    using ds es assms(4) by (intro tcp_frames.concat_unique) simp_all
  then show ?thesis by (simp add: ds es)
qed

definition ones_writer :: "json_call list \<Rightarrow> byte list" where
  "ones_writer cs = replicate (length cs) 1"

theorem tcp_stream_unambiguous_witness:
  "(\<forall>cs. 0 \<notin> set (ones_writer cs))
   \<and> toJson ones_writer (entries_by []) (new_message 0 ''m'' ''h'' V1_1 :: unit gelf_message)
      = Inr [1, 1, 1, 1, 1, 1, 1, 0]"
proof -
  have w: "\<forall>cs. 0 \<notin> set (ones_writer cs)" by (simp add: ones_writer_def)
  have j: "toJson ones_writer (entries_by []) (new_message 0 ''m'' ''h'' V1_1 :: unit gelf_message)
      = Inr [1, 1, 1, 1, 1, 1, 1, 0]"
    by (simp add: toJson_def json_calls_def header_calls_def ones_writer_def entries_by_def new_message_def)
  then show ?thesis
    using w tcp_stream_unambiguous [OF w, of "entries_by []" "[new_message 0 ''m'' ''h'' V1_1 :: unit gelf_message]"
        "[[1, 1, 1, 1, 1, 1, 1, 0]]" "[new_message 0 ''m'' ''h'' V1_1]" "[[1, 1, 1, 1, 1, 1, 1, 0]]"]
    by simp
qed

end
