(* ===== verification/Gelf_Chunk_Encoder.thy ===== *)
theory Gelf_Chunk_Encoder
  imports Byte_Util "HOL-Library.Multiset"
begin

text \<open>
  \<open>encoder/GelfMessageChunkEncoder.java\<close>, which cuts a message into UDP datagrams: messages up to
  1420 bytes go out as they are, larger ones up to 128 * 1420 bytes as chunks with a 12-byte header
  (two magic bytes, the 8-byte message id, sequence number and count), larger ones still are an
  \<open>EncoderException\<close>. The wall clock is the parameter \<open>now\<close>. The specification side is the
  receiver that sorts the chunks by sequence number and joins their data.
\<close>

section \<open>The encoder\<close>

definition MAX_CHUNKS :: nat where "MAX_CHUNKS = 128"
definition MAX_CHUNK_SIZE :: nat where "MAX_CHUNK_SIZE = 1420"
definition MAX_MESSAGE_SIZE :: nat where "MAX_MESSAGE_SIZE = MAX_CHUNKS * MAX_CHUNK_SIZE"
definition CHUNK_MAGIC_BYTES :: "byte list" where "CHUNK_MAGIC_BYTES = [0x1e, 0x0f]"

lemmas chunk_consts = MAX_CHUNKS_def MAX_CHUNK_SIZE_def MAX_MESSAGE_SIZE_def

record chunk_encoder =
  machineIdentifier :: "byte list"

record chunker =
  ck_sequenceCount :: "byte list"
  ck_sequenceNumber :: jint
  ck_messageId :: "byte list"

definition newChunkEncoder :: "byte list \<Rightarrow> chunk_encoder result" where
  "newChunkEncoder ident =
     (if length ident < 4
      then Inl (IllegalArgumentException ''The machine identifier must at least be 4 bytes long.'')
      else Inr \<lparr>machineIdentifier = take 4 ident\<rparr>)"

text \<open>\<open>messageId.writeInt((int) System.currentTimeMillis())\<close>, then the machine identifier.\<close>

definition generateMessageId :: "chunk_encoder \<Rightarrow> jlong \<Rightarrow> byte list" where
  "generateMessageId enc now = int_bytes (ucast now) @ take 4 (machineIdentifier enc)"

definition newChunker :: "chunk_encoder \<Rightarrow> jlong \<Rightarrow> nat \<Rightarrow> chunker" where
  "newChunker enc now messageSize =
     (let n = messageSize div MAX_CHUNK_SIZE;
          n' = (if messageSize mod MAX_CHUNK_SIZE \<noteq> 0 then n + 1 else n)
      in \<lparr>ck_sequenceCount = [of_nat n'], ck_sequenceNumber = 0, ck_messageId = generateMessageId enc now\<rparr>)"

definition nextChunk :: "byte list \<Rightarrow> chunker \<Rightarrow> byte list \<times> chunker" where
  "nextChunk dat c =
     (CHUNK_MAGIC_BYTES @ ck_messageId c @ [ucast (ck_sequenceNumber c)] @ ck_sequenceCount c @ dat,
      c\<lparr>ck_sequenceNumber := ck_sequenceNumber c + 1\<rparr>)"

text \<open>The loop over the readable bytes: full slices first, the rest as the last slice.\<close>

function chunk_loop :: "byte list \<Rightarrow> chunker \<Rightarrow> byte list list" where
  "chunk_loop buf c =
     (if buf = [] then []
      else if MAX_CHUNK_SIZE \<le> length buf
      then (let (out, c') = nextChunk (take MAX_CHUNK_SIZE buf) c in out # chunk_loop (drop MAX_CHUNK_SIZE buf) c')
      else (let (out, c') = nextChunk buf c in [out]))"
  by pat_completeness auto
termination
  by (relation "measure (\<lambda>(buf, c). length buf)") (auto simp: chunk_consts)

declare chunk_loop.simps [simp del]

definition chunk_encode :: "chunk_encoder \<Rightarrow> jlong \<Rightarrow> byte list \<Rightarrow> byte list list result" where
  "chunk_encode enc now buf =
     (if MAX_MESSAGE_SIZE < length buf
      then Inl (EncoderException (''Message too big. '' @ show_int (int (length buf)) @ '' bytes (max ''
                  @ show_int (int MAX_MESSAGE_SIZE) @ '')''))
      else if length buf \<le> MAX_CHUNK_SIZE then Inr [buf]
      else Inr (chunk_loop buf (newChunker enc now (length buf))))"

section \<open>The shape of the chunks\<close>

fun slices :: "byte list \<Rightarrow> nat \<Rightarrow> byte list list" where
  "slices buf 0 = []"
| "slices buf (Suc n) = take MAX_CHUNK_SIZE buf # slices (drop MAX_CHUNK_SIZE buf) n"

definition chunk_count :: "nat \<Rightarrow> nat" where
  "chunk_count len = (len + (MAX_CHUNK_SIZE - 1)) div MAX_CHUNK_SIZE"

definition make_chunk :: "byte list \<Rightarrow> byte list \<Rightarrow> jint \<Rightarrow> byte list \<Rightarrow> byte list" where
  "make_chunk msgId cnt i dat = CHUNK_MAGIC_BYTES @ msgId @ [ucast i] @ cnt @ dat"

lemma chunk_count_alt:
  "chunk_count len = len div MAX_CHUNK_SIZE + (if len mod MAX_CHUNK_SIZE \<noteq> 0 then 1 else 0)"
proof -
  have "(1420 * q + r + 1419) div 1420 = q + (if r \<noteq> 0 then 1 else 0)" if "r < 1420" for q r :: nat
    using that by (auto intro!: div_nat_eqI)
  from this [of "len mod 1420" "len div 1420"] show ?thesis
    by (simp add: chunk_count_def chunk_consts)
qed

lemma chunk_count_pos: "0 < len \<Longrightarrow> 0 < chunk_count len"
  by (simp add: chunk_count_def chunk_consts div_greater_zero_iff)

lemma chunk_count_step:
  assumes "MAX_CHUNK_SIZE \<le> len"
  shows "chunk_count len = Suc (chunk_count (len - MAX_CHUNK_SIZE))"
proof -
  obtain k where k: "len = MAX_CHUNK_SIZE + k" using assms le_Suc_ex by blast
  have "MAX_CHUNK_SIZE + k + (MAX_CHUNK_SIZE - 1) = (k + (MAX_CHUNK_SIZE - 1)) + MAX_CHUNK_SIZE" by simp
  then show ?thesis by (simp add: k chunk_count_def) (simp add: chunk_consts)
qed

lemma chunk_count_small: "0 < len \<Longrightarrow> len < MAX_CHUNK_SIZE \<Longrightarrow> chunk_count len = 1"
  by (auto simp: chunk_count_def chunk_consts intro!: div_nat_eqI)

lemma chunk_count_le_max:
  assumes "len \<le> MAX_MESSAGE_SIZE"
  shows "chunk_count len \<le> MAX_CHUNKS"
proof -
  have "(len + 1419) div 1420 \<le> (181760 + 1419) div 1420"
    using assms by (intro div_le_mono) (simp add: chunk_consts)
  then show ?thesis by (simp add: chunk_count_def chunk_consts)
qed

lemma length_slices [simp]: "length (slices buf n) = n"
  by (induction n arbitrary: buf) auto

lemma slices_small: "s \<in> set (slices buf n) \<Longrightarrow> length s \<le> MAX_CHUNK_SIZE"
  by (induction n arbitrary: buf) auto

lemma concat_slices: "concat (slices buf n) = take (n * MAX_CHUNK_SIZE) buf"
  by (induction n arbitrary: buf) (simp_all add: take_add)

lemma concat_slices_count: "concat (slices buf (chunk_count (length buf))) = buf"
proof -
  have "length buf \<le> chunk_count (length buf) * MAX_CHUNK_SIZE"
    using dividend_less_times_div [of 1420 "length buf + 1419"]
    by (simp add: chunk_count_def chunk_consts)
  then show ?thesis by (simp add: concat_slices)
qed

primrec numbered :: "byte list \<Rightarrow> byte list \<Rightarrow> jint \<Rightarrow> byte list list \<Rightarrow> byte list list" where
  "numbered msgId cnt i [] = []"
| "numbered msgId cnt i (s # ss) = make_chunk msgId cnt i s # numbered msgId cnt (i + 1) ss"

lemma length_numbered [simp]: "length (numbered msgId cnt i ss) = length ss"
  by (induction ss arbitrary: i) auto

lemma nth_numbered:
  "j < length ss \<Longrightarrow> numbered msgId cnt i ss ! j = make_chunk msgId cnt (i + of_nat j) (ss ! j)"
  by (induction ss arbitrary: i j) (auto simp: nth_Cons ac_simps split: nat.split)

lemma chunk_loop_numbered:
  "chunk_loop buf c = numbered (ck_messageId c) (ck_sequenceCount c) (ck_sequenceNumber c)
     (slices buf (chunk_count (length buf)))"
proof (induction buf c rule: chunk_loop.induct)
  case (1 buf c)
  consider (nil) "buf = []" | (more) "buf \<noteq> []" "MAX_CHUNK_SIZE \<le> length buf"
    | (last) "buf \<noteq> []" "length buf < MAX_CHUNK_SIZE" by fastforce
  then show ?case
  proof cases
    case nil
    then show ?thesis by (simp add: chunk_loop.simps [of "[]" c] chunk_count_def chunk_consts)
  next
    case more
    obtain out c' where n: "nextChunk (take MAX_CHUNK_SIZE buf) c = (out, c')" by fastforce
    then have out: "out = make_chunk (ck_messageId c) (ck_sequenceCount c) (ck_sequenceNumber c) (take MAX_CHUNK_SIZE buf)"
      and c': "ck_messageId c' = ck_messageId c" "ck_sequenceCount c' = ck_sequenceCount c"
        "ck_sequenceNumber c' = ck_sequenceNumber c + 1"
      by (auto simp: nextChunk_def make_chunk_def)
    from "1.IH" [OF more(1,2) n [symmetric] refl] more n show ?thesis
      by (simp add: chunk_loop.simps [of buf c] out c' chunk_count_step)
  next
    case last
    then show ?thesis
      by (simp add: chunk_loop.simps [of buf c] nextChunk_def make_chunk_def chunk_count_small)
  qed
qed


section \<open>The receiver\<close>

definition chunk_magic_ok :: "byte list \<Rightarrow> bool" where
  "chunk_magic_ok ch \<longleftrightarrow> take 2 ch = CHUNK_MAGIC_BYTES"

definition chunk_id :: "byte list \<Rightarrow> byte list" where
  "chunk_id ch = take 8 (drop 2 ch)"

definition chunk_seq :: "byte list \<Rightarrow> nat" where
  "chunk_seq ch = unat (ch ! 10)"

definition chunk_total :: "byte list \<Rightarrow> nat" where
  "chunk_total ch = unat (ch ! 11)"

definition chunk_data :: "byte list \<Rightarrow> byte list" where
  "chunk_data ch = drop 12 ch"

definition reassemble :: "byte list list \<Rightarrow> byte list" where
  "reassemble chs = concat (map chunk_data (sort_key chunk_seq chs))"

lemma make_chunk_fields:
  assumes "length msgId = 8"
  shows "chunk_magic_ok (make_chunk msgId [cnt] i dat)" and "chunk_id (make_chunk msgId [cnt] i dat) = msgId"
    and "chunk_seq (make_chunk msgId [cnt] i dat) = unat (ucast i :: byte)"
    and "chunk_total (make_chunk msgId [cnt] i dat) = unat cnt"
    and "chunk_data (make_chunk msgId [cnt] i dat) = dat"
    and "length (make_chunk msgId [cnt] i dat) = 12 + length dat"
  using assms
  by (simp_all add: make_chunk_def CHUNK_MAGIC_BYTES_def chunk_magic_ok_def chunk_id_def chunk_seq_def
      chunk_total_def chunk_data_def nth_append numeral_2_eq_2)

lemma newChunkEncoder_identifier:
  "newChunkEncoder ident = Inr enc \<Longrightarrow> machineIdentifier enc = take 4 ident \<and> 4 \<le> length ident"
  by (auto simp: newChunkEncoder_def split: if_splits)

lemma length_generateMessageId:
  "4 \<le> length (machineIdentifier enc) \<Longrightarrow> length (generateMessageId enc now) = 8"
  by (simp add: generateMessageId_def int_codec.length_put)

lemma newChunker_fields:
  "ck_messageId (newChunker enc now len) = generateMessageId enc now"
  "ck_sequenceNumber (newChunker enc now len) = 0"
  "ck_sequenceCount (newChunker enc now len) = [of_nat (chunk_count len)]"
  by (simp_all add: newChunker_def chunk_count_alt Let_def)

lemma chunk_encode_chunks:
  assumes "MAX_CHUNK_SIZE < length buf" and "length buf \<le> MAX_MESSAGE_SIZE"
  shows "chunk_encode enc now buf = Inr (numbered (generateMessageId enc now)
    [of_nat (chunk_count (length buf))] 0 (slices buf (chunk_count (length buf))))"
  using assms by (simp add: chunk_encode_def chunk_loop_numbered newChunker_fields)

lemma chunk_seq_numbered:
  assumes "length msgId = 8" and "j < length ss" and "length ss \<le> 256"
  shows "chunk_seq (numbered msgId [cnt] 0 ss ! j) = j"
  using assms by (simp add: nth_numbered make_chunk_fields unsigned_ucast_eq unat_of_nat take_bit_eq_mod)

lemma map_seq_numbered:
  assumes "length msgId = 8" and "length ss \<le> 256"
  shows "map chunk_seq (numbered msgId [cnt] 0 ss) = [0..<length ss]"
  using assms by (intro nth_equalityI) (simp_all add: chunk_seq_numbered)

lemma map_data_numbered:
  assumes "length msgId = 8"
  shows "map chunk_data (numbered msgId [cnt] i ss) = ss"
  using assms by (intro nth_equalityI) (simp_all add: nth_numbered make_chunk_fields)

lemma reassemble_numbered:
  assumes "length msgId = 8" and "length ss \<le> 256"
    and "mset received = mset (numbered msgId [cnt] 0 ss)"
  shows "reassemble received = concat ss"
proof -
  let ?chunks = "numbered msgId [cnt] 0 ss"
  have "distinct (map chunk_seq ?chunks)" and "sorted (map chunk_seq ?chunks)"
    by (simp_all add: map_seq_numbered [OF assms(1,2)])
  then have "sort_key chunk_seq received = ?chunks"
    using assms(3) by (intro sort_key_inj_key_eq) (auto simp: distinct_map dest: mset_eq_setD)
  then show ?thesis by (simp add: reassemble_def map_data_numbered [OF assms(1)])
qed

lemma chunk_encode_cases_small: "length buf \<le> 1420 \<Longrightarrow> chunk_encode enc now buf = Inr [buf]"
  by (simp add: chunk_encode_def chunk_consts)

lemma chunk_encode_delivery:
  assumes "newChunkEncoder ident = Inr enc"
    and "MAX_CHUNK_SIZE < length buf" and "length buf \<le> MAX_MESSAGE_SIZE"
  shows "\<exists>chunks. chunk_encode enc now buf = Inr chunks
    \<and> length chunks = chunk_count (length buf) \<and> 2 \<le> length chunks \<and> length chunks \<le> 128
    \<and> map chunk_seq chunks = [0..<length chunks]
    \<and> list_all (\<lambda>ch. length ch \<le> 1432) chunks
    \<and> list_all (\<lambda>ch. chunk_magic_ok ch \<and> chunk_id ch = generateMessageId enc now
         \<and> chunk_total ch = length chunks) chunks
    \<and> (\<forall>received. mset received = mset chunks \<longrightarrow> reassemble received = buf)"
proof -
  let ?n = "chunk_count (length buf)" and ?id = "generateMessageId enc now"
  let ?chunks = "numbered ?id [of_nat ?n] 0 (slices buf ?n)"
  have id: "length ?id = 8"
    using newChunkEncoder_identifier [OF assms(1)] by (simp add: length_generateMessageId)
  have le: "?n \<le> 128" using chunk_count_le_max [OF assms(3)] by (simp add: chunk_consts)
  have "0 < chunk_count (length buf - MAX_CHUNK_SIZE)" using assms(2) by (intro chunk_count_pos) simp
  then have ge: "2 \<le> ?n" using chunk_count_step [of "length buf"] assms(2) by simp
  have each: "length ch \<le> 1432 \<and> chunk_magic_ok ch \<and> chunk_id ch = ?id \<and> chunk_total ch = ?n"
    if "ch \<in> set ?chunks" for ch
  proof -
    from that obtain j where j: "j < ?n" "ch = make_chunk ?id [of_nat ?n] (of_nat j) (slices buf ?n ! j)"
      by (auto simp: in_set_conv_nth nth_numbered)
    have "length (slices buf ?n ! j) \<le> 1420"
      using slices_small [of "slices buf ?n ! j" buf ?n] j(1) by (simp add: chunk_consts)
    then show ?thesis
      using le by (simp add: j(2) make_chunk_fields [OF id] unat_of_nat take_bit_eq_mod)
  qed
  have "\<forall>received. mset received = mset ?chunks \<longrightarrow> reassemble received = buf"
    using reassemble_numbered [OF id, of "slices buf ?n"] le by (simp add: concat_slices_count)
  with le ge each show ?thesis
    by (simp add: chunk_encode_chunks [OF assms(2,3)] map_seq_numbered [OF id] list_all_iff)
qed

text \<open>
  Claim C9. Every message above 1420 and up to 181760 bytes is cut into exactly as many chunks as
  its length needs, never more than 128; each chunk is a datagram of at most 1432 bytes with the
  magic bytes, the message id, its position and the true count; and a receiver that gets the
  chunks in any order rebuilds the message from their sequence numbers.
\<close>
theorem chunks_reassemble:
  assumes "newChunkEncoder ident = Inr enc"
    and "MAX_CHUNK_SIZE < length buf" and "length buf \<le> MAX_MESSAGE_SIZE"
  shows "\<exists>chunks. chunk_encode enc now buf = Inr chunks
    \<and> length chunks = chunk_count (length buf) \<and> 2 \<le> length chunks \<and> length chunks \<le> 128
    \<and> map chunk_seq chunks = [0..<length chunks]
    \<and> list_all (\<lambda>ch. length ch \<le> 1432 \<and> chunk_magic_ok ch \<and> chunk_id ch = generateMessageId enc now
         \<and> chunk_total ch = length chunks) chunks
    \<and> (\<forall>received. mset received = mset chunks \<longrightarrow> reassemble received = buf)"
  using chunk_encode_delivery [OF assms, of now] by (auto simp: list_all_iff)

theorem chunks_reassemble_witness:
  "\<exists>enc. newChunkEncoder (replicate 5 7) = Inr enc \<and> (\<exists>chunks. chunk_encode enc 3 (replicate 3000 1) = Inr chunks
     \<and> length chunks = 3 \<and> reassemble (rev chunks) = replicate 3000 1)"
proof -
  have e: "newChunkEncoder (replicate 5 7) = Inr \<lparr>machineIdentifier = take 4 (replicate 5 7)\<rparr>"
    by (simp add: newChunkEncoder_def)
  have "chunk_count 3000 = 3" by (simp add: chunk_count_def chunk_consts)
  moreover have "MAX_CHUNK_SIZE < length (replicate 3000 (1 :: byte))"
      "length (replicate 3000 (1 :: byte)) \<le> MAX_MESSAGE_SIZE"
    by (simp_all add: chunk_consts)
  from chunks_reassemble [OF e this, of 3] obtain chunks
    where "chunk_encode \<lparr>machineIdentifier = take 4 (replicate 5 7)\<rparr> 3 (replicate 3000 1) = Inr chunks"
      and "length chunks = chunk_count 3000" and "\<forall>r. mset r = mset chunks \<longrightarrow> reassemble r = replicate 3000 1"
    by auto
  moreover from this(3) have "reassemble (rev chunks) = replicate 3000 1" by simp
  ultimately show ?thesis using e by auto
qed

text \<open>
  The three-way split of the encoder: an \<open>EncoderException\<close> exactly above 181760
  bytes, the message itself as the only datagram exactly up to 1420 bytes; and the message id
  depends on the message only through the low 32 bits of the clock, so two messages cut by one
  encoder in the same millisecond carry the same id.
\<close>
theorem chunk_encode_cases:
  "(chunk_encode enc now buf = Inr [buf] \<longleftrightarrow> length buf \<le> 1420)
   \<and> ((\<exists>msg. chunk_encode enc now buf = Inl (EncoderException msg)) \<longleftrightarrow> 181760 < length buf)
   \<and> (generateMessageId enc now = generateMessageId enc later \<longleftrightarrow> (ucast now :: jint) = ucast later)"
proof (intro conjI)
  have "chunk_encode enc now buf \<noteq> Inr [buf]" if "1420 < length buf"
  proof (cases "length buf \<le> MAX_MESSAGE_SIZE")
    case True
    let ?n = "chunk_count (length buf)"
    have "1 < ?n"
      using that chunk_count_pos [of "length buf - MAX_CHUNK_SIZE"] chunk_count_step [of "length buf"]
      by (simp add: chunk_consts)
    then have "numbered (generateMessageId enc now) [of_nat ?n] 0 (slices buf ?n) \<noteq> [buf]"
      by (metis length_numbered length_slices less_irrefl length_Cons list.size(3) One_nat_def)
    with that True show ?thesis by (simp add: chunk_encode_chunks chunk_consts)
  next
    case False
    then show ?thesis by (simp add: chunk_encode_def)
  qed
  then show "chunk_encode enc now buf = Inr [buf] \<longleftrightarrow> length buf \<le> 1420"
    by (auto simp: chunk_encode_def chunk_consts not_le)
  show "(\<exists>msg. chunk_encode enc now buf = Inl (EncoderException msg)) \<longleftrightarrow> 181760 < length buf"
    by (auto simp: chunk_encode_def chunk_consts)
  show "generateMessageId enc now = generateMessageId enc later \<longleftrightarrow> (ucast now :: jint) = ucast later"
    by (auto simp: generateMessageId_def dest: int_codec.put_inj)
qed

end
