(* ===== verification/Gelf_Config.thy ===== *)
theory Gelf_Config
  imports Gelf_Message Gelf_Chunk_Encoder Interfaces
begin

text \<open>
  \<open>GelfConfiguration.java\<close>, \<open>GelfTransports.java\<close>, the bounded queue of
  \<open>AbstractGelfTransport.java\<close> (\<open>LinkedBlockingQueue\<close>) and the encoder pipelines the two
  transports install: what the configuration accepts, and what a message becomes on the wire.
  GZIP and Jackson are parameters.
\<close>

section \<open>Configuration\<close>

datatype gelf_transport_kind = TCP | UDP

record gelf_config =
  conf_hostname :: string
  conf_port :: jint
  conf_transport :: gelf_transport_kind
  conf_queueSize :: jint
  conf_tlsEnabled :: bool
  conf_tlsTrustCertChainFile :: "string option"
  conf_tlsCertVerificationEnabled :: bool
  conf_reconnectDelay :: jint
  conf_connectTimeout :: jint
  conf_tcpNoDelay :: bool
  conf_tcpKeepAlive :: bool
  conf_sendBufferSize :: jint

definition DEFAULT_PORT :: jint where "DEFAULT_PORT = 12201"
definition DEFAULT_HOSTNAME :: string where "DEFAULT_HOSTNAME = ''127.0.0.1''"

definition checkHostname :: "string option \<Rightarrow> string result" where
  "checkHostname hostname =
     (case hostname of
        None \<Rightarrow> Inl (IllegalArgumentException ''hostname can't be null'')
      | Some h \<Rightarrow> if trim h = [] then Inl (IllegalArgumentException ''hostname can't be empty'') else Inr h)"

definition checkPort :: "jint \<Rightarrow> jint result" where
  "checkPort port =
     (if sint port < 1 \<or> 65535 < sint port
      then Inl (IllegalArgumentException (''port out of range: '' @ show_int (sint port)))
      else Inr port)"

definition newGelfConfiguration :: "string option \<Rightarrow> jint \<Rightarrow> gelf_config result" where
  "newGelfConfiguration hostname port =
     bind_result (checkHostname hostname) (\<lambda>h.
     bind_result (checkPort port) (\<lambda>p.
       Inr \<lparr>conf_hostname = h, conf_port = p, conf_transport = TCP, conf_queueSize = 512,
            conf_tlsEnabled = False, conf_tlsTrustCertChainFile = None,
            conf_tlsCertVerificationEnabled = True, conf_reconnectDelay = 500, conf_connectTimeout = 1000,
            conf_tcpNoDelay = False, conf_tcpKeepAlive = False, conf_sendBufferSize = - 1\<rparr>))"

definition defaultGelfConfiguration :: "gelf_config result" where
  "defaultGelfConfiguration = newGelfConfiguration (Some DEFAULT_HOSTNAME) DEFAULT_PORT"

lemma newGelfConfiguration_ok_iff:
  "(\<exists>c. newGelfConfiguration h p = Inr c) \<longleftrightarrow>
     (\<exists>s. h = Some s \<and> trim s \<noteq> []) \<and> 1 \<le> sint p \<and> sint p \<le> 65535"
  by (auto simp: newGelfConfiguration_def checkHostname_def checkPort_def bind_result_Inr_iff split: option.splits)

lemma newGelfConfiguration_fields:
  assumes "newGelfConfiguration (Some h) p = Inr c"
  shows "conf_hostname c = h" and "conf_port c = p" and "conf_queueSize c = 512" and "conf_transport c = TCP"
  using assms by (auto simp: newGelfConfiguration_def checkHostname_def checkPort_def bind_result_Inr_iff split: if_splits)

text \<open>The trust decision of \<open>GelfTcpTransport.initChannel\<close>.\<close>

datatype tls_mode = NoTls | InsecureTls | TrustFile string | DefaultTrust

definition tls_of :: "gelf_config \<Rightarrow> tls_mode" where
  "tls_of c =
     (if conf_tlsEnabled c
      then if \<not> conf_tlsCertVerificationEnabled c then InsecureTls
           else (case conf_tlsTrustCertChainFile c of Some f \<Rightarrow> TrustFile f | None \<Rightarrow> DefaultTrust)
      else NoTls)"

lemma tls_verified: "conf_tlsEnabled c \<Longrightarrow> conf_tlsCertVerificationEnabled c \<Longrightarrow> tls_of c \<notin> {NoTls, InsecureTls}"
  by (auto simp: tls_of_def split: option.splits)

section \<open>The bounded queue\<close>

text \<open>
  \<open>java.util.concurrent.LinkedBlockingQueue\<close>: \<open>offer\<close> refuses when full, \<open>put\<close> waits until it
  would not, \<open>poll\<close> takes the head. The constructor refuses a capacity below one.
\<close>

record 'a jqueue =
  q_items :: "'a list"
  q_capacity :: nat

definition newQueue :: "jint \<Rightarrow> 'a jqueue result" where
  "newQueue n =
     (if sint n \<le> 0 then Inl (IllegalArgumentException [])
      else Inr \<lparr>q_items = [], q_capacity = nat (sint n)\<rparr>)"

definition offer :: "'a \<Rightarrow> 'a jqueue \<Rightarrow> bool \<times> 'a jqueue" where
  "offer a q =
     (if length (q_items q) < q_capacity q then (True, q\<lparr>q_items := q_items q @ [a]\<rparr>) else (False, q))"

definition poll :: "'a jqueue \<Rightarrow> 'a option \<times> 'a jqueue" where
  "poll q = (case q_items q of [] \<Rightarrow> (None, q) | a # as \<Rightarrow> (Some a, q\<lparr>q_items := as\<rparr>))"

interpretation linked_queue: fifo_queue q_items q_capacity offer poll
  by unfold_locales (auto simp: offer_def poll_def split: list.splits)

definition queue_ok :: "'a jqueue \<Rightarrow> bool" where
  "queue_ok q \<longleftrightarrow> length (q_items q) \<le> q_capacity q"

lemma queue_ok_bounded: "queue_ok = linked_queue.bounded"
  by (simp add: fun_eq_iff queue_ok_def linked_queue.bounded_def)

lemma newQueue_ok: "newQueue n = Inr q \<Longrightarrow> queue_ok q \<and> q_items q = [] \<and> 0 < q_capacity q"
  by (auto simp: newQueue_def queue_ok_def split: if_splits)

lemma offer_ok: "queue_ok q \<Longrightarrow> offer a q = (r, q') \<Longrightarrow>
    queue_ok q' \<and> q_capacity q' = q_capacity q \<and> q_items q' = q_items q @ (if r then [a] else [])"
  using linked_queue.offer_bounded [of q a] linked_queue.items_offer [of a q] linked_queue.offer_capacity [of a q]
  by (simp add: queue_ok_bounded)

lemma poll_ok: "queue_ok q \<Longrightarrow> poll q = (r, q') \<Longrightarrow>
    queue_ok q' \<and> q_capacity q' = q_capacity q \<and> q_items q = (case r of None \<Rightarrow> [] | Some a \<Rightarrow> [a]) @ q_items q'"
  using linked_queue.poll_bounded [of q] linked_queue.items_poll [of q] linked_queue.poll_capacity [of q]
  by (simp add: queue_ok_bounded)

section \<open>The encoder pipelines\<close>

text \<open>
  Netty runs the outbound handlers from the last added to the first. \<open>GelfTcpTransport\<close> adds only the
  JSON encoder; \<open>GelfUdpTransport\<close> adds the datagram encoder, the chunk encoder, the GZIP encoder and
  the JSON encoder, so a message is written as JSON, compressed, cut and addressed in this order.
\<close>

record wire =
  jackson :: "json_call list \<Rightarrow> byte list"
  field_order :: "field_map \<Rightarrow> (string option \<times> gelf_value) list"
  gzip :: "byte list \<Rightarrow> byte list"

definition compress :: "wire \<Rightarrow> byte list \<Rightarrow> byte list" where
  "compress w msg = gzip w msg"

definition to_datagrams :: "string \<times> jint \<Rightarrow> byte list list \<Rightarrow> (byte list \<times> (string \<times> jint)) list" where
  "to_datagrams addr bufs = map (\<lambda>b. (b, addr)) bufs"

definition tcp_write :: "wire \<Rightarrow> 'l gelf_message \<Rightarrow> byte list result" where
  "tcp_write w g = toJson (jackson w) (field_order w) g"

definition udp_write ::
  "wire \<Rightarrow> gelf_config \<Rightarrow> chunk_encoder \<Rightarrow> jlong \<Rightarrow> 'l gelf_message
   \<Rightarrow> (byte list \<times> (string \<times> jint)) list result" where
  "udp_write w conf enc now g =
     bind_result (toJson (jackson w) (field_order w) g) (\<lambda>json.
     bind_result (chunk_encode enc now (compress w json)) (\<lambda>bufs.
       Inr (to_datagrams (conf_hostname conf, conf_port conf) bufs)))"

text \<open>
  The receiver of the datagrams of one message: chunks, told by their magic bytes, are
  reassembled, anything else is the message itself; the result is unpacked. A GZIP member starts
  with the bytes 1f 8b (RFC 1952), so it never looks like a chunk.
\<close>

definition udp_receive :: "(byte list \<Rightarrow> byte list) \<Rightarrow> byte list list \<Rightarrow> byte list" where
  "udp_receive gunzip ds = gunzip (if list_all chunk_magic_ok ds then reassemble ds else concat ds)"

definition gzip_documented :: "(byte list \<Rightarrow> byte list) \<Rightarrow> (byte list \<Rightarrow> byte list) \<Rightarrow> bool" where
  "gzip_documented gz gunz \<longleftrightarrow> (\<forall>bs. gunz (gz bs) = bs \<and> take 2 (gz bs) = [0x1f, 0x8b])"

text \<open>
  End to end over UDP: whatever the encoders accept, the datagrams all go to the configured
  address, there are at most 128 of them, none is longer than 1432 bytes, and a receiver that
  gets them in any order unpacks exactly the JSON document of the message; and the only ways to
  fail are a null field key and a compressed document above 181760 bytes.
\<close>

theorem udp_end_to_end:
  fixes g :: "'l gelf_message"
  assumes "newChunkEncoder ident = Inr enc" and "gzip_documented (gzip w) gunzip"
    and json: "toJson (jackson w) (field_order w) g = Inr json"
  shows "if length (gzip w json) \<le> 181760
    then \<exists>ds. udp_write w conf enc now g = Inr ds
      \<and> length ds \<le> 128
      \<and> list_all (\<lambda>(d, addr). length d \<le> 1432 \<and> addr = (conf_hostname conf, conf_port conf)) ds
      \<and> (\<forall>received. mset received = mset (map fst ds) \<longrightarrow> udp_receive gunzip received = json)
    else \<exists>msg. udp_write w conf enc now g = Inl (EncoderException msg)"
proof -
  let ?z = "gzip w json"
  consider (small) "length ?z \<le> 1420" | (cut) "1420 < length ?z" "length ?z \<le> 181760"
    | (big) "181760 < length ?z" by linarith
  then show ?thesis
  proof cases
    case small
    then have "chunk_encode enc now ?z = Inr [?z]" using chunk_encode_cases_small by blast
    with json have w: "udp_write w conf enc now g = Inr [(?z, (conf_hostname conf, conf_port conf))]"
      by (simp add: udp_write_def compress_def to_datagrams_def)
    have "udp_receive gunzip received = json" if "mset received = mset [?z]" for received
      using that assms(2)
      by (simp add: udp_receive_def chunk_magic_ok_def CHUNK_MAGIC_BYTES_def gzip_documented_def)
    with small w show ?thesis by auto
  next
    case cut
    then have len: "MAX_CHUNK_SIZE < length ?z" "length ?z \<le> MAX_MESSAGE_SIZE" by (simp_all add: chunk_consts)
    from chunk_encode_delivery [OF assms(1) len, of now] obtain chunks where
      c: "chunk_encode enc now ?z = Inr chunks" "2 \<le> length chunks" "length chunks \<le> 128"
         "list_all (\<lambda>ch. length ch \<le> 1432) chunks" "list_all chunk_magic_ok chunks"
         "\<forall>received. mset received = mset chunks \<longrightarrow> reassemble received = ?z"
      unfolding list_all_iff by blast
    from c json have w: "udp_write w conf enc now g = Inr (to_datagrams (conf_hostname conf, conf_port conf) chunks)"
      by (simp add: udp_write_def compress_def)
    have fst: "map fst (to_datagrams a chunks) = chunks" for a by (simp add: to_datagrams_def comp_def)
    have rec: "udp_receive gunzip received = json" if "mset received = mset chunks" for received
    proof -
      have "set received = set chunks" using that by (metis set_mset_mset)
      then have "list_all chunk_magic_ok received" using c(5) by (simp add: list_all_iff)
      then show ?thesis using c(6) that assms(2) by (simp add: udp_receive_def gzip_documented_def)
    qed
    have "list_all (\<lambda>(d, addr). length d \<le> 1432 \<and> addr = (conf_hostname conf, conf_port conf))
        (to_datagrams (conf_hostname conf, conf_port conf) chunks)"
      using c(4) by (auto simp: list_all_iff to_datagrams_def)
    moreover have "length (to_datagrams (conf_hostname conf, conf_port conf) chunks) \<le> 128"
      using c(3) by (simp add: to_datagrams_def)
    ultimately show ?thesis using cut w rec by (simp add: fst del: mset_map)
  next
    case big
    with json show ?thesis
      by (auto simp: udp_write_def compress_def chunk_encode_def chunk_consts)
  qed
qed

definition sample_wire :: wire where
  "sample_wire = \<lparr>jackson = (\<lambda>cs. replicate 2000 1), field_order = entries_by [], gzip = (\<lambda>bs. 0x1f # 0x8b # bs)\<rparr>"

theorem udp_end_to_end_witness:
  "\<exists>conf enc ds. defaultGelfConfiguration = Inr conf \<and> newChunkEncoder [1, 2, 3, 4] = Inr enc
    \<and> udp_write sample_wire conf enc 5 (new_message 0 ''m'' ''h'' V1_1 :: unit gelf_message) = Inr ds
    \<and> udp_receive (drop 2) (rev (map fst ds)) = replicate 2000 1 @ [0]"
proof -
  have "\<exists>conf. defaultGelfConfiguration = Inr conf"
    by (simp add: defaultGelfConfiguration_def newGelfConfiguration_ok_iff DEFAULT_HOSTNAME_def DEFAULT_PORT_def trim_def)
  then obtain conf where conf: "defaultGelfConfiguration = Inr conf" by blast
  have e: "newChunkEncoder [1, 2, 3, 4] = Inr \<lparr>machineIdentifier = [1, 2, 3, 4]\<rparr>"
    by (simp add: newChunkEncoder_def)
  have j: "toJson (jackson sample_wire) (field_order sample_wire) (new_message 0 ''m'' ''h'' V1_1 :: unit gelf_message)
      = Inr (replicate 2000 1 @ [0])"
    by (simp add: toJson_def json_calls_def sample_wire_def new_message_def entries_by_def)
  have g: "gzip_documented (gzip sample_wire) (drop 2)" by (simp add: sample_wire_def gzip_documented_def)
  have "length (gzip sample_wire (replicate 2000 1 @ [0])) \<le> 181760" by (simp add: sample_wire_def)
  with udp_end_to_end [OF e g j, of conf 5] obtain ds where
    "udp_write sample_wire conf \<lparr>machineIdentifier = [1, 2, 3, 4]\<rparr> 5
        (new_message 0 ''m'' ''h'' V1_1 :: unit gelf_message) = Inr ds"
    "\<forall>r. mset r = mset (map fst ds) \<longrightarrow> udp_receive (drop 2) r = replicate 2000 1 @ [0]"
    by auto
  moreover from this(2) have "udp_receive (drop 2) (rev (map fst ds)) = replicate 2000 1 @ [0]"
    by (simp del: mset_map)
  ultimately show ?thesis using conf e by blast
qed

end
