(* ===== verification/Entities.thy ===== *)
theory Entities
  imports String_Util
begin

text \<open>
  The stored entities under \<open>entity/\<close> and \<open>weed/WeedFSMeta.java\<close> as records, with their factory
  methods and the setters that do more than set. Dates are milliseconds; a reference that may be
  \<open>null\<close> is an option; the wall clock is the parameter \<open>now\<close>.
\<close>

section \<open>File metadata\<close>

record log_file_meta =
  lf_id :: "string option"
  lf_platform :: jshort
  lf_clientId :: "string option"
  lf_uid :: "string option"
  lf_appId :: "string option"
  lf_loggerName :: "string option"
  lf_date :: "jlong option"
  lf_level :: jshort
  lf_fragment :: jint
  lf_fid :: "string option"
  lf_size :: jlong
  lf_writeDate :: "jlong option"

definition createLogFileMeta ::
  "jlong \<Rightarrow> jshort \<Rightarrow> string option \<Rightarrow> string option \<Rightarrow> string option \<Rightarrow> string option
   \<Rightarrow> jlong option \<Rightarrow> jshort \<Rightarrow> jint \<Rightarrow> log_file_meta" where
  "createLogFileMeta now platform clientId uid appId loggerName date lvl frag =
     \<lparr>lf_id = None, lf_platform = platform, lf_clientId = clientId, lf_uid = uid, lf_appId = appId,
      lf_loggerName = loggerName, lf_date = date, lf_level = lvl, lf_fragment = frag, lf_fid = None,
      lf_size = 0, lf_writeDate = Some now\<rparr>"

record attach_file_meta =
  af_id :: "string option"
  af_fid :: "string option"
  af_attachmentId :: "string option"
  af_writeDate :: "jlong option"
  af_size :: jlong

definition createAttachFileMeta :: "jlong \<Rightarrow> string option \<Rightarrow> attach_file_meta" where
  "createAttachFileMeta now attachmentId =
     \<lparr>af_id = None, af_fid = None, af_attachmentId = attachmentId, af_writeDate = Some now, af_size = 0\<rparr>"

record crash_file_meta =
  cf_id :: "string option"
  cf_platform :: jshort
  cf_clientId :: "string option"
  cf_uid :: "string option"
  cf_alias :: "string option"
  cf_model :: "string option"
  cf_imei :: "string option"
  cf_macAddress :: "string option"
  cf_osVersion :: "string option"
  cf_appId :: "string option"
  cf_version :: jint
  cf_versionString :: "string option"
  cf_cause :: "string option"
  cf_date :: "jlong option"
  cf_fid :: "string option"
  cf_size :: jlong
  cf_writeDate :: "jlong option"

section \<open>Log messages\<close>

definition STATE_NORMAL :: jint where "STATE_NORMAL = 1"
definition STATE_SUCCESSFUL :: jint where "STATE_SUCCESSFUL = 2"

record log_message =
  lm_id :: "string option"
  lm_platform :: "string option"
  lm_uid :: "string option"
  lm_appId :: "string option"
  lm_loggerName :: "string option"
  lm_timestamp :: jlong
  lm_tag :: "string option"
  lm_message :: "string option"
  lm_msgLayout :: "string option"
  lm_level :: jint
  lm_status :: jint
  lm_alias :: "string option"
  lm_attachment :: "string option"
  lm_writeDate :: "jlong option"

definition createLogMessage ::
  "jlong \<Rightarrow> jint \<Rightarrow> string option \<Rightarrow> string option \<Rightarrow> string option \<Rightarrow> string option \<Rightarrow> jint \<Rightarrow> jlong
   \<Rightarrow> string option \<Rightarrow> string option \<Rightarrow> string option \<Rightarrow> string option \<Rightarrow> log_message" where
  "createLogMessage now platform uid appId loggerName msgLayout lvl timestamp tag msg alias attachment =
     \<lparr>lm_id = None, lm_platform = Some (platformString platform), lm_uid = uid, lm_appId = appId,
      lm_loggerName = loggerName, lm_timestamp = timestamp, lm_tag = tag, lm_message = msg,
      lm_msgLayout = msgLayout, lm_level = lvl, lm_status = STATE_NORMAL, lm_alias = alias,
      lm_attachment = attachment, lm_writeDate = Some now\<rparr>"

text \<open>The message that announces a stored crash file; \<open>getDate().getTime()\<close> raises on a null date.\<close>

definition createCrashMessage :: "jlong \<Rightarrow> crash_file_meta \<Rightarrow> log_message result" where
  "createCrashMessage now m =
     (case cf_date m of
        None \<Rightarrow> Inl NullPointerException
      | Some date \<Rightarrow>
          Inr (createLogMessage now (scast (cf_platform m)) (cf_uid m) (cf_appId m) (Some ''crash'') None
                 FATAL date (Some ''CRASH_FILE_ID'') (cf_id m) (cf_alias m) None))"

definition has_id :: "string option \<Rightarrow> bool" where
  "has_id i \<longleftrightarrow> \<not> is_empty_str i"

section \<open>Files on their way to WeedFS\<close>

definition TYPE_LOG :: jint where "TYPE_LOG = 1"
definition TYPE_ATTACHMENT :: jint where "TYPE_ATTACHMENT = 2"
definition TYPE_CRASH :: jint where "TYPE_CRASH = 3"
definition WEED_NORMAL :: jint where "WEED_NORMAL = 1"
definition WEED_DELETED :: jint where "WEED_DELETED = 2"
definition WEED_SUCCESSFUL :: jint where "WEED_SUCCESSFUL = 3"

lemmas weed_types = TYPE_LOG_def TYPE_ATTACHMENT_def TYPE_CRASH_def

record weed_meta =
  w_id :: "string option"
  w_type :: jint
  w_key :: "string option"
  w_extension :: "string option"
  w_status :: jint
  w_writeDate :: jlong
  w_response :: "byte list option"
  w_log :: "log_file_meta option"
  w_attach :: "attach_file_meta option"
  w_crash :: "crash_file_meta option"

definition new_weed_meta :: "jlong \<Rightarrow> weed_meta" where
  "new_weed_meta now =
     \<lparr>w_id = None, w_type = 0, w_key = None, w_extension = None, w_status = WEED_NORMAL,
      w_writeDate = now, w_response = None, w_log = None, w_attach = None, w_crash = None\<rparr>"

definition createWeedLog :: "jlong \<Rightarrow> string option \<Rightarrow> string option \<Rightarrow> log_file_meta \<Rightarrow> weed_meta" where
  "createWeedLog now key ext m =
     (new_weed_meta now)\<lparr>w_type := TYPE_LOG, w_extension := ext, w_key := key, w_log := Some m\<rparr>"

definition createWeedAttach :: "jlong \<Rightarrow> string option \<Rightarrow> string option \<Rightarrow> attach_file_meta \<Rightarrow> weed_meta" where
  "createWeedAttach now key ext m =
     (new_weed_meta now)\<lparr>w_type := TYPE_ATTACHMENT, w_key := key, w_extension := ext, w_attach := Some m\<rparr>"

definition createWeedCrash :: "jlong \<Rightarrow> string option \<Rightarrow> string option \<Rightarrow> crash_file_meta \<Rightarrow> weed_meta" where
  "createWeedCrash now key ext m =
     (new_weed_meta now)\<lparr>w_type := TYPE_CRASH, w_key := key, w_extension := ext, w_crash := Some m\<rparr>"

definition createWeedResponse :: "jlong \<Rightarrow> byte list \<Rightarrow> weed_meta" where
  "createWeedResponse now response = (new_weed_meta now)\<lparr>w_response := Some response\<rparr>"

text \<open>Concatenation writes a null reference as \<open>null\<close>.\<close>

definition filename :: "weed_meta \<Rightarrow> string" where
  "filename m = str_of (w_key m) @ ''.'' @ str_of (w_extension m)"

section \<open>Client users\<close>

text \<open>
  \<open>java.util.zip.CRC32\<close>: the reflected polynomial 0xEDB88320, one byte at a time, and
  \<open>ClientUser.setUid\<close>, which derives the grey level 0..99 of a user from its id.
\<close>

fun crc_bits :: "nat \<Rightarrow> 32 word \<Rightarrow> 32 word" where
  "crc_bits 0 c = c"
| "crc_bits (Suc n) c =
     crc_bits n (if bit c 0 then xor (drop_bit 1 c) 0xEDB88320 else drop_bit 1 c)"

definition crc_byte :: "byte \<Rightarrow> 32 word \<Rightarrow> 32 word" where
  "crc_byte b c = crc_bits 8 (xor c (ucast b))"

definition crc32 :: "byte list \<Rightarrow> 32 word" where
  "crc32 bs = not (fold crc_byte bs (not 0))"

record client_user =
  cu_id :: "string option"
  cu_platform :: jint
  cu_clientId :: "string option"
  cu_uid :: "string option"
  cu_deviceId :: "string option"
  cu_alias :: "string option"
  cu_model :: "string option"
  cu_imei :: "string option"
  cu_macAddress :: "string option"
  cu_osVersion :: "string option"
  cu_appId :: "string option"
  cu_version :: jint
  cu_versionString :: "string option"
  cu_level :: jint
  cu_recordOn :: bool

definition setUid :: "string option \<Rightarrow> client_user \<Rightarrow> client_user" where
  "setUid uid u =
     (case uid of
        Some s \<Rightarrow>
          if s = [] then u\<lparr>cu_uid := uid\<rparr>
          else u\<lparr>cu_uid := uid, cu_level := of_int (uint (crc32 (str_bytes s)) mod 100)\<rparr>
      | None \<Rightarrow> u\<lparr>cu_uid := uid\<rparr>)"

lemma crc32_check: "crc32 (str_bytes ''123456789'') = 0xCBF43926"
  by code_simp

lemma setUid_level:
  assumes "has_id uid"
  shows "0 \<le> sint (cu_level (setUid uid u)) \<and> sint (cu_level (setUid uid u)) < 100"
proof -
  obtain s where s: "uid = Some s" "s \<noteq> []" using assms by (auto simp: has_id_def)
  have "sint (of_int (uint (crc32 (str_bytes s)) mod 100) :: jint) = uint (crc32 (str_bytes s)) mod 100"
    by (intro sint_word_of_int_exact) (use pos_mod_bound [of 100 "uint (crc32 (str_bytes s))"] in auto)
  with s show ?thesis by (simp add: setUid_def)
qed

section \<open>Global configuration\<close>

record global_config =
  gc_id :: "string option"
  gc_level :: jint
  gc_grantClients :: "string list"

definition new_global_config :: global_config where
  "new_global_config = \<lparr>gc_id = None, gc_level = 0, gc_grantClients = []\<rparr>"

section \<open>Control profiles\<close>

text \<open>A schedule is its time string; a null list has no dates.\<close>

record control_profile =
  cp_id :: "string option"
  cp_name :: "string option"
  cp_updateTime :: "jlong option"
  cp_platform :: "jint option"
  cp_uid :: "string option"
  cp_alias :: "string option"
  cp_appId :: "string option"
  cp_shouldUpload :: "bool option"
  cp_scheduleType :: "jint option"
  cp_scheduleArray :: "string option list option"
  cp_scheduleTime :: "jlong option"

definition scheduleDate :: "control_profile \<Rightarrow> string option list" where
  "scheduleDate p = (case cp_scheduleArray p of None \<Rightarrow> [] | Some ss \<Rightarrow> ss)"

end
