(* ===== verification/Gelf_Sender.thy ===== *)
theory Gelf_Sender
  imports Gelf_Config Entities
begin

text \<open>
  \<open>transport/GelfSenderThread.java\<close> as a step relation: one step per test, wait, poll or write of
  the loop of \<open>run\<close>, with the interrupt flag of the thread, the channel it was started on, and the
  message it holds across iterations (the local variable \<open>gelfMessage\<close>). Events are what the rest of
  the system sees: polls, writes to the channel and calls of the listener.
\<close>

type_synonym gmsg = "log_message gelf_message"

section \<open>State\<close>

text \<open>
  The program points: the test of \<open>keepRunning\<close>, the inner loop that waits for the channel, the poll,
  the tests behind it, and the end of the thread.
\<close>

datatype sender_pc = LoopTest | AwaitTest | Polling | HandTest | Exited

record sender =
  s_keepRunning :: bool
  s_interrupted :: bool
  s_channel :: "bool option"
  s_pc :: sender_pc
  s_hand :: "gmsg option"

text \<open>\<open>s_channel\<close> is the field \<open>channel\<close>, null or with its \<open>isActive()\<close>.\<close>

definition channel_active :: "sender \<Rightarrow> bool" where
  "channel_active s \<longleftrightarrow> s_channel s = Some True"

datatype event =
    Accepted gmsg
  | Rejected gmsg
  | Polled gmsg
  | Written gmsg
  | RetrySuccessful log_message
  | Failed gmsg
  | Connected
  | Disconnected

text \<open>
  The listener, when one is set: for each of its two calls, whether it returns (or raises, which
  ends the thread).
\<close>

record sender_listener =
  retry_returns :: "log_message \<Rightarrow> bool"
  failed_returns :: "log_message option \<Rightarrow> bool"

section \<open>Steps\<close>

definition new_sender :: sender where
  "new_sender = \<lparr>s_keepRunning = True, s_interrupted = False, s_channel = None,
     s_pc = LoopTest, s_hand = None\<rparr>"

definition sender_start :: "sender \<Rightarrow> sender" where
  "sender_start s = s\<lparr>s_channel := Some True, s_keepRunning := True\<rparr>"

definition sender_stop :: "sender \<Rightarrow> sender" where
  "sender_stop s = s\<lparr>s_keepRunning := False, s_interrupted := True\<rparr>"

definition channel_closes :: "sender \<Rightarrow> sender" where
  "channel_closes s = s\<lparr>s_channel := map_option (\<lambda>_. False) (s_channel s)\<rparr>"

text \<open>The message of a retry carries the stored log message it came from.\<close>

definition retried_log :: "gmsg \<Rightarrow> log_message option" where
  "retried_log m =
     (case g_logMessage m of Some lm \<Rightarrow> if has_id (lm_id lm) then Some lm else None | None \<Rightarrow> None)"

definition write_events :: "sender_listener option \<Rightarrow> gmsg \<Rightarrow> event list" where
  "write_events l m =
     Written m # (case (l, retried_log m) of (Some _, Some lm) \<Rightarrow> [RetrySuccessful lm] | _ \<Rightarrow> [])"

definition write_returns :: "sender_listener option \<Rightarrow> gmsg \<Rightarrow> bool" where
  "write_returns l m =
     (case (l, retried_log m) of (Some li, Some lm) \<Rightarrow> retry_returns li lm | _ \<Rightarrow> True)"

inductive sender_step ::
  "sender_listener option \<Rightarrow> sender \<times> gmsg jqueue \<Rightarrow> event list \<Rightarrow> sender \<times> gmsg jqueue \<Rightarrow> bool"
  for l :: "sender_listener option" where
  loop_again: "s_pc s = LoopTest \<Longrightarrow> s_keepRunning s \<Longrightarrow> sender_step l (s, q) [] (s\<lparr>s_pc := AwaitTest\<rparr>, q)"
| loop_exit: "s_pc s = LoopTest \<Longrightarrow> \<not> s_keepRunning s \<Longrightarrow> sender_step l (s, q) [] (s\<lparr>s_pc := Exited\<rparr>, q)"
| await_done: "s_pc s = AwaitTest \<Longrightarrow> channel_active s \<Longrightarrow> sender_step l (s, q) [] (s\<lparr>s_pc := Polling\<rparr>, q)"
| await_wakeup: "s_pc s = AwaitTest \<Longrightarrow> \<not> channel_active s \<Longrightarrow> \<not> s_interrupted s \<Longrightarrow> sender_step l (s, q) [] (s, q)"
| await_interrupted: "s_pc s = AwaitTest \<Longrightarrow> \<not> channel_active s \<Longrightarrow> s_interrupted s \<Longrightarrow>
    sender_step l (s, q) []
      (s\<lparr>s_interrupted := False, s_pc := if s_keepRunning s then AwaitTest else Polling\<rparr>, q)"
| poll_lingering: "s_pc s = Polling \<Longrightarrow> s_hand s = Some m \<Longrightarrow> sender_step l (s, q) [] (s\<lparr>s_pc := HandTest\<rparr>, q)"
| poll_interrupted: "s_pc s = Polling \<Longrightarrow> s_hand s = None \<Longrightarrow> s_interrupted s \<Longrightarrow>
    sender_step l (s, q) [] (s\<lparr>s_interrupted := False, s_pc := LoopTest\<rparr>, q)"
| poll_timeout: "s_pc s = Polling \<Longrightarrow> s_hand s = None \<Longrightarrow> \<not> s_interrupted s \<Longrightarrow> poll q = (None, q') \<Longrightarrow>
    sender_step l (s, q) [] (s\<lparr>s_pc := HandTest\<rparr>, q')"
| poll_message: "s_pc s = Polling \<Longrightarrow> s_hand s = None \<Longrightarrow> \<not> s_interrupted s \<Longrightarrow> poll q = (Some m, q') \<Longrightarrow>
    sender_step l (s, q) [Polled m] (s\<lparr>s_hand := Some m, s_pc := HandTest\<rparr>, q')"
| hand_empty: "s_pc s = HandTest \<Longrightarrow> s_hand s = None \<Longrightarrow> sender_step l (s, q) [] (s\<lparr>s_pc := LoopTest\<rparr>, q)"
| hand_write: "s_pc s = HandTest \<Longrightarrow> s_hand s = Some m \<Longrightarrow> channel_active s \<Longrightarrow>
    sender_step l (s, q) (write_events l m)
      (s\<lparr>s_hand := None, s_pc := if write_returns l m then LoopTest else Exited\<rparr>, q)"
| hand_failed: "s_pc s = HandTest \<Longrightarrow> s_hand s = Some m \<Longrightarrow> \<not> channel_active s \<Longrightarrow> l = Some li \<Longrightarrow>
    sender_step l (s, q) [Failed m]
      (s\<lparr>s_pc := if failed_returns li (g_logMessage m) then LoopTest else Exited\<rparr>, q)"
| hand_failed_silent: "s_pc s = HandTest \<Longrightarrow> s_hand s = Some m \<Longrightarrow> \<not> channel_active s \<Longrightarrow> l = None \<Longrightarrow>
    sender_step l (s, q) [] (s\<lparr>s_pc := LoopTest\<rparr>, q)"

inductive_cases sender_stepE: "sender_step l (s, q) ev (s', q')"

text \<open>
  The thread's surroundings: the queue is filled from outside, the channel may close, and \<open>stop\<close>
  is called; \<open>start\<close> has been called before. Both only ever happen in this order on one channel.
\<close>

inductive life_step ::
  "sender_listener option \<Rightarrow> sender \<times> gmsg jqueue \<Rightarrow> event list \<Rightarrow> sender \<times> gmsg jqueue \<Rightarrow> bool"
  for l :: "sender_listener option" where
  thread: "sender_step l c ev c' \<Longrightarrow> life_step l c ev c'"
| queue_changes: "queue_ok q' \<Longrightarrow> life_step l (s, q) [] (s, q')"
| closes: "life_step l (s, q) [] (channel_closes s, q)"
| stops: "\<not> channel_active s \<Longrightarrow> life_step l (s, q) [] (sender_stop s, q)"

inductive life ::
  "sender_listener option \<Rightarrow> sender \<times> gmsg jqueue \<Rightarrow> event list \<Rightarrow> sender \<times> gmsg jqueue \<Rightarrow> bool"
  for l :: "sender_listener option" where
  life_start: "life l (sender_start new_sender, q) [] (sender_start new_sender, q)"
| life_more: "life l c tr c' \<Longrightarrow> life_step l c' ev c'' \<Longrightarrow> life l c (tr @ ev) c''"

section \<open>Reading off a trace\<close>

fun accepted_of :: "event \<Rightarrow> gmsg list" where
  "accepted_of (Accepted m) = [m]" | "accepted_of _ = []"

fun polled_of :: "event \<Rightarrow> gmsg list" where
  "polled_of (Polled m) = [m]" | "polled_of _ = []"

fun written_of :: "event \<Rightarrow> gmsg list" where
  "written_of (Written m) = [m]" | "written_of _ = []"

fun failed_of :: "event \<Rightarrow> gmsg list" where
  "failed_of (Failed m) = [m]" | "failed_of _ = []"

definition accepted :: "event list \<Rightarrow> gmsg list" where "accepted tr = concat (map accepted_of tr)"
definition polled :: "event list \<Rightarrow> gmsg list" where "polled tr = concat (map polled_of tr)"
definition written :: "event list \<Rightarrow> gmsg list" where "written tr = concat (map written_of tr)"
definition failed :: "event list \<Rightarrow> gmsg list" where "failed tr = concat (map failed_of tr)"

definition hand_list :: "sender \<Rightarrow> gmsg list" where
  "hand_list s = (case s_hand s of None \<Rightarrow> [] | Some m \<Rightarrow> [m])"

lemmas trace_defs = accepted_def polled_def written_def failed_def

lemma trace_append [simp]:
  "accepted (xs @ ys) = accepted xs @ accepted ys" "polled (xs @ ys) = polled xs @ polled ys"
  "written (xs @ ys) = written xs @ written ys" "failed (xs @ ys) = failed xs @ failed ys"
  by (simp_all add: trace_defs)

lemma trace_nil [simp]: "accepted [] = []" "polled [] = []" "written [] = []" "failed [] = []"
  by (simp_all add: trace_defs)

lemma trace_cons [simp]:
  "accepted (e # es) = accepted_of e @ accepted es" "polled (e # es) = polled_of e @ polled es"
  "written (e # es) = written_of e @ written es" "failed (e # es) = failed_of e @ failed es"
  by (simp_all add: trace_defs)

lemma trace_one: "accepted [e] = accepted_of e" "polled [e] = polled_of e"
    "written [e] = written_of e" "failed [e] = failed_of e"
  by (simp_all add: trace_defs)

lemma write_events_trace [simp]:
  "accepted (write_events l m) = []" "polled (write_events l m) = []"
  "written (write_events l m) = [m]" "failed (write_events l m) = []"
  by (auto simp: write_events_def trace_defs split: option.splits prod.splits)

section \<open>One sender thread\<close>

text \<open>A step neither makes nor loses a message.\<close>

lemma sender_step_balance:
  assumes "sender_step l (s, q) ev (s', q')" and "queue_ok q"
  shows "accepted ev = [] \<and> q_items q = polled ev @ q_items q' \<and> queue_ok q' \<and> q_capacity q' = q_capacity q
    \<and> hand_list s @ polled ev = written ev @ hand_list s'"
  using assms by (cases rule: sender_stepE) (auto simp: hand_list_def dest: poll_ok)

text \<open>
  What holds of a sender with a listener between its steps: how often the message in its hand was
  reported failed is bounded by what it can still do; and a stopped sender that waits for its
  channel has its interrupt pending.
\<close>

definition reports_ok :: "sender \<Rightarrow> event list \<Rightarrow> bool" where
  "reports_ok s tr \<longleftrightarrow>
     (case s_hand s of
        None \<Rightarrow> failed tr = []
      | Some m \<Rightarrow>
          failed tr = [] \<and> s_pc s = HandTest
          \<or> failed tr = [m] \<and> \<not> channel_active s
              \<and> (s_pc s \<in> {LoopTest, AwaitTest, Exited} \<or> \<not> s_keepRunning s)
          \<or> failed tr = [m, m] \<and> \<not> channel_active s \<and> \<not> s_keepRunning s \<and> s_pc s \<in> {LoopTest, Exited})"

definition wakeable :: "sender \<Rightarrow> bool" where
  "wakeable s \<longleftrightarrow> (s_pc s = AwaitTest \<longrightarrow> \<not> s_keepRunning s \<longrightarrow> s_interrupted s)"

lemma channel_closes_simps [simp]:
  "\<not> channel_active (channel_closes s)" "s_pc (channel_closes s) = s_pc s" "s_hand (channel_closes s) = s_hand s"
  "s_keepRunning (channel_closes s) = s_keepRunning s" "s_interrupted (channel_closes s) = s_interrupted s"
  by (auto simp: channel_closes_def channel_active_def)

lemma sender_stop_simps [simp]:
  "channel_active (sender_stop s) = channel_active s" "s_pc (sender_stop s) = s_pc s" "s_hand (sender_stop s) = s_hand s"
  "\<not> s_keepRunning (sender_stop s)" "s_interrupted (sender_stop s)"
  by (auto simp: sender_stop_def channel_active_def)

lemma channel_active_update [simp]:
  "channel_active (s\<lparr>s_pc := p\<rparr>) = channel_active s" "channel_active (s\<lparr>s_hand := h\<rparr>) = channel_active s"
  "channel_active (s\<lparr>s_interrupted := b\<rparr>) = channel_active s"
  by (simp_all add: channel_active_def)

lemma sender_start_simps [simp]:
  "s_hand (sender_start new_sender) = None" "s_pc (sender_start new_sender) = LoopTest"
  "s_keepRunning (sender_start new_sender)" "channel_active (sender_start new_sender)"
  by (simp_all add: sender_start_def new_sender_def channel_active_def)

lemma sender_step_reports:
  assumes "sender_step (Some li) (s, q) ev (s', q')" and "reports_ok s tr"
  shows "reports_ok s' (tr @ ev)"
proof (cases "s_hand s")
  case None
  with assms show ?thesis by (cases rule: sender_stepE) (auto simp: reports_ok_def)
next
  case (Some m)
  with assms(2) consider "failed tr = []" "s_pc s = HandTest"
    | "failed tr = [m]" "\<not> channel_active s" "s_pc s \<in> {LoopTest, AwaitTest, Exited} \<or> \<not> s_keepRunning s"
    | "failed tr = [m, m]" "\<not> channel_active s" "\<not> s_keepRunning s" "s_pc s \<in> {LoopTest, Exited}"
    by (auto simp: reports_ok_def)
  then show ?thesis
  proof cases
    case 1
    with assms(1) Some show ?thesis by (cases rule: sender_stepE) (auto simp: reports_ok_def)
  next
    case 2
    with assms(1) Some show ?thesis by (cases rule: sender_stepE) (auto simp: reports_ok_def)
  next
    case 3
    with assms(1) Some show ?thesis by (cases rule: sender_stepE) (auto simp: reports_ok_def)
  qed
qed

lemma sender_step_wakeable:
  assumes "sender_step l (s, q) ev (s', q')" and "wakeable s"
  shows "wakeable s'"
  using assms by (cases rule: sender_stepE) (auto simp: wakeable_def split: if_splits)

definition sender_env :: "sender \<Rightarrow> sender \<Rightarrow> bool" where
  "sender_env s s' \<longleftrightarrow> s' \<in> {s, channel_closes s, sender_stop s}"

interpretation gelf_worker:
  queue_worker "sender_step l" sender_env hand_list q_items queue_ok polled written for l
  by unfold_locales (auto simp: sender_env_def hand_list_def dest: sender_step_balance)

lemma life_balance:
  assumes "life l c tr c'" and "queue_ok (snd c)"
  shows "accepted tr = [] \<and> queue_ok (snd c') \<and> polled tr = written tr @ hand_list (fst c')
    \<and> wakeable (fst c')"
proof -
  have "accepted tr = [] \<and> queue_ok (snd c') \<and> gelf_worker.balanced tr (fst c') \<and> wakeable (fst c')"
    using assms
  proof (induction rule: life.induct)
    case (life_start q)
    have "hand_list (sender_start new_sender) = []" by (simp add: hand_list_def)
    with life_start show ?case by (simp add: wakeable_def gelf_worker.balanced_def)
  next
    case (life_more c tr c' ev c'')
    from life_more.hyps(2) show ?case
    proof cases
      case thread
      obtain s q s' q' where c: "c' = (s, q)" "c'' = (s', q')" by fastforce
      with thread have step: "sender_step l (s, q) ev (s', q')" by simp
      with life_more.IH life_more.prems c show ?thesis
        using sender_step_balance [OF step] sender_step_wakeable [OF step] gelf_worker.balanced_step [OF _ step, of tr]
        by simp
    qed (use life_more.IH life_more.prems gelf_worker.balanced_env in
          \<open>auto simp: wakeable_def sender_env_def\<close>)
  qed
  then show ?thesis by (simp add: gelf_worker.balanced_def)
qed

lemma life_reports:
  assumes "life (Some li) c tr c'"
  shows "reports_ok (fst c') tr"
  using assms
proof (induction rule: life.induct)
  case (life_start q)
  then show ?case by (simp add: reports_ok_def)
next
  case (life_more c tr c' ev c'')
  from life_more.hyps(2) show ?case
  proof cases
    case thread
    obtain s q s' q' where c: "c' = (s, q)" "c'' = (s', q')" by fastforce
    with thread life_more.IH show ?thesis using sender_step_reports [of li s q ev s' q' tr] by simp
  qed (use life_more.IH in \<open>auto simp: reports_ok_def split: option.splits\<close>)
qed

section \<open>Reports and writes\<close>

lemma life_summary:
  assumes "life (Some li) (sender_start new_sender, q) tr (s, q')" and "queue_ok q"
  shows "polled tr = written tr @ hand_list s
    \<and> length (failed tr) \<le> 2 \<and> set (failed tr) \<subseteq> set (hand_list s)
    \<and> (failed tr \<noteq> [] \<longrightarrow> \<not> channel_active s)
    \<and> (s_pc s = Exited \<longrightarrow> set (hand_list s) = set (failed tr))"
proof -
  have "polled tr = written tr @ hand_list s" using life_balance [OF assms(1)] assms(2) by simp
  moreover have "reports_ok s tr" using life_reports [OF assms(1)] by simp
  ultimately show ?thesis by (auto simp: reports_ok_def hand_list_def split: option.splits)
qed

text \<open>
  Claim C8. Over the whole life of a sender thread with a listener, whatever the channel, the queue
  and \<open>stop\<close> do meanwhile: the messages it polled are, in this order, the ones it wrote and then the
  one it still holds. It reports a failure only for the message it holds, which it never wrote, and
  at most twice; and when the thread has ended holding a message, that message was reported.
\<close>

theorem sender_reports:
  assumes "life (Some li) (sender_start new_sender, q) tr (s, q')" and "queue_ok q"
  shows "polled tr = written tr @ hand_list s
    \<and> length (failed tr) \<le> 2 \<and> set (failed tr) \<subseteq> set (hand_list s)
    \<and> (failed tr \<noteq> [] \<longrightarrow> \<not> channel_active s)
    \<and> (s_pc s = Exited \<longrightarrow> set (hand_list s) = set (failed tr))"
  using life_summary [OF assms] by blast

definition sample_gmsg :: gmsg where
  "sample_gmsg = new_message 0 ''m'' ''h'' V1_1"

definition saving_listener :: sender_listener where
  "saving_listener = \<lparr>retry_returns = (\<lambda>_. True), failed_returns = (\<lambda>_. True)\<rparr>"

definition sample_queue :: "gmsg jqueue" where
  "sample_queue = \<lparr>q_items = [sample_gmsg], q_capacity = 4\<rparr>"

definition sample_end :: sender where
  "sample_end = \<lparr>s_keepRunning = False, s_interrupted = False, s_channel = Some False,
     s_pc = Exited, s_hand = Some sample_gmsg\<rparr>"

lemmas life_moves =
  life_more [OF _ life_step.thread [OF loop_again]] life_more [OF _ life_step.thread [OF loop_exit]]
  life_more [OF _ life_step.thread [OF await_done]] life_more [OF _ life_step.thread [OF await_interrupted]]
  life_more [OF _ life_step.thread [OF poll_message]] life_more [OF _ life_step.thread [OF poll_lingering]]
  life_more [OF _ life_step.thread [OF hand_failed]] life_more [OF _ life_step.closes]
  life_more [OF _ life_step.stops]

text \<open>A sender whose channel closes right after the poll reports the message twice before it ends.\<close>

lemma sample_life:
  "life (Some saving_listener) (sender_start new_sender, sample_queue)
     [Polled sample_gmsg, Failed sample_gmsg, Failed sample_gmsg]
     (sample_end, \<lparr>q_items = [], q_capacity = 4\<rparr>)"
proof -
  let ?l = "Some saving_listener" and ?q = "\<lparr>q_items = [] :: gmsg list, q_capacity = 4\<rparr>"
  let ?s = "\<lambda>k i ch p h. \<lparr>s_keepRunning = k, s_interrupted = i, s_channel = Some ch, s_pc = p, s_hand = h\<rparr>"
  let ?c0 = "(sender_start new_sender, sample_queue)"
  have "life ?l ?c0 [] (?s True False True LoopTest None, sample_queue)"
    using life_start [of ?l sample_queue] by (simp add: sender_start_def new_sender_def)
  from life_moves(1) [OF this] have "life ?l ?c0 [] (?s True False True AwaitTest None, sample_queue)" by simp
  from life_moves(3) [OF this] have "life ?l ?c0 [] (?s True False True Polling None, sample_queue)"
    by (simp add: channel_active_def)
  from life_moves(5) [OF this, of sample_gmsg ?q]
  have "life ?l ?c0 [Polled sample_gmsg] (?s True False True HandTest (Some sample_gmsg), ?q)"
    by (simp add: sample_queue_def poll_def)
  from life_moves(8) [OF this]
  have "life ?l ?c0 [Polled sample_gmsg] (?s True False False HandTest (Some sample_gmsg), ?q)"
    by (simp add: channel_closes_def)
  from life_moves(7) [OF this, of sample_gmsg saving_listener]
  have "life ?l ?c0 [Polled sample_gmsg, Failed sample_gmsg] (?s True False False LoopTest (Some sample_gmsg), ?q)"
    by (simp add: channel_active_def saving_listener_def)
  from life_moves(1) [OF this]
  have "life ?l ?c0 [Polled sample_gmsg, Failed sample_gmsg] (?s True False False AwaitTest (Some sample_gmsg), ?q)" by simp
  from life_moves(9) [OF this]
  have "life ?l ?c0 [Polled sample_gmsg, Failed sample_gmsg] (?s False True False AwaitTest (Some sample_gmsg), ?q)"
    by (simp add: channel_active_def sender_stop_def)
  from life_moves(4) [OF this]
  have "life ?l ?c0 [Polled sample_gmsg, Failed sample_gmsg] (?s False False False Polling (Some sample_gmsg), ?q)"
    by (simp add: channel_active_def)
  from life_moves(6) [OF this, of sample_gmsg]
  have "life ?l ?c0 [Polled sample_gmsg, Failed sample_gmsg] (?s False False False HandTest (Some sample_gmsg), ?q)" by simp
  from life_moves(7) [OF this, of sample_gmsg saving_listener]
  have "life ?l ?c0 [Polled sample_gmsg, Failed sample_gmsg, Failed sample_gmsg]
      (?s False False False LoopTest (Some sample_gmsg), ?q)"
    by (simp add: channel_active_def saving_listener_def)
  from life_moves(2) [OF this] show ?thesis by (simp add: sample_end_def)
qed

theorem sender_reports_witness:
  "\<exists>tr s q. life (Some saving_listener) (sender_start new_sender, sample_queue) tr (s, q)
     \<and> s_pc s = Exited \<and> failed tr = [sample_gmsg, sample_gmsg] \<and> set (hand_list s) = set (failed tr)"
proof -
  have "queue_ok sample_queue" by (simp add: queue_ok_def sample_queue_def)
  from sender_reports [OF sample_life this] sample_life show ?thesis
    by (intro exI [of _ "[Polled sample_gmsg, Failed sample_gmsg, Failed sample_gmsg]"] exI [of _ sample_end]
        exI [of _ "\<lparr>q_items = [], q_capacity = 4\<rparr>"]) (simp add: sample_end_def)
qed

section \<open>A stopped sender ends\<close>

text \<open>
  \<open>must_exit l n c\<close>: whatever the thread does, it has ended after at most \<open>n\<close> steps of its own,
  and it can always make one until then.
\<close>

primrec must_exit :: "sender_listener option \<Rightarrow> nat \<Rightarrow> sender \<times> gmsg jqueue \<Rightarrow> bool" where
  "must_exit l 0 c \<longleftrightarrow> s_pc (fst c) = Exited"
| "must_exit l (Suc n) c \<longleftrightarrow> s_pc (fst c) = Exited
     \<or> (\<exists>ev c'. sender_step l c ev c') \<and> (\<forall>ev c'. sender_step l c ev c' \<longrightarrow> must_exit l n c')"

fun exit_rank :: "sender_pc \<Rightarrow> nat" where
  "exit_rank Exited = 0" | "exit_rank LoopTest = 1" | "exit_rank HandTest = 2" | "exit_rank Polling = 3"
| "exit_rank AwaitTest = 4"

definition stopped :: "sender \<Rightarrow> bool" where
  "stopped s \<longleftrightarrow> \<not> s_keepRunning s \<and> \<not> channel_active s \<and> wakeable s"

lemma stopped_progress:
  assumes "stopped s" and "s_pc s \<noteq> Exited"
  shows "\<exists>ev c'. sender_step l (s, q) ev c'"
proof (cases "s_pc s")
  case LoopTest
  with assms show ?thesis by (meson loop_exit stopped_def)
next
  case AwaitTest
  with assms show ?thesis by (meson await_interrupted stopped_def wakeable_def)
next
  case Polling
  obtain r q' where p: "poll q = (r, q')" by fastforce
  show ?thesis
    using Polling p by (cases "s_hand s"; cases "s_interrupted s"; cases r)
      (blast intro: poll_lingering poll_interrupted poll_timeout poll_message)+
next
  case HandTest
  with assms show ?thesis
    by (cases "s_hand s"; cases l) (blast intro: hand_empty hand_failed hand_failed_silent dest: stopped_def [THEN iffD1])+
qed (use assms in simp)

lemma stopped_step:
  assumes "sender_step l (s, q) ev (s', q')" and "stopped s"
  shows "stopped s' \<and> exit_rank (s_pc s') < exit_rank (s_pc s)"
  using assms by (cases rule: sender_stepE) (auto simp: stopped_def wakeable_def split: if_splits)

lemma stopped_must_exit:
  assumes "stopped s" and "exit_rank (s_pc s) \<le> n"
  shows "must_exit l n (s, q)"
  using assms
proof (induction n arbitrary: s q)
  case 0
  then show ?case by (cases "s_pc s") auto
next
  case (Suc n)
  have "must_exit l n c'" if "sender_step l (s, q) ev c'" for ev c'
    using that stopped_step [of l s q ev "fst c'" "snd c'"] Suc.IH [of "fst c'" "snd c'"] Suc.prems by auto
  then show ?case using stopped_progress [OF Suc.prems(1), of l q] by auto
qed

text \<open>
  Claim C15. No sender hangs after its channel is gone: at any moment of its life at which the
  channel is inactive and \<open>stop\<close> has been called, it is never blocked and ends within four of its
  own steps, even when it is waiting for the channel at that moment.
\<close>

theorem sender_exits:
  assumes "life l (sender_start new_sender, q) tr (s, q')" and "queue_ok q"
    and "\<not> s_keepRunning s" and "\<not> channel_active s"
  shows "must_exit l 4 (s, q'')"
proof (rule stopped_must_exit)
  show "stopped s" using assms life_balance [OF assms(1)] by (simp add: stopped_def)
  show "exit_rank (s_pc s) \<le> 4" by (cases "s_pc s") auto
qed

theorem sender_exits_witness:
  "\<exists>s. s_pc s = LoopTest \<and> must_exit None 4 (s, sample_queue)"
proof -
  let ?s = "sender_stop (channel_closes (sender_start new_sender))"
  have "life None (sender_start new_sender, sample_queue) [] (channel_closes (sender_start new_sender), sample_queue)"
    using life_moves(8) [OF life_start] by simp
  from life_moves(9) [OF this] have "life None (sender_start new_sender, sample_queue) [] (?s, sample_queue)"
    by simp
  then have "must_exit None 4 (?s, sample_queue)"
    by (rule sender_exits) (simp_all add: queue_ok_def sample_queue_def)
  then show ?thesis by (intro exI [of _ ?s]) simp
qed

end
