(* ===== verification/Weed_Writer.thy ===== *)
theory Weed_Writer
  imports Gelf_Sender "HOL-Library.Sublist"
begin

text \<open>
  \<open>weed/WeedFSWriteThread.java\<close>: the thread that uploads files to the WeedFS master, as a step
  relation like the GELF sender's, and the multipart request it writes. The file system is the
  parameter \<open>files\<close>, the random boundary the parameter \<open>boundary\<close>.
\<close>

section \<open>The request\<close>

definition CRLF :: "byte list" where "CRLF = [13, 10]"

definition part_start :: "string \<Rightarrow> string \<Rightarrow> byte list" where
  "part_start boundary name =
     str_bytes ''--'' @ str_bytes boundary @ CRLF
     @ str_bytes ''Content-Disposition: form-data; name='' @ [34] @ str_bytes ''file'' @ [34]
     @ str_bytes ''; filename='' @ [34] @ str_bytes name @ [34] @ CRLF @ CRLF"

definition part_end :: "string \<Rightarrow> byte list" where
  "part_end boundary = CRLF @ str_bytes ''--'' @ str_bytes boundary @ str_bytes ''--'' @ CRLF"

record http_request =
  rq_uri :: string
  rq_headers :: "(string \<times> string) list"
  rq_body :: "byte list"

definition upload_request :: "string \<Rightarrow> string \<Rightarrow> string \<Rightarrow> byte list \<Rightarrow> http_request" where
  "upload_request uri boundary name content =
     (let body = part_start boundary name @ content @ part_end boundary in
      \<lparr>rq_uri = uri,
       rq_headers = [(''Connection'', ''keep-alive''),
                     (''Content-Type'', ''multipart/form-data; boundary='' @ boundary),
                     (''Content-Length'', show_nat (length body))],
       rq_body = body\<rparr>)"

subsection \<open>The receiving side\<close>

text \<open>
  The parser of the specification: the delimiter line, the part's headers up to the first blank
  line, the content up to the first delimiter (RFC 2046).
\<close>

fun cut_at :: "byte list \<Rightarrow> byte list \<Rightarrow> (byte list \<times> byte list) option" where
  "cut_at pat [] = (if pat = [] then Some ([], []) else None)"
| "cut_at pat (x # xs) =
     (if prefix pat (x # xs) then Some ([], drop (length pat) (x # xs))
      else map_option (\<lambda>(a, r). (x # a, r)) (cut_at pat xs))"

definition delimiter :: "string \<Rightarrow> byte list" where
  "delimiter boundary = CRLF @ str_bytes ''--'' @ str_bytes boundary"

definition parse_multipart :: "string \<Rightarrow> byte list \<Rightarrow> (byte list \<times> byte list) option" where
  "parse_multipart boundary body =
     (case cut_at (delimiter boundary @ CRLF) (CRLF @ body) of
        Some ([], rest) \<Rightarrow>
          (case cut_at (CRLF @ CRLF) rest of
             Some (headers, rest') \<Rightarrow>
               (case cut_at (delimiter boundary) rest' of
                  Some (content, tail) \<Rightarrow> Some (headers, content)
                | None \<Rightarrow> None)
           | None \<Rightarrow> None)
      | _ \<Rightarrow> None)"

lemma cut_at_first:
  assumes "pat \<noteq> []" and "\<And>k. k < length a \<Longrightarrow> \<not> prefix pat (drop k (a @ pat @ r))"
  shows "cut_at pat (a @ pat @ r) = Some (a, r)"
  using assms(2)
proof (induction a)
  case Nil
  obtain p ps where "pat = p # ps" using assms(1) by (cases pat) auto
  then show ?case by simp
next
  case (Cons x a)
  have "\<not> prefix pat (x # a @ pat @ r)" using Cons.prems [of 0] by simp
  moreover have "cut_at pat (a @ pat @ r) = Some (a, r)"
    using Cons.prems [of "Suc k" for k] by (intro Cons.IH) (metis Suc_less_eq append_Cons drop_Suc_Cons length_Cons)
  ultimately show ?case by simp
qed

lemma char_of_13: "char_of (13 :: nat) = CHR 0x0D"
  by code_simp

lemma no_cr_str: "CHR 0x0D \<notin> set s \<Longrightarrow> 13 \<notin> set (str_bytes s)"
proof
  assume s: "CHR 0x0D \<notin> set s" and "13 \<in> set (str_bytes s)"
  then obtain c where c: "c \<in> set s" "(of_nat (of_char c) :: byte) = 13" by (auto simp: str_bytes_def)
  have "unat (of_nat (of_char c) :: byte) = of_char c" by (simp add: unat_of_nat)
  with c(2) have "of_char c = (13 :: nat)" by simp
  then have "c = char_of (13 :: nat)" by (metis char_of_char)
  with c(1) s show False by (simp add: char_of_13)
qed

text \<open>A pattern that starts with a byte that does not come again in it cannot overlap itself.\<close>

lemma no_overlap:
  assumes "pat = p # ps" and "p \<notin> set ps" and "\<not> sublist pat a" and "k < length a"
  shows "\<not> prefix pat (drop k (a @ pat @ r))"
proof
  assume pre: "prefix pat (drop k (a @ pat @ r))"
  show False
  proof (cases "length pat \<le> length a - k")
    case True
    have "prefix (drop k a) (drop k (a @ pat @ r))" using assms(4) by simp
    with pre True have "prefix pat (drop k a)" by (auto intro: prefix_length_prefix)
    then have "sublist pat a" by (metis append_take_drop_id prefix_imp_sublist sublist_append_leftI sublist_order.order.trans)
    with assms(3) show False ..
  next
    case False
    let ?j = "length a - k"
    have j: "0 < ?j" "?j < length pat" using False assms(4) by simp_all
    have "pat ! ?j = drop k (a @ pat @ r) ! ?j"
      using pre j(2) by (metis prefix_def nth_append)
    also have "\<dots> = (pat @ r) ! 0" using assms(4) by (simp add: nth_append)
    also have "\<dots> = p" by (simp add: assms(1))
    finally have "p \<in> set ps" using j by (cases ?j) (auto simp: assms(1) nth_Cons)
    with assms(2) show False ..
  qed
qed

lemma str_bytes_append [simp]: "str_bytes (s @ t) = str_bytes s @ str_bytes t"
  by (simp add: str_bytes_def)

definition disposition :: "string \<Rightarrow> byte list" where
  "disposition name =
     str_bytes ''Content-Disposition: form-data; name='' @ [34] @ str_bytes ''file'' @ [34]
     @ str_bytes ''; filename='' @ [34] @ str_bytes name @ [34]"

lemma part_start_disposition:
  "CRLF @ part_start boundary name = (delimiter boundary @ CRLF) @ disposition name @ CRLF @ CRLF"
  by (simp add: part_start_def delimiter_def disposition_def)

lemma part_end_delimiter: "part_end boundary = delimiter boundary @ str_bytes ''--'' @ CRLF"
  by (simp add: part_end_def delimiter_def)

lemma no_cr_literal: "13 \<notin> set (str_bytes ''Content-Disposition: form-data; name='')"
    "13 \<notin> set (str_bytes ''file'')" "13 \<notin> set (str_bytes ''; filename='')" "13 \<notin> set (str_bytes ''--'')"
  by (simp_all add: no_cr_str)

lemma parse_request_body:
  assumes name: "CHR 0x0D \<notin> set name" and boundary: "CHR 0x0D \<notin> set boundary"
    and content: "\<not> sublist (delimiter boundary) content"
  shows "parse_multipart boundary (part_start boundary name @ content @ part_end boundary)
    = Some (disposition name, content)"
proof -
  let ?d = "delimiter boundary"
  have d: "?d = 13 # 10 # str_bytes ''--'' @ str_bytes boundary" "13 \<notin> set (10 # str_bytes ''--'' @ str_bytes boundary)"
    using no_cr_str [OF boundary] no_cr_literal by (simp_all add: delimiter_def CRLF_def)
  have disp: "13 \<notin> set (disposition name)"
    using no_cr_str [OF name] no_cr_literal by (simp add: disposition_def)
  have 1: "cut_at (?d @ CRLF) ([] @ (?d @ CRLF) @ r) = Some ([], r)" for r
    by (rule cut_at_first) (simp_all add: CRLF_def)
  have 2: "cut_at (CRLF @ CRLF) (disposition name @ (CRLF @ CRLF) @ r) = Some (disposition name, r)" for r
  proof (rule cut_at_first)
    show "\<not> prefix (CRLF @ CRLF) (drop k (disposition name @ (CRLF @ CRLF) @ r))" if "k < length (disposition name)" for k
    proof -
      have "disposition name ! k \<noteq> 13" using disp nth_mem [OF that] by metis
      moreover have "drop k (disposition name @ (CRLF @ CRLF) @ r) = disposition name ! k # drop (Suc k) (disposition name) @ (CRLF @ CRLF) @ r"
        using that by (simp add: Cons_nth_drop_Suc)
      ultimately show ?thesis by (simp add: CRLF_def)
    qed
  qed (simp add: CRLF_def)
  have 3: "cut_at ?d (content @ ?d @ r) = Some (content, r)" for r
    by (rule cut_at_first) (use no_overlap [OF d content] d in simp_all)
  have "CRLF @ part_start boundary name @ content @ part_end boundary
    = [] @ (?d @ CRLF) @ disposition name @ (CRLF @ CRLF) @ content @ ?d @ str_bytes ''--'' @ CRLF"
    using part_start_disposition [of boundary name] part_end_delimiter [of boundary]
    by (metis append.assoc append_Nil)
  then have "parse_multipart boundary (part_start boundary name @ content @ part_end boundary)
    = (case cut_at (CRLF @ CRLF) (disposition name @ (CRLF @ CRLF) @ content @ ?d @ str_bytes ''--'' @ CRLF) of
         Some (headers, rest') \<Rightarrow>
           (case cut_at ?d rest' of Some (content, tail) \<Rightarrow> Some (headers, content) | None \<Rightarrow> None)
       | None \<Rightarrow> None)"
    using 1 [of "disposition name @ (CRLF @ CRLF) @ content @ ?d @ str_bytes ''--'' @ CRLF"]
    by (simp only: parse_multipart_def option.case prod.case list.case)
  also have "\<dots> = Some (disposition name, content)"
    by (simp only: 2 3 option.case prod.case)
  finally show ?thesis .
qed

text \<open>
  The upload request is well formed: for a file name and a boundary without carriage
  return and a file in which the delimiter does not occur, the receiver gets back exactly the
  disposition with the file's name and, byte for byte, the file's content, and the length header is
  the length of the body.
\<close>

lemma upload_roundtrip:
  assumes "CHR 0x0D \<notin> set name" and "CHR 0x0D \<notin> set boundary" and "\<not> sublist (delimiter boundary) content"
  shows "parse_multipart boundary (rq_body (upload_request uri boundary name content)) = Some (disposition name, content)
    \<and> map_of (rq_headers (upload_request uri boundary name content)) ''Content-Length''
        = Some (show_nat (length (rq_body (upload_request uri boundary name content))))"
  using parse_request_body [OF assms] by (simp add: upload_request_def Let_def)

theorem upload_roundtrip_witness:
  "parse_multipart ''b'' (rq_body (upload_request ''u'' ''b'' ''f.log'' [1, 13, 10, 45])) = Some (disposition ''f.log'', [1, 13, 10, 45])"
proof -
  have "\<not> sublist (delimiter ''b'') [1, 13, 10, 45]"
    by (auto simp: delimiter_def CRLF_def str_bytes_def dest: list_emb_length sublist_imp_subseq)
  with upload_roundtrip [of "''f.log''" "''b''" "[1, 13, 10, 45]" "''u''"] show ?thesis by simp
qed

section \<open>The thread\<close>

datatype file_state = Missing | Unreadable | Content "byte list"

record writer_env =
  we_dirPath :: string
  we_uri :: string
  we_boundary :: string
  we_files :: "string \<Rightarrow> file_state"

record writer =
  wr_running :: bool
  wr_interrupted :: bool
  wr_channel :: "bool option"
  wr_pc :: sender_pc
  wr_hand :: "weed_meta option"

text \<open>
  What happens to a meta: it is taken from the queue, its file is uploaded, it is marked deleted in
  the database because its file is gone, or it is skipped.
\<close>

datatype weed_event = Taken weed_meta | Uploaded weed_meta http_request | MarkedDeleted weed_meta | Skipped weed_meta

definition writer_active :: "writer \<Rightarrow> bool" where
  "writer_active s \<longleftrightarrow> wr_channel s = Some True"

definition new_writer :: writer where
  "new_writer = \<lparr>wr_running = True, wr_interrupted = False, wr_channel = None, wr_pc = LoopTest, wr_hand = None\<rparr>"

definition writer_start :: "writer \<Rightarrow> writer" where
  "writer_start s = s\<lparr>wr_channel := Some True\<rparr>"

definition writer_stop :: "writer \<Rightarrow> writer" where
  "writer_stop s = s\<lparr>wr_running := False, wr_interrupted := True\<rparr>"

definition writer_closes :: "writer \<Rightarrow> writer" where
  "writer_closes s = s\<lparr>wr_channel := map_option (\<lambda>_. False) (wr_channel s)\<rparr>"

definition process_meta :: "writer_env \<Rightarrow> weed_meta \<Rightarrow> weed_event" where
  "process_meta e m =
     (case we_files e (we_dirPath e @ ''/'' @ filename m) of
        Content c \<Rightarrow> Uploaded m (upload_request (we_uri e) (we_boundary e) (filename m) c)
      | Unreadable \<Rightarrow> Skipped m
      | Missing \<Rightarrow> if has_id (w_id m) then MarkedDeleted (m\<lparr>w_status := WEED_DELETED\<rparr>) else Skipped m)"

inductive writer_step ::
  "writer_env \<Rightarrow> writer \<times> weed_meta jqueue \<Rightarrow> weed_event list \<Rightarrow> writer \<times> weed_meta jqueue \<Rightarrow> bool"
  for e :: writer_env where
  w_loop: "wr_pc s = LoopTest \<Longrightarrow>
    writer_step e (s, q) [] (s\<lparr>wr_pc := if wr_running s then AwaitTest else Exited\<rparr>, q)"
| w_await_done: "wr_pc s = AwaitTest \<Longrightarrow> writer_active s \<Longrightarrow> writer_step e (s, q) [] (s\<lparr>wr_pc := Polling\<rparr>, q)"
| w_await_wakeup: "wr_pc s = AwaitTest \<Longrightarrow> \<not> writer_active s \<Longrightarrow> \<not> wr_interrupted s \<Longrightarrow> writer_step e (s, q) [] (s, q)"
| w_await_interrupted: "wr_pc s = AwaitTest \<Longrightarrow> \<not> writer_active s \<Longrightarrow> wr_interrupted s \<Longrightarrow>
    writer_step e (s, q) []
      (s\<lparr>wr_interrupted := False, wr_pc := if wr_running s then AwaitTest else Polling\<rparr>, q)"
| w_poll_lingering: "wr_pc s = Polling \<Longrightarrow> wr_hand s = Some m \<Longrightarrow> writer_step e (s, q) [] (s\<lparr>wr_pc := HandTest\<rparr>, q)"
| w_poll_interrupted: "wr_pc s = Polling \<Longrightarrow> wr_hand s = None \<Longrightarrow> wr_interrupted s \<Longrightarrow>
    writer_step e (s, q) [] (s\<lparr>wr_interrupted := False, wr_pc := LoopTest\<rparr>, q)"
| w_poll_timeout: "wr_pc s = Polling \<Longrightarrow> wr_hand s = None \<Longrightarrow> \<not> wr_interrupted s \<Longrightarrow> poll q = (None, q') \<Longrightarrow>
    writer_step e (s, q) [] (s\<lparr>wr_pc := HandTest\<rparr>, q')"
| w_poll_meta: "wr_pc s = Polling \<Longrightarrow> wr_hand s = None \<Longrightarrow> \<not> wr_interrupted s \<Longrightarrow> poll q = (Some m, q') \<Longrightarrow>
    writer_step e (s, q) [Taken m] (s\<lparr>wr_hand := Some m, wr_pc := HandTest\<rparr>, q')"
| w_process: "wr_pc s = HandTest \<Longrightarrow> wr_hand s = Some m \<Longrightarrow> writer_active s \<Longrightarrow> we_dirPath e \<noteq> [] \<Longrightarrow>
    writer_step e (s, q) [process_meta e m] (s\<lparr>wr_hand := None, wr_pc := LoopTest\<rparr>, q)"
| w_keep: "wr_pc s = HandTest \<Longrightarrow> wr_hand s = None \<or> \<not> writer_active s \<or> we_dirPath e = [] \<Longrightarrow>
    writer_step e (s, q) [] (s\<lparr>wr_pc := LoopTest\<rparr>, q)"

inductive_cases writer_stepE: "writer_step e (s, q) ev (s', q')"

definition writer_env_step :: "writer \<Rightarrow> writer \<Rightarrow> bool" where
  "writer_env_step s s' \<longleftrightarrow> s' \<in> {s, writer_closes s, writer_stop s}"

fun taken_of :: "weed_event \<Rightarrow> weed_meta list" where
  "taken_of (Taken m) = [m]" | "taken_of _ = []"

text \<open>A finished meta, up to the status that marking changes.\<close>

fun done_of :: "weed_event \<Rightarrow> weed_meta list" where
  "done_of (Taken m) = []"
| "done_of (Uploaded m r) = [m]"
| "done_of (MarkedDeleted m) = [m]"
| "done_of (Skipped m) = [m]"

definition bare :: "weed_meta \<Rightarrow> weed_meta" where
  "bare m = m\<lparr>w_status := WEED_NORMAL\<rparr>"

definition taken :: "weed_event list \<Rightarrow> weed_meta list" where
  "taken tr = map bare (concat (map taken_of tr))"

definition finished :: "weed_event list \<Rightarrow> weed_meta list" where
  "finished tr = map bare (concat (map done_of tr))"

definition writer_hand :: "writer \<Rightarrow> weed_meta list" where
  "writer_hand s = (case wr_hand s of None \<Rightarrow> [] | Some m \<Rightarrow> [bare m])"

lemma weed_trace_simps [simp]:
  "taken [] = []" "finished [] = []" "taken (xs @ ys) = taken xs @ taken ys"
  "finished (xs @ ys) = finished xs @ finished ys" "taken [e] = map bare (taken_of e)"
  "finished [e] = map bare (done_of e)"
  by (simp_all add: taken_def finished_def)

lemma process_meta_events [simp]:
  "taken_of (process_meta e m) = []" "map bare (done_of (process_meta e m)) = [bare m]"
  by (auto simp: process_meta_def bare_def split: file_state.splits)

lemma writer_step_balance:
  assumes "writer_step e (s, q) ev (s', q')" and "queue_ok q"
  shows "map bare (q_items q) = taken ev @ map bare (q_items q') \<and> queue_ok q'
    \<and> writer_hand s @ taken ev = finished ev @ writer_hand s'"
  using assms by (cases rule: writer_stepE) (auto simp: writer_hand_def dest: poll_ok)

lemma writer_env_hand: "writer_env_step s s' \<Longrightarrow> writer_hand s' = writer_hand s"
  by (auto simp: writer_env_step_def writer_hand_def writer_closes_def writer_stop_def)

interpretation weed_worker:
  queue_worker "writer_step e" writer_env_step writer_hand "\<lambda>q. map bare (q_items q)" queue_ok taken finished for e
  by unfold_locales (auto dest: writer_step_balance writer_env_hand)

inductive writer_life ::
  "writer_env \<Rightarrow> writer \<times> weed_meta jqueue \<Rightarrow> weed_event list \<Rightarrow> writer \<times> weed_meta jqueue \<Rightarrow> bool"
  for e :: writer_env where
  wl_start: "writer_life e (writer_start new_writer, q) [] (writer_start new_writer, q)"
| wl_step: "writer_life e c tr c' \<Longrightarrow> writer_step e c' ev c'' \<Longrightarrow> writer_life e c (tr @ ev) c''"
| wl_env: "writer_life e c tr (s, q) \<Longrightarrow> writer_env_step s s' \<Longrightarrow> queue_ok q' \<Longrightarrow> writer_life e c tr (s', q')"

lemma writer_life_balance:
  assumes "writer_life e c tr c'" and "queue_ok (snd c)"
  shows "queue_ok (snd c') \<and> weed_worker.balanced tr (fst c')"
  using assms
proof (induction rule: writer_life.induct)
  case (wl_start q)
  have "writer_hand (writer_start new_writer) = []" by (simp add: writer_hand_def writer_start_def new_writer_def)
  with wl_start show ?case by (simp add: weed_worker.balanced_def)
next
  case (wl_step c tr c' ev c'')
  obtain s q s' q' where c: "c' = (s, q)" "c'' = (s', q')" by fastforce
  with wl_step show ?case
    using writer_step_balance [of e s q ev s' q'] weed_worker.balanced_step [of tr s e q ev s' q'] by simp
next
  case (wl_env c tr s q s' q')
  then show ?case by (auto intro: weed_worker.balanced_env)
qed

text \<open>
  The writer takes the metas in the order of the queue and finishes them in this order: over
  its whole life the metas taken are the finished ones and then at most one, in its hand, whatever
  the channel and the queue do. When it has ended, that last one is finished nowhere and known to
  no one.
\<close>

theorem writer_in_order:
  assumes "writer_life e (writer_start new_writer, q) tr (s, q')" and "queue_ok q"
  shows "taken tr = finished tr @ writer_hand s \<and> length (taken tr) \<le> Suc (length (finished tr))"
  using writer_life_balance [OF assms(1)] assms(2)
  by (auto simp: weed_worker.balanced_def writer_hand_def split: option.splits)

definition sample_meta :: weed_meta where
  "sample_meta = (new_weed_meta 5)\<lparr>w_key := Some ''k'', w_extension := Some ''log''\<rparr>"

definition sample_writer_env :: writer_env where
  "sample_writer_env = \<lparr>we_dirPath = ''/w'', we_uri = ''u'', we_boundary = ''b'', we_files = (\<lambda>p. Content [1])\<rparr>"

lemmas writer_moves =
  wl_step [OF _ w_loop] wl_step [OF _ w_await_done] wl_step [OF _ w_poll_meta] wl_env wl_step [OF _ w_keep]

lemma writer_env_steps: "writer_env_step s (writer_closes s)" "writer_env_step s (writer_stop s)"
  by (simp_all add: writer_env_step_def)

lemma writer_loses_meta:
  "\<exists>s q. writer_life e (writer_start new_writer, \<lparr>q_items = [m], q_capacity = 4\<rparr>) [Taken m] (s, q)
     \<and> wr_pc s = Exited \<and> wr_hand s = Some m \<and> q_items q = []"
proof -
  let ?q1 = "\<lparr>q_items = [m], q_capacity = 4\<rparr>" and ?q = "\<lparr>q_items = [] :: weed_meta list, q_capacity = 4\<rparr>"
  let ?c0 = "(writer_start new_writer, ?q1)"
  let ?s = "\<lambda>r i ch p h. \<lparr>wr_running = r, wr_interrupted = i, wr_channel = Some ch, wr_pc = p, wr_hand = h\<rparr>"
  have "writer_life e ?c0 [] (?s True False True LoopTest None, ?q1)"
    using wl_start [of e ?q1] by (simp add: writer_start_def new_writer_def)
  from writer_moves(1) [OF this] have "writer_life e ?c0 [] (?s True False True AwaitTest None, ?q1)" by simp
  from writer_moves(2) [OF this] have "writer_life e ?c0 [] (?s True False True Polling None, ?q1)"
    by (simp add: writer_active_def)
  from writer_moves(3) [OF this, of m ?q] have "writer_life e ?c0 [Taken m] (?s True False True HandTest (Some m), ?q)"
    by (simp add: poll_def)
  from writer_moves(4) [OF this writer_env_steps(1), of ?q]
  have "writer_life e ?c0 [Taken m] (?s True False False HandTest (Some m), ?q)"
    by (simp add: writer_closes_def queue_ok_def)
  from writer_moves(4) [OF this writer_env_steps(2), of ?q]
  have "writer_life e ?c0 [Taken m] (?s False True False HandTest (Some m), ?q)"
    by (simp add: writer_stop_def queue_ok_def)
  from writer_moves(5) [OF this] have "writer_life e ?c0 [Taken m] (?s False True False LoopTest (Some m), ?q)"
    by (simp add: writer_active_def)
  from writer_moves(1) [OF this] have "writer_life e ?c0 [Taken m] (?s False True False Exited (Some m), ?q)" by simp
  then show ?thesis by (intro exI conjI, assumption) simp_all
qed

theorem writer_in_order_witness:
  "\<exists>s q tr. writer_life sample_writer_env (writer_start new_writer, \<lparr>q_items = [sample_meta], q_capacity = 4\<rparr>) tr (s, q)
     \<and> wr_pc s = Exited \<and> taken tr = finished tr @ writer_hand s \<and> finished tr = []"
proof -
  obtain s q where l: "writer_life sample_writer_env (writer_start new_writer, \<lparr>q_items = [sample_meta], q_capacity = 4\<rparr>)
      [Taken sample_meta] (s, q)" "wr_pc s = Exited" using writer_loses_meta by blast
  have "queue_ok \<lparr>q_items = [sample_meta], q_capacity = 4\<rparr>" by (simp add: queue_ok_def)
  from writer_in_order [OF l(1) this] have "taken [Taken sample_meta] = finished [Taken sample_meta] @ writer_hand s" ..
  with l(2) show ?thesis by (rule_tac exI, rule_tac exI, rule_tac exI, rule_tac conjI [OF l(1)]) simp
qed

end
