(* ===== verification/Gelf_Transport.thy ===== *)
theory Gelf_Transport
  imports Gelf_Sender "HOL-Library.Sublist"
begin

text \<open>
  \<open>AbstractGelfTransport.java\<close> and \<open>GelfTcpTransport.java\<close>: the bounded queue, the connection with
  its reconnects, and one sender thread per connection attempt, all on the same queue. A step is a
  call of \<open>send\<close>, \<open>trySend\<close>, \<open>setListener\<close> or \<open>stop\<close>, an event of the network, or a step of one sender.
\<close>

section \<open>State\<close>

text \<open>
  The link: a connect is under way, the channel is active, it is closed but \<open>channelInactive\<close> has not
  run yet, or a reconnect is scheduled. \<open>t_loop\<close> tells whether the event loop still runs tasks.
\<close>

datatype link = Connecting | Up | Closing | Waiting

record tcp_transport =
  t_config :: gelf_config
  t_queue :: "gmsg jqueue"
  t_listener :: bool
  t_senders :: "sender list"
  t_link :: link
  t_loop :: bool

definition createBootstrap :: "tcp_transport \<Rightarrow> tcp_transport" where
  "createBootstrap t = t\<lparr>t_senders := t_senders t @ [new_sender], t_link := Connecting\<rparr>"

definition newTcpTransport :: "gelf_config \<Rightarrow> tcp_transport result" where
  "newTcpTransport c =
     bind_result (newQueue (conf_queueSize c)) (\<lambda>q.
       Inr (createBootstrap \<lparr>t_config = c, t_queue = q, t_listener = False, t_senders = [],
              t_link = Waiting, t_loop = True\<rparr>))"

definition setListener :: "tcp_transport \<Rightarrow> tcp_transport" where
  "setListener t = t\<lparr>t_listener := True\<rparr>"

definition trySend :: "gmsg \<Rightarrow> tcp_transport \<Rightarrow> bool \<times> tcp_transport" where
  "trySend m t = (let (ok, q) = offer m (t_queue t) in (ok, t\<lparr>t_queue := q\<rparr>))"

definition map_last :: "('a \<Rightarrow> 'a) \<Rightarrow> 'a list \<Rightarrow> 'a list" where
  "map_last f xs = (if xs = [] then [] else butlast xs @ [f (last xs)])"

definition channelActive :: "tcp_transport \<Rightarrow> tcp_transport \<times> event list" where
  "channelActive t =
     (t\<lparr>t_senders := map_last sender_start (t_senders t), t_link := Up\<rparr>,
      if t_listener t then [Connected] else [])"

definition channelInactive :: "tcp_transport \<Rightarrow> tcp_transport \<times> event list" where
  "channelInactive t =
     (t\<lparr>t_senders := map_last sender_stop (t_senders t), t_link := Waiting\<rparr>,
      if t_listener t then [Disconnected] else [])"

definition listener_of :: "sender_listener \<Rightarrow> tcp_transport \<Rightarrow> sender_listener option" where
  "listener_of li t = (if t_listener t then Some li else None)"

section \<open>Steps\<close>

inductive tcp_step :: "sender_listener \<Rightarrow> tcp_transport \<Rightarrow> event list \<Rightarrow> tcp_transport \<Rightarrow> bool"
  for li :: sender_listener where
  send: "trySend m t = (True, t') \<Longrightarrow> tcp_step li t [Accepted m] t'"
| send_refused: "trySend m t = (False, t') \<Longrightarrow> tcp_step li t [Rejected m] t'"
| set_listener: "tcp_step li t [] (setListener t)"
| connect: "t_link t = Connecting \<Longrightarrow> t_loop t \<Longrightarrow> channelActive t = (t', ev) \<Longrightarrow> tcp_step li t ev t'"
| connect_failed: "t_link t = Connecting \<Longrightarrow> t_loop t \<Longrightarrow> tcp_step li t [] (t\<lparr>t_link := Waiting\<rparr>)"
| drop: "t_link t = Up \<Longrightarrow>
    tcp_step li t [] (t\<lparr>t_senders := map_last channel_closes (t_senders t), t_link := Closing\<rparr>)"
| inactive: "t_link t = Closing \<Longrightarrow> channelInactive t = (t', ev) \<Longrightarrow> tcp_step li t ev t'"
| reconnect: "t_link t = Waiting \<Longrightarrow> t_loop t \<Longrightarrow> tcp_step li t [] (createBootstrap t)"
| stop: "tcp_step li t [] (t\<lparr>t_loop := False\<rparr>)"
| sender: "i < length (t_senders t) \<Longrightarrow> s_channel (t_senders t ! i) \<noteq> None \<Longrightarrow>
    sender_step (listener_of li t) (t_senders t ! i, t_queue t) ev (s', q') \<Longrightarrow>
    tcp_step li t ev (t\<lparr>t_senders := (t_senders t)[i := s'], t_queue := q'\<rparr>)"

inductive tcp_run :: "sender_listener \<Rightarrow> tcp_transport \<Rightarrow> event list \<Rightarrow> tcp_transport \<Rightarrow> bool"
  for li :: sender_listener where
  run_nil: "tcp_run li t [] t"
| run_more: "tcp_run li t tr t' \<Longrightarrow> tcp_step li t' ev t'' \<Longrightarrow> tcp_run li t (tr @ ev) t''"

text \<open>
  \<open>send\<close> blocks in \<open>put\<close> until there is room: it makes the step \<open>send\<close> only. \<open>trySend\<close> makes either.
\<close>

section \<open>Channels\<close>

definition started :: "sender \<Rightarrow> bool" where
  "started s \<longleftrightarrow> s_channel s \<noteq> None"

definition retired :: "sender \<Rightarrow> bool" where
  "retired s \<longleftrightarrow> s = new_sender \<or> (started s \<and> \<not> channel_active s \<and> \<not> s_keepRunning s)"

definition last_ok :: "link \<Rightarrow> sender \<Rightarrow> bool" where
  "last_ok lk s \<longleftrightarrow>
     (case lk of
        Connecting \<Rightarrow> s = new_sender
      | Up \<Rightarrow> channel_active s \<and> s_keepRunning s
      | Closing \<Rightarrow> started s \<and> \<not> channel_active s \<and> s_keepRunning s
      | Waiting \<Rightarrow> retired s)"

definition channels_ok :: "tcp_transport \<Rightarrow> bool" where
  "channels_ok t \<longleftrightarrow> t_senders t \<noteq> [] \<and> (\<forall>s \<in> set (butlast (t_senders t)). retired s)
     \<and> last_ok (t_link t) (last (t_senders t))"

lemma started_simps [simp]:
  "started (channel_closes s) = started s" "started (sender_stop s) = started s" "started (sender_start s)"
  "\<not> started new_sender" "s_hand new_sender = None" "hand_list new_sender = []"
  by (simp_all add: hand_list_def started_def channel_closes_def sender_stop_def sender_start_def new_sender_def)

lemma map_last_simps [simp]:
  "butlast (map_last f xs) = butlast xs" "map_last f xs = [] \<longleftrightarrow> xs = []"
  "xs \<noteq> [] \<Longrightarrow> last (map_last f xs) = f (last xs)" "length (map_last f xs) = length xs"
  by (auto simp: map_last_def)

lemma sender_step_control:
  assumes "sender_step l (s, q) ev (s', q')"
  shows "s_channel s' = s_channel s" and "s_keepRunning s' = s_keepRunning s"
  using assms by (auto elim: sender_stepE)

lemma retired_new [simp]: "retired new_sender"
  by (simp add: retired_def)

lemma channels_ok_init: "newTcpTransport c = Inr t \<Longrightarrow> channels_ok t"
  by (auto simp: newTcpTransport_def createBootstrap_def channels_ok_def last_ok_def bind_result_Inr_iff)

lemma trySend_other: "trySend m t = (b, t') \<Longrightarrow> t_senders t' = t_senders t \<and> t_link t' = t_link t
    \<and> t_listener t' = t_listener t \<and> offer m (t_queue t) = (b, t_queue t')"
  by (auto simp: trySend_def split: prod.splits)

lemma channels_ok_cong:
  "t_senders t' = t_senders t \<Longrightarrow> t_link t' = t_link t \<Longrightarrow> channels_ok t' = channels_ok t"
  by (simp add: channels_ok_def)

lemma channels_ok_step:
  assumes "tcp_step li t ev t'" and "channels_ok t"
  shows "channels_ok t'"
  using assms
proof cases
  case (sender i s' q')
  let ?ss = "t_senders t"
  have same: "channel_active s' = channel_active (?ss ! i)" "started s' = started (?ss ! i)"
      "s_keepRunning s' = s_keepRunning (?ss ! i)" "started (?ss ! i)"
    using sender_step_control [OF sender(4)] sender(3) by (auto simp: channel_active_def started_def)
  have ret: "retired (?ss ! i) \<Longrightarrow> retired s'" and lst: "last_ok lk (?ss ! i) \<Longrightarrow> last_ok lk s'" for lk
    using same by (auto simp: retired_def last_ok_def split: link.splits)
  have ne: "?ss \<noteq> []" using sender(2) by auto
  show ?thesis
  proof (cases "i = length ?ss - 1")
    case True
    then have "butlast (?ss[i := s']) = butlast ?ss" and "last (?ss[i := s']) = s'" and "?ss ! i = last ?ss"
      using sender(2) ne by (simp_all add: butlast_list_update last_list_update last_conv_nth)
    with assms(2) lst sender show ?thesis by (auto simp: channels_ok_def)
  next
    case False
    then have i: "i < length (butlast ?ss)" using sender(2) by simp
    then have "butlast (?ss[i := s']) = (butlast ?ss)[i := s']" and "last (?ss[i := s']) = last ?ss"
      using sender(2) ne by (simp_all add: butlast_list_update last_list_update)
    moreover have "retired s'"
      using ret assms(2) nth_mem [OF i] i by (simp add: channels_ok_def nth_butlast)
    ultimately show ?thesis
      using assms(2) sender set_update_subset_insert [of "butlast ?ss" i s'] by (auto simp: channels_ok_def)
  qed
next
  case reconnect
  with assms(2) have "\<forall>s \<in> set (t_senders t). retired s"
    by (cases "t_senders t" rule: rev_cases) (auto simp: channels_ok_def last_ok_def)
  with reconnect show ?thesis by (auto simp: createBootstrap_def channels_ok_def last_ok_def)
next
  case (send m)
  with assms(2) show ?thesis using trySend_other [of m t True t'] channels_ok_cong [of t' t] by simp
next
  case (send_refused m)
  with assms(2) show ?thesis using trySend_other [of m t False t'] channels_ok_cong [of t' t] by simp
next
  case set_listener
  with assms(2) show ?thesis using channels_ok_cong [of t' t] by (simp add: setListener_def)
next
  case stop
  with assms(2) show ?thesis using channels_ok_cong [of t' t] by simp
qed (auto simp: channels_ok_def last_ok_def channelActive_def channelInactive_def
      started_def retired_def sender_start_def sender_stop_def channel_closes_def channel_active_def)

lemma channels_ok_run: "tcp_run li t tr t' \<Longrightarrow> channels_ok t \<Longrightarrow> channels_ok t'"
  by (induction rule: tcp_run.induct) (auto dest: channels_ok_step)

section \<open>Queue, hands and writes\<close>

lemma channelActive_simps:
  "channelActive t = (t', ev) \<Longrightarrow> t_senders t' = map_last sender_start (t_senders t) \<and> t_queue t' = t_queue t
     \<and> t_listener t' = t_listener t \<and> polled ev = [] \<and> written ev = [] \<and> failed ev = [] \<and> accepted ev = []"
  "channelInactive t = (t', ev) \<Longrightarrow> t_senders t' = map_last sender_stop (t_senders t) \<and> t_queue t' = t_queue t
     \<and> t_listener t' = t_listener t \<and> polled ev = [] \<and> written ev = [] \<and> failed ev = [] \<and> accepted ev = []"
  by (auto simp: channelActive_def channelInactive_def split: if_splits)

lemma tcp_step_queue:
  assumes "tcp_step li t ev t'" and "queue_ok (t_queue t)"
  shows "queue_ok (t_queue t') \<and> q_capacity (t_queue t') = q_capacity (t_queue t)
    \<and> q_items (t_queue t) @ accepted ev = polled ev @ q_items (t_queue t')"
  using assms(1)
proof cases
  case (send m)
  then show ?thesis using offer_ok [OF assms(2)] trySend_other [of m t True t'] by auto
next
  case (send_refused m)
  then show ?thesis using offer_ok [OF assms(2)] trySend_other [of m t False t'] by auto
next
  case (sender i s' q')
  then show ?thesis using sender_step_balance [OF sender(4) assms(2)] by simp
next
  case connect
  then show ?thesis using channelActive_simps(1) [of t t' ev] assms(2) by simp
next
  case inactive
  then show ?thesis using channelActive_simps(2) [of t t' ev] assms(2) by simp
qed (use assms(2) in \<open>simp_all add: setListener_def createBootstrap_def\<close>)

lemma tcp_step_listener: "tcp_step li t ev t' \<Longrightarrow> t_listener t \<Longrightarrow> t_listener t'"
  by (auto elim!: tcp_step.cases dest: trySend_other channelActive_simps
      simp: setListener_def createBootstrap_def)

lemma tcp_run_more: "tcp_run li t' tr' t'' \<Longrightarrow> tcp_run li t tr t' \<Longrightarrow> tcp_run li t (tr @ tr') t''"
proof (induction rule: tcp_run.induct)
  case (run_more t1 tr1 t2 ev t3)
  then show ?case using tcp_run.run_more [of li t "tr @ tr1" t2 ev t3] by simp
qed simp

lemma tcp_run_split:
  assumes "tcp_run li t0 tr1 t1" and "tcp_run li (setListener t1) tr2 t"
  shows "tcp_run li t0 (tr1 @ tr2) t"
  using tcp_run_more [OF assms(2)] run_more [OF assms(1) set_listener] by simp

definition hands :: "tcp_transport \<Rightarrow> gmsg list" where
  "hands t = concat (map hand_list (t_senders t))"

text \<open>The message that can still be written: the one in the hand of a sender on a live channel.\<close>

definition live_hand :: "tcp_transport \<Rightarrow> gmsg list" where
  "live_hand t = (let s = last (t_senders t) in if channel_active s then hand_list s else [])"

text \<open>
  What a transport has done with its messages at the end of a trace: accepted is polled and waiting,
  polled is written and held, writing keeps the order of polling, and what was reported as failed is
  in the hand of a sender whose channel is gone.
\<close>

definition messages_ok :: "tcp_transport \<Rightarrow> event list \<Rightarrow> bool" where
  "messages_ok t tr \<longleftrightarrow> accepted tr = polled tr @ q_items (t_queue t)
     \<and> mset (polled tr) = mset (written tr) + mset (hands t)
     \<and> subseq (written tr @ live_hand t) (polled tr)
     \<and> (\<forall>m \<in> set (failed tr). \<exists>s \<in> set (t_senders t). started s \<and> \<not> channel_active s \<and> s_hand s = Some m)"

lemma hands_update:
  assumes "i < length ss"
  shows "mset (concat (map hand_list (ss[i := s']))) + mset (hand_list (ss ! i))
    = mset (concat (map hand_list ss)) + mset (hand_list s')"
  using assms by (induction ss arbitrary: i) (auto split: nat.splits)

lemma subseq_shrink: "subseq (w @ a) p \<Longrightarrow> subseq b a \<Longrightarrow> subseq (w @ b) p"
  by (meson subseq_append' subseq_order.order_trans)

lemma multiset_shift:
  fixes h h' :: "'a multiset"
  assumes "a' + h = a + h'" and "h + p = w + h'"
  shows "p + a = w + a'"
proof (rule multiset_eqI)
  fix x
  have "count a' x + count h x = count a x + count h' x" using assms(1) by (metis count_union)
  moreover have "count h x + count p x = count w x + count h' x" using assms(2) by (metis count_union)
  ultimately show "count (p + a) x = count (w + a') x" by simp
qed

lemma hands_last:
  assumes "ss \<noteq> []" and "hand_list (f (last ss)) = hand_list (last ss)"
  shows "concat (map hand_list (map_last f ss)) = concat (map hand_list ss)"
  using assms by (cases ss rule: rev_cases) (simp_all add: map_last_def)

lemma retired_inactive: "retired s \<Longrightarrow> \<not> channel_active s"
  by (auto simp: retired_def channel_active_def new_sender_def)

lemma active_is_last:
  assumes "channels_ok t" and "i < length (t_senders t)" and "channel_active (t_senders t ! i)"
  shows "i = length (t_senders t) - 1"
proof (rule ccontr)
  assume "i \<noteq> length (t_senders t) - 1"
  with assms(2) have "i < length (butlast (t_senders t))" by simp
  from nth_mem [OF this] have "t_senders t ! i \<in> set (butlast (t_senders t))"
    using \<open>i < length (butlast (t_senders t))\<close> by (simp add: nth_butlast)
  with assms(1,3) retired_inactive show False by (auto simp: channels_ok_def)
qed

lemma sender_step_inactive:
  assumes "sender_step l (s, q) ev (s', q')" and "\<not> channel_active s"
  shows "written ev = [] \<and> \<not> channel_active s' \<and> set (failed ev) \<subseteq> set (hand_list s')
    \<and> (\<forall>m. s_hand s = Some m \<longrightarrow> s_hand s' = Some m)"
  using assms by (cases rule: sender_stepE) (auto simp: hand_list_def)

lemma sender_step_active:
  assumes "sender_step l (s, q) ev (s', q')" and "channel_active s"
  shows "failed ev = [] \<and> channel_active s'"
  using assms by (cases rule: sender_stepE) auto

lemma messages_ok_quiet:
  assumes "messages_ok t tr" and "accepted ev = polled ev @ qs" and "q_items (t_queue t') = q_items (t_queue t) @ qs"
    and "polled ev = []" and "written ev = []" and "failed ev = []"
    and "hands t' = hands t" and "subseq (live_hand t') (live_hand t)"
    and "\<And>s m. s \<in> set (t_senders t) \<Longrightarrow> started s \<Longrightarrow> \<not> channel_active s \<Longrightarrow> s_hand s = Some m \<Longrightarrow>
      \<exists>s \<in> set (t_senders t'). started s \<and> \<not> channel_active s \<and> s_hand s = Some m"
  shows "messages_ok t' (tr @ ev)"
proof -
  have "subseq (written tr @ live_hand t') (polled tr)"
    using assms(1,8) by (auto simp: messages_ok_def intro: subseq_shrink)
  with assms show ?thesis by (fastforce simp: messages_ok_def)
qed

lemma messages_ok_last:
  assumes "messages_ok t tr" and "t_senders t \<noteq> []" and "t_senders t' = map_last f (t_senders t)"
    and "t_queue t' = t_queue t" and "accepted ev = []" "polled ev = []" "written ev = []" "failed ev = []"
    and "hand_list (f (last (t_senders t))) = hand_list (last (t_senders t))"
    and "channel_active (f (last (t_senders t))) \<longrightarrow> hand_list (last (t_senders t)) = []"
    and "started (last (t_senders t)) \<longrightarrow> started (f (last (t_senders t))) \<and> \<not> channel_active (f (last (t_senders t)))"
  shows "messages_ok t' (tr @ ev)"
proof (rule messages_ok_quiet [OF assms(1), where qs = "[]"])
  show "hands t' = hands t" using assms(2,3,9) by (simp add: hands_def hands_last)
  show "subseq (live_hand t') (live_hand t)" using assms(2,3,9,10) by (simp add: live_hand_def Let_def)
  fix s m
  assume s: "s \<in> set (t_senders t)" "started s" "\<not> channel_active s" "s_hand s = Some m"
  have set: "set (t_senders t') = insert (f (last (t_senders t))) (set (butlast (t_senders t)))"
    using assms(2,3) by (simp add: map_last_def)
  show "\<exists>s \<in> set (t_senders t'). started s \<and> \<not> channel_active s \<and> s_hand s = Some m"
  proof (cases "s \<in> set (butlast (t_senders t))")
    case True
    with s set show ?thesis by blast
  next
    case False
    have "set (t_senders t) = insert (last (t_senders t)) (set (butlast (t_senders t)))"
      using assms(2) by (metis append_butlast_last_id list.simps(15) set_append sup_bot.right_neutral Un_insert_right list.set(1))
    with False s have "s = last (t_senders t)" by auto
    with s assms(9,11) set show ?thesis by (auto simp: hand_list_def split: option.splits)
  qed
qed (use assms in simp_all)

lemma messages_ok_sender:
  assumes "messages_ok t tr" and "channels_ok t" and "queue_ok (t_queue t)" and "i < length (t_senders t)"
    and "started (t_senders t ! i)" and "sender_step l (t_senders t ! i, t_queue t) ev (s', q')"
  shows "messages_ok (t\<lparr>t_senders := (t_senders t)[i := s'], t_queue := q'\<rparr>) (tr @ ev)"
proof -
  let ?t = "t\<lparr>t_senders := (t_senders t)[i := s'], t_queue := q'\<rparr>" and ?s = "t_senders t ! i"
  note bal = sender_step_balance [OF assms(6,3)] and ctl = sender_step_control [OF assms(6)]
  have ne: "t_senders t \<noteq> []" using assms(4) by auto
  have act: "channel_active s' = channel_active ?s" "started s'"
    using ctl assms(5) by (simp_all add: channel_active_def started_def)
  have "mset (hands ?t) + mset (hand_list ?s) = mset (hands t) + mset (hand_list s')"
    using hands_update [OF assms(4), of s'] by (simp add: hands_def)
  moreover have "mset (hand_list ?s) + mset (polled ev) = mset (written ev) + mset (hand_list s')"
    using bal by (metis mset_append)
  ultimately have ms: "mset (polled ev) + mset (hands t) = mset (written ev) + mset (hands ?t)"
    by (rule multiset_shift)
  have last: "last (t_senders ?t) = (if i = length (t_senders t) - 1 then s' else last (t_senders t))"
    using ne assms(4) by (auto simp: last_list_update)
  have sub: "subseq (written (tr @ ev) @ live_hand ?t) (polled (tr @ ev))"
  proof (cases "channel_active ?s")
    case True
    then have i: "i = length (t_senders t) - 1" using active_is_last [OF assms(2,4)] by simp
    then have "live_hand t = hand_list ?s" "live_hand ?t = hand_list s'"
      using True act last ne by (simp_all add: live_hand_def last_conv_nth)
    moreover have "written (tr @ ev) @ hand_list s' = (written tr @ hand_list ?s) @ polled ev" using bal by simp
    ultimately show ?thesis using assms(1) by (simp only: messages_ok_def trace_append subseq_append)
  next
    case False
    have "live_hand ?t = (let s = if i = length (t_senders t) - 1 then s' else last (t_senders t)
        in if channel_active s then hand_list s else [])"
      unfolding live_hand_def last ..
    then have "subseq (live_hand ?t) (live_hand t)" using act False by (simp add: live_hand_def Let_def)
    then have "subseq (written tr @ live_hand ?t) (polled tr)"
      using assms(1) by (auto simp: messages_ok_def intro: subseq_shrink)
    then show ?thesis using sender_step_inactive [OF assms(6) False] by (simp add: subseq_rev_drop_many)
  qed
  have "\<exists>s \<in> set (t_senders ?t). started s \<and> \<not> channel_active s \<and> s_hand s = Some m"
    if m: "m \<in> set (failed (tr @ ev))" for m
  proof (cases "m \<in> set (failed ev)")
    case True
    then have "\<not> channel_active ?s" using sender_step_active [OF assms(6)] by auto
    moreover from this True have "s_hand s' = Some m"
      using sender_step_inactive [OF assms(6)] by (auto simp: hand_list_def split: option.splits)
    ultimately show ?thesis using act assms(4) set_update_memI [OF assms(4), of s'] by auto
  next
    case False
    with m assms(1) obtain s where s: "s \<in> set (t_senders t)" "started s" "\<not> channel_active s" "s_hand s = Some m"
      by (auto simp: messages_ok_def)
    then obtain j where j: "j < length (t_senders t)" "s = t_senders t ! j" by (auto simp: in_set_conv_nth)
    show ?thesis
    proof (cases "j = i")
      case True
      then have "s_hand s' = Some m" "\<not> channel_active s'"
        using sender_step_inactive [OF assms(6)] s j by auto
      then show ?thesis using act assms(4) set_update_memI [OF assms(4), of s'] by auto
    next
      case neq: False
      then have "s \<in> set (t_senders ?t)"
        using j neq by (auto simp: in_set_conv_nth intro!: exI [of _ j])
      then show ?thesis using s by blast
    qed
  qed
  with assms(1) bal ms sub show ?thesis
    by (auto simp: messages_ok_def ac_simps)
qed

lemma messages_ok_step:
  assumes "tcp_step li t ev t'" and "channels_ok t" and "queue_ok (t_queue t)" and "messages_ok t tr"
  shows "messages_ok t' (tr @ ev)"
proof -
  have ne: "t_senders t \<noteq> []" and lst: "last_ok (t_link t) (last (t_senders t))"
    using assms(2) by (auto simp: channels_ok_def)
  have quiet: "messages_ok t' (tr @ ev)"
    if "t_senders t' = t_senders t" "polled ev = []" "written ev = []" "failed ev = []"
      "q_items (t_queue t') = q_items (t_queue t) @ accepted ev"
  proof (rule messages_ok_quiet [OF assms(4), where qs = "accepted ev"])
    show "subseq (live_hand t') (live_hand t)" using that by (simp add: live_hand_def)
    fix s m
    assume "s \<in> set (t_senders t)" "started s" "\<not> channel_active s" "s_hand s = Some m"
    with that(1) show "\<exists>s \<in> set (t_senders t'). started s \<and> \<not> channel_active s \<and> s_hand s = Some m" by auto
  qed (use that in \<open>simp_all add: hands_def\<close>)
  note mlast = messages_ok_last [OF assms(4) ne]
  from assms(1) show ?thesis
  proof cases
    case (send m)
    then show ?thesis using offer_ok [OF assms(3)] trySend_other [of m t True t'] by (intro quiet) auto
  next
    case (send_refused m)
    then show ?thesis using offer_ok [OF assms(3)] trySend_other [of m t False t'] by (intro quiet) auto
  next
    case connect
    with lst have "last (t_senders t) = new_sender" by (simp add: last_ok_def)
    with connect show ?thesis using channelActive_simps(1) [of t t' ev]
      by (intro mlast [of t' sender_start]) (auto simp: hand_list_def)
  next
    case drop
    then show ?thesis
      by (intro mlast [of t' channel_closes]) (auto simp: hand_list_def)
  next
    case inactive
    with lst have "\<not> channel_active (last (t_senders t))" by (simp add: last_ok_def)
    with inactive show ?thesis using channelActive_simps(2) [of t t' ev]
      by (intro mlast [of t' sender_stop]) (auto simp: hand_list_def)
  next
    case reconnect
    then have t': "t_senders t' = t_senders t @ [new_sender]" "t_queue t' = t_queue t" "ev = []"
      by (simp_all add: createBootstrap_def)
    show ?thesis
    proof (rule messages_ok_quiet [OF assms(4), where qs = "[]"])
      show "subseq (live_hand t') (live_hand t)" using t' by (simp add: live_hand_def Let_def)
    qed (use t' in \<open>auto simp: hands_def\<close>)
  next
    case (sender i s' q')
    then show ?thesis using messages_ok_sender [OF assms(4,2,3)] by (simp add: started_def)
  next
    case set_listener
    then show ?thesis by (intro quiet) (simp_all add: setListener_def)
  next
    case connect_failed
    then show ?thesis by (intro quiet) simp_all
  next
    case stop
    then show ?thesis by (intro quiet) simp_all
  qed
qed

lemma newTcpTransport_ok:
  assumes "newTcpTransport c = Inr t"
  shows "channels_ok t \<and> queue_ok (t_queue t) \<and> messages_ok t []"
    and "q_capacity (t_queue t) = nat (sint (conf_queueSize c))"
    and "t_link t = Connecting \<and> \<not> t_listener t \<and> t_senders t = [new_sender]"
proof -
  obtain q where q: "newQueue (conf_queueSize c) = Inr q"
    and t: "t_queue t = q" "t_senders t = [new_sender]" "t_link t = Connecting" "\<not> t_listener t"
    using assms by (auto simp: newTcpTransport_def bind_result_Inr_iff createBootstrap_def)
  then show "channels_ok t \<and> queue_ok (t_queue t) \<and> messages_ok t []"
    using channels_ok_init [OF assms] newQueue_ok [OF q]
    by (simp add: messages_ok_def hands_def live_hand_def hand_list_def new_sender_def channel_active_def)
  from q have "q_capacity q = nat (sint (conf_queueSize c))" by (auto simp: newQueue_def split: if_splits)
  with t show "q_capacity (t_queue t) = nat (sint (conf_queueSize c))" by simp
  from t show "t_link t = Connecting \<and> \<not> t_listener t \<and> t_senders t = [new_sender]" by simp
qed

lemma tcp_run_ok:
  assumes "tcp_run li t tr t'" and "channels_ok t \<and> queue_ok (t_queue t) \<and> messages_ok t []"
  shows "channels_ok t' \<and> queue_ok (t_queue t') \<and> q_capacity (t_queue t') = q_capacity (t_queue t)
    \<and> messages_ok t' tr"
  using assms
  by (induction rule: tcp_run.induct) (auto dest: tcp_step_queue channels_ok_step intro: messages_ok_step)

section \<open>Reports\<close>

text \<open>With a listener, a message that outlives a turn of the loop in a sender's hand was reported.\<close>

definition hand_reported :: "event list \<Rightarrow> sender \<Rightarrow> bool" where
  "hand_reported tr s \<longleftrightarrow> (\<forall>m. s_hand s = Some m \<longrightarrow> s_pc s = HandTest \<or> m \<in> set (failed tr))"

lemma hand_reported_more: "hand_reported tr s \<Longrightarrow> hand_reported (tr @ ev) s"
  by (auto simp: hand_reported_def)

lemma sender_step_reported:
  assumes "sender_step (Some li) (s, q) ev (s', q')" and "hand_reported tr s"
  shows "hand_reported (tr @ ev) s'"
  using assms by (cases rule: sender_stepE) (auto simp: hand_reported_def)

lemma map_last_all: "list_all P xs \<Longrightarrow> (\<And>x. P x \<Longrightarrow> P (f x)) \<Longrightarrow> list_all P (map_last f xs)"
  by (cases xs rule: rev_cases) (simp_all add: map_last_def)

lemma tcp_step_reported:
  assumes "tcp_step li t ev t'" and "t_listener t" and "list_all (hand_reported tr) (t_senders t)"
  shows "list_all (hand_reported (tr @ ev)) (t_senders t')"
proof -
  have more: "list_all (hand_reported (tr @ ev)) (t_senders t)"
    using assms(3) by (auto simp: list_all_iff intro: hand_reported_more)
  from assms(1) show ?thesis
  proof cases
    case (send m)
    then show ?thesis using more trySend_other [of m t True t'] by simp
  next
    case (send_refused m)
    then show ?thesis using more trySend_other [of m t False t'] by simp
  next
    case (sender i s' q')
    from assms(3) sender(2) have "hand_reported tr (t_senders t ! i)" by (simp add: list_all_length)
    with sender(4) assms(2) have "hand_reported (tr @ ev) s'"
      by (auto simp: listener_of_def intro: sender_step_reported)
    with sender more show ?thesis by (simp add: list_all_length nth_list_update)
  next
    case connect
    then show ?thesis using more channelActive_simps(1) [of t t' ev]
      by (auto intro!: map_last_all simp: hand_reported_def sender_start_def)
  next
    case inactive
    then show ?thesis using more channelActive_simps(2) [of t t' ev]
      by (auto intro!: map_last_all simp: hand_reported_def)
  next
    case drop
    then show ?thesis using more by (auto intro!: map_last_all simp: hand_reported_def)
  next
    case reconnect
    then show ?thesis using more by (simp add: createBootstrap_def hand_reported_def new_sender_def)
  qed (use more in \<open>simp_all add: setListener_def\<close>)
qed

lemma tcp_run_reported:
  assumes "tcp_run li t tr t'" and "t_listener t" and "list_all (hand_reported tr0) (t_senders t)"
  shows "t_listener t' \<and> list_all (hand_reported (tr0 @ tr)) (t_senders t')"
  using assms
proof (induction rule: tcp_run.induct)
  case (run_more t tr t' ev t'')
  then show ?case using tcp_step_reported [of li t' ev t'' "tr0 @ tr"] tcp_step_listener [of li t' ev t''] by simp
qed simp

lemma no_hands_yet: "messages_ok t tr \<Longrightarrow> accepted tr = [] \<Longrightarrow> list_all (hand_reported tr') (t_senders t)"
  by (auto simp: messages_ok_def hands_def list_all_iff hand_reported_def hand_list_def split: option.splits)

text \<open>What a sender holds when its channel is gone it holds forever.\<close>

definition stuck :: "nat \<Rightarrow> gmsg \<Rightarrow> tcp_transport \<Rightarrow> bool" where
  "stuck i m t \<longleftrightarrow> i < length (t_senders t) \<and> started (t_senders t ! i)
     \<and> \<not> channel_active (t_senders t ! i) \<and> s_hand (t_senders t ! i) = Some m"

lemma stuck_last:
  assumes "stuck i m t" and "t_senders t' = map_last f (t_senders t)"
    and "s_hand (f (last (t_senders t))) = s_hand (last (t_senders t))"
    and "started (last (t_senders t)) \<longrightarrow> started (f (last (t_senders t))) \<and> \<not> channel_active (f (last (t_senders t)))"
  shows "stuck i m t'"
proof -
  have ne: "t_senders t \<noteq> []" using assms(1) by (auto simp: stuck_def)
  with assms show ?thesis
    by (cases "i = length (t_senders t) - 1")
      (auto simp: stuck_def map_last_def nth_append nth_butlast last_conv_nth)
qed

lemma stuck_step:
  assumes "tcp_step li t ev t'" and "channels_ok t" and "stuck i m t"
  shows "stuck i m t'"
proof -
  have lst: "last_ok (t_link t) (last (t_senders t))" using assms(2) by (auto simp: channels_ok_def)
  from assms(1) show ?thesis
  proof cases
    case (send m')
    then show ?thesis using assms(3) trySend_other [of m' t True t'] by (simp add: stuck_def)
  next
    case (send_refused m')
    then show ?thesis using assms(3) trySend_other [of m' t False t'] by (simp add: stuck_def)
  next
    case connect
    with lst have "last (t_senders t) = new_sender" by (simp add: last_ok_def)
    with connect show ?thesis using channelActive_simps(1) [of t t' ev]
      by (intro stuck_last [OF assms(3), of t' sender_start]) auto
  next
    case drop
    then show ?thesis
      by (intro stuck_last [OF assms(3), of t' channel_closes]) auto
  next
    case inactive
    with lst have "\<not> channel_active (last (t_senders t))" by (simp add: last_ok_def)
    with inactive show ?thesis using channelActive_simps(2) [of t t' ev]
      by (intro stuck_last [OF assms(3), of t' sender_stop]) auto
  next
    case (sender j s' q')
    show ?thesis
    proof (cases "j = i")
      case True
      then have "\<not> channel_active s' \<and> s_hand s' = Some m" "started s'"
        using sender_step_inactive [OF sender(4)] sender_step_control [OF sender(4)] assms(3)
        by (auto simp: stuck_def started_def)
      with True sender assms(3) show ?thesis by (simp add: stuck_def)
    next
      case False
      with sender assms(3) show ?thesis by (simp add: stuck_def)
    qed
  next
    case reconnect
    then show ?thesis using assms(3) by (simp add: stuck_def createBootstrap_def nth_append)
  qed (use assms(3) in \<open>simp_all add: stuck_def setListener_def\<close>)
qed

lemma stuck_run:
  assumes "tcp_run li t tr t'" and "channels_ok t" and "stuck i m t"
  shows "stuck i m t'"
  using assms
proof (induction rule: tcp_run.induct)
  case (run_more t tr t' ev t'')
  then show ?case using stuck_step [of li t' ev t'' i m] channels_ok_run [of li t tr t'] by simp
qed simp

lemma failed_hands: "messages_ok t tr \<Longrightarrow> set (failed tr) \<subseteq> set (hands t)"
  by (force simp: messages_ok_def hands_def hand_list_def)

lemma tcp_run_messages:
  assumes "newTcpTransport c = Inr t0" and "tcp_run li t0 tr t"
  shows "accepted tr = polled tr @ q_items (t_queue t)
    \<and> int (length (q_items (t_queue t))) \<le> sint (conf_queueSize c)
    \<and> mset (polled tr) = mset (written tr) + mset (hands t) \<and> subseq (written tr) (polled tr)
    \<and> set (failed tr) \<subseteq> set (hands t)"
proof -
  have ok: "queue_ok (t_queue t)" "messages_ok t tr" "q_capacity (t_queue t) = nat (sint (conf_queueSize c))"
    using tcp_run_ok [OF assms(2)] newTcpTransport_ok [OF assms(1)] by auto
  have "0 < sint (conf_queueSize c)"
    using assms(1) by (auto simp: newTcpTransport_def newQueue_def bind_result_Inr_iff split: if_splits)
  moreover have "subseq (written tr) (written tr @ live_hand t)" by (rule subseq_rev_drop_many) simp
  ultimately show ?thesis
    using ok subseq_order.order_trans failed_hands [OF ok(2)]
    by (auto simp: messages_ok_def queue_ok_def)
qed


definition sample_config :: gelf_config where
  "sample_config = \<lparr>conf_hostname = ''h'', conf_port = 12201, conf_transport = TCP, conf_queueSize = 2,
     conf_tlsEnabled = False, conf_tlsTrustCertChainFile = None, conf_tlsCertVerificationEnabled = True,
     conf_reconnectDelay = 500, conf_connectTimeout = 1000, conf_tcpNoDelay = True,
     conf_tcpKeepAlive = False, conf_sendBufferSize = - 1\<rparr>"

definition sample_transport :: tcp_transport where
  "sample_transport = \<lparr>t_config = sample_config, t_queue = \<lparr>q_items = [], q_capacity = 2\<rparr>, t_listener = False,
     t_senders = [new_sender], t_link = Connecting, t_loop = True\<rparr>"

lemma sample_transport_new: "newTcpTransport sample_config = Inr sample_transport"
  by (simp add: newTcpTransport_def sample_config_def newQueue_def createBootstrap_def sample_transport_def)

lemmas run_moves =
  run_more [OF _ send] run_more [OF _ connect] run_more [OF _ set_listener] run_more [OF _ drop]
  run_more [OF _ inactive] run_more [OF _ reconnect]

lemma sample_run:
  "tcp_run saving_listener (setListener sample_transport) [Accepted sample_gmsg, Connected]
     (sample_transport\<lparr>t_listener := True, t_queue := \<lparr>q_items = [sample_gmsg], q_capacity = 2\<rparr>,
        t_senders := [sender_start new_sender], t_link := Up\<rparr>)"
proof -
  have "tcp_run saving_listener (setListener sample_transport) [Accepted sample_gmsg]
     (sample_transport\<lparr>t_listener := True, t_queue := \<lparr>q_items = [sample_gmsg], q_capacity = 2\<rparr>\<rparr>)"
    using run_moves(1) [OF run_nil, of sample_gmsg "setListener sample_transport"]
    by (simp add: trySend_def offer_def setListener_def sample_transport_def)
  from run_moves(2) [OF this] show ?thesis
    by (simp add: channelActive_def sample_transport_def map_last_def)
qed


section \<open>The connection flag\<close>

text \<open>
  The listener of \<open>GraylogClientService\<close> keeps a flag: \<open>connected()\<close> sets it, \<open>disconnected()\<close>
  resets it.
\<close>

fun flag_step :: "event \<Rightarrow> bool \<Rightarrow> bool" where
  "flag_step Connected b = True"
| "flag_step Disconnected b = False"
| "flag_step e b = b"

definition connected_flag :: "event list \<Rightarrow> bool" where
  "connected_flag tr = fold flag_step tr False"

lemma sender_step_flag: "sender_step l c ev c' \<Longrightarrow> fold flag_step ev b = b"
  by (auto elim!: sender_step.cases simp: write_events_def split: option.splits prod.splits)

definition link_up :: "tcp_transport \<Rightarrow> bool" where
  "link_up t \<longleftrightarrow> t_link t \<in> {Up, Closing}"

lemma sender_step_no_connect: "sender_step l c ev c' \<Longrightarrow> Connected \<notin> set ev"
  by (auto elim!: sender_step.cases simp: write_events_def split: option.splits prod.splits)

text \<open>
  With the listener set while the link was up (\<open>u0\<close>) or down, the flag follows the link from the
  first \<open>connected()\<close> on.
\<close>

definition flag_ok :: "bool \<Rightarrow> event list \<Rightarrow> bool \<Rightarrow> tcp_transport \<Rightarrow> bool" where
  "flag_ok u0 tr b t \<longleftrightarrow> (b \<longleftrightarrow> link_up t \<and> (\<not> u0 \<or> Connected \<in> set tr))"

lemma flag_step_link:
  assumes "tcp_step li t ev t'" and "t_listener t" and "flag_ok u0 tr b t"
  shows "flag_ok u0 (tr @ ev) (fold flag_step ev b) t'"
  using assms
proof cases
  case (sender i s' q')
  with assms(3) show ?thesis
    using sender_step_flag [OF sender(4), of b] sender_step_no_connect [OF sender(4)]
    by (simp add: flag_ok_def link_up_def)
qed (use assms in \<open>auto simp: flag_ok_def link_up_def channelActive_def channelInactive_def setListener_def
        createBootstrap_def dest: trySend_other\<close>)

lemma flag_run_link:
  assumes "tcp_run li t tr t'" and "t_listener t" and "flag_ok u0 [] b t"
  shows "t_listener t' \<and> flag_ok u0 tr (fold flag_step tr b) t'"
  using assms
proof (induction rule: tcp_run.induct)
  case (run_more t tr t' ev t'')
  then show ?case
    using flag_step_link [of li t' ev t'' u0 tr "fold flag_step tr b"] tcp_step_listener [of li t' ev t'']
    by simp
qed simp

text \<open>Without a listener nobody learns of the link.\<close>

lemma no_listener_step:
  assumes "tcp_step li t ev t'" and "\<not> t_listener t'"
  shows "\<not> t_listener t \<and> fold flag_step ev b = b"
  using assms
proof cases
  case (sender i s' q')
  then show ?thesis using assms(2) sender_step_flag [OF sender(4), of b] by simp
qed (use assms in \<open>auto simp: channelActive_def channelInactive_def setListener_def
        createBootstrap_def dest: trySend_other\<close>)

lemma no_listener_run:
  assumes "tcp_run li t tr t'" and "\<not> t_listener t'"
  shows "connected_flag tr = False"
  using assms
proof (induction rule: tcp_run.induct)
  case (run_more t tr t' ev t'')
  then show ?case using no_listener_step [of li t' ev t'' "connected_flag tr"] by (simp add: connected_flag_def)
qed (simp add: connected_flag_def)

text \<open>
  Claim C23. There is never more than one live connection: at every moment at most the newest sender
  has an active channel, exactly while the link is up, and every older one is stopped. The service's
  flag follows the link only from the first \<open>connected()\<close> its listener hears: the listener is
  set (once) after the connecting began, and a channel that was up at that moment (\<open>t1\<close>) leaves the
  flag down for as long as it lives; from the next activation on, and from the start when no
  channel was up yet, the flag is up exactly from the activation of a channel until its close was
  handled.
\<close>

theorem tcp_single_channel:
  assumes "newTcpTransport c = Inr t0" and "tcp_run li t0 tr1 t1" and "\<not> t_listener t1"
    and "tcp_run li (setListener t1) tr2 t"
  shows "list_all (\<lambda>s. \<not> channel_active s \<and> (s = new_sender \<or> \<not> s_keepRunning s)) (butlast (t_senders t))
    \<and> (channel_active (last (t_senders t)) \<longleftrightarrow> t_link t = Up)
    \<and> (connected_flag (tr1 @ tr2) \<longleftrightarrow> link_up t \<and> (\<not> link_up t1 \<or> Connected \<in> set tr2))"
proof -
  have "channels_ok t"
    using tcp_run_ok [OF tcp_run_split [OF assms(2,4)]] newTcpTransport_ok [OF assms(1)] by blast
  moreover have "connected_flag (tr1 @ tr2) \<longleftrightarrow> link_up t \<and> (\<not> link_up t1 \<or> Connected \<in> set tr2)"
  proof -
    have "flag_ok (link_up t1) [] False (setListener t1)" by (auto simp: flag_ok_def link_up_def setListener_def)
    with flag_run_link [OF assms(4), of "link_up t1" False] no_listener_run [OF assms(2,3)] show ?thesis
      by (simp add: setListener_def flag_ok_def connected_flag_def)
  qed
  moreover have "\<not> channel_active new_sender" by (simp add: channel_active_def new_sender_def)
  ultimately show ?thesis
    by (auto simp: channels_ok_def list_all_iff retired_def last_ok_def split: link.splits)
qed

text \<open>A run in which the listener comes after the activation: the flag is down over a live channel.\<close>

theorem tcp_single_channel_witness:
  "\<exists>t1 t. tcp_run saving_listener sample_transport [] t1 \<and> tcp_run saving_listener (setListener t1) [] t
     \<and> channel_active (last (t_senders t)) \<and> \<not> connected_flag []"
proof -
  let ?up = "sample_transport\<lparr>t_senders := [sender_start new_sender], t_link := Up\<rparr>"
  have run: "tcp_run saving_listener sample_transport [] ?up"
    using run_moves(2) [OF run_nil, of sample_transport]
    by (simp add: channelActive_def sample_transport_def map_last_def)
  have "\<not> t_listener ?up" by (simp add: sample_transport_def)
  from tcp_single_channel [OF sample_transport_new run this run_nil] run
  show ?thesis
    by (intro exI [of _ ?up] exI [of _ "setListener ?up"] conjI run_nil)
      (simp_all add: setListener_def link_up_def)
qed

end
