(* ===== verification/Layouts.thy ===== *)
theory Layouts
  imports Interfaces "HOL-Library.AList"
begin

text \<open>
  \<open>entity/Layout.java\<close>, \<open>entity/LayoutItem.java\<close> and \<open>GlobalReference.java\<close>: the column layouts
  of log messages, parsed from a template such as \<open>i,identity,%n|s,state,%s\<close>, and the cache of
  parsed layouts.
\<close>

section \<open>Layouts\<close>

definition TYPE_NUMBER :: jint where "TYPE_NUMBER = 1"
definition TYPE_STRING :: jint where "TYPE_STRING = 2"

record layout_item =
  li_abbreviation :: string
  li_fullName :: string
  li_type :: jint

type_synonym layout = "string \<rightharpoonup> layout_item"

definition createLayoutItem :: "string \<Rightarrow> string \<Rightarrow> jint \<Rightarrow> layout_item" where
  "createLayoutItem abbr full t = \<lparr>li_abbreviation = abbr, li_fullName = full, li_type = t\<rparr>"

definition getType :: "string \<Rightarrow> jint result" where
  "getType s =
     (if equals_ignore_case s ''%s'' then Inr TYPE_STRING
      else if equals_ignore_case s ''%n'' then Inr TYPE_NUMBER
      else Inl (IllegalArgumentException ''Layout template element type set error''))"

fun add_elements :: "string list \<Rightarrow> layout \<Rightarrow> layout result" where
  "add_elements [] m = Inr m"
| "add_elements (e # es) m =
     (case split_char (CHR '','') e of
        [abbr, full, t] \<Rightarrow>
          bind_result (getType t) (\<lambda>ty. add_elements es (m(abbr \<mapsto> createLayoutItem abbr full ty)))
      | _ \<Rightarrow> Inl (IllegalArgumentException ''Layout template format is not correct''))"

definition newLayout :: "string \<Rightarrow> layout result" where
  "newLayout template = add_elements (split_char (CHR ''|'') template) Map.empty"

definition getItem :: "layout \<Rightarrow> string \<Rightarrow> layout_item option" where
  "getItem l abbr = l abbr"

text \<open>The inverse: a template written from items.\<close>

definition type_sign :: "jint \<Rightarrow> string" where
  "type_sign t = (if t = TYPE_STRING then ''%s'' else ''%n'')"

definition item_text :: "layout_item \<Rightarrow> string" where
  "item_text i = join_char (CHR '','') [li_abbreviation i, li_fullName i, type_sign (li_type i)]"

definition template_of :: "layout_item list \<Rightarrow> string" where
  "template_of items = join_char (CHR ''|'') (map item_text items)"

definition plain_name :: "string \<Rightarrow> bool" where
  "plain_name s \<longleftrightarrow> CHR '','' \<notin> set s \<and> CHR ''|'' \<notin> set s"

definition item_ok :: "layout_item \<Rightarrow> bool" where
  "item_ok i \<longleftrightarrow> plain_name (li_abbreviation i) \<and> plain_name (li_fullName i) \<and> li_type i \<in> {TYPE_NUMBER, TYPE_STRING}"

lemma type_sign_plain: "plain_name (type_sign t)" "type_sign t \<noteq> []"
  by (auto simp: type_sign_def plain_name_def)

lemma getType_sign: "t \<in> {TYPE_NUMBER, TYPE_STRING} \<Longrightarrow> getType (type_sign t) = Inr t"
  by (auto simp: getType_def type_sign_def TYPE_NUMBER_def TYPE_STRING_def equals_ignore_case_def
      to_lower_case_def lower_char_def is_upper_latin1_def)

lemma split_item_text:
  assumes "item_ok i"
  shows "split_char (CHR '','') (item_text i) = [li_abbreviation i, li_fullName i, type_sign (li_type i)]"
  unfolding item_text_def using assms type_sign_plain [of "li_type i"]
  by (intro split_char_join) (auto simp: item_ok_def plain_name_def)

lemma item_text_no_bar:
  assumes "item_ok i"
  shows "CHR ''|'' \<notin> set (item_text i)"
  using assms type_sign_plain(1) [of "li_type i"] by (simp add: item_text_def item_ok_def plain_name_def)

lemma item_text_nonempty: "item_text i \<noteq> []"
  by (simp add: item_text_def)

lemma add_elements_items:
  assumes "\<forall>i \<in> set items. item_ok i"
  shows "add_elements (map item_text items) m = Inr (m ++ map_of (rev (map (\<lambda>i. (li_abbreviation i, i)) items)))"
  using assms
proof (induction items arbitrary: m)
  case (Cons i items)
  have "createLayoutItem (li_abbreviation i) (li_fullName i) (li_type i) = i" by (simp add: createLayoutItem_def)
  with Cons show ?case
    by (simp add: split_item_text getType_sign item_ok_def map_add_upd_left [symmetric] del: fun_upd_apply)
qed simp

text \<open>
  Layout templates survive the round trip: parsing the template written from items, whose
  names contain neither comma nor bar, gives back exactly these items by their abbreviation, the
  last one of an abbreviation winning.
\<close>

theorem layout_roundtrip:
  assumes "items \<noteq> []" and "list_all item_ok items"
  shows "newLayout (template_of items) = Inr (map_of (rev (map (\<lambda>i. (li_abbreviation i, i)) items)))"
proof -
  have "split_char (CHR ''|'') (template_of items) = map item_text items"
    unfolding template_of_def using assms
    by (intro split_char_join) (auto simp: list_all_iff item_text_no_bar item_text_nonempty last_map)
  with assms add_elements_items [of items Map.empty] show ?thesis by (simp add: newLayout_def list_all_iff)
qed

definition sample_items :: "layout_item list" where
  "sample_items = [createLayoutItem ''i'' ''identity'' TYPE_NUMBER, createLayoutItem ''s'' ''state'' TYPE_STRING]"

theorem layout_roundtrip_witness:
  "\<exists>l. newLayout (template_of sample_items) = Inr l
     \<and> template_of sample_items = ''i,identity,%n|s,state,%s'' \<and> map_option li_fullName (getItem l ''s'') = Some ''state''"
  using layout_roundtrip [of sample_items]
  by (simp add: sample_items_def item_ok_def plain_name_def createLayoutItem_def TYPE_NUMBER_def TYPE_STRING_def
      getItem_def template_of_def item_text_def type_sign_def)

section \<open>The layout cache\<close>

text \<open>
  \<open>layoutMap\<close> is an association list; \<open>entrySet().iterator().next()\<close> is some entry of the
  \<open>HashMap\<close>, chosen by the parameter \<open>pick\<close>. A layout that does not parse is not stored.
\<close>

definition MAX_CAPACITY :: nat where "MAX_CAPACITY = 1000"

type_synonym layout_cache = "(string \<times> layout) list"

primrec evict :: "(layout_cache \<Rightarrow> string) \<Rightarrow> nat \<Rightarrow> layout_cache \<Rightarrow> layout_cache" where
  "evict pick 0 c = c"
| "evict pick (Suc n) c = evict pick n (AList.delete (pick c) c)"

definition getLayout ::
  "(layout_cache \<Rightarrow> string) \<Rightarrow> string option \<Rightarrow> layout_cache \<Rightarrow> layout option result \<times> layout_cache" where
  "getLayout pick template c =
     (case template of
        None \<Rightarrow> (Inr None, c)
      | Some t \<Rightarrow>
          if t = [] then (Inr None, c)
          else
            (case map_of c t of
               Some l \<Rightarrow> (Inr (Some l), c)
             | None \<Rightarrow>
                 (case newLayout t of
                    Inl e \<Rightarrow> (Inl e, c)
                  | Inr l \<Rightarrow>
                      (let c' = (if MAX_CAPACITY \<le> length c then evict pick (length c - MAX_CAPACITY) c else c)
                       in (Inr (Some l), AList.update t l c')))))"

text \<open>\<open>pick\<close> answers an entry of a map that is not empty.\<close>

definition picks_entry :: "(layout_cache \<Rightarrow> string) \<Rightarrow> bool" where
  "picks_entry pick \<longleftrightarrow> (\<forall>c. c \<noteq> [] \<longrightarrow> pick c \<in> fst ` set c)"

definition load_layout :: "string \<Rightarrow> layout option" where
  "load_layout t = (if t = [] then None else (case newLayout t of Inr l \<Rightarrow> Some l | Inl _ \<Rightarrow> None))"

definition cached_layout :: "layout_cache \<Rightarrow> string \<Rightarrow> layout option" where
  "cached_layout c t = (if t = [] then None else map_of c t)"

definition fetch_layout ::
  "(layout_cache \<Rightarrow> string) \<Rightarrow> string \<Rightarrow> layout_cache \<Rightarrow> layout option \<times> layout_cache" where
  "fetch_layout pick t c =
     (case getLayout pick (Some t) c of (Inr r, c') \<Rightarrow> (r, c') | (Inl e, c') \<Rightarrow> (None, c'))"

lemma map_of_evict: "map_of (evict pick n c) k = Some v \<Longrightarrow> map_of c k = Some v"
proof (induction n arbitrary: c)
  case (Suc n)
  from Suc.IH [of "AList.delete (pick c) c"] Suc.prems show ?case by (simp add: AList.delete_conv' split: if_splits)
qed simp

interpretation layouts:
  memo_cache cached_layout load_layout "fetch_layout pick" for pick
  by unfold_locales
    (auto simp: cached_layout_def load_layout_def fetch_layout_def getLayout_def Let_def update_conv'
      split: option.splits sum.splits if_splits dest: map_of_evict)

lemma getLayout_fetch:
  "getLayout pick (Some t) c = (r, c') \<Longrightarrow> fetch_layout pick t c = ((case r of Inr l \<Rightarrow> l | Inl e \<Rightarrow> None), c')"
  by (simp add: fetch_layout_def split: sum.splits)

lemma getLayout_error: "fst (getLayout pick (Some t) c) = Inl e \<Longrightarrow> newLayout t = Inl e \<and> t \<noteq> []"
  by (auto simp: getLayout_def Let_def split: option.splits sum.splits if_splits)

subsection \<open>Size\<close>

definition cache_ok :: "layout_cache \<Rightarrow> bool" where
  "cache_ok c \<longleftrightarrow> distinct (map fst c) \<and> length c \<le> 1001
     \<and> list_all (\<lambda>(k, v). k \<noteq> [] \<and> newLayout k = Inr v) c"

lemma length_delete:
  assumes "distinct (map fst c)" and "k \<in> fst ` set c"
  shows "length (AList.delete k c) = length c - 1"
proof -
  have "length (AList.delete k c) = length (remove1 k (map fst c))"
    using assms(1) by (metis delete_keys distinct_remove1_removeAll length_map)
  then show ?thesis using assms(2) by (simp add: length_remove1)
qed

lemma set_evict: "set (evict pick n c) \<subseteq> set c"
proof (induction n arbitrary: c)
  case (Suc n)
  have "set (AList.delete (pick c) c) \<subseteq> set c" by (auto simp: AList.delete_eq)
  with Suc.IH [of "AList.delete (pick c) c"] show ?case by (simp add: subset_trans)
qed simp

lemma evict_length:
  assumes "picks_entry pick" and "distinct (map fst c)" and "n \<le> length c"
  shows "length (evict pick n c) = length c - n \<and> distinct (map fst (evict pick n c))"
  using assms(2,3)
proof (induction n arbitrary: c)
  case (Suc n)
  then have "c \<noteq> []" by auto
  then have "pick c \<in> fst ` set c" using assms(1) by (simp add: picks_entry_def)
  with Suc.prems have d: "length (AList.delete (pick c) c) = length c - 1" by (simp add: length_delete)
  with Suc.IH [of "AList.delete (pick c) c"] Suc.prems show ?case
    by (auto simp: distinct_delete)
qed simp

lemma length_update_new: "k \<notin> fst ` set c \<Longrightarrow> AList.update k v c = c @ [(k, v)]"
  by (induction c) auto

lemma getLayout_spec:
  assumes "picks_entry pick" and "cache_ok c"
  shows "fst (getLayout pick template c) =
      (case template of None \<Rightarrow> Inr None | Some t \<Rightarrow> if t = [] then Inr None else map_sum id Some (newLayout t))
    \<and> cache_ok (snd (getLayout pick template c))
    \<and> (length c = 1000 \<longrightarrow> cached_layout c (the template) = None \<longrightarrow> fst (getLayout pick template c) = Inr (Some l)
         \<longrightarrow> length (snd (getLayout pick template c)) = 1001)"
proof (cases "\<exists>t. template = Some t \<and> t \<noteq> []")
  case False
  with assms(2) show ?thesis by (auto simp: getLayout_def split: option.splits)
next
  case True
  then obtain t where t: "template = Some t" "t \<noteq> []" by blast
  show ?thesis
  proof (cases "map_of c t")
    case (Some v)
    then have "newLayout t = Inr v"
      using assms(2) map_of_SomeD [OF Some] by (auto simp: cache_ok_def list_all_iff)
    with t Some assms(2) show ?thesis by (simp add: getLayout_def cached_layout_def)
  next
    case None
    show ?thesis
    proof (cases "newLayout t")
      case (Inl e)
      with t None assms(2) show ?thesis by (simp add: getLayout_def)
    next
      case (Inr v)
      let ?c = "if MAX_CAPACITY \<le> length c then evict pick (length c - MAX_CAPACITY) c else c"
      have dist: "distinct (map fst c)" and le: "length c \<le> 1001" and kv: "list_all (\<lambda>(k, v). k \<noteq> [] \<and> newLayout k = Inr v) c"
        using assms(2) by (auto simp: cache_ok_def)
      have c: "length ?c \<le> 1000" "distinct (map fst ?c)" "set ?c \<subseteq> set c" "length c = 1000 \<Longrightarrow> length ?c = 1000"
        using evict_length [OF assms(1) dist, of "length c - MAX_CAPACITY"] set_evict [of pick "length c - MAX_CAPACITY" c] dist
        by (auto simp: MAX_CAPACITY_def)
      have "t \<notin> fst ` set ?c" using None c(3) by (auto simp: map_of_eq_None_iff)
      then have u: "AList.update t v ?c = ?c @ [(t, v)]" and "distinct (map fst (?c @ [(t, v)]))"
        using c(2) by (auto simp: length_update_new)
      with c kv t Inr have "cache_ok (AList.update t v ?c)" by (auto simp: cache_ok_def list_all_iff)
      moreover have "getLayout pick template c = (Inr (Some v), AList.update t v ?c)"
        using t None Inr by (simp add: getLayout_def Let_def)
      ultimately show ?thesis using t Inr u c(4) by (simp del: if_split_asm split del: if_split)
    qed
  qed
qed

text \<open>
  Claim C33. The layout cache is transparent and bounded: starting from any state it can be in,
  \<open>getLayout\<close> answers what parsing the template answers, errors included, and leaves the cache in
  such a state, with at most 1001 entries. The bound is one above \<open>MAX_CAPACITY\<close>, and it is
  reached: a full cache of 1000 entries evicts nothing before it stores one more.
\<close>

theorem getLayout_correct:
  assumes "picks_entry pick" and "cache_ok c"
  shows "fst (getLayout pick template c) =
      (case template of None \<Rightarrow> Inr None | Some t \<Rightarrow> if t = [] then Inr None else map_sum id Some (newLayout t))
    \<and> cache_ok (snd (getLayout pick template c))
    \<and> (length c = 1000 \<longrightarrow> cached_layout c (the template) = None \<longrightarrow> fst (getLayout pick template c) = Inr (Some l)
         \<longrightarrow> length (snd (getLayout pick template c)) = 1001)"
  using getLayout_spec [OF assms] .

definition pick_first :: "layout_cache \<Rightarrow> string" where
  "pick_first c = fst (hd c)"

theorem getLayout_correct_witness:
  "picks_entry pick_first \<and> cache_ok []
   \<and> (\<exists>l. fst (getLayout pick_first (Some ''i,identity,%n'') []) = Inr (Some l) \<and> l ''i'' \<noteq> None)"
proof -
  have 1: "picks_entry pick_first" by (auto simp: picks_entry_def pick_first_def)
  have 2: "cache_ok []" by (simp add: cache_ok_def)
  have "\<exists>l. newLayout ''i,identity,%n'' = Inr l \<and> l ''i'' \<noteq> None"
    by (simp add: newLayout_def split_char_def drop_trailing_empty_def getType_def
        equals_ignore_case_def to_lower_case_def lower_char_def is_upper_latin1_def)
  with 1 2 getLayout_correct [OF 1 2, of "Some ''i,identity,%n''"] show ?thesis by auto
qed

end
