(* ===== verification/Graylog_Service.thy ===== *)
theory Graylog_Service
  imports Gelf_Transport Layouts
begin

text \<open>
  \<open>parse/GraylogClientService.java\<close>: from a stored or parsed \<open>LogMessage\<close> to the GELF message given
  to the transport, and the listener through which the transport reports back. Double arithmetic and
  \<open>Double.parseDouble\<close> are the parameters \<open>seconds_of\<close> and \<open>parse_double\<close>; saving to MongoDB is an
  effect.
\<close>

section \<open>Numbers in columns\<close>

record numbers =
  parse_double :: "string \<Rightarrow> double option"
  seconds_of :: "jlong \<Rightarrow> double"

definition parse_number :: "numbers \<Rightarrow> string \<Rightarrow> gelf_value option" where
  "parse_number num s =
     (case parse_int s of
        Some i \<Rightarrow> Some (VInt (word_of_int i))
      | None \<Rightarrow>
          (case parse_long s of
             Some l \<Rightarrow> Some (VLong (word_of_int l))
           | None \<Rightarrow> map_option VDouble (parse_double num s)))"

lemma parse_number_int:
  assumes "- (2 ^ 31) \<le> v" and "v < 2 ^ 31"
  shows "parse_number num (show_int v) = Some (VInt (word_of_int v))"
  using assms by (simp add: parse_number_def parse_ranged_show_int)

lemma parse_number_long:
  assumes "- (2 ^ 63) \<le> v" and "v < 2 ^ 63" and "v < - (2 ^ 31) \<or> 2 ^ 31 \<le> v"
  shows "parse_number num (show_int v) = Some (VLong (word_of_int v))"
proof -
  have "parse_int (show_int v) = None" using assms(3) by (auto simp: parse_ranged_def parse_signed_show_int)
  then show ?thesis using assms by (simp add: parse_number_def parse_ranged_show_int)
qed

section \<open>Creating the message\<close>

text \<open>
  One column of the message text: its number, the text, the layout. The result is the field to add,
  if any, or \<open>None\<close> for a column that is not the number its layout says.
\<close>

definition column_field ::
  "numbers \<Rightarrow> layout option \<Rightarrow> nat \<Rightarrow> string \<Rightarrow> (string \<times> gelf_value) option option" where
  "column_field num layout index col =
     (let plain = Some (Some (''_col'' @ show_nat index, VString col)) in
      case (layout, split_limit2 (CHR '':'') col) of
        (Some l, [abbr, v]) \<Rightarrow>
          (case getItem l abbr of
             None \<Rightarrow> plain
           | Some item \<Rightarrow>
               (let key = ''_col_'' @ li_fullName item in
                if li_type item = TYPE_NUMBER
                then (case parse_number num v of Some n \<Rightarrow> Some (Some (key, n)) | None \<Rightarrow> None)
                else if li_type item = TYPE_STRING then Some (Some (key, VString v))
                else Some None))
      | _ \<Rightarrow> plain)"

fun add_columns ::
  "numbers \<Rightarrow> layout option \<Rightarrow> nat \<Rightarrow> string list \<Rightarrow> gmsg \<Rightarrow> bool \<Rightarrow> gmsg \<times> bool" where
  "add_columns num layout index [] m err = (m, err)"
| "add_columns num layout index (c # cs) m err =
     (case column_field num layout index c of
        None \<Rightarrow> add_columns num layout (index + 1) cs m True
      | Some None \<Rightarrow> add_columns num layout (index + 1) cs m err
      | Some (Some (k, v)) \<Rightarrow> add_columns num layout (index + 1) cs (addAdditionalField (Some k) v m) err)"

definition opt_string :: "string option \<Rightarrow> gelf_value" where
  "opt_string s = (case s of None \<Rightarrow> VNull | Some t \<Rightarrow> VString t)"

definition message_builder :: "numbers \<Rightarrow> log_message \<Rightarrow> gelf_builder" where
  "message_builder num lm =
     (let b = (new_builder (lm_tag lm) (Some ''127.0.0.1'') (Some V1_1))
                \<lparr>b_level := Some LEVEL_INFO, b_message := lm_message lm,
                 b_timestamp := Some (seconds_of num (lm_timestamp lm))\<rparr>
      in additionalField (Some ''_log_timestamp'') (VLong (lm_timestamp lm))
        (additionalField (Some ''_log_name'') (opt_string (lm_loggerName lm))
        (additionalField (Some ''_log_level'') (VInt (lm_level lm))
        (additionalField (Some ''_app_id'') (opt_string (lm_appId lm))
        (additionalField (Some ''_uid'') (opt_string (lm_uid lm))
        (additionalField (Some ''_platform'') (opt_string (lm_platform lm))
        (additionalField (Some ''_tag'') (opt_string (lm_tag lm)) b)))))))"

definition add_if_given :: "string \<Rightarrow> string option \<Rightarrow> gmsg \<Rightarrow> gmsg" where
  "add_if_given key v m = (if is_empty_str v then m else addAdditionalField (Some key) (opt_string v) m)"

definition createMessage ::
  "numbers \<Rightarrow> (layout_cache \<Rightarrow> string) \<Rightarrow> double \<Rightarrow> log_message \<Rightarrow> layout_cache
   \<Rightarrow> gmsg option result \<times> layout_cache" where
  "createMessage num pick now lm cache =
     (case build now (message_builder num lm) of
        Inl e \<Rightarrow> (Inl e, cache)
      | Inr m0 \<Rightarrow>
          (let m1 = add_if_given ''_attachment'' (lm_attachment lm) m0;
               m2 = add_if_given ''_alias'' (lm_alias lm) m1
           in case getLayout pick (lm_msgLayout lm) cache of
                (Inl e, cache') \<Rightarrow> (Inl e, cache')
              | (Inr layout, cache') \<Rightarrow>
                  (let columns = split_char (CHR ''|'') (the (lm_message lm));
                       (m, formatError) = add_columns num layout 1 columns m2 False
                   in (Inr (if formatError then None else Some m), cache'))))"

section \<open>Sending\<close>

datatype effect = Enqueue gmsg | SaveLog "log_message option"

text \<open>
  \<open>write(LogMessage)\<close>: \<open>connected\<close> is the flag; \<open>interrupted\<close> tells whether \<open>queue.put\<close> is interrupted. An exception
  of \<open>createMessage\<close> reaches the caller.
\<close>

definition write_log ::
  "numbers \<Rightarrow> (layout_cache \<Rightarrow> string) \<Rightarrow> double \<Rightarrow> bool \<Rightarrow> bool \<Rightarrow> log_message \<Rightarrow> layout_cache
   \<Rightarrow> effect list result \<times> layout_cache" where
  "write_log num pick now conn interrupted lm cache =
     (if conn
      then (case createMessage num pick now lm cache of
              (Inl e, cache') \<Rightarrow> (Inl e, cache')
            | (Inr None, cache') \<Rightarrow> (Inr [], cache')
            | (Inr (Some m), cache') \<Rightarrow>
                (Inr (if interrupted then [SaveLog (Some lm)] else [Enqueue m]), cache'))
      else (Inr [SaveLog (Some lm)], cache))"

text \<open>The listener's callbacks; \<open>save_ok\<close> tells whether \<open>MongoOperations.save\<close> returns.\<close>

definition on_retrySuccessful :: "log_message \<Rightarrow> effect list" where
  "on_retrySuccessful lm =
     (if has_id (lm_id lm) then [SaveLog (Some (lm\<lparr>lm_status := STATE_SUCCESSFUL\<rparr>))] else [])"

definition on_failed :: "log_message option \<Rightarrow> effect list" where
  "on_failed lm = [SaveLog lm]"

definition effect_ok :: "(log_message option \<Rightarrow> bool) \<Rightarrow> effect \<Rightarrow> bool" where
  "effect_ok save_ok e = (case e of SaveLog lm \<Rightarrow> save_ok lm | Enqueue m \<Rightarrow> True)"

definition service_listener :: "(log_message option \<Rightarrow> bool) \<Rightarrow> sender_listener" where
  "service_listener save_ok =
     \<lparr>retry_returns = (\<lambda>lm. list_all (effect_ok save_ok) (on_retrySuccessful lm)),
      failed_returns = (\<lambda>lm. list_all (effect_ok save_ok) (on_failed lm))\<rparr>"

text \<open>The connection check of \<open>create\<close> and the configuration it makes.\<close>

definition graylog_config :: "string option \<Rightarrow> jint \<Rightarrow> jint \<Rightarrow> jint \<Rightarrow> jint \<Rightarrow> jint \<Rightarrow> gelf_config result" where
  "graylog_config host port capacity connectTimeout reconnectDelay sendBufferSize =
     (if is_empty_str host then Inl (IllegalArgumentException ''Graylog host can not be null!'')
      else if sint port \<le> 0 \<or> 65536 \<le> sint port then Inl (IllegalArgumentException ''Graylog port Not valid!'')
      else bind_result (newGelfConfiguration host port) (\<lambda>c.
        Inr (c\<lparr>conf_transport := TCP, conf_queueSize := capacity, conf_connectTimeout := connectTimeout,
               conf_reconnectDelay := reconnectDelay, conf_tcpNoDelay := True,
               conf_sendBufferSize := sendBufferSize\<rparr>)))"

section \<open>What the fields are\<close>

definition column_results :: "numbers \<Rightarrow> layout option \<Rightarrow> string list \<Rightarrow> (string \<times> gelf_value) option option list" where
  "column_results num layout cols =
     map (\<lambda>(i, c). column_field num layout i c) (enumerate 1 cols)"

definition fields_of :: "(string \<times> gelf_value) option option list \<Rightarrow> (string option \<times> gelf_value) list" where
  "fields_of rs = map (\<lambda>(k, v). (Some k, v)) (List.map_filter (\<lambda>r. case r of Some f \<Rightarrow> f | None \<Rightarrow> None) rs)"

lemma addAdditionalField_fields [simp]:
  "g_fields (addAdditionalField (Some k) v m) = (g_fields m)(Some k \<mapsto> v)"
  "g_logMessage (addAdditionalField (Some k) v m) = g_logMessage m"
  "addAdditionalField (Some k) v m = m\<lparr>g_fields := (g_fields m)(Some k \<mapsto> v)\<rparr>"
  by (simp_all add: addAdditionalField_def)

lemma add_columns_results:
  "add_columns num layout i cols m err =
     (m\<lparr>g_fields := g_fields m ++ map_of (rev (fields_of (map (\<lambda>(i, c). column_field num layout i c) (enumerate i cols))))\<rparr>,
      err \<or> None \<in> set (map (\<lambda>(i, c). column_field num layout i c) (enumerate i cols)))"
proof (induction cols arbitrary: i m err)
  case Nil
  then show ?case by (simp add: fields_of_def map_filter_simps)
next
  case (Cons c cols)
  then show ?case
    by (cases "column_field num layout i c" rule: option.exhaust)
      (auto simp: fields_of_def map_filter_simps map_add_upd_left split: option.splits simp del: fun_upd_apply)
qed

definition base_fields :: "numbers \<Rightarrow> log_message \<Rightarrow> field_map" where
  "base_fields num lm = [Some ''_tag'' \<mapsto> opt_string (lm_tag lm), Some ''_platform'' \<mapsto> opt_string (lm_platform lm),
     Some ''_uid'' \<mapsto> opt_string (lm_uid lm), Some ''_app_id'' \<mapsto> opt_string (lm_appId lm),
     Some ''_log_level'' \<mapsto> VInt (lm_level lm), Some ''_log_name'' \<mapsto> opt_string (lm_loggerName lm),
     Some ''_log_timestamp'' \<mapsto> VLong (lm_timestamp lm)]
     ++ (if is_empty_str (lm_attachment lm) then Map.empty else [Some ''_attachment'' \<mapsto> opt_string (lm_attachment lm)])
     ++ (if is_empty_str (lm_alias lm) then Map.empty else [Some ''_alias'' \<mapsto> opt_string (lm_alias lm)])"

definition expected_message :: "numbers \<Rightarrow> layout option \<Rightarrow> log_message \<Rightarrow> string \<Rightarrow> gmsg" where
  "expected_message num layout lm msg =
     \<lparr>g_version = V1_1, g_host = ''127.0.0.1'', g_message = msg, g_fullMessage = None, g_logMessage = None,
      g_timestamp = seconds_of num (lm_timestamp lm), g_level = Some LEVEL_INFO,
      g_fields = base_fields num lm
        ++ map_of (rev (fields_of (column_results num layout (split_char (CHR ''|'') msg))))\<rparr>"

lemma trim_local: "trim ''127.0.0.1'' \<noteq> []"
  by (simp add: trim_def)

lemma build_message:
  "build now (message_builder num lm) =
     (case lm_message lm of
        None \<Rightarrow> Inl (IllegalArgumentException ''message must not be null!'')
      | Some msg \<Rightarrow> Inr (\<lparr>g_version = V1_1, g_host = ''127.0.0.1'', g_message = msg, g_fullMessage = None,
          g_logMessage = None, g_timestamp = seconds_of num (lm_timestamp lm), g_level = Some LEVEL_INFO,
          g_fields = b_fields (message_builder num lm)\<rparr>))"
  by (simp add: build_def message_builder_def new_builder_def additionalField_def Let_def trim_local new_message_def
      addAdditionalFields_def split: option.splits)

lemma builder_fields:
  "g_fields (add_if_given ''_alias'' (lm_alias lm) (add_if_given ''_attachment'' (lm_attachment lm)
     (m\<lparr>g_fields := b_fields (message_builder num lm)\<rparr>))) = base_fields num lm"
  by (cases "is_empty_str (lm_alias lm)"; cases "is_empty_str (lm_attachment lm)")
    (simp_all add: add_if_given_def message_builder_def new_builder_def additionalField_def Let_def base_fields_def
      del: not_is_empty_str)

lemma add_if_given_fields: "add_if_given k v m = m\<lparr>g_fields := g_fields (add_if_given k v m)\<rparr>"
  by (simp add: add_if_given_def)

lemma createMessage_expected:
  "createMessage num pick now lm cache =
     (case lm_message lm of
        None \<Rightarrow> (Inl (IllegalArgumentException ''message must not be null!''), cache)
      | Some msg \<Rightarrow>
          (case getLayout pick (lm_msgLayout lm) cache of
             (Inl e, c') \<Rightarrow> (Inl e, c')
           | (Inr layout, c') \<Rightarrow>
               (Inr (if None \<in> set (column_results num layout (split_char (CHR ''|'') msg)) then None
                     else Some (expected_message num layout lm msg)), c')))"
proof (cases "lm_message lm")
  case None
  then show ?thesis by (simp add: createMessage_def build_message)
next
  case (Some msg)
  let ?m0 = "\<lparr>g_version = V1_1, g_host = ''127.0.0.1'', g_message = msg, g_fullMessage = None,
          g_logMessage = None, g_timestamp = seconds_of num (lm_timestamp lm), g_level = Some LEVEL_INFO,
          g_fields = b_fields (message_builder num lm)\<rparr> :: gmsg"
  have "add_if_given ''_alias'' (lm_alias lm) (add_if_given ''_attachment'' (lm_attachment lm) ?m0)
      = ?m0\<lparr>g_fields := base_fields num lm\<rparr>"
    by (cases "is_empty_str (lm_alias lm)"; cases "is_empty_str (lm_attachment lm)")
      (use builder_fields [of lm num ?m0] in \<open>simp_all add: add_if_given_def del: not_is_empty_str\<close>)
  then show ?thesis
    by (simp add: createMessage_def build_message Some Let_def add_columns_results column_results_def
        expected_message_def split: prod.splits sum.splits)
qed

lemma created_expected:
  "fst (createMessage num pick now lm cache) = Inr (Some m) \<Longrightarrow> \<exists>layout msg. m = expected_message num layout lm msg"
  by (auto simp: createMessage_expected split: option.splits prod.splits sum.splits if_splits)

definition layout_of :: "string option \<Rightarrow> layout option result" where
  "layout_of template =
     (case template of None \<Rightarrow> Inr None
      | Some t \<Rightarrow> if t = [] then Inr None else map_sum id Some (newLayout t))"

lemma createMessage_spec:
  assumes "picks_entry pick" and "cache_ok cache"
  shows "fst (createMessage num pick now lm cache) =
      (case lm_message lm of
         None \<Rightarrow> Inl (IllegalArgumentException ''message must not be null!'')
       | Some msg \<Rightarrow>
           bind_result (layout_of (lm_msgLayout lm)) (\<lambda>layout.
             Inr (if None \<in> set (column_results num layout (split_char (CHR ''|'') msg)) then None
                  else Some (expected_message num layout lm msg))))
    \<and> cache_ok (snd (createMessage num pick now lm cache))"
proof -
  obtain r c' where g: "getLayout pick (lm_msgLayout lm) cache = (r, c')" by fastforce
  with getLayout_spec [OF assms, of "lm_msgLayout lm"] have "r = layout_of (lm_msgLayout lm)" and "cache_ok c'"
    by (simp_all add: layout_of_def)
  with g assms(2) show ?thesis
    by (auto simp: createMessage_expected split: option.splits sum.splits)
qed

text \<open>
  Claim C10. What becomes of a log message, whatever the layout cache holds: without a text it is
  refused; with a layout template that does not parse the exception of the layout reaches the
  caller; if a column declared as a number is not one, there is no message at all; otherwise the
  message has the text, the level INFO, the time, the fixed fields, the attachment and alias if they
  are not empty, and one field for each column: the number or string under its full name from the
  layout, or the raw column under its position.
\<close>

theorem createMessage_correct:
  assumes "picks_entry pick" and "cache_ok cache"
  shows "fst (createMessage num pick now lm cache) =
      (case lm_message lm of
         None \<Rightarrow> Inl (IllegalArgumentException ''message must not be null!'')
       | Some msg \<Rightarrow>
           bind_result (layout_of (lm_msgLayout lm)) (\<lambda>layout.
             Inr (if None \<in> set (column_results num layout (split_char (CHR ''|'') msg)) then None
                  else Some (expected_message num layout lm msg))))
    \<and> cache_ok (snd (createMessage num pick now lm cache))"
  using createMessage_spec [OF assms] .

definition sample_numbers :: numbers where
  "sample_numbers = \<lparr>parse_double = (\<lambda>s. None), seconds_of = (\<lambda>t. t)\<rparr>"

definition sample_log :: log_message where
  "sample_log = createLogMessage 9 1 (Some ''u'') (Some ''a'') (Some ''app'') (Some ''i,identity,%n'') 3 7
     (Some ''tag'') (Some ''i:42|plain'') None None"

lemma sample_layout: "newLayout ''i,identity,%n'' = Inr [''i'' \<mapsto> createLayoutItem ''i'' ''identity'' TYPE_NUMBER]"
  by (simp add: newLayout_def split_char_def drop_trailing_empty_def getType_def
      equals_ignore_case_def to_lower_case_def lower_char_def is_upper_latin1_def)

lemma digit_two: "digit_char 2 = CHR ''2''"
  by code_simp

lemma sample_columns:
  "column_results sample_numbers (Some [''i'' \<mapsto> createLayoutItem ''i'' ''identity'' TYPE_NUMBER])
     (split_char (CHR ''|'') ''i:42|plain'')
   = [Some (Some (''_col_identity'', VInt 42)), Some (Some (''_col2'', VString ''plain''))]"
  by (simp add: column_results_def column_field_def split_char_def drop_trailing_empty_def split_limit2_def
      getItem_def createLayoutItem_def TYPE_NUMBER_def parse_number_def parse_ranged_def parse_signed_def
      unsigned_val_def digit_val_def show_nat.simps digit_two [unfolded numeral_2_eq_2] digit_two)

lemma sample_cache: "picks_entry pick_first" "cache_ok []"
  by (auto simp: picks_entry_def pick_first_def cache_ok_def)

lemma sample_created:
  "fst (createMessage sample_numbers pick_first 0 sample_log []) = Inr (Some (expected_message sample_numbers
     (Some [''i'' \<mapsto> createLayoutItem ''i'' ''identity'' TYPE_NUMBER]) sample_log ''i:42|plain''))"
  by (simp add: createMessage_expected sample_log_def createLogMessage_def getLayout_def Let_def sample_layout
      sample_columns)

theorem createMessage_correct_witness:
  "\<exists>m. fst (createMessage sample_numbers pick_first 0 sample_log []) = Inr (Some m)
     \<and> g_message m = ''i:42|plain'' \<and> g_fields m (Some ''_col_identity'') = Some (VInt 42)
     \<and> g_fields m (Some ''_col2'') = Some (VString ''plain'')"
  using createMessage_correct [OF sample_cache, of sample_numbers 0 sample_log]
  by (simp add: sample_log_def createLogMessage_def layout_of_def sample_layout sample_columns
      expected_message_def fields_of_def map_filter_simps)

section \<open>Every created message can be encoded\<close>

lemma fields_of_keys: "(k, v) \<in> set (fields_of (column_results num layout cols)) \<Longrightarrow> \<exists>s. k = Some (CHR ''_'' # s)"
  by (auto simp: fields_of_def column_results_def column_field_def Let_def in_set_enumerate_eq List.map_filter_def
      split: option.splits list.splits if_splits)

definition underscored :: "field_map \<Rightarrow> bool" where
  "underscored m \<longleftrightarrow> (\<forall>k \<in> dom m. \<exists>s. k = Some (CHR ''_'' # s))"

lemma underscored_simps [simp]:
  "underscored Map.empty" "underscored m \<Longrightarrow> underscored (m(Some (CHR ''_'' # s) \<mapsto> v))"
  "underscored m \<Longrightarrow> underscored n \<Longrightarrow> underscored (m ++ n)"
  by (auto simp: underscored_def)

lemma underscored_base: "underscored (base_fields num lm)"
  by (simp add: base_fields_def del: not_is_empty_str fun_upd_apply)

lemma underscored_columns: "underscored (map_of (rev (fields_of (column_results num layout cols))))"
  using fields_of_keys by (fastforce simp: underscored_def dest: map_of_SomeD)

lemma underscored_expected: "underscored (g_fields (expected_message num layout lm msg))"
  by (simp add: expected_message_def underscored_base underscored_columns)

lemma underscored_key: "underscored m \<Longrightarrow> k \<in> dom m \<Longrightarrow> real_key (the k) = the k \<and> k \<noteq> None"
  unfolding underscored_def by (drule (1) bspec) (auto simp: real_key_def starts_with_underscore_def)

lemma underscored_keys_ok:
  assumes "underscored m"
  shows "keys_ok m"
  unfolding keys_ok_def
proof
  show "None \<notin> dom m" using underscored_key [OF assms] by blast
  show "inj_on (\<lambda>k. real_key (the k)) (dom m)"
    using underscored_key [OF assms] by (intro inj_onI) (metis option.expand)
qed

text \<open>
  Every message the service creates can be encoded: its field names are never null and
  all start with an underscore already, so the JSON object has no duplicate member, and its members are
  the fixed GELF members and exactly the fields of the message.
\<close>

theorem created_message_encodes:
  assumes "fst (createMessage num pick now lm cache) = Inr (Some m)" and "iterates iter (g_fields m)"
  shows "\<exists>cs. json_calls iter m = Inr cs \<and> distinct (member_names cs)
    \<and> set (member_names cs) = {''version'', ''timestamp'', ''host'', ''short_message'', ''level''} \<union> the ` dom (g_fields m)"
proof -
  obtain layout msg where m: "m = expected_message num layout lm msg"
    using created_expected [OF assms(1)] by blast
  have u: "underscored (g_fields m)" using underscored_expected by (simp add: m)
  then have "(\<lambda>k. real_key (the k)) ` dom (g_fields m) = the ` dom (g_fields m)"
    by (intro image_cong refl) (simp add: underscored_key)
  moreover have "set (member_names (header_calls m)) = {''version'', ''timestamp'', ''host'', ''short_message'', ''level''}"
    by (auto simp: m expected_message_def header_calls_def member_names_def map_filter_simps)
  ultimately show ?thesis using json_members [OF assms(2) underscored_keys_ok [OF u]] by simp
qed

definition sample_keys :: "string option list" where
  "sample_keys = map Some [''_tag'', ''_platform'', ''_uid'', ''_app_id'', ''_log_level'', ''_log_name'',
     ''_log_timestamp'', ''_col_identity'', ''_col2'']"

theorem created_message_encodes_witness:
  "\<exists>m cs. fst (createMessage sample_numbers pick_first 0 sample_log []) = Inr (Some m)
     \<and> json_calls (entries_by sample_keys) m = Inr cs \<and> distinct (member_names cs)
     \<and> ''_col_identity'' \<in> set (member_names cs)"
proof -
  let ?l = "[''i'' \<mapsto> createLayoutItem ''i'' ''identity'' TYPE_NUMBER]"
  obtain m where m: "m = expected_message sample_numbers (Some ?l) sample_log ''i:42|plain''" by simp
  have c: "fst (createMessage sample_numbers pick_first 0 sample_log []) = Inr (Some m)"
    unfolding m by (rule sample_created)
  have es: "fields_of (column_results sample_numbers (Some ?l) (split_char (CHR ''|'') ''i:42|plain''))
      = [(Some ''_col_identity'', VInt 42), (Some ''_col2'', VString ''plain'')]"
    by (simp add: sample_columns fields_of_def map_filter_simps)
  have "dom (base_fields num sample_log) \<subseteq> set sample_keys" for num
    by (simp add: base_fields_def sample_log_def createLogMessage_def sample_keys_def)
  then have "dom (g_fields m) \<subseteq> set sample_keys"
    by (simp add: m expected_message_def es sample_keys_def)
  then have it: "iterates (entries_by sample_keys) (g_fields m)"
    by (intro entries_by_iterates) (simp_all add: sample_keys_def)
  have "Some ''_col_identity'' \<in> dom (g_fields m)"
    by (simp add: m expected_message_def es)
  then have key: "''_col_identity'' \<in> the ` dom (g_fields m)"
    by (rule rev_image_eqI) (rule option.sel [symmetric])
  from created_message_encodes [OF c it]
  obtain cs where cs: "json_calls (entries_by sample_keys) m = Inr cs" "distinct (member_names cs)"
    and set: "set (member_names cs) = {''version'', ''timestamp'', ''host'', ''short_message'', ''level''}
      \<union> the ` dom (g_fields m)" by (elim exE conjE)
  have "''_col_identity'' \<in> set (member_names cs)" unfolding set by (rule UnI2 [OF key])
  with c cs show ?thesis by (intro exI conjI)
qed

section \<open>What reaches the queue\<close>

text \<open>
  \<open>write\<close> never both saves and enqueues: disconnected it saves the message and does not
  touch the layout cache; connected it enqueues the created message, or saves it when the wait for
  room is interrupted, or raises; and it does nothing at all, neither saving nor sending, exactly when
  a column declared as a number is not one: such a message is lost.
\<close>

theorem write_log_outcomes:
  assumes "picks_entry pick" and "cache_ok cache"
  shows "write_log num pick now False interrupted lm cache = (Inr [SaveLog (Some lm)], cache)
    \<and> (fst (write_log num pick now True interrupted lm cache) = Inr [] \<longleftrightarrow>
         (\<exists>msg layout. lm_message lm = Some msg \<and> layout_of (lm_msgLayout lm) = Inr layout
            \<and> None \<in> set (column_results num layout (split_char (CHR ''|'') msg))))
    \<and> (\<forall>es. fst (write_log num pick now True interrupted lm cache) = Inr es \<longrightarrow> es \<noteq> [] \<longrightarrow>
         (\<exists>msg layout. lm_message lm = Some msg \<and> layout_of (lm_msgLayout lm) = Inr layout
            \<and> es = [if interrupted then SaveLog (Some lm) else Enqueue (expected_message num layout lm msg)]))"
proof -
  note createMessage_spec [OF assms, of num now lm]
  moreover obtain r c' where "createMessage num pick now lm cache = (r, c')" by fastforce
  ultimately show ?thesis
    by (cases "lm_message lm"; cases "layout_of (lm_msgLayout lm)") (auto simp: write_log_def split: option.splits)
qed

theorem write_log_outcomes_witness:
  "fst (write_log sample_numbers pick_first 0 True False (sample_log\<lparr>lm_message := Some ''i:x''\<rparr>) []) = Inr []"
proof -
  let ?l = "[''i'' \<mapsto> createLayoutItem ''i'' ''identity'' TYPE_NUMBER]"
  have "column_results sample_numbers (Some ?l) (split_char (CHR ''|'') ''i:x'') = [None]"
    by (simp add: column_results_def column_field_def split_char_def split_limit2_def sample_numbers_def
      getItem_def createLayoutItem_def TYPE_NUMBER_def parse_number_def parse_ranged_def parse_signed_def
      unsigned_val_def digit_val_def)
  moreover have "layout_of (lm_msgLayout (sample_log\<lparr>lm_message := Some ''i:x''\<rparr>)) = Inr (Some ?l)"
    by (simp add: layout_of_def sample_layout sample_log_def createLogMessage_def)
  ultimately show ?thesis
    using write_log_outcomes [OF sample_cache, of sample_numbers 0 False "sample_log\<lparr>lm_message := Some ''i:x''\<rparr>"]
    by auto
qed

section \<open>The listener never learns about a log message\<close>

text \<open>A transport that is given only messages of this service.\<close>

definition from_service :: "gmsg \<Rightarrow> bool" where
  "from_service m \<longleftrightarrow> (\<exists>num pick now lm cache. fst (createMessage num pick now lm cache) = Inr (Some m))"

lemma from_serviceI: "fst (createMessage num pick now lm cache) = Inr (Some m) \<Longrightarrow> from_service m"
  unfolding from_service_def by (intro exI)

lemma from_service_log: "from_service m \<Longrightarrow> g_logMessage m = None"
  by (auto simp: from_service_def expected_message_def dest!: created_expected)

definition retries :: "event list \<Rightarrow> log_message list" where
  "retries tr = concat (map (\<lambda>e. case e of RetrySuccessful lm \<Rightarrow> [lm] | _ \<Rightarrow> []) tr)"

lemma retries_simps [simp]: "retries [] = []" "retries (xs @ ys) = retries xs @ retries ys"
  by (simp_all add: retries_def)

lemma sender_step_retries:
  assumes "sender_step l (s, q) ev (s', q')" and "\<forall>m \<in> set (hand_list s). g_logMessage m = None"
  shows "retries ev = []"
  using assms by (cases rule: sender_stepE)
    (auto simp: retries_def write_events_def retried_log_def hand_list_def split: option.splits)

lemma messages_ok_hands:
  assumes "messages_ok t tr" and "\<forall>m \<in> set (accepted tr). g_logMessage m = None" and "m \<in> set (hands t)"
  shows "g_logMessage m = None"
proof -
  have "mset (polled tr) = mset (written tr) + mset (hands t)" using assms(1) by (simp add: messages_ok_def)
  from arg_cong [OF this, of set_mset] have "set (polled tr) = set (written tr) \<union> set (hands t)" by simp
  with assms show ?thesis by (auto simp: messages_ok_def)
qed

lemma tcp_step_retries:
  assumes "tcp_step li t ev t'" and "messages_ok t tr" and "\<forall>m \<in> set (accepted tr). g_logMessage m = None"
  shows "retries ev = []"
  using assms(1)
proof cases
  case (sender i s' q')
  from sender(2) have "\<forall>m \<in> set (hand_list (t_senders t ! i)). g_logMessage m = None"
    using messages_ok_hands [OF assms(2,3)] nth_mem by (fastforce simp: hands_def)
  with sender(4) show ?thesis by (rule sender_step_retries)
qed (auto simp: retries_def channelActive_def channelInactive_def split: if_splits)

text \<open>
  A transport fed by this service never confirms a retry and never names a failed message:
  the created messages do not carry their log message, so over every run \<open>retrySuccessful\<close> is never
  called, no stored message is ever marked successful, and every call of \<open>failed\<close> passes null.
\<close>

theorem retries_never_confirmed:
  assumes "newTcpTransport c = Inr t0" and "tcp_run li t0 tr t" and "list_all from_service (accepted tr)"
  shows "retries tr = [] \<and> list_all (\<lambda>m. on_failed (g_logMessage m) = [SaveLog None]) (failed tr)"
proof -
  have init: "channels_ok t0 \<and> queue_ok (t_queue t0) \<and> messages_ok t0 []"
    using newTcpTransport_ok(1) [OF assms(1)] .
  have none: "\<forall>m \<in> set (accepted tr). g_logMessage m = None"
    using assms(3) from_service_log by (auto simp: list_all_iff)
  have "retries tr = []"
    using assms(2) init none
  proof (induction rule: tcp_run.induct)
    case (run_more t0 tr t' ev t'')
    then show ?case
      using tcp_step_retries [of li t' ev t'' tr] tcp_run_ok [of li t0 tr t'] by auto
  qed simp
  moreover have ok: "messages_ok t tr" using tcp_run_ok [OF assms(2) init] by simp
  ultimately show ?thesis
    using messages_ok_hands [OF ok none] failed_hands [OF ok] by (auto simp: list_all_iff on_failed_def)
qed

theorem retries_never_confirmed_witness:
  "\<exists>m t. fst (createMessage sample_numbers pick_first 0 sample_log []) = Inr (Some m)
     \<and> tcp_run saving_listener sample_transport [Accepted m] t \<and> retries [Accepted m] = []"
proof -
  obtain m where m: "fst (createMessage sample_numbers pick_first 0 sample_log []) = Inr (Some m)"
    using sample_created by blast
  have r: "tcp_run saving_listener sample_transport [Accepted m] (snd (trySend m sample_transport))"
    using run_moves(1) [OF run_nil, of m sample_transport]
    by (simp add: trySend_def offer_def sample_transport_def)
  have "list_all from_service (accepted [Accepted m])" using from_serviceI [OF m] by simp
  from retries_never_confirmed [OF sample_transport_new r this] m r show ?thesis by blast
qed

definition lost_in_hand :: "sender \<Rightarrow> event list \<Rightarrow> bool" where
  "lost_in_hand s tr \<longleftrightarrow> s_pc s = Exited \<and> (\<exists>m. s_hand s = Some m \<and> failed tr = [m])"

lemma service_failed_raises:
  assumes "life (Some (service_listener save_ok)) c tr c'" and "queue_ok (snd c)"
    and "\<not> save_ok None" and "\<forall>m \<in> set (polled tr). g_logMessage m = None"
  shows "failed tr = [] \<or> lost_in_hand (fst c') tr"
  using assms
proof (induction rule: life.induct)
  case (life_more c tr c' ev c'')
  obtain s q s' q' where c: "c' = (s, q)" "c'' = (s', q')" by fastforce
  have hand: "g_logMessage m = None" if "s_hand s = Some m" for m
    using life_balance [OF life_more.hyps(1) life_more.prems(1)] life_more.prems(3) c that by (simp add: hand_list_def)
  have IH: "failed tr = [] \<or> lost_in_hand s tr" using life_more c by simp
  from life_more.hyps(2) show ?case
  proof cases
    case thread
    then have step: "sender_step (Some (service_listener save_ok)) (s, q) ev (s', q')" using c by simp
    then have "failed tr = []" using IH by (cases rule: sender_stepE) (auto simp: lost_in_hand_def)
    with step hand life_more.prems(2) show ?thesis
      by (cases rule: sender_stepE)
        (auto simp: c lost_in_hand_def service_listener_def on_failed_def effect_ok_def)
  qed (use IH c in \<open>auto simp: lost_in_hand_def\<close>)
qed simp

text \<open>
  Claim C20. With a database that refuses null, as MongoDB's template does, a message that a sender
  polled before its channel closed is lost: the report raises, which ends the sender at once with the
  message in hand, written by no one and saved by no one.
\<close>

theorem message_in_hand_lost:
  assumes "life (Some (service_listener save_ok)) (sender_start new_sender, q) tr (s, q')" and "queue_ok q"
    and "\<not> save_ok None" and "list_all from_service (polled tr)" and "failed tr \<noteq> []"
  shows "\<exists>m. failed tr = [m] \<and> s_pc s = Exited \<and> polled tr = written tr @ [m]
     \<and> \<not> list_all (effect_ok save_ok) (on_failed (g_logMessage m))"
proof -
  have "\<forall>m \<in> set (polled tr). g_logMessage m = None"
    using assms(4) from_service_log by (auto simp: list_all_iff)
  with service_failed_raises [OF assms(1) _ assms(3)] assms(2,5) have "lost_in_hand s tr" by simp
  then obtain m where "s_pc s = Exited" "s_hand s = Some m" "failed tr = [m]" by (auto simp: lost_in_hand_def)
  moreover have "polled tr = written tr @ [m]"
    using life_balance [OF assms(1)] assms(2) \<open>s_hand s = Some m\<close> by (simp add: hand_list_def)
  moreover from this have "g_logMessage m = None" using assms(4) from_service_log by simp
  ultimately show ?thesis using assms(3) by (simp add: on_failed_def effect_ok_def)
qed

theorem message_in_hand_lost_witness:
  "\<exists>m s q tr. life (Some (service_listener (\<lambda>lm. lm \<noteq> None))) (sender_start new_sender, \<lparr>q_items = [m], q_capacity = 4\<rparr>) tr (s, q)
     \<and> s_pc s = Exited \<and> failed tr = [m] \<and> written tr = []"
proof -
  obtain m where m: "fst (createMessage sample_numbers pick_first 0 sample_log []) = Inr (Some m)"
    using sample_created by blast
  then have fs: "from_service m" by (rule from_serviceI)
  let ?l = "service_listener (\<lambda>lm. lm \<noteq> None)" and ?q = "\<lparr>q_items = [] :: gmsg list, q_capacity = 4\<rparr>"
  let ?s = "\<lambda>ch p h. \<lparr>s_keepRunning = True, s_interrupted = False, s_channel = Some ch, s_pc = p, s_hand = h\<rparr>"
  let ?c0 = "(sender_start new_sender, \<lparr>q_items = [m], q_capacity = 4\<rparr>)"
  have "life (Some ?l) ?c0 [] (?s True LoopTest None, \<lparr>q_items = [m], q_capacity = 4\<rparr>)"
    using life_start [of "Some ?l" "\<lparr>q_items = [m], q_capacity = 4\<rparr>"] by (simp add: sender_start_def new_sender_def)
  from life_moves(1) [OF this] have "life (Some ?l) ?c0 [] (?s True AwaitTest None, \<lparr>q_items = [m], q_capacity = 4\<rparr>)" by simp
  from life_moves(3) [OF this] have "life (Some ?l) ?c0 [] (?s True Polling None, \<lparr>q_items = [m], q_capacity = 4\<rparr>)"
    by (simp add: channel_active_def)
  from life_moves(5) [OF this, of m ?q] have "life (Some ?l) ?c0 [Polled m] (?s True HandTest (Some m), ?q)"
    by (simp add: poll_def)
  from life_moves(8) [OF this] have "life (Some ?l) ?c0 [Polled m] (?s False HandTest (Some m), ?q)"
    by (simp add: channel_closes_def)
  from life_moves(7) [OF this, of m ?l]
  have life: "life (Some ?l) ?c0 [Polled m, Failed m] (?s False Exited (Some m), ?q)"
    using from_service_log [OF fs]
    by (simp add: channel_active_def service_listener_def on_failed_def effect_ok_def)
  have "queue_ok \<lparr>q_items = [m], q_capacity = 4\<rparr>" by (simp add: queue_ok_def)
  from message_in_hand_lost [OF life this] fs obtain m' where "failed [Polled m, Failed m] = [m']" by auto
  show ?thesis by (rule exI, rule exI, rule exI, rule exI, rule conjI, rule life) simp
qed

end
