(* ===== verification/Weed_Service.thy ===== *)
theory Weed_Service
  imports Weed_Writer Graylog_Service
begin

text \<open>
  \<open>weed/WeedFSClientService.java\<close>, the handler of \<open>weed/WeedFSReadThread.java\<close> and the tasks of
  \<open>schedule/ScheduledTasks.java\<close>: how the meta of an uploaded file waits for the answer of the
  server, and what is stored when it comes. JSON parsing and \<open>FilenameUtils.getBaseName\<close> are
  parameters; the effects are the saves, the deleted files and the messages sent to Graylog.
\<close>

section \<open>State and effects\<close>

record weed_service =
  ws_connected :: bool
  ws_serverError :: bool
  ws_writeQueue :: "weed_meta jqueue"
  ws_readQueue :: "weed_meta jqueue"
  ws_metaMap :: "string \<rightharpoonup> weed_meta"

datatype weed_effect =
    SaveQueue weed_meta
  | SaveLogMeta log_file_meta
  | SaveAttachMeta attach_file_meta
  | SaveCrashMeta crash_file_meta
  | SendGraylog log_message
  | DeleteFile string

definition resetServerError :: "weed_service \<Rightarrow> weed_service" where
  "resetServerError s = s\<lparr>ws_serverError := False\<rparr>"

definition writeQueueSize :: "weed_service \<Rightarrow> nat" where
  "writeQueueSize s = length (q_items (ws_writeQueue s))"

text \<open>
  \<open>write\<close>: \<open>None\<close> stands for waiting in \<open>put\<close> on a full queue. The map does not take a null key.
\<close>

definition weed_write ::
  "string \<Rightarrow> weed_meta \<Rightarrow> weed_service \<Rightarrow> (weed_effect list result \<times> weed_service) option" where
  "weed_write weedDir m s =
     (if ws_connected s
      then if \<not> ws_serverError s
           then (case offer m (ws_writeQueue s) of
                   (False, q) \<Rightarrow> None
                 | (True, q) \<Rightarrow>
                     (let s' = s\<lparr>ws_writeQueue := q\<rparr> in
                      case w_key m of
                        None \<Rightarrow> Some (Inl NullPointerException, s')
                      | Some k \<Rightarrow> Some (Inr [], s'\<lparr>ws_metaMap := (ws_metaMap s')(k \<mapsto> m)\<rparr>)))
           else Some (Inr [DeleteFile (weedDir @ ''/'' @ filename m)], s)
      else Some (Inr [SaveQueue m], s))"

text \<open>The channel: \<open>channelActive\<close>, \<open>channelInactive\<close>, and \<open>channelRead0\<close> for a full response.\<close>

definition weed_channelActive :: "weed_service \<Rightarrow> weed_service" where
  "weed_channelActive s = s\<lparr>ws_connected := True, ws_serverError := False\<rparr>"

definition weed_channelInactive :: "weed_service \<Rightarrow> weed_service" where
  "weed_channelInactive s = s\<lparr>ws_connected := False\<rparr>"

definition channelRead0 :: "jlong \<Rightarrow> nat \<Rightarrow> byte list \<Rightarrow> weed_service \<Rightarrow> weed_service option" where
  "channelRead0 now status content s =
     (if status = 201
      then (let s' = s\<lparr>ws_serverError := False\<rparr> in
            if content = [] then Some s'
            else (case offer (createWeedResponse now content) (ws_readQueue s') of
                    (False, q) \<Rightarrow> None
                  | (True, q) \<Rightarrow> Some (s'\<lparr>ws_readQueue := q\<rparr>)))
      else if status = 500 then Some (s\<lparr>ws_serverError := True\<rparr>)
      else Some s)"

section \<open>Handling a response\<close>

record upload_answer =
  ua_fid :: string
  ua_fileName :: string
  ua_size :: jlong

text \<open>
  \<open>json\<close> parses the response: an exception, an object without all four members (\<open>None\<close>), or the
  members. \<open>baseName\<close> is \<open>FilenameUtils.getBaseName\<close>. An exception on the way, which the code ignores,
  ends the handling: what was done before stays done. \<open>save\<close> leaves the id the database gave, \<open>re_newId\<close>, in
  an object that had none, and the announcement of a crash names it.
\<close>

record read_env =
  re_json :: "byte list \<Rightarrow> upload_answer option result"
  re_baseName :: "string \<Rightarrow> string"
  re_dirPath :: string
  re_now :: jlong
  re_newId :: string

definition saved_crash :: "string \<Rightarrow> crash_file_meta \<Rightarrow> crash_file_meta" where
  "saved_crash newId c = (if cf_id c = None then c\<lparr>cf_id := Some newId\<rparr> else c)"

lemma saved_crash_simps [simp]:
  "cf_date (saved_crash newId c) = cf_date c" "cf_platform (saved_crash newId c) = cf_platform c"
  "cf_uid (saved_crash newId c) = cf_uid c" "cf_appId (saved_crash newId c) = cf_appId c"
  "cf_alias (saved_crash newId c) = cf_alias c" "cf_id (saved_crash newId c) \<noteq> None"
  by (simp_all add: saved_crash_def)

definition store_meta ::
  "jlong \<Rightarrow> string \<Rightarrow> upload_answer \<Rightarrow> weed_meta \<Rightarrow> weed_effect list \<times> bool" where
  "store_meta now newId a m =
     (if w_type m = TYPE_LOG
      then (case w_log m of
              Some l \<Rightarrow> ([SaveLogMeta (l\<lparr>lf_fid := Some (ua_fid a), lf_size := ua_size a\<rparr>)], True)
            | None \<Rightarrow> ([], True))
      else if w_type m = TYPE_ATTACHMENT
      then (case w_attach m of
              Some t \<Rightarrow> ([SaveAttachMeta (t\<lparr>af_fid := Some (ua_fid a), af_size := ua_size a\<rparr>)], True)
            | None \<Rightarrow> ([], True))
      else if w_type m = TYPE_CRASH
      then (case w_crash m of
              Some c \<Rightarrow>
                (let c' = c\<lparr>cf_fid := Some (ua_fid a), cf_size := ua_size a\<rparr> in
                 case createCrashMessage now (saved_crash newId c') of
                   Inl e \<Rightarrow> ([SaveCrashMeta c'], False)
                 | Inr lm \<Rightarrow> ([SaveCrashMeta c', SendGraylog lm], True))
            | None \<Rightarrow> ([], True))
      else ([], True))"

definition handle_response ::
  "read_env \<Rightarrow> weed_meta \<Rightarrow> (string \<rightharpoonup> weed_meta) \<Rightarrow> weed_effect list \<times> (string \<rightharpoonup> weed_meta)" where
  "handle_response e r metas =
     (case w_response r of
        None \<Rightarrow> ([], metas)
      | Some [] \<Rightarrow> ([], metas)
      | Some bytes \<Rightarrow>
          (case re_json e bytes of
             Inl ex \<Rightarrow> ([], metas)
           | Inr None \<Rightarrow> ([], metas)
           | Inr (Some a) \<Rightarrow>
               (let key = re_baseName e (ua_fileName a);
                    (stored, ok, metas') =
                      (case metas key of
                         None \<Rightarrow> ([], True, metas)
                       | Some m \<Rightarrow>
                           (case store_meta (re_now e) (re_newId e) a m of
                              (es, True) \<Rightarrow> (es, True, metas(key := None))
                            | (es, False) \<Rightarrow> (es, False, metas)));
                    marked = (if has_id (w_id r) then [SaveQueue (r\<lparr>w_status := WEED_SUCCESSFUL\<rparr>)] else []);
                    deleted = [DeleteFile (re_dirPath e @ ''/'' @ ua_fileName a)]
                in (stored @ (if ok then marked @ deleted else []), metas'))))"

text \<open>
  One iteration of the read thread, which holds a response until it can handle it.
\<close>

definition read_step ::
  "read_env \<Rightarrow> weed_meta option \<Rightarrow> weed_service \<Rightarrow> weed_effect list \<times> weed_meta option \<times> weed_service" where
  "read_step e held s =
     (let (r, q) = (case held of Some m \<Rightarrow> (Some m, ws_readQueue s) | None \<Rightarrow> poll (ws_readQueue s));
          s' = s\<lparr>ws_readQueue := q\<rparr>
      in case r of
           None \<Rightarrow> ([], None, s')
         | Some m \<Rightarrow>
             if re_dirPath e = [] then ([], Some m, s')
             else (let (es, metas) = handle_response e m (ws_metaMap s') in
                   (es, None, s'\<lparr>ws_metaMap := metas\<rparr>)))"

section \<open>Scheduled tasks\<close>

text \<open>\<open>retryPutQueue\<close> for the stored metas: each is written again while the service is connected.\<close>

fun retry_metas ::
  "string \<Rightarrow> weed_meta list \<Rightarrow> weed_service \<Rightarrow> ((weed_effect list \<times> exn option) \<times> weed_service) option" where
  "retry_metas weedDir [] s = Some (([], None), s)"
| "retry_metas weedDir (m # ms) s =
     (case weed_write weedDir m s of
        None \<Rightarrow> None
      | Some (Inl ex, s') \<Rightarrow> Some (([], Some ex), s')
      | Some (Inr es, s') \<Rightarrow>
          (case retry_metas weedDir ms s' of
             None \<Rightarrow> None
           | Some ((es', x), s'') \<Rightarrow> Some ((es @ es', x), s'')))"

definition retryPutQueue_weed ::
  "string \<Rightarrow> weed_meta list \<Rightarrow> weed_service \<Rightarrow> ((weed_effect list \<times> exn option) \<times> weed_service) option" where
  "retryPutQueue_weed weedDir found s =
     (let s' = resetServerError s in
      if ws_connected s' then retry_metas weedDir found s' else Some (([], None), s'))"

text \<open>
  ... and for the stored log messages, each with the flag at the moment it is sent. An exception ends
  the task; what was sent before it stays sent.
\<close>

fun retry_logs ::
  "numbers \<Rightarrow> (layout_cache \<Rightarrow> string) \<Rightarrow> double \<Rightarrow> (log_message \<times> bool) list \<Rightarrow> layout_cache
   \<Rightarrow> (effect list \<times> exn option) \<times> layout_cache" where
  "retry_logs num pick now [] cache = (([], None), cache)"
| "retry_logs num pick now ((lm, conn) # lms) cache =
     (case write_log num pick now conn False lm cache of
        (Inl e, c) \<Rightarrow> (([], Some e), c)
      | (Inr es, c) \<Rightarrow> (case retry_logs num pick now lms c of ((es', x), c') \<Rightarrow> ((es @ es', x), c')))"

text \<open>\<open>clearMemory\<close> forgets the metas whose file is gone; \<open>exists\<close> is \<open>File.exists\<close>.\<close>

definition clearMemory :: "(string \<Rightarrow> bool) \<Rightarrow> string \<Rightarrow> (string \<rightharpoonup> weed_meta) \<Rightarrow> (string \<rightharpoonup> weed_meta)" where
  "clearMemory exists weedPath metas =
     (\<lambda>k. case metas k of
            None \<Rightarrow> None
          | Some m \<Rightarrow> if exists (weedPath @ ''/'' @ k @ ''.'' @ str_of (w_extension m)) then Some m else None)"

text \<open>\<open>clearFiles\<close>: what the visitor does with one file, and whether the walk goes on.\<close>

definition MAX_EXEC_MILLISECOND :: jlong where "MAX_EXEC_MILLISECOND = 3600000"

definition walk_continues :: "jlong \<Rightarrow> jlong \<Rightarrow> bool" where
  "walk_continues start current \<longleftrightarrow> \<not> (MAX_EXEC_MILLISECOND \<le>s current - start)"

definition visit_deletes :: "jlong \<Rightarrow> jlong \<Rightarrow> bool \<Rightarrow> bool \<Rightarrow> jlong \<Rightarrow> bool" where
  "visit_deletes ttl current regular hidden created \<longleftrightarrow> regular \<and> \<not> hidden \<and> ttl \<le>s current - created"

section \<open>From the upload to the stored meta\<close>

datatype file_kind = LogFile log_file_meta | Attachment attach_file_meta | CrashFile crash_file_meta

fun weed_of :: "jlong \<Rightarrow> string \<Rightarrow> string \<Rightarrow> file_kind \<Rightarrow> weed_meta" where
  "weed_of now k ext (LogFile l) = createWeedLog now (Some k) (Some ext) l"
| "weed_of now k ext (Attachment t) = createWeedAttach now (Some k) (Some ext) t"
| "weed_of now k ext (CrashFile c) = createWeedCrash now (Some k) (Some ext) c"

text \<open>What is to be stored for a file once the server has given it a file id.\<close>

fun expected_effects :: "jlong \<Rightarrow> string \<Rightarrow> string \<Rightarrow> jlong \<Rightarrow> file_kind \<Rightarrow> weed_effect list" where
  "expected_effects now newId fid sz (LogFile l) = [SaveLogMeta (l\<lparr>lf_fid := Some fid, lf_size := sz\<rparr>)]"
| "expected_effects now newId fid sz (Attachment t) = [SaveAttachMeta (t\<lparr>af_fid := Some fid, af_size := sz\<rparr>)]"
| "expected_effects now newId fid sz (CrashFile c) =
     [SaveCrashMeta (c\<lparr>cf_fid := Some fid, cf_size := sz\<rparr>)]
     @ (case cf_date c of
          None \<Rightarrow> []
        | Some d \<Rightarrow> [SendGraylog (createLogMessage now (scast (cf_platform c)) (cf_uid c) (cf_appId c) (Some ''crash'')
                        None FATAL d (Some ''CRASH_FILE_ID'') (cf_id (saved_crash newId c)) (cf_alias c) None)])"

fun dated :: "file_kind \<Rightarrow> bool" where
  "dated (CrashFile c) = (cf_date c \<noteq> None)"
| "dated k = True"

lemma weed_of_fields [simp]:
  "w_key (weed_of now k ext kind) = Some k" "filename (weed_of now k ext kind) = k @ ''.'' @ ext"
  "w_id (weed_of now k ext kind) = None"
  by (cases kind; simp add: createWeedLog_def createWeedAttach_def createWeedCrash_def new_weed_meta_def filename_def)+

lemma store_meta_kind:
  "store_meta now newId \<lparr>ua_fid = fid, ua_fileName = f, ua_size = sz\<rparr> (weed_of t k ext kind)
     = (expected_effects now newId fid sz kind, dated kind)"
  by (cases kind) (auto simp: store_meta_def createWeedLog_def createWeedAttach_def createWeedCrash_def
      new_weed_meta_def weed_types createCrashMessage_def saved_crash_def Let_def split: option.splits)

definition answers :: "read_env \<Rightarrow> byte list \<Rightarrow> string \<Rightarrow> string \<Rightarrow> jlong \<Rightarrow> bool" where
  "answers e bytes fid name sz \<longleftrightarrow>
     bytes \<noteq> [] \<and> re_json e bytes = Inr (Some \<lparr>ua_fid = fid, ua_fileName = name, ua_size = sz\<rparr>)"

text \<open>
  The whole way of a file through the service: if it is written while the service is
  connected and the queue has room, it waits under its key; and when the server's answer for its
  name arrives, the file's own meta is stored with the file id and the size of the answer, a crash
  is announced to Graylog, the local file is deleted and the key is free again. A crash without a
  date is the exception: its meta is stored, but the announcement raises, and file and key stay.
\<close>

lemma upload_completes:
  assumes "ws_connected s" and "\<not> ws_serverError s" and "writeQueueSize s < q_capacity (ws_writeQueue s)"
    and "q_items (ws_readQueue s) = []" and "0 < q_capacity (ws_readQueue s)"
    and "answers e bytes fid (k @ ''.'' @ ext) sz" and "re_baseName e (k @ ''.'' @ ext) = k" and "re_dirPath e \<noteq> []"
  shows "\<exists>s1 s2 s3. weed_write dir (weed_of t k ext kind) s = Some (Inr [], s1)
    \<and> ws_metaMap s1 k = Some (weed_of t k ext kind)
    \<and> channelRead0 now 201 bytes s1 = Some s2
    \<and> read_step e None s2 =
        (expected_effects (re_now e) (re_newId e) fid sz kind
           @ (if dated kind then [DeleteFile (re_dirPath e @ ''/'' @ k @ ''.'' @ ext)] else []), None, s3)
    \<and> ws_metaMap s3 k = (if dated kind then None else Some (weed_of t k ext kind))
    \<and> (\<forall>j. j \<noteq> k \<longrightarrow> ws_metaMap s3 j = ws_metaMap s j)"
proof -
  let ?m = "weed_of t k ext kind"
  let ?q = "(ws_writeQueue s)\<lparr>q_items := q_items (ws_writeQueue s) @ [?m]\<rparr>"
  let ?s1 = "s\<lparr>ws_writeQueue := ?q, ws_metaMap := (ws_metaMap s)(k \<mapsto> ?m)\<rparr>"
  let ?rq = "(ws_readQueue s)\<lparr>q_items := [createWeedResponse now bytes]\<rparr>"
  let ?s2 = "?s1\<lparr>ws_serverError := False, ws_readQueue := ?rq\<rparr>"
  obtain b bs where bytes: "bytes = b # bs" using assms(6) by (cases bytes) (auto simp: answers_def)
  have 1: "weed_write dir ?m s = Some (Inr [], ?s1)"
    using assms(1-3) by (simp add: weed_write_def offer_def writeQueueSize_def)
  have 2: "channelRead0 now 201 bytes ?s1 = Some ?s2"
    using assms(4-5) bytes by (simp add: channelRead0_def offer_def Let_def)
  have resp: "w_response (createWeedResponse now bytes) = Some (b # bs)" "\<not> has_id (w_id (createWeedResponse now bytes))"
    by (simp_all add: createWeedResponse_def new_weed_meta_def bytes has_id_def)
  have 3: "handle_response e (createWeedResponse now bytes) ((ws_metaMap s)(k \<mapsto> ?m)) =
      (expected_effects (re_now e) (re_newId e) fid sz kind
         @ (if dated kind then [DeleteFile (re_dirPath e @ ''/'' @ k @ ''.'' @ ext)] else []),
       if dated kind then (ws_metaMap s)(k := None) else (ws_metaMap s)(k \<mapsto> ?m))"
    using assms(6,7) resp by (simp add: handle_response_def answers_def bytes store_meta_kind)
  have 4: "read_step e None ?s2 =
      (expected_effects (re_now e) (re_newId e) fid sz kind
         @ (if dated kind then [DeleteFile (re_dirPath e @ ''/'' @ k @ ''.'' @ ext)] else []), None,
       ?s2\<lparr>ws_readQueue := (ws_readQueue s)\<lparr>q_items := []\<rparr>,
           ws_metaMap := if dated kind then (ws_metaMap s)(k := None) else (ws_metaMap s)(k \<mapsto> ?m)\<rparr>)"
    using assms(8) 3 by (simp add: read_step_def poll_def)
  show ?thesis by (rule exI, rule exI, rule exI, rule conjI [OF 1], rule conjI [rotated], rule conjI [OF 2],
      rule conjI [OF 4]) auto
qed

definition sample_service :: weed_service where
  "sample_service = \<lparr>ws_connected = True, ws_serverError = False, ws_writeQueue = \<lparr>q_items = [], q_capacity = 2\<rparr>,
     ws_readQueue = \<lparr>q_items = [], q_capacity = 2\<rparr>, ws_metaMap = Map.empty\<rparr>"

definition sample_read_env :: read_env where
  "sample_read_env = \<lparr>re_json = (\<lambda>bs. Inr (Some \<lparr>ua_fid = ''3,01'', ua_fileName = ''k.log'', ua_size = 9\<rparr>)),
     re_baseName = takeWhile (\<lambda>c. c \<noteq> CHR ''.''), re_dirPath = ''/w'', re_now = 7, re_newId = ''9''\<rparr>"

definition sample_attach :: attach_file_meta where
  "sample_attach = createAttachFileMeta 5 (Some ''k'')"

theorem upload_completes_witness:
  "\<exists>s1 s2 s3. weed_write ''/w'' (weed_of 5 ''k'' ''log'' (Attachment sample_attach)) sample_service = Some (Inr [], s1)
     \<and> channelRead0 6 201 [1] s1 = Some s2
     \<and> read_step sample_read_env None s2 =
         ([SaveAttachMeta (sample_attach\<lparr>af_fid := Some ''3,01'', af_size := 9\<rparr>), DeleteFile ''/w/k.log''], None, s3)"
  using upload_completes [of sample_service sample_read_env "[1]" "''3,01''" "''k''" "''log''" 9 "''/w''" 5
      "Attachment sample_attach" 6]
  by (auto simp: sample_service_def sample_read_env_def writeQueueSize_def answers_def)

text \<open>
  What \<open>write\<close> does with a meta, exactly: without connection it is saved for a retry; with a
  connection after a server error its file is deleted and the meta forgotten; otherwise it waits for
  room, and then is queued behind the others and registered under its key, never above the capacity.
\<close>

theorem weed_write_outcomes:
  assumes "w_key m = Some k" and "queue_ok (ws_writeQueue s)"
  shows "weed_write dir m s =
     (if \<not> ws_connected s then Some (Inr [SaveQueue m], s)
      else if ws_serverError s then Some (Inr [DeleteFile (dir @ ''/'' @ filename m)], s)
      else if q_capacity (ws_writeQueue s) \<le> writeQueueSize s then None
      else Some (Inr [], s\<lparr>ws_writeQueue := (ws_writeQueue s)\<lparr>q_items := q_items (ws_writeQueue s) @ [m]\<rparr>,
                           ws_metaMap := (ws_metaMap s)(k \<mapsto> m)\<rparr>))
    \<and> (\<forall>r s'. weed_write dir m s = Some (r, s') \<longrightarrow> queue_ok (ws_writeQueue s'))"
  using assms by (auto simp: weed_write_def offer_def writeQueueSize_def queue_ok_def Let_def)

theorem weed_write_outcomes_witness:
  "weed_write ''/w'' sample_meta (sample_service\<lparr>ws_serverError := True\<rparr>)
     = Some (Inr [DeleteFile ''/w/k.log''], sample_service\<lparr>ws_serverError := True\<rparr>)"
  using weed_write_outcomes [of sample_meta "''k''" "sample_service\<lparr>ws_serverError := True\<rparr>" "''/w''"]
  by (simp add: sample_meta_def sample_service_def queue_ok_def filename_def)

text \<open>
  No stored meta is ever marked successful: a response as \<open>channelRead0\<close> makes it has no
  database id, so whatever it answers and whatever is waiting, handling it saves no queue meta; a
  retried file that reached the server keeps its status and is found again by the next retry.
\<close>

theorem meta_never_successful:
  "SaveQueue m \<notin> set (fst (handle_response e (createWeedResponse now bytes) metas))"
proof -
  have id: "\<not> has_id (w_id (createWeedResponse now bytes))"
    by (simp add: createWeedResponse_def new_weed_meta_def has_id_def)
  have st: "SaveQueue m \<notin> set (fst (store_meta t i a x))" for t i a x
    by (auto simp: store_meta_def Let_def split: option.splits sum.splits)
  show ?thesis
    using id st by (auto simp: handle_response_def Let_def split: option.splits list.splits sum.splits prod.splits bool.splits)
      (metis fst_conv)+
qed

end
