(* ===== verification/Log_File_Task.thy ===== *)
theory Log_File_Task
  imports Crypto_Tool Graylog_Service
begin

text \<open>
  \<open>parse/LogFileProperties.java\<close>, \<open>parse/LocalFileSender.java\<close> and \<open>parse/LogFileParseTask.java\<close>: what
  happens to one uploaded log file. Dates, time strings, MD5 and the JSON array of layouts are
  parameters; the effects of a task are a list.
\<close>

section \<open>Properties of an uploaded file\<close>

record log_file_properties =
  lp_layoutMap :: "jint \<rightharpoonup> string"
  lp_platform :: jint
  lp_clientId :: "string option"
  lp_uid :: "string option"
  lp_appId :: "string option"
  lp_level :: jint
  lp_loggerName :: "string option"
  lp_layouts :: "string option"
  lp_alias :: "string option"
  lp_filename :: "string option"
  lp_fileSum :: "string option"
  lp_workPath :: "string option"
  lp_originalFilename :: string
  lp_key :: string
  lp_extension :: string
  lp_security :: "byte list"
  lp_compatible :: bool

text \<open>
  \<open>setLayouts\<close>: \<open>json\<close> reads the array or raises, and each of its elements is an object with an id and a
  layout or raises in \<open>getJSONObject\<close>; what was put before an exception stays.
\<close>

fun put_layouts :: "(jint \<times> string) result list \<Rightarrow> (jint \<rightharpoonup> string) \<Rightarrow> unit result \<times> (jint \<rightharpoonup> string)" where
  "put_layouts [] m = (Inr (), m)"
| "put_layouts (Inl e # os) m = (Inl e, m)"
| "put_layouts (Inr (i, l) # os) m = put_layouts os (m(i \<mapsto> l))"

definition setLayouts ::
  "(string \<Rightarrow> (jint \<times> string) result list result) \<Rightarrow> string \<Rightarrow> log_file_properties \<Rightarrow> unit result \<times> log_file_properties" where
  "setLayouts json layouts p =
     (let p' = p\<lparr>lp_layouts := Some layouts, lp_layoutMap := Map.empty\<rparr> in
      case json layouts of
        Inl e \<Rightarrow> (Inl e, p')
      | Inr os \<Rightarrow> (case put_layouts os Map.empty of (r, m) \<Rightarrow> (r, p'\<lparr>lp_layoutMap := m\<rparr>)))"

definition getLayoutOf :: "log_file_properties \<Rightarrow> jshort \<Rightarrow> string option" where
  "getLayoutOf p layoutId = lp_layoutMap p (scast layoutId)"

definition tempPath :: "log_file_properties \<Rightarrow> string" where
  "tempPath p = str_of (lp_workPath p) @ ''/'' @ LOG_FILE_TEMP_DIR"

definition cacheFilePath :: "log_file_properties \<Rightarrow> string" where
  "cacheFilePath p = tempPath p @ ''/'' @ str_of (lp_filename p)"

definition weedPath :: "log_file_properties \<Rightarrow> string" where
  "weedPath p = str_of (lp_workPath p) @ ''/'' @ WEED_TEMP_DIR"

definition errorPath :: "log_file_properties \<Rightarrow> string" where
  "errorPath p = str_of (lp_workPath p) @ ''/'' @ ERROR_DIR @ ''/'' @ to_lower_case (platformString (lp_platform p))"

definition outFilePath :: "log_file_properties \<Rightarrow> string" where
  "outFilePath p = str_of (lp_workPath p) @ ''/'' @ WEED_TEMP_DIR @ ''/'' @ lp_key p @ ''.'' @ lp_extension p"

text \<open>
  \<open>create\<close>: the meta from the parts of the original file name. \<open>indexOf\<close> answers -1 without a dot,
  on which \<open>substring\<close> raises, outside the \<open>try\<close>; a wrong date or number is a null meta.
\<close>

definition create_meta ::
  "(string \<Rightarrow> jlong result) \<Rightarrow> jlong \<Rightarrow> log_file_properties \<Rightarrow> weed_meta option result" where
  "create_meta parse_date now p =
     (if CHR ''.'' \<notin> set (lp_originalFilename p) then Inl StringIndexOutOfBoundsException
      else
        (let temp = split_char (CHR ''-'') (takeWhile (\<lambda>c. c \<noteq> CHR ''.'') (lp_originalFilename p)) in
         if length temp \<noteq> 4 then Inr None
         else
           (case (parse_date (temp ! 1), parse_int (temp ! 3)) of
              (Inr date, Some fragment) \<Rightarrow>
                Inr (Some (createWeedLog now (Some (lp_key p)) (Some (lp_extension p))
                  (createLogFileMeta now (ucast (lp_platform p)) (lp_clientId p) (lp_uid p) (lp_appId p)
                     (lp_loggerName p) (Some date) (ucast (lp_level p)) (word_of_int fragment))))
            | _ \<Rightarrow> Inr None)))"

section \<open>The local file\<close>

definition log_line :: "(jlong \<Rightarrow> string) \<Rightarrow> log_message \<Rightarrow> string" where
  "log_line timeString m =
     timeString (lm_timestamp m) @ '' ['' @ str_of (lm_tag m) @ '']: '' @ str_of (lm_message m)
     @ (if is_empty_str (lm_attachment m) then [] else '' attachment<<'' @ str_of (lm_attachment m) @ ''>>'')"

section \<open>The task\<close>

datatype task_effect =
    ToGraylog effect
  | WriteLine string
  | CloseFile
  | ToWeed weed_meta
  | MoveToErrorDir
  | DeleteCacheFile

record task_state =
  ts_cache :: layout_cache
  ts_effects :: "task_effect list"

text \<open>
  Everything of the surroundings the task uses. \<open>te_connected\<close> is the flag of the Graylog service,
  \<open>te_local\<close> whether \<open>LocalFileSender.create\<close> could open the local file (it is null otherwise).
\<close>

record task_env =
  te_numbers :: numbers
  te_pick :: "layout_cache \<Rightarrow> string"
  te_now :: jlong
  te_clock :: double
  te_connected :: bool
  te_md5hex :: "string \<Rightarrow> string"
  te_timeString :: "jlong \<Rightarrow> string"
  te_parseDate :: "string \<Rightarrow> jlong result"
  te_local :: bool

definition add_effects :: "task_effect list \<Rightarrow> task_state \<Rightarrow> task_state" where
  "add_effects es st = st\<lparr>ts_effects := ts_effects st @ es\<rparr>"

definition send_graylog :: "task_env \<Rightarrow> log_message \<Rightarrow> task_state \<Rightarrow> exn option \<times> task_state" where
  "send_graylog e lm st =
     (case write_log (te_numbers e) (te_pick e) (te_clock e) (te_connected e) False lm (ts_cache st) of
        (Inl ex, c) \<Rightarrow> (Some ex, st\<lparr>ts_cache := c\<rparr>)
      | (Inr es, c) \<Rightarrow> (None, add_effects (map ToGraylog es) (st\<lparr>ts_cache := c\<rparr>)))"

definition send_local :: "task_env \<Rightarrow> log_message \<Rightarrow> task_state \<Rightarrow> exn option \<times> task_state" where
  "send_local e lm st =
     (if te_local e then (None, add_effects [WriteLine (log_line (te_timeString e) lm)] st)
      else (Some NullPointerException, st))"

definition message_of :: "task_env \<Rightarrow> log_file_properties \<Rightarrow> log_output \<Rightarrow> log_message result" where
  "message_of e p w =
     bind_result
       (if out_attachmentId w \<noteq> -1
        then map_sum id Some (attachmentKey (te_md5hex e) (lp_platform p) (lp_uid p) (lp_appId p)
               (Some (show_int (sint (out_attachmentId w)))))
        else Inr None)
       (\<lambda>attachment. Inr (createLogMessage (te_now e) (lp_platform p) (lp_uid p) (lp_appId p) (lp_loggerName p)
          (getLayoutOf p (out_layoutId w)) (lp_level p) (out_timestamp w) (Some (out_tag w)) (Some (out_msg w))
          (lp_alias p) attachment))"

text \<open>\<open>output\<close>: the senders are the Graylog service, unless the level is verbose, and the local file.\<close>

definition task_output :: "task_env \<Rightarrow> log_file_properties \<Rightarrow> task_state on_output" where
  "task_output e p w st =
     (case message_of e p w of
        Inl ex \<Rightarrow> (Some ex, st)
      | Inr lm \<Rightarrow>
          (if lp_level p = VERBOSE then send_local e lm st
           else (case send_graylog e lm st of
                   (Some ex, st') \<Rightarrow> (Some ex, st')
                 | (None, st') \<Rightarrow> send_local e lm st')))"

text \<open>\<open>result\<close>: close the local file, hand over its meta or move the cache file, delete the cache file.\<close>

definition task_result :: "task_env \<Rightarrow> log_file_properties \<Rightarrow> bool \<Rightarrow> task_state \<Rightarrow> exn option \<times> task_state" where
  "task_result e p successful st =
     (let st1 = add_effects (if te_local e then [CloseFile] else []) st in
      if successful
      then (case create_meta (te_parseDate e) (te_now e) p of
              Inl ex \<Rightarrow> (Some ex, st1)
            | Inr None \<Rightarrow> (None, add_effects [DeleteCacheFile] st1)
            | Inr (Some m) \<Rightarrow> (None, add_effects [ToWeed m, DeleteCacheFile] st1))
      else (None, add_effects [MoveToErrorDir, DeleteCacheFile] st1))"

text \<open>\<open>run\<close>: \<open>opened\<close> is the stream over the cache file, or the exception of opening it.\<close>

definition task_run ::
  "task_env \<Rightarrow> (byte list \<Rightarrow> string option) \<Rightarrow> log_file_properties \<Rightarrow> in_stream result \<Rightarrow> task_state \<Rightarrow> task_state" where
  "task_run e dec p opened st =
     (case opened of
        Inl ex \<Rightarrow> add_effects [MoveToErrorDir] st
      | Inr s \<Rightarrow>
          (let (successful, st') = parse_loop dec (Some (task_output e p)) s st in
           case task_result e p successful st' of
             (Some ex, st'') \<Rightarrow> add_effects [MoveToErrorDir] st''
           | (None, st'') \<Rightarrow> st''))"

section \<open>The name of the file\<close>

lemma create_meta_name:
  assumes "list_all (\<lambda>s. CHR ''-'' \<notin> set s \<and> CHR ''.'' \<notin> set s) [a, d, l]"
    and "lp_originalFilename p = join_char (CHR ''-'') [a, d, l, show_nat n] @ CHR ''.'' # ext"
    and "int n < 2 ^ 31" and "parse_date d = Inr date"
  shows "create_meta parse_date now p = Inr (Some (createWeedLog now (Some (lp_key p)) (Some (lp_extension p))
           (createLogFileMeta now (ucast (lp_platform p)) (lp_clientId p) (lp_uid p) (lp_appId p)
              (lp_loggerName p) (Some date) (ucast (lp_level p)) (of_nat n))))"
proof -
  let ?ps = "[a, d, l, show_nat n]"
  have num: "CHR ''-'' \<notin> set (show_nat n)" "CHR ''.'' \<notin> set (show_nat n)"
    by (simp_all add: show_nat_no_char)
  have "CHR ''.'' \<notin> set (join_char (CHR ''-'') ?ps)" using assms(1) num by simp
  then have "takeWhile (\<lambda>c. c \<noteq> CHR ''.'') (lp_originalFilename p) = join_char (CHR ''-'') ?ps"
    unfolding assms(2) by (subst takeWhile_append2) auto
  moreover have "split_char (CHR ''-'') (join_char (CHR ''-'') ?ps) = ?ps"
    using assms(1) num by (intro split_char_join) auto
  moreover have "parse_int (show_nat n) = Some (int n)"
    using parse_ranged_show_int [of 32 "int n"] assms(3) by (simp add: show_int_def)
  moreover have "CHR ''.'' \<in> set (lp_originalFilename p)" by (simp add: assms(2))
  ultimately show ?thesis
    using assms(4) by (simp add: create_meta_def Let_def del: join_char.simps)
qed

section \<open>What a task does with a file\<close>

text \<open>
  The specification: what the Graylog service does with one message, without its cache; the effects
  of one record, with the exception that ends the parse if there is one; those of the records up to
  the first exception; and the effects of a whole file from its meaning.
\<close>

definition created_of :: "numbers \<Rightarrow> log_message \<Rightarrow> gmsg option result" where
  "created_of num lm =
     (case lm_message lm of
        None \<Rightarrow> Inl (IllegalArgumentException ''message must not be null!'')
      | Some msg \<Rightarrow>
          bind_result (layout_of (lm_msgLayout lm)) (\<lambda>layout.
            Inr (if None \<in> set (column_results num layout (split_char (CHR ''|'') msg)) then None
                 else Some (expected_message num layout lm msg))))"

definition graylog_effects :: "task_env \<Rightarrow> log_file_properties \<Rightarrow> log_message \<Rightarrow> task_effect list result" where
  "graylog_effects e p lm =
     (if lp_level p = VERBOSE then Inr []
      else if te_connected e
      then map_sum id (\<lambda>m. case m of None \<Rightarrow> [] | Some g \<Rightarrow> [ToGraylog (Enqueue g)]) (created_of (te_numbers e) lm)
      else Inr [ToGraylog (SaveLog (Some lm))])"

definition record_effects :: "task_env \<Rightarrow> log_file_properties \<Rightarrow> log_output \<Rightarrow> task_effect list \<times> exn option" where
  "record_effects e p w =
     (case message_of e p w of
        Inl ex \<Rightarrow> ([], Some ex)
      | Inr lm \<Rightarrow>
          (case graylog_effects e p lm of
             Inl ex \<Rightarrow> ([], Some ex)
           | Inr es \<Rightarrow>
               if te_local e then (es @ [WriteLine (log_line (te_timeString e) lm)], None)
               else (es, Some NullPointerException)))"

fun records_effects :: "task_env \<Rightarrow> log_file_properties \<Rightarrow> log_output list \<Rightarrow> task_effect list \<times> exn option" where
  "records_effects e p [] = ([], None)"
| "records_effects e p (w # ws) =
     (case record_effects e p w of
        (es, Some ex) \<Rightarrow> (es, Some ex)
      | (es, None) \<Rightarrow> (case records_effects e p ws of (es', r) \<Rightarrow> (es @ es', r)))"

definition ending_effects :: "task_env \<Rightarrow> log_file_properties \<Rightarrow> bool \<Rightarrow> task_effect list" where
  "ending_effects e p successful =
     (if te_local e then [CloseFile] else [])
     @ (if successful
        then (case create_meta (te_parseDate e) (te_now e) p of
                Inl ex \<Rightarrow> [MoveToErrorDir]
              | Inr None \<Rightarrow> [DeleteCacheFile]
              | Inr (Some m) \<Rightarrow> [ToWeed m, DeleteCacheFile])
        else [MoveToErrorDir, DeleteCacheFile])"

definition file_effects ::
  "task_env \<Rightarrow> (byte list \<Rightarrow> string option) \<Rightarrow> log_file_properties \<Rightarrow> in_stream \<Rightarrow> task_effect list" where
  "file_effects e dec p s =
     (let (successful, ws) = file_meaning dec s; (es, raised) = records_effects e p ws
      in es @ ending_effects e p (successful \<or> raised \<noteq> None))"

lemma send_graylog_effects:
  assumes "picks_entry (te_pick e)" and "cache_ok (ts_cache st)"
  shows "\<exists>c. cache_ok c \<and> send_graylog e lm st =
     (case (if te_connected e
            then map_sum id (\<lambda>m. case m of None \<Rightarrow> [] | Some g \<Rightarrow> [ToGraylog (Enqueue g)]) (created_of (te_numbers e) lm)
            else Inr [ToGraylog (SaveLog (Some lm))]) of
        Inl ex \<Rightarrow> (Some ex, st\<lparr>ts_cache := c\<rparr>)
      | Inr es \<Rightarrow> (None, st\<lparr>ts_cache := c, ts_effects := ts_effects st @ es\<rparr>))"
proof -
  obtain r c where c: "createMessage (te_numbers e) (te_pick e) (te_clock e) lm (ts_cache st) = (r, c)" by fastforce
  with createMessage_spec [OF assms, of "te_numbers e" "te_clock e" lm]
  have r: "created_of (te_numbers e) lm = r" and ok: "cache_ok c" by (simp_all add: created_of_def)
  show ?thesis
  proof (cases "te_connected e")
    case True
    with c r ok show ?thesis
      by (intro exI [of _ c]) (auto simp: send_graylog_def write_log_def add_effects_def split: sum.splits option.splits)
  next
    case False
    with assms(2) show ?thesis
      by (intro exI [of _ "ts_cache st"]) (simp add: send_graylog_def write_log_def add_effects_def)
  qed
qed

lemma task_output_effects:
  assumes "picks_entry (te_pick e)" and "cache_ok (ts_cache st)"
  shows "\<exists>c. cache_ok c \<and> task_output e p w st =
     (case record_effects e p w of (es, ex) \<Rightarrow> (ex, st\<lparr>ts_cache := c, ts_effects := ts_effects st @ es\<rparr>))"
proof (cases "message_of e p w")
  case (Inl ex)
  with assms(2) show ?thesis
    by (intro exI [of _ "ts_cache st"]) (simp add: task_output_def record_effects_def)
next
  case (Inr lm)
  show ?thesis
  proof (cases "lp_level p = VERBOSE")
    case True
    with Inr assms(2) show ?thesis
      by (intro exI [of _ "ts_cache st"])
        (simp add: task_output_def record_effects_def graylog_effects_def send_local_def add_effects_def)
  next
    case False
    obtain c where "cache_ok c" and "send_graylog e lm st =
       (case graylog_effects e p lm of
          Inl ex \<Rightarrow> (Some ex, st\<lparr>ts_cache := c\<rparr>)
        | Inr es \<Rightarrow> (None, st\<lparr>ts_cache := c, ts_effects := ts_effects st @ es\<rparr>))"
      using send_graylog_effects [OF assms, of lm] False by (auto simp: graylog_effects_def)
    with Inr False show ?thesis
      by (intro exI [of _ c])
        (auto simp: task_output_def record_effects_def send_local_def add_effects_def split: sum.splits)
  qed
qed

lemma deliver_records:
  assumes "picks_entry (te_pick e)" and "cache_ok (ts_cache st)"
  shows "\<exists>c. cache_ok c \<and> deliver (task_output e p) ws st =
     (case records_effects e p ws of (es, ex) \<Rightarrow> (ex, st\<lparr>ts_cache := c, ts_effects := ts_effects st @ es\<rparr>))"
  using assms(2)
proof (induction ws arbitrary: st)
  case Nil
  then show ?case by (intro exI [of _ "ts_cache st"]) simp
next
  case (Cons w ws)
  obtain c where c: "cache_ok c" and out: "task_output e p w st =
     (case record_effects e p w of (es, ex) \<Rightarrow> (ex, st\<lparr>ts_cache := c, ts_effects := ts_effects st @ es\<rparr>))"
    using task_output_effects [OF assms(1) Cons.prems] by blast
  obtain es ex where r: "record_effects e p w = (es, ex)" by fastforce
  show ?case
  proof (cases ex)
    case None
    obtain c' where "cache_ok c'" and "deliver (task_output e p) ws (st\<lparr>ts_cache := c, ts_effects := ts_effects st @ es\<rparr>)
      = (case records_effects e p ws of (es', ex) \<Rightarrow> (ex, st\<lparr>ts_cache := c', ts_effects := ts_effects st @ es @ es'\<rparr>))"
      using Cons.IH [of "st\<lparr>ts_cache := c, ts_effects := ts_effects st @ es\<rparr>"] c by auto
    with out r None show ?thesis by (intro exI [of _ c']) (auto split: prod.splits)
  next
    case (Some x)
    with out r c show ?thesis by (intro exI [of _ c]) simp
  qed
qed

lemma task_run_effects:
  assumes "picks_entry (te_pick e)" and "cache_ok (ts_cache st)"
  shows "ts_effects (task_run e dec p (Inr s) st) = ts_effects st @ file_effects e dec p s
    \<and> cache_ok (ts_cache (task_run e dec p (Inr s) st))"
proof -
  obtain b ws where m: "file_meaning dec s = (b, ws)" by fastforce
  obtain es r where rs: "records_effects e p ws = (es, r)" by fastforce
  obtain c where c: "cache_ok c" and d: "deliver (task_output e p) ws st
      = (r, st\<lparr>ts_cache := c, ts_effects := ts_effects st @ es\<rparr>)"
    using deliver_records [OF assms, of p ws] rs by auto
  have parsed: "parse_loop dec (Some (task_output e p)) s st
      = (b \<or> r \<noteq> None, st\<lparr>ts_cache := c, ts_effects := ts_effects st @ es\<rparr>)"
    by (cases r) (simp_all add: parse_deliver_meaning d m)
  show ?thesis
    by (cases "b \<or> r \<noteq> None"; cases "create_meta (te_parseDate e) (te_now e) p" rule: sum.exhaust)
      (auto simp: task_run_def parsed file_effects_def m rs ending_effects_def task_result_def add_effects_def c
        split: option.splits)
qed

text \<open>
  Claim C5. Functional correctness of the task of one file, on every stream, intact or not: the
  layout cache does not show, the file's records are handled in order up to the first that raises,
  each is saved or sent to Graylog unless its level is verbose and then written as one line of the
  local file; after that the local file is closed, and if the parse counts as successful the file's
  meta goes to WeedFS, otherwise the cache file is kept for inspection.
\<close>

theorem task_run_correct:
  assumes "picks_entry (te_pick e)" and "cache_ok (ts_cache st)"
  shows "ts_effects (task_run e dec p (Inr s) st) = ts_effects st @ file_effects e dec p s
    \<and> cache_ok (ts_cache (task_run e dec p (Inr s) st))"
  using task_run_effects [OF assms] .

section \<open>Whole files\<close>

lemma deliver_recorder: "deliver recorder ws vs = (None, vs @ ws)"
  by (induction ws arbitrary: vs) (simp_all add: recorder_def)

lemma file_meaning_render:
  assumes "\<forall>r \<in> set rs. readable dec r"
  shows "file_meaning dec (stream (concat (map render_record rs)) False) = (True, map (record_output dec) rs)"
  using parse_loop_render [OF assms, of recorder "[]"]
  by (simp add: file_meaning_def deliver_recorder parse_loop_stop(1) [OF read_record_end])

definition handled :: "task_env \<Rightarrow> log_file_properties \<Rightarrow> log_output \<Rightarrow> task_effect list" where
  "handled e p w = fst (record_effects e p w)"

definition raises :: "task_env \<Rightarrow> log_file_properties \<Rightarrow> log_output \<Rightarrow> bool" where
  "raises e p w \<longleftrightarrow> snd (record_effects e p w) \<noteq> None"

lemma records_effects_append:
  assumes "list_all (\<lambda>w. \<not> raises e p w) ws"
  shows "records_effects e p (ws @ vs) =
    (case records_effects e p vs of (es, r) \<Rightarrow> (concat (map (handled e p) ws) @ es, r))"
  using assms by (induction ws) (auto simp: raises_def handled_def split: prod.splits option.splits)

lemma records_effects_fine:
  "list_all (\<lambda>w. \<not> raises e p w) ws \<Longrightarrow> records_effects e p ws = (concat (map (handled e p) ws), None)"
  using records_effects_append [of e p ws "[]"] by simp

text \<open>The lines of the local file and the messages that reach the Graylog service, in order.\<close>

definition lines_of :: "task_effect list \<Rightarrow> string list" where
  "lines_of es = List.map_filter (\<lambda>x. case x of WriteLine l \<Rightarrow> Some l | _ \<Rightarrow> None) es"

lemma lines_of_simps [simp]:
  "lines_of [] = []" "lines_of (es @ es') = lines_of es @ lines_of es'"
  "lines_of (WriteLine l # es) = l # lines_of es" "lines_of (ToGraylog g # es) = lines_of es"
  "lines_of (CloseFile # es) = lines_of es" "lines_of (ToWeed m # es) = lines_of es"
  "lines_of (DeleteCacheFile # es) = lines_of es" "lines_of (MoveToErrorDir # es) = lines_of es"
  by (simp_all add: lines_of_def List.map_filter_def)

text \<open>The metas handed to WeedFS.\<close>

definition metas_of :: "task_effect list \<Rightarrow> weed_meta list" where
  "metas_of es = List.map_filter (\<lambda>x. case x of ToWeed m \<Rightarrow> Some m | _ \<Rightarrow> None) es"

lemma metas_of_simps [simp]:
  "metas_of [] = []" "metas_of (es @ es') = metas_of es @ metas_of es'"
  "metas_of (WriteLine l # es) = metas_of es" "metas_of (ToGraylog g # es) = metas_of es"
  "metas_of (CloseFile # es) = metas_of es" "metas_of (ToWeed m # es) = m # metas_of es"
  "metas_of (DeleteCacheFile # es) = metas_of es" "metas_of (MoveToErrorDir # es) = metas_of es"
  by (simp_all add: metas_of_def List.map_filter_def)

lemma graylog_effects_lines: "graylog_effects e p lm = Inr es \<Longrightarrow> lines_of es = []"
  by (cases "created_of (te_numbers e) lm") (auto simp: graylog_effects_def split: if_splits option.splits)

lemma handled_line:
  assumes "\<not> raises e p w"
  shows "\<exists>lm. message_of e p w = Inr lm \<and> lines_of (handled e p w) = [log_line (te_timeString e) lm]"
  using assms
  by (auto simp: raises_def handled_def record_effects_def dest: graylog_effects_lines split: sum.splits if_splits)

lemma graylog_effects_metas: "graylog_effects e p lm = Inr es \<Longrightarrow> metas_of es = []"
  by (cases "created_of (te_numbers e) lm") (auto simp: graylog_effects_def split: if_splits option.splits)

lemma handled_metas: "metas_of (concat (map (handled e p) ws)) = []"
proof -
  have "metas_of (handled e p w) = []" for w
    by (auto simp: handled_def record_effects_def dest: graylog_effects_metas split: sum.splits)
  then show ?thesis by (induction ws) simp_all
qed

definition line_of :: "task_env \<Rightarrow> log_file_properties \<Rightarrow> log_output \<Rightarrow> string" where
  "line_of e p w = (case message_of e p w of Inr lm \<Rightarrow> log_line (te_timeString e) lm | Inl ex \<Rightarrow> [])"

lemma handled_lines:
  "list_all (\<lambda>w. \<not> raises e p w) ws \<Longrightarrow> lines_of (concat (map (handled e p) ws)) = map (line_of e p) ws"
  by (induction ws) (auto simp: line_of_def dest: handled_line)

text \<open>
  End to end for a file a client wrote: if its records are well-formed and none raises, the
  local file can be opened and the file's name gives its meta, then the effects are exactly those of
  the records in their order, the closing of the local file, the meta handed to WeedFS and the
  removal of the cache file; the local file has exactly one line for each record, in order.
\<close>

lemma task_delivers_file:
  assumes "picks_entry (te_pick e)" and "cache_ok (ts_cache st)" and "te_local e"
    and "\<forall>r \<in> set rs. readable dec r" and "list_all (\<lambda>w. \<not> raises e p w) (map (record_output dec) rs)"
    and "create_meta (te_parseDate e) (te_now e) p = Inr (Some m)" and "ts_effects st = []"
  shows "ts_effects (task_run e dec p (Inr (stream (concat (map render_record rs)) False)) st) =
      concat (map (handled e p) (map (record_output dec) rs)) @ [CloseFile, ToWeed m, DeleteCacheFile]
    \<and> lines_of (ts_effects (task_run e dec p (Inr (stream (concat (map render_record rs)) False)) st))
      = map (\<lambda>r. line_of e p (record_output dec r)) rs"
proof -
  have "ts_effects (task_run e dec p (Inr (stream (concat (map render_record rs)) False)) st) =
      concat (map (handled e p) (map (record_output dec) rs)) @ [CloseFile, ToWeed m, DeleteCacheFile]"
    using task_run_effects [OF assms(1,2)] assms(3,6,7)
    by (simp add: file_effects_def file_meaning_render [OF assms(4)] records_effects_fine [OF assms(5)]
        ending_effects_def del: map_map)
  then show ?thesis using handled_lines [OF assms(5)] by (simp del: map_map) (simp add: comp_def)
qed

text \<open>What the local file holds in the end: each line and the line separator, as bytes.\<close>

definition local_file :: "byte list \<Rightarrow> task_effect list \<Rightarrow> byte list" where
  "local_file newline es = concat (map (\<lambda>l. str_bytes l @ newline) (lines_of es))"

text \<open>
  Claim C27. A record that raises (a layout template of the client that does not parse, a local file
  that could not be opened) silently ends the handling of the file: nothing of the records behind it
  is written, sent or saved, and yet the file counts as parsed, its meta goes to WeedFS and the only
  complete copy, the cache file, is removed.
\<close>

theorem task_drops_rest:
  assumes "picks_entry (te_pick e)" and "cache_ok (ts_cache st)"
    and "\<forall>r \<in> set (rs @ r # rs'). readable dec r"
    and "list_all (\<lambda>w. \<not> raises e p w) (map (record_output dec) rs)" and "raises e p (record_output dec r)"
    and "create_meta (te_parseDate e) (te_now e) p = Inr (Some m)"
  shows "ts_effects (task_run e dec p (Inr (stream (concat (map render_record (rs @ r # rs'))) False)) st) =
      ts_effects st @ concat (map (handled e p) (map (record_output dec) (rs @ [r])))
        @ (if te_local e then [CloseFile] else []) @ [ToWeed m, DeleteCacheFile]"
proof -
  obtain es x where r: "record_effects e p (record_output dec r) = (es, Some x)"
    using assms(5) by (cases "record_effects e p (record_output dec r)") (auto simp: raises_def)
  then have "records_effects e p (map (record_output dec) (rs @ r # rs'))
      = (concat (map (handled e p) (map (record_output dec) (rs @ [r]))), Some x)"
    using records_effects_append [OF assms(4), of "map (record_output dec) (r # rs')"]
    by (simp add: handled_def)
  then show ?thesis
    using task_run_effects [OF assms(1,2)] assms(6)
    by (simp add: file_effects_def file_meaning_render [OF assms(3)] ending_effects_def
        del: map_map map_append concat_append)
qed

definition sample_env :: task_env where
  "sample_env = \<lparr>te_numbers = sample_numbers, te_pick = pick_first, te_now = 9, te_clock = 0, te_connected = False,
     te_md5hex = (\<lambda>s. s), te_timeString = (\<lambda>t. show_int (sint t)), te_parseDate = (\<lambda>s. Inr 20), te_local = True\<rparr>"

definition sample_properties :: log_file_properties where
  "sample_properties = \<lparr>lp_layoutMap = [3 \<mapsto> ''broken''], lp_platform = 1, lp_clientId = Some ''c'', lp_uid = Some ''u'',
     lp_appId = Some ''a'', lp_level = 3, lp_loggerName = Some ''app'', lp_layouts = None, lp_alias = None,
     lp_filename = Some ''f'', lp_fileSum = None, lp_workPath = Some ''/p'', lp_originalFilename = ''app-20150101-info-1.bin'',
     lp_key = ''k'', lp_extension = ''log'', lp_security = [], lp_compatible = False\<rparr>"

definition sample_log_meta :: weed_meta where
  "sample_log_meta = createWeedLog 9 (Some ''k'') (Some ''log'')
     (createLogFileMeta 9 1 (Some ''c'') (Some ''u'') (Some ''a'') (Some ''app'') (Some 20) 3 1)"

definition short_record :: log_record where
  "short_record = sample_record\<lparr>rec_attachment := None\<rparr>"

lemma short_readable: "readable ascii_dec short_record"
  using sample_readable by (simp add: short_record_def readable_def wf_record_def)

lemma show_nat_one: "show_nat (Suc 0) = ''1''"
  by code_simp

lemma sample_task_meta: "create_meta (te_parseDate sample_env) (te_now sample_env) sample_properties = Inr (Some sample_log_meta)"
  using create_meta_name [of "''app''" "''20150101''" "''info''" sample_properties 1 "''bin''" "te_parseDate sample_env" 20 "te_now sample_env"]
  by (simp add: sample_properties_def sample_env_def sample_log_meta_def show_nat_one)


definition sample_state :: task_state where
  "sample_state = \<lparr>ts_cache = [], ts_effects = []\<rparr>"

lemma sample_state_ok: "picks_entry (te_pick sample_env)" "cache_ok (ts_cache sample_state)" "ts_effects sample_state = []"
    "te_local sample_env"
  using sample_cache by (simp_all add: sample_env_def sample_state_def)

lemma show_nat_five: "show_nat 5 = ''5''"
  by code_simp

lemma short_output: "record_output ascii_dec short_record =
    \<lparr>out_timestamp = 5, out_tag = ''A'', out_msg = ''BC'', out_layoutId = 3, out_attachmentId = -1\<rparr>"
  by (simp add: record_output_def short_record_def sample_record_def ascii_dec_def) (code_simp)

lemma short_message: "message_of sample_env sample_properties (record_output ascii_dec short_record) =
    Inr (createLogMessage 9 1 (Some ''u'') (Some ''a'') (Some ''app'') (Some ''broken'') 3 5 (Some ''A'') (Some ''BC'') None None)"
  by (simp add: short_output message_of_def getLayoutOf_def sample_env_def sample_properties_def)

lemma short_fine: "\<not> raises sample_env sample_properties (record_output ascii_dec short_record)"
  by (simp add: raises_def record_effects_def short_message graylog_effects_def)
    (simp add: sample_env_def sample_properties_def)

theorem task_run_correct_witness:
  "ts_effects (task_run sample_env ascii_dec sample_properties (Inr (stream [] True)) sample_state)
     = [CloseFile, ToWeed sample_log_meta, DeleteCacheFile]"
proof -
  have "read_record ascii_dec (stream [] True) = Throw IOException"
    by (simp add: read_record_def read_time_def read_chunk_def)
  then have "file_meaning ascii_dec (stream [] True) = (True, [])"
    by (simp add: file_meaning_def parse_loop_stop)
  then show ?thesis
    using task_run_correct [OF sample_state_ok(1,2), of ascii_dec sample_properties "stream [] True"] sample_task_meta
    by (simp add: file_effects_def ending_effects_def sample_state_ok)
qed

lemma short_line: "line_of sample_env sample_properties (record_output ascii_dec short_record) = ''5 [A]: BC''"
proof -
  have "te_timeString sample_env 5 = ''5''" by (simp add: sample_env_def show_int_def show_nat_five)
  then show ?thesis by (simp add: line_of_def short_message log_line_def createLogMessage_def)
qed

theorem task_delivers_file_witness:
  "lines_of (ts_effects (task_run sample_env ascii_dec sample_properties
     (Inr (stream (concat (map render_record [short_record, short_record])) False)) sample_state))
   = [''5 [A]: BC'', ''5 [A]: BC'']"
proof -
  have a: "\<forall>r \<in> set [short_record, short_record]. readable ascii_dec r" by (simp add: short_readable)
  have b: "list_all (\<lambda>w. \<not> raises sample_env sample_properties w) (map (record_output ascii_dec) [short_record, short_record])"
    by (simp add: short_fine)
  from conjunct2 [OF task_delivers_file [OF sample_state_ok(1,2,4) a b sample_task_meta sample_state_ok(3)]]
  show ?thesis by (simp only: list.map short_line)
qed

theorem task_drops_rest_witness:
  "ts_effects (task_run (sample_env\<lparr>te_connected := True\<rparr>) ascii_dec sample_properties
     (Inr (stream (concat (map render_record ([] @ short_record # [short_record]))) False)) sample_state)
   = [CloseFile, ToWeed sample_log_meta, DeleteCacheFile]"
proof -
  let ?e = "sample_env\<lparr>te_connected := True\<rparr>" and ?w = "record_output ascii_dec short_record"
  have env: "picks_entry (te_pick ?e)" "te_local ?e" "create_meta (te_parseDate ?e) (te_now ?e) sample_properties = Inr (Some sample_log_meta)"
    using sample_state_ok sample_task_meta by simp_all
  have "layout_of (Some ''broken'') = Inl (IllegalArgumentException ''Layout template format is not correct'')"
    by (simp add: layout_of_def newLayout_def split_char_def drop_trailing_empty_def)
  moreover have "message_of ?e sample_properties ?w = message_of sample_env sample_properties ?w"
    by (simp add: message_of_def sample_env_def)
  moreover have "lp_level sample_properties = 3" by (simp add: sample_properties_def)
  ultimately have "record_effects ?e sample_properties ?w = ([], Some (IllegalArgumentException ''Layout template format is not correct''))"
    by (simp add: record_effects_def short_message graylog_effects_def created_of_def createLogMessage_def VERBOSE_def)
  then have "raises ?e sample_properties ?w" "handled ?e sample_properties ?w = []" by (simp_all add: raises_def handled_def)
  then show ?thesis
    using task_drops_rest [OF env(1) sample_state_ok(2), of "[]" short_record "[short_record]" ascii_dec sample_properties
        sample_log_meta] env short_readable sample_state_ok(3) by simp
qed

end
