(* ===== verification/Server_Properties.thy ===== *)
theory Server_Properties
  imports String_Util
begin

text \<open>
  \<open>ServerProperties.java\<close>: the configuration record bound from \<open>application.properties\<close>,
  the one setter with logic (\<open>setTtl\<close> parses the time to live before storing it) and the
  directories derived from the base path.
\<close>

record parser_properties =
  maxThreads :: jint
  parserQueueCapacity :: jint

record weed_properties =
  weedHost :: "string option"
  weedPort :: jint
  weedConnectTimeout :: jint
  weedReconnectDelay :: jint
  weedQueueCapacity :: jint

record graylog_properties =
  graylogHostName :: "string option"
  graylogPortNumber :: jint
  graylogConnectTimeout :: jint
  graylogReconnectDelay :: jint
  graylogQueueCapacity :: jint
  graylogSendBufferSize :: jint

record server_properties =
  basePath :: string
  ttlSeconds :: jlong
  ttlText :: "string option"
  parserProps :: parser_properties
  weedProps :: weed_properties
  graylogProps :: graylog_properties
  refreshTokenValiditySeconds :: jint
  accessTokenValiditySeconds :: jint

definition setTtl :: "string option \<Rightarrow> server_properties \<Rightarrow> server_properties result" where
  "setTtl t p = bind_result (durationToSecond t) (\<lambda>s. Inr (p\<lparr>ttlSeconds := s, ttlText := t\<rparr>))"

definition expires :: "server_properties \<Rightarrow> jlong" where
  "expires p = ttlSeconds p"

definition cacheDir :: "server_properties \<Rightarrow> string" where
  "cacheDir p = basePath p @ ''/'' @ CACHE_DIR"

definition crashReportDir :: "string \<Rightarrow> server_properties \<Rightarrow> string" where
  "crashReportDir platform p = basePath p @ ''/'' @ CRASH_REPORT_DIR @ ''/'' @ to_lower_case platform"

definition tempDir :: "server_properties \<Rightarrow> string" where
  "tempDir p = basePath p @ ''/'' @ LOG_FILE_TEMP_DIR"

definition weedDir :: "server_properties \<Rightarrow> string" where
  "weedDir p = basePath p @ ''/'' @ WEED_TEMP_DIR"

definition graylogHost :: "server_properties \<Rightarrow> string option" where
  "graylogHost p = graylogHostName (graylogProps p)"

definition graylogPort :: "server_properties \<Rightarrow> jint" where
  "graylogPort p = graylogPortNumber (graylogProps p)"

definition weedMasterHost :: "server_properties \<Rightarrow> string option" where
  "weedMasterHost p = weedHost (weedProps p)"

definition weedMasterPort :: "server_properties \<Rightarrow> jint" where
  "weedMasterPort p = weedPort (weedProps p)"

definition weedUrl :: "server_properties \<Rightarrow> string" where
  "weedUrl p = ''http://'' @ null_str (weedMasterHost p) @ '':'' @ show_int (sint (weedMasterPort p))"

text \<open>The seconds in force are always those of the text in force, once a text was accepted.\<close>

lemma setTtl_consistent:
  "setTtl t p = Inr q \<Longrightarrow> durationToSecond (ttlText q) = Inr (expires q) \<and> basePath q = basePath p"
  by (auto simp: setTtl_def expires_def bind_result_Inr_iff)

lemma setTtl_error: "durationToSecond t = Inl e \<Longrightarrow> setTtl t p = Inl e"
  by (simp add: setTtl_def)

text \<open>
  The scheduled clean-up multiplies the seconds by 1000. That is exact up to about 292 million
  years of seconds, but not for every accepted text: the largest number of years overflows.
\<close>

definition ttl_millis :: "server_properties \<Rightarrow> jlong" where
  "ttl_millis p = expires p * 1000"

lemma ttl_millis_exact:
  assumes "\<bar>sint (expires q)\<bar> \<le> 9223372036854775"
  shows "sint (ttl_millis q) = sint (expires q) * 1000"
proof -
  have b: "- (2 ^ 63) \<le> sint (expires q) * 1000 \<and> sint (expires q) * 1000 < 2 ^ 63"
    using assms by (auto simp: abs_le_iff)
  have "ttl_millis q = (word_of_int (sint (expires q) * 1000) :: jlong)"
    by (simp add: ttl_millis_def flip: wi_hom_mult)
  also have "sint \<dots> = sint (expires q) * 1000"
    by (rule sint_word_of_int_exact) (use b in simp_all)
  finally show ?thesis .
qed

lemma ttl_millis_overflow:
  "durationToSecond (Some (show_int 2147483647 @ ''y'')) = Inr 66795331356288000
   \<and> sint (66795331356288000 * 1000 :: jlong) < 0"
proof
  have u: "unit_seconds [CHR ''y''] = Some 31104000"
    by (simp add: unit_seconds_def SECONDS_PER_DAY_def)
  show "durationToSecond (Some (show_int 2147483647 @ ''y'')) = Inr 66795331356288000"
    by (subst duration_of_decimal [OF _ _ u]) simp_all
qed simp

end
