(* ===== verification/Global_Grants.thy ===== *)
theory Global_Grants
  imports Entities String_Util "HOL-Library.List_Lexorder" "HOL-Library.Char_ord"
begin

text \<open>
  \<open>mongod/GlobalConfigRepository.java\<close>, the level and grant requests of
  \<open>rest/SystemRestController.java\<close> and the report of \<open>controller/ClientRestController.java\<close>: who is
  told to upload its logs. The one document of the collection is reached through MongoDB, whose
  \<open>findOne\<close> and \<open>save\<close> are parameters with their documented law; the iteration order of a \<open>HashSet\<close>
  and the parsed payloads are parameters too.
\<close>

section \<open>The repository\<close>

record 'db config_store =
  find_config :: "'db \<Rightarrow> global_config option"
  save_config :: "global_config \<Rightarrow> 'db \<Rightarrow> 'db"

text \<open>
  \<open>MongoOperations.save\<close>: a document without an id into the empty collection is inserted and gets
  one; a document with the id of the stored one replaces it.
\<close>

definition store_documented :: "'db config_store \<Rightarrow> bool" where
  "store_documented cs \<longleftrightarrow>
     (\<forall>db c. (case find_config cs db of None \<Rightarrow> True | Some x \<Rightarrow> gc_id c = gc_id x) \<longrightarrow>
        (\<exists>i. find_config cs (save_config cs c db) = Some (c\<lparr>gc_id := i\<rparr>)))"

definition config_save :: "'db config_store \<Rightarrow> global_config option \<Rightarrow> 'db \<Rightarrow> bool \<times> 'db" where
  "config_save cs config db =
     (case config of
        None \<Rightarrow> (False, db)
      | Some c \<Rightarrow>
          (let c' = (case find_config cs db of None \<Rightarrow> c | Some x \<Rightarrow> c\<lparr>gc_id := gc_id x\<rparr>)
           in (True, save_config cs c' db)))"

definition defaultConfig :: global_config where
  "defaultConfig = new_global_config\<lparr>gc_level := DEFAULT_GRAY_LEVEL\<rparr>"

definition config_read :: "'db config_store \<Rightarrow> 'db \<Rightarrow> global_config" where
  "config_read cs db = (case find_config cs db of None \<Rightarrow> defaultConfig | Some c \<Rightarrow> c)"

definition addClient :: "'db config_store \<Rightarrow> (string set \<Rightarrow> string list) \<Rightarrow> string list \<Rightarrow> 'db \<Rightarrow> 'db" where
  "addClient cs order clientIds db =
     (let config = config_read cs db;
          temp = set (gc_grantClients config) \<union> set clientIds
      in snd (config_save cs (Some (config\<lparr>gc_grantClients := order temp\<rparr>)) db))"

definition removeClient :: "'db config_store \<Rightarrow> string list \<Rightarrow> 'db \<Rightarrow> 'db" where
  "removeClient cs clientIds db =
     (let config = config_read cs db;
          original = gc_grantClients config;
          temp = filter (\<lambda>item. item \<notin> set original) clientIds
      in snd (config_save cs (Some (config\<lparr>gc_grantClients := temp\<rparr>)) db))"

section \<open>The requests\<close>

datatype rest_error = BadRequestException | NotFoundException | NotAcceptableException | InternalServerException
  | Uncaught exn

type_synonym 'a answer = "rest_error + 'a"

text \<open>
  Parsed payloads: for the level \<open>None\<close> stands for an object without the member \<open>level\<close>; \<open>found\<close>
  is the number of applications with one of the given client ids.
\<close>

definition updateLevel :: "'db config_store \<Rightarrow> jint option result \<Rightarrow> 'db \<Rightarrow> unit answer \<times> 'db" where
  "updateLevel cs payload db =
     (case payload of
        Inl e \<Rightarrow> (Inl NotAcceptableException, db)
      | Inr None \<Rightarrow> (Inl NotAcceptableException, db)
      | Inr (Some lvl) \<Rightarrow> (Inr (), snd (config_save cs (Some ((config_read cs db)\<lparr>gc_level := lvl\<rparr>)) db)))"

definition addGrantClient ::
  "'db config_store \<Rightarrow> (string set \<Rightarrow> string list) \<Rightarrow> (string list \<Rightarrow> nat) \<Rightarrow> string list result \<Rightarrow> 'db \<Rightarrow> unit answer \<times> 'db" where
  "addGrantClient cs order found payload db =
     (case payload of
        Inl e \<Rightarrow> (Inl BadRequestException, db)
      | Inr ids \<Rightarrow>
          if ids = [] then (Inl BadRequestException, db)
          else if found ids = length ids then (Inr (), addClient cs order ids db)
          else (Inl BadRequestException, db))"

definition removeGrantClient :: "'db config_store \<Rightarrow> string list result \<Rightarrow> 'db \<Rightarrow> unit answer \<times> 'db" where
  "removeGrantClient cs payload db =
     (case payload of
        Inl e \<Rightarrow> (Inl BadRequestException, db)
      | Inr ids \<Rightarrow> if ids = [] then (Inl BadRequestException, db) else (Inr (), removeClient cs ids db))"

text \<open>
  \<open>v1ClientUserReport\<close> after the user is saved: the answer. \<open>contains(null)\<close> is false on a list of
  client ids.
\<close>

definition v1ClientUserReport :: "'db config_store \<Rightarrow> client_user \<Rightarrow> 'db \<Rightarrow> bool" where
  "v1ClientUserReport cs u db =
     (let config = config_read cs db in
      (case cu_clientId u of None \<Rightarrow> False | Some c \<Rightarrow> c \<in> set (gc_grantClients config))
      \<and> cu_level u <s gc_level config)"

section \<open>What the requests mean\<close>

text \<open>The abstract state: the level in force and the set of clients that are granted.\<close>

type_synonym grants = "jint \<times> string set"

datatype request = SetLevel "jint option result" | Grant "string list result" | Revoke "string list result"

definition abs_grants :: "'db config_store \<Rightarrow> 'db \<Rightarrow> grants" where
  "abs_grants cs db = (gc_level (config_read cs db), set (gc_grantClients (config_read cs db)))"

fun handle_request ::
  "'db config_store \<Rightarrow> (string set \<Rightarrow> string list) \<Rightarrow> (string list \<Rightarrow> nat) \<Rightarrow> request \<Rightarrow> 'db \<Rightarrow> unit answer \<times> 'db" where
  "handle_request cs order found (SetLevel p) db = updateLevel cs p db"
| "handle_request cs order found (Grant p) db = addGrantClient cs order found p db"
| "handle_request cs order found (Revoke p) db = removeGrantClient cs p db"

fun meant :: "(string list \<Rightarrow> nat) \<Rightarrow> request \<Rightarrow> grants \<Rightarrow> grants" where
  "meant found (SetLevel p) (l, S) = (case p of Inr (Some l') \<Rightarrow> (l', S) | _ \<Rightarrow> (l, S))"
| "meant found (Grant p) (l, S) =
     (case p of Inr ids \<Rightarrow> if ids \<noteq> [] \<and> found ids = length ids then (l, S \<union> set ids) else (l, S) | _ \<Rightarrow> (l, S))"
| "meant found (Revoke p) (l, S) =
     (case p of Inr ids \<Rightarrow> if ids \<noteq> [] then (l, set ids - S) else (l, S) | _ \<Rightarrow> (l, S))"

definition run_requests ::
  "'db config_store \<Rightarrow> (string set \<Rightarrow> string list) \<Rightarrow> (string list \<Rightarrow> nat) \<Rightarrow> request list \<Rightarrow> 'db \<Rightarrow> 'db" where
  "run_requests cs order found rs db = fold (\<lambda>r db. snd (handle_request cs order found r db)) rs db"

text \<open>A list made of a \<open>HashSet\<close> has exactly its elements.\<close>

definition set_order :: "(string set \<Rightarrow> string list) \<Rightarrow> bool" where
  "set_order order \<longleftrightarrow> (\<forall>S. finite S \<longrightarrow> set (order S) = S)"

lemma saved_config:
  assumes "store_documented cs"
  shows "\<exists>i. config_read cs (snd (config_save cs (Some c) db)) = c\<lparr>gc_id := i\<rparr>"
proof -
  let ?c = "case find_config cs db of None \<Rightarrow> c | Some x \<Rightarrow> c\<lparr>gc_id := gc_id x\<rparr>"
  have "\<exists>i. find_config cs (save_config cs ?c db) = Some (?c\<lparr>gc_id := i\<rparr>)"
    using assms unfolding store_documented_def by (elim allE [of _ db] allE [of _ ?c]) (auto split: option.splits)
  then show ?thesis by (auto simp: config_save_def config_read_def Let_def split: option.splits)
qed

lemma saved_abs:
  "store_documented cs \<Longrightarrow> abs_grants cs (snd (config_save cs (Some c) db)) = (gc_level c, set (gc_grantClients c))"
  using saved_config [of cs c db] by (auto simp: abs_grants_def)

lemma handle_request_meant:
  assumes "store_documented cs" and "set_order order"
  shows "abs_grants cs (snd (handle_request cs order found r db)) = meant found r (abs_grants cs db)"
proof (cases r)
  case (SetLevel p)
  then show ?thesis
    by (auto simp: updateLevel_def saved_abs [OF assms(1)] split: sum.splits option.splits) (auto simp: abs_grants_def)
next
  case (Grant p)
  then show ?thesis
    by (cases p) (auto simp: addGrantClient_def addClient_def Let_def saved_abs [OF assms(1)] assms(2) [unfolded set_order_def]
        abs_grants_def [of cs db])
next
  case (Revoke p)
  then show ?thesis
    by (cases p) (auto simp: removeGrantClient_def removeClient_def Let_def saved_abs [OF assms(1)] abs_grants_def
        [of cs db])
qed

lemma run_requests_meant:
  assumes "store_documented cs" and "set_order order"
  shows "abs_grants cs (run_requests cs order found rs db) = fold (meant found) rs (abs_grants cs db)"
  unfolding run_requests_def
  by (induction rs arbitrary: db) (simp_all add: handle_request_meant [OF assms])

lemma report_abs:
  "v1ClientUserReport cs u db \<longleftrightarrow>
     (\<exists>c \<in> snd (abs_grants cs db). cu_clientId u = Some c) \<and> cu_level u <s fst (abs_grants cs db)"
  by (auto simp: v1ClientUserReport_def abs_grants_def Let_def split: option.splits)

text \<open>
  Claim C13. The requests refine their meaning on a level and a set of clients: after any sequence of
  level, grant and revoke requests, good or refused, over any database, level and grants are those of
  the abstract run, and a client's report is answered with \<open>granted\<close> exactly when its client id is
  in the abstract set and its own level is below the abstract level.
\<close>

theorem grants_refine:
  assumes "store_documented cs" and "set_order order"
  shows "abs_grants cs (run_requests cs order found rs db) = fold (meant found) rs (abs_grants cs db)
    \<and> v1ClientUserReport cs u (run_requests cs order found rs db) =
       ((\<exists>c \<in> snd (fold (meant found) rs (abs_grants cs db)). cu_clientId u = Some c)
        \<and> cu_level u <s fst (fold (meant found) rs (abs_grants cs db)))"
  by (simp add: run_requests_meant [OF assms] report_abs)

text \<open>A store with at most one document, and a set order, for the examples.\<close>

definition one_document :: "global_config option config_store" where
  "one_document = \<lparr>find_config = id, save_config = (\<lambda>c db. Some (c\<lparr>gc_id := Some ''id''\<rparr>))\<rparr>"

definition some_order :: "string set \<Rightarrow> string list" where
  "some_order S = sorted_list_of_set S"

lemma some_order_ok: "set_order some_order"
  by (simp add: set_order_def some_order_def)

lemma one_document_ok: "store_documented one_document"
  by (auto simp: store_documented_def one_document_def)

definition sample_user :: client_user where
  "sample_user = \<lparr>cu_id = None, cu_platform = 1, cu_clientId = Some ''b'', cu_uid = None, cu_deviceId = None,
     cu_alias = None, cu_model = None, cu_imei = None, cu_macAddress = None, cu_osVersion = None, cu_appId = None,
     cu_version = 1, cu_versionString = None, cu_level = 5, cu_recordOn = True\<rparr>"


theorem grants_refine_witness:
  "v1ClientUserReport one_document sample_user
     (run_requests one_document some_order length [Grant (Inr [''a'', ''b'']), SetLevel (Inr (Some 6))] None)"
proof -
  have "abs_grants one_document None = (DEFAULT_GRAY_LEVEL, {})"
    by (simp add: abs_grants_def config_read_def one_document_def defaultConfig_def new_global_config_def)
  with grants_refine [OF one_document_ok some_order_ok, of length
      "[Grant (Inr [''a'', ''b'']), SetLevel (Inr (Some 6))]" None sample_user]
  show ?thesis by (simp add: sample_user_def word_sless_alt)
qed

text \<open>
  Claim C17. Revoking is wrong: the grants after a revoke request are the requested ids that were not
  granted, so the clients that stay are never the ones that should stay, unless the request names
  exactly the granted clients; every granted client loses its grant, and every named client that had
  none gets one and is told to upload.
\<close>

theorem revoke_inverts:
  assumes "store_documented cs" and "ids \<noteq> []" and "abs_grants cs db = (l, S)"
  shows "abs_grants cs (snd (removeGrantClient cs (Inr ids) db)) = (l, set ids - S)
    \<and> (set ids - S = S - set ids \<longleftrightarrow> S = set ids)
    \<and> (c \<in> set ids \<longrightarrow> c \<notin> S \<longrightarrow> cu_clientId u = Some c \<longrightarrow> cu_level u <s l \<longrightarrow>
         \<not> v1ClientUserReport cs u db \<and> v1ClientUserReport cs u (snd (removeGrantClient cs (Inr ids) db)))"
proof -
  have "set_order some_order" by (rule some_order_ok)
  from handle_request_meant [OF assms(1) this, of length "Revoke (Inr ids)" db] assms(2,3)
  have "abs_grants cs (snd (removeGrantClient cs (Inr ids) db)) = (l, set ids - S)" by simp
  then show ?thesis using assms(3) by (auto simp: report_abs)
qed

theorem revoke_inverts_witness:
  "\<not> v1ClientUserReport one_document sample_user (Some (new_global_config\<lparr>gc_level := 6, gc_grantClients := [''a'']\<rparr>))
   \<and> v1ClientUserReport one_document sample_user
       (snd (removeGrantClient one_document (Inr [''b''])
          (Some (new_global_config\<lparr>gc_level := 6, gc_grantClients := [''a'']\<rparr>))))"
proof -
  have "abs_grants one_document (Some (new_global_config\<lparr>gc_level := 6, gc_grantClients := [''a'']\<rparr>)) = (6, {''a''})"
    by (simp add: abs_grants_def config_read_def one_document_def new_global_config_def)
  from revoke_inverts [OF one_document_ok _ this, of "[''b'']" "''b''" sample_user] show ?thesis
    by (simp add: sample_user_def word_sless_alt)
qed

end
