(* ===== verification/Client_Controller.thy ===== *)
theory Client_Controller
  imports Crypto_Tool Weed_Service Log_File_Task Server_Properties Global_Grants "HOL-Library.Signed_Division"
begin

text \<open>
  \<open>controller/ClientRestController.java\<close>, \<open>auth/ApplicationKeyPairManager.java\<close>, \<open>util/FileUtil.java\<close>
  and \<open>rest/BaseRestController.queueCapacity\<close>: the requests through which clients deliver log files,
  crash reports and attachments. JSON, Base64, RSA, the file system, MD5 and
  \<open>FilenameUtils.getExtension\<close> are parameters; what a request does is a list of effects.
\<close>

section \<open>Room in the executor\<close>

text \<open>The division of \<open>int\<close> truncates towards zero.\<close>

definition jdiv :: "jint \<Rightarrow> jint \<Rightarrow> jint" where
  "jdiv a b = word_of_int (sint a sdiv sint b)"

definition queueCapacity :: "jint \<Rightarrow> jint" where
  "queueCapacity capacity =
     (if capacity = 1 then capacity
      else (let buffer = jdiv capacity 32; buffer' = (if buffer = 0 then 1 else buffer) in capacity - buffer'))"

text \<open>\<open>ThreadPoolTaskExecutor\<close> with the capacity of the configuration takes a task if its queue has room.\<close>

definition executor_takes :: "nat \<Rightarrow> server_properties \<Rightarrow> bool" where
  "executor_takes n p \<longleftrightarrow> int n < sint (parserQueueCapacity (parserProps p))"

definition parser_accepts :: "nat \<Rightarrow> server_properties \<Rightarrow> bool" where
  "parser_accepts n p \<longleftrightarrow> int n < sint (queueCapacity (parserQueueCapacity (parserProps p)))"

lemma sdiv_32_cases:
  fixes x :: int
  shows "x sdiv 32 = (if 0 \<le> x then x div 32 else - ((- x) div 32))"
  by (simp add: signed_divide_int_def sgn_if)

lemma queueCapacity_int:
  "sint (queueCapacity c) =
     (if c = 1 then 1 else sint c - (if sint c sdiv 32 = 0 then 1 else sint c sdiv 32))"
proof -
  have r: "- (2 ^ 31) \<le> sint c" "sint c < 2 ^ 31"
    using sint_greater_eq [of c] sint_less [of c] by simp_all
  have d: "- (2 ^ 31) \<le> sint c sdiv 32" "sint c sdiv 32 < 2 ^ 31"
    using r by (auto simp: sdiv_32_cases)
  have s: "sint (jdiv c 32) = sint c sdiv 32"
    using d by (simp add: jdiv_def sint_word_of_int_exact)
  obtain b where b_def: "b = (if sint c sdiv 32 = 0 then 1 else sint c sdiv 32)" by simp
  have c: "queueCapacity c = (if c = 1 then 1 else word_of_int (sint c - b))"
    using s by (auto simp: queueCapacity_def Let_def b_def jdiv_def)
  have "- (2 ^ 31) \<le> sint c - b" "sint c - b < 2 ^ 31" using r by (auto simp: b_def sdiv_32_cases)
  then have "sint (word_of_int (sint c - b) :: jint) = sint c - b"
    using sint_word_of_int_exact [where 'a = 32, of "sint c - b"] by simp
  then show ?thesis by (simp add: c b_def)
qed

lemma queueCapacity_cases:
  "1 < sint c \<Longrightarrow> sint (queueCapacity c) = sint c - max 1 (sint c div 32)"
  "sint c = 1 \<Longrightarrow> sint (queueCapacity c) = 1"
  "sint c \<le> 0 \<Longrightarrow> sint (queueCapacity c) = sint c - (if - 32 < sint c then 1 else - ((- sint c) div 32))"
proof -
  have one: "c = 1 \<longleftrightarrow> sint c = 1"
  proof
    assume "sint c = 1"
    moreover have "c = word_of_int (sint c)" by simp
    ultimately show "c = 1" by (simp only: of_int_1)
  qed simp
  {
    assume c: "1 < sint c"
    then have "c \<noteq> 1" "sint c sdiv 32 = sint c div 32" by (auto simp: sdiv_32_cases)
    moreover have "0 \<le> sint c div 32" using c by (simp add: pos_imp_zdiv_nonneg_iff)
    ultimately show "sint (queueCapacity c) = sint c - max 1 (sint c div 32)" by (simp add: queueCapacity_int max_def)
  }
  show "sint c = 1 \<Longrightarrow> sint (queueCapacity c) = 1" by (simp add: queueCapacity_int one)
  assume c: "sint c \<le> 0"
  obtain x where x: "x = - sint c" "0 \<le> x" using c by simp
  have "x div 32 = 0 \<longleftrightarrow> x < 32" using x(2) by (auto simp: div_pos_pos_trivial)
  moreover have "sint c sdiv 32 = - (x div 32)" using x by (cases "x = 0") (simp_all add: sdiv_32_cases)
  moreover have "c \<noteq> 1" using c one by auto
  ultimately show "sint (queueCapacity c) = sint c - (if - 32 < sint c then 1 else - ((- sint c) div 32))"
    using x by (auto simp: queueCapacity_int)
qed

lemma queueCapacity_bounds:
  "1 \<le> sint c \<Longrightarrow> 1 \<le> sint (queueCapacity c) \<and> sint (queueCapacity c) \<le> sint c"
  "sint c \<le> 0 \<Longrightarrow> sint (queueCapacity c) < 0"
proof -
  assume c: "1 \<le> sint c"
  show "1 \<le> sint (queueCapacity c) \<and> sint (queueCapacity c) \<le> sint c"
  proof (cases "sint c = 1")
    case False
    with c have "1 < sint c" by simp
    moreover obtain x where "sint c = x" by simp
    moreover have "1 < x \<Longrightarrow> 1 \<le> x - max 1 (x div 32) \<and> x - max 1 (x div 32) \<le> x" for x :: int by arith
    ultimately show ?thesis by (simp add: queueCapacity_cases(1))
  qed (simp add: queueCapacity_cases(2))
next
  assume c: "sint c \<le> 0"
  show "sint (queueCapacity c) < 0"
  proof (cases "- 32 < sint c")
    case False
    then have "(- sint c) div 32 < - sint c" by (intro int_div_less_self) simp_all
    with False show ?thesis by (simp add: queueCapacity_cases(3) [OF c])
  qed (use c in \<open>simp add: queueCapacity_cases(3)\<close>)
qed

lemma accepted_has_room: "parser_accepts n p \<Longrightarrow> executor_takes n p"
  using queueCapacity_bounds [of "parserQueueCapacity (parserProps p)"]
  by (cases "sint (parserQueueCapacity (parserProps p)) \<le> 0") (auto simp: parser_accepts_def executor_takes_def)

text \<open>
  The reserve of the parser's queue: for a configured capacity of at least two the bound of
  the controller is below it by a 32nd of it, and by one at least, but never below one; for a capacity
  of one there is no reserve, and for none or a negative one the bound is negative and every upload
  is refused. So a task the controller admits finds room in the executor, whatever the length of its
  queue and the sign of the capacity.
\<close>

theorem queueCapacity_correct:
  "(1 < sint c \<longrightarrow> sint (queueCapacity c) = sint c - max 1 (sint c div 32))
   \<and> (1 \<le> sint c \<longrightarrow> 1 \<le> sint (queueCapacity c) \<and> sint (queueCapacity c) \<le> sint c)
   \<and> (sint c \<le> 0 \<longrightarrow> sint (queueCapacity c) < 0)
   \<and> (parser_accepts n p \<longrightarrow> executor_takes n p)"
  using queueCapacity_cases(1) [of c] queueCapacity_bounds [of c] accepted_has_room [of n p] by simp

theorem queueCapacity_correct_witness:
  "sint (queueCapacity 1000) = 969 \<and> sint (queueCapacity 0) < 0 \<and> 1 \<le> sint (queueCapacity 2)"
  using queueCapacity_correct [of 1000] queueCapacity_correct [of 0] queueCapacity_correct [of 2] by simp

section \<open>Key pairs of the applications\<close>

text \<open>
  \<open>lookup\<close> finds the stored application of a client id and its key pair, which may be missing; \<open>rsa\<close>
  decrypts with the private key of a pair or raises.
\<close>

type_synonym 'k pair_map = "string \<rightharpoonup> 'k"

definition stored_pair :: "(string \<Rightarrow> 'k option option) \<Rightarrow> string \<Rightarrow> 'k option" where
  "stored_pair lookup clientId =
     (case lookup clientId of Some (Some keyPair) \<Rightarrow> Some keyPair | _ \<Rightarrow> None)"

definition getKeyPair :: "(string \<Rightarrow> 'k option option) \<Rightarrow> string \<Rightarrow> 'k pair_map \<Rightarrow> 'k option \<times> 'k pair_map" where
  "getKeyPair lookup clientId m =
     (case m clientId of
        None \<Rightarrow>
          (case stored_pair lookup clientId of
             Some keyPair \<Rightarrow> (Some keyPair, m(clientId \<mapsto> keyPair))
           | None \<Rightarrow> (None, m))
      | Some keyPair \<Rightarrow> (Some keyPair, m))"

definition getPrivateKey ::
  "(string \<Rightarrow> 'k option option) \<Rightarrow> string option \<Rightarrow> 'k pair_map \<Rightarrow> 'k option \<times> 'k pair_map" where
  "getPrivateKey lookup clientId m =
     (case clientId of
        None \<Rightarrow> (None, m)
      | Some c \<Rightarrow> if c = [] then (None, m) else getKeyPair lookup c m)"

definition decrypt ::
  "(string \<Rightarrow> 'k option option) \<Rightarrow> ('k \<Rightarrow> byte list \<Rightarrow> byte list option) \<Rightarrow> string option \<Rightarrow> byte list option
   \<Rightarrow> 'k pair_map \<Rightarrow> byte list option \<times> 'k pair_map" where
  "decrypt lookup rsa clientId data m =
     (case data of
        None \<Rightarrow> (None, m)
      | Some d \<Rightarrow>
          (case getPrivateKey lookup clientId m of
             (Some key, m') \<Rightarrow> (rsa key d, m')
           | (None, m') \<Rightarrow> (None, m')))"

interpretation key_pairs: memo_cache "\<lambda>m k. m k" "stored_pair lookup" "getKeyPair lookup" for lookup
  by unfold_locales (auto simp: getKeyPair_def split: option.splits if_splits)

definition pair_map_ok :: "(string \<Rightarrow> 'k option option) \<Rightarrow> 'k pair_map \<Rightarrow> bool" where
  "pair_map_ok lookup m \<longleftrightarrow> (\<forall>c key. m c = Some key \<longrightarrow> stored_pair lookup c = Some key)"

lemma pair_map_ok_coherent: "pair_map_ok lookup = key_pairs.coherent lookup"
  by (simp add: fun_eq_iff pair_map_ok_def key_pairs.coherent_def)

definition decrypt_with :: "(string \<Rightarrow> 'k option) \<Rightarrow> ('k \<Rightarrow> byte list \<Rightarrow> byte list option) \<Rightarrow> string option \<Rightarrow> byte list \<Rightarrow> byte list option" where
  "decrypt_with pair rsa clientId d =
     (case clientId of
        None \<Rightarrow> None
      | Some c \<Rightarrow> if c = [] then None else (case pair c of None \<Rightarrow> None | Some key \<Rightarrow> rsa key d))"

lemma decrypt_cases:
  "decrypt lookup rsa clientId (Some d) m =
     (case clientId of
        None \<Rightarrow> (None, m)
      | Some c \<Rightarrow>
          if c = [] then (None, m)
          else (case fst (getKeyPair lookup c m) of None \<Rightarrow> None | Some key \<Rightarrow> rsa key d, snd (getKeyPair lookup c m)))"
  by (auto simp: decrypt_def getPrivateKey_def split: option.splits prod.splits)

text \<open>
  The cache of key pairs is transparent as long as no application changes: from every state it
  can be in, \<open>decrypt\<close> answers what the stored key pair of the caller gives, and leaves such a state.
  But it never forgets: once a key pair is cached, deleting the application or changing its keys has
  no effect, and its messages are decrypted with the old key for ever.
\<close>

theorem key_cache_never_forgets:
  assumes "pair_map_ok lookup m"
  shows "fst (decrypt lookup rsa clientId (Some d) m) = decrypt_with (stored_pair lookup) rsa clientId d
    \<and> pair_map_ok lookup (snd (decrypt lookup rsa clientId (Some d) m))
    \<and> (c \<noteq> [] \<longrightarrow> stored_pair lookup c = Some key \<longrightarrow>
         fst (decrypt later rsa (Some c) (Some d') (snd (decrypt lookup rsa (Some c) (Some d) m))) = rsa key d')"
proof -
  have 1: "fst (getKeyPair lookup c' m) = stored_pair lookup c'" for c'
    by (rule key_pairs.fetch_is_load [OF assms [unfolded pair_map_ok_coherent]])
  have 2: "pair_map_ok lookup (snd (getKeyPair lookup c' m))" for c'
    using key_pairs.fetch_coherent [OF assms [unfolded pair_map_ok_coherent]] by (simp add: pair_map_ok_coherent)
  have 3: "snd (getKeyPair lookup c m) c = Some key" if "stored_pair lookup c = Some key"
    using that 1 [of c] by (auto simp: getKeyPair_def split: option.splits)
  show ?thesis
    using assms 1 2 3 by (auto simp: decrypt_cases decrypt_with_def getKeyPair_def [of later] split: option.splits)
qed

theorem key_cache_never_forgets_witness:
  "fst (decrypt (\<lambda>c. None) (\<lambda>key d. Some (key @ d)) (Some ''c'') (Some [2])
     (snd (decrypt (\<lambda>c. Some (Some [1])) (\<lambda>key d. Some (key @ d)) (Some ''c'') (Some [7]) Map.empty))) = Some [1, 2]"
proof -
  have "pair_map_ok (\<lambda>c. Some (Some [1])) (Map.empty :: byte list pair_map)"
    by (simp add: pair_map_ok_def)
  from key_cache_never_forgets [OF this, of "\<lambda>key d. Some (key @ d)" "Some ''c''" "[7]" "''c''" "[1]" "\<lambda>c. None" "[2]"]
  show ?thesis by (simp add: stored_pair_def)
qed

section \<open>Storing an upload\<close>

text \<open>\<open>FileUtil.transferTo\<close>: what the file system answers, and what was done to the target.\<close>

record file_ops =
  fo_dirExists :: bool
  fo_mkdirs :: bool
  fo_exists :: bool
  fo_create :: bool
  fo_copy :: bool

datatype file_effect = MadeDirs | CreatedFile | Copied

definition transferTo :: "file_ops \<Rightarrow> unit result \<times> file_effect list" where
  "transferTo fo =
     (if \<not> fo_dirExists fo \<and> \<not> fo_mkdirs fo then (Inl IOException, [])
      else
        (let es = (if fo_dirExists fo then [] else [MadeDirs]) in
         if \<not> fo_exists fo \<and> \<not> fo_create fo then (Inl IOException, es)
         else
           (let es' = es @ (if fo_exists fo then [] else [CreatedFile]) in
            if fo_copy fo then (Inr (), es' @ [Copied]) else (Inl IOException, es'))))"

text \<open>
  What the requests use of their surroundings; \<open>ce_fileMD5\<close> is what \<open>Checksum.fileMD5\<close> answers for the
  file just written (the empty text when it cannot be read). \<open>ce_payload\<close> reads \<open>sdkVersion\<close>, \<open>signature\<close> and
  \<open>chunk\<close> by \<open>optString\<close>, \<open>ce_properties\<close> is Jackson's \<open>readValue\<close>.
\<close>

record client_env =
  ce_props :: server_properties
  ce_clientId :: "string option"
  ce_crypto :: crypto
  ce_payload :: "string \<Rightarrow> (string \<times> string \<times> string) result"
  ce_properties :: "string \<Rightarrow> log_file_properties result"
  ce_uid :: string
  ce_extension :: "string \<Rightarrow> string"
  ce_md5hex :: "string \<Rightarrow> string"
  ce_files :: file_ops
  ce_fileMD5 :: string
  ce_now :: jlong

datatype upload_effect = OnFile string file_effect | SubmitTask log_file_properties | ToService weed_effect

definition same_sum :: "string \<Rightarrow> string option \<Rightarrow> bool" where
  "same_sum md5 fileSum \<longleftrightarrow> (case fileSum of None \<Rightarrow> False | Some s \<Rightarrow> equals_ignore_case md5 s)"

text \<open>Writing the file and checking its sum, common to the three uploads.\<close>

definition store_upload :: "client_env \<Rightarrow> string \<Rightarrow> string option \<Rightarrow> bool \<times> upload_effect list" where
  "store_upload e path fileSum =
     (case transferTo (ce_files e) of
        (Inl ex, es) \<Rightarrow> (False, map (OnFile path) es)
      | (Inr u, es) \<Rightarrow> (same_sum (ce_fileMD5 e) fileSum, map (OnFile path) es))"

definition v1UploadLogFile :: "client_env \<Rightarrow> nat \<Rightarrow> log_file_properties option \<Rightarrow> unit answer \<times> upload_effect list" where
  "v1UploadLogFile e queueSize properties =
     (case properties of
        None \<Rightarrow> (Inl BadRequestException, [])
      | Some p \<Rightarrow>
          if parser_accepts queueSize (ce_props e)
          then (case store_upload e (Server_Properties.tempDir (ce_props e) @ ''/'' @ str_of (lp_filename p)) (lp_fileSum p) of
                  (True, es) \<Rightarrow> (Inr (), es @ [SubmitTask p])
                | (False, es) \<Rightarrow> (Inl InternalServerException, es))
          else (Inl InternalServerException, []))"

definition genProperties :: "client_env \<Rightarrow> string \<Rightarrow> string option \<Rightarrow> byte list \<Rightarrow> log_file_properties option" where
  "genProperties e attr originalFilename security =
     (if attr = [] \<or> is_empty_str originalFilename then None
      else (case ce_properties e attr of
              Inl ex \<Rightarrow> None
            | Inr p \<Rightarrow>
                (let p' = p\<lparr>lp_clientId := ce_clientId e, lp_security := security, lp_filename := Some (ce_uid e),
                            lp_originalFilename := the originalFilename, lp_workPath := Some (basePath (ce_props e))\<rparr>
                 in if is_empty_str (lp_uid p') \<or> is_empty_str (lp_appId p') \<or> is_empty_str (lp_loggerName p')
                       \<or> is_empty_str (lp_fileSum p')
                    then None else Some p')))"

definition decodeBase64 :: "client_env \<Rightarrow> string \<Rightarrow> byte list" where
  "decodeBase64 e s = base64_decode (ce_crypto e) (str_bytes s)"

definition decryptPayload :: "client_env \<Rightarrow> byte list \<Rightarrow> string \<Rightarrow> string option" where
  "decryptPayload e security chunk = AESDecrypt_key (ce_crypto e) (Some security) (Some (decodeBase64 e chunk))"

text \<open>\<open>dec\<close> is the key-pair manager's \<open>decrypt\<close> for the caller at the time of the request.\<close>

definition uploadLogFile ::
  "client_env \<Rightarrow> (byte list \<Rightarrow> byte list option) \<Rightarrow> nat \<Rightarrow> string \<Rightarrow> string option \<Rightarrow> unit answer \<times> upload_effect list" where
  "uploadLogFile e dec queueSize payload originalFilename =
     (case ce_payload e payload of
        Inl ex \<Rightarrow> (Inl (Uncaught ex), [])
      | Inr (sdkVersion, signature, chunk) \<Rightarrow>
          if sdkVersion = [] \<or> signature = [] \<or> chunk = [] then (Inl BadRequestException, [])
          else if version sdkVersion = API_VERSION_V1
          then (case dec (decodeBase64 e signature) of
                  None \<Rightarrow> (Inl BadRequestException, [])
                | Some security \<Rightarrow>
                    (let content = decryptPayload e security chunk in
                     if is_empty_str content then (Inl BadRequestException, [])
                     else (case genProperties e (the content) originalFilename security of
                             None \<Rightarrow> (Inl BadRequestException, [])
                           | Some p \<Rightarrow> v1UploadLogFile e queueSize (Some p))))
          else (Inl BadRequestException, []))"

text \<open>The deprecated request: \<open>attr\<close> is the text of the JSON object made of its parameters.\<close>

definition oldUploadLogFile ::
  "client_env \<Rightarrow> nat \<Rightarrow> string \<Rightarrow> string \<Rightarrow> string option \<Rightarrow> unit answer \<times> upload_effect list" where
  "oldUploadLogFile e queueSize attr appId originalFilename =
     (case genProperties e attr originalFilename (str_bytes appId) of
        None \<Rightarrow> (Inl BadRequestException, [])
      | Some p \<Rightarrow> v1UploadLogFile e queueSize (Some (p\<lparr>lp_compatible := True\<rparr>)))"

text \<open>
  The report of a user: \<open>read_user\<close> is Jackson's \<open>readValue\<close>, \<open>save_user\<close> the upsert of the users, which
  does not touch the global configuration. \<open>optString\<close> answers the empty text for a missing member.
\<close>

definition genClientUser :: "(string \<Rightarrow> client_user result) \<Rightarrow> string \<Rightarrow> client_user option" where
  "genClientUser read_user attr =
     (if attr = [] then None else (case read_user attr of Inl ex \<Rightarrow> None | Inr u \<Rightarrow> Some u))"

definition clientUserReport ::
  "client_env \<Rightarrow> (byte list \<Rightarrow> byte list option) \<Rightarrow> (string \<Rightarrow> client_user result) \<Rightarrow> 'db config_store
   \<Rightarrow> (client_user \<Rightarrow> 'db \<Rightarrow> 'db) \<Rightarrow> string \<Rightarrow> 'db \<Rightarrow> bool answer \<times> 'db" where
  "clientUserReport e dec read_user cs save_user payload db =
     (case ce_payload e payload of
        Inl ex \<Rightarrow> (Inl (Uncaught ex), db)
      | Inr (sdkVersion, signature, chunk) \<Rightarrow>
          if sdkVersion = [] \<or> signature = [] \<or> chunk = [] then (Inl BadRequestException, db)
          else if version sdkVersion = API_VERSION_V1
          then (let content = Option.bind (dec (decodeBase64 e signature)) (\<lambda>security. decryptPayload e security chunk) in
                if is_empty_str content then (Inl BadRequestException, db)
                else (case genClientUser read_user (the content) of
                        None \<Rightarrow> (Inl BadRequestException, db)
                      | Some u \<Rightarrow>
                          if is_empty_str (ce_clientId e) then (Inl InternalServerException, db)
                          else (let u' = u\<lparr>cu_clientId := ce_clientId e\<rparr>; db' = save_user u' db
                                in (Inr (v1ClientUserReport cs u' db'), db'))))
          else (Inl BadRequestException, db))"

text \<open>The answer depends on the authenticated client and the reported level, not on a reported client.\<close>

lemma clientUserReport_granted:
  assumes "clientUserReport e dec read_user cs save_user payload db = (Inr granted, db')"
    and "\<And>u db. find_config cs (save_user u db) = find_config cs db"
  shows "\<exists>u c. ce_clientId e = Some c \<and> db' = save_user u db
    \<and> (granted \<longleftrightarrow> c \<in> snd (abs_grants cs db) \<and> cu_level u <s fst (abs_grants cs db))"
proof -
  have read: "config_read cs (save_user u db) = config_read cs db" for u by (simp add: config_read_def assms(2))
  from assms(1) obtain u c where "ce_clientId e = Some c" "db' = save_user (u\<lparr>cu_clientId := Some c\<rparr>) db"
    "granted = v1ClientUserReport cs (u\<lparr>cu_clientId := Some c\<rparr>) (save_user (u\<lparr>cu_clientId := Some c\<rparr>) db)"
    by (auto simp: clientUserReport_def Let_def split: sum.splits prod.splits if_splits option.splits)
  then show ?thesis
    by (intro exI [of _ "u\<lparr>cu_clientId := Some c\<rparr>"] exI [of _ c]) (auto simp: v1ClientUserReport_def read abs_grants_def Let_def)
qed

section \<open>Crash reports and attachments\<close>

text \<open>
  Both hand the stored file to the WeedFS service; \<open>None\<close> stands for a request that waits for room in
  its queue. An exception of the service is caught like every other behind the checks.
\<close>

definition room_in_weed :: "client_env \<Rightarrow> weed_service \<Rightarrow> bool" where
  "room_in_weed e s \<longleftrightarrow> int (writeQueueSize s) < sint (weedQueueCapacity (weedProps (ce_props e)))"

definition hand_over ::
  "client_env \<Rightarrow> string \<Rightarrow> string \<Rightarrow> string option \<Rightarrow> weed_meta \<Rightarrow> weed_service
   \<Rightarrow> (unit answer \<times> upload_effect list \<times> weed_service) option" where
  "hand_over e key extension fileSum meta s =
     (case store_upload e (weedDir (ce_props e) @ ''/'' @ key @ ''.'' @ extension) fileSum of
        (False, es) \<Rightarrow> Some (Inl InternalServerException, es, s)
      | (True, es) \<Rightarrow>
          (case weed_write (weedDir (ce_props e)) meta s of
             None \<Rightarrow> None
           | Some (Inl ex, s') \<Rightarrow> Some (Inl InternalServerException, es, s')
           | Some (Inr ws, s') \<Rightarrow> Some (Inr (), es @ map ToService ws, s')))"

definition v1UploadCrashReport ::
  "client_env \<Rightarrow> crash_file_meta \<Rightarrow> string option \<Rightarrow> string option \<Rightarrow> weed_service
   \<Rightarrow> (unit answer \<times> upload_effect list \<times> weed_service) option" where
  "v1UploadCrashReport e fileMeta fileSum originalFilename s =
     (if room_in_weed e s
      then (let key = ce_uid e; extension = map_option (ce_extension e) originalFilename in
            if is_empty_str extension then Some (Inl BadRequestException, [], s)
            else hand_over e key (the extension) fileSum
                   (createWeedCrash (ce_now e) (Some key) extension fileMeta) s)
      else Some (Inl InternalServerException, [], s))"

text \<open>\<open>uploadCrashReport\<close> behind the version check: every exception becomes a bad request.\<close>

definition uploadCrashReport ::
  "client_env \<Rightarrow> crash_file_meta result \<Rightarrow> string option \<Rightarrow> string option \<Rightarrow> weed_service
   \<Rightarrow> (unit answer \<times> upload_effect list \<times> weed_service) option" where
  "uploadCrashReport e meta fileSum originalFilename s =
     (case meta of
        Inl ex \<Rightarrow> Some (Inl BadRequestException, [], s)
      | Inr m \<Rightarrow>
          (case v1UploadCrashReport e (m\<lparr>cf_clientId := ce_clientId e\<rparr>) fileSum originalFilename s of
             Some (Inl er, es, s') \<Rightarrow> Some (Inl BadRequestException, es, s')
           | r \<Rightarrow> r))"

definition v1UploadAttachment ::
  "client_env \<Rightarrow> jint \<Rightarrow> string option \<Rightarrow> string option \<Rightarrow> string option \<Rightarrow> string option \<Rightarrow> string option
   \<Rightarrow> weed_service \<Rightarrow> (unit answer \<times> upload_effect list \<times> weed_service) option" where
  "v1UploadAttachment e platform uid appId fileSum attachmentId originalFilename s =
     (if room_in_weed e s
      then (case attachmentKey (ce_md5hex e) platform uid appId attachmentId of
              Inl ex \<Rightarrow> Some (Inl (Uncaught ex), [], s)
            | Inr key \<Rightarrow>
                (let extension = map_option (ce_extension e) originalFilename in
                 if key \<noteq> [] \<and> \<not> is_empty_str extension
                 then hand_over e key (the extension) fileSum
                        (createWeedAttach (ce_now e) (Some key) extension (createAttachFileMeta (ce_now e) (Some key))) s
                 else Some (Inl BadRequestException, [], s)))
      else Some (Inl InternalServerException, [], s))"

definition uploadAttachment ::
  "client_env \<Rightarrow> string \<Rightarrow> string \<Rightarrow> string \<Rightarrow> string \<Rightarrow> string \<Rightarrow> string \<Rightarrow> string option
   \<Rightarrow> weed_service \<Rightarrow> (unit answer \<times> upload_effect list \<times> weed_service) option" where
  "uploadAttachment e sdkVersion platform uid appId fileSum attachmentId originalFilename s =
     (if version sdkVersion = API_VERSION_V1
      then v1UploadAttachment e (platformNumber platform) (Some uid) (Some appId) (Some fileSum) (Some attachmentId)
             originalFilename s
      else Some (Inl BadRequestException, [], s))"

section \<open>What the uploads do\<close>

lemma transferTo_copied: "transferTo fo = (Inr u, fs) \<Longrightarrow> \<exists>fs'. fs = fs' @ [Copied]"
  by (auto simp: transferTo_def Let_def split: if_splits)

lemma store_upload_file:
  assumes "store_upload e path fileSum = (b, es)"
  shows "\<exists>fs. es = map (OnFile path) fs \<and> (b \<longrightarrow> same_sum (ce_fileMD5 e) fileSum \<and> (\<exists>fs'. fs = fs' @ [Copied]))"
proof -
  obtain r fs where t: "transferTo (ce_files e) = (r, fs)" by fastforce
  show ?thesis
  proof (cases r)
    case (Inl ex)
    with t assms show ?thesis by (auto simp: store_upload_def)
  next
    case (Inr u)
    with t assms transferTo_copied [of "ce_files e" u fs] show ?thesis
      by (intro exI [of _ fs]) (simp add: store_upload_def)
  qed
qed

definition submitted :: "upload_effect list \<Rightarrow> log_file_properties list" where
  "submitted es = List.map_filter (\<lambda>x. case x of SubmitTask p \<Rightarrow> Some p | _ \<Rightarrow> None) es"

lemma submitted_simps [simp]:
  "submitted [] = []" "submitted (es @ es') = submitted es @ submitted es'" "submitted (SubmitTask p # es) = p # submitted es"
  by (simp_all add: submitted_def map_filter_simps) (simp add: List.map_filter_def)

lemma submitted_file [simp]: "submitted (map (OnFile path) fs) = []"
  by (induction fs) (simp_all add: submitted_def map_filter_simps)

lemma v1UploadLogFile_cases:
  assumes "v1UploadLogFile e n (Some p) = (r, es)"
  shows "(r = Inr () \<longrightarrow> submitted es = [p] \<and> same_sum (ce_fileMD5 e) (lp_fileSum p) \<and> executor_takes n (ce_props e)
       \<and> (\<exists>fs. es = fs @ [OnFile (Server_Properties.tempDir (ce_props e) @ ''/'' @ str_of (lp_filename p)) Copied, SubmitTask p]))
    \<and> (r \<noteq> Inr () \<longrightarrow> submitted es = [])"
proof -
  let ?path = "Server_Properties.tempDir (ce_props e) @ ''/'' @ str_of (lp_filename p)"
  obtain b es0 where st: "store_upload e ?path (lp_fileSum p) = (b, es0)" by fastforce
  from store_upload_file [OF st] obtain fs where fs: "es0 = map (OnFile ?path) fs"
    and b: "b \<longrightarrow> same_sum (ce_fileMD5 e) (lp_fileSum p) \<and> (\<exists>fs'. fs = fs' @ [Copied])" by blast
  show ?thesis
  proof (cases "parser_accepts n (ce_props e) \<and> b")
    case True
    then have es: "r = Inr ()" "es = es0 @ [SubmitTask p]" using assms st by (simp_all add: v1UploadLogFile_def)
    with b fs True accepted_has_room show ?thesis by auto
  next
    case False
    then have "r = Inl InternalServerException" "es = es0 \<or> es = []"
      using assms st by (auto simp: v1UploadLogFile_def split: if_splits bool.splits)
    then show ?thesis using fs by auto
  qed
qed

lemma genProperties_fields:
  assumes "genProperties e attr originalFilename security = Some p"
  shows "lp_security p = security \<and> lp_clientId p = ce_clientId e \<and> lp_filename p = Some (ce_uid e)
    \<and> lp_workPath p = Some (basePath (ce_props e)) \<and> Some (lp_originalFilename p) = originalFilename
    \<and> \<not> is_empty_str (lp_uid p) \<and> \<not> is_empty_str (lp_appId p) \<and> \<not> is_empty_str (lp_loggerName p)
    \<and> \<not> is_empty_str (lp_fileSum p)"
proof -
  obtain s where s: "originalFilename = Some s" using assms by (cases originalFilename) (auto simp: genProperties_def)
  then obtain p0 where "ce_properties e attr = Inr p0" using assms by (auto simp: genProperties_def split: if_splits sum.splits)
  with s assms show ?thesis by (auto simp: genProperties_def Let_def split: if_splits)
qed

lemma upload_path: "lp_workPath p = Some (basePath sp) \<Longrightarrow> Server_Properties.tempDir sp @ ''/'' @ str_of (lp_filename p) = cacheFilePath p"
  by (simp add: Server_Properties.tempDir_def cacheFilePath_def tempPath_def)

lemma uploadLogFile_submits:
  assumes "uploadLogFile e dec n payload originalFilename = (r, es)"
  shows "(r = Inr () \<longrightarrow> (\<exists>p sdk signature chunk fs. ce_payload e payload = Inr (sdk, signature, chunk)
        \<and> es = fs @ [OnFile (cacheFilePath p) Copied, SubmitTask p] \<and> submitted es = [p]
        \<and> dec (decodeBase64 e signature) = Some (lp_security p) \<and> lp_clientId p = ce_clientId e
        \<and> Some (lp_originalFilename p) = originalFilename
        \<and> \<not> is_empty_str (lp_uid p) \<and> \<not> is_empty_str (lp_appId p) \<and> \<not> is_empty_str (lp_loggerName p)
        \<and> same_sum (ce_fileMD5 e) (lp_fileSum p) \<and> executor_takes n (ce_props e)))
    \<and> (r \<noteq> Inr () \<longrightarrow> submitted es = [])"
proof (cases "\<exists>sdk signature chunk security p. ce_payload e payload = Inr (sdk, signature, chunk)
      \<and> dec (decodeBase64 e signature) = Some security
      \<and> genProperties e (the (decryptPayload e security chunk)) originalFilename security = Some p
      \<and> v1UploadLogFile e n (Some p) = (r, es)")
  case True
  then obtain sdk signature chunk security p where p: "ce_payload e payload = Inr (sdk, signature, chunk)"
    "dec (decodeBase64 e signature) = Some security"
    "genProperties e (the (decryptPayload e security chunk)) originalFilename security = Some p"
    "v1UploadLogFile e n (Some p) = (r, es)" by blast
  note f = genProperties_fields [OF p(3)]
  from v1UploadLogFile_cases [OF p(4)] upload_path [of p "ce_props e"] f p(1,2) show ?thesis by auto
next
  case False
  with assms have "r \<noteq> Inr () \<and> es = []"
    by (auto simp: uploadLogFile_def Let_def split: sum.splits prod.splits if_splits option.splits)
  then show ?thesis by simp
qed

text \<open>
  Claim C16. The upload of a log file, on every payload and in every state: when it is accepted, the
  last thing done is the complete copy of the file to exactly the path its task reads and then the
  submission of exactly one task, whose key is the one the caller's key pair decrypts from the
  signature, whose client is the authenticated one, and whose user, application and logger are given;
  the sum of the stored file is the announced one and the executor has room for the task. When it is
  refused, no task is submitted.
\<close>

theorem log_upload_submits:
  assumes "uploadLogFile e dec n payload originalFilename = (r, es)"
  shows "(r = Inr () \<longrightarrow> (\<exists>p sdk signature chunk fs. ce_payload e payload = Inr (sdk, signature, chunk)
        \<and> es = fs @ [OnFile (cacheFilePath p) Copied, SubmitTask p] \<and> submitted es = [p]
        \<and> dec (decodeBase64 e signature) = Some (lp_security p) \<and> lp_clientId p = ce_clientId e
        \<and> Some (lp_originalFilename p) = originalFilename
        \<and> \<not> is_empty_str (lp_uid p) \<and> \<not> is_empty_str (lp_appId p) \<and> \<not> is_empty_str (lp_loggerName p)
        \<and> same_sum (ce_fileMD5 e) (lp_fileSum p) \<and> executor_takes n (ce_props e)))
    \<and> (r \<noteq> Inr () \<longrightarrow> submitted es = [])"
  using uploadLogFile_submits [OF assms] .

text \<open>
  Whatever the reason, a crash report is refused as a bad request, an overloaded server and a failed
  disk included.
\<close>

lemma crash_report_errors:
  "uploadCrashReport e meta fileSum f s = Some (Inl er, es, s') \<Longrightarrow> er = BadRequestException"
  by (auto simp: uploadCrashReport_def split: sum.splits option.splits)

lemma hand_over_stores:
  assumes "store_upload e (weedDir (ce_props e) @ ''/'' @ key @ ''.'' @ extension) fileSum = (True, fs)"
    and "ws_connected s" and "\<not> ws_serverError s" and "writeQueueSize s < q_capacity (ws_writeQueue s)"
    and "w_key m = Some key"
  shows "\<exists>s'. hand_over e key extension fileSum m s = Some (Inr (), fs, s')
    \<and> ws_metaMap s' = (ws_metaMap s)(key \<mapsto> m) \<and> q_items (ws_writeQueue s') = q_items (ws_writeQueue s) @ [m]"
proof -
  have "\<exists>s'. weed_write (weedDir (ce_props e)) m s = Some (Inr [], s')
      \<and> ws_metaMap s' = (ws_metaMap s)(key \<mapsto> m) \<and> q_items (ws_writeQueue s') = q_items (ws_writeQueue s) @ [m]"
    using assms(2-5) by (simp add: weed_write_def offer_def writeQueueSize_def)
  then show ?thesis using assms(1) by (auto simp: hand_over_def)
qed

text \<open>
  Claim C21. An attachment is found from the log line that mentions it: when a task of the same client,
  user and application meets a record with an attachment number, the message it sends and writes
  carries the key under which the upload of the attachment with this number is filed. And that
  upload, if the queue has room, the file is stored with the announced sum and the service is
  connected, is accepted without waiting: its meta with this key is registered and queued behind
  the others.
\<close>

theorem attachment_linked:
  assumes "te_md5hex te = ce_md5hex e" and "lp_platform p = platformNumber platform" and "lp_uid p = Some uid"
    and "lp_appId p = Some appId" and "out_attachmentId w \<noteq> -1"
    and "ce_md5hex e (show_int (sint (platformNumber platform)) @ ''-'' @ uid @ ''-'' @ to_lower_case appId @ ''-''
           @ show_int (sint (out_attachmentId w))) = key" and "key \<noteq> []" and "ce_extension e name = ext" and "ext \<noteq> []"
    and "fst (store_upload e (weedDir (ce_props e) @ ''/'' @ key @ ''.'' @ ext) (Some fileSum))"
    and "ws_connected s" and "\<not> ws_serverError s" and "room_in_weed e s"
    and "int (q_capacity (ws_writeQueue s)) = sint (weedQueueCapacity (weedProps (ce_props e)))"
  shows "(\<exists>lm. message_of te p w = Inr lm \<and> lm_attachment lm = Some key)
    \<and> (\<exists>es s'. uploadAttachment e sdk platform uid appId fileSum (show_int (sint (out_attachmentId w))) (Some name) s
           = Some (Inr (), es, s')
         \<and> ws_metaMap s' = (ws_metaMap s)(key \<mapsto> weed_of (ce_now e) key ext (Attachment (createAttachFileMeta (ce_now e) (Some key))))
         \<and> q_items (ws_writeQueue s') = q_items (ws_writeQueue s)
             @ [weed_of (ce_now e) key ext (Attachment (createAttachFileMeta (ce_now e) (Some key)))])"
proof
  let ?id = "Some (show_int (sint (out_attachmentId w)))"
  let ?m = "weed_of (ce_now e) key ext (Attachment (createAttachFileMeta (ce_now e) (Some key)))"
  have key: "attachmentKey (ce_md5hex e) (platformNumber platform) (Some uid) (Some appId) ?id = Inr key"
    using assms(6) by (simp add: attachmentKey_def attachment_text_def null_str_def)
  show "\<exists>lm. message_of te p w = Inr lm \<and> lm_attachment lm = Some key"
    using assms(1-5) key by (simp add: message_of_def createLogMessage_def)
  obtain fs where st: "store_upload e (weedDir (ce_props e) @ ''/'' @ key @ ''.'' @ ext) (Some fileSum) = (True, fs)"
    using assms(10) by (metis (full_types) prod.collapse)
  have "writeQueueSize s < q_capacity (ws_writeQueue s)" using assms(13,14) by (simp add: room_in_weed_def)
  from hand_over_stores [OF st assms(11,12) this weed_of_fields(1), of "ce_now e" ext "Attachment (createAttachFileMeta (ce_now e) (Some key))"] obtain s' where
    "hand_over e key ext (Some fileSum) ?m s = Some (Inr (), fs, s')"
    "ws_metaMap s' = (ws_metaMap s)(key \<mapsto> ?m)" "q_items (ws_writeQueue s') = q_items (ws_writeQueue s) @ [?m]" by blast
  then show "\<exists>es s'. uploadAttachment e sdk platform uid appId fileSum (show_int (sint (out_attachmentId w))) (Some name) s
           = Some (Inr (), es, s') \<and> ws_metaMap s' = (ws_metaMap s)(key \<mapsto> ?m)
         \<and> q_items (ws_writeQueue s') = q_items (ws_writeQueue s) @ [?m]"
    using assms(7-9,13) key
    by (auto simp: uploadAttachment_def version_def API_VERSION_V1_def v1UploadAttachment_def)
qed

definition sample_server :: server_properties where
  "sample_server = \<lparr>basePath = ''/p'', ttlSeconds = 60, ttlText = None,
     parserProps = \<lparr>maxThreads = 2, parserQueueCapacity = 4\<rparr>,
     weedProps = \<lparr>weedHost = None, weedPort = 1, weedConnectTimeout = 1, weedReconnectDelay = 1, weedQueueCapacity = 2\<rparr>,
     graylogProps = \<lparr>graylogHostName = None, graylogPortNumber = 1, graylogConnectTimeout = 1, graylogReconnectDelay = 1,
       graylogQueueCapacity = 2, graylogSendBufferSize = 1\<rparr>,
     refreshTokenValiditySeconds = 1, accessTokenValiditySeconds = 1\<rparr>"

definition sample_client :: client_env where
  "sample_client = \<lparr>ce_props = sample_server, ce_clientId = Some ''c'', ce_crypto = sample_crypto,
     ce_payload = (\<lambda>s. Inr (''1'', ''s'', ''chunk'')), ce_properties = (\<lambda>s. Inr (sample_properties\<lparr>lp_fileSum := Some ''ab''\<rparr>)),
     ce_uid = ''f'', ce_extension = (\<lambda>s. ''png''), ce_md5hex = (\<lambda>s. s),
     ce_files = \<lparr>fo_dirExists = True, fo_mkdirs = False, fo_exists = False, fo_create = True, fo_copy = True\<rparr>,
     ce_fileMD5 = ''AB'', ce_now = 9\<rparr>"

lemma sample_sums: "same_sum ''AB'' (Some ''ab'')"
  by code_simp

lemma sample_transfer: "transferTo (ce_files sample_client) = (Inr (), [CreatedFile, Copied])"
  by (simp add: transferTo_def sample_client_def)

lemma sample_store: "store_upload sample_client path (Some ''ab'') = (True, map (OnFile path) [CreatedFile, Copied])"
  using sample_sums by (simp add: store_upload_def sample_transfer) (simp add: sample_client_def)

lemma sample_accepts: "parser_accepts 2 (ce_props sample_client)"
proof -
  have "sint (queueCapacity 4) = 3" using queueCapacity_cases(1) [of 4] by simp
  then show ?thesis by (simp add: parser_accepts_def sample_client_def sample_server_def)
qed

lemma sample_upload: "fst (uploadLogFile sample_client (\<lambda>d. Some [7]) 2 ''{}'' (Some ''a.bin'')) = Inr ()"
proof -
  have "\<not> is_empty_str (decryptPayload sample_client [7] ''chunk'')"
    by (simp add: decryptPayload_def AESDecrypt_key_def decodeBase64_def sample_client_def sample_crypto_def
        errorBytes_def str_bytes_def bytes_str_def CRYPTO_ERROR_def)
  then have "\<exists>c. decryptPayload sample_client [7] ''chunk'' = Some c \<and> c \<noteq> []" by simp
  moreover have "\<exists>p. genProperties sample_client c (Some ''a.bin'') [7] = Some p \<and> lp_fileSum p = Some ''ab''" if "c \<noteq> []" for c
    using that by (simp add: genProperties_def sample_client_def sample_properties_def)
  ultimately obtain c p where c: "decryptPayload sample_client [7] ''chunk'' = Some c" "c \<noteq> []"
    and p: "genProperties sample_client c (Some ''a.bin'') [7] = Some p" "lp_fileSum p = Some ''ab''" by blast
  have "ce_payload sample_client s = Inr (''1'', ''s'', ''chunk'')" for s by (simp add: sample_client_def)
  then show ?thesis
    using c p sample_accepts sample_store
    by (simp add: uploadLogFile_def version_def API_VERSION_V1_def v1UploadLogFile_def)
qed

theorem log_upload_submits_witness:
  "\<exists>p es. uploadLogFile sample_client (\<lambda>d. Some [7]) 2 ''{}'' (Some ''a.bin'') = (Inr (), es)
     \<and> submitted es = [p] \<and> lp_security p = [7] \<and> lp_originalFilename p = ''a.bin''"
proof -
  obtain r es where u: "uploadLogFile sample_client (\<lambda>d. Some [7]) 2 ''{}'' (Some ''a.bin'') = (r, es)" by fastforce
  then have "r = Inr ()" using sample_upload by simp
  with log_upload_submits [OF u] u show ?thesis by auto
qed

theorem attachment_linked_witness:
  "\<exists>es s' lm. message_of sample_env sample_properties (record_output ascii_dec sample_record) = Inr lm
     \<and> uploadAttachment sample_client ''1'' ''android'' ''u'' ''a'' ''ab'' (show_int 9) (Some ''x.png'') sample_service = Some (Inr (), es, s')
     \<and> ws_metaMap s' (the (lm_attachment lm)) \<noteq> None"
proof -
  have w: "out_attachmentId (record_output ascii_dec sample_record) = 9"
    by (simp add: record_output_def sample_record_def)
  have e: "te_md5hex sample_env = ce_md5hex sample_client" "lp_platform sample_properties = platformNumber ''android''"
    "lp_uid sample_properties = Some ''u''" "lp_appId sample_properties = Some ''a''"
    "ce_extension sample_client ''x.png'' = ''png''" "ws_connected sample_service" "\<not> ws_serverError sample_service"
    "room_in_weed sample_client sample_service"
    "int (q_capacity (ws_writeQueue sample_service)) = sint (weedQueueCapacity (weedProps (ce_props sample_client)))"
    by (simp_all add: sample_env_def sample_client_def sample_properties_def platformNumber_def PLATFORM_ANDROID_def
        sample_service_def room_in_weed_def writeQueueSize_def sample_server_def)
  from attachment_linked [of sample_env sample_client sample_properties "''android''" "''u''" "''a''"
      "record_output ascii_dec sample_record" _ "''x.png''" "''png''" "''ab''" sample_service "''1''", OF e(1-4) _ refl _ e(5) _ _ e(6-9)]
  show ?thesis using w sample_store by (auto simp: sample_client_def)
qed

end
