(* ===== verification/Startup.thy ===== *)
theory Startup
  imports Client_Controller
begin

text \<open>
  The start of the server and its sums of files: \<open>ServerApplication.main\<close>, \<open>util/ExpandNativeUtil.java\<close>, which
  puts the native library into the working directory, and \<open>util/Checksum.java\<close>. The operations of files
  that can fail have their outcome as a parameter.
\<close>

section \<open>The native library\<close>

datatype os = Linux | MacOSX | OtherOS

datatype file_node = PlainFile "byte list" | Directory

type_synonym files = "string \<rightharpoonup> file_node"

text \<open>
  What the machine answers: the system, the working directory, the resources of the jar, whether a
  delete succeeds, what \<open>createNewFile\<close> and the \<open>FileOutputStream\<close> raise, if they do, and how many bytes
  a copy writes before it raises, if it does.
\<close>

record machine =
  mc_os :: os
  mc_userDir :: string
  mc_resource :: "string \<rightharpoonup> byte list"
  mc_deletes :: bool
  mc_createError :: "exn option"
  mc_openError :: "exn option"
  mc_copyStops :: "nat option"

text \<open>The body of the \<open>try\<close>: what it raises and the files it leaves.\<close>

definition library_of :: "machine \<Rightarrow> (byte list option \<times> string) option" where
  "library_of mc =
     (case mc_os mc of
        Linux \<Rightarrow> Some (mc_resource mc ''/native/linux/liblogful.so'', mc_userDir mc @ ''/'' @ ''liblogful.so'')
      | MacOSX \<Rightarrow> Some (mc_resource mc ''/native/darwin/liblogful.dylib'', mc_userDir mc @ ''/'' @ ''liblogful.dylib'')
      | OtherOS \<Rightarrow> None)"

definition copy_stream :: "machine \<Rightarrow> byte list option \<Rightarrow> unit result \<times> byte list" where
  "copy_stream mc input =
     (case input of
        None \<Rightarrow> (Inl NullPointerException, [])
      | Some bs \<Rightarrow>
          (case mc_copyStops mc of
             None \<Rightarrow> (Inr (), bs)
           | Some n \<Rightarrow> (Inl IOException, take n bs)))"

definition create_and_copy :: "machine \<Rightarrow> byte list option \<Rightarrow> string \<Rightarrow> files \<Rightarrow> unit result \<times> files" where
  "create_and_copy mc input path fs =
     (case mc_createError mc of
        Some e \<Rightarrow> (Inl e, fs)
      | None \<Rightarrow>
          if fs path = None
          then (let fs1 = fs(path \<mapsto> PlainFile []) in
                case mc_openError mc of
                  Some e \<Rightarrow> (Inl e, fs1)
                | None \<Rightarrow> (case copy_stream mc input of (r, bs) \<Rightarrow> (r, fs1(path \<mapsto> PlainFile bs))))
          else (Inl (RuntimeException ''Create native lib file failed.''), fs))"

definition expand_body :: "machine \<Rightarrow> files \<Rightarrow> unit result \<times> files" where
  "expand_body mc fs =
     (case library_of mc of
        None \<Rightarrow> (Inl (RuntimeException ''Unknown os.''), fs)
      | Some (input, path) \<Rightarrow>
          (case fs path of
             Some (PlainFile old) \<Rightarrow>
               if mc_deletes mc then create_and_copy mc input path (fs(path := None))
               else (Inl (RuntimeException ''Delete exist native lib failed.''), fs)
           | _ \<Rightarrow> create_and_copy mc input path fs))"

definition expandLibrary :: "machine \<Rightarrow> files \<Rightarrow> unit result \<times> files" where
  "expandLibrary mc fs =
     (case expand_body mc fs of
        (Inl e, fs') \<Rightarrow> (Inl (RuntimeException ''Copy native lib failed.''), fs')
      | (Inr u, fs') \<Rightarrow> (Inr u, fs'))"

text \<open>\<open>main\<close>: \<open>run\<close> is the start of Spring.\<close>

definition server_main :: "machine \<Rightarrow> (files \<Rightarrow> 'r result) \<Rightarrow> files \<Rightarrow> 'r result \<times> files" where
  "server_main mc run fs =
     (case expandLibrary mc fs of
        (Inl e, fs') \<Rightarrow> (Inl e, fs')
      | (Inr u, fs') \<Rightarrow> (run fs', fs'))"

lemma create_and_copy_cases:
  "create_and_copy mc input path fs =
     (if mc_createError mc \<noteq> None then (Inl (the (mc_createError mc)), fs)
      else if fs path \<noteq> None then (Inl (RuntimeException ''Create native lib file failed.''), fs)
      else if mc_openError mc \<noteq> None then (Inl (the (mc_openError mc)), fs(path \<mapsto> PlainFile []))
      else (fst (copy_stream mc input), fs(path \<mapsto> PlainFile (snd (copy_stream mc input)))))"
  by (simp add: create_and_copy_def Let_def split: option.splits prod.splits)

lemma copy_stream_ok: "fst (copy_stream mc input) = Inr () \<Longrightarrow> input = Some (snd (copy_stream mc input))"
  by (auto simp: copy_stream_def split: option.splits)

lemma create_and_copy_files:
  "p \<noteq> path \<Longrightarrow> snd (create_and_copy mc input path fs) p = fs p"
  "fst (create_and_copy mc input path fs) = Inr ()
   \<Longrightarrow> \<exists>bs. input = Some bs \<and> snd (create_and_copy mc input path fs) path = Some (PlainFile bs)"
  by (auto simp: create_and_copy_cases dest: copy_stream_ok split: if_splits)

text \<open>
  The library is expanded in place of an old one and nothing else is touched; the file then has the
  bytes of the resource, and every failure is the one exception that ends \<open>main\<close> before Spring starts.
\<close>

lemma expandLibrary_correct:
  assumes "expandLibrary mc fs = (r, fs')"
  shows "(r = Inr () \<longrightarrow> (\<exists>bs path. library_of mc = Some (Some bs, path) \<and> fs' path = Some (PlainFile bs)))
    \<and> (\<forall>p. (\<forall>input. library_of mc \<noteq> Some (input, p)) \<longrightarrow> fs' p = fs p)
    \<and> (r = Inr () \<or> r = Inl (RuntimeException ''Copy native lib failed.''))
    \<and> server_main mc run fs = (case r of Inl e \<Rightarrow> Inl e | Inr u \<Rightarrow> run fs', fs')"
proof -
  have out: "r = Inr () \<and> fst (expand_body mc fs) = Inr () \<and> fs' = snd (expand_body mc fs)
      \<or> r = Inl (RuntimeException ''Copy native lib failed.'') \<and> fst (expand_body mc fs) \<noteq> Inr () \<and> fs' = snd (expand_body mc fs)"
    using assms by (auto simp: expandLibrary_def split: prod.splits sum.splits)
  have main: "server_main mc run fs = (case r of Inl e \<Rightarrow> Inl e | Inr u \<Rightarrow> run fs', fs')"
    using assms by (cases r) (simp_all add: server_main_def)
  show ?thesis
  proof (cases "library_of mc")
    case None
    then show ?thesis using out main by (auto simp: expand_body_def)
  next
    case (Some l)
    then obtain input path where l: "library_of mc = Some (input, path)" by (cases l) simp
    have body: "(\<exists>fs0. expand_body mc fs = create_and_copy mc input path fs0 \<and> (\<forall>p. p \<noteq> path \<longrightarrow> fs0 p = fs p))
        \<or> (fst (expand_body mc fs) \<noteq> Inr () \<and> snd (expand_body mc fs) = fs)"
      using l by (auto simp: expand_body_def split: option.splits file_node.splits if_splits)
    from body show ?thesis
    proof (elim disjE exE conjE)
      fix fs0
      assume b: "expand_body mc fs = create_and_copy mc input path fs0" "\<forall>p. p \<noteq> path \<longrightarrow> fs0 p = fs p"
      have "fs' p = fs p" if "p \<noteq> path" for p using out b that create_and_copy_files(1) [OF that] by auto
      moreover have "\<exists>bs. input = Some bs \<and> fs' path = Some (PlainFile bs)" if "r = Inr ()"
        using out that create_and_copy_files(2) [of mc input path fs0] unfolding b(1) by auto
      ultimately show ?thesis using out main l by auto
    next
      assume "fst (expand_body mc fs) \<noteq> Inr ()" "snd (expand_body mc fs) = fs"
      then show ?thesis using out main by auto
    qed
  qed
qed

text \<open>Without the resource the old library is gone and an empty one is left.\<close>

lemma missing_resource_leaves_empty_file:
  assumes "library_of mc = Some (None, path)" and "fs path = Some (PlainFile old)" and "mc_deletes mc"
    and "mc_createError mc = None" and "mc_openError mc = None"
  shows "expandLibrary mc fs = (Inl (RuntimeException ''Copy native lib failed.''), fs(path \<mapsto> PlainFile []))"
  using assms by (simp add: expandLibrary_def expand_body_def create_and_copy_def copy_stream_def Let_def)

section \<open>The sum of a file\<close>

text \<open>
  The outcomes of opening the file, of the digest over its bytes, and of the close after it. A close
  that fails is tried again in the \<open>finally\<close>, whose exceptions are only logged.
\<close>

definition fileMD5 :: "unit result \<Rightarrow> string result \<Rightarrow> unit result \<Rightarrow> string" where
  "fileMD5 opened digest closed =
     (case opened of
        Inl e \<Rightarrow> []
      | Inr u \<Rightarrow> (case digest of Inl e \<Rightarrow> [] | Inr md5 \<Rightarrow> (case closed of Inl e \<Rightarrow> [] | Inr u \<Rightarrow> md5)))"

lemma fileMD5_iff:
  "md5 \<noteq> [] \<Longrightarrow> fileMD5 opened digest closed = md5 \<longleftrightarrow> opened = Inr () \<and> digest = Inr md5 \<and> closed = Inr ()"
  by (auto simp: fileMD5_def split: sum.splits)

text \<open>
  The text for a failure is a sum like any other to the uploads: a caller that declares the empty sum
  passes the check exactly for a file the server could not read.
\<close>

lemma empty_sum_passes:
  assumes "\<And>m. digest = Inr m \<Longrightarrow> m \<noteq> []"
  shows "same_sum (fileMD5 opened digest closed) (Some []) \<longleftrightarrow> \<not> (opened = Inr () \<and> isl digest = False \<and> closed = Inr ())"
  using assms by (auto simp: same_sum_def fileMD5_def equals_ignore_case_def to_lower_case_def split: sum.splits)

end
