(* ===== verification/Client_Details.thy ===== *)
theory Client_Details
  imports Client_Controller
begin

text \<open>
  \<open>auth/model/SimpleClientDetails.java\<close>, \<open>auth/service/SimpleClientDetailService.java\<close>,
  \<open>auth/SimpleTokenEnhancer.java\<close> and the creation of applications in \<open>rest/AppRestController.java\<close>:
  the stored applications behind the OAuth2 server. Spring Data's repository and the codec of RSA
  keys are parameters with their documented laws.
\<close>

section \<open>The stored document\<close>

record client_details =
  cd_id :: "string option"
  cd_name :: "string option"
  cd_description :: "string option"
  cd_packageName :: "string option"
  cd_bundleId :: "string option"
  cd_getuiAppId :: "string option"
  cd_getuiAppKey :: "string option"
  cd_getuiMasterSecret :: "string option"
  cd_createDate :: "jlong option"
  cd_updateDate :: "jlong option"
  cd_clientId :: "string option"
  cd_resourceIds :: "string set"
  cd_secretRequired :: bool
  cd_clientSecret :: "string option"
  cd_scoped :: bool
  cd_scope :: "string set"
  cd_authorizedGrantTypes :: "string set"
  cd_registeredRedirectUri :: "string set"
  cd_authorities :: "string list"
  cd_accessTokenValiditySeconds :: "jint option"
  cd_refreshTokenValiditySeconds :: "jint option"
  cd_autoApprove :: bool
  cd_additionalInformation :: "string \<rightharpoonup> byte list"

definition newClientDetails :: client_details where
  "newClientDetails =
     \<lparr>cd_id = None, cd_name = None, cd_description = None, cd_packageName = None, cd_bundleId = None,
      cd_getuiAppId = None, cd_getuiAppKey = None, cd_getuiMasterSecret = None, cd_createDate = None,
      cd_updateDate = None, cd_clientId = None,
      cd_resourceIds = {}, cd_secretRequired = False, cd_clientSecret = None, cd_scoped = False, cd_scope = {},
      cd_authorizedGrantTypes = {}, cd_registeredRedirectUri = {}, cd_authorities = [],
      cd_accessTokenValiditySeconds = None, cd_refreshTokenValiditySeconds = None, cd_autoApprove = False,
      cd_additionalInformation = Map.empty\<rparr>"

text \<open>What Spring's \<open>ClientDetails\<close> shows of a client.\<close>

record spring_client =
  sc_clientId :: "string option"
  sc_resourceIds :: "string set"
  sc_secretRequired :: bool
  sc_clientSecret :: "string option"
  sc_scoped :: bool
  sc_scope :: "string set"
  sc_authorizedGrantTypes :: "string set"
  sc_registeredRedirectUri :: "string set"
  sc_authorities :: "string list"
  sc_accessTokenValiditySeconds :: "jint option"
  sc_refreshTokenValiditySeconds :: "jint option"
  sc_additionalInformation :: "string \<rightharpoonup> byte list"

definition clientDetailsOf :: "spring_client \<Rightarrow> client_details" where
  "clientDetailsOf c =
     newClientDetails\<lparr>cd_accessTokenValiditySeconds := sc_accessTokenValiditySeconds c,
       cd_additionalInformation := sc_additionalInformation c, cd_authorizedGrantTypes := sc_authorizedGrantTypes c,
       cd_clientId := sc_clientId c, cd_clientSecret := sc_clientSecret c,
       cd_refreshTokenValiditySeconds := sc_refreshTokenValiditySeconds c,
       cd_registeredRedirectUri := sc_registeredRedirectUri c, cd_resourceIds := sc_resourceIds c,
       cd_scope := sc_scope c, cd_scoped := sc_scoped c, cd_secretRequired := sc_secretRequired c\<rparr>"

text \<open>
  \<open>getClientFromSimpleClientDetail\<close> fills a \<open>BaseClientDetails\<close>, which computes \<open>isSecretRequired\<close> and
  \<open>isScoped\<close> from the secret and the scope, and starts without authorities.
\<close>

definition springClientOf :: "client_details \<Rightarrow> spring_client" where
  "springClientOf d =
     \<lparr>sc_clientId = cd_clientId d, sc_resourceIds = cd_resourceIds d,
      sc_secretRequired = (cd_clientSecret d \<noteq> None), sc_clientSecret = cd_clientSecret d,
      sc_scoped = (cd_scope d \<noteq> {}), sc_scope = cd_scope d, sc_authorizedGrantTypes = cd_authorizedGrantTypes d,
      sc_registeredRedirectUri = cd_registeredRedirectUri d, sc_authorities = [],
      sc_accessTokenValiditySeconds = cd_accessTokenValiditySeconds d,
      sc_refreshTokenValiditySeconds = cd_refreshTokenValiditySeconds d,
      sc_additionalInformation = cd_additionalInformation d\<rparr>"

section \<open>Key pairs\<close>

text \<open>\<open>getEncoded\<close> of both keys, and \<open>RSAUtil.publicKey\<close> and \<open>privateKey\<close>, which raise on other bytes.\<close>

record 'k key_codec =
  public_bytes :: "'k \<Rightarrow> byte list"
  private_bytes :: "'k \<Rightarrow> byte list"
  key_of :: "byte list \<Rightarrow> byte list \<Rightarrow> 'k option"

definition codec_documented :: "'k key_codec \<Rightarrow> bool" where
  "codec_documented kc \<longleftrightarrow> (\<forall>k. key_of kc (public_bytes kc k) (private_bytes kc k) = Some k)"

definition addKeyPair :: "'k key_codec \<Rightarrow> 'k \<Rightarrow> client_details \<Rightarrow> client_details" where
  "addKeyPair kc k d =
     d\<lparr>cd_additionalInformation :=
         (cd_additionalInformation d)(''public'' \<mapsto> public_bytes kc k, ''private'' \<mapsto> private_bytes kc k)\<rparr>"

definition keyPair :: "'k key_codec \<Rightarrow> client_details \<Rightarrow> 'k option" where
  "keyPair kc d =
     (case (cd_additionalInformation d ''public'', cd_additionalInformation d ''private'') of
        (Some pub, Some priv) \<Rightarrow> key_of kc pub priv
      | _ \<Rightarrow> None)"

lemma keyPair_addKeyPair: "codec_documented kc \<Longrightarrow> keyPair kc (addKeyPair kc k d) = Some k"
  by (simp add: keyPair_def addKeyPair_def codec_documented_def)

section \<open>The service\<close>

record 'db client_store =
  st_all :: "'db \<Rightarrow> client_details list"
  st_find :: "string option \<Rightarrow> 'db \<Rightarrow> client_details option"
  st_save :: "client_details \<Rightarrow> 'db \<Rightarrow> 'db"
  st_delete :: "client_details \<Rightarrow> 'db \<Rightarrow> 'db"

text \<open>
  Spring Data: \<open>save\<close> inserts a document without an id under a new one and replaces the one with the
  id otherwise; \<open>findByClientId\<close> answers null when no document matches and one of those that match
  otherwise.
\<close>

definition matching :: "'db client_store \<Rightarrow> string option \<Rightarrow> 'db \<Rightarrow> client_details list" where
  "matching st c db = filter (\<lambda>d. cd_clientId d = c) (st_all st db)"

definition client_store_documented :: "'db client_store \<Rightarrow> bool" where
  "client_store_documented st \<longleftrightarrow>
     (\<forall>db c. if matching st c db = [] then st_find st c db = None
             else \<exists>d \<in> set (matching st c db). st_find st c db = Some d)
     \<and> (\<forall>db d. cd_id d = None \<longrightarrow> (\<exists>i. st_all st (st_save st d db) = st_all st db @ [d\<lparr>cd_id := Some i\<rparr>]))
     \<and> (\<forall>db d. cd_id d \<noteq> None \<longrightarrow>
          st_all st (st_save st d db) = map (\<lambda>x. if cd_id x = cd_id d then d else x) (st_all st db))"

lemma store_insert:
  "client_store_documented st \<Longrightarrow> cd_id d = None \<Longrightarrow> \<exists>i. st_all st (st_save st d db) = st_all st db @ [d\<lparr>cd_id := Some i\<rparr>]"
  unfolding client_store_documented_def by blast

lemma store_find:
  "client_store_documented st \<Longrightarrow> matching st c db = [] \<Longrightarrow> st_find st c db = None"
  "client_store_documented st \<Longrightarrow> matching st c db \<noteq> [] \<Longrightarrow> \<exists>d \<in> set (matching st c db). st_find st c db = Some d"
  unfolding client_store_documented_def by (metis, metis)

definition loadClientByClientId :: "'db client_store \<Rightarrow> string option \<Rightarrow> 'db \<Rightarrow> spring_client result" where
  "loadClientByClientId st clientId db =
     (case st_find st clientId db of
        None \<Rightarrow> Inl (RuntimeException ''ClientRegistrationException'')
      | Some d \<Rightarrow> Inr (springClientOf d))"

definition addClientDetails :: "'db client_store \<Rightarrow> spring_client \<Rightarrow> 'db \<Rightarrow> 'db" where
  "addClientDetails st c db = st_save st (clientDetailsOf c) db"

definition updateClientDetails :: "'db client_store \<Rightarrow> spring_client \<Rightarrow> 'db \<Rightarrow> unit result \<times> 'db" where
  "updateClientDetails st c db =
     (case st_find st (sc_clientId c) db of
        None \<Rightarrow> (Inl (RuntimeException ''NoSuchClientException''), db)
      | Some old \<Rightarrow> (Inr (), st_save st (clientDetailsOf c) db))"

definition updateClientSecret :: "'db client_store \<Rightarrow> string option \<Rightarrow> string option \<Rightarrow> 'db \<Rightarrow> unit result \<times> 'db" where
  "updateClientSecret st clientId secret db =
     (case st_find st clientId db of
        None \<Rightarrow> (Inl (RuntimeException ''NoSuchClientException''), db)
      | Some d \<Rightarrow> (Inr (), st_save st (d\<lparr>cd_clientSecret := secret\<rparr>) db))"

definition removeClientDetails :: "'db client_store \<Rightarrow> string option \<Rightarrow> 'db \<Rightarrow> unit result \<times> 'db" where
  "removeClientDetails st clientId db =
     (case st_find st clientId db of
        None \<Rightarrow> (Inl (RuntimeException ''NoSuchClientException''), db)
      | Some d \<Rightarrow> (Inr (), st_delete st d db))"

definition listClientDetails :: "'db client_store \<Rightarrow> 'db \<Rightarrow> spring_client list" where
  "listClientDetails st db = map springClientOf (st_all st db)"

section \<open>Creating an application\<close>

text \<open>\<open>createApp\<close> for a non-empty name; key, secret and key pair are drawn at random.\<close>

definition createApp ::
  "'k key_codec \<Rightarrow> 'db client_store \<Rightarrow> server_properties \<Rightarrow> jlong \<Rightarrow> string \<Rightarrow> string \<Rightarrow> 'k
   \<Rightarrow> (string \<times> string) result \<Rightarrow> 'db \<Rightarrow> unit answer \<times> 'db" where
  "createApp kc st p now key secret pair payload db =
     (case payload of
        Inl e \<Rightarrow> (Inl BadRequestException, db)
      | Inr (name, description) \<Rightarrow>
          if name = [] then (Inl BadRequestException, db)
          else (Inr (), st_save st (addKeyPair kc pair
                 (newClientDetails\<lparr>cd_accessTokenValiditySeconds := Some (accessTokenValiditySeconds p),
                    cd_refreshTokenValiditySeconds := Some (refreshTokenValiditySeconds p),
                    cd_name := Some name, cd_description := Some description, cd_createDate := Some now,
                    cd_authorizedGrantTypes := {''refresh_token'', ''client_credentials''},
                    cd_authorities := [''logful_client''], cd_scope := {''client''},
                    cd_clientId := Some key, cd_clientSecret := Some secret\<rparr>)) db))"

text \<open>The lookup of the key-pair manager on this store.\<close>

definition pair_lookup :: "'k key_codec \<Rightarrow> 'db client_store \<Rightarrow> 'db \<Rightarrow> string \<Rightarrow> 'k option option" where
  "pair_lookup kc st db clientId =
     map_option (keyPair kc) (st_find st (Some clientId) db)"

section \<open>What the service does to a client\<close>

lemma createApp_stored:
  assumes "codec_documented kc" and "client_store_documented st" and "name \<noteq> []"
    and "\<forall>d \<in> set (st_all st db). cd_clientId d \<noteq> Some key"
    and "createApp kc st p now key secret pair (Inr (name, description)) db = (r, db')"
  shows "r = Inr () \<and> stored_pair (pair_lookup kc st db') key = Some pair
    \<and> (\<exists>c. loadClientByClientId st (Some key) db' = Inr c \<and> sc_clientSecret c = Some secret \<and> sc_scope c = {''client''}
         \<and> sc_authorities c = [])"
proof -
  let ?d = "newClientDetails\<lparr>cd_accessTokenValiditySeconds := Some (accessTokenValiditySeconds p),
                    cd_refreshTokenValiditySeconds := Some (refreshTokenValiditySeconds p),
                    cd_name := Some name, cd_description := Some description, cd_createDate := Some now,
                    cd_authorizedGrantTypes := {''refresh_token'', ''client_credentials''},
                    cd_authorities := [''logful_client''], cd_scope := {''client''},
                    cd_clientId := Some key, cd_clientSecret := Some secret\<rparr>"
  have db': "r = Inr ()" "db' = st_save st (addKeyPair kc pair ?d) db" using assms(3,5) by (simp_all add: createApp_def)
  have "cd_id (addKeyPair kc pair ?d) = None" by (simp add: addKeyPair_def newClientDetails_def)
  from store_insert [OF assms(2) this, of db] obtain i
    where all: "st_all st db' = st_all st db @ [(addKeyPair kc pair ?d)\<lparr>cd_id := Some i\<rparr>]" unfolding db' by blast
  have "filter (\<lambda>d. cd_clientId d = Some key) (st_all st db) = []" using assms(4) by (simp add: filter_empty_conv)
  then have "matching st (Some key) db' = [(addKeyPair kc pair ?d)\<lparr>cd_id := Some i\<rparr>]"
    by (simp add: matching_def all addKeyPair_def)
  with store_find(2) [OF assms(2), of "Some key" db']
  have find: "st_find st (Some key) db' = Some ((addKeyPair kc pair ?d)\<lparr>cd_id := Some i\<rparr>)" by simp
  have "keyPair kc ((addKeyPair kc pair ?d)\<lparr>cd_id := Some i\<rparr>) = Some pair"
    using keyPair_addKeyPair [OF assms(1), of pair ?d] by (simp add: keyPair_def)
  then show ?thesis using db'(1)
    by (simp add: stored_pair_def pair_lookup_def find loadClientByClientId_def springClientOf_def)
      (simp add: addKeyPair_def)
qed

text \<open>
  An application is usable as soon as it is created: the next message of a client that signs
  with the key pair of the application is decrypted with exactly this pair, although the key-pair
  manager has never seen the application; the OAuth2 server finds the client with its secret and its
  scope. Its authority \<open>logful_client\<close>, however, is stored but never reaches the server.
\<close>

theorem created_app_usable:
  assumes "codec_documented kc" and "client_store_documented st" and "name \<noteq> []" and "key \<noteq> []"
    and "\<forall>d \<in> set (st_all st db). cd_clientId d \<noteq> Some key" and "m key = None"
    and "createApp kc st p now key secret pair (Inr (name, description)) db = (r, db')"
  shows "r = Inr () \<and> fst (decrypt (pair_lookup kc st db') rsa (Some key) (Some d) m) = rsa pair d
    \<and> (\<exists>c. loadClientByClientId st (Some key) db' = Inr c \<and> sc_clientSecret c = Some secret \<and> sc_scope c = {''client''}
         \<and> sc_authorities c = [])"
  using createApp_stored [OF assms(1-3,5,7)] assms(4,6) by (simp add: decrypt_cases getKeyPair_def)

text \<open>A store in a list, and keys that are their own bytes.\<close>

definition list_store :: "client_details list client_store" where
  "list_store =
     \<lparr>st_all = (\<lambda>ds. ds), st_find = (\<lambda>c ds. List.find (\<lambda>d. cd_clientId d = c) ds),
      st_save = (\<lambda>d ds. case cd_id d of None \<Rightarrow> ds @ [d\<lparr>cd_id := Some (show_nat (length ds))\<rparr>]
                          | Some i \<Rightarrow> map (\<lambda>x. if cd_id x = Some i then d else x) ds),
      st_delete = (\<lambda>d ds. filter (\<lambda>x. cd_id x \<noteq> cd_id d) ds)\<rparr>"

lemma list_store_ok: "client_store_documented list_store"
  unfolding client_store_documented_def
proof (intro conjI allI impI)
  fix db c
  show "if matching list_store c db = [] then st_find list_store c db = None
        else \<exists>d \<in> set (matching list_store c db). st_find list_store c db = Some d"
    by (induction db) (auto simp: matching_def list_store_def)
qed (auto simp: list_store_def)

definition plain_codec :: "byte list key_codec" where
  "plain_codec = \<lparr>public_bytes = (\<lambda>k. []), private_bytes = (\<lambda>k. k), key_of = (\<lambda>pub priv. Some priv)\<rparr>"

lemma plain_codec_ok: "codec_documented plain_codec"
  by (simp add: codec_documented_def plain_codec_def)

theorem created_app_usable_witness:
  "\<exists>db'. createApp plain_codec list_store sample_server 1 ''key'' ''secret'' [1] (Inr (''app'', [])) [] = (Inr (), db')
     \<and> fst (decrypt (pair_lookup plain_codec list_store db') (\<lambda>k d. Some (k @ d)) (Some ''key'') (Some [2]) Map.empty) = Some [1, 2]"
proof -
  obtain r db' where c: "createApp plain_codec list_store sample_server 1 ''key'' ''secret'' [1] (Inr (''app'', [])) [] = (r, db')"
    by fastforce
  have "\<forall>d \<in> set (st_all list_store []). cd_clientId d \<noteq> Some ''key''" by (simp add: list_store_def)
  from created_app_usable [OF plain_codec_ok list_store_ok _ _ this _ c, of Map.empty "\<lambda>k d. Some (k @ d)" "[2]"] c
  show ?thesis by simp
qed

section \<open>Updating a client\<close>

text \<open>
  \<open>updateClientDetails\<close> saves a new document without an id: the old one, with its old secret, stays and
  still matches, and the new one has neither the name nor the authorities of the application.
\<close>

lemma update_duplicates:
  assumes "client_store_documented st" and "st_find st (sc_clientId c) db = Some old"
    and "updateClientDetails st c db = (r, db')"
  shows "\<exists>i. matching st (sc_clientId c) db' = matching st (sc_clientId c) db @ [(clientDetailsOf c)\<lparr>cd_id := Some i\<rparr>]
    \<and> old \<in> set (matching st (sc_clientId c) db')"
proof -
  have db': "db' = st_save st (clientDetailsOf c) db" using assms(2,3) by (simp add: updateClientDetails_def)
  have "cd_id (clientDetailsOf c) = None" by (simp add: clientDetailsOf_def newClientDetails_def)
  from store_insert [OF assms(1) this, of db] obtain i
    where all: "st_all st db' = st_all st db @ [(clientDetailsOf c)\<lparr>cd_id := Some i\<rparr>]" unfolding db' by blast
  have new: "matching st (sc_clientId c) db' = matching st (sc_clientId c) db @ [(clientDetailsOf c)\<lparr>cd_id := Some i\<rparr>]"
    by (simp add: matching_def all clientDetailsOf_def newClientDetails_def)
  have "old \<in> set (matching st (sc_clientId c) db)"
    using store_find [OF assms(1), of "sc_clientId c" db] assms(2) by (cases "matching st (sc_clientId c) db = []") auto
  with new show ?thesis by (intro exI [of _ i]) simp
qed

end
