(* ===== verification/Mongo_Collection.thy ===== *)
theory Mongo_Collection
  imports Interfaces "HOL-Library.Multiset"
begin

text \<open>
  One collection of MongoDB as the repositories use it through \<open>MongoOperations\<close>: its operations are
  parameters, with the behaviour the driver documents as a named predicate. A query is the predicate
  its criteria stand for. The repositories of \<open>auth/repository\<close> and \<open>mongod/\<close> share the lemmas, the most
  used of which says that \<open>findOne\<close> by a key followed by \<open>save\<close> under the id found keeps one document
  per key.
\<close>

section \<open>The operations\<close>

record ('d, 'db) mongo =
  mg_docs :: "'db \<Rightarrow> 'd set"
  mg_findOne :: "('d \<Rightarrow> bool) \<Rightarrow> 'db \<Rightarrow> 'd option"
  mg_save :: "'d \<Rightarrow> 'db \<Rightarrow> 'db"
  mg_remove :: "('d \<Rightarrow> bool) \<Rightarrow> 'db \<Rightarrow> 'db"
  mg_updateFirst :: "('d \<Rightarrow> bool) \<Rightarrow> ('d \<Rightarrow> 'd) \<Rightarrow> 'db \<Rightarrow> 'db"
  mg_upsert :: "('d \<Rightarrow> bool) \<Rightarrow> 'd \<Rightarrow> ('d \<Rightarrow> 'd) \<Rightarrow> 'db \<Rightarrow> 'db"

text \<open>The documents of a query: \<open>find\<close>, \<open>count\<close> and the number \<open>getN\<close> of a write result.\<close>

definition mg_find :: "('d, 'db) mongo \<Rightarrow> ('d \<Rightarrow> bool) \<Rightarrow> 'db \<Rightarrow> 'd set" where
  "mg_find mg q db = {d \<in> mg_docs mg db. q d}"

definition mg_count :: "('d, 'db) mongo \<Rightarrow> ('d \<Rightarrow> bool) \<Rightarrow> 'db \<Rightarrow> nat" where
  "mg_count mg q db = card (mg_find mg q db)"

text \<open>
  \<open>save\<close> inserts a document without an id under a fresh one and replaces the one with the id
  otherwise. \<open>updateFirst\<close> changes one document that matches, if there is one; \<open>upsert\<close> inserts
  otherwise what the update makes of the document \<open>blank\<close> that has only the fields of the query.
\<close>

definition finds_one :: "('d, 'db) mongo \<Rightarrow> bool" where
  "finds_one mg \<longleftrightarrow>
     (\<forall>q db. case mg_findOne mg q db of None \<Rightarrow> mg_find mg q db = {} | Some d \<Rightarrow> d \<in> mg_find mg q db)"

definition saves :: "('d \<Rightarrow> string option) \<Rightarrow> (string option \<Rightarrow> 'd \<Rightarrow> 'd) \<Rightarrow> ('d, 'db) mongo \<Rightarrow> bool" where
  "saves get_id set_id mg \<longleftrightarrow>
     (\<forall>d db. case get_id d of
        None \<Rightarrow> (\<exists>i. Some i \<notin> get_id ` mg_docs mg db
                   \<and> mg_docs mg (mg_save mg d db) = insert (set_id (Some i) d) (mg_docs mg db))
      | Some i \<Rightarrow> mg_docs mg (mg_save mg d db) = insert d {x \<in> mg_docs mg db. get_id x \<noteq> Some i})"

definition removes :: "('d, 'db) mongo \<Rightarrow> bool" where
  "removes mg \<longleftrightarrow> (\<forall>q db. mg_docs mg (mg_remove mg q db) = {x \<in> mg_docs mg db. \<not> q x})"

definition updates_first :: "('d, 'db) mongo \<Rightarrow> bool" where
  "updates_first mg \<longleftrightarrow>
     (\<forall>q u db. (mg_find mg q db = {} \<and> mg_docs mg (mg_updateFirst mg q u db) = mg_docs mg db)
        \<or> (\<exists>d \<in> mg_find mg q db. mg_docs mg (mg_updateFirst mg q u db) = insert (u d) (mg_docs mg db - {d})))"

definition upserts :: "('d \<Rightarrow> string option) \<Rightarrow> (string option \<Rightarrow> 'd \<Rightarrow> 'd) \<Rightarrow> ('d, 'db) mongo \<Rightarrow> bool" where
  "upserts get_id set_id mg \<longleftrightarrow>
     (\<forall>q blank u db.
        (mg_find mg q db = {} \<and> (\<exists>i. Some i \<notin> get_id ` mg_docs mg db
           \<and> mg_docs mg (mg_upsert mg q blank u db) = insert (set_id (Some i) (u blank)) (mg_docs mg db)))
        \<or> (\<exists>d \<in> mg_find mg q db. mg_docs mg (mg_upsert mg q blank u db) = insert (u d) (mg_docs mg db - {d})))"

definition mongo_documented ::
  "('d \<Rightarrow> string option) \<Rightarrow> (string option \<Rightarrow> 'd \<Rightarrow> 'd) \<Rightarrow> ('d, 'db) mongo \<Rightarrow> bool" where
  "mongo_documented get_id set_id mg \<longleftrightarrow>
     finds_one mg \<and> saves get_id set_id mg \<and> removes mg \<and> updates_first mg \<and> upserts get_id set_id mg"

lemma mongo_laws:
  assumes "mongo_documented get_id set_id mg"
  shows "finds_one mg" "saves get_id set_id mg" "removes mg" "updates_first mg" "upserts get_id set_id mg"
  using assms by (simp_all add: mongo_documented_def)

text \<open>Every stored document has an id of its own.\<close>

definition ids_ok :: "('d \<Rightarrow> string option) \<Rightarrow> ('d, 'db) mongo \<Rightarrow> 'db \<Rightarrow> bool" where
  "ids_ok get_id mg db \<longleftrightarrow> finite (mg_docs mg db) \<and> inj_on get_id (mg_docs mg db) \<and> None \<notin> get_id ` mg_docs mg db"

lemma find_one_cases:
  assumes "mongo_documented get_id set_id mg"
  obtains (none) "mg_findOne mg q db = None" "\<forall>x \<in> mg_docs mg db. \<not> q x"
    | (some) d where "mg_findOne mg q db = Some d" "d \<in> mg_docs mg db" "q d"
proof (cases "mg_findOne mg q db")
  case None
  with mongo_laws(1) [OF assms] have "mg_find mg q db = {}"
    unfolding finds_one_def by (elim allE [of _ q] allE [of _ db]) simp
  with None show ?thesis by (intro none) (auto simp: mg_find_def)
next
  case (Some d)
  with mongo_laws(1) [OF assms] have "d \<in> mg_find mg q db"
    unfolding finds_one_def by (elim allE [of _ q] allE [of _ db]) simp
  with Some show ?thesis by (intro some) (auto simp: mg_find_def)
qed

lemma find_one_none_iff:
  assumes "mongo_documented get_id set_id mg"
  shows "mg_findOne mg q db = None \<longleftrightarrow> (\<forall>d \<in> mg_docs mg db. \<not> q d)"
  using assms by (cases rule: find_one_cases [where q = q and db = db]) auto

lemma save_new:
  assumes "mongo_documented get_id set_id mg" and "get_id d = None"
  obtains i where "Some i \<notin> get_id ` mg_docs mg db" "mg_docs mg (mg_save mg d db) = insert (set_id (Some i) d) (mg_docs mg db)"
  using mongo_laws(2) [OF assms(1)] assms(2) unfolding saves_def
  by (elim allE [of _ d] allE [of _ db]) auto

lemma save_old:
  assumes "mongo_documented get_id set_id mg" and "get_id d = Some i"
  shows "mg_docs mg (mg_save mg d db) = insert d {x \<in> mg_docs mg db. get_id x \<noteq> Some i}"
  using mongo_laws(2) [OF assms(1)] assms(2) unfolding saves_def
  by (elim allE [of _ d] allE [of _ db]) simp

lemma remove_docs:
  "mongo_documented get_id set_id mg \<Longrightarrow> mg_docs mg (mg_remove mg q db) = {x \<in> mg_docs mg db. \<not> q x}"
  by (drule mongo_laws(3)) (simp add: removes_def)

lemma update_docs:
  assumes "mongo_documented get_id set_id mg"
  obtains (none) "\<forall>x \<in> mg_docs mg db. \<not> q x" "mg_docs mg (mg_updateFirst mg q u db) = mg_docs mg db"
    | (some) d where "d \<in> mg_docs mg db" "q d" "mg_docs mg (mg_updateFirst mg q u db) = insert (u d) (mg_docs mg db - {d})"
  using mongo_laws(4) [OF assms] unfolding updates_first_def
  by (elim allE [of _ q] allE [of _ u] allE [of _ db]) (auto simp: mg_find_def)

lemma upsert_docs:
  assumes "mongo_documented get_id set_id mg"
  obtains (none) i where "\<forall>x \<in> mg_docs mg db. \<not> q x" "Some i \<notin> get_id ` mg_docs mg db"
      "mg_docs mg (mg_upsert mg q blank u db) = insert (set_id (Some i) (u blank)) (mg_docs mg db)"
    | (some) d where "d \<in> mg_docs mg db" "q d" "mg_docs mg (mg_upsert mg q blank u db) = insert (u d) (mg_docs mg db - {d})"
  using mongo_laws(5) [OF assms] unfolding upserts_def
  by (elim allE [of _ q] allE [of _ blank] allE [of _ u] allE [of _ db]) (auto simp: mg_find_def)

section \<open>Ids stay distinct\<close>

lemma ids_ok_remove: "mongo_documented get_id set_id mg \<Longrightarrow> ids_ok get_id mg db \<Longrightarrow> ids_ok get_id mg (mg_remove mg q db)"
  by (auto simp: ids_ok_def remove_docs inj_on_def)

lemma ids_ok_save:
  assumes "mongo_documented get_id set_id mg" and "ids_ok get_id mg db" and "\<And>i d. get_id (set_id i d) = i"
  shows "ids_ok get_id mg (mg_save mg d db)"
proof (cases "get_id d")
  case None
  with assms(1) obtain i where "Some i \<notin> get_id ` mg_docs mg db"
    "mg_docs mg (mg_save mg d db) = insert (set_id (Some i) d) (mg_docs mg db)" by (rule save_new)
  with assms(2,3) show ?thesis by (auto simp: ids_ok_def inj_on_def image_iff)
next
  case (Some i)
  with assms(2) show ?thesis by (auto simp: ids_ok_def inj_on_def save_old [OF assms(1)])
qed

lemma ids_ok_update:
  assumes "mongo_documented get_id set_id mg" and "ids_ok get_id mg db" and "\<And>d. get_id (u d) = get_id d"
  shows "ids_ok get_id mg (mg_updateFirst mg q u db)"
  using assms(1)
proof (cases rule: update_docs [where db = db and q = q and u = u])
  case (some d)
  with assms(2,3) show ?thesis by (auto simp: ids_ok_def inj_on_def image_iff)
qed (use assms(2) in \<open>simp add: ids_ok_def\<close>)

lemma ids_ok_upsert:
  assumes "mongo_documented get_id set_id mg" and "ids_ok get_id mg db" and "\<And>d. get_id (u d) = get_id d"
    and "\<And>i d. get_id (set_id i d) = i"
  shows "ids_ok get_id mg (mg_upsert mg q blank u db)"
  using assms(1)
proof (cases rule: upsert_docs [where db = db and q = q and u = u and blank = blank])
  case (none i)
  with assms(2,4) show ?thesis by (auto simp: ids_ok_def inj_on_def image_iff)
next
  case (some d)
  with assms(2,3) show ?thesis by (auto simp: ids_ok_def inj_on_def image_iff)
qed

section \<open>Collections as multisets\<close>

text \<open>A document saved under an id that is not in use is one more document, whatever else is stored.\<close>

lemma bag_save:
  assumes "mongo_documented get_id set_id mg" and "ids_ok get_id mg db"
    and "get_id d = Some i" and "Some i \<notin> get_id ` mg_docs mg db"
  shows "mset_set (mg_docs mg (mg_save mg d db)) = add_mset d (mset_set (mg_docs mg db))
    \<and> ids_ok get_id mg (mg_save mg d db)"
proof -
  have "{x \<in> mg_docs mg db. get_id x \<noteq> Some i} = mg_docs mg db" using assms(4) by (auto simp: image_iff)
  with save_old [OF assms(1,3), of db] have docs: "mg_docs mg (mg_save mg d db) = insert d (mg_docs mg db)" by simp
  moreover have "d \<notin> mg_docs mg db" using assms(3,4) by (metis image_eqI)
  ultimately show ?thesis using assms(2-4) by (auto simp: ids_ok_def inj_on_def image_iff)
qed

lemma bag_remove:
  assumes "mongo_documented get_id set_id mg" and "ids_ok get_id mg db"
  shows "mset_set (mg_docs mg (mg_remove mg q db)) = filter_mset (\<lambda>x. \<not> q x) (mset_set (mg_docs mg db))"
  using assms(2) by (simp add: remove_docs [OF assms(1)] ids_ok_def filter_mset_mset_set)

section \<open>One document per key\<close>

text \<open>
  How the repositories replace a document: the id of the stored one with the same key is taken over.
\<close>

definition save_keyed ::
  "('d \<Rightarrow> string option) \<Rightarrow> (string option \<Rightarrow> 'd \<Rightarrow> 'd) \<Rightarrow> ('d \<Rightarrow> 'k) \<Rightarrow> ('d, 'db) mongo \<Rightarrow> 'd \<Rightarrow> 'db \<Rightarrow> 'db" where
  "save_keyed get_id set_id key mg d db =
     mg_save mg (case mg_findOne mg (\<lambda>x. key x = key d) db of None \<Rightarrow> d | Some t \<Rightarrow> set_id (get_id t) d) db"

definition keyed_ok ::
  "('d \<Rightarrow> string option) \<Rightarrow> (string option \<Rightarrow> 'd \<Rightarrow> 'd) \<Rightarrow> ('d \<Rightarrow> 'k) \<Rightarrow> ('d, 'db) mongo \<Rightarrow> 'db \<Rightarrow> bool" where
  "keyed_ok get_id set_id key mg db \<longleftrightarrow>
     mongo_documented get_id set_id mg \<and> ids_ok get_id mg db \<and> inj_on key (mg_docs mg db)"

lemma keyed_docs_remove:
  "keyed_ok get_id set_id key mg db \<Longrightarrow> mg_docs mg (mg_remove mg P db) = {x \<in> mg_docs mg db. \<not> P x}"
  using remove_docs [of get_id set_id mg P db] by (simp add: keyed_ok_def)

text \<open>What is stored under a key, whatever its id.\<close>

definition find_keyed ::
  "(string option \<Rightarrow> 'd \<Rightarrow> 'd) \<Rightarrow> ('d \<Rightarrow> 'k) \<Rightarrow> ('d, 'db) mongo \<Rightarrow> 'k \<Rightarrow> 'db \<Rightarrow> 'd option" where
  "find_keyed set_id key mg k db = map_option (set_id None) (mg_findOne mg (\<lambda>x. key x = k) db)"

lemma find_one_keyed:
  assumes "mongo_documented get_id set_id mg" and "inj_on key (mg_docs mg db)"
  shows "mg_findOne mg (\<lambda>x. key x = k) db = Some d \<longleftrightarrow> d \<in> mg_docs mg db \<and> key d = k"
  using assms(1)
proof (cases rule: find_one_cases [where q = "\<lambda>x. key x = k" and db = db])
  case (some d')
  with assms(2) show ?thesis by (auto dest: inj_onD)
qed auto

locale document =
  fixes get_id :: "'d \<Rightarrow> string option"
    and set_id :: "string option \<Rightarrow> 'd \<Rightarrow> 'd"
    and key :: "'d \<Rightarrow> 'k"
    and stable :: "('d \<Rightarrow> bool) \<Rightarrow> bool"
  assumes get_set [simp]: "get_id (set_id i d) = i"
    and set_get [simp]: "set_id (get_id d) d = d"
    and set_set [simp]: "set_id i (set_id j d) = set_id i d"
    and key_set [simp]: "key (set_id i d) = key d"
    and stable_set: "stable P \<Longrightarrow> P (set_id i d) = P d"
begin

lemma set_fresh [simp]: "get_id d = None \<Longrightarrow> set_id None d = d"
  using set_get [of d] by simp

text \<open>The documents after \<open>save_keyed\<close>: those with other keys, and the new one under some id.\<close>

lemma save_keyed_docs:
  assumes "keyed_ok get_id set_id key mg db" and "get_id d = None"
  shows "\<exists>i. mg_docs mg (save_keyed get_id set_id key mg d db)
      = insert (set_id (Some i) d) {x \<in> mg_docs mg db. key x \<noteq> key d}"
proof -
  have doc: "mongo_documented get_id set_id mg" and ids: "ids_ok get_id mg db" and inj: "inj_on key (mg_docs mg db)"
    using assms(1) by (simp_all add: keyed_ok_def)
  from doc show ?thesis
  proof (cases rule: find_one_cases [where q = "\<lambda>x. key x = key d" and db = db])
    case none
    obtain i where "Some i \<notin> get_id ` mg_docs mg db"
      and "mg_docs mg (mg_save mg d db) = insert (set_id (Some i) d) (mg_docs mg db)"
      by (rule save_new [OF doc assms(2)])
    moreover have "{x \<in> mg_docs mg db. key x \<noteq> key d} = mg_docs mg db" using none(2) by auto
    ultimately show ?thesis by (intro exI [of _ i]) (simp add: save_keyed_def none(1))
  next
    case (some t)
    with ids obtain i where i: "get_id t = Some i" by (cases "get_id t") (force simp: ids_ok_def)+
    have "{x \<in> mg_docs mg db. get_id x \<noteq> Some i} = {x \<in> mg_docs mg db. key x \<noteq> key d}"
      using some(2,3) inj_on_eq_iff [OF inj _ some(2)] inj_on_eq_iff [of get_id "mg_docs mg db" _ t] ids i
      by (auto simp: ids_ok_def)
    moreover have "mg_docs mg (mg_save mg (set_id (Some i) d) db)
        = insert (set_id (Some i) d) {x \<in> mg_docs mg db. get_id x \<noteq> Some i}"
      by (rule save_old [OF doc]) simp
    ultimately show ?thesis by (intro exI [of _ i]) (simp add: save_keyed_def some(1) i)
  qed
qed

lemma keyed_ok_save:
  assumes "keyed_ok get_id set_id key mg db" and "get_id d = None"
  shows "keyed_ok get_id set_id key mg (save_keyed get_id set_id key mg d db)"
proof -
  from save_keyed_docs [OF assms] obtain i
    where i: "mg_docs mg (save_keyed get_id set_id key mg d db) = insert (set_id (Some i) d) {x \<in> mg_docs mg db. key x \<noteq> key d}"
    by blast
  have "inj_on key (mg_docs mg (save_keyed get_id set_id key mg d db))"
    unfolding i using assms(1) by (auto simp: keyed_ok_def inj_on_def)
  then show ?thesis using assms(1) ids_ok_save [of get_id set_id mg db]
    by (simp add: keyed_ok_def save_keyed_def)
qed

lemma keyed_ok_remove: "keyed_ok get_id set_id key mg db \<Longrightarrow> keyed_ok get_id set_id key mg (mg_remove mg P db)"
  by (auto simp: keyed_ok_def ids_ok_remove remove_docs inj_on_def)

lemma find_keyed_some:
  assumes "keyed_ok get_id set_id key mg db"
  shows "find_keyed set_id key mg k db = Some v \<longleftrightarrow> (\<exists>d \<in> mg_docs mg db. key d = k \<and> v = set_id None d)"
  using assms by (auto simp: find_keyed_def keyed_ok_def find_one_keyed)

end

text \<open>Every such document type makes a keyed store of its collection.\<close>

sublocale document \<subseteq> stored: keyed_store "keyed_ok get_id set_id key mg" "\<lambda>v. get_id v = None" key stable
    "\<lambda>k. find_keyed set_id key mg k" "save_keyed get_id set_id key mg" "mg_remove mg" for mg
proof unfold_locales
  fix db and v :: 'd and j
  assume ok: "keyed_ok get_id set_id key mg db" and v: "get_id v = None"
  show ok': "keyed_ok get_id set_id key mg (save_keyed get_id set_id key mg v db)" by (rule keyed_ok_save [OF ok v])
  from save_keyed_docs [OF ok v] obtain i where
    i: "mg_docs mg (save_keyed get_id set_id key mg v db) = insert (set_id (Some i) v) {x \<in> mg_docs mg db. key x \<noteq> key v}"
    by blast
  have "find_keyed set_id key mg j (save_keyed get_id set_id key mg v db) = Some w
      \<longleftrightarrow> (if j = key v then Some v else find_keyed set_id key mg j db) = Some w" for w
    using v by (auto simp: find_keyed_some [OF ok'] find_keyed_some [OF ok] i)
  then show "find_keyed set_id key mg j (save_keyed get_id set_id key mg v db)
      = (if j = key v then Some v else find_keyed set_id key mg j db)"
    by (metis option.exhaust)
next
  fix db P j
  assume ok: "keyed_ok get_id set_id key mg db" and P: "stable P"
  have "find_keyed set_id key mg j (mg_remove mg P db) = Some w
      \<longleftrightarrow> (case find_keyed set_id key mg j db of None \<Rightarrow> None | Some v \<Rightarrow> if P v then None else Some v) = Some w" for w
  proof -
    have docs: "mg_docs mg (mg_remove mg P db) = {x \<in> mg_docs mg db. \<not> P x}"
      using ok by (rule keyed_docs_remove)
    note after = find_keyed_some [OF keyed_ok_remove [OF ok, of P], of j w]
    show ?thesis
    proof (cases "find_keyed set_id key mg j db")
      case None
      then have "\<forall>d \<in> mg_docs mg db. key d \<noteq> j" using find_keyed_some [OF ok, of j] by auto
      with None show ?thesis unfolding after docs by auto
    next
      case (Some v)
      then obtain d where d: "d \<in> mg_docs mg db" "key d = j" "v = set_id None d"
        using find_keyed_some [OF ok, of j v] by auto
      have only: "x \<in> mg_docs mg db \<and> key x = j \<longleftrightarrow> x = d" for x
        using ok d(1,2) by (auto simp: keyed_ok_def dest: inj_onD)
      have "(\<exists>x \<in> {x \<in> mg_docs mg db. \<not> P x}. key x = j \<and> w = set_id None x)
          \<longleftrightarrow> (\<exists>x. (x \<in> mg_docs mg db \<and> key x = j) \<and> \<not> P x \<and> w = set_id None x)" by blast
      also have "\<dots> \<longleftrightarrow> \<not> P d \<and> w = v" unfolding only d(3) by simp
      finally have "(\<exists>x \<in> {x \<in> mg_docs mg db. \<not> P x}. key x = j \<and> w = set_id None x) \<longleftrightarrow> \<not> P d \<and> w = v" .
      with Some show ?thesis unfolding after docs using stable_set [OF P, of None d] d(3) by auto
    qed
  qed
  then show "find_keyed set_id key mg j (mg_remove mg P db)
      = (case find_keyed set_id key mg j db of None \<Rightarrow> None | Some v \<Rightarrow> if P v then None else Some v)"
    by (metis option.exhaust)
qed (rule keyed_ok_remove)

section \<open>A collection in a list\<close>

text \<open>The documented behaviour can be had: a list of documents, with ids longer than any in use.\<close>

definition fresh_id :: "('d \<Rightarrow> string option) \<Rightarrow> 'd list \<Rightarrow> string" where
  "fresh_id get_id ds = replicate (Suc (sum_list (map (\<lambda>d. case get_id d of None \<Rightarrow> 0 | Some i \<Rightarrow> length i) ds))) CHR ''0''"

lemma fresh_id_new: "Some (fresh_id get_id ds) \<notin> get_id ` set ds"
proof
  let ?len = "\<lambda>d. case get_id d of None \<Rightarrow> 0 | Some i \<Rightarrow> length i"
  assume "Some (fresh_id get_id ds) \<in> get_id ` set ds"
  then obtain d where d: "d \<in> set ds" "get_id d = Some (fresh_id get_id ds)" by force
  have "?len d \<le> sum_list (map ?len ds)" using d(1) by (intro member_le_sum_list) simp_all
  with d(2) show False by (simp add: fresh_id_def)
qed

definition list_mongo :: "('d \<Rightarrow> string option) \<Rightarrow> (string option \<Rightarrow> 'd \<Rightarrow> 'd) \<Rightarrow> ('d, 'd list) mongo" where
  "list_mongo get_id set_id =
     \<lparr>mg_docs = set, mg_findOne = List.find,
      mg_save = (\<lambda>d ds. case get_id d of
                   None \<Rightarrow> ds @ [set_id (Some (fresh_id get_id ds)) d]
                 | Some i \<Rightarrow> filter (\<lambda>x. get_id x \<noteq> Some i) ds @ [d]),
      mg_remove = (\<lambda>q. filter (\<lambda>x. \<not> q x)),
      mg_updateFirst = (\<lambda>q u ds. case List.find q ds of None \<Rightarrow> ds | Some d \<Rightarrow> u d # removeAll d ds),
      mg_upsert = (\<lambda>q blank u ds. case List.find q ds of
                     None \<Rightarrow> set_id (Some (fresh_id get_id ds)) (u blank) # ds
                   | Some d \<Rightarrow> u d # removeAll d ds)\<rparr>"

lemmas list_mongo_simps = list_mongo_def mongo.simps

lemma list_mongo_docs [simp]: "mg_docs (list_mongo get_id set_id) = set"
  by (simp add: list_mongo_def)

lemma list_mongo_documented:
  fixes get_id :: "'d \<Rightarrow> string option"
  shows "mongo_documented get_id set_id (list_mongo get_id set_id)"
proof -
  have find: "List.find q ds = Some d \<Longrightarrow> d \<in> set ds \<and> q d" for q ds and d :: 'd
    by (auto simp: find_Some_iff)
  have none: "List.find q ds = None \<Longrightarrow> {x \<in> set ds. q x} = {}" for q and ds :: "'d list"
    by (auto simp: find_None_iff)
  have "finds_one (list_mongo get_id set_id)"
    by (auto simp: finds_one_def mg_find_def list_mongo_def dest: find none split: option.splits)
  moreover have "saves get_id set_id (list_mongo get_id set_id)"
    using fresh_id_new [of get_id] by (auto simp: saves_def list_mongo_def split: option.splits)
  moreover have "removes (list_mongo get_id set_id)"
    by (simp add: removes_def list_mongo_def)
  moreover have "updates_first (list_mongo get_id set_id)"
    unfolding updates_first_def
  proof (intro allI)
    fix q and u :: "'d \<Rightarrow> 'd" and ds
    show "mg_find (list_mongo get_id set_id) q ds = {}
          \<and> mg_docs (list_mongo get_id set_id) (mg_updateFirst (list_mongo get_id set_id) q u ds) = mg_docs (list_mongo get_id set_id) ds
        \<or> (\<exists>d \<in> mg_find (list_mongo get_id set_id) q ds.
              mg_docs (list_mongo get_id set_id) (mg_updateFirst (list_mongo get_id set_id) q u ds)
                = insert (u d) (mg_docs (list_mongo get_id set_id) ds - {d}))"
      using find [of q ds] none [of q ds] by (cases "List.find q ds") (auto simp: mg_find_def list_mongo_def)
  qed
  moreover have "upserts get_id set_id (list_mongo get_id set_id)"
    unfolding upserts_def
  proof (intro allI)
    fix q and u :: "'d \<Rightarrow> 'd" and blank ds
    show "(mg_find (list_mongo get_id set_id) q ds = {}
          \<and> (\<exists>i. Some i \<notin> get_id ` mg_docs (list_mongo get_id set_id) ds
               \<and> mg_docs (list_mongo get_id set_id) (mg_upsert (list_mongo get_id set_id) q blank u ds)
                   = insert (set_id (Some i) (u blank)) (mg_docs (list_mongo get_id set_id) ds)))
        \<or> (\<exists>d \<in> mg_find (list_mongo get_id set_id) q ds.
              mg_docs (list_mongo get_id set_id) (mg_upsert (list_mongo get_id set_id) q blank u ds)
                = insert (u d) (mg_docs (list_mongo get_id set_id) ds - {d}))"
      using find [of q ds] none [of q ds] fresh_id_new [of get_id ds]
      by (cases "List.find q ds") (auto simp: mg_find_def list_mongo_def)
  qed
  ultimately show ?thesis by (simp add: mongo_documented_def)
qed

end
