(* ===== verification/Token_Store.thy ===== *)
theory Token_Store
  imports Client_Details Mongo_Collection
begin

text \<open>
  \<open>auth/OAuth2RepositoryTokenStore.java\<close> with its repositories and documents, and
  \<open>auth/SimpleTokenEnhancer.java\<close>: the OAuth2 tokens of the clients in two MongoDB collections. The
  collections are parameters with their documented behaviour, as is the key Spring extracts from an
  authentication. Both documents declare a field \<open>id\<close> over the one they inherit from
  \<open>BasePersistenceEntity\<close>. Only the inherited one has the annotation \<open>@Id\<close>, so by the rule of Spring's
  mapping (an annotated id goes before a field that is only named like one) it is the id under which
  a document is saved; \<open>getId\<close> and \<open>setId\<close> use the other one.
\<close>

section \<open>Tokens and documents\<close>

text \<open>What the code uses of Spring's tokens and authentications.\<close>

record refresh_token =
  rt_value :: string
  rt_expiration :: "jlong option"

record access_token =
  tk_value :: string
  tk_refreshToken :: "refresh_token option"
  tk_additionalInformation :: "string \<rightharpoonup> string"

record oauth_authentication =
  oa_name :: string
  oa_clientId :: string

record persistence_entity =
  pe_version :: jint
  pe_id :: "string option"
  pe_timeCreated :: jlong

record access_doc =
  ad_base :: persistence_entity
  ad_id :: "string option"
  ad_tokenId :: string
  ad_token :: access_token
  ad_authenticationId :: string
  ad_userName :: string
  ad_clientId :: string
  ad_authentication :: oauth_authentication
  ad_refreshToken :: string

record refresh_doc =
  rd_base :: persistence_entity
  rd_id :: "string option"
  rd_tokenId :: string
  rd_token :: refresh_token
  rd_authentication :: oauth_authentication

text \<open>
  The constructors, with the random UUID drawn and the time. A token without a refresh token raises
  in the last assignment.
\<close>

definition newPersistenceEntity :: "string \<Rightarrow> jlong \<Rightarrow> persistence_entity" where
  "newPersistenceEntity guid now = \<lparr>pe_version = 0, pe_id = Some guid, pe_timeCreated = now\<rparr>"

definition newAccessDoc ::
  "string \<Rightarrow> jlong \<Rightarrow> access_token \<Rightarrow> oauth_authentication \<Rightarrow> string \<Rightarrow> access_doc result" where
  "newAccessDoc guid now token auth authenticationId =
     (case tk_refreshToken token of
        None \<Rightarrow> Inl NullPointerException
      | Some r \<Rightarrow> Inr \<lparr>ad_base = newPersistenceEntity guid now, ad_id = None, ad_tokenId = tk_value token,
          ad_token = token, ad_authenticationId = authenticationId, ad_userName = oa_name auth,
          ad_clientId = oa_clientId auth, ad_authentication = auth, ad_refreshToken = rt_value r\<rparr>)"

definition newRefreshDoc :: "string \<Rightarrow> jlong \<Rightarrow> refresh_token \<Rightarrow> oauth_authentication \<Rightarrow> refresh_doc" where
  "newRefreshDoc guid now token auth =
     \<lparr>rd_base = newPersistenceEntity guid now, rd_id = None, rd_tokenId = rt_value token, rd_token = token,
      rd_authentication = auth\<rparr>"

definition set_ad_id :: "string option \<Rightarrow> access_doc \<Rightarrow> access_doc" where
  "set_ad_id i d = d\<lparr>ad_id := i\<rparr>"

definition set_rd_id :: "string option \<Rightarrow> refresh_doc \<Rightarrow> refresh_doc" where
  "set_rd_id i d = d\<lparr>rd_id := i\<rparr>"

text \<open>The ids MongoDB knows the documents by.\<close>

definition access_key :: "access_doc \<Rightarrow> string option" where
  "access_key d = pe_id (ad_base d)"

definition set_access_key :: "string option \<Rightarrow> access_doc \<Rightarrow> access_doc" where
  "set_access_key i d = d\<lparr>ad_base := (ad_base d)\<lparr>pe_id := i\<rparr>\<rparr>"

definition refresh_key :: "refresh_doc \<Rightarrow> string option" where
  "refresh_key d = pe_id (rd_base d)"

definition set_refresh_key :: "string option \<Rightarrow> refresh_doc \<Rightarrow> refresh_doc" where
  "set_refresh_key i d = d\<lparr>rd_base := (rd_base d)\<lparr>pe_id := i\<rparr>\<rparr>"

section \<open>The repositories\<close>

definition repo_storeAccessToken :: "(access_doc, 'a) mongo \<Rightarrow> access_doc \<Rightarrow> 'a \<Rightarrow> 'a" where
  "repo_storeAccessToken mg d db =
     (let temp = mg_findOne mg (\<lambda>x. ad_tokenId x = ad_tokenId d) db;
          d' = (case temp of None \<Rightarrow> d | Some t \<Rightarrow> set_ad_id (ad_id t) d)
      in mg_save mg d' db)"

definition repo_storeRefreshToken :: "(refresh_doc, 'r) mongo \<Rightarrow> refresh_doc \<Rightarrow> 'r \<Rightarrow> 'r" where
  "repo_storeRefreshToken mg d db =
     (let temp = mg_findOne mg (\<lambda>x. rd_tokenId x = rd_tokenId d) db;
          d' = (case temp of None \<Rightarrow> d | Some t \<Rightarrow> set_rd_id (rd_id t) d)
      in mg_save mg d' db)"

definition repo_removeRefreshToken :: "(refresh_doc, 'r) mongo \<Rightarrow> refresh_token \<Rightarrow> 'r \<Rightarrow> 'r" where
  "repo_removeRefreshToken mg r db = mg_remove mg (\<lambda>d. rd_tokenId d = rt_value r) db"

definition repo_removeAccessTokenUsingRefreshToken :: "(access_doc, 'a) mongo \<Rightarrow> refresh_token \<Rightarrow> 'a \<Rightarrow> 'a" where
  "repo_removeAccessTokenUsingRefreshToken mg r db = mg_remove mg (\<lambda>d. ad_refreshToken d = rt_value r) db"

definition repo_removeAccessToken :: "(access_doc, 'a) mongo \<Rightarrow> access_token \<Rightarrow> 'a \<Rightarrow> 'a" where
  "repo_removeAccessToken mg t db = mg_remove mg (\<lambda>d. ad_tokenId d = tk_value t) db"

section \<open>The token store\<close>

record ('a, 'r) token_store =
  ts_access :: "(access_doc, 'a) mongo"
  ts_refresh :: "(refresh_doc, 'r) mongo"
  ts_extractKey :: "oauth_authentication \<Rightarrow> string"

definition storeAccessToken ::
  "('a, 'r) token_store \<Rightarrow> string \<Rightarrow> jlong \<Rightarrow> access_token \<Rightarrow> oauth_authentication \<Rightarrow> 'a \<times> 'r \<Rightarrow> unit result \<times> 'a \<times> 'r" where
  "storeAccessToken ts guid now token auth db =
     (case newAccessDoc guid now token auth (ts_extractKey ts auth) of
        Inl e \<Rightarrow> (Inl e, db)
      | Inr d \<Rightarrow> (Inr (), repo_storeAccessToken (ts_access ts) d (fst db), snd db))"

definition readAccessToken :: "('a, 'r) token_store \<Rightarrow> string \<Rightarrow> 'a \<times> 'r \<Rightarrow> access_token option" where
  "readAccessToken ts tokenValue db =
     map_option ad_token (mg_findOne (ts_access ts) (\<lambda>d. ad_tokenId d = tokenValue) (fst db))"

definition readAuthentication :: "('a, 'r) token_store \<Rightarrow> string \<Rightarrow> 'a \<times> 'r \<Rightarrow> oauth_authentication result" where
  "readAuthentication ts tokenId db =
     (case mg_findOne (ts_access ts) (\<lambda>d. ad_tokenId d = tokenId) (fst db) of
        None \<Rightarrow> Inl NullPointerException
      | Some d \<Rightarrow> Inr (ad_authentication d))"

definition removeAccessToken :: "('a, 'r) token_store \<Rightarrow> access_token \<Rightarrow> 'a \<times> 'r \<Rightarrow> 'a \<times> 'r" where
  "removeAccessToken ts t db = (repo_removeAccessToken (ts_access ts) t (fst db), snd db)"

definition storeRefreshToken ::
  "('a, 'r) token_store \<Rightarrow> string \<Rightarrow> jlong \<Rightarrow> refresh_token \<Rightarrow> oauth_authentication \<Rightarrow> 'a \<times> 'r \<Rightarrow> 'a \<times> 'r" where
  "storeRefreshToken ts guid now r auth db =
     (fst db, repo_storeRefreshToken (ts_refresh ts) (newRefreshDoc guid now r auth) (snd db))"

definition readRefreshToken :: "('a, 'r) token_store \<Rightarrow> string \<Rightarrow> 'a \<times> 'r \<Rightarrow> refresh_token result" where
  "readRefreshToken ts tokenValue db =
     (case mg_findOne (ts_refresh ts) (\<lambda>d. rd_tokenId d = tokenValue) (snd db) of
        None \<Rightarrow> Inl NullPointerException
      | Some d \<Rightarrow> Inr (rd_token d))"

definition readAuthenticationForRefreshToken ::
  "('a, 'r) token_store \<Rightarrow> refresh_token \<Rightarrow> 'a \<times> 'r \<Rightarrow> oauth_authentication result" where
  "readAuthenticationForRefreshToken ts r db =
     (case mg_findOne (ts_refresh ts) (\<lambda>d. rd_tokenId d = rt_value r) (snd db) of
        None \<Rightarrow> Inl NullPointerException
      | Some d \<Rightarrow> Inr (rd_authentication d))"

definition removeRefreshToken :: "('a, 'r) token_store \<Rightarrow> refresh_token \<Rightarrow> 'a \<times> 'r \<Rightarrow> 'a \<times> 'r" where
  "removeRefreshToken ts r db = (fst db, repo_removeRefreshToken (ts_refresh ts) r (snd db))"

definition removeAccessTokenUsingRefreshToken :: "('a, 'r) token_store \<Rightarrow> refresh_token \<Rightarrow> 'a \<times> 'r \<Rightarrow> 'a \<times> 'r" where
  "removeAccessTokenUsingRefreshToken ts r db = (repo_removeAccessTokenUsingRefreshToken (ts_access ts) r (fst db), snd db)"

definition getAccessToken :: "('a, 'r) token_store \<Rightarrow> oauth_authentication \<Rightarrow> 'a \<times> 'r \<Rightarrow> access_token option" where
  "getAccessToken ts auth db =
     map_option ad_token (mg_findOne (ts_access ts) (\<lambda>d. ad_authenticationId d = ts_extractKey ts auth) (fst db))"

text \<open>The searches answer a list with one entry for each document found, in no order of their own.\<close>

definition findTokensByClientIdAndUserName ::
  "('a, 'r) token_store \<Rightarrow> string \<Rightarrow> string \<Rightarrow> 'a \<times> 'r \<Rightarrow> access_token multiset" where
  "findTokensByClientIdAndUserName ts clientId userName db =
     image_mset ad_token
       (mset_set (mg_find (ts_access ts) (\<lambda>d. ad_clientId d = clientId \<and> ad_userName d = userName) (fst db)))"

definition findTokensByClientId :: "('a, 'r) token_store \<Rightarrow> string \<Rightarrow> 'a \<times> 'r \<Rightarrow> access_token multiset" where
  "findTokensByClientId ts clientId db =
     image_mset ad_token (mset_set (mg_find (ts_access ts) (\<lambda>d. ad_clientId d = clientId) (fst db)))"

section \<open>What the store means\<close>

text \<open>
  Two multisets, of the access tokens and of the refresh tokens, each token with its authentication.
  Storing adds, whatever is stored already; removing takes all with the value.
\<close>

type_synonym tokens = "(access_token \<times> oauth_authentication) multiset \<times> (refresh_token \<times> oauth_authentication) multiset"

datatype token_op =
    StoreAccess string jlong access_token oauth_authentication
  | RemoveAccess access_token
  | StoreRefresh string jlong refresh_token oauth_authentication
  | RemoveRefresh refresh_token
  | RemoveAccessUsing refresh_token

fun token_step :: "('a, 'r) token_store \<Rightarrow> token_op \<Rightarrow> 'a \<times> 'r \<Rightarrow> 'a \<times> 'r" where
  "token_step ts (StoreAccess guid now t au) db = snd (storeAccessToken ts guid now t au db)"
| "token_step ts (RemoveAccess t) db = removeAccessToken ts t db"
| "token_step ts (StoreRefresh guid now r au) db = storeRefreshToken ts guid now r au db"
| "token_step ts (RemoveRefresh r) db = removeRefreshToken ts r db"
| "token_step ts (RemoveAccessUsing r) db = removeAccessTokenUsingRefreshToken ts r db"

fun token_meant :: "token_op \<Rightarrow> tokens \<Rightarrow> tokens" where
  "token_meant (StoreAccess guid now t au) (A, R) = (if tk_refreshToken t = None then A else add_mset (t, au) A, R)"
| "token_meant (RemoveAccess t) (A, R) = (filter_mset (\<lambda>(t', au). tk_value t' \<noteq> tk_value t) A, R)"
| "token_meant (StoreRefresh guid now r au) (A, R) = (A, add_mset (r, au) R)"
| "token_meant (RemoveRefresh r) (A, R) = (A, filter_mset (\<lambda>(r', au). rt_value r' \<noteq> rt_value r) R)"
| "token_meant (RemoveAccessUsing r) (A, R) =
     (filter_mset (\<lambda>(t, au). map_option rt_value (tk_refreshToken t) \<noteq> Some (rt_value r)) A, R)"

text \<open>Every random UUID is drawn for the first time.\<close>

fun drawn_fresh :: "('a, 'r) token_store \<Rightarrow> token_op \<Rightarrow> 'a \<times> 'r \<Rightarrow> bool" where
  "drawn_fresh ts (StoreAccess guid now t au) db \<longleftrightarrow> Some guid \<notin> access_key ` mg_docs (ts_access ts) (fst db)"
| "drawn_fresh ts (StoreRefresh guid now r au) db \<longleftrightarrow> Some guid \<notin> refresh_key ` mg_docs (ts_refresh ts) (snd db)"
| "drawn_fresh ts op db \<longleftrightarrow> True"

primrec all_fresh :: "('a, 'r) token_store \<Rightarrow> token_op list \<Rightarrow> 'a \<times> 'r \<Rightarrow> bool" where
  "all_fresh ts [] db \<longleftrightarrow> True"
| "all_fresh ts (op # ops) db \<longleftrightarrow> drawn_fresh ts op db \<and> all_fresh ts ops (token_step ts op db)"

text \<open>The fields the queries look at are those of the stored token and authentication.\<close>

definition access_made :: "('a, 'r) token_store \<Rightarrow> access_doc \<Rightarrow> bool" where
  "access_made ts d \<longleftrightarrow> ad_tokenId d = tk_value (ad_token d)
     \<and> map_option rt_value (tk_refreshToken (ad_token d)) = Some (ad_refreshToken d)
     \<and> ad_clientId d = oa_clientId (ad_authentication d) \<and> ad_userName d = oa_name (ad_authentication d)
     \<and> ad_authenticationId d = ts_extractKey ts (ad_authentication d)"

definition refresh_made :: "refresh_doc \<Rightarrow> bool" where
  "refresh_made d \<longleftrightarrow> rd_tokenId d = rt_value (rd_token d)"

definition tokens_ok :: "('a, 'r) token_store \<Rightarrow> 'a \<times> 'r \<Rightarrow> bool" where
  "tokens_ok ts db \<longleftrightarrow>
     mongo_documented access_key set_access_key (ts_access ts)
   \<and> mongo_documented refresh_key set_refresh_key (ts_refresh ts)
   \<and> ids_ok access_key (ts_access ts) (fst db) \<and> ids_ok refresh_key (ts_refresh ts) (snd db)
   \<and> (\<forall>d \<in> mg_docs (ts_access ts) (fst db). access_made ts d)
   \<and> (\<forall>d \<in> mg_docs (ts_refresh ts) (snd db). refresh_made d)"

definition access_entry :: "access_doc \<Rightarrow> access_token \<times> oauth_authentication" where
  "access_entry d = (ad_token d, ad_authentication d)"

definition refresh_entry :: "refresh_doc \<Rightarrow> refresh_token \<times> oauth_authentication" where
  "refresh_entry d = (rd_token d, rd_authentication d)"

definition abs_tokens :: "('a, 'r) token_store \<Rightarrow> 'a \<times> 'r \<Rightarrow> tokens" where
  "abs_tokens ts db =
     (image_mset access_entry (mset_set (mg_docs (ts_access ts) (fst db))),
      image_mset refresh_entry (mset_set (mg_docs (ts_refresh ts) (snd db))))"

lemma newAccessDoc_made:
  assumes "newAccessDoc guid now t au (ts_extractKey ts au) = Inr d"
  shows "access_made ts (set_ad_id i d) \<and> access_key (set_ad_id i d) = Some guid
    \<and> access_entry (set_ad_id i d) = (t, au) \<and> access_made ts d \<and> access_key d = Some guid \<and> access_entry d = (t, au)
    \<and> tk_refreshToken t \<noteq> None"
  using assms by (auto simp: newAccessDoc_def newPersistenceEntity_def set_ad_id_def access_made_def access_key_def
      access_entry_def split: option.splits)

lemma newRefreshDoc_made:
  "refresh_made (set_rd_id i (newRefreshDoc guid now r au))" "refresh_made (newRefreshDoc guid now r au)"
  "refresh_key (set_rd_id i (newRefreshDoc guid now r au)) = Some guid" "refresh_key (newRefreshDoc guid now r au) = Some guid"
  "refresh_entry (set_rd_id i (newRefreshDoc guid now r au)) = (r, au)" "refresh_entry (newRefreshDoc guid now r au) = (r, au)"
  by (simp_all add: newRefreshDoc_def newPersistenceEntity_def set_rd_id_def refresh_made_def refresh_key_def
      refresh_entry_def)

text \<open>Whichever document the query finds, the one that is saved has the new UUID.\<close>

lemma repo_storeAccessToken_bag:
  assumes "tokens_ok ts db" and "newAccessDoc guid now t au (ts_extractKey ts au) = Inr d"
    and "Some guid \<notin> access_key ` mg_docs (ts_access ts) (fst db)"
    and "repo_storeAccessToken (ts_access ts) d (fst db) = adb"
  shows "\<exists>d'. access_made ts d' \<and> access_entry d' = (t, au) \<and> ids_ok access_key (ts_access ts) adb
    \<and> mset_set (mg_docs (ts_access ts) adb) = add_mset d' (mset_set (mg_docs (ts_access ts) (fst db)))"
proof -
  obtain d' where d': "adb = mg_save (ts_access ts) d' (fst db)" "d' = d \<or> (\<exists>i. d' = set_ad_id i d)"
    using assms(4) that by (cases "mg_findOne (ts_access ts) (\<lambda>x. ad_tokenId x = ad_tokenId d) (fst db)")
      (auto simp: repo_storeAccessToken_def Let_def)
  then have "access_made ts d' \<and> access_key d' = Some guid \<and> access_entry d' = (t, au)"
    using newAccessDoc_made [OF assms(2)] by auto
  with bag_save [of access_key set_access_key "ts_access ts" "fst db" d' guid] assms(1,3) d'(1) show ?thesis
    by (auto simp: tokens_ok_def)
qed

lemma repo_storeRefreshToken_bag:
  assumes "tokens_ok ts db" and "Some guid \<notin> refresh_key ` mg_docs (ts_refresh ts) (snd db)"
    and "repo_storeRefreshToken (ts_refresh ts) (newRefreshDoc guid now r au) (snd db) = rdb"
  shows "\<exists>d'. refresh_made d' \<and> refresh_entry d' = (r, au) \<and> ids_ok refresh_key (ts_refresh ts) rdb
    \<and> mset_set (mg_docs (ts_refresh ts) rdb) = add_mset d' (mset_set (mg_docs (ts_refresh ts) (snd db)))"
proof -
  let ?d = "newRefreshDoc guid now r au"
  obtain d' where d': "rdb = mg_save (ts_refresh ts) d' (snd db)" "d' = ?d \<or> (\<exists>i. d' = set_rd_id i ?d)"
    using assms(3) that by (cases "mg_findOne (ts_refresh ts) (\<lambda>x. rd_tokenId x = rd_tokenId ?d) (snd db)")
      (auto simp: repo_storeRefreshToken_def Let_def)
  then have "refresh_made d' \<and> refresh_key d' = Some guid \<and> refresh_entry d' = (r, au)"
    using newRefreshDoc_made by auto
  with bag_save [of refresh_key set_refresh_key "ts_refresh ts" "snd db" d' guid] assms(1,2) d'(1) show ?thesis
    by (auto simp: tokens_ok_def)
qed

lemma docs_of_bag:
  assumes "mset_set A = add_mset d (mset_set B)" and "finite A" and "finite B"
  shows "A = insert d B"
  using arg_cong [OF assms(1), of set_mset] assms(2,3) by simp

section \<open>One step at a time\<close>

lemma filter_entries:
  assumes "finite D" and "\<And>d. d \<in> D \<Longrightarrow> P d \<longleftrightarrow> Q (e d)"
  shows "image_mset e (filter_mset P (mset_set D)) = filter_mset Q (image_mset e (mset_set D))"
proof -
  have "filter_mset P (mset_set D) = filter_mset (\<lambda>d. Q (e d)) (mset_set D)"
    using assms by (intro filter_mset_cong) auto
  then show ?thesis by (simp add: filter_mset_image_mset)
qed

lemma step_store:
  assumes "tokens_ok ts db" and "drawn_fresh ts op db"
    and "op = StoreAccess guid now t au \<or> op = StoreRefresh guid now r au"
  shows "tokens_ok ts (token_step ts op db)
    \<and> abs_tokens ts (token_step ts op db) = token_meant op (abs_tokens ts db)"
proof (cases "op = StoreAccess guid now t au")
  case True
  show ?thesis
  proof (cases "newAccessDoc guid now t au (ts_extractKey ts au)")
    case (Inl e)
    then have "tk_refreshToken t = None" by (auto simp: newAccessDoc_def split: option.splits)
    then show ?thesis using assms(1) by (simp add: True storeAccessToken_def Inl abs_tokens_def)
  next
    case (Inr d)
    obtain adb where adb: "repo_storeAccessToken (ts_access ts) d (fst db) = adb" by blast
    from repo_storeAccessToken_bag [OF assms(1) Inr _ adb] assms(2) True obtain d' where
      d': "access_made ts d'" "access_entry d' = (t, au)" "ids_ok access_key (ts_access ts) adb"
        "mset_set (mg_docs (ts_access ts) adb) = add_mset d' (mset_set (mg_docs (ts_access ts) (fst db)))" by auto
    then have "mg_docs (ts_access ts) adb = insert d' (mg_docs (ts_access ts) (fst db))"
      using assms(1) by (intro docs_of_bag) (auto simp: tokens_ok_def ids_ok_def)
    then show ?thesis using assms(1) d' adb newAccessDoc_made [OF Inr]
      by (simp add: True storeAccessToken_def Inr tokens_ok_def abs_tokens_def)
  qed
next
  case False
  with assms(3) have op: "op = StoreRefresh guid now r au" by simp
  obtain rdb where rdb: "repo_storeRefreshToken (ts_refresh ts) (newRefreshDoc guid now r au) (snd db) = rdb" by blast
  from repo_storeRefreshToken_bag [OF assms(1) _ rdb] assms(2) op obtain d' where
    d': "refresh_made d'" "refresh_entry d' = (r, au)" "ids_ok refresh_key (ts_refresh ts) rdb"
      "mset_set (mg_docs (ts_refresh ts) rdb) = add_mset d' (mset_set (mg_docs (ts_refresh ts) (snd db)))" by auto
  then have "mg_docs (ts_refresh ts) rdb = insert d' (mg_docs (ts_refresh ts) (snd db))"
    using assms(1) by (intro docs_of_bag) (auto simp: tokens_ok_def ids_ok_def)
  then show ?thesis using assms(1) d' rdb by (simp add: op storeRefreshToken_def tokens_ok_def abs_tokens_def)
qed

text \<open>A removal by a query that can be read off the token.\<close>

lemma remove_access:
  assumes "tokens_ok ts db" and "\<And>d. access_made ts d \<Longrightarrow> q d \<longleftrightarrow> \<not> Q (access_entry d)"
  shows "tokens_ok ts (mg_remove (ts_access ts) q (fst db), snd db)
    \<and> abs_tokens ts (mg_remove (ts_access ts) q (fst db), snd db)
      = (filter_mset Q (fst (abs_tokens ts db)), snd (abs_tokens ts db))"
proof -
  have doc: "mongo_documented access_key set_access_key (ts_access ts)" and ids: "ids_ok access_key (ts_access ts) (fst db)"
    and made: "\<forall>d \<in> mg_docs (ts_access ts) (fst db). access_made ts d" using assms(1) by (simp_all add: tokens_ok_def)
  have "image_mset access_entry (filter_mset (\<lambda>x. \<not> q x) (mset_set (mg_docs (ts_access ts) (fst db))))
      = filter_mset Q (image_mset access_entry (mset_set (mg_docs (ts_access ts) (fst db))))"
    using ids made assms(2) by (intro filter_entries) (auto simp: ids_ok_def)
  then show ?thesis using assms(1) ids_ok_remove [OF doc ids] remove_docs [OF doc] bag_remove [OF doc ids]
    by (simp add: tokens_ok_def abs_tokens_def)
qed

lemma remove_refresh:
  assumes "tokens_ok ts db" and "\<And>d. refresh_made d \<Longrightarrow> q d \<longleftrightarrow> \<not> Q (refresh_entry d)"
  shows "tokens_ok ts (fst db, mg_remove (ts_refresh ts) q (snd db))
    \<and> abs_tokens ts (fst db, mg_remove (ts_refresh ts) q (snd db))
      = (fst (abs_tokens ts db), filter_mset Q (snd (abs_tokens ts db)))"
proof -
  have doc: "mongo_documented refresh_key set_refresh_key (ts_refresh ts)" and ids: "ids_ok refresh_key (ts_refresh ts) (snd db)"
    and made: "\<forall>d \<in> mg_docs (ts_refresh ts) (snd db). refresh_made d" using assms(1) by (simp_all add: tokens_ok_def)
  have "image_mset refresh_entry (filter_mset (\<lambda>x. \<not> q x) (mset_set (mg_docs (ts_refresh ts) (snd db))))
      = filter_mset Q (image_mset refresh_entry (mset_set (mg_docs (ts_refresh ts) (snd db))))"
    using ids made assms(2) by (intro filter_entries) (auto simp: ids_ok_def)
  then show ?thesis using assms(1) ids_ok_remove [OF doc ids] remove_docs [OF doc] bag_remove [OF doc ids]
    by (simp add: tokens_ok_def abs_tokens_def)
qed

lemma step_ok:
  assumes "tokens_ok ts db" and "drawn_fresh ts op db"
  shows "tokens_ok ts (token_step ts op db)
    \<and> abs_tokens ts (token_step ts op db) = token_meant op (abs_tokens ts db)"
proof (cases op)
  case (StoreAccess guid now t au)
  then show ?thesis by (intro step_store [OF assms, of guid now t au _]) simp
next
  case (StoreRefresh guid now r au)
  then show ?thesis by (intro step_store [OF assms, of guid now _ au r]) simp
next
  case (RemoveAccess t)
  have "tokens_ok ts (mg_remove (ts_access ts) (\<lambda>d. ad_tokenId d = tk_value t) (fst db), snd db)
      \<and> abs_tokens ts (mg_remove (ts_access ts) (\<lambda>d. ad_tokenId d = tk_value t) (fst db), snd db)
        = (filter_mset (\<lambda>(t', au). tk_value t' \<noteq> tk_value t) (fst (abs_tokens ts db)), snd (abs_tokens ts db))"
    by (rule remove_access [OF assms(1)]) (simp add: access_made_def access_entry_def)
  then show ?thesis
    by (cases "abs_tokens ts db") (simp add: RemoveAccess removeAccessToken_def repo_removeAccessToken_def)
next
  case (RemoveRefresh r)
  have "tokens_ok ts (fst db, mg_remove (ts_refresh ts) (\<lambda>d. rd_tokenId d = rt_value r) (snd db))
      \<and> abs_tokens ts (fst db, mg_remove (ts_refresh ts) (\<lambda>d. rd_tokenId d = rt_value r) (snd db))
        = (fst (abs_tokens ts db), filter_mset (\<lambda>(r', au). rt_value r' \<noteq> rt_value r) (snd (abs_tokens ts db)))"
    by (rule remove_refresh [OF assms(1)]) (simp add: refresh_made_def refresh_entry_def)
  then show ?thesis
    by (cases "abs_tokens ts db") (simp add: RemoveRefresh removeRefreshToken_def repo_removeRefreshToken_def)
next
  case (RemoveAccessUsing r)
  have "tokens_ok ts (mg_remove (ts_access ts) (\<lambda>d. ad_refreshToken d = rt_value r) (fst db), snd db)
      \<and> abs_tokens ts (mg_remove (ts_access ts) (\<lambda>d. ad_refreshToken d = rt_value r) (fst db), snd db)
        = (filter_mset (\<lambda>(t, au). map_option rt_value (tk_refreshToken t) \<noteq> Some (rt_value r)) (fst (abs_tokens ts db)),
           snd (abs_tokens ts db))"
    by (rule remove_access [OF assms(1)]) (auto simp: access_made_def access_entry_def)
  then show ?thesis
    by (cases "abs_tokens ts db")
      (simp add: RemoveAccessUsing removeAccessTokenUsingRefreshToken_def repo_removeAccessTokenUsingRefreshToken_def)
qed

section \<open>Whole histories\<close>

definition run_tokens :: "('a, 'r) token_store \<Rightarrow> token_op list \<Rightarrow> 'a \<times> 'r \<Rightarrow> 'a \<times> 'r" where
  "run_tokens ts ops db = fold (token_step ts) ops db"

lemma run_tokens_meant:
  "tokens_ok ts db \<Longrightarrow> all_fresh ts ops db \<Longrightarrow> tokens_ok ts (run_tokens ts ops db)
     \<and> abs_tokens ts (run_tokens ts ops db) = fold token_meant ops (abs_tokens ts db)"
  unfolding run_tokens_def by (induction ops arbitrary: db) (simp_all add: step_ok)

text \<open>A query answers something of a set, and nothing (null, or an exception) only when it is empty.\<close>

definition answers_one_of :: "'x option \<Rightarrow> 'x set \<Rightarrow> bool" where
  "answers_one_of r X \<longleftrightarrow> (case r of None \<Rightarrow> X = {} | Some x \<Rightarrow> x \<in> X)"

definition answers_or_raises :: "'x result \<Rightarrow> 'x set \<Rightarrow> bool" where
  "answers_or_raises r X \<longleftrightarrow> (case r of Inl e \<Rightarrow> e = NullPointerException \<and> X = {} | Inr x \<Rightarrow> x \<in> X)"

lemma find_access_meant:
  assumes "tokens_ok ts db" and "\<And>d. access_made ts d \<Longrightarrow> q d \<longleftrightarrow> Q (access_entry d)"
  shows "answers_one_of (map_option access_entry (mg_findOne (ts_access ts) q (fst db)))
      {e. e \<in># fst (abs_tokens ts db) \<and> Q e}"
proof -
  have doc: "mongo_documented access_key set_access_key (ts_access ts)" and fin: "finite (mg_docs (ts_access ts) (fst db))"
    and made: "\<forall>d \<in> mg_docs (ts_access ts) (fst db). access_made ts d"
    using assms(1) by (simp_all add: tokens_ok_def ids_ok_def)
  from doc show ?thesis
    by (cases rule: find_one_cases [where q = q and db = "fst db"])
      (use fin made assms(2) in \<open>auto simp: answers_one_of_def abs_tokens_def\<close>)
qed

lemma find_refresh_meant:
  assumes "tokens_ok ts db"
  shows "answers_one_of (map_option refresh_entry (mg_findOne (ts_refresh ts) (\<lambda>d. rd_tokenId d = v) (snd db)))
      {e. e \<in># snd (abs_tokens ts db) \<and> rt_value (fst e) = v}"
proof -
  have doc: "mongo_documented refresh_key set_refresh_key (ts_refresh ts)" and fin: "finite (mg_docs (ts_refresh ts) (snd db))"
    and made: "\<forall>d \<in> mg_docs (ts_refresh ts) (snd db). refresh_made d"
    using assms(1) by (simp_all add: tokens_ok_def ids_ok_def)
  from doc show ?thesis
    by (cases rule: find_one_cases [where q = "\<lambda>d. rd_tokenId d = v" and db = "snd db"])
      (use fin made in \<open>auto simp: answers_one_of_def abs_tokens_def refresh_made_def refresh_entry_def\<close>)
qed

lemma answers_image: "answers_one_of r X \<Longrightarrow> answers_one_of (map_option f r) (f ` X)"
  by (cases r) (auto simp: answers_one_of_def)

lemma reads_meant:
  assumes "tokens_ok ts db" and "abs_tokens ts db = (A, R)"
  shows "answers_one_of (readAccessToken ts v db) {t. \<exists>au. (t, au) \<in># A \<and> tk_value t = v}"
    and "answers_or_raises (readAuthentication ts v db) {au. \<exists>t. (t, au) \<in># A \<and> tk_value t = v}"
    and "answers_or_raises (readRefreshToken ts v db) {r. \<exists>au. (r, au) \<in># R \<and> rt_value r = v}"
    and "answers_or_raises (readAuthenticationForRefreshToken ts r db) {au. \<exists>r'. (r', au) \<in># R \<and> rt_value r' = rt_value r}"
    and "answers_one_of (getAccessToken ts au db) {t. \<exists>au'. (t, au') \<in># A \<and> ts_extractKey ts au' = ts_extractKey ts au}"
proof -
  have a: "answers_one_of (map_option access_entry (mg_findOne (ts_access ts) (\<lambda>d. ad_tokenId d = v) (fst db)))
      {e. e \<in># A \<and> tk_value (fst e) = v}"
    using find_access_meant [OF assms(1), of "\<lambda>d. ad_tokenId d = v" "\<lambda>e. tk_value (fst e) = v"] assms(2)
    by (simp add: access_made_def access_entry_def)
  show "answers_one_of (readAccessToken ts v db) {t. \<exists>au. (t, au) \<in># A \<and> tk_value t = v}"
    using a by (force simp: readAccessToken_def answers_one_of_def access_entry_def split: option.splits)
  show "answers_or_raises (readAuthentication ts v db) {au. \<exists>t. (t, au) \<in># A \<and> tk_value t = v}"
    using a by (force simp: readAuthentication_def answers_one_of_def answers_or_raises_def access_entry_def split: option.splits)
  note r = find_refresh_meant [OF assms(1)]
  show "answers_or_raises (readRefreshToken ts v db) {r. \<exists>au. (r, au) \<in># R \<and> rt_value r = v}"
    using r [of v] assms(2)
    by (force simp: readRefreshToken_def answers_one_of_def answers_or_raises_def refresh_entry_def split: option.splits)
  show "answers_or_raises (readAuthenticationForRefreshToken ts r db) {au. \<exists>r'. (r', au) \<in># R \<and> rt_value r' = rt_value r}"
    using r [of "rt_value r"] assms(2)
    by (force simp: readAuthenticationForRefreshToken_def answers_one_of_def answers_or_raises_def refresh_entry_def
        split: option.splits)
  have "answers_one_of (map_option access_entry
          (mg_findOne (ts_access ts) (\<lambda>d. ad_authenticationId d = ts_extractKey ts au) (fst db)))
      {e. e \<in># A \<and> ts_extractKey ts (snd e) = ts_extractKey ts au}"
    using find_access_meant [OF assms(1), of "\<lambda>d. ad_authenticationId d = ts_extractKey ts au"
        "\<lambda>e. ts_extractKey ts (snd e) = ts_extractKey ts au"] assms(2)
    by (simp add: access_made_def access_entry_def)
  then show "answers_one_of (getAccessToken ts au db) {t. \<exists>au'. (t, au') \<in># A \<and> ts_extractKey ts au' = ts_extractKey ts au}"
    by (force simp: getAccessToken_def answers_one_of_def access_entry_def split: option.splits)
qed

lemma finds_meant:
  assumes "tokens_ok ts db" and "abs_tokens ts db = (A, R)"
  shows "findTokensByClientId ts c db = image_mset fst (filter_mset (\<lambda>(t, au). oa_clientId au = c) A)"
    and "findTokensByClientIdAndUserName ts c u db =
      image_mset fst (filter_mset (\<lambda>(t, au). oa_clientId au = c \<and> oa_name au = u) A)"
proof -
  have fin: "finite (mg_docs (ts_access ts) (fst db))" and made: "\<forall>d \<in> mg_docs (ts_access ts) (fst db). access_made ts d"
    using assms(1) by (simp_all add: tokens_ok_def ids_ok_def)
  have tok: "image_mset ad_token D = image_mset fst (image_mset access_entry D)" for D
    by (simp add: access_entry_def multiset.map_comp comp_def)
  have A: "A = image_mset access_entry (mset_set (mg_docs (ts_access ts) (fst db)))"
    using assms(2) by (simp add: abs_tokens_def)
  have find: "image_mset ad_token (mset_set (mg_find (ts_access ts) P (fst db))) = image_mset fst (filter_mset Q A)"
    if "\<And>d. access_made ts d \<Longrightarrow> P d \<longleftrightarrow> Q (access_entry d)" for P Q
  proof -
    have "mset_set (mg_find (ts_access ts) P (fst db)) = filter_mset P (mset_set (mg_docs (ts_access ts) (fst db)))"
      using fin by (simp add: mg_find_def filter_mset_mset_set)
    moreover have "image_mset access_entry (filter_mset P (mset_set (mg_docs (ts_access ts) (fst db)))) = filter_mset Q A"
      unfolding A using fin made that by (intro filter_entries) auto
    ultimately show ?thesis by (simp add: tok)
  qed
  show "findTokensByClientId ts c db = image_mset fst (filter_mset (\<lambda>(t, au). oa_clientId au = c) A)"
    unfolding findTokensByClientId_def by (rule find) (simp add: access_made_def access_entry_def)
  show "findTokensByClientIdAndUserName ts c u db =
      image_mset fst (filter_mset (\<lambda>(t, au). oa_clientId au = c \<and> oa_name au = u) A)"
    unfolding findTokensByClientIdAndUserName_def by (rule find) (simp add: access_made_def access_entry_def)
qed

text \<open>
  Claim C11. What the token store keeps: after any sequence of its operations (each drawing a new UUID)
  the two collections are two multisets in which storing adds an entry and removing takes all entries
  with the value. Storing a token again therefore leaves both entries, the replacement that the
  code looks up never happens, since \<open>setId\<close> does not reach the id of the document. Reading a token or
  its authentication answers one of the entries stored under the value, and the search by
  authentication one of those stored for it; nothing stored is null for an access token and a
  \<open>NullPointerException\<close> for everything else. The two searches by client answer exactly the stored
  entries, each as often as it was stored. Storing an access token without a refresh token changes
  nothing.
\<close>

theorem token_store_refines:
  assumes "tokens_ok ts db" and "all_fresh ts ops db" and "run_tokens ts ops db = db'"
    and "fold token_meant ops (abs_tokens ts db) = (A, R)"
  shows "tokens_ok ts db'
    \<and> answers_one_of (readAccessToken ts v db') {t. \<exists>au. (t, au) \<in># A \<and> tk_value t = v}
    \<and> answers_or_raises (readAuthentication ts v db') {au. \<exists>t. (t, au) \<in># A \<and> tk_value t = v}
    \<and> answers_or_raises (readRefreshToken ts v db') {r. \<exists>au. (r, au) \<in># R \<and> rt_value r = v}
    \<and> answers_or_raises (readAuthenticationForRefreshToken ts r db') {au. \<exists>r'. (r', au) \<in># R \<and> rt_value r' = rt_value r}
    \<and> answers_one_of (getAccessToken ts au db') {t. \<exists>au'. (t, au') \<in># A \<and> ts_extractKey ts au' = ts_extractKey ts au}
    \<and> findTokensByClientId ts c db' = image_mset fst (filter_mset (\<lambda>(t, au). oa_clientId au = c) A)
    \<and> findTokensByClientIdAndUserName ts c u db'
        = image_mset fst (filter_mset (\<lambda>(t, au). oa_clientId au = c \<and> oa_name au = u) A)"
proof -
  from run_tokens_meant [OF assms(1,2)] assms(3,4) have ok: "tokens_ok ts db'" and abs: "abs_tokens ts db' = (A, R)"
    by auto
  show ?thesis by (intro conjI ok reads_meant [OF ok abs] finds_meant [OF ok abs])
qed

text \<open>Two empty collections in lists.\<close>

definition list_tokens :: "(access_doc list, refresh_doc list) token_store" where
  "list_tokens = \<lparr>ts_access = list_mongo access_key set_access_key, ts_refresh = list_mongo refresh_key set_refresh_key,
     ts_extractKey = oa_clientId\<rparr>"

lemma list_tokens_ok: "tokens_ok list_tokens ([], [])"
  by (simp add: tokens_ok_def list_tokens_def list_mongo_documented ids_ok_def)

definition sample_token :: access_token where
  "sample_token = \<lparr>tk_value = ''t'', tk_refreshToken = Some \<lparr>rt_value = ''r'', rt_expiration = None\<rparr>,
     tk_additionalInformation = Map.empty\<rparr>"

definition sample_auth :: oauth_authentication where
  "sample_auth = \<lparr>oa_name = ''n'', oa_clientId = ''c''\<rparr>"

text \<open>The same token stored twice is found twice.\<close>

theorem token_store_refines_witness:
  "let db = run_tokens list_tokens [StoreAccess ''1'' 5 sample_token sample_auth, StoreAccess ''2'' 6 sample_token sample_auth] ([], [])
   in readAccessToken list_tokens ''t'' db = Some sample_token
    \<and> findTokensByClientId list_tokens ''c'' db = {#sample_token, sample_token#}
    \<and> readRefreshToken list_tokens ''r'' db = Inl NullPointerException"
proof -
  let ?ops = "[StoreAccess ''1'' 5 sample_token sample_auth, StoreAccess ''2'' 6 sample_token sample_auth]"
  have fresh: "all_fresh list_tokens ?ops ([], [])"
    by (simp add: list_tokens_def list_mongo_simps storeAccessToken_def newAccessDoc_def sample_token_def
        repo_storeAccessToken_def newPersistenceEntity_def access_key_def)
  have "abs_tokens list_tokens ([], []) = ({#}, {#})" by (simp add: abs_tokens_def list_tokens_def)
  then have m: "fold token_meant ?ops (abs_tokens list_tokens ([], []))
      = ({#(sample_token, sample_auth), (sample_token, sample_auth)#}, {#})"
    by (simp add: sample_token_def)
  let ?db = "run_tokens list_tokens ?ops ([], [])"
  let ?r = "\<lparr>rt_value = ''r'', rt_expiration = None\<rparr>"
  note facts = token_store_refines [OF list_tokens_ok fresh refl m, where c = "''c''" and u = "[]" and au = sample_auth and r = ?r]
  have "answers_one_of (readAccessToken list_tokens ''t'' ?db) {t. t = sample_token \<and> tk_value t = ''t''}"
    using facts [where v = "''t''"] by simp
  then have "readAccessToken list_tokens ''t'' ?db = Some sample_token"
    by (auto simp: answers_one_of_def sample_token_def split: option.splits)
  moreover have "answers_or_raises (readRefreshToken list_tokens ''r'' ?db) {}" using facts [where v = "''r''"] by simp
  then have "readRefreshToken list_tokens ''r'' ?db = Inl NullPointerException"
    by (auto simp: answers_or_raises_def split: sum.splits)
  moreover have "findTokensByClientId list_tokens ''c'' ?db = {#sample_token, sample_token#}"
    using facts [where v = "[]"] by (simp add: sample_auth_def)
  ultimately show ?thesis by (simp add: Let_def)
qed

section \<open>The key in the token\<close>

text \<open>
  \<open>SimpleTokenEnhancer.enhance\<close>: \<open>pem\<close> is the PEM form of the public key of a pair, null when it
  could not be written. The key-pair manager looks up and caches as for decryption.
\<close>

definition enhance ::
  "(string \<Rightarrow> 'k option option) \<Rightarrow> ('k \<Rightarrow> string option) \<Rightarrow> access_token \<Rightarrow> oauth_authentication
   \<Rightarrow> 'k pair_map \<Rightarrow> access_token \<times> 'k pair_map" where
  "enhance lookup pem token auth m =
     (case getKeyPair lookup (oa_clientId auth) m of
        (None, m') \<Rightarrow> (token, m')
      | (Some pair, m') \<Rightarrow>
          (if is_empty_str (pem pair) then token
           else token\<lparr>tk_additionalInformation := [''public_key'' \<mapsto> the (pem pair)]\<rparr>, m'))"

text \<open>A token stored under a value that is not in use is the one read back.\<close>

lemma stored_token_read:
  assumes "tokens_ok ts db" and "tk_refreshToken t \<noteq> None" and "drawn_fresh ts (StoreAccess guid now t au) db"
    and "\<forall>d \<in> mg_docs (ts_access ts) (fst db). ad_tokenId d \<noteq> tk_value t"
    and "storeAccessToken ts guid now t au db = (r, db')"
  shows "r = Inr () \<and> readAccessToken ts (tk_value t) db' = Some t \<and> readAuthentication ts (tk_value t) db' = Inr au"
proof -
  obtain A R where abs: "abs_tokens ts db = (A, R)" by fastforce
  have fin: "finite (mg_docs (ts_access ts) (fst db))" and made: "\<forall>d \<in> mg_docs (ts_access ts) (fst db). access_made ts d"
    using assms(1) by (simp_all add: tokens_ok_def ids_ok_def)
  have new: "(t', au') \<in># A \<Longrightarrow> tk_value t' \<noteq> tk_value t" for t' au'
    using abs fin made assms(4) by (auto simp: abs_tokens_def access_entry_def access_made_def)
  have ok: "tokens_ok ts db'" "abs_tokens ts db' = (add_mset (t, au) A, R)"
    using step_ok [OF assms(1,3)] assms(2,5) by (simp_all add: abs)
  have "r = Inr ()" using assms(2,5) by (auto simp: storeAccessToken_def newAccessDoc_def)
  moreover have "{x. \<exists>a. (x, a) \<in># add_mset (t, au) A \<and> tk_value x = tk_value t} = {t}"
    and "{a. \<exists>x. (x, a) \<in># add_mset (t, au) A \<and> tk_value x = tk_value t} = {au}" using new by auto
  ultimately show ?thesis using reads_meant(1,2) [OF ok, of "tk_value t"]
    by (auto simp: answers_one_of_def answers_or_raises_def split: option.splits sum.splits)
qed

text \<open>
  The RSA of the server: PKCS1 padding with a modulus of 2048 bits takes up to 245 bytes. The padding
  is random, so a client has many texts for the same bytes; each of them is decrypted.
\<close>

definition rsa_documented :: "('k \<Rightarrow> byte list \<Rightarrow> byte list option) \<Rightarrow> (string \<Rightarrow> byte list \<Rightarrow> byte list \<Rightarrow> bool)
    \<Rightarrow> 'k \<Rightarrow> string \<Rightarrow> bool" where
  "rsa_documented rsa encrypts pair k \<longleftrightarrow>
     (\<forall>d x. encrypts k d x \<longrightarrow> length d \<le> 245 \<longrightarrow> rsa pair x = Some d)"

text \<open>
  Claim C28. A client of a new application gets the key it needs: the first access token issued to it
  carries the PEM form of the public key of the application, and nothing else; stored under a value
  that is not in use (token values are random UUIDs of Spring's), the token and its authentication
  can be read back from the store; and whatever the client encrypts with this key, up to the 245
  bytes that RSA takes (a security key of AES has at most 32), is decrypted by the server.
\<close>

theorem issued_key_decrypts:
  assumes "codec_documented kc" and "client_store_documented st" and "name \<noteq> []" and "key \<noteq> []"
    and "\<forall>d \<in> set (st_all st db). cd_clientId d \<noteq> Some key" and "m key = None"
    and "createApp kc st p now key secret pair (Inr (name, description)) db = (r, db')"
    and "pem pair = Some k" and "k \<noteq> []" and "rsa_documented rsa encrypts pair k"
    and "tokens_ok ts tdb" and "tk_refreshToken t \<noteq> None" and "oa_clientId au = key"
    and "enhance (pair_lookup kc st db') pem t au m = (t', m')"
    and "\<forall>d \<in> mg_docs (ts_access ts) (fst tdb). ad_tokenId d \<noteq> tk_value t"
    and "Some guid \<notin> access_key ` mg_docs (ts_access ts) (fst tdb)"
    and "storeAccessToken ts guid time t' au tdb = (r', tdb')"
    and "length d \<le> 245" and "encrypts k d x"
  shows "tk_additionalInformation t' = [''public_key'' \<mapsto> k]
    \<and> r' = Inr () \<and> readAccessToken ts (tk_value t) tdb' = Some t' \<and> readAuthentication ts (tk_value t) tdb' = Inr au
    \<and> fst (decrypt (pair_lookup kc st db') rsa (Some (oa_clientId au)) (Some x) m') = Some d"
proof -
  have pair: "stored_pair (pair_lookup kc st db') key = Some pair"
    using createApp_stored [OF assms(1-3,5,7)] by blast
  then have key: "getKeyPair (pair_lookup kc st db') key m = (Some pair, m(key \<mapsto> pair))"
    using assms(6) by (simp add: getKeyPair_def)
  then have t': "t' = t\<lparr>tk_additionalInformation := [''public_key'' \<mapsto> k]\<rparr>" "m' = m(key \<mapsto> pair)"
    using assms(8,9,13,14) by (simp_all add: enhance_def)
  have "rsa pair x = Some d" using assms(10,18,19) by (simp add: rsa_documented_def)
  moreover have "tk_refreshToken t' \<noteq> None" "tk_value t' = tk_value t" using assms(12) by (simp_all add: t'(1))
  ultimately show ?thesis
    using stored_token_read [OF assms(11) _ _ _ assms(17)] assms(4,13,15,16) t'
    by (simp add: decrypt_cases getKeyPair_def)
qed

text \<open>A cipher for the example: it pads to 256 bytes, and answers nothing for other lengths.\<close>

definition toy_rsa :: "byte list \<Rightarrow> byte list \<Rightarrow> byte list option" where
  "toy_rsa pair x = (if length x = 256 then Some (drop (256 - unat (hd x)) x) else None)"

definition toy_encrypts :: "string \<Rightarrow> byte list \<Rightarrow> byte list \<Rightarrow> bool" where
  "toy_encrypts k d x \<longleftrightarrow> (\<exists>pad. length pad + length d = 255 \<and> x = of_nat (length d) # pad @ d)"

lemma toy_rsa_documented: "rsa_documented toy_rsa toy_encrypts pair k"
proof -
  have "drop (256 - length d) (w # pad @ d) = d" if "length pad + length d = 255" "length d \<le> 245" for w pad and d :: "byte list"
  proof -
    have "256 - length d = Suc (length pad)" using that by simp
    then show ?thesis by simp
  qed
  then show ?thesis by (auto simp: rsa_documented_def toy_rsa_def toy_encrypts_def unat_of_nat)
qed

theorem issued_key_decrypts_witness:
  "\<exists>db' t' m' tdb' x. createApp plain_codec list_store sample_server 1 ''c'' ''secret'' [1] (Inr (''app'', [])) [] = (Inr (), db')
     \<and> enhance (pair_lookup plain_codec list_store db') (\<lambda>k. Some ''pem'') sample_token sample_auth Map.empty = (t', m')
     \<and> storeAccessToken list_tokens ''1'' 5 t' sample_auth ([], []) = (Inr (), tdb')
     \<and> readAccessToken list_tokens ''t'' tdb' = Some t' \<and> tk_additionalInformation t' = [''public_key'' \<mapsto> ''pem'']
     \<and> fst (decrypt (pair_lookup plain_codec list_store db') toy_rsa (Some ''c'') (Some x) m') = Some [1, 2]"
proof -
  obtain r db' where c: "createApp plain_codec list_store sample_server 1 ''c'' ''secret'' [1] (Inr (''app'', [])) [] = (r, db')"
    by fastforce
  obtain t' m' where e: "enhance (pair_lookup plain_codec list_store db') (\<lambda>k. Some ''pem'') sample_token sample_auth Map.empty = (t', m')"
    by fastforce
  obtain r' tdb' where s: "storeAccessToken list_tokens ''1'' 5 t' sample_auth ([], []) = (r', tdb')" by (metis surj_pair)
  have all: "\<forall>d \<in> set (st_all list_store []). cd_clientId d \<noteq> Some ''c''" by (simp add: list_store_def)
  have x: "toy_encrypts ''pem'' [1, 2] (2 # replicate 253 0 @ [1, 2])"
    unfolding toy_encrypts_def by (intro exI [of _ "replicate 253 0"]) simp
  from issued_key_decrypts [OF plain_codec_ok list_store_ok _ _ all _ c _ _ toy_rsa_documented list_tokens_ok _ _ e _ _ s _ x]
  have t: "tk_additionalInformation t' = [''public_key'' \<mapsto> ''pem'']" "r' = Inr ()" "readAccessToken list_tokens ''t'' tdb' = Some t'"
    "fst (decrypt (pair_lookup plain_codec list_store db') toy_rsa (Some ''c'') (Some (2 # replicate 253 0 @ [1, 2])) m') = Some [1, 2]"
    by (simp_all add: sample_token_def sample_auth_def list_tokens_def)
  have "r = Inr ()" using c by (simp add: createApp_def)
  with c e s t show ?thesis by blast
qed

end
