(* ===== verification/User_Profiles.thy ===== *)
theory User_Profiles
  imports Mongo_Collection Global_Grants
begin

text \<open>
  \<open>mongod/ClientUserRepository.java\<close>, \<open>mongod/ControlProfileRepository.java\<close>, \<open>entity/ControlProfile.java\<close>
  and the profile requests of \<open>rest/SystemRestController.java\<close>: the users that have reported, one
  document for each, and the upload profiles that apply to them.
\<close>

section \<open>Users\<close>

definition set_cu_id :: "string option \<Rightarrow> client_user \<Rightarrow> client_user" where
  "set_cu_id i u = u\<lparr>cu_id := i\<rparr>"

definition user_key :: "client_user \<Rightarrow> string option \<times> string option" where
  "user_key u = (cu_uid u, cu_appId u)"

interpretation user_docs: document cu_id set_cu_id user_key "\<lambda>P. \<forall>i d. P (set_cu_id i d) = P d"
  by unfold_locales (simp_all add: set_cu_id_def user_key_def)

text \<open>The document of a query on uid and application alone; the primitive fields have Java's defaults.\<close>

definition blank_user :: "string option \<Rightarrow> string option \<Rightarrow> client_user" where
  "blank_user uid appId =
     \<lparr>cu_id = None, cu_platform = 0, cu_clientId = None, cu_uid = uid, cu_deviceId = None, cu_alias = None,
      cu_model = None, cu_imei = None, cu_macAddress = None, cu_osVersion = None, cu_appId = appId, cu_version = 0,
      cu_versionString = None, cu_level = 0, cu_recordOn = False\<rparr>"

definition user_update :: "client_user \<Rightarrow> client_user \<Rightarrow> client_user" where
  "user_update u d =
     d\<lparr>cu_platform := cu_platform u, cu_clientId := cu_clientId u, cu_deviceId := cu_deviceId u,
       cu_alias := cu_alias u, cu_model := cu_model u, cu_imei := cu_imei u, cu_macAddress := cu_macAddress u,
       cu_osVersion := cu_osVersion u, cu_version := cu_version u, cu_versionString := cu_versionString u,
       cu_level := cu_level u, cu_recordOn := cu_recordOn u\<rparr>"

definition saveUser :: "(client_user, 'db) mongo \<Rightarrow> client_user \<Rightarrow> 'db \<Rightarrow> 'db" where
  "saveUser mg u db =
     mg_upsert mg (\<lambda>d. cu_uid d = cu_uid u \<and> cu_appId d = cu_appId u) (blank_user (cu_uid u) (cu_appId u)) (user_update u) db"

definition findByUidAndAppId ::
  "(client_user, 'db) mongo \<Rightarrow> jint \<Rightarrow> string option \<Rightarrow> string option \<Rightarrow> 'db \<Rightarrow> client_user option" where
  "findByUidAndAppId mg platform uid appId db =
     mg_findOne mg (\<lambda>d. cu_platform d = platform \<and> cu_uid d = uid \<and> cu_appId d = appId) db"

definition findUserById :: "(client_user, 'db) mongo \<Rightarrow> string \<Rightarrow> 'db \<Rightarrow> client_user option" where
  "findUserById mg i db = mg_findOne mg (\<lambda>d. cu_id d = Some i) db"

definition findByUid :: "(client_user, 'db) mongo \<Rightarrow> string option \<Rightarrow> 'db \<Rightarrow> client_user option" where
  "findByUid mg uid db = mg_findOne mg (\<lambda>d. cu_uid d = uid) db"

definition deleteUser :: "(client_user, 'db) mongo \<Rightarrow> client_user \<Rightarrow> 'db \<Rightarrow> bool \<times> 'db" where
  "deleteUser mg u db = (0 < mg_count mg (\<lambda>d. cu_id d = cu_id u) db, mg_remove mg (\<lambda>d. cu_id d = cu_id u) db)"

definition bindDeviceId ::
  "(client_user, 'db) mongo \<Rightarrow> (client_user \<Rightarrow> bool) \<Rightarrow> string option \<Rightarrow> 'db \<Rightarrow> bool \<times> 'db" where
  "bindDeviceId mg criteria deviceId db =
     (\<exists>d \<in> mg_docs mg db. criteria d, mg_updateFirst mg criteria (\<lambda>d. d\<lparr>cu_deviceId := deviceId\<rparr>) db)"

definition countUsers :: "(client_user, 'db) mongo \<Rightarrow> string option \<Rightarrow> 'db \<Rightarrow> nat" where
  "countUsers mg clientId db = mg_count mg (\<lambda>d. cu_clientId d = clientId) db"

lemma user_update_fields [simp]:
  "cu_id (user_update u d) = cu_id d" "user_key (user_update u d) = user_key d"
  "cu_uid (user_update u d) = cu_uid d" "cu_appId (user_update u d) = cu_appId d"
  "cu_platform (user_update u d) = cu_platform u"
  by (simp_all add: user_update_def user_key_def)

text \<open>An update of a document with the same user makes it the reported user, but for its id.\<close>

lemma user_update_same: "user_key d = user_key u \<Longrightarrow> user_update u d = set_cu_id (cu_id d) u"
  by (cases u, cases d) (simp add: user_update_def user_key_def set_cu_id_def)

lemma user_key_matches: "cu_uid d = cu_uid u \<and> cu_appId d = cu_appId u \<longleftrightarrow> user_key d = user_key u"
  by (simp add: user_key_def)

lemma saveUser_docs:
  assumes "keyed_ok cu_id set_cu_id user_key mg db"
  shows "\<exists>i. mg_docs mg (saveUser mg u db) = insert (set_cu_id (Some i) u) {x \<in> mg_docs mg db. user_key x \<noteq> user_key u}
    \<and> (Some i \<notin> cu_id ` {x \<in> mg_docs mg db. user_key x \<noteq> user_key u})"
proof -
  have doc: "mongo_documented cu_id set_cu_id mg" and ids: "ids_ok cu_id mg db" and inj: "inj_on user_key (mg_docs mg db)"
    using assms by (simp_all add: keyed_ok_def)
  let ?q = "\<lambda>d. cu_uid d = cu_uid u \<and> cu_appId d = cu_appId u"
  let ?blank = "blank_user (cu_uid u) (cu_appId u)"
  from doc show ?thesis
  proof (cases rule: upsert_docs [where q = ?q and blank = ?blank and u = "user_update u" and db = db])
    case (none i)
    have "set_cu_id (Some i) (user_update u ?blank) = set_cu_id (Some i) u"
      by (cases u) (simp add: set_cu_id_def user_update_def blank_user_def)
    moreover have "{x \<in> mg_docs mg db. user_key x \<noteq> user_key u} = mg_docs mg db"
      using none(1) by (auto simp: user_key_def)
    ultimately show ?thesis using none(2,3) by (intro exI [of _ i]) (simp add: saveUser_def)
  next
    case (some d)
    then have d: "user_key d = user_key u" by (simp add: user_key_matches)
    from ids some(1) obtain i where i: "cu_id d = Some i" by (cases "cu_id d") (force simp: ids_ok_def)+
    have others: "mg_docs mg db - {d} = {x \<in> mg_docs mg db. user_key x \<noteq> user_key u}"
      using inj_on_eq_iff [OF inj _ some(1)] d by auto
    have "Some i \<notin> cu_id ` (mg_docs mg db - {d})"
      using ids some(1) i by (auto simp: ids_ok_def dest: inj_onD)
    with some(3) user_update_same [OF d] i show ?thesis unfolding others saveUser_def by auto
  qed
qed

lemma keyed_ok_saveUser:
  assumes "keyed_ok cu_id set_cu_id user_key mg db"
  shows "keyed_ok cu_id set_cu_id user_key mg (saveUser mg u db)"
proof -
  from saveUser_docs [OF assms, of u] obtain i where
    "mg_docs mg (saveUser mg u db) = insert (set_cu_id (Some i) u) {x \<in> mg_docs mg db. user_key x \<noteq> user_key u}" by blast
  then have "inj_on user_key (mg_docs mg (saveUser mg u db))"
    using assms by (auto simp: keyed_ok_def inj_on_def)
  moreover have "ids_ok cu_id mg (saveUser mg u db)"
    unfolding saveUser_def using assms by (intro ids_ok_upsert [where set_id = set_cu_id]) (simp_all add: keyed_ok_def)
  ultimately show ?thesis using assms by (simp add: keyed_ok_def)
qed

text \<open>The upsert, too, keeps one document per user.\<close>

interpretation users: keyed_store "keyed_ok cu_id set_cu_id user_key mg" "\<lambda>u. cu_id u = None" user_key
    "\<lambda>P. \<forall>i d. P (set_cu_id i d) = P d" "\<lambda>k. find_keyed set_cu_id user_key mg k" "saveUser mg" "mg_remove mg" for mg
proof unfold_locales
  fix db j and u :: client_user
  assume ok: "keyed_ok cu_id set_cu_id user_key mg db" and u: "cu_id u = None"
  from saveUser_docs [OF ok, of u] obtain i where
    i: "mg_docs mg (saveUser mg u db) = insert (set_cu_id (Some i) u) {x \<in> mg_docs mg db. user_key x \<noteq> user_key u}" by blast
  have "find_keyed set_cu_id user_key mg j (saveUser mg u db) = Some w
      \<longleftrightarrow> (if j = user_key u then Some u else find_keyed set_cu_id user_key mg j db) = Some w" for w
    using u by (auto simp: user_docs.find_keyed_some [OF keyed_ok_saveUser [OF ok]] user_docs.find_keyed_some [OF ok] i)
  then show "find_keyed set_cu_id user_key mg j (saveUser mg u db)
      = (if j = user_key u then Some u else find_keyed set_cu_id user_key mg j db)" by (metis option.exhaust)
qed (auto intro: keyed_ok_saveUser user_docs.stored.get_drop user_docs.keyed_ok_remove)

text \<open>
  One document per user and application: a report replaces what the user with this uid and
  application reported before, whatever the platform, and touches nobody else. So the user is found
  again under the reported platform with exactly the reported data; but a user of the same uid and
  application on another platform is no longer there.
\<close>

theorem user_report_replaces:
  assumes "keyed_ok cu_id set_cu_id user_key mg db" and "saveUser mg u db = db'"
  shows "keyed_ok cu_id set_cu_id user_key mg db'
    \<and> (\<exists>i. findByUidAndAppId mg (cu_platform u) (cu_uid u) (cu_appId u) db' = Some (set_cu_id (Some i) u))
    \<and> (platform \<noteq> cu_platform u \<longrightarrow> findByUidAndAppId mg platform (cu_uid u) (cu_appId u) db' = None)
    \<and> ((uid, appId) \<noteq> (cu_uid u, cu_appId u) \<longrightarrow>
         findByUidAndAppId mg platform uid appId db' = findByUidAndAppId mg platform uid appId db)"
proof -
  from saveUser_docs [OF assms(1), of u] assms(2) obtain i where
    i: "mg_docs mg db' = insert (set_cu_id (Some i) u) {x \<in> mg_docs mg db. user_key x \<noteq> user_key u}" by blast
  have ok: "keyed_ok cu_id set_cu_id user_key mg db'" using keyed_ok_saveUser [OF assms(1), of u] assms(2) by simp
  have found: "findByUidAndAppId mg p x a db'' = Some d
      \<longleftrightarrow> d \<in> mg_docs mg db'' \<and> user_key d = (x, a) \<and> cu_platform d = p"
    if ok: "keyed_ok cu_id set_cu_id user_key mg db''" for p x a db'' d
  proof -
    have doc: "mongo_documented cu_id set_cu_id mg" using ok by (simp add: keyed_ok_def)
    then show ?thesis unfolding findByUidAndAppId_def
    proof (cases rule: find_one_cases [where q = "\<lambda>d. cu_platform d = p \<and> cu_uid d = x \<and> cu_appId d = a" and db = db''])
      case (some d')
      then show "(mg_findOne mg (\<lambda>d. cu_platform d = p \<and> cu_uid d = x \<and> cu_appId d = a) db'' = Some d)
          = (d \<in> mg_docs mg db'' \<and> user_key d = (x, a) \<and> cu_platform d = p)"
        using ok by (auto simp: keyed_ok_def user_key_def inj_on_def)
    qed (auto simp: user_key_def)
  qed
  have "findByUidAndAppId mg (cu_platform u) (cu_uid u) (cu_appId u) db' = Some (set_cu_id (Some i) u)"
    by (simp add: found [OF ok] i) (simp add: set_cu_id_def user_key_def)
  moreover have "findByUidAndAppId mg platform (cu_uid u) (cu_appId u) db' = None" if "platform \<noteq> cu_platform u"
  proof (cases "findByUidAndAppId mg platform (cu_uid u) (cu_appId u) db'")
    case (Some d)
    then have "d \<in> mg_docs mg db'" "user_key d = user_key u" "cu_platform d = platform"
      using found [OF ok] by (simp_all add: user_key_def)
    with that show ?thesis by (auto simp: i set_cu_id_def)
  qed
  moreover have "findByUidAndAppId mg platform uid appId db' = findByUidAndAppId mg platform uid appId db"
    if "(uid, appId) \<noteq> (cu_uid u, cu_appId u)"
  proof -
    have "findByUidAndAppId mg platform uid appId db' = Some d \<longleftrightarrow> findByUidAndAppId mg platform uid appId db = Some d" for d
      using that by (auto simp: found [OF ok] found [OF assms(1)] i set_cu_id_def user_key_def)
    then show ?thesis by (metis option.exhaust)
  qed
  ultimately show ?thesis using ok by blast
qed

lemma list_users_ok: "keyed_ok cu_id set_cu_id user_key (list_mongo cu_id set_cu_id) []"
  by (simp add: keyed_ok_def list_mongo_documented ids_ok_def)

theorem user_report_replaces_witness:
  "findByUidAndAppId (list_mongo cu_id set_cu_id) 1 None None
     (saveUser (list_mongo cu_id set_cu_id) (sample_user\<lparr>cu_platform := 2\<rparr>) (saveUser (list_mongo cu_id set_cu_id) sample_user [])) = None"
proof -
  have "keyed_ok cu_id set_cu_id user_key (list_mongo cu_id set_cu_id) (saveUser (list_mongo cu_id set_cu_id) sample_user [])"
    by (rule keyed_ok_saveUser [OF list_users_ok])
  from user_report_replaces [OF this refl, of "sample_user\<lparr>cu_platform := 2\<rparr>" 1 None None] show ?thesis
    by (simp add: sample_user_def)
qed

section \<open>Control profiles\<close>

definition set_cp_id :: "string option \<Rightarrow> control_profile \<Rightarrow> control_profile" where
  "set_cp_id i p = p\<lparr>cp_id := i\<rparr>"

definition profile_key :: "control_profile \<Rightarrow> jint option \<times> string option \<times> string option \<times> string option" where
  "profile_key p = (cp_platform p, cp_uid p, cp_alias p, cp_appId p)"

interpretation profile_docs: document cp_id set_cp_id profile_key "\<lambda>P. \<forall>i d. P (set_cp_id i d) = P d"
  by unfold_locales (simp_all add: set_cp_id_def profile_key_def)

definition saveProfile :: "(control_profile, 'db) mongo \<Rightarrow> control_profile \<Rightarrow> 'db \<Rightarrow> bool \<times> 'db" where
  "saveProfile mg p db =
     (if \<not> is_empty_str (cp_id p) then (True, mg_save mg p db)
      else let count = mg_count mg (\<lambda>d. cp_platform d = cp_platform p \<and> cp_uid d = cp_uid p \<and> cp_alias d = cp_alias p
                                     \<and> cp_appId d = cp_appId p) db
           in if 0 < count then (False, db) else (True, mg_save mg p db))"

definition deleteProfile_repo :: "(control_profile, 'db) mongo \<Rightarrow> string \<Rightarrow> 'db \<Rightarrow> bool \<times> 'db" where
  "deleteProfile_repo mg i db = (0 < mg_count mg (\<lambda>d. cp_id d = Some i) db, mg_remove mg (\<lambda>d. cp_id d = Some i) db)"

definition findProfile :: "(control_profile, 'db) mongo \<Rightarrow> string \<Rightarrow> 'db \<Rightarrow> control_profile option" where
  "findProfile mg i db = mg_findOne mg (\<lambda>d. cp_id d = Some i) db"

definition findAllByUser :: "(control_profile, 'db) mongo \<Rightarrow> client_user \<Rightarrow> 'db \<Rightarrow> control_profile set" where
  "findAllByUser mg u db =
     mg_find mg (\<lambda>d. cp_platform d = Some (cu_platform u) \<and> cp_uid d \<in> {cu_uid u, Some []}
       \<and> cp_alias d \<in> {cu_alias u, Some []} \<and> cp_appId d \<in> {cu_appId u, Some []}) db"

text \<open>The requests of the controller.\<close>

definition createProfile :: "(control_profile, 'db) mongo \<Rightarrow> control_profile \<Rightarrow> 'db \<Rightarrow> unit answer \<times> 'db" where
  "createProfile mg p db =
     (case saveProfile mg p db of (successful, db') \<Rightarrow> (if successful then Inr () else Inl BadRequestException, db'))"

definition updateProfile :: "(control_profile, 'db) mongo \<Rightarrow> string \<Rightarrow> control_profile \<Rightarrow> 'db \<Rightarrow> unit answer \<times> 'db" where
  "updateProfile mg i p db =
     (case saveProfile mg (set_cp_id (Some i) p) db of
        (successful, db') \<Rightarrow> (if successful then Inr () else Inl BadRequestException, db'))"

definition viewProfile :: "(control_profile, 'db) mongo \<Rightarrow> string \<Rightarrow> 'db \<Rightarrow> control_profile answer" where
  "viewProfile mg i db = (case findProfile mg i db of Some p \<Rightarrow> Inr p | None \<Rightarrow> Inl NotFoundException)"

definition deleteProfile :: "(control_profile, 'db) mongo \<Rightarrow> string \<Rightarrow> 'db \<Rightarrow> unit answer \<times> 'db" where
  "deleteProfile mg i db =
     (case deleteProfile_repo mg i db of (deleted, db') \<Rightarrow> (if \<not> deleted then Inl BadRequestException else Inr (), db'))"

definition listProfile :: "(control_profile, 'db) mongo \<Rightarrow> 'db \<Rightarrow> control_profile set" where
  "listProfile mg db = mg_docs mg db"

lemma profile_count:
  "finite (mg_docs mg db) \<Longrightarrow>
     0 < mg_count mg (\<lambda>d. cp_platform d = cp_platform p \<and> cp_uid d = cp_uid p \<and> cp_alias d = cp_alias p
       \<and> cp_appId d = cp_appId p) db \<longleftrightarrow> (\<exists>d \<in> mg_docs mg db. profile_key d = profile_key p)"
  by (auto simp: mg_count_def mg_find_def card_gt_0_iff profile_key_def)

lemma createProfile_cases:
  assumes "keyed_ok cp_id set_cp_id profile_key mg db" and "cp_id p = None" and "createProfile mg p db = (r, db')"
  shows "if \<exists>d \<in> mg_docs mg db. profile_key d = profile_key p then r = Inl BadRequestException \<and> db' = db
    else r = Inr () \<and> (\<exists>i. mg_docs mg db' = insert (set_cp_id (Some i) p) (mg_docs mg db)
           \<and> Some i \<notin> cp_id ` mg_docs mg db)"
proof -
  have doc: "mongo_documented cp_id set_cp_id mg" and fin: "finite (mg_docs mg db)"
    using assms(1) by (simp_all add: keyed_ok_def ids_ok_def)
  from save_new [OF doc assms(2), of db] obtain i where
    "Some i \<notin> cp_id ` mg_docs mg db" "mg_docs mg (mg_save mg p db) = insert (set_cp_id (Some i) p) (mg_docs mg db)" by blast
  then show ?thesis using assms(2,3) profile_count [OF fin, of p]
    by (auto simp: createProfile_def saveProfile_def Let_def split: if_splits)
qed

lemma updateProfile_cases:
  assumes "keyed_ok cp_id set_cp_id profile_key mg db" and "i \<noteq> []" and "updateProfile mg i p db = (r, db')"
  shows "r = Inr () \<and> mg_docs mg db' = insert (set_cp_id (Some i) p) {d \<in> mg_docs mg db. cp_id d \<noteq> Some i}"
proof -
  have doc: "mongo_documented cp_id set_cp_id mg" using assms(1) by (simp add: keyed_ok_def)
  from save_old [OF doc, of "set_cp_id (Some i) p" i db] assms(2,3) show ?thesis
    by (simp add: updateProfile_def saveProfile_def)
qed

lemma createProfile_keyed:
  assumes "keyed_ok cp_id set_cp_id profile_key mg db" and "cp_id p = None" and "createProfile mg p db = (r, db')"
  shows "keyed_ok cp_id set_cp_id profile_key mg db'
    \<and> (if \<exists>d \<in> mg_docs mg db. profile_key d = profile_key p then r = Inl BadRequestException \<and> db' = db else r = Inr ())"
proof (cases "\<exists>d \<in> mg_docs mg db. profile_key d = profile_key p")
  case False
  have doc: "mongo_documented cp_id set_cp_id mg" and ids: "ids_ok cp_id mg db" and inj: "inj_on profile_key (mg_docs mg db)"
    using assms(1) by (simp_all add: keyed_ok_def)
  from False createProfile_cases [OF assms] obtain j where r: "r = Inr ()"
    and db': "mg_docs mg db' = insert (set_cp_id (Some j) p) (mg_docs mg db)" by auto
  have "ids_ok cp_id mg db'" using ids_ok_save [OF doc ids, of p] assms(2,3) False profile_count [of mg db p] ids
    by (auto simp: createProfile_def saveProfile_def Let_def ids_ok_def split: if_splits)
  moreover have "inj_on profile_key (mg_docs mg db')" using inj False by (auto simp: db' inj_on_def)
  ultimately show ?thesis using doc r False by (simp add: keyed_ok_def)
qed (use assms(1) createProfile_cases [OF assms] in auto)

lemma updateProfile_keyed:
  assumes "keyed_ok cp_id set_cp_id profile_key mg db" and "i \<noteq> []" and "updateProfile mg i q db = (r, db')"
  shows "r = Inr () \<and> (keyed_ok cp_id set_cp_id profile_key mg db'
      \<longleftrightarrow> (\<forall>d \<in> mg_docs mg db. cp_id d \<noteq> Some i \<longrightarrow> profile_key d \<noteq> profile_key q))"
proof -
  have doc: "mongo_documented cp_id set_cp_id mg" and ids: "ids_ok cp_id mg db" and inj: "inj_on profile_key (mg_docs mg db)"
    using assms(1) by (simp_all add: keyed_ok_def)
  from updateProfile_cases [OF assms] have r: "r = Inr ()"
    and db': "mg_docs mg db' = insert (set_cp_id (Some i) q) {d \<in> mg_docs mg db. cp_id d \<noteq> Some i}" by simp_all
  have "ids_ok cp_id mg db'" using ids_ok_save [OF doc ids, of "set_cp_id (Some i) q"] assms(2,3)
    by (simp add: updateProfile_def saveProfile_def)
  moreover have "inj_on profile_key (mg_docs mg db')
      \<longleftrightarrow> (\<forall>d \<in> mg_docs mg db. cp_id d \<noteq> Some i \<longrightarrow> profile_key d \<noteq> profile_key q)"
  proof -
    let ?A = "{d \<in> mg_docs mg db. cp_id d \<noteq> Some i}"
    have "inj_on profile_key ?A" by (rule inj_on_subset [OF inj]) auto
    moreover have "?A - {set_cp_id (Some i) q} = ?A" by (auto simp: set_cp_id_def)
    ultimately have "inj_on profile_key (mg_docs mg db') \<longleftrightarrow> profile_key q \<notin> profile_key ` ?A"
      by (simp add: db' inj_on_insert)
    then show ?thesis by (auto simp: image_iff)
  qed
  ultimately show ?thesis using doc r by (simp add: keyed_ok_def)
qed

lemma card_two: "card {a, b} \<le> 2"
  by (simp add: card_insert_if)

lemma few_profiles:
  assumes "inj_on profile_key (mg_docs mg db)"
  shows "card (findAllByUser mg u db) \<le> 8"
proof -
  let ?K = "{Some (cu_platform u)} \<times> {cu_uid u, Some []} \<times> {cu_alias u, Some []} \<times> {cu_appId u, Some []}"
  have "card (findAllByUser mg u db) = card (profile_key ` findAllByUser mg u db)"
    by (rule card_image [symmetric]) (rule inj_on_subset [OF assms], auto simp: findAllByUser_def mg_find_def)
  also have "\<dots> \<le> card ?K"
    by (rule card_mono) (auto simp: findAllByUser_def mg_find_def profile_key_def)
  also have "\<dots> = card {Some (cu_platform u)} * (card {cu_uid u, Some []} * (card {cu_alias u, Some []} * card {cu_appId u, Some []}))"
    by (simp only: card_cartesian_product)
  also have "\<dots> \<le> 1 * (2 * (2 * 2))" by (intro mult_le_mono card_two) simp
  finally show ?thesis by simp
qed

text \<open>
  Profiles are one for each platform, uid, alias and application as long as they are created: a
  profile without an id is refused exactly when there is one of its kind, and stored otherwise; so at
  most eight profiles ever apply to a user. An update is never refused: it gives one more profile of
  a kind exactly when another profile has this kind already.
\<close>

theorem profiles_of_a_kind:
  assumes "keyed_ok cp_id set_cp_id profile_key mg db"
  shows "card (findAllByUser mg u db) \<le> 8
    \<and> (cp_id p = None \<longrightarrow> createProfile mg p db = (r, db1) \<longrightarrow>
         keyed_ok cp_id set_cp_id profile_key mg db1
         \<and> (if \<exists>d \<in> mg_docs mg db. profile_key d = profile_key p then r = Inl BadRequestException \<and> db1 = db else r = Inr ()))
    \<and> (i \<noteq> [] \<longrightarrow> updateProfile mg i q db = (r', db2) \<longrightarrow>
         r' = Inr ()
         \<and> (keyed_ok cp_id set_cp_id profile_key mg db2
             \<longleftrightarrow> (\<forall>d \<in> mg_docs mg db. cp_id d \<noteq> Some i \<longrightarrow> profile_key d \<noteq> profile_key q)))"
  using assms few_profiles [of mg db u] createProfile_keyed [OF assms, of p r db1] updateProfile_keyed [OF assms, of i q r' db2]
  by (simp add: keyed_ok_def)

definition sample_profile :: control_profile where
  "sample_profile = \<lparr>cp_id = None, cp_name = Some ''p'', cp_updateTime = None, cp_platform = Some 1, cp_uid = Some ''u'',
     cp_alias = Some [], cp_appId = Some ''a'', cp_shouldUpload = Some True, cp_scheduleType = Some 2,
     cp_scheduleArray = None, cp_scheduleTime = Some 60\<rparr>"

lemma list_profiles_ok: "keyed_ok cp_id set_cp_id profile_key (list_mongo cp_id set_cp_id) [set_cp_id (Some ''1'') sample_profile]"
  by (simp add: keyed_ok_def list_mongo_documented ids_ok_def set_cp_id_def)

theorem profiles_of_a_kind_witness:
  "fst (createProfile (list_mongo cp_id set_cp_id) sample_profile [set_cp_id (Some ''1'') sample_profile]) = Inl BadRequestException
   \<and> \<not> keyed_ok cp_id set_cp_id profile_key (list_mongo cp_id set_cp_id)
        (snd (updateProfile (list_mongo cp_id set_cp_id) ''2'' sample_profile [set_cp_id (Some ''1'') sample_profile]))"
proof -
  obtain r db1 where c: "createProfile (list_mongo cp_id set_cp_id) sample_profile [set_cp_id (Some ''1'') sample_profile] = (r, db1)"
    by fastforce
  obtain r' db2 where u: "updateProfile (list_mongo cp_id set_cp_id) ''2'' sample_profile [set_cp_id (Some ''1'') sample_profile] = (r', db2)"
    by fastforce
  have "cp_id sample_profile = None" "profile_key (set_cp_id i sample_profile) = profile_key sample_profile" for i
    by (simp_all add: sample_profile_def set_cp_id_def profile_key_def)
  moreover have "cp_id (set_cp_id (Some ''1'') sample_profile) \<noteq> Some ''2''" by (simp add: set_cp_id_def)
  ultimately show ?thesis
    using profiles_of_a_kind [OF list_profiles_ok, of sample_user sample_profile r db1 "''2''" sample_profile r' db2] c u by auto
qed

end
