(* ===== verification/App_Admin.thy ===== *)
theory App_Admin
  imports Token_Store User_Profiles
begin

text \<open>
  The administration of applications: \<open>mongod/ApplicationRepository.java\<close>, the requests of
  \<open>rest/AppRestController.java\<close> besides the creation, and the push messages of \<open>rest/PushRestController.java\<close> and
  \<open>push/\<close>. Jackson, the Getui service and the collections are parameters.
\<close>

section \<open>The repository\<close>

definition set_cd_id :: "string option \<Rightarrow> client_details \<Rightarrow> client_details" where
  "set_cd_id i d = d\<lparr>cd_id := i\<rparr>"

interpretation app_docs: document cd_id set_cd_id cd_clientId "\<lambda>P. \<forall>i d. P (set_cd_id i d) = P d"
  by unfold_locales (simp_all add: set_cd_id_def)

definition app_update :: "client_details \<Rightarrow> client_details \<Rightarrow> client_details" where
  "app_update c d =
     d\<lparr>cd_name := cd_name c, cd_description := cd_description c, cd_packageName := cd_packageName c,
       cd_bundleId := cd_bundleId c, cd_getuiAppId := cd_getuiAppId c, cd_getuiAppKey := cd_getuiAppKey c,
       cd_getuiMasterSecret := cd_getuiMasterSecret c, cd_updateDate := cd_updateDate c\<rparr>"

definition app_findById :: "(client_details, 'db) mongo \<Rightarrow> string \<Rightarrow> 'db \<Rightarrow> client_details option" where
  "app_findById mg i db = mg_findOne mg (\<lambda>d. cd_id d = Some i) db"

definition app_delete :: "(client_details, 'db) mongo \<Rightarrow> string \<Rightarrow> 'db \<Rightarrow> bool \<times> 'db" where
  "app_delete mg i db = (0 < mg_count mg (\<lambda>d. cd_id d = Some i) db, mg_remove mg (\<lambda>d. cd_id d = Some i) db)"

definition app_update_repo :: "(client_details, 'db) mongo \<Rightarrow> client_details \<Rightarrow> 'db \<Rightarrow> bool \<times> 'db" where
  "app_update_repo mg c db =
     (\<exists>d \<in> mg_docs mg db. cd_id d = cd_id c, mg_updateFirst mg (\<lambda>d. cd_id d = cd_id c) (app_update c) db)"

definition findByClientIds :: "(client_details, 'db) mongo \<Rightarrow> string list \<Rightarrow> 'db \<Rightarrow> client_details set" where
  "findByClientIds mg clientIds db = mg_find mg (\<lambda>d. \<exists>c \<in> set clientIds. cd_clientId d = Some c) db"

section \<open>The requests\<close>

definition getDetail :: "(client_details, 'db) mongo \<Rightarrow> string \<Rightarrow> 'db \<Rightarrow> client_details answer" where
  "getDetail mg i db = (case app_findById mg i db of Some d \<Rightarrow> Inr d | None \<Rightarrow> Inl NotFoundException)"

text \<open>
  \<open>updateApp\<close>: the \<open>BadRequestException\<close>s are thrown inside the \<open>try\<close> whose \<open>catch\<close> makes every exception
  a \<open>NotAcceptableException\<close>. The id of the path is not used.
\<close>

definition updateApp ::
  "(client_details, 'db) mongo \<Rightarrow> jlong \<Rightarrow> string \<Rightarrow> client_details result \<Rightarrow> 'db \<Rightarrow> client_details answer \<times> 'db" where
  "updateApp mg now pathId payload db =
     (case payload of
        Inl e \<Rightarrow> (Inl NotAcceptableException, db)
      | Inr temp \<Rightarrow>
          if is_empty_str (cd_name temp) then (Inl NotAcceptableException, db)
          else (let temp' = temp\<lparr>cd_updateDate := Some now\<rparr> in
                case app_update_repo mg temp' db of
                  (True, db') \<Rightarrow> (Inr temp', db')
                | (False, db') \<Rightarrow> (Inl NotAcceptableException, db')))"

definition deleteApp :: "(client_details, 'db) mongo \<Rightarrow> string \<Rightarrow> 'db \<Rightarrow> unit answer \<times> 'db" where
  "deleteApp mg i db =
     (case app_delete mg i db of (deleted, db') \<Rightarrow> (if \<not> deleted then Inl InternalServerException else Inr (), db'))"

record statistic =
  st_users :: nat
  st_logs :: nat
  st_crashes :: nat

definition appStatistic ::
  "(client_details, 'db) mongo \<Rightarrow> (client_user, 'u) mongo \<Rightarrow> (log_file_meta, 'l) mongo \<Rightarrow> (crash_file_meta, 'c) mongo
   \<Rightarrow> string \<Rightarrow> 'db \<Rightarrow> 'u \<Rightarrow> 'l \<Rightarrow> 'c \<Rightarrow> statistic answer" where
  "appStatistic mg users logs crashes i db udb ldb cdb =
     (case app_findById mg i db of
        None \<Rightarrow> Inl NotFoundException
      | Some client \<Rightarrow>
          Inr \<lparr>st_users = countUsers users (cd_clientId client) udb,
               st_logs = mg_count logs (\<lambda>m. lf_clientId m = cd_clientId client) ldb,
               st_crashes = mg_count crashes (\<lambda>m. cf_clientId m = cd_clientId client) cdb\<rparr>)"

section \<open>What an update changes\<close>

text \<open>A stored application without the fields an update may change.\<close>

definition fixed_part :: "client_details \<Rightarrow> client_details" where
  "fixed_part d = app_update newClientDetails d"

lemma fixed_part_update [simp]: "fixed_part (app_update c d) = fixed_part d"
  by (simp add: fixed_part_def app_update_def)

lemma fixed_part_reads [simp]:
  "cd_clientId (fixed_part d) = cd_clientId d" "springClientOf (fixed_part d) = springClientOf d"
  "keyPair kc (fixed_part d) = keyPair kc d"
  by (simp_all add: fixed_part_def app_update_def springClientOf_def keyPair_def)

lemma fixed_part_fields:
  assumes "fixed_part d = fixed_part d'"
  shows "springClientOf d = springClientOf d' \<and> keyPair kc d = keyPair kc d'"
  using fixed_part_reads(2) [of d] fixed_part_reads(3) [of kc d] unfolding assms by simp

text \<open>
  Claim C37. Updating an application never touches its credentials: whatever is sent, in every document
  everything but the eight fields of the form stays as it was, client id, secret, scopes and key pair
  included, so every client keeps its login and its key. The document that changes is the one with
  the id in the body, not the one in the path, and the fields the body leaves out are erased; every
  refusal is answered as not acceptable and changes nothing.
\<close>

theorem update_keeps_credentials:
  assumes "mongo_documented cd_id set_cd_id mg" and "updateApp mg now pathId payload db = (r, db')"
  shows "fixed_part ` mg_docs mg db' = fixed_part ` mg_docs mg db
    \<and> (case r of
         Inl e \<Rightarrow> e = NotAcceptableException \<and> mg_docs mg db' = mg_docs mg db
       | Inr t \<Rightarrow> \<exists>temp d. payload = Inr temp \<and> t = temp\<lparr>cd_updateDate := Some now\<rparr>
           \<and> d \<in> mg_docs mg db \<and> cd_id d = cd_id temp
           \<and> mg_docs mg db' = insert (app_update t d) (mg_docs mg db - {d}))
    \<and> (d' \<in> mg_docs mg db' \<longrightarrow>
         (\<exists>d \<in> mg_docs mg db. springClientOf d' = springClientOf d \<and> keyPair kc d' = keyPair kc d))"
proof -
  have same: "\<exists>d \<in> mg_docs mg db. springClientOf d' = springClientOf d \<and> keyPair kc d' = keyPair kc d"
    if "fixed_part ` mg_docs mg db' = fixed_part ` mg_docs mg db" "d' \<in> mg_docs mg db'"
  proof -
    from that(2) have "fixed_part d' \<in> fixed_part ` mg_docs mg db" unfolding that(1) [symmetric] by (rule imageI)
    then obtain d where "d \<in> mg_docs mg db" "fixed_part d' = fixed_part d" by blast
    with fixed_part_fields [OF this(2), of kc] show ?thesis by blast
  qed
  have image: "fixed_part ` insert (app_update t d) (D - {d}) = fixed_part ` D" if "d \<in> D" for t d and D :: "client_details set"
    using that by (metis fixed_part_update image_insert insert_Diff)
  show ?thesis
  proof (cases "\<exists>temp. payload = Inr temp \<and> \<not> is_empty_str (cd_name temp)")
    case False
    then have "r = Inl NotAcceptableException \<and> db' = db"
      using assms(2) by (cases payload) (auto simp: updateApp_def split: if_splits)
    then show ?thesis using same by auto
  next
    case True
    then obtain temp where temp: "payload = Inr temp" "\<not> is_empty_str (cd_name temp)" by blast
    let ?t = "temp\<lparr>cd_updateDate := Some now\<rparr>"
    let ?db = "mg_updateFirst mg (\<lambda>d. cd_id d = cd_id ?t) (app_update ?t) db"
    have r: "r = (if \<exists>d \<in> mg_docs mg db. cd_id d = cd_id ?t then Inr ?t else Inl NotAcceptableException)" "db' = ?db"
      using assms(2) temp by (auto simp: updateApp_def app_update_repo_def Let_def split: bool.splits if_splits)
    from assms(1) show ?thesis
    proof (cases rule: update_docs [where q = "\<lambda>d. cd_id d = cd_id ?t" and u = "app_update ?t" and db = db])
      case none
      then show ?thesis using r same by auto
    next
      case (some d)
      then have "fixed_part ` mg_docs mg db' = fixed_part ` mg_docs mg db" using image r(2) by simp
      moreover have "r = Inr ?t" using r(1) some(1,2) by auto
      ultimately show ?thesis using same some r(2) temp(1) by auto
    qed
  qed
qed

definition sample_app :: client_details where
  "sample_app = newClientDetails\<lparr>cd_id := Some ''1'', cd_name := Some ''app'', cd_packageName := Some ''pkg'',
     cd_clientId := Some ''c'', cd_clientSecret := Some ''s'',
     cd_additionalInformation := [''public'' \<mapsto> [], ''private'' \<mapsto> [1]]\<rparr>"

theorem update_keeps_credentials_witness:
  "\<exists>db'. updateApp (list_mongo cd_id set_cd_id) 9 ''2'' (Inr (newClientDetails\<lparr>cd_id := Some ''1'', cd_name := Some ''new''\<rparr>)) [sample_app]
     = (Inr (newClientDetails\<lparr>cd_id := Some ''1'', cd_name := Some ''new'', cd_updateDate := Some 9\<rparr>), db')
   \<and> fixed_part ` set db' = {fixed_part sample_app}"
proof -
  let ?p = "newClientDetails\<lparr>cd_id := Some ''1'', cd_name := Some ''new''\<rparr>"
  obtain r db' where u: "updateApp (list_mongo cd_id set_cd_id) 9 ''2'' (Inr ?p) [sample_app] = (r, db')" by fastforce
  then have "r = Inr (?p\<lparr>cd_updateDate := Some 9\<rparr>)"
    by (simp add: updateApp_def app_update_repo_def sample_app_def Let_def)
  moreover have "fixed_part ` set db' = fixed_part ` set [sample_app]"
    using update_keeps_credentials [OF list_mongo_documented u, of sample_app plain_codec] by simp
  ultimately show ?thesis using u by auto
qed

section \<open>Deleting an application\<close>

text \<open>The key-pair manager's \<open>decrypt\<close> for the caller \<open>c\<close>, on the applications of \<open>db\<close> and its cache.\<close>

definition decrypt_for ::
  "'k key_codec \<Rightarrow> 'db client_store \<Rightarrow> ('k \<Rightarrow> byte list \<Rightarrow> byte list option) \<Rightarrow> string \<Rightarrow> 'db \<Rightarrow> 'k pair_map
   \<Rightarrow> byte list \<Rightarrow> byte list option" where
  "decrypt_for kc st rsa c db m d = fst (decrypt (pair_lookup kc st db) rsa (Some c) (Some d) m)"

text \<open>Both repositories see the one collection of applications.\<close>

definition same_collection :: "'db client_store \<Rightarrow> (client_details, 'db) mongo \<Rightarrow> bool" where
  "same_collection st mg \<longleftrightarrow> (\<forall>db. set (st_all st db) = mg_docs mg db)"

lemma decrypt_for_cached: "m c = Some pair \<Longrightarrow> c \<noteq> [] \<Longrightarrow> decrypt_for kc st rsa c db m d = rsa pair d"
  by (simp add: decrypt_for_def decrypt_cases getKeyPair_def)

lemma deleted_not_found:
  assumes "mongo_documented cd_id set_cd_id mg" and "client_store_documented st" and "same_collection st mg"
    and "\<forall>d \<in> mg_docs mg db. cd_clientId d = Some c \<longrightarrow> cd_id d = Some i" and "deleteApp mg i db = (r, db')"
  shows "st_find st (Some c) db' = None"
proof -
  have "mg_docs mg db' = {d \<in> mg_docs mg db. cd_id d \<noteq> Some i}"
    using assms(5) remove_docs [OF assms(1)] by (auto simp: deleteApp_def app_delete_def)
  then have "\<forall>d \<in> set (st_all st db'). cd_clientId d \<noteq> Some c"
    using assms(3,4) unfolding same_collection_def by blast
  then have "matching st (Some c) db' = []" by (simp add: matching_def filter_empty_conv)
  with store_find(1) [OF assms(2)] show ?thesis by simp
qed

text \<open>
  Claim C34. Deleting an application locks its clients out of the login, but not out of the server: once
  the only application of a client id is deleted, Spring no longer finds the client; but a server
  that has its key pair in the cache takes every log upload of the client exactly as before, with the
  same answers and the same effects. Only a server that has not cached the pair, after a restart, refuses
  them all.
\<close>

theorem deletion_takes_restart:
  assumes "mongo_documented cd_id set_cd_id mg" and "client_store_documented st" and "same_collection st mg"
    and "\<forall>d \<in> mg_docs mg db. cd_clientId d = Some c \<longrightarrow> cd_id d = Some i" and "c \<noteq> []"
    and "deleteApp mg i db = (r, db')"
  shows "loadClientByClientId st (Some c) db' = Inl (RuntimeException ''ClientRegistrationException'')
    \<and> (m c = Some pair \<longrightarrow>
         uploadLogFile e (decrypt_for kc st rsa c db' m) n payload name = uploadLogFile e (decrypt_for kc st rsa c db m) n payload name)
    \<and> (\<exists>err. uploadLogFile e (decrypt_for kc st rsa c db' Map.empty) n payload name = (Inl err, []))"
proof -
  have gone: "st_find st (Some c) db' = None" by (rule deleted_not_found [OF assms(1-4,6)])
  have "decrypt_for kc st rsa c db' Map.empty d = None" for d
    using assms(5) by (simp add: decrypt_for_def decrypt_cases getKeyPair_def stored_pair_def pair_lookup_def gone)
  then have "\<exists>err. uploadLogFile e (decrypt_for kc st rsa c db' Map.empty) n payload name = (Inl err, [])"
    by (auto simp: uploadLogFile_def split: sum.splits prod.splits)
  moreover have "decrypt_for kc st rsa c db' m = decrypt_for kc st rsa c db m" if "m c = Some pair"
    using that assms(5) by (simp add: decrypt_for_cached fun_eq_iff)
  ultimately show ?thesis by (simp add: loadClientByClientId_def gone)
qed

text \<open>The same list seen by both repositories.\<close>

lemma list_views: "same_collection list_store (list_mongo cd_id set_cd_id)"
  by (simp add: same_collection_def list_store_def)

theorem deletion_takes_restart_witness:
  "\<exists>db'. deleteApp (list_mongo cd_id set_cd_id) ''1'' [sample_app] = (Inr (), db')
     \<and> uploadLogFile sample_client (decrypt_for plain_codec list_store (\<lambda>k d. Some [7]) ''c'' db' [''c'' \<mapsto> [1]]) 2 ''{}'' (Some ''a.bin'')
       = uploadLogFile sample_client (decrypt_for plain_codec list_store (\<lambda>k d. Some [7]) ''c'' [sample_app] [''c'' \<mapsto> [1]]) 2 ''{}'' (Some ''a.bin'')"
proof -
  obtain r db' where d: "deleteApp (list_mongo cd_id set_cd_id) ''1'' [sample_app] = (r, db')" by fastforce
  then have "r = Inr ()"
    by (simp add: deleteApp_def app_delete_def mg_count_def mg_find_def sample_app_def card_gt_0_iff split: if_splits)
  moreover have "\<forall>x \<in> mg_docs (list_mongo cd_id set_cd_id) [sample_app]. cd_clientId x = Some ''c'' \<longrightarrow> cd_id x = Some ''1''"
    by (simp add: sample_app_def)
  note deletion_takes_restart [OF list_mongo_documented list_store_ok list_views this _ d, of "[''c'' \<mapsto> [1]]" "[1]"
      sample_client plain_codec "\<lambda>k d. Some [7]" 2 "''{}''" "Some ''a.bin''"]
  ultimately show ?thesis using d by simp
qed

section \<open>Push messages\<close>

record message_payload =
  mp_timestamp :: jlong
  mp_interrupt :: bool
  mp_on :: bool
  mp_interval :: jlong
  mp_frequency :: jlong
  mp_clientIds :: "string list option"
  mp_aliases :: "string list option"

text \<open>The members of the object \<open>logful\<close> in the text of \<open>MessagePayload.payload\<close>.\<close>

datatype payload_value = Number jlong | Flag bool

definition payload_members :: "message_payload \<Rightarrow> (string \<times> payload_value) list" where
  "payload_members p =
     [(''timestamp'', Number (mp_timestamp p)), (''on'', Flag (mp_on p)), (''interrupt'', Flag (mp_interrupt p)),
      (''interval'', Number (mp_interval p)), (''frequency'', Number (mp_frequency p))]"

definition getClientIds :: "message_payload \<Rightarrow> string list" where
  "getClientIds p = (case mp_clientIds p of None \<Rightarrow> [] | Some cs \<Rightarrow> cs)"

definition getAliases :: "message_payload \<Rightarrow> string list" where
  "getAliases p = (case mp_aliases p of None \<Rightarrow> [] | Some as \<Rightarrow> as)"

record push_target =
  pt_appId :: "string option"
  pt_clientId :: "string option"
  pt_alias :: "string option"

record push_request =
  pr_appId :: "string option"
  pr_appKey :: "string option"
  pr_masterSecret :: "string option"
  pr_targets :: "push_target list"
  pr_payload :: "(string \<times> payload_value) list"

text \<open>
  The Getui service answers an object under \<open>result\<close>, a text or something else, or raises. The state of
  a \<open>PushResponse\<close> is whether its status is \<open>OK\<close>, and its payload.
\<close>

record push_response =
  ps_ok :: bool
  ps_payload :: "string option"

definition push :: "(push_request \<Rightarrow> string option result) \<Rightarrow> push_request \<Rightarrow> push_response result" where
  "push getui rq =
     (case getui rq of
        Inl e \<Rightarrow> Inl e
      | Inr None \<Rightarrow> Inr \<lparr>ps_ok = False, ps_payload = None\<rparr>
      | Inr (Some s) \<Rightarrow> Inr (if s = ''ok'' then \<lparr>ps_ok = True, ps_payload = None\<rparr> else \<lparr>ps_ok = False, ps_payload = Some s\<rparr>))"

definition push_targets :: "client_details \<Rightarrow> message_payload \<Rightarrow> push_target list" where
  "push_targets client p =
     map (\<lambda>cid. \<lparr>pt_appId = cd_getuiAppId client, pt_clientId = Some cid, pt_alias = None\<rparr>) (getClientIds p)
     @ map (\<lambda>alias. \<lparr>pt_appId = cd_getuiAppId client, pt_clientId = None, pt_alias = Some alias\<rparr>) (getAliases p)"

text \<open>\<open>pushMessage\<close>: its answer and the request that was sent, if there was one.\<close>

definition pushMessage ::
  "(client_details, 'db) mongo \<Rightarrow> (push_request \<Rightarrow> string option result) \<Rightarrow> string \<Rightarrow> message_payload result \<Rightarrow> 'db
   \<Rightarrow> unit answer \<times> push_request list" where
  "pushMessage mg getui i payload db =
     (case app_findById mg i db of
        None \<Rightarrow> (Inl NotFoundException, [])
      | Some client \<Rightarrow>
          if is_empty_str (cd_getuiAppId client) \<or> is_empty_str (cd_getuiAppKey client)
             \<or> is_empty_str (cd_getuiMasterSecret client) then (Inl BadRequestException, [])
          else (case payload of
                  Inl e \<Rightarrow> (Inl BadRequestException, [])
                | Inr message \<Rightarrow>
                    (let rq = \<lparr>pr_appId = cd_getuiAppId client, pr_appKey = cd_getuiAppKey client,
                               pr_masterSecret = cd_getuiMasterSecret client, pr_targets = push_targets client message,
                               pr_payload = payload_members message\<rparr>
                     in (case push getui rq of
                           Inl e \<Rightarrow> Inl InternalServerException
                         | Inr response \<Rightarrow> if ps_ok response then Inr () else Inl InternalServerException, [rq]))))"

text \<open>
  A push is confirmed exactly when the service answered \<open>ok\<close> to one request, which names the
  credentials of the application and each client and alias of the message once.
\<close>

lemma push_confirmed:
  assumes "pushMessage mg getui i payload db = (Inr u, rqs)"
  shows "\<exists>client message rq. app_findById mg i db = Some client \<and> payload = Inr message \<and> rqs = [rq]
    \<and> getui rq = Inr (Some ''ok'') \<and> pr_appId rq = cd_getuiAppId client
    \<and> map pt_clientId (pr_targets rq) = map Some (getClientIds message) @ map (\<lambda>_. None) (getAliases message)
    \<and> map pt_alias (pr_targets rq) = map (\<lambda>_. None) (getClientIds message) @ map Some (getAliases message)"
  using assms
  by (auto simp: pushMessage_def push_def push_targets_def Let_def comp_def
      split: option.splits if_splits sum.splits)

end
