(* ===== verification/Rest_Queries.thy ===== *)
theory Rest_Queries
  imports Global_Grants
begin

text \<open>
  \<open>mongod/QueryCondition.java\<close>, \<open>rest/BaseRestController.queryCondition\<close>, the days of
  \<open>util/DateTimeUtil.java\<close> and the proxy of \<open>rest/WeedRestController.java\<close>: how the parameters of a
  request become a database query. Dates and the calendar are parameters of the model.
\<close>

section \<open>Numbers in parameters\<close>

text \<open>
  \<open>StringUtils.isNumeric\<close> of commons-lang 2: null is not numeric, but the empty text is.
\<close>

definition isNumeric :: "string option \<Rightarrow> bool" where
  "isNumeric p = (case p of None \<Rightarrow> False | Some s \<Rightarrow> list_all (\<lambda>c. digit_val c \<noteq> None) s)"

definition parseInt :: "string \<Rightarrow> jint answer" where
  "parseInt s = (case parse_int s of Some v \<Rightarrow> Inr (word_of_int v) | None \<Rightarrow> Inl (Uncaught NumberFormatException))"

definition DEFAULT_LIMIT :: jint where "DEFAULT_LIMIT = 20"
definition DEFAULT_OFFSET :: jint where "DEFAULT_OFFSET = 0"

fun bind_answer :: "'a answer \<Rightarrow> ('a \<Rightarrow> 'b answer) \<Rightarrow> 'b answer" where
  "bind_answer (Inl e) f = Inl e"
| "bind_answer (Inr a) f = f a"

lemma bind_answer_Inr: "bind_answer r f = Inr b \<longleftrightarrow> (\<exists>a. r = Inr a \<and> f a = Inr b)"
  by (cases r) auto

section \<open>Paging\<close>

datatype direction = ASC | DESC

record query_condition =
  qc_order :: direction
  qc_sort :: string
  qc_limit :: jint
  qc_offset :: jint

type_synonym parameters = "string \<Rightarrow> string option"

definition newQueryCondition :: "parameters \<Rightarrow> query_condition answer" where
  "newQueryCondition request =
     (let sort = (if is_empty_str (request ''sort'') then ''_id'' else the (request ''sort''));
          order = (if is_empty_str (request ''order'') then ASC
                   else if equals_ignore_case (the (request ''order'')) ''asc'' then ASC
                   else if equals_ignore_case (the (request ''order'')) ''desc'' then DESC
                   else ASC)
      in bind_answer (if isNumeric (request ''limit'') then parseInt (the (request ''limit'')) else Inr DEFAULT_LIMIT) (\<lambda>limit.
         bind_answer (if isNumeric (request ''offset'') then parseInt (the (request ''offset'')) else Inr DEFAULT_OFFSET) (\<lambda>offset.
         Inr \<lparr>qc_order = order, qc_sort = sort, qc_limit = limit, qc_offset = offset\<rparr>)))"

section \<open>Criteria\<close>

text \<open>\<open>Calendar\<close>: the time of day set to hour, minute, second and millisecond in the local zone.\<close>

type_synonym calendar = "jlong \<Rightarrow> nat \<times> nat \<times> nat \<times> nat \<Rightarrow> jlong"

definition dayStart :: "calendar \<Rightarrow> jlong \<Rightarrow> jlong" where
  "dayStart cal date = cal date (0, 0, 0, 0)"

definition dayEnd :: "calendar \<Rightarrow> jlong \<Rightarrow> jlong" where
  "dayEnd cal date = cal date (23, 59, 59, 0)"

datatype criterion = IsText string | IsInt jint | IsShort jshort | Between jlong jlong

record db_query =
  q_criteria :: "(string \<times> criterion) list"
  q_order :: direction
  q_sort :: string
  q_skip :: jint
  q_limit :: jint

definition FIELD_KEYS :: "string list" where
  "FIELD_KEYS = [''id'', ''clientId'', ''uid'', ''alias'', ''model'', ''imei'', ''macAddress'', ''osVersion'',
     ''appId'', ''versionString'']"

definition text_criteria :: "parameters \<Rightarrow> (string \<times> criterion) list" where
  "text_criteria request =
     concat (map (\<lambda>key. if is_empty_str (request key) then [] else [(key, IsText (the (request key)))]) FIELD_KEYS)"

definition platform_criteria :: "parameters \<Rightarrow> (string \<times> criterion) list answer" where
  "platform_criteria request =
     (if isNumeric (request ''platform'')
      then bind_answer (parseInt (the (request ''platform''))) (\<lambda>p. Inr (if p \<noteq> 0 then [(''platform'', IsInt p)] else []))
      else Inr [])"

definition date_criteria :: "(string \<Rightarrow> jlong result) \<Rightarrow> calendar \<Rightarrow> parameters \<Rightarrow> (string \<times> criterion) list answer" where
  "date_criteria parse_date cal request =
     (if \<not> is_empty_str (request ''startDate'') \<and> \<not> is_empty_str (request ''endDate'')
      then (case (parse_date (the (request ''startDate'')), parse_date (the (request ''endDate''))) of
              (Inr s, Inr e) \<Rightarrow> Inr [(''date'', Between (dayStart cal s) (dayEnd cal e))]
            | _ \<Rightarrow> Inl BadRequestException)
      else Inr [])"

definition level_criteria :: "parameters \<Rightarrow> (string \<times> criterion) list answer" where
  "level_criteria request =
     (if is_empty_str (request ''level'') then Inr []
      else (case parse_short (the (request ''level'')) of
              None \<Rightarrow> Inl (Uncaught NumberFormatException)
            | Some v \<Rightarrow> Inr (if v \<noteq> 0 then [(''level'', IsShort (word_of_int v))] else [])))"

definition queryCondition :: "(string \<Rightarrow> jlong result) \<Rightarrow> calendar \<Rightarrow> parameters \<Rightarrow> db_query answer" where
  "queryCondition parse_date cal request =
     bind_answer (newQueryCondition request) (\<lambda>c.
     bind_answer (platform_criteria request) (\<lambda>ps.
     bind_answer (date_criteria parse_date cal request) (\<lambda>ds.
     bind_answer (level_criteria request) (\<lambda>ls.
     Inr \<lparr>q_criteria = text_criteria request @ ps @ ds @ ls, q_order = qc_order c, q_sort = qc_sort c,
          q_skip = qc_offset c, q_limit = qc_limit c\<rparr>))))"

section \<open>What a query is\<close>

lemma digits_val_numeric: "list_all (\<lambda>c. digit_val c \<noteq> None) s \<Longrightarrow> \<exists>v. digits_val acc s = Some v"
  by (induction s arbitrary: acc) auto

lemma digit_val_sign: "digit_val (CHR ''-'') = None" "digit_val (CHR ''+'') = None"
  by (simp_all add: digit_val_def)

lemma parse_signed_numeric:
  assumes "isNumeric (Some s)"
  shows "parse_signed s = map_option int (unsigned_val s)"
  using assms by (cases s) (auto simp: isNumeric_def parse_signed_def unsigned_val_def digit_val_sign split: if_splits)

lemma parseInt_numeric:
  assumes "isNumeric (Some s)"
  shows "parseInt s = (if s = [] \<or> 2 ^ 31 \<le> the (digits_val 0 s) then Inl (Uncaught NumberFormatException)
     else Inr (of_nat (the (digits_val 0 s))))"
proof -
  obtain v where v: "digits_val 0 s = Some v" using assms digits_val_numeric [of s 0] by (auto simp: isNumeric_def)
  have "parse_int s = (if s = [] \<or> 2 ^ 31 \<le> v then None else Some (int v))"
    using v by (auto simp: parse_ranged_def parse_signed_numeric [OF assms] unsigned_val_def)
  then show ?thesis by (simp add: parseInt_def v)
qed

lemma parseInt_nonneg:
  assumes "isNumeric p" and "parseInt (the p) = Inr v"
  shows "0 \<le> sint v \<and> p \<noteq> Some [] \<and> sint v = int (the (digits_val 0 (the p)))"
proof -
  obtain s where s: "p = Some s" using assms(1) by (cases p) (auto simp: isNumeric_def)
  with assms have v: "the (digits_val 0 s) < 2 ^ 31" "v = of_nat (the (digits_val 0 s))" "s \<noteq> []"
    by (auto simp: parseInt_numeric split: if_splits)
  then have "sint v = int (the (digits_val 0 s))"
    using sint_word_of_int_exact [where 'a = 32, of "int (the (digits_val 0 s))"] by simp
  with s v show ?thesis by simp
qed

lemma text_criteria_keys: "set (map fst (text_criteria request)) \<subseteq> set FIELD_KEYS"
  by (auto simp: text_criteria_def split: if_splits)

lemma text_criteria_distinct: "distinct (map fst (text_criteria request))"
proof -
  have "map fst (concat (map (\<lambda>key. if is_empty_str (request key) then [] else [(key, IsText (the (request key)))]) ks))
      = filter (\<lambda>key. \<not> is_empty_str (request key)) ks" for ks
    by (induction ks) (auto simp del: not_is_empty_str)
  moreover have "distinct FIELD_KEYS" by (simp add: FIELD_KEYS_def)
  ultimately show ?thesis by (simp add: text_criteria_def)
qed

lemma newQueryCondition_bounds:
  assumes "newQueryCondition request = Inr c"
  shows "0 \<le> sint (qc_limit c) \<and> 0 \<le> sint (qc_offset c) \<and> request ''limit'' \<noteq> Some [] \<and> request ''offset'' \<noteq> Some []"
proof -
  have field: "0 \<le> sint v \<and> p \<noteq> Some []"
    if "(if isNumeric p then parseInt (the p) else Inr d) = Inr v" "0 \<le> sint d" for p v d
    using that parseInt_nonneg [of p v] by (auto simp: isNumeric_def split: if_splits)
  show ?thesis
    using assms field [of "request ''limit''" DEFAULT_LIMIT] field [of "request ''offset''" DEFAULT_OFFSET]
    by (auto simp: newQueryCondition_def Let_def bind_answer_Inr DEFAULT_LIMIT_def DEFAULT_OFFSET_def)
qed

lemma extra_criteria_keys:
  "platform_criteria request = Inr ps \<Longrightarrow> map fst ps \<in> {[], [''platform'']}"
  "date_criteria parse_date cal request = Inr ds \<Longrightarrow> map fst ds \<in> {[], [''date'']}"
  "level_criteria request = Inr ls \<Longrightarrow> map fst ls \<in> {[], [''level'']}"
  by (auto simp: platform_criteria_def date_criteria_def level_criteria_def bind_answer_Inr
      split: if_splits option.splits sum.splits)

lemma queryCondition_ok:
  assumes "queryCondition parse_date cal request = Inr q"
  shows "distinct (map fst (q_criteria q)) \<and> 0 \<le> sint (q_limit q) \<and> 0 \<le> sint (q_skip q)
    \<and> request ''limit'' \<noteq> Some [] \<and> request ''offset'' \<noteq> Some []"
proof -
  from assms obtain c ps ds ls where parts: "newQueryCondition request = Inr c" "platform_criteria request = Inr ps"
    "date_criteria parse_date cal request = Inr ds" "level_criteria request = Inr ls"
    and q: "q = \<lparr>q_criteria = text_criteria request @ ps @ ds @ ls, q_order = qc_order c, q_sort = qc_sort c,
          q_skip = qc_offset c, q_limit = qc_limit c\<rparr>"
    by (auto simp: queryCondition_def bind_answer_Inr)
  have new: "{''platform'', ''date'', ''level''} \<inter> set FIELD_KEYS = {}" by (simp add: FIELD_KEYS_def)
  have "distinct (map fst (ps @ ds @ ls)) \<and> set (map fst (ps @ ds @ ls)) \<subseteq> {''platform'', ''date'', ''level''}"
    using extra_criteria_keys(1) [OF parts(2)] extra_criteria_keys(2) [OF parts(3)] extra_criteria_keys(3) [OF parts(4)]
    by (auto simp del: set_map)
  with new text_criteria_distinct [of request] text_criteria_keys [of request]
  have "distinct (map fst (text_criteria request) @ map fst (ps @ ds @ ls))"
    unfolding distinct_append by blast
  then show ?thesis using newQueryCondition_bounds [OF parts(1)] by (simp add: q)
qed

text \<open>
  Every query the controllers build is one the database accepts: no field is constrained
  twice, the limit and the offset are not negative, whatever the parameters are. The price is that
  an empty or too large number is not taken for the default but raises: a request with \<open>limit=\<close>
  or \<open>offset=\<close> never gets a query.
\<close>

theorem queryCondition_wellformed:
  assumes "queryCondition parse_date cal request = Inr q"
  shows "distinct (map fst (q_criteria q)) \<and> 0 \<le> sint (q_limit q) \<and> 0 \<le> sint (q_skip q)
    \<and> request ''limit'' \<noteq> Some [] \<and> request ''offset'' \<noteq> Some []"
  using queryCondition_ok [OF assms] .

definition utc :: calendar where
  "utc date t = (case t of (h, m, s, ms) \<Rightarrow>
     word_of_int (86400000 * (sint date div 86400000)) + of_nat (((h * 60 + m) * 60 + s) * 1000 + ms))"

text \<open>The last 999 milliseconds of the last day are outside of the range.\<close>

lemma dayEnd_utc: "dayEnd utc 86400000 = 172799000"
  by (simp add: dayEnd_def utc_def)

definition sample_request :: parameters where
  "sample_request = [''uid'' \<mapsto> ''u'', ''limit'' \<mapsto> ''7'', ''platform'' \<mapsto> ''2'', ''startDate'' \<mapsto> ''d'', ''endDate'' \<mapsto> ''d'']"

theorem queryCondition_wellformed_witness:
  "\<exists>q. queryCondition (\<lambda>s. Inr 86400000) utc sample_request = Inr q \<and> distinct (map fst (q_criteria q))
     \<and> length (q_criteria q) = 3"
proof -
  have "isNumeric (Some ''7'')" "isNumeric (Some ''2'')" "parseInt ''7'' = Inr 7" "parseInt ''2'' = Inr 2" "\<not> isNumeric None"
    by (simp_all add: isNumeric_def parseInt_def parse_ranged_def parse_signed_def unsigned_val_def digit_val_def)
  then have "\<exists>q. queryCondition (\<lambda>s. Inr 86400000) utc sample_request = Inr q \<and> length (q_criteria q) = 3"
    by (simp add: queryCondition_def newQueryCondition_def platform_criteria_def date_criteria_def level_criteria_def
        text_criteria_def FIELD_KEYS_def sample_request_def Let_def)
  with queryCondition_wellformed show ?thesis by blast
qed

section \<open>The WeedFS proxy\<close>

text \<open>\<open>fetch\<close> is the HTTP client: an exception, or a status and a body.\<close>

definition format_url :: "string \<Rightarrow> string" where
  "format_url url = (if \<exists>i \<le> length url. take 7 (drop i url) = ''http://'' then url else ''http://'' @ url)"

definition httpGet :: "(string \<Rightarrow> (nat \<times> 'b) result) \<Rightarrow> string \<Rightarrow> 'b answer" where
  "httpGet fetch url =
     (case fetch (format_url url) of
        Inl e \<Rightarrow> Inl (if e = IOException then BadRequestException else Uncaught e)
      | Inr (status, body) \<Rightarrow> if status = 200 then Inr body else Inl InternalServerException)"

text \<open>The \<open>NotFoundException\<close> of \<open>getFile\<close> is thrown inside its own \<open>try\<close>.\<close>

definition getFile :: "(string \<Rightarrow> (nat \<times> 'b) result) \<Rightarrow> string \<Rightarrow> string \<Rightarrow> 'b answer" where
  "getFile fetch weedUrl fid =
     (let inner = (case fetch (weedUrl @ ''/'' @ fid) of
                     Inl e \<Rightarrow> Inl (Uncaught e)
                   | Inr (status, body) \<Rightarrow>
                       if status = 200 then Inr body
                       else if status = 404 then Inl NotFoundException
                       else Inl InternalServerException)
      in case inner of Inl e \<Rightarrow> Inl InternalServerException | Inr body \<Rightarrow> Inr body)"

lemma getFile_never_not_found: "getFile fetch u fid \<noteq> Inl NotFoundException"
  by (auto simp: getFile_def Let_def split: sum.splits)

lemma getFile_missing: "fetch (u @ ''/'' @ fid) = Inr (404, b) \<Longrightarrow> getFile fetch u fid = Inl InternalServerException"
  by (simp add: getFile_def)

end
