(* ===== verification/Access_Control.thy ===== *)
theory Access_Control
  imports App_Admin Rest_Queries
begin

text \<open>
  Who may call what: the rules of \<open>auth/config/ResourceServerConfiguration.java\<close>, the table of the requests the
  controllers of \<open>rest/\<close> and \<open>controller/\<close> map, the headers of \<open>filter/CORSFilter.java\<close>, the error page, the
  proxied status requests of \<open>rest/WeedRestController.java\<close> and what Jackson shows of an application. Spring
  Security is a parameter with its documented behaviour.
\<close>

section \<open>The rules\<close>

text \<open>An ant pattern whose requests need an authenticated caller.\<close>

datatype access_rule = Authenticated string

definition security_rules :: "access_rule list" where
  "security_rules =
     [Authenticated ''/log/info/**'', Authenticated ''/log/file/**'', Authenticated ''/log/crash/**'',
      Authenticated ''/log/attachment/**'']"

text \<open>
  \<open>sp_matches\<close> compares an ant pattern with the path of a request; \<open>sp_admits\<close> says whether the filter lets
  a caller pass who is authenticated or not. A pattern \<open>dir/**\<close> matches \<open>dir\<close> and every path below it,
  in some releases whatever the case; the first rule that matches decides, and a request no rule
  matches is public.
\<close>

record spring_security =
  sp_matches :: "string \<Rightarrow> string \<Rightarrow> bool"
  sp_admits :: "access_rule list \<Rightarrow> bool \<Rightarrow> string \<Rightarrow> bool"

definition below :: "string \<Rightarrow> string \<Rightarrow> bool" where
  "below dir path \<longleftrightarrow> path = dir \<or> take (length dir + 1) path = dir @ ''/''"

definition plain_dir :: "string \<Rightarrow> bool" where
  "plain_dir dir \<longleftrightarrow> (\<forall>c \<in> set dir. c \<notin> set ''*?{}'')"

definition spring_documented :: "spring_security \<Rightarrow> bool" where
  "spring_documented sp \<longleftrightarrow>
     (\<forall>dir path. plain_dir dir \<longrightarrow>
        (below dir path \<longrightarrow> sp_matches sp (dir @ ''/**'') path)
        \<and> (sp_matches sp (dir @ ''/**'') path \<longrightarrow> below (to_lower_case dir) (to_lower_case path)))
     \<and> (\<forall>rules auth path.
          sp_admits sp rules auth path =
            (case filter (\<lambda>r. case r of Authenticated p \<Rightarrow> sp_matches sp p path) rules of
               [] \<Rightarrow> True
             | Authenticated p # rs \<Rightarrow> auth))"

section \<open>The requests\<close>

text \<open>The methods of a mapping, none when it takes every method, and its path, whose variables are in braces.\<close>

datatype http_method = GET | POST | PUT | DELETE

datatype part = Lit string | Var string

record endpoint =
  ep_methods :: "http_method list"
  ep_path :: "part list"

definition at_listLogFiles :: endpoint where
  "at_listLogFiles = \<lparr>ep_methods = [GET], ep_path = [Lit ''api'', Lit ''log'', Lit ''file'']\<rparr>"

definition at_readLogFile :: endpoint where
  "at_readLogFile = \<lparr>ep_methods = [GET], ep_path = [Lit ''api'', Lit ''log'', Lit ''file'', Var ''id'']\<rparr>"

definition at_readAttachment :: endpoint where
  "at_readAttachment = \<lparr>ep_methods = [GET], ep_path = [Lit ''api'', Lit ''log'', Lit ''attachment'', Var ''id'']\<rparr>"

definition at_listCrashFiles :: endpoint where
  "at_listCrashFiles = \<lparr>ep_methods = [GET], ep_path = [Lit ''api'', Lit ''crash'', Lit ''file'']\<rparr>"

definition at_readCrashFile :: endpoint where
  "at_readCrashFile = \<lparr>ep_methods = [GET], ep_path = [Lit ''api'', Lit ''crash'', Lit ''file'', Var ''id'']\<rparr>"

definition at_listApps :: endpoint where
  "at_listApps = \<lparr>ep_methods = [GET], ep_path = [Lit ''api'', Lit ''app'']\<rparr>"

definition at_createApp :: endpoint where
  "at_createApp = \<lparr>ep_methods = [POST], ep_path = [Lit ''api'', Lit ''app'']\<rparr>"

definition at_getDetail :: endpoint where
  "at_getDetail = \<lparr>ep_methods = [GET], ep_path = [Lit ''api'', Lit ''app'', Var ''id'']\<rparr>"

definition at_updateApp :: endpoint where
  "at_updateApp = \<lparr>ep_methods = [PUT], ep_path = [Lit ''api'', Lit ''app'', Var ''id'']\<rparr>"

definition at_deleteApp :: endpoint where
  "at_deleteApp = \<lparr>ep_methods = [DELETE], ep_path = [Lit ''api'', Lit ''app'', Var ''id'']\<rparr>"

definition at_appStatistic :: endpoint where
  "at_appStatistic = \<lparr>ep_methods = [GET], ep_path = [Lit ''api'', Lit ''app'', Lit ''statistic'', Var ''id'']\<rparr>"

definition at_pushMessage :: endpoint where
  "at_pushMessage = \<lparr>ep_methods = [POST], ep_path = [Lit ''api'', Lit ''push'', Var ''id'']\<rparr>"

definition at_listUser :: endpoint where
  "at_listUser = \<lparr>ep_methods = [GET], ep_path = [Lit ''api'', Lit ''user'']\<rparr>"

definition at_viewUser :: endpoint where
  "at_viewUser = \<lparr>ep_methods = [GET], ep_path = [Lit ''api'', Lit ''user'', Var ''uid'']\<rparr>"

definition at_status :: endpoint where
  "at_status = \<lparr>ep_methods = [GET], ep_path = [Lit ''api'', Lit ''system'', Lit ''status'']\<rparr>"

definition at_level :: endpoint where
  "at_level = \<lparr>ep_methods = [GET], ep_path = [Lit ''api'', Lit ''system'', Lit ''level'']\<rparr>"

definition at_updateLevel :: endpoint where
  "at_updateLevel = \<lparr>ep_methods = [PUT], ep_path = [Lit ''api'', Lit ''system'', Lit ''level'']\<rparr>"

definition at_addGrantClient :: endpoint where
  "at_addGrantClient = \<lparr>ep_methods = [PUT], ep_path = [Lit ''api'', Lit ''system'', Lit ''grant'']\<rparr>"

definition at_removeGrantClient :: endpoint where
  "at_removeGrantClient = \<lparr>ep_methods = [DELETE], ep_path = [Lit ''api'', Lit ''system'', Lit ''grant'']\<rparr>"

definition at_listProfile :: endpoint where
  "at_listProfile = \<lparr>ep_methods = [GET], ep_path = [Lit ''api'', Lit ''system'', Lit ''profiles'']\<rparr>"

definition at_createProfile :: endpoint where
  "at_createProfile = \<lparr>ep_methods = [POST], ep_path = [Lit ''api'', Lit ''system'', Lit ''profile'']\<rparr>"

definition at_updateProfile :: endpoint where
  "at_updateProfile = \<lparr>ep_methods = [PUT], ep_path = [Lit ''api'', Lit ''system'', Lit ''profile'', Var ''id'']\<rparr>"

definition at_viewProfile :: endpoint where
  "at_viewProfile = \<lparr>ep_methods = [GET], ep_path = [Lit ''api'', Lit ''system'', Lit ''profile'', Var ''id'']\<rparr>"

definition at_deleteProfile :: endpoint where
  "at_deleteProfile = \<lparr>ep_methods = [DELETE], ep_path = [Lit ''api'', Lit ''system'', Lit ''profile'', Var ''id'']\<rparr>"

definition at_dirStatus :: endpoint where
  "at_dirStatus = \<lparr>ep_methods = [GET], ep_path = [Lit ''api'', Lit ''weed'', Lit ''dir'', Lit ''status'']\<rparr>"

definition at_volumeStatus :: endpoint where
  "at_volumeStatus = \<lparr>ep_methods = [GET], ep_path = [Lit ''api'', Lit ''weed'', Lit ''volume'', Lit ''status'']\<rparr>"

definition at_volumeDiskStatus :: endpoint where
  "at_volumeDiskStatus = \<lparr>ep_methods = [GET], ep_path = [Lit ''api'', Lit ''weed'', Lit ''volume'', Lit ''stats'', Lit ''disk'']\<rparr>"

definition at_getFile :: endpoint where
  "at_getFile = \<lparr>ep_methods = [GET], ep_path = [Lit ''api'', Lit ''weed'', Lit ''file'', Var ''fid'']\<rparr>"

definition at_clientUserReport :: endpoint where
  "at_clientUserReport = \<lparr>ep_methods = [POST], ep_path = [Lit ''log'', Lit ''info'', Lit ''upload'']\<rparr>"

definition at_uploadLogFile :: endpoint where
  "at_uploadLogFile = \<lparr>ep_methods = [POST], ep_path = [Lit ''log'', Lit ''file'', Lit ''upload'']\<rparr>"

definition at_uploadCrashReport :: endpoint where
  "at_uploadCrashReport = \<lparr>ep_methods = [POST], ep_path = [Lit ''log'', Lit ''crash'', Lit ''upload'']\<rparr>"

definition at_uploadAttachment :: endpoint where
  "at_uploadAttachment = \<lparr>ep_methods = [POST], ep_path = [Lit ''log'', Lit ''attachment'', Lit ''upload'']\<rparr>"

definition at_oldUploadLogFile :: endpoint where
  "at_oldUploadLogFile = \<lparr>ep_methods = [POST], ep_path = [Lit ''log'', Lit ''uploadLogFile'']\<rparr>"

definition at_error :: endpoint where
  "at_error = \<lparr>ep_methods = [], ep_path = [Lit ''error'']\<rparr>"

definition endpoints :: "endpoint list" where
  "endpoints =
     [at_listLogFiles, at_readLogFile, at_readAttachment, at_listCrashFiles, at_readCrashFile, at_listApps,
      at_createApp, at_getDetail, at_updateApp, at_deleteApp, at_appStatistic, at_pushMessage, at_listUser,
      at_viewUser, at_status, at_level, at_updateLevel, at_addGrantClient, at_removeGrantClient,
      at_listProfile, at_createProfile, at_updateProfile, at_viewProfile, at_deleteProfile, at_dirStatus,
      at_volumeStatus, at_volumeDiskStatus, at_getFile, at_clientUserReport, at_uploadLogFile,
      at_uploadCrashReport, at_uploadAttachment, at_oldUploadLogFile, at_error]"

text \<open>The path of a request for values of the variables.\<close>

fun part_text :: "(string \<Rightarrow> string) \<Rightarrow> part \<Rightarrow> string" where
  "part_text \<sigma> (Lit s) = s"
| "part_text \<sigma> (Var x) = \<sigma> x"

definition path_of :: "(string \<Rightarrow> string) \<Rightarrow> endpoint \<Rightarrow> string" where
  "path_of \<sigma> e = concat (map (\<lambda>p. ''/'' @ part_text \<sigma> p) (ep_path e))"

lemmas endpoint_defs = at_listLogFiles_def at_readLogFile_def at_readAttachment_def at_listCrashFiles_def at_readCrashFile_def
  at_listApps_def at_createApp_def at_getDetail_def at_updateApp_def at_deleteApp_def at_appStatistic_def
  at_pushMessage_def at_listUser_def at_viewUser_def at_status_def at_level_def at_updateLevel_def
  at_addGrantClient_def at_removeGrantClient_def at_listProfile_def at_createProfile_def at_updateProfile_def
  at_viewProfile_def at_deleteProfile_def at_dirStatus_def at_volumeStatus_def at_volumeDiskStatus_def
  at_getFile_def at_clientUserReport_def at_uploadLogFile_def at_uploadCrashReport_def
  at_uploadAttachment_def at_oldUploadLogFile_def at_error_def

text \<open>The uploads of the clients of the first version.\<close>

definition client_uploads :: "endpoint set" where
  "client_uploads = {at_clientUserReport, at_uploadLogFile, at_uploadCrashReport, at_uploadAttachment}"

lemma rules_filter:
  "filter (\<lambda>r. case r of Authenticated p \<Rightarrow> m p) security_rules = []
     \<longleftrightarrow> \<not> (m ''/log/info/**'' \<or> m ''/log/file/**'' \<or> m ''/log/crash/**'' \<or> m ''/log/attachment/**'')"
  by (auto simp: security_rules_def)

lemma admitted_iff:
  assumes "spring_documented sp"
  shows "sp_admits sp security_rules auth path \<longleftrightarrow>
    auth \<or> \<not> (\<exists>dir \<in> {''/log/info'', ''/log/file'', ''/log/crash'', ''/log/attachment''}. sp_matches sp (dir @ ''/**'') path)"
proof -
  let ?fs = "filter (\<lambda>r. case r of Authenticated p \<Rightarrow> sp_matches sp p path) security_rules"
  have "sp_admits sp security_rules auth path = (case ?fs of [] \<Rightarrow> True | Authenticated p # rs \<Rightarrow> auth)"
    using assms unfolding spring_documented_def by (elim conjE allE) assumption
  also have "\<dots> \<longleftrightarrow> auth \<or> ?fs = []" by (auto split: list.splits access_rule.splits)
  finally show ?thesis unfolding rules_filter by auto
qed

lemma plain_dirs [simp]:
  "plain_dir ''/log/info''" "plain_dir ''/log/file''" "plain_dir ''/log/crash''" "plain_dir ''/log/attachment''"
  by (simp_all add: plain_dir_def)

lemma matches_bounds:
  assumes "spring_documented sp" and "plain_dir dir"
  shows "below dir path \<Longrightarrow> sp_matches sp (dir @ ''/**'') path"
    and "sp_matches sp (dir @ ''/**'') path \<Longrightarrow> below (to_lower_case dir) (to_lower_case path)"
  using assms unfolding spring_documented_def by (elim conjE allE impE; assumption | simp)+

text \<open>The paths outside the client uploads keep out of the four directories in any case of letters.\<close>

lemmas lower_compute = below_def to_lower_case_def lower_char_def is_upper_latin1_def

lemma api_not_below:
  "\<not> below (to_lower_case ''/log/info'') (to_lower_case (''/api'' @ s))"
  "\<not> below (to_lower_case ''/log/file'') (to_lower_case (''/api'' @ s))"
  "\<not> below (to_lower_case ''/log/crash'') (to_lower_case (''/api'' @ s))"
  "\<not> below (to_lower_case ''/log/attachment'') (to_lower_case (''/api'' @ s))"
  by (simp_all add: lower_compute)

lemma other_not_below:
  "path \<in> {''/log/uploadLogFile'', ''/error''} \<Longrightarrow> dir \<in> {''/log/info'', ''/log/file'', ''/log/crash'', ''/log/attachment''}
   \<Longrightarrow> \<not> below (to_lower_case dir) (to_lower_case path)"
  by (auto simp: lower_compute)

text \<open>Each endpoint is an upload of a client, a request of \<open>/api\<close>, the old upload or the error page.\<close>

lemma endpoint_cases:
  assumes "e \<in> set endpoints"
  obtains (upload) "e \<in> client_uploads"
    | (api) s where "e \<notin> client_uploads" "path_of \<sigma> e = ''/api'' @ s"
    | (other) "e \<notin> client_uploads" "path_of \<sigma> e \<in> {''/log/uploadLogFile'', ''/error''}"
proof -
  have "e \<in> client_uploads \<or> (e \<notin> client_uploads
      \<and> ((\<exists>s. path_of \<sigma> e = ''/api'' @ s) \<or> path_of \<sigma> e \<in> {''/log/uploadLogFile'', ''/error''}))"
    using assms unfolding endpoints_def client_uploads_def endpoint_defs
    by (elim set_ConsD [elim_format] disjE) (simp_all add: path_of_def)
  then show thesis using that by blast
qed

lemma not_matched:
  assumes "spring_documented sp" and "plain_dir dir" and "\<not> below (to_lower_case dir) (to_lower_case path)"
  shows "\<not> sp_matches sp (dir @ ''/**'') path"
  using matches_bounds(2) [OF assms(1,2)] assms(3) by blast

lemma api_admitted:
  assumes "spring_documented sp"
  shows "sp_admits sp security_rules auth (''/api'' @ s)"
  unfolding admitted_iff [OF assms] using not_matched [OF assms _ api_not_below(1)] not_matched [OF assms _ api_not_below(2)]
    not_matched [OF assms _ api_not_below(3)] not_matched [OF assms _ api_not_below(4)] plain_dirs by blast

lemma other_admitted:
  assumes "spring_documented sp" and "path \<in> {''/log/uploadLogFile'', ''/error''}"
  shows "sp_admits sp security_rules auth path"
  unfolding admitted_iff [OF assms(1)] using not_matched [OF assms(1)] other_not_below [OF assms(2)] plain_dirs by blast

lemma upload_admitted:
  assumes "spring_documented sp" and "e \<in> client_uploads"
  shows "sp_admits sp security_rules auth (path_of \<sigma> e) \<longleftrightarrow> auth"
proof -
  have "\<exists>dir \<in> {''/log/info'', ''/log/file'', ''/log/crash'', ''/log/attachment''}. below dir (path_of \<sigma> e)"
    using assms(2) by (auto simp: client_uploads_def endpoint_defs path_of_def below_def)
  then show ?thesis
    unfolding admitted_iff [OF assms(1)] using matches_bounds(1) [OF assms(1)] plain_dirs by blast
qed

text \<open>
  Claim C26. Only the four uploads of the clients of the first version ask for a token: every other request
  of the server, whatever the values in its path, is let through without one. That is all of the
  administration under \<open>/api\<close>, the error page and the deprecated upload of log files.
\<close>

theorem only_uploads_protected:
  assumes "spring_documented sp" and "e \<in> set endpoints"
  shows "sp_admits sp security_rules auth (path_of \<sigma> e) \<longleftrightarrow> auth \<or> e \<notin> client_uploads"
  using assms(2)
proof (cases rule: endpoint_cases [where \<sigma> = \<sigma>])
  case upload
  then show ?thesis using upload_admitted [OF assms(1)] by blast
next
  case (api s)
  then show ?thesis using api_admitted [OF assms(1)] by simp
next
  case other
  then show ?thesis using other_admitted [OF assms(1)] by blast
qed

text \<open>Spring Security on the patterns that end in two stars.\<close>

definition sample_spring :: spring_security where
  "sample_spring =
     (let m = \<lambda>p path. below (to_lower_case (take (length p - 3) p)) (to_lower_case path)
      in \<lparr>sp_matches = m,
          sp_admits = \<lambda>rules auth path.
            (case filter (\<lambda>r. case r of Authenticated p \<Rightarrow> m p path) rules of
               [] \<Rightarrow> True
             | Authenticated p # rs \<Rightarrow> auth)\<rparr>)"

lemma below_lower: "below dir path \<Longrightarrow> below (to_lower_case dir) (to_lower_case path)"
  by (auto simp: below_def to_lower_case_def take_map lower_char_def is_upper_latin1_def)

lemma sample_spring_ok: "spring_documented sample_spring"
  by (auto simp: spring_documented_def sample_spring_def Let_def below_lower)

theorem only_uploads_protected_witness:
  "sp_admits sample_spring security_rules False ''/api/app/7'' \<and> \<not> sp_admits sample_spring security_rules False ''/log/file/upload''"
proof -
  have "at_getDetail \<in> set endpoints" "at_uploadLogFile \<in> set endpoints" by (simp_all add: endpoints_def)
  note only_uploads_protected [OF sample_spring_ok this(1), of False "\<lambda>_. ''7''"]
    only_uploads_protected [OF sample_spring_ok this(2), of False "\<lambda>_. ''7''"]
  moreover have "at_getDetail \<notin> client_uploads" "at_uploadLogFile \<in> client_uploads"
    "path_of (\<lambda>_. ''7'') at_getDetail = ''/api/app/7''" "path_of (\<lambda>_. ''7'') at_uploadLogFile = ''/log/file/upload''"
    by (simp_all add: client_uploads_def endpoint_defs path_of_def)
  ultimately show ?thesis by simp
qed

section \<open>The deprecated upload\<close>

text \<open>The properties the deprecated upload submits, made of those its parameters give.\<close>

definition old_properties :: "client_env \<Rightarrow> string \<Rightarrow> string \<Rightarrow> log_file_properties \<Rightarrow> log_file_properties" where
  "old_properties e appId name p =
     p\<lparr>lp_clientId := ce_clientId e, lp_security := str_bytes appId, lp_filename := Some (ce_uid e),
       lp_originalFilename := name, lp_workPath := Some (basePath (ce_props e)), lp_compatible := True\<rparr>"

lemma old_properties_generated:
  assumes "ce_properties e attr = Inr p" and "attr \<noteq> []" and "name \<noteq> []"
    and "\<not> is_empty_str (lp_uid p)" and "\<not> is_empty_str (lp_appId p)" and "\<not> is_empty_str (lp_loggerName p)"
    and "\<not> is_empty_str (lp_fileSum p)"
  shows "\<exists>p'. genProperties e attr (Some name) (str_bytes appId) = Some p'
    \<and> p'\<lparr>lp_compatible := True\<rparr> = old_properties e appId name p"
  using assms by (auto simp: genProperties_def old_properties_def Let_def)

lemma v1_stored:
  assumes "parser_accepts n (ce_props e)" and "transferTo (ce_files e) = (Inr (), fs)" and "same_sum (ce_fileMD5 e) (lp_fileSum p)"
  shows "\<exists>es. v1UploadLogFile e n (Some p) = (Inr (), es) \<and> submitted es = [p]"
proof -
  have "\<exists>es. v1UploadLogFile e n (Some p) = (Inr (), es)" using assms by (auto simp: v1UploadLogFile_def store_upload_def)
  then show ?thesis using v1UploadLogFile_cases by blast
qed

text \<open>
  Claim C29. Anyone may have a log file of any application parsed. The deprecated upload is let through
  without a token, and if the server has room for the task and can store the file, it submits
  the task of every file whose parameters are given and whose sum is the one the caller announces; the
  key of the file is then the application id the caller names, and no client is recorded. The upload
  that replaced it refuses every caller without a token, whatever is in its payload.
\<close>

theorem anonymous_log_accepted:
  assumes "spring_documented sp" and "ce_clientId e = None" and "ce_properties e attr = Inr p" and "attr \<noteq> []"
    and "name \<noteq> []" and "\<not> is_empty_str (lp_uid p)" and "\<not> is_empty_str (lp_appId p)" and "\<not> is_empty_str (lp_loggerName p)"
    and "\<not> is_empty_str (lp_fileSum p)" and "same_sum (ce_fileMD5 e) (lp_fileSum p)"
    and "parser_accepts n (ce_props e)" and "transferTo (ce_files e) = (Inr (), fs)"
  shows "sp_admits sp security_rules False (path_of \<sigma> at_oldUploadLogFile)
    \<and> (\<exists>es p'. oldUploadLogFile e n attr appId (Some name) = (Inr (), es) \<and> submitted es = [p']
         \<and> p' = old_properties e appId name p \<and> lp_security p' = str_bytes appId \<and> lp_clientId p' = None)
    \<and> \<not> sp_admits sp security_rules False (path_of \<sigma> at_uploadLogFile)
    \<and> (\<exists>err. uploadLogFile e (\<lambda>d. fst (decrypt lookup rsa (ce_clientId e) (Some d) m)) n payload (Some name) = (Inl err, []))"
proof (intro conjI)
  show "sp_admits sp security_rules False (path_of \<sigma> at_oldUploadLogFile)"
    using other_admitted [OF assms(1)] by (simp add: endpoint_defs path_of_def)
  show "\<not> sp_admits sp security_rules False (path_of \<sigma> at_uploadLogFile)"
    using upload_admitted [OF assms(1)] by (simp add: client_uploads_def)
  obtain p' where p': "genProperties e attr (Some name) (str_bytes appId) = Some p'"
    "p'\<lparr>lp_compatible := True\<rparr> = old_properties e appId name p"
    using old_properties_generated [OF assms(3-9)] by blast
  have "lp_fileSum (old_properties e appId name p) = lp_fileSum p" by (simp add: old_properties_def)
  then obtain es where "v1UploadLogFile e n (Some (old_properties e appId name p)) = (Inr (), es)"
    "submitted es = [old_properties e appId name p]"
    using v1_stored [OF assms(11,12), of "old_properties e appId name p"] assms(10) by auto
  then show "\<exists>es p'. oldUploadLogFile e n attr appId (Some name) = (Inr (), es) \<and> submitted es = [p']
      \<and> p' = old_properties e appId name p \<and> lp_security p' = str_bytes appId \<and> lp_clientId p' = None"
    using p' assms(2) by (auto simp: oldUploadLogFile_def) (auto simp: old_properties_def)
  show "\<exists>err. uploadLogFile e (\<lambda>d. fst (decrypt lookup rsa (ce_clientId e) (Some d) m)) n payload (Some name) = (Inl err, [])"
    using assms(2) by (auto simp: uploadLogFile_def decrypt_cases split: sum.splits prod.splits)
qed

theorem anonymous_log_accepted_witness:
  "\<exists>es. oldUploadLogFile (sample_client\<lparr>ce_clientId := None\<rparr>) 2 ''{}'' ''victim'' (Some ''a.bin'') = (Inr (), es)
     \<and> map lp_security (submitted es) = [str_bytes ''victim'']"
proof -
  let ?e = "sample_client\<lparr>ce_clientId := None\<rparr>" and ?p = "sample_properties\<lparr>lp_fileSum := Some ''ab''\<rparr>"
  have "ce_properties ?e ''{}'' = Inr ?p" "parser_accepts 2 (ce_props ?e)" "transferTo (ce_files ?e) = (Inr (), [CreatedFile, Copied])"
    "same_sum (ce_fileMD5 ?e) (lp_fileSum ?p)"
    using sample_accepts sample_transfer sample_sums by (simp_all add: sample_client_def)
  note anonymous_log_accepted [OF sample_spring_ok _ this(1) _ _ _ _ _ _ this(4,2,3), of "''a.bin''" "\<lambda>_. ''7''" "''victim''"
      "Map.empty" "\<lambda>k d. None" Map.empty "''{}''"]
  then show ?thesis by (auto simp: sample_properties_def)
qed

section \<open>What a caller without a token learns\<close>

text \<open>
  What Jackson writes of an application: the properties whose field is not marked with \<open>@JsonIgnore\<close>, in
  the order of their declaration.
\<close>

datatype shown = TextMember "string option" | DateMember "jlong option"

definition app_json :: "client_details \<Rightarrow> (string \<times> shown) list" where
  "app_json d =
     [(''id'', TextMember (cd_id d)), (''name'', TextMember (cd_name d)),
      (''description'', TextMember (cd_description d)), (''packageName'', TextMember (cd_packageName d)),
      (''bundleId'', TextMember (cd_bundleId d)), (''getuiAppId'', TextMember (cd_getuiAppId d)),
      (''getuiAppKey'', TextMember (cd_getuiAppKey d)),
      (''getuiMasterSecret'', TextMember (cd_getuiMasterSecret d)),
      (''createDate'', DateMember (cd_createDate d)), (''updateDate'', DateMember (cd_updateDate d)),
      (''clientId'', TextMember (cd_clientId d)), (''clientSecret'', TextMember (cd_clientSecret d))]"

text \<open>\<open>listApps\<close>: \<open>page\<close> is the query of the collection with an order, an offset and a limit.\<close>

definition listApps ::
  "(query_condition \<Rightarrow> 'db \<Rightarrow> client_details list) \<Rightarrow> parameters \<Rightarrow> 'db \<Rightarrow> (string \<times> shown) list list answer" where
  "listApps page request db = bind_answer (newQueryCondition request) (\<lambda>c. Inr (map app_json (page c db)))"

lemma found_by_id:
  assumes "mongo_documented cd_id set_cd_id mg" and "ids_ok cd_id mg db" and "d \<in> mg_docs mg db" and "cd_id d = Some i"
  shows "app_findById mg i db = Some d"
  using assms(1)
proof (cases rule: find_one_cases [where q = "\<lambda>d. cd_id d = Some i" and db = db])
  case none
  with assms(3,4) show ?thesis by blast
next
  case (some d')
  have "inj_on cd_id (mg_docs mg db)" using assms(2) by (simp add: ids_ok_def)
  from inj_onD [OF this, of d' d] some(2,3) assms(3,4) have "d' = d" by simp
  with some(1) show ?thesis by (simp add: app_findById_def)
qed

lemma found_by_clientId:
  assumes "client_store_documented st" and "same_collection st mg" and "d \<in> mg_docs mg db"
    and "\<forall>d' \<in> mg_docs mg db. cd_clientId d' = cd_clientId d \<longrightarrow> d' = d"
  shows "loadClientByClientId st (cd_clientId d) db = Inr (springClientOf d)"
proof -
  have only: "set (matching st (cd_clientId d) db) = {d}"
    using assms(2-4) by (auto simp: matching_def same_collection_def)
  then have "matching st (cd_clientId d) db \<noteq> []" by auto
  from store_find(2) [OF assms(1) this] only have "st_find st (cd_clientId d) db = Some d" by auto
  then show ?thesis by (simp add: loadClientByClientId_def)
qed

text \<open>
  Claim C32. A caller without a token can take over every application: the request for its document is
  let through and answers the client id with its secret, and these are the very two with which Spring
  finds the client when it asks for a token; the same caller may then delete the application, which
  locks its clients out of the login. The key pair is not in the answer.
\<close>

theorem secret_open_to_all:
  assumes "spring_documented sp" and "mongo_documented cd_id set_cd_id mg" and "client_store_documented st"
    and "same_collection st mg" and "ids_ok cd_id mg db" and "d \<in> mg_docs mg db" and "cd_id d = Some i"
    and "cd_clientId d = Some c" and "\<forall>d' \<in> mg_docs mg db. cd_clientId d' = Some c \<longrightarrow> d' = d"
  shows "(\<forall>e \<in> {at_listApps, at_getDetail, at_updateApp, at_deleteApp}. sp_admits sp security_rules False (path_of \<sigma> e))
    \<and> (\<exists>shown client. map_sum id app_json (getDetail mg i db) = Inr shown
         \<and> (''clientId'', TextMember (Some c)) \<in> set shown
         \<and> (''clientSecret'', TextMember (sc_clientSecret client)) \<in> set shown
         \<and> ''additionalInformation'' \<notin> fst ` set shown
         \<and> loadClientByClientId st (Some c) db = Inr client)
    \<and> fst (deleteApp mg i db) = Inr ()
    \<and> loadClientByClientId st (Some c) (snd (deleteApp mg i db))
      = Inl (RuntimeException ''ClientRegistrationException'')"
proof -
  have "sp_admits sp security_rules False (path_of \<sigma> e)" if "e \<in> {at_listApps, at_getDetail, at_updateApp, at_deleteApp}" for e
  proof -
    from that obtain s where "path_of \<sigma> e = ''/api'' @ s" by (auto simp: endpoint_defs path_of_def)
    then show ?thesis using api_admitted [OF assms(1)] by simp
  qed
  moreover have "getDetail mg i db = Inr d"
    using found_by_id [OF assms(2,5,6,7)] by (simp add: getDetail_def)
  moreover have "0 < mg_count mg (\<lambda>d. cd_id d = Some i) db"
    using assms(5-7) by (auto simp: mg_count_def mg_find_def ids_ok_def card_gt_0_iff)
  then have "fst (deleteApp mg i db) = Inr ()" by (simp add: deleteApp_def app_delete_def)
  moreover have "\<forall>d' \<in> mg_docs mg db. cd_clientId d' = Some c \<longrightarrow> cd_id d' = Some i" using assms(7,9) by blast
  from deleted_not_found [OF assms(2-4) this prod.collapse [symmetric]]
  have "loadClientByClientId st (Some c) (snd (deleteApp mg i db)) = Inl (RuntimeException ''ClientRegistrationException'')"
    by (simp add: loadClientByClientId_def)
  moreover have "loadClientByClientId st (Some c) db = Inr (springClientOf d)"
    using found_by_clientId [OF assms(3,4,6)] assms(8,9) by simp
  ultimately show ?thesis using assms(8) by (simp add: app_json_def springClientOf_def)
qed

theorem secret_open_to_all_witness:
  "sp_admits sample_spring security_rules False ''/api/app/1''
   \<and> (''clientSecret'', TextMember (Some ''s'')) \<in> set (app_json sample_app)
   \<and> map_option sc_clientSecret (case loadClientByClientId list_store (Some ''c'') [sample_app] of Inr c \<Rightarrow> Some c | Inl e \<Rightarrow> None)
     = Some (Some ''s'')"
proof -
  have facts: "ids_ok cd_id (list_mongo cd_id set_cd_id) [sample_app]" "sample_app \<in> mg_docs (list_mongo cd_id set_cd_id) [sample_app]"
    "cd_id sample_app = Some ''1''" "cd_clientId sample_app = Some ''c''" "cd_clientSecret sample_app = Some ''s''"
    "\<forall>d' \<in> mg_docs (list_mongo cd_id set_cd_id) [sample_app]. cd_clientId d' = Some ''c'' \<longrightarrow> d' = sample_app"
    by (simp_all add: ids_ok_def sample_app_def)
  have "getDetail (list_mongo cd_id set_cd_id) ''1'' [sample_app] = Inr sample_app"
    using found_by_id [OF list_mongo_documented facts(1,2,3)] by (simp add: getDetail_def)
  with secret_open_to_all [OF sample_spring_ok list_mongo_documented list_store_ok list_views facts(1,2,3,4,6), of "\<lambda>_. ''1''"]
    facts(5) show ?thesis
    by (auto simp: app_json_def endpoint_defs path_of_def)
qed

section \<open>The status requests and the error page\<close>

text \<open>The status of WeedFS: the master is the configured one, a volume the one the caller names.\<close>

definition dirStatus :: "(string \<Rightarrow> (nat \<times> 'b) result) \<Rightarrow> server_properties \<Rightarrow> 'b answer" where
  "dirStatus fetch p = httpGet fetch (weedUrl p @ ''/dir/status'')"

definition volumeStatus :: "(string \<Rightarrow> (nat \<times> 'b) result) \<Rightarrow> string \<Rightarrow> 'b answer" where
  "volumeStatus fetch node = httpGet fetch (node @ ''/status'')"

definition volumeDiskStatus :: "(string \<Rightarrow> (nat \<times> 'b) result) \<Rightarrow> string \<Rightarrow> 'b answer" where
  "volumeDiskStatus fetch node = httpGet fetch (node @ ''/stats/disk'')"

text \<open>
  The server fetches whatever the caller names: any host, and any path of it, as the query mark keeps the
  suffix out of the path.
\<close>

lemma volume_status_any_address:
  assumes "fetch (''http://'' @ address @ ''?/status'') = Inr (200, body)"
  shows "volumeStatus fetch (''http://'' @ address @ ''?'') = Inr body"
proof -
  let ?url = "''http://'' @ address @ ''?/status''"
  have "take 7 (drop 0 ?url) = ''http://''" by simp
  then have "format_url ?url = ?url" unfolding format_url_def by (metis le0)
  then show ?thesis using assms by (simp add: volumeStatus_def httpGet_def)
qed

text \<open>The trace of an error is shown to whoever asks for it with anything but the word false.\<close>

definition getTraceParameter :: "parameters \<Rightarrow> bool" where
  "getTraceParameter request =
     (case request ''trace'' of None \<Rightarrow> False | Some p \<Rightarrow> ''false'' \<noteq> to_lower_case p)"

definition error_page :: "(bool \<Rightarrow> 'm) \<Rightarrow> parameters \<Rightarrow> 'm" where
  "error_page errorAttributes request = errorAttributes (getTraceParameter request)"

section \<open>The headers of the cross-origin filter\<close>

type_synonym headers = "string \<rightharpoonup> string"

definition doFilter :: "('q \<Rightarrow> headers \<Rightarrow> 'r) \<Rightarrow> 'q \<Rightarrow> headers \<Rightarrow> 'r" where
  "doFilter chain req response =
     chain req (response(''Access-Control-Allow-Origin'' \<mapsto> ''*'',
       ''Access-Control-Allow-Methods'' \<mapsto> ''POST, GET, OPTIONS, PUT, DELETE'',
       ''Access-Control-Max-Age'' \<mapsto> ''3600'',
       ''Access-Control-Allow-Headers'' \<mapsto> ''Origin, X-Requested-With, Content-Type, Accept, Key, Access-token''))"

text \<open>
  Every origin and every method of the table may be used from a page of another site; the header a
  token travels in is not among the allowed ones.
\<close>

fun method_name :: "http_method \<Rightarrow> string" where
  "method_name GET = ''GET''"
| "method_name POST = ''POST''"
| "method_name PUT = ''PUT''"
| "method_name DELETE = ''DELETE''"

definition header_words :: "string \<Rightarrow> string list" where
  "header_words s = split_char CHR '','' (filter (\<lambda>c. c \<noteq> CHR '' '') s)"

lemma cross_origin_headers:
  assumes "doFilter (\<lambda>q h. h) req response = h"
  shows "h ''Access-Control-Allow-Origin'' = Some ''*''"
    and "method_name m \<in> set (header_words (the (h ''Access-Control-Allow-Methods'')))"
    and "''Authorization'' \<notin> set (header_words (the (h ''Access-Control-Allow-Headers'')))"
  using assms by (cases m; auto simp: doFilter_def header_words_def split_char_def drop_trailing_empty_def)+

end
