(* ===== verification/Weed_Invariant.thy ===== *)
theory Weed_Invariant
  imports Weed_Service
begin

text \<open>
  The state of the WeedFS service over its whole life, restarts of the server included: its operations
  as one step relation, the metas that the weed queue collection has got from them, and the invariant
  that types the queues, the collection and the map of waiting files.
\<close>

section \<open>Metas of files\<close>

text \<open>
  What the callers of \<open>write\<close> have in hand: a meta one of the three \<open>create\<close> methods made for them, or
  one the retry task has loaded, which has an id, another status and its old date.
\<close>

definition built :: "weed_meta \<Rightarrow> bool" where
  "built m \<longleftrightarrow> (\<exists>now k ext kind i st. m = (weed_of now k ext kind)\<lparr>w_id := i, w_status := st\<rparr>)"

lemma builtI: "built ((weed_of now k ext kind)\<lparr>w_id := i, w_status := st\<rparr>)"
  unfolding built_def by (intro exI) (rule refl)

lemma weed_of_same: "weed_of now k ext kind = (weed_of now k ext kind)\<lparr>w_id := None, w_status := WEED_NORMAL\<rparr>"
  by (cases kind; simp add: createWeedLog_def createWeedAttach_def createWeedCrash_def new_weed_meta_def)

lemma weed_of_built: "built (weed_of now k ext kind)"
  by (subst weed_of_same) (rule builtI)

lemma built_update: "built m \<Longrightarrow> built (m\<lparr>w_id := i\<rparr>)" "built m \<Longrightarrow> built (m\<lparr>w_status := st\<rparr>)"
proof -
  have twice: "(m'\<lparr>w_id := j, w_status := x\<rparr>)\<lparr>w_id := i\<rparr> = m'\<lparr>w_id := i, w_status := x\<rparr>"
    "(m'\<lparr>w_id := j, w_status := x\<rparr>)\<lparr>w_status := st\<rparr> = m'\<lparr>w_id := j, w_status := st\<rparr>" for m' :: weed_meta and j x
    by simp_all
  assume "built m"
  then obtain now k ext kind j x where m: "m = (weed_of now k ext kind)\<lparr>w_id := j, w_status := x\<rparr>"
    unfolding built_def by (elim exE)
  show "built (m\<lparr>w_id := i\<rparr>)" unfolding m twice by (rule builtI)
  show "built (m\<lparr>w_status := st\<rparr>)" unfolding m twice by (rule builtI)
qed

text \<open>The fields that matter for an answer are those of the file kind, whatever id and status.\<close>

definition meta_for :: "string \<Rightarrow> file_kind \<Rightarrow> weed_meta \<Rightarrow> bool" where
  "meta_for k kind m \<longleftrightarrow> (\<exists>now ext i st. m = (weed_of now k ext kind)\<lparr>w_id := i, w_status := st\<rparr>)"

lemma built_for: "built m \<longleftrightarrow> (\<exists>k kind. meta_for k kind m)"
  unfolding built_def meta_for_def by (intro iffI; elim exE; intro exI; assumption)

lemma meta_for_key: "meta_for k kind m \<Longrightarrow> w_key m = Some k"
  by (cases kind) (auto simp: meta_for_def createWeedLog_def createWeedAttach_def createWeedCrash_def)

lemma built_key: "built m \<Longrightarrow> w_key m = Some k \<Longrightarrow> \<exists>kind. meta_for k kind m"
  using meta_for_key by (fastforce simp: built_for)

lemma store_meta_for:
  assumes "meta_for k kind m"
  shows "store_meta now newId \<lparr>ua_fid = fid, ua_fileName = f, ua_size = sz\<rparr> m
     = (expected_effects now newId fid sz kind, dated kind)"
proof -
  obtain t ext i st where m: "m = (weed_of t k ext kind)\<lparr>w_id := i, w_status := st\<rparr>"
    using assms by (auto simp: meta_for_def)
  have "store_meta now newId a m = store_meta now newId a (weed_of t k ext kind)" for a by (simp add: m store_meta_def)
  then show ?thesis by (simp add: store_meta_kind)
qed

definition response_ok :: "weed_meta \<Rightarrow> bool" where
  "response_ok r \<longleftrightarrow> w_response r \<noteq> None \<and> \<not> has_id (w_id r)"

definition map_ok :: "(string \<rightharpoonup> weed_meta) \<Rightarrow> bool" where
  "map_ok metas \<longleftrightarrow> (\<forall>k m. metas k = Some m \<longrightarrow> w_key m = Some k \<and> built m)"

definition service_ok :: "weed_service \<Rightarrow> bool" where
  "service_ok s \<longleftrightarrow> queue_ok (ws_writeQueue s) \<and> queue_ok (ws_readQueue s)
     \<and> list_all built (q_items (ws_writeQueue s)) \<and> list_all response_ok (q_items (ws_readQueue s))
     \<and> map_ok (ws_metaMap s)"

section \<open>The operations as steps\<close>

text \<open>
  The state is the service, the response in the hand of the read thread, and the metas the weed queue
  collection has ever got: those of \<open>SaveQueue\<close> effects and those the write thread marks. The write
  thread is seen as whoever polls the write queue. A retry loads metas of the collection, under the
  ids they have there. A restart of the server keeps the collection only.
\<close>

type_synonym weed_state = "weed_service \<times> weed_meta option \<times> weed_meta set"

definition newWeedService :: "nat \<Rightarrow> weed_service" where
  "newWeedService capacity =
     \<lparr>ws_connected = False, ws_serverError = False, ws_writeQueue = \<lparr>q_items = [], q_capacity = capacity\<rparr>,
      ws_readQueue = \<lparr>q_items = [], q_capacity = capacity\<rparr>, ws_metaMap = Map.empty\<rparr>"

definition queue_saves :: "weed_effect list \<Rightarrow> weed_meta set" where
  "queue_saves es = {m. SaveQueue m \<in> set es}"

definition loaded_from :: "weed_meta set \<Rightarrow> weed_meta \<Rightarrow> bool" where
  "loaded_from st m \<longleftrightarrow> (\<exists>m0 \<in> st. \<exists>i. m = m0\<lparr>w_id := Some i\<rparr>)"

inductive weed_op :: "read_env \<Rightarrow> string \<Rightarrow> nat \<Rightarrow> weed_state \<Rightarrow> weed_state \<Rightarrow> bool"
  for e :: read_env and dir :: string and capacity :: nat where
  op_write: "weed_write dir (weed_of now k ext kind) s = Some (Inr es, s') \<Longrightarrow>
    weed_op e dir capacity (s, h, st) (s', h, st \<union> queue_saves es)"
| op_active: "weed_op e dir capacity (s, h, st) (weed_channelActive s, h, st)"
| op_inactive: "weed_op e dir capacity (s, h, st) (weed_channelInactive s, h, st)"
| op_response: "channelRead0 now status content s = Some s' \<Longrightarrow> weed_op e dir capacity (s, h, st) (s', h, st)"
| op_read: "read_step e h s = (es, h', s') \<Longrightarrow> weed_op e dir capacity (s, h, st) (s', h', st \<union> queue_saves es)"
| op_retry: "list_all (loaded_from st) found \<Longrightarrow> retryPutQueue_weed dir found s = Some ((es, x), s') \<Longrightarrow>
    weed_op e dir capacity (s, h, st) (s', h, st \<union> queue_saves es)"
| op_clear: "weed_op e dir capacity (s, h, st) (s\<lparr>ws_metaMap := clearMemory exists dir (ws_metaMap s)\<rparr>, h, st)"
| op_upload: "poll (ws_writeQueue s) = (Some m, q) \<Longrightarrow>
    weed_op e dir capacity (s, h, st)
      (s\<lparr>ws_writeQueue := q\<rparr>, h, st \<union> {m'. process_meta we m = MarkedDeleted m'})"
| op_restart: "weed_op e dir capacity (s, h, st) (newWeedService capacity, None, st)"

inductive weed_reach :: "read_env \<Rightarrow> string \<Rightarrow> nat \<Rightarrow> weed_state \<Rightarrow> bool"
  for e :: read_env and dir :: string and capacity :: nat where
  reach_new: "weed_reach e dir capacity (newWeedService capacity, None, {})"
| reach_op: "weed_reach e dir capacity c \<Longrightarrow> weed_op e dir capacity c c' \<Longrightarrow> weed_reach e dir capacity c'"

section \<open>Every operation keeps the invariant\<close>

lemma offer_items_ok:
  "queue_ok q \<Longrightarrow> list_all P (q_items q) \<Longrightarrow> P a \<Longrightarrow> offer a q = (b, q') \<Longrightarrow> queue_ok q' \<and> list_all P (q_items q')"
  by (auto simp: offer_def queue_ok_def split: if_splits)

lemma poll_items_ok:
  "queue_ok q \<Longrightarrow> list_all P (q_items q) \<Longrightarrow> poll q = (r, q') \<Longrightarrow>
     queue_ok q' \<and> list_all P (q_items q') \<and> (\<forall>a. r = Some a \<longrightarrow> P a)"
  by (auto simp: poll_def queue_ok_def split: list.splits)

lemma write_keeps:
  assumes "service_ok s" and "built m" and "weed_write dir m s = Some (r, s')"
  shows "service_ok s'"
proof -
  obtain k where k: "w_key m = Some k" using assms(2) meta_for_key by (auto simp: built_for)
  have q: "queue_ok (ws_writeQueue s)" using assms(1) by (simp add: service_ok_def)
  let ?s = "s\<lparr>ws_writeQueue := (ws_writeQueue s)\<lparr>q_items := q_items (ws_writeQueue s) @ [m]\<rparr>,
              ws_metaMap := (ws_metaMap s)(k \<mapsto> m)\<rparr>"
  from conjunct1 [OF weed_write_outcomes [OF k q, of dir]] assms(3) consider
    "s' = s" | "s' = ?s" "\<not> q_capacity (ws_writeQueue s) \<le> writeQueueSize s"
    by (auto split: if_splits)
  then show ?thesis
  proof cases
    case 2
    have "map_ok (ws_metaMap ?s)" using assms(1,2) k by (auto simp: service_ok_def map_ok_def)
    moreover have "queue_ok (ws_writeQueue ?s)" using 2(2) by (simp add: queue_ok_def writeQueueSize_def)
    ultimately show ?thesis unfolding 2(1) using assms(1,2) by (simp add: service_ok_def)
  qed (use assms(1) in simp)
qed

lemma response_keeps:
  assumes "service_ok s" and "channelRead0 now status content s = Some s'"
  shows "service_ok s'"
proof -
  have "response_ok (createWeedResponse now content)"
    by (simp add: response_ok_def createWeedResponse_def new_weed_meta_def has_id_def)
  with assms show ?thesis
    using offer_items_ok [of "ws_readQueue s" response_ok "createWeedResponse now content"]
    by (auto simp: channelRead0_def service_ok_def Let_def split: if_splits prod.splits bool.splits)
qed

lemma handle_response_map:
  "map_ok metas \<Longrightarrow> map_ok (snd (handle_response e r metas))"
  by (auto simp: handle_response_def map_ok_def Let_def split: option.splits list.splits sum.splits prod.splits bool.splits)

lemma read_keeps:
  assumes "service_ok s" and "pred_option response_ok h" and "read_step e h s = (es, h', s')"
  shows "service_ok s' \<and> pred_option response_ok h'"
proof -
  obtain r q where p: "(case h of Some m \<Rightarrow> (Some m, ws_readQueue s) | None \<Rightarrow> poll (ws_readQueue s)) = (r, q)"
    by fastforce
  with assms(1,2) have q: "queue_ok q \<and> list_all response_ok (q_items q) \<and> pred_option response_ok r"
    using poll_items_ok [of "ws_readQueue s" response_ok r q]
    by (cases h) (auto simp: service_ok_def pred_option_def)
  show ?thesis
  proof (cases "\<exists>m. r = Some m \<and> re_dirPath e \<noteq> []")
    case False
    then have "s' = s\<lparr>ws_readQueue := q\<rparr> \<and> h' = r"
      using assms(3) unfolding read_step_def p by (cases r) (auto simp: Let_def)
    with assms(1) q show ?thesis by (simp add: service_ok_def)
  next
    case True
    then obtain m where m: "r = Some m" "re_dirPath e \<noteq> []" by blast
    obtain fs metas where r: "handle_response e m (ws_metaMap s) = (fs, metas)" by fastforce
    have "s' = s\<lparr>ws_readQueue := q, ws_metaMap := metas\<rparr> \<and> h' = None"
      using assms(3) m r unfolding read_step_def p by (auto simp: Let_def)
    moreover have "map_ok metas"
      using handle_response_map [of "ws_metaMap s" e m] assms(1) r by (simp add: service_ok_def)
    ultimately show ?thesis using assms(1) q by (simp add: service_ok_def)
  qed
qed

lemma write_saves: "weed_write dir m s = Some (Inr es, s') \<Longrightarrow> queue_saves es \<subseteq> {m}"
  by (auto simp: weed_write_def queue_saves_def Let_def split: if_splits prod.splits bool.splits option.splits)

lemma read_saves:
  assumes "service_ok s" and "pred_option response_ok h" and "read_step e h s = (es, h', s')"
  shows "queue_saves es = {}"
proof -
  obtain r q where p: "(case h of Some m \<Rightarrow> (Some m, ws_readQueue s) | None \<Rightarrow> poll (ws_readQueue s)) = (r, q)"
    by fastforce
  with assms(1,2) have r: "pred_option response_ok r"
    using poll_items_ok [of "ws_readQueue s" response_ok r q]
    by (cases h) (auto simp: service_ok_def pred_option_def)
  have store: "SaveQueue m \<notin> set (fst (store_meta t i a x))" for m t i a x
    by (auto simp: store_meta_def Let_def split: option.splits sum.splits)
  have "SaveQueue m' \<notin> set (fst (handle_response e m metas))" if "response_ok m" for m m' metas
    using that store
    by (auto simp: response_ok_def handle_response_def Let_def split: option.splits list.splits sum.splits prod.splits bool.splits)
      (metis fst_conv)+
  then show ?thesis using assms(3) r unfolding read_step_def p queue_saves_def
    by (cases r) (auto simp: Let_def pred_option_def split: if_splits prod.splits, metis fst_conv)
qed

lemma retry_metas_keeps:
  "service_ok s \<Longrightarrow> list_all built ms \<Longrightarrow> retry_metas dir ms s = Some ((es, x), s') \<Longrightarrow>
     service_ok s' \<and> queue_saves es \<subseteq> set ms"
proof (induction ms arbitrary: s es x s')
  case Nil
  then show ?case by (simp add: queue_saves_def)
next
  case (Cons m ms)
  from Cons.prems obtain r1 s1 where w: "weed_write dir m s = Some (r1, s1)" by (auto split: option.splits)
  have s1: "service_ok s1" using write_keeps [OF Cons.prems(1) _ w] Cons.prems(2) by simp
  show ?case
  proof (cases r1)
    case (Inl ex)
    with Cons.prems(3) w s1 show ?thesis by (simp add: queue_saves_def)
  next
    case (Inr es1)
    then obtain es2 x2 where r: "retry_metas dir ms s1 = Some ((es2, x2), s')" "es = es1 @ es2"
      using Cons.prems(3) w by (auto split: option.splits prod.splits sum.splits)
    have "queue_saves es1 \<subseteq> {m}" using write_saves w Inr by simp
    with Cons.IH [OF s1 _ r(1)] Cons.prems(2) show ?thesis by (auto simp: r(2) queue_saves_def)
  qed
qed

definition state_ok :: "weed_state \<Rightarrow> bool" where
  "state_ok c \<longleftrightarrow> service_ok (fst c) \<and> pred_option response_ok (fst (snd c)) \<and> (\<forall>m \<in> snd (snd c). built m)"

lemma new_service_ok: "service_ok (newWeedService capacity)"
  by (simp add: service_ok_def newWeedService_def queue_ok_def map_ok_def)

lemma op_keeps:
  assumes "weed_op e dir capacity c c'" and "state_ok c"
  shows "state_ok c'"
  using assms
proof cases
  case (op_read h s es h' s' st)
  with assms(2) show ?thesis using read_keeps [of s h e es h' s'] read_saves [of s h e es h' s'] by (simp add: state_ok_def)
next
  case (op_retry st found s es x s' h)
  have ok: "service_ok (resetServerError s)" using assms(2) op_retry(1) by (simp add: state_ok_def service_ok_def resetServerError_def)
  have found: "list_all built found" using assms(2) op_retry(1,3)
    by (fastforce simp: state_ok_def list_all_iff loaded_from_def intro: built_update)
  from op_retry(4) ok have "service_ok s' \<and> queue_saves es \<subseteq> set found"
    using retry_metas_keeps [OF ok found, of dir es x s'] by (auto simp: retryPutQueue_weed_def Let_def queue_saves_def split: if_splits)
  with assms(2) found op_retry(1,2) show ?thesis by (auto simp: state_ok_def list_all_iff)
next
  case (op_upload s m q h st we)
  then have q: "queue_ok q \<and> list_all built (q_items q) \<and> built m"
    using assms(2) poll_items_ok [of "ws_writeQueue s" built "Some m" q] by (auto simp: state_ok_def service_ok_def)
  then have "built m'" if "process_meta we m = MarkedDeleted m'" for m'
    using that by (auto simp: process_meta_def intro: built_update split: file_state.splits if_splits)
  with q op_upload(1,2) assms(2) show ?thesis by (auto simp: state_ok_def service_ok_def)
next
  case (op_clear s h st ex)
  with assms(2) show ?thesis
    by (auto simp: state_ok_def service_ok_def clearMemory_def map_ok_def split: option.splits if_splits)
next
  case (op_write now k ext kind s es s' h st)
  with assms(2) show ?thesis
    using write_keeps [of s _ dir _ s', OF _ weed_of_built] write_saves [of dir _ s es s'] weed_of_built
    by (fastforce simp: state_ok_def)
next
  case (op_response now status content s s' h st)
  with assms(2) show ?thesis using response_keeps by (auto simp: state_ok_def)
qed (auto simp: state_ok_def service_ok_def weed_channelActive_def weed_channelInactive_def new_service_ok
    newWeedService_def queue_ok_def map_ok_def)

lemma reach_keeps: "weed_reach e dir capacity c \<Longrightarrow> state_ok c"
proof (induction rule: weed_reach.induct)
  case reach_new
  show ?case by (simp add: state_ok_def new_service_ok)
next
  case (reach_op c c')
  then show ?case using op_keeps by blast
qed

text \<open>An answer for a registered file stores the meta of this file.\<close>

lemma answer_stores:
  assumes "metas k = Some m" and "meta_for k kind m" and "answers e bytes fid name sz" and "re_baseName e name = k"
  shows "\<exists>rest. fst (handle_response e (createWeedResponse now bytes) metas)
    = expected_effects (re_now e) (re_newId e) fid sz kind @ rest"
proof -
  obtain b bs where bytes: "bytes = b # bs" using assms(3) by (cases bytes) (auto simp: answers_def)
  have resp: "w_response (createWeedResponse now (b # bs)) = Some (b # bs)"
    "\<not> has_id (w_id (createWeedResponse now (b # bs)))"
    by (simp_all add: createWeedResponse_def new_weed_meta_def has_id_def)
  show ?thesis using assms(1,3,4)
    by (cases "dated kind") (simp_all add: handle_response_def resp answers_def bytes store_meta_for [OF assms(2)])
qed

text \<open>
  Claim C14. The service is well-typed in every reachable state, whatever the order of writes, answers,
  retries of stored metas, reconnects, clean-ups, uploads and restarts, each as a whole: both queues keep their bounds,
  what waits in the write queue and in the map is a meta that one of the \<open>create\<close> methods made for a
  file, every map entry stands under the key of its file, a response never carries a database id, and
  the weed queue collection gets no other metas than those of files. So when an answer names a file
  that is registered, its handling first stores the meta of this very file, with the file id and
  the size of the answer: neither a null check nor the type drops it or stores another.
\<close>

theorem weed_service_typed:
  assumes "weed_reach e dir capacity (s, h, st)"
  shows "service_ok s \<and> (\<forall>r. h = Some r \<longrightarrow> response_ok r) \<and> (\<forall>m \<in> st. built m)
    \<and> (\<forall>k m. ws_metaMap s k = Some m \<longrightarrow>
         (\<exists>kind. meta_for k kind m
            \<and> (\<forall>bytes fid name sz now. answers e bytes fid name sz \<and> re_baseName e name = k \<longrightarrow>
                 (\<exists>rest. fst (handle_response e (createWeedResponse now bytes) (ws_metaMap s))
                    = expected_effects (re_now e) (re_newId e) fid sz kind @ rest))))"
proof -
  have ok: "service_ok s" "pred_option response_ok h" "\<forall>m \<in> st. built m"
    using reach_keeps [OF assms] by (simp_all add: state_ok_def)
  have "\<exists>kind. meta_for k kind m
      \<and> (\<forall>bytes fid name sz now. answers e bytes fid name sz \<and> re_baseName e name = k \<longrightarrow>
           (\<exists>rest. fst (handle_response e (createWeedResponse now bytes) (ws_metaMap s))
              = expected_effects (re_now e) (re_newId e) fid sz kind @ rest))"
    if m: "ws_metaMap s k = Some m" for k m
  proof -
    have "w_key m = Some k" "built m" using ok(1) m by (simp_all add: service_ok_def map_ok_def)
    then obtain kind where kind: "meta_for k kind m" using built_key by blast
    with m show ?thesis by (intro exI [of _ kind]) (auto intro: answer_stores)
  qed
  with ok show ?thesis by (simp add: pred_option_def)
qed

lemma sample_reach:
  "weed_reach sample_read_env ''/w'' 2
     ((weed_channelActive (newWeedService 2))
        \<lparr>ws_writeQueue := \<lparr>q_items = [weed_of 5 ''k'' ''log'' (Attachment sample_attach)], q_capacity = 2\<rparr>,
         ws_metaMap := [''k'' \<mapsto> weed_of 5 ''k'' ''log'' (Attachment sample_attach)]\<rparr>, None, {})"
proof -
  let ?m = "weed_of 5 ''k'' ''log'' (Attachment sample_attach)" and ?s = "weed_channelActive (newWeedService 2)"
  have 1: "weed_reach sample_read_env ''/w'' 2 (?s, None, {})" by (rule reach_op [OF reach_new op_active])
  have "weed_write ''/w'' ?m ?s
      = Some (Inr [], ?s\<lparr>ws_writeQueue := \<lparr>q_items = [?m], q_capacity = 2\<rparr>, ws_metaMap := [''k'' \<mapsto> ?m]\<rparr>)"
    by (simp add: weed_write_def weed_channelActive_def newWeedService_def offer_def del: weed_of.simps)
  from reach_op [OF 1 op_write [OF this]] show ?thesis by (simp add: queue_saves_def del: weed_of.simps)
qed

theorem weed_service_typed_witness:
  "\<exists>s. weed_reach sample_read_env ''/w'' 2 (s, None, {}) \<and> ws_metaMap s ''k'' \<noteq> None \<and> service_ok s"
  by (rule exI, rule conjI [OF sample_reach], rule conjI [OF _ conjunct1 [OF weed_service_typed [OF sample_reach]]])
    simp

end
