(* ===== verification/File_Downloads.thy ===== *)
theory File_Downloads
  imports Rest_Queries User_Profiles Weed_Invariant
begin

text \<open>
  The downloads of \<open>rest/LogRestController.java\<close>, \<open>rest/CrashRestController.java\<close> and the users of
  \<open>rest/UserRestController.java\<close>, with the meta repositories of \<open>mongod/\<close>: how a stored meta leads back
  to the bytes the file server keeps.
\<close>

section \<open>The meta collections\<close>

definition set_lf_id :: "string option \<Rightarrow> log_file_meta \<Rightarrow> log_file_meta" where
  "set_lf_id i m = m\<lparr>lf_id := i\<rparr>"

definition set_af_id :: "string option \<Rightarrow> attach_file_meta \<Rightarrow> attach_file_meta" where
  "set_af_id i m = m\<lparr>af_id := i\<rparr>"

definition set_cf_id :: "string option \<Rightarrow> crash_file_meta \<Rightarrow> crash_file_meta" where
  "set_cf_id i m = m\<lparr>cf_id := i\<rparr>"

record ('l, 'a, 'c) meta_stores =
  ms_logs :: "(log_file_meta, 'l) mongo"
  ms_attachments :: "(attach_file_meta, 'a) mongo"
  ms_crashes :: "(crash_file_meta, 'c) mongo"

definition stores_documented :: "('l, 'a, 'c) meta_stores \<Rightarrow> bool" where
  "stores_documented ms \<longleftrightarrow> mongo_documented lf_id set_lf_id (ms_logs ms)
     \<and> mongo_documented af_id set_af_id (ms_attachments ms) \<and> mongo_documented cf_id set_cf_id (ms_crashes ms)"

definition log_findById :: "('l, 'a, 'c) meta_stores \<Rightarrow> string \<Rightarrow> 'l \<Rightarrow> log_file_meta option" where
  "log_findById ms i db = mg_findOne (ms_logs ms) (\<lambda>m. lf_id m = Some i) db"

definition crash_findById :: "('l, 'a, 'c) meta_stores \<Rightarrow> string \<Rightarrow> 'c \<Rightarrow> crash_file_meta option" where
  "crash_findById ms i db = mg_findOne (ms_crashes ms) (\<lambda>m. cf_id m = Some i) db"

definition attach_findOneByCriteria ::
  "('l, 'a, 'c) meta_stores \<Rightarrow> (attach_file_meta \<Rightarrow> bool) \<Rightarrow> 'a \<Rightarrow> attach_file_meta option" where
  "attach_findOneByCriteria ms criteria db = mg_findOne (ms_attachments ms) criteria db"

text \<open>The saves of the read thread as changes of the three collections.\<close>

type_synonym ('l, 'a, 'c) metas = "'l \<times> 'a \<times> 'c"

fun apply_save :: "('l, 'a, 'c) meta_stores \<Rightarrow> weed_effect \<Rightarrow> ('l, 'a, 'c) metas \<Rightarrow> ('l, 'a, 'c) metas" where
  "apply_save ms (SaveLogMeta m) (l, a, c) = (mg_save (ms_logs ms) m l, a, c)"
| "apply_save ms (SaveAttachMeta m) (l, a, c) = (l, mg_save (ms_attachments ms) m a, c)"
| "apply_save ms (SaveCrashMeta m) (l, a, c) = (l, a, mg_save (ms_crashes ms) m c)"
| "apply_save ms (SaveQueue m) db = db"
| "apply_save ms (SendGraylog m) db = db"
| "apply_save ms (DeleteFile f) db = db"

definition apply_saves :: "('l, 'a, 'c) meta_stores \<Rightarrow> weed_effect list \<Rightarrow> ('l, 'a, 'c) metas \<Rightarrow> ('l, 'a, 'c) metas" where
  "apply_saves ms es db = fold (apply_save ms) es db"

section \<open>The downloads\<close>

text \<open>A null file id becomes the text \<open>null\<close> in the address.\<close>

definition readLogFile ::
  "('l, 'a, 'c) meta_stores \<Rightarrow> (string \<Rightarrow> (nat \<times> 'b) result) \<Rightarrow> string \<Rightarrow> string \<Rightarrow> ('l, 'a, 'c) metas \<Rightarrow> 'b answer" where
  "readLogFile ms fetch url i db =
     (case log_findById ms i (fst db) of
        None \<Rightarrow> Inl NotFoundException
      | Some m \<Rightarrow> getFile fetch url (str_of (lf_fid m)))"

definition readCrashFile ::
  "('l, 'a, 'c) meta_stores \<Rightarrow> (string \<Rightarrow> (nat \<times> 'b) result) \<Rightarrow> string \<Rightarrow> string \<Rightarrow> ('l, 'a, 'c) metas \<Rightarrow> 'b answer" where
  "readCrashFile ms fetch url i db =
     (case crash_findById ms i (snd (snd db)) of
        None \<Rightarrow> Inl NotFoundException
      | Some m \<Rightarrow> getFile fetch url (str_of (cf_fid m)))"

definition readAttachment ::
  "('l, 'a, 'c) meta_stores \<Rightarrow> (string \<Rightarrow> (nat \<times> 'b) result) \<Rightarrow> string \<Rightarrow> string \<Rightarrow> ('l, 'a, 'c) metas \<Rightarrow> 'b answer" where
  "readAttachment ms fetch url i db =
     (case split_char CHR ''.'' i of
        [name, ext] \<Rightarrow>
          if ext = ''jpg''
          then (case attach_findOneByCriteria ms (\<lambda>m. af_attachmentId m = Some name) (fst (snd db)) of
                  Some m \<Rightarrow> getFile fetch url (str_of (af_fid m))
                | None \<Rightarrow> Inl NotFoundException)
          else Inl BadRequestException
      | _ \<Rightarrow> Inl BadRequestException)"

lemma getFile_found: "fetch (url @ ''/'' @ fid) = Inr (200, body) \<Longrightarrow> getFile fetch url fid = Inr body"
  by (simp add: getFile_def)

text \<open>A document saved without an id is found by the id it got, and by a property only it has.\<close>

lemma saved_found:
  assumes "mongo_documented get_id set_id mg" and "get_id d = None" and "\<And>i. get_id (set_id (Some i) d) = Some i"
  shows "\<exists>i. mg_findOne mg (\<lambda>x. get_id x = Some i) (mg_save mg d db) = Some (set_id (Some i) d)
    \<and> ((\<forall>x \<in> mg_docs mg db. \<not> q x) \<longrightarrow> q (set_id (Some i) d) \<longrightarrow> mg_findOne mg q (mg_save mg d db) = Some (set_id (Some i) d))"
proof -
  from save_new [OF assms(1,2), of db] obtain i where i: "Some i \<notin> get_id ` mg_docs mg db"
    "mg_docs mg (mg_save mg d db) = insert (set_id (Some i) d) (mg_docs mg db)" by blast
  have only: "mg_findOne mg p (mg_save mg d db) = Some (set_id (Some i) d)"
    if "\<forall>x \<in> mg_docs mg db. \<not> p x" "p (set_id (Some i) d)" for p
    using assms(1)
    by (cases rule: find_one_cases [where q = p and db = "mg_save mg d db"]) (use that i(2) in auto)
  have "\<forall>x \<in> mg_docs mg db. get_id x \<noteq> Some i" using i(1) by force
  with only [of "\<lambda>x. get_id x = Some i"] only [of q] assms(3) show ?thesis by blast
qed

text \<open>What serves a file of each kind under the id \<open>i\<close> of its meta or the id of the attachment.\<close>

fun served ::
  "('l, 'a, 'c) meta_stores \<Rightarrow> (string \<Rightarrow> (nat \<times> 'b) result) \<Rightarrow> string \<Rightarrow> file_kind \<Rightarrow> string \<Rightarrow> ('l, 'a, 'c) metas \<Rightarrow> 'b answer" where
  "served ms fetch url (LogFile m) i db = readLogFile ms fetch url i db"
| "served ms fetch url (CrashFile m) i db = readCrashFile ms fetch url i db"
| "served ms fetch url (Attachment m) i db = readAttachment ms fetch url (str_of (af_attachmentId m) @ ''.jpg'') db"

text \<open>A new file: its meta has no id yet, and an attachment has an id of its own, without a dot.\<close>

fun new_file :: "('l, 'a, 'c) meta_stores \<Rightarrow> ('l, 'a, 'c) metas \<Rightarrow> file_kind \<Rightarrow> bool" where
  "new_file ms db (LogFile m) = (lf_id m = None)"
| "new_file ms db (CrashFile m) = (cf_id m = None)"
| "new_file ms db (Attachment m) =
     (af_id m = None \<and> (\<exists>a. af_attachmentId m = Some a \<and> CHR ''.'' \<notin> set a
        \<and> (\<forall>x \<in> mg_docs (ms_attachments ms) (fst (snd db)). af_attachmentId x \<noteq> Some a)))"

lemma split_jpg:
  assumes "CHR ''.'' \<notin> set a"
  shows "split_char CHR ''.'' (a @ ''.jpg'') = [a, ''jpg'']"
proof -
  have "a @ ''.jpg'' = join_char CHR ''.'' [a, ''jpg'']" by simp
  then show ?thesis using split_char_join [of "[a, ''jpg'']" "CHR ''.''"] assms by simp
qed

lemma apply_saves_simps [simp]:
  "apply_saves ms [] db = db" "apply_saves ms (x # es) db = apply_saves ms es (apply_save ms x db)"
  "apply_saves ms (es @ es') db = apply_saves ms es' (apply_saves ms es db)"
  by (simp_all add: apply_saves_def)

lemma stored_served:
  assumes "stores_documented ms" and "new_file ms db kind" and "fetch (url @ ''/'' @ fid) = Inr (200, content)"
  shows "\<exists>i. served ms fetch url kind i (apply_saves ms (expected_effects now newId fid sz kind) db) = Inr content"
proof -
  have found: "getFile fetch url fid = Inr content" using assms(3) by (rule getFile_found)
  show ?thesis
  proof (cases kind)
    case (LogFile m)
    let ?d = "m\<lparr>lf_fid := Some fid, lf_size := sz\<rparr>"
    obtain l a c where db: "db = (l, a, c)" by (metis surj_pair)
    have "mongo_documented lf_id set_lf_id (ms_logs ms)" "lf_id ?d = None"
      using assms(1,2) by (simp_all add: stores_documented_def LogFile)
    from saved_found [OF this] obtain i where
      "mg_findOne (ms_logs ms) (\<lambda>x. lf_id x = Some i) (mg_save (ms_logs ms) ?d l) = Some (set_lf_id (Some i) ?d)"
      by (auto simp: set_lf_id_def)
    then show ?thesis
      by (intro exI [of _ i]) (simp add: LogFile db readLogFile_def log_findById_def set_lf_id_def found)
  next
    case (CrashFile m)
    let ?d = "m\<lparr>cf_fid := Some fid, cf_size := sz\<rparr>"
    obtain l a c where db: "db = (l, a, c)" by (metis surj_pair)
    have "mongo_documented cf_id set_cf_id (ms_crashes ms)" "cf_id ?d = None"
      using assms(1,2) by (simp_all add: stores_documented_def CrashFile)
    from saved_found [OF this] obtain i where
      "mg_findOne (ms_crashes ms) (\<lambda>x. cf_id x = Some i) (mg_save (ms_crashes ms) ?d c) = Some (set_cf_id (Some i) ?d)"
      by (auto simp: set_cf_id_def)
    then show ?thesis
      by (intro exI [of _ i])
        (simp add: CrashFile db readCrashFile_def crash_findById_def set_cf_id_def found split: option.split)
  next
    case (Attachment m)
    let ?d = "m\<lparr>af_fid := Some fid, af_size := sz\<rparr>"
    obtain l a c where db: "db = (l, a, c)" by (metis surj_pair)
    from assms(2) obtain name where name: "af_attachmentId m = Some name" "CHR ''.'' \<notin> set name"
      "\<forall>x \<in> mg_docs (ms_attachments ms) a. af_attachmentId x \<noteq> Some name" by (auto simp: Attachment db)
    have "mongo_documented af_id set_af_id (ms_attachments ms)" "af_id ?d = None"
      using assms(1,2) by (simp_all add: stores_documented_def Attachment)
    from saved_found [OF this, where q = "\<lambda>x. af_attachmentId x = Some name" and db = a] name(1,3) obtain i where
      "mg_findOne (ms_attachments ms) (\<lambda>x. af_attachmentId x = Some name) (mg_save (ms_attachments ms) ?d a) = Some (set_af_id (Some i) ?d)"
      by (auto simp: set_af_id_def)
    then show ?thesis
      by (simp add: Attachment db readAttachment_def split_jpg [OF name(2)] name(1) attach_findOneByCriteria_def set_af_id_def
          found)
  qed
qed

text \<open>
  Claim C25. What is uploaded can be downloaded: a log, an attachment or a crash report handed to the
  connected WeedFS service is, once the answer of the master has been handled and the metas saved,
  served byte for byte as the file server keeps it, under the id its meta got, or under the
  attachment's own id with \<open>.jpg\<close>.
\<close>

theorem uploaded_file_served:
  assumes "ws_connected s" and "\<not> ws_serverError s" and "writeQueueSize s < q_capacity (ws_writeQueue s)"
    and "q_items (ws_readQueue s) = []" and "0 < q_capacity (ws_readQueue s)"
    and "answers e bytes fid (k @ ''.'' @ ext) sz" and "re_baseName e (k @ ''.'' @ ext) = k" and "re_dirPath e \<noteq> []"
    and "stores_documented ms" and "new_file ms db kind" and "fetch (url @ ''/'' @ fid) = Inr (200, content)"
  shows "\<exists>s1 s2 s3 es i. weed_write dir (weed_of t k ext kind) s = Some (Inr [], s1)
    \<and> channelRead0 now 201 bytes s1 = Some s2
    \<and> read_step e None s2 = (es, None, s3)
    \<and> served ms fetch url kind i (apply_saves ms es db) = Inr content"
proof -
  let ?es = "expected_effects (re_now e) (re_newId e) fid sz kind @ (if dated kind then [DeleteFile (re_dirPath e @ ''/'' @ k @ ''.'' @ ext)] else [])"
  obtain l a c where "apply_saves ms (expected_effects (re_now e) (re_newId e) fid sz kind) db = (l, a, c)" by (metis surj_pair)
  then have "apply_saves ms ?es db = apply_saves ms (expected_effects (re_now e) (re_newId e) fid sz kind) db" by simp
  with stored_served [where fetch = fetch and url = url and fid = fid and content = content, OF assms(9-11), of "re_now e" "re_newId e" sz]
  obtain i where
    "served ms fetch url kind i (apply_saves ms ?es db) = Inr content" by auto
  with upload_completes [OF assms(1-8), of dir t kind now] show ?thesis by blast
qed

definition list_metas :: "(log_file_meta list, attach_file_meta list, crash_file_meta list) meta_stores" where
  "list_metas = \<lparr>ms_logs = list_mongo lf_id set_lf_id, ms_attachments = list_mongo af_id set_af_id,
     ms_crashes = list_mongo cf_id set_cf_id\<rparr>"

theorem uploaded_file_served_witness:
  "\<exists>s1 s2 s3 es. weed_write ''/w'' (weed_of 5 ''k'' ''log'' (Attachment sample_attach)) sample_service = Some (Inr [], s1)
     \<and> channelRead0 6 201 [1] s1 = Some s2 \<and> read_step sample_read_env None s2 = (es, None, s3)
     \<and> readAttachment list_metas (\<lambda>u. Inr (200, u)) ''weed'' ''k.jpg'' (apply_saves list_metas es ([], [], [])) = Inr ''weed/3,01''"
proof -
  have "stores_documented list_metas" by (simp add: stores_documented_def list_metas_def list_mongo_documented)
  moreover have "new_file list_metas ([], [], []) (Attachment sample_attach)"
    by (simp add: list_metas_def sample_attach_def createAttachFileMeta_def)
  moreover have "str_of (af_attachmentId sample_attach) = ''k''" by (simp add: sample_attach_def createAttachFileMeta_def)
  ultimately show ?thesis
    using uploaded_file_served [of sample_service sample_read_env "[1]" "''3,01''" "''k''" "''log''" 9 list_metas "([], [], [])"
        "Attachment sample_attach" "\<lambda>u. Inr (200, u)" "''weed''" "''weed/3,01''" "''/w''" 5 6]
    by (simp add: sample_service_def sample_read_env_def writeQueueSize_def answers_def)
qed

section \<open>One user\<close>

text \<open>\<open>viewUser\<close>: the data of the first document with the uid, and what each says of an application.\<close>

record user_app =
  ua_appId :: "string option"
  ua_version :: jint
  ua_versionString :: "string option"
  ua_recordOn :: bool

definition appObject :: "client_user \<Rightarrow> user_app" where
  "appObject u =
     \<lparr>ua_appId = cu_appId u, ua_version = cu_version u, ua_versionString = cu_versionString u, ua_recordOn = cu_recordOn u\<rparr>"

definition viewUser :: "client_user list \<Rightarrow> (client_user \<times> user_app list) answer" where
  "viewUser users = (case users of [] \<Rightarrow> Inl NotFoundException | u # us \<Rightarrow> Inr (u, map appObject users))"

end
