(* ===== verification/Weed_Reader.thy ===== *)
theory Weed_Reader
  imports Weed_Invariant
begin

text \<open>
  \<open>weed/WeedFSReadThread.java\<close>, one step at a time: the loop with its interrupts, and the handling of
  an answer cut wherever another thread can come between - before the look-up in the map, the save, the
  announcement, the removal, the marking and the deletion - with every exception the handler swallows.
  A handling that nothing disturbs is \<open>read_step\<close> of the service.
\<close>

section \<open>The parts of a handling\<close>

text \<open>The usable answer of a response: the JSON object with all four members.\<close>

definition usable_answer :: "read_env \<Rightarrow> weed_meta \<Rightarrow> upload_answer option" where
  "usable_answer e r =
     (case w_response r of
        None \<Rightarrow> None
      | Some [] \<Rightarrow> None
      | Some bytes \<Rightarrow> (case re_json e bytes of Inr (Some a) \<Rightarrow> Some a | _ \<Rightarrow> None))"

text \<open>What the meta of a file saves, and what it announces to Graylog after it is saved.\<close>

definition save_part :: "upload_answer \<Rightarrow> weed_meta \<Rightarrow> weed_effect option" where
  "save_part a m =
     (if w_type m = TYPE_LOG
      then map_option (\<lambda>l. SaveLogMeta (l\<lparr>lf_fid := Some (ua_fid a), lf_size := ua_size a\<rparr>)) (w_log m)
      else if w_type m = TYPE_ATTACHMENT
      then map_option (\<lambda>t. SaveAttachMeta (t\<lparr>af_fid := Some (ua_fid a), af_size := ua_size a\<rparr>)) (w_attach m)
      else if w_type m = TYPE_CRASH
      then map_option (\<lambda>c. SaveCrashMeta (c\<lparr>cf_fid := Some (ua_fid a), cf_size := ua_size a\<rparr>)) (w_crash m)
      else None)"

definition announce_part :: "jlong \<Rightarrow> string \<Rightarrow> upload_answer \<Rightarrow> weed_meta \<Rightarrow> log_message option result" where
  "announce_part now newId a m =
     (case (w_type m = TYPE_CRASH, w_crash m) of
        (True, Some c) \<Rightarrow>
          map_sum id Some (createCrashMessage now (saved_crash newId (c\<lparr>cf_fid := Some (ua_fid a), cf_size := ua_size a\<rparr>)))
      | _ \<Rightarrow> Inr None)"

lemma store_meta_parts:
  "store_meta now newId a m =
     (case save_part a m of
        None \<Rightarrow> ([], True)
      | Some x \<Rightarrow> (case announce_part now newId a m of
                     Inl ex \<Rightarrow> ([x], False)
                   | Inr None \<Rightarrow> ([x], True)
                   | Inr (Some lm) \<Rightarrow> ([x, SendGraylog lm], True)))"
  by (auto simp: store_meta_def save_part_def announce_part_def weed_types Let_def split: option.splits sum.splits)

lemma handle_response_parts:
  "handle_response e r metas =
     (case usable_answer e r of
        None \<Rightarrow> ([], metas)
      | Some a \<Rightarrow>
          (let key = re_baseName e (ua_fileName a);
               (stored, ok, metas') =
                 (case metas key of
                    None \<Rightarrow> ([], True, metas)
                  | Some m \<Rightarrow> (case store_meta (re_now e) (re_newId e) a m of
                                 (es, True) \<Rightarrow> (es, True, metas(key := None))
                               | (es, False) \<Rightarrow> (es, False, metas)));
               marked = (if has_id (w_id r) then [SaveQueue (r\<lparr>w_status := WEED_SUCCESSFUL\<rparr>)] else []);
               deleted = [DeleteFile (re_dirPath e @ ''/'' @ ua_fileName a)]
           in (stored @ (if ok then marked @ deleted else []), metas')))"
  by (simp add: handle_response_def usable_answer_def split: option.split list.split sum.split)

section \<open>The thread\<close>

text \<open>
  \<open>ReadFound\<close>: the meta of the map is in hand and about to be saved; \<open>ReadAnnounce\<close>: it is saved;
  \<open>ReadRemove\<close>: the key is about to leave the map, with the meta that was saved, if one was.
\<close>

datatype read_pc =
    ReadLoop
  | ReadPoll
  | ReadHeld
  | ReadFound upload_answer weed_meta
  | ReadAnnounce upload_answer weed_meta
  | ReadRemove upload_answer "weed_meta option"
  | ReadMark upload_answer
  | ReadDelete upload_answer
  | ReadEnded

record reader =
  rt_started :: bool
  rt_running :: bool
  rt_interrupted :: bool
  rt_pc :: read_pc
  rt_hand :: "weed_meta option"

definition new_reader :: reader where
  "new_reader = \<lparr>rt_started = False, rt_running = True, rt_interrupted = False, rt_pc = ReadLoop, rt_hand = None\<rparr>"

definition reader_start :: "reader \<Rightarrow> reader" where
  "reader_start r = r\<lparr>rt_started := True\<rparr>"

definition reader_stop :: "reader \<Rightarrow> reader" where
  "reader_stop r = r\<lparr>rt_running := False, rt_interrupted := True\<rparr>"

definition next_response :: "reader \<Rightarrow> reader" where
  "next_response r = r\<lparr>rt_hand := None, rt_pc := ReadLoop\<rparr>"

text \<open>
  What a handling does to the map: \<open>TookOut x y\<close> removed the meta \<open>y\<close> under the key after it had saved \<open>x\<close>;
  \<open>KeptIn x\<close> saved \<open>x\<close> and then raised.
\<close>

datatype read_event = TookOut "weed_meta option" "weed_meta option" | KeptIn weed_meta

definition answer_key :: "read_env \<Rightarrow> upload_answer \<Rightarrow> string" where
  "answer_key e a = re_baseName e (ua_fileName a)"

inductive reader_step ::
  "read_env \<Rightarrow> reader \<times> weed_service \<Rightarrow> weed_effect list \<Rightarrow> read_event list \<Rightarrow> reader \<times> weed_service \<Rightarrow> bool"
  for e :: read_env where
  r_loop: "rt_pc r = ReadLoop \<Longrightarrow>
    reader_step e (r, s) [] [] (r\<lparr>rt_pc := if rt_running r then ReadPoll else ReadEnded\<rparr>, s)"
| r_lingering: "rt_pc r = ReadPoll \<Longrightarrow> rt_hand r = Some m \<Longrightarrow> reader_step e (r, s) [] [] (r\<lparr>rt_pc := ReadHeld\<rparr>, s)"
| r_interrupted: "rt_pc r = ReadPoll \<Longrightarrow> rt_hand r = None \<Longrightarrow> rt_interrupted r \<Longrightarrow>
    reader_step e (r, s) [] [] (r\<lparr>rt_interrupted := False, rt_pc := ReadLoop\<rparr>, s)"
| r_poll: "rt_pc r = ReadPoll \<Longrightarrow> rt_hand r = None \<Longrightarrow> \<not> rt_interrupted r \<Longrightarrow> poll (ws_readQueue s) = (x, q) \<Longrightarrow>
    reader_step e (r, s) [] [] (r\<lparr>rt_hand := x, rt_pc := ReadHeld\<rparr>, s\<lparr>ws_readQueue := q\<rparr>)"
| r_idle: "rt_pc r = ReadHeld \<Longrightarrow> rt_hand r = None \<or> re_dirPath e = [] \<Longrightarrow>
    reader_step e (r, s) [] [] (r\<lparr>rt_pc := ReadLoop\<rparr>, s)"
| r_useless: "rt_pc r = ReadHeld \<Longrightarrow> rt_hand r = Some m \<Longrightarrow> re_dirPath e \<noteq> [] \<Longrightarrow> usable_answer e m = None \<Longrightarrow>
    reader_step e (r, s) [] [] (next_response r, s)"
| r_look: "rt_pc r = ReadHeld \<Longrightarrow> rt_hand r = Some m \<Longrightarrow> re_dirPath e \<noteq> [] \<Longrightarrow> usable_answer e m = Some a \<Longrightarrow>
    reader_step e (r, s) [] []
      (r\<lparr>rt_pc := case ws_metaMap s (answer_key e a) of None \<Rightarrow> ReadMark a | Some w \<Rightarrow> ReadFound a w\<rparr>, s)"
| r_save: "rt_pc r = ReadFound a w \<Longrightarrow> save_part a w = Some x \<Longrightarrow>
    reader_step e (r, s) [x] [] (r\<lparr>rt_pc := ReadAnnounce a w\<rparr>, s)"
| r_save_raises: "rt_pc r = ReadFound a w \<Longrightarrow> save_part a w \<noteq> None \<Longrightarrow> reader_step e (r, s) [] [] (next_response r, s)"
| r_save_nothing: "rt_pc r = ReadFound a w \<Longrightarrow> save_part a w = None \<Longrightarrow>
    reader_step e (r, s) [] [] (r\<lparr>rt_pc := ReadRemove a None\<rparr>, s)"
| r_announce: "rt_pc r = ReadAnnounce a w \<Longrightarrow> announce_part now newId a w = Inr x \<Longrightarrow>
    reader_step e (r, s) (case x of None \<Rightarrow> [] | Some lm \<Rightarrow> [SendGraylog lm]) [] (r\<lparr>rt_pc := ReadRemove a (Some w)\<rparr>, s)"
| r_announce_raises: "rt_pc r = ReadAnnounce a w \<Longrightarrow> announce_part now newId a w \<noteq> Inr None \<Longrightarrow>
    reader_step e (r, s) [] [KeptIn w] (next_response r, s)"
| r_remove: "rt_pc r = ReadRemove a x \<Longrightarrow>
    reader_step e (r, s) [] [TookOut x (ws_metaMap s (answer_key e a))]
      (r\<lparr>rt_pc := ReadMark a\<rparr>, s\<lparr>ws_metaMap := (ws_metaMap s)(answer_key e a := None)\<rparr>)"
| r_mark: "rt_pc r = ReadMark a \<Longrightarrow> rt_hand r = Some m \<Longrightarrow>
    reader_step e (r, s) (if has_id (w_id m) then [SaveQueue (m\<lparr>w_status := WEED_SUCCESSFUL\<rparr>)] else []) []
      (r\<lparr>rt_pc := ReadDelete a\<rparr>, s)"
| r_mark_raises: "rt_pc r = ReadMark a \<Longrightarrow> rt_hand r = Some m \<Longrightarrow> has_id (w_id m) \<Longrightarrow>
    reader_step e (r, s) [] [] (next_response r, s)"
| r_delete: "rt_pc r = ReadDelete a \<Longrightarrow>
    reader_step e (r, s) [DeleteFile (re_dirPath e @ ''/'' @ ua_fileName a)] [] (next_response r, s)"

inductive reader_run ::
  "read_env \<Rightarrow> reader \<times> weed_service \<Rightarrow> weed_effect list \<Rightarrow> read_event list \<Rightarrow> reader \<times> weed_service \<Rightarrow> bool"
  for e :: read_env where
  rr_refl: "reader_run e c [] [] c"
| rr_step: "reader_run e c es ev c' \<Longrightarrow> reader_step e c' es' ev' c'' \<Longrightarrow> reader_run e c (es @ es') (ev @ ev') c''"

section \<open>A handling that nothing disturbs\<close>

definition at_loop :: "reader \<Rightarrow> bool" where
  "at_loop r \<longleftrightarrow> rt_running r \<and> \<not> rt_interrupted r \<and> rt_pc r = ReadLoop"

lemma reader_runI:
  "reader_run e c es ev c' \<Longrightarrow> reader_step e c' es' ev' c'' \<Longrightarrow> es'' = es @ es' \<Longrightarrow> \<exists>ev. reader_run e c es'' ev c''"
  by (blast intro: rr_step)

lemma finish_run:
  assumes "reader_run e c es ev (r\<lparr>rt_hand := Some m, rt_pc := ReadMark a\<rparr>, s)" and "rt_pc r = ReadLoop"
  shows "\<exists>ev'. reader_run e c
      (es @ (if has_id (w_id m) then [SaveQueue (m\<lparr>w_status := WEED_SUCCESSFUL\<rparr>)] else [])
         @ [DeleteFile (re_dirPath e @ ''/'' @ ua_fileName a)]) ev' (r\<lparr>rt_hand := None\<rparr>, s)"
proof -
  let ?mk = "if has_id (w_id m) then [SaveQueue (m\<lparr>w_status := WEED_SUCCESSFUL\<rparr>)] else []"
  have "reader_step e (r\<lparr>rt_hand := Some m, rt_pc := ReadMark a\<rparr>, s) ?mk [] (r\<lparr>rt_hand := Some m, rt_pc := ReadDelete a\<rparr>, s)"
    using r_mark [of "r\<lparr>rt_hand := Some m, rt_pc := ReadMark a\<rparr>" a m e s] by simp
  from rr_step [OF assms(1) this] have 1: "reader_run e c (es @ ?mk) ev (r\<lparr>rt_hand := Some m, rt_pc := ReadDelete a\<rparr>, s)" by simp
  have "r\<lparr>rt_hand := None, rt_pc := ReadLoop\<rparr> = r\<lparr>rt_hand := None\<rparr>" using assms(2) by (cases r) simp
  then have "reader_step e (r\<lparr>rt_hand := Some m, rt_pc := ReadDelete a\<rparr>, s) [DeleteFile (re_dirPath e @ ''/'' @ ua_fileName a)] []
      (r\<lparr>rt_hand := None\<rparr>, s)"
    using r_delete [of "r\<lparr>rt_hand := Some m, rt_pc := ReadDelete a\<rparr>" a e s] by (simp add: next_response_def)
  from reader_runI [OF 1 this] show ?thesis by simp
qed

lemma handle_run:
  assumes "reader_run e c [] ev (r\<lparr>rt_hand := Some m, rt_pc := ReadHeld\<rparr>, s)" and "rt_pc r = ReadLoop" and "re_dirPath e \<noteq> []"
    and "handle_response e m (ws_metaMap s) = (es, metas)"
  shows "\<exists>ev'. reader_run e c es ev' (r\<lparr>rt_hand := None\<rparr>, s\<lparr>ws_metaMap := metas\<rparr>)"
proof -
  let ?r = "\<lambda>pc. r\<lparr>rt_hand := Some m, rt_pc := pc\<rparr>"
  have nx: "next_response (?r pc) = r\<lparr>rt_hand := None\<rparr>" for pc
    using assms(2) by (cases r) (simp add: next_response_def)
  show ?thesis
  proof (cases "usable_answer e m")
    case None
    with assms(4) have "es = []" "s\<lparr>ws_metaMap := metas\<rparr> = s" by (simp_all add: handle_response_parts)
    moreover have "reader_step e (?r ReadHeld, s) [] [] (r\<lparr>rt_hand := None\<rparr>, s)"
      using r_useless [of "?r ReadHeld" m e s] None assms(3) by (simp add: nx)
    ultimately show ?thesis using reader_runI [OF assms(1)] by simp
  next
    case (Some a)
    let ?k = "answer_key e a"
    from rr_step [OF assms(1) r_look] Some assms(3)
    have look: "reader_run e c [] ev (?r (case ws_metaMap s ?k of None \<Rightarrow> ReadMark a | Some w \<Rightarrow> ReadFound a w), s)" by simp
    show ?thesis
    proof (cases "ws_metaMap s ?k")
      case None
      with look have "reader_run e c [] ev (?r (ReadMark a), s)" by simp
      from finish_run [OF this assms(2)] assms(4) None Some show ?thesis
        by (auto simp: handle_response_parts answer_key_def)
    next
      case found: (Some w)
      with look have f: "reader_run e c [] ev (?r (ReadFound a w), s)" by simp
      have rem: "\<exists>ev'. reader_run e c (es' @ (if has_id (w_id m) then [SaveQueue (m\<lparr>w_status := WEED_SUCCESSFUL\<rparr>)] else [])
          @ [DeleteFile (re_dirPath e @ ''/'' @ ua_fileName a)]) ev' (r\<lparr>rt_hand := None\<rparr>, s\<lparr>ws_metaMap := (ws_metaMap s)(?k := None)\<rparr>)"
        if "reader_run e c es' ev' (?r (ReadRemove a x), s)" for es' ev' x
      proof -
        from rr_step [OF that r_remove]
        have "reader_run e c es' (ev' @ [TookOut x (ws_metaMap s ?k)]) (?r (ReadMark a), s\<lparr>ws_metaMap := (ws_metaMap s)(?k := None)\<rparr>)" by simp
        from finish_run [OF this assms(2)] show ?thesis by blast
      qed
      show ?thesis
      proof (cases "save_part a w")
        case None
        from rr_step [OF f r_save_nothing] None have "reader_run e c [] ev (?r (ReadRemove a None), s)" by simp
        from rem [OF this] assms(4) None Some found show ?thesis
          by (auto simp: handle_response_parts answer_key_def store_meta_parts)
      next
        case save: (Some x)
        from rr_step [OF f r_save] save have g: "reader_run e c [x] ev (?r (ReadAnnounce a w), s)" by simp
        show ?thesis
        proof (cases "announce_part (re_now e) (re_newId e) a w")
          case (Inl ex)
          from rr_step [OF g r_announce_raises [of _ a w "re_now e" "re_newId e"]] Inl have "reader_run e c [x] (ev @ [KeptIn w]) (r\<lparr>rt_hand := None\<rparr>, s)"
            by (simp add: nx)
          with assms(4) Inl save Some found show ?thesis
            by (auto simp: handle_response_parts answer_key_def store_meta_parts)
        next
          case (Inr y)
          from rr_step [OF g r_announce] Inr
          have "reader_run e c ([x] @ (case y of None \<Rightarrow> [] | Some lm \<Rightarrow> [SendGraylog lm])) ev (?r (ReadRemove a (Some w)), s)" by simp
          from rem [OF this] assms(4) Inr save Some found show ?thesis
            by (cases y) (auto simp: handle_response_parts answer_key_def store_meta_parts)
        qed
      qed
    qed
  qed
qed

lemma reader_undisturbed:
  assumes "at_loop r" and "read_step e (rt_hand r) s = (es, h, s')"
  shows "\<exists>ev. reader_run e (r, s) es ev (r\<lparr>rt_hand := h\<rparr>, s')"
proof -
  obtain x q where p: "(case rt_hand r of Some m \<Rightarrow> (Some m, ws_readQueue s) | None \<Rightarrow> poll (ws_readQueue s)) = (x, q)"
    by fastforce
  have pc: "rt_pc r = ReadLoop" and r: "\<not> rt_interrupted r" "rt_running r" using assms(1) by (simp_all add: at_loop_def)
  let ?s = "s\<lparr>ws_readQueue := q\<rparr>"
  have "reader_run e (r, s) [] [] (r\<lparr>rt_pc := ReadPoll\<rparr>, s)"
    using rr_step [OF rr_refl r_loop [OF pc]] r by simp
  have held: "reader_run e (r, s) [] [] (r\<lparr>rt_hand := x, rt_pc := ReadHeld\<rparr>, ?s)"
  proof (cases "rt_hand r")
    case None
    then show ?thesis using rr_step [OF \<open>reader_run e (r, s) [] [] _\<close> r_poll] p r by simp
  next
    case (Some m)
    then have "r\<lparr>rt_hand := x, rt_pc := ReadHeld\<rparr> = r\<lparr>rt_pc := ReadHeld\<rparr>" "?s = s" using p by (cases r; auto)+
    then show ?thesis using rr_step [OF \<open>reader_run e (r, s) [] [] _\<close> r_lingering] Some by simp
  qed
  show ?thesis
  proof (cases "\<exists>m. x = Some m \<and> re_dirPath e \<noteq> []")
    case False
    then have idle: "es = []" "h = x" "s' = ?s" using assms(2) unfolding read_step_def p by (cases x; auto simp: Let_def)+
    have "r\<lparr>rt_hand := x, rt_pc := ReadLoop\<rparr> = r\<lparr>rt_hand := x\<rparr>" using pc by (cases r) simp
    with rr_step [OF held r_idle] False show ?thesis by (cases x) (auto simp: idle)
  next
    case True
    then obtain m where m: "x = Some m" "re_dirPath e \<noteq> []" by blast
    obtain metas where h: "handle_response e m (ws_metaMap ?s) = (es, metas)" "h = None" "s' = ?s\<lparr>ws_metaMap := metas\<rparr>"
      using assms(2) m unfolding read_step_def p by (auto simp: Let_def split: prod.splits)
    from handle_run [OF held [unfolded m(1)] pc m(2) h(1)] show ?thesis by (simp add: h(2,3))
  qed
qed

end
