(* ===== verification/Weed_Conservation.thy ===== *)
theory Weed_Conservation
  imports Weed_Reader "HOL-Library.Multiset"
begin

text \<open>
  The payloads of files: what the map of waiting metas holds, what the effects have saved, and how each
  single step of a read thread balances the two.
\<close>

section \<open>Payloads\<close>

text \<open>
  The meta a file is about, without what comes with the answer: its file id, its size and the id of the
  database. A read thread sets these three in the object that waits in the map, so that they may
  already be there when its save has raised.
\<close>

datatype payload = PLog log_file_meta | PAttach attach_file_meta | PCrash crash_file_meta

definition bare_log :: "log_file_meta \<Rightarrow> log_file_meta" where
  "bare_log l = l\<lparr>lf_id := None, lf_fid := None, lf_size := 0\<rparr>"

definition bare_attach :: "attach_file_meta \<Rightarrow> attach_file_meta" where
  "bare_attach t = t\<lparr>af_id := None, af_fid := None, af_size := 0\<rparr>"

definition bare_crash :: "crash_file_meta \<Rightarrow> crash_file_meta" where
  "bare_crash c = c\<lparr>cf_id := None, cf_fid := None, cf_size := 0\<rparr>"

lemmas bare_defs = bare_log_def bare_attach_def bare_crash_def

definition payload_of :: "weed_meta \<Rightarrow> payload" where
  "payload_of m =
     (if w_type m = TYPE_LOG then PLog (bare_log (the (w_log m)))
      else if w_type m = TYPE_ATTACHMENT then PAttach (bare_attach (the (w_attach m)))
      else PCrash (bare_crash (the (w_crash m))))"

fun saved_of :: "weed_effect \<Rightarrow> payload list" where
  "saved_of (SaveLogMeta l) = [PLog (bare_log l)]"
| "saved_of (SaveAttachMeta t) = [PAttach (bare_attach t)]"
| "saved_of (SaveCrashMeta c) = [PCrash (bare_crash c)]"
| "saved_of (SaveQueue m) = []"
| "saved_of (SendGraylog lm) = []"
| "saved_of (DeleteFile f) = []"

definition saved :: "weed_effect list \<Rightarrow> payload list" where
  "saved es = concat (map saved_of es)"

lemma saved_simps [simp]: "saved [] = []" "saved (es @ es') = saved es @ saved es'" "saved (x # es) = saved_of x @ saved es"
  by (simp_all add: saved_def)

lemma save_part_payload: "save_part a m = Some x \<Longrightarrow> saved_of x = [payload_of m]"
  by (auto simp: save_part_def payload_of_def bare_defs weed_types split: if_splits)

lemma built_saves:
  assumes "built m"
  shows "save_part a m \<noteq> None"
proof -
  obtain now k ext kind i st where m: "m = (weed_of now k ext kind)\<lparr>w_id := i, w_status := st\<rparr>"
    using assms unfolding built_def by (elim exE)
  show ?thesis unfolding m
    by (cases kind)
      (simp_all add: save_part_def createWeedLog_def createWeedAttach_def createWeedCrash_def new_weed_meta_def weed_types)
qed

section \<open>The waiting ones\<close>

definition waiting :: "(string \<rightharpoonup> weed_meta) \<Rightarrow> payload multiset" where
  "waiting metas = image_mset (\<lambda>k. payload_of (the (metas k))) (mset_set (dom metas))"

text \<open>The payload under a key: what a registration replaces, an answer removes, a clean-up forgets.\<close>

definition entry_under :: "(string \<rightharpoonup> weed_meta) \<Rightarrow> string \<Rightarrow> payload multiset" where
  "entry_under metas k = (case metas k of None \<Rightarrow> {#} | Some m \<Rightarrow> {#payload_of m#})"

lemma waiting_empty [simp]: "waiting Map.empty = {#}"
  by (simp add: waiting_def)

lemma waiting_new:
  assumes "finite (dom metas)" and "metas k = None"
  shows "waiting (metas(k \<mapsto> m)) = add_mset (payload_of m) (waiting metas)"
proof -
  have "image_mset (\<lambda>j. payload_of (the ((metas(k \<mapsto> m)) j))) (mset_set (dom metas)) = waiting metas"
    unfolding waiting_def using assms by (intro image_mset_cong) (auto simp: domIff)
  then show ?thesis using assms by (simp add: waiting_def domIff)
qed

lemma waiting_remove:
  assumes "finite (dom metas)"
  shows "waiting metas = waiting (metas(k := None)) + entry_under metas k"
proof (cases "metas k")
  case None
  then have "metas(k := None) = metas" by auto
  then show ?thesis by (simp add: None entry_under_def)
next
  case (Some m)
  then have "metas = (metas(k := None))(k \<mapsto> m)" by auto
  then show ?thesis using waiting_new [of "metas(k := None)" k m] assms Some by (simp add: entry_under_def)
qed

lemma waiting_register:
  assumes "finite (dom metas)"
  shows "waiting (metas(k \<mapsto> m)) + entry_under metas k = add_mset (payload_of m) (waiting metas)"
  using waiting_new [of "metas(k := None)" k m] waiting_remove [OF assms, of k] assms by simp

section \<open>What read threads do with them\<close>

definition opt_payload :: "weed_meta option \<Rightarrow> payload multiset" where
  "opt_payload x = (case x of None \<Rightarrow> {#} | Some m \<Rightarrow> {#payload_of m#})"

fun read_saved :: "read_event \<Rightarrow> payload multiset" where
  "read_saved (TookOut x y) = opt_payload x"
| "read_saved (KeptIn w) = {#payload_of w#}"

fun read_removed :: "read_event \<Rightarrow> payload multiset" where
  "read_removed (TookOut x y) = opt_payload y"
| "read_removed (KeptIn w) = {#}"

text \<open>
  An event answers a payload if it saved it and removed it; what it removed without having saved it is
  lost, and what it saved without removing it is saved once more than it is removed.
\<close>

definition answered :: "read_event list \<Rightarrow> payload multiset" where
  "answered tr = sum_list (map (\<lambda>ev. read_saved ev \<inter># read_removed ev) tr)"

definition lost_by_answers :: "read_event list \<Rightarrow> payload multiset" where
  "lost_by_answers tr = sum_list (map (\<lambda>ev. read_removed ev - read_saved ev) tr)"

definition saved_again :: "read_event list \<Rightarrow> payload multiset" where
  "saved_again tr = sum_list (map (\<lambda>ev. read_saved ev - read_removed ev) tr)"

lemmas answer_defs = answered_def lost_by_answers_def saved_again_def

lemma answers_append [simp]:
  "answered (tr @ tr') = answered tr + answered tr'" "answered [] = {#}"
  "lost_by_answers (tr @ tr') = lost_by_answers tr + lost_by_answers tr'" "lost_by_answers [] = {#}"
  "saved_again (tr @ tr') = saved_again tr + saved_again tr'" "saved_again [] = {#}"
  by (simp_all add: answer_defs)

lemma inter_diff: "A \<inter># B + (B - A) = (B :: 'a multiset)" "A \<inter># B + (A - B) = A"
  by (auto simp: multiset_eq_iff min_def)

lemma sum_list_inter_diff:
  "sum_list (map (\<lambda>ev. f ev \<inter># g ev) tr) + sum_list (map (\<lambda>ev. g ev - f ev) tr) = (sum_list (map g tr) :: 'a multiset)"
  "sum_list (map (\<lambda>ev. f ev \<inter># g ev) tr) + sum_list (map (\<lambda>ev. f ev - g ev) tr) = sum_list (map f tr)"
  by (simp_all add: sum_list_addf [symmetric] inter_diff)

lemma answered_removed: "answered tr + lost_by_answers tr = sum_list (map read_removed tr)"
  by (simp add: answer_defs sum_list_inter_diff)

lemma answered_saved: "answered tr + saved_again tr = sum_list (map read_saved tr)"
  by (simp add: answer_defs sum_list_inter_diff)

text \<open>The payload a read thread has saved and not yet accounted for, and the meta of the map it has in hand.\<close>

fun saved_by_pc :: "read_pc \<Rightarrow> payload multiset" where
  "saved_by_pc (ReadAnnounce a w) = {#payload_of w#}"
| "saved_by_pc (ReadRemove a x) = opt_payload x"
| "saved_by_pc pc = {#}"

fun found_by_pc :: "read_pc \<Rightarrow> (upload_answer \<times> weed_meta) option" where
  "found_by_pc (ReadFound a w) = Some (a, w)"
| "found_by_pc (ReadAnnounce a w) = Some (a, w)"
| "found_by_pc (ReadRemove a x) = map_option (Pair a) x"
| "found_by_pc pc = None"

lemma reader_step_books:
  assumes "reader_step e (r, s) es ev (r', s')" and "finite (dom (ws_metaMap s))"
  shows "finite (dom (ws_metaMap s'))
    \<and> waiting (ws_metaMap s) = waiting (ws_metaMap s') + sum_list (map read_removed ev)
    \<and> mset (saved es) + saved_by_pc (rt_pc r) = saved_by_pc (rt_pc r') + sum_list (map read_saved ev)
    \<and> ws_writeQueue s' = ws_writeQueue s"
  using assms(1)
proof cases
  case (r_remove a x)
  have "opt_payload (ws_metaMap s k) = entry_under (ws_metaMap s) k" for k by (simp add: opt_payload_def entry_under_def)
  with r_remove assms(2) show ?thesis
    using waiting_remove [OF assms(2), of "answer_key e a"] by simp
qed (use assms(2) in \<open>auto simp: next_response_def opt_payload_def save_part_payload split: option.splits\<close>)

text \<open>
  The entry a thread has found stays under the key of its answer, and is one that has been under it; no
  step saves a queue meta, for responses have no id; and an entry that can be saved is not removed unsaved.
\<close>

definition reader_ok :: "read_env \<Rightarrow> weed_meta set \<Rightarrow> reader \<Rightarrow> bool" where
  "reader_ok e known r \<longleftrightarrow> pred_option response_ok (rt_hand r)
     \<and> (\<forall>a w. found_by_pc (rt_pc r) = Some (a, w) \<longrightarrow> w \<in> known \<and> w_key w = Some (answer_key e a))
     \<and> (\<forall>a. rt_pc r \<noteq> ReadRemove a None)"

lemma reader_step_keeps:
  assumes "reader_step e (r, s) es ev (r', s')" and "reader_ok e known r" and "map_ok (ws_metaMap s)"
    and "ran (ws_metaMap s) \<subseteq> known" and "\<forall>m \<in> known. built m"
    and "queue_ok (ws_readQueue s) \<and> list_all response_ok (q_items (ws_readQueue s))"
  shows "reader_ok e known r' \<and> map_ok (ws_metaMap s') \<and> ran (ws_metaMap s') \<subseteq> known
    \<and> queue_ok (ws_readQueue s') \<and> list_all response_ok (q_items (ws_readQueue s')) \<and> queue_saves es = {}"
  using assms(1)
proof cases
  case (r_poll x q)
  then show ?thesis using assms poll_items_ok [of "ws_readQueue s" response_ok x q]
    by (auto simp: reader_ok_def queue_saves_def pred_option_def)
next
  case (r_look m a)
  then show ?thesis using assms(2-6)
    by (auto simp: reader_ok_def queue_saves_def map_ok_def ran_def split: option.splits)
next
  case (r_save a w x)
  then have "SaveQueue m \<noteq> x" for m by (auto simp: save_part_def split: if_splits)
  with r_save show ?thesis using assms(2-6) by (auto simp: reader_ok_def queue_saves_def)
next
  case (r_save_nothing a w)
  then have "w \<in> known" using assms(2) by (simp add: reader_ok_def)
  then show ?thesis using built_saves [of w a] assms(5) r_save_nothing by simp
next
  case (r_remove a x)
  have "ran ((ws_metaMap s)(k := None)) \<subseteq> known" for k using assms(4) by (auto simp: ran_def)
  with r_remove show ?thesis using assms(2-6) by (auto simp: reader_ok_def queue_saves_def map_ok_def)
next
  case (r_mark a m)
  then have "\<not> has_id (w_id m)" using assms(2) by (simp add: reader_ok_def response_ok_def)
  with r_mark show ?thesis using assms(2-6) by (simp add: reader_ok_def queue_saves_def)
qed (use assms(2-6) in \<open>auto simp: reader_ok_def queue_saves_def next_response_def split: option.splits\<close>)

lemma reader_step_saves:
  assumes "reader_step e (r, s) es ev (r', s')" and "reader_ok e known r"
  shows "set (saved es) \<subseteq> payload_of ` known"
  using assms(1)
proof cases
  case (r_save a w x)
  then have "w \<in> known" using assms(2) by (simp add: reader_ok_def)
  with r_save show ?thesis by (simp add: save_part_payload)
next
  case (r_announce a w now newId x)
  then show ?thesis by (cases x) simp_all
next
  case (r_mark a m)
  then show ?thesis by simp
qed simp_all

text \<open>What is removed and not saved: nothing, if the key has had only one meta.\<close>

lemma removed_saved:
  assumes "reader_step e (r, s) es ev (r', s')" and "reader_ok e known r" and "map_ok (ws_metaMap s)"
    and "ran (ws_metaMap s) \<subseteq> known" and "\<forall>m \<in> known. \<forall>m' \<in> known. w_key m = w_key m' \<longrightarrow> m = m'"
  shows "lost_by_answers ev = {#}"
  using assms(1)
proof cases
  case (r_remove a x)
  then obtain w where w: "x = Some w" "w \<in> known" "w_key w = Some (answer_key e a)"
    using assms(2) by (cases x) (auto simp: reader_ok_def)
  have "m = w" if "ws_metaMap s (answer_key e a) = Some m" for m
  proof -
    have "m \<in> known" "w_key m = Some (answer_key e a)" using that assms(3,4) by (auto simp: map_ok_def ran_def)
    with w assms(5) show ?thesis by simp
  qed
  with r_remove w show ?thesis
    by (cases "ws_metaMap s (answer_key e a)") (simp_all add: lost_by_answers_def opt_payload_def)
qed (simp_all add: lost_by_answers_def)

end
