(* ===== verification/Weed_System.thy ===== *)
theory Weed_System
  imports Weed_Conservation
begin

text \<open>
  The whole WeedFS client as it runs: every call of \<open>write\<close>, every write and read thread the
  reconnects have started, the channel, the answers of the server and the scheduled clean-up. Each
  step is one access to shared state - a flag, a queue, the map, the database - so that any thread
  can come between any two accesses of another.
\<close>

section \<open>State and history\<close>

text \<open>
  \<open>sy_calls\<close> are the calls of \<open>write\<close> under way, from controllers and the retry task alike: before the
  test of the server error, before the \<open>put\<close> of the queue, before the \<open>put\<close> of the map.
  \<open>sy_clearing\<close> are the keys whose file the clean-up has found missing and which it is about to remove.
  Every connection attempt adds a write thread and a read thread, which share queues and map.
\<close>

datatype write_pc = WCheckError | WPut | WRegister

record weed_system =
  sy_service :: weed_service
  sy_calls :: "(write_pc \<times> weed_meta) list"
  sy_clearing :: "string list"
  sy_writers :: "writer list"
  sy_readers :: "reader list"

text \<open>
  What has happened: the metas queued and registered, what the writers and the readers did, what a
  registration replaced and the clean-up removed, the effects, and the metas of the weed queue collection.
\<close>

record weed_history =
  hi_accepted :: "weed_meta list"
  hi_registered :: "weed_meta list"
  hi_events :: "weed_event list"
  hi_reads :: "read_event list"
  hi_replaced :: "payload multiset"
  hi_cleared :: "payload multiset"
  hi_effects :: "weed_effect list"
  hi_stored :: "weed_meta set"

definition newWeedSystem :: "nat \<Rightarrow> weed_system" where
  "newWeedSystem capacity =
     \<lparr>sy_service = newWeedService capacity, sy_calls = [], sy_clearing = [],
      sy_writers = [new_writer], sy_readers = [new_reader]\<rparr>"

text \<open>The server starts with the metas \<open>st\<close> that earlier runs have left in the collection.\<close>

definition no_history :: "weed_meta set \<Rightarrow> weed_history" where
  "no_history st = \<lparr>hi_accepted = [], hi_registered = [], hi_events = [], hi_reads = [], hi_replaced = {#},
     hi_cleared = {#}, hi_effects = [], hi_stored = st\<rparr>"

text \<open>A caller of \<open>write\<close> has just made the meta, or loaded it from the collection.\<close>

definition caller_has :: "weed_meta set \<Rightarrow> weed_meta \<Rightarrow> bool" where
  "caller_has st m \<longleftrightarrow> (\<exists>now k ext kind. m = weed_of now k ext kind) \<or> loaded_from st m"

definition marks :: "weed_event list \<Rightarrow> weed_meta set" where
  "marks ev = {m. MarkedDeleted m \<in> set ev}"

section \<open>Steps\<close>

inductive system_step ::
  "read_env \<Rightarrow> writer_env \<Rightarrow> string \<Rightarrow> weed_system \<times> weed_history \<Rightarrow> weed_system \<times> weed_history \<Rightarrow> bool"
  for e :: read_env and we :: writer_env and dir :: string where
  y_call: "caller_has (hi_stored h) m \<Longrightarrow> ws_connected (sy_service y) \<Longrightarrow>
    system_step e we dir (y, h) (y\<lparr>sy_calls := sy_calls y @ [(WCheckError, m)]\<rparr>, h)"
| y_call_offline: "caller_has (hi_stored h) m \<Longrightarrow> \<not> ws_connected (sy_service y) \<Longrightarrow>
    system_step e we dir (y, h)
      (y, h\<lparr>hi_effects := hi_effects h @ [SaveQueue m], hi_stored := hi_stored h \<union> {m}\<rparr>)"
| y_no_error: "sy_calls y = xs @ (WCheckError, m) # ys \<Longrightarrow> \<not> ws_serverError (sy_service y) \<Longrightarrow>
    system_step e we dir (y, h) (y\<lparr>sy_calls := xs @ (WPut, m) # ys\<rparr>, h)"
| y_error: "sy_calls y = xs @ (WCheckError, m) # ys \<Longrightarrow> ws_serverError (sy_service y) \<Longrightarrow>
    system_step e we dir (y, h)
      (y\<lparr>sy_calls := xs @ ys\<rparr>, h\<lparr>hi_effects := hi_effects h @ [DeleteFile (dir @ ''/'' @ filename m)]\<rparr>)"
| y_put: "sy_calls y = xs @ (WPut, m) # ys \<Longrightarrow> offer m (ws_writeQueue (sy_service y)) = (True, q) \<Longrightarrow>
    system_step e we dir (y, h)
      (y\<lparr>sy_service := (sy_service y)\<lparr>ws_writeQueue := q\<rparr>, sy_calls := xs @ (WRegister, m) # ys\<rparr>,
       h\<lparr>hi_accepted := hi_accepted h @ [m]\<rparr>)"
| y_put_interrupted: "sy_calls y = xs @ (WPut, m) # ys \<Longrightarrow> system_step e we dir (y, h) (y\<lparr>sy_calls := xs @ ys\<rparr>, h)"
| y_register: "sy_calls y = xs @ (WRegister, m) # ys \<Longrightarrow> w_key m = Some k \<Longrightarrow>
    system_step e we dir (y, h)
      (y\<lparr>sy_service := (sy_service y)\<lparr>ws_metaMap := (ws_metaMap (sy_service y))(k \<mapsto> m)\<rparr>, sy_calls := xs @ ys\<rparr>,
       h\<lparr>hi_registered := hi_registered h @ [m],
         hi_replaced := hi_replaced h + entry_under (ws_metaMap (sy_service y)) k\<rparr>)"
| y_connected: "system_step e we dir (y, h) (y\<lparr>sy_service := (sy_service y)\<lparr>ws_connected := c\<rparr>\<rparr>, h)"
| y_flag: "system_step e we dir (y, h) (y\<lparr>sy_service := (sy_service y)\<lparr>ws_serverError := b\<rparr>\<rparr>, h)"
| y_start_writer: "system_step e we dir (y, h) (y\<lparr>sy_writers := map_last writer_start (sy_writers y)\<rparr>, h)"
| y_start_reader: "system_step e we dir (y, h) (y\<lparr>sy_readers := map_last reader_start (sy_readers y)\<rparr>, h)"
| y_closes: "system_step e we dir (y, h) (y\<lparr>sy_writers := map_last writer_closes (sy_writers y)\<rparr>, h)"
| y_stop_writer: "system_step e we dir (y, h) (y\<lparr>sy_writers := map_last writer_stop (sy_writers y)\<rparr>, h)"
| y_stop_reader: "system_step e we dir (y, h) (y\<lparr>sy_readers := map_last reader_stop (sy_readers y)\<rparr>, h)"
| y_reconnect: "system_step e we dir (y, h)
    (y\<lparr>sy_writers := sy_writers y @ [new_writer], sy_readers := sy_readers y @ [new_reader]\<rparr>, h)"
| y_answer: "content \<noteq> [] \<Longrightarrow> offer (createWeedResponse now content) (ws_readQueue (sy_service y)) = (True, q) \<Longrightarrow>
    system_step e we dir (y, h) (y\<lparr>sy_service := (sy_service y)\<lparr>ws_readQueue := q\<rparr>\<rparr>, h)"
| y_missing: "ws_metaMap (sy_service y) k = Some m \<Longrightarrow> clearMemory exists dir (ws_metaMap (sy_service y)) k = None \<Longrightarrow>
    system_step e we dir (y, h) (y\<lparr>sy_clearing := sy_clearing y @ [k]\<rparr>, h)"
| y_clear: "sy_clearing y = xs @ k # ys \<Longrightarrow>
    system_step e we dir (y, h)
      (y\<lparr>sy_service := (sy_service y)\<lparr>ws_metaMap := (ws_metaMap (sy_service y))(k := None)\<rparr>, sy_clearing := xs @ ys\<rparr>,
       h\<lparr>hi_cleared := hi_cleared h + entry_under (ws_metaMap (sy_service y)) k\<rparr>)"
| y_writer: "i < length (sy_writers y) \<Longrightarrow> wr_channel (sy_writers y ! i) \<noteq> None \<Longrightarrow>
    writer_step we (sy_writers y ! i, ws_writeQueue (sy_service y)) ev (w, q) \<Longrightarrow>
    system_step e we dir (y, h)
      (y\<lparr>sy_service := (sy_service y)\<lparr>ws_writeQueue := q\<rparr>, sy_writers := (sy_writers y)[i := w]\<rparr>,
       h\<lparr>hi_events := hi_events h @ ev, hi_stored := hi_stored h \<union> marks ev\<rparr>)"
| y_reader: "i < length (sy_readers y) \<Longrightarrow> rt_started (sy_readers y ! i) \<Longrightarrow>
    reader_step e (sy_readers y ! i, sy_service y) es ev (r, s) \<Longrightarrow>
    system_step e we dir (y, h)
      (y\<lparr>sy_service := s, sy_readers := (sy_readers y)[i := r]\<rparr>,
       h\<lparr>hi_effects := hi_effects h @ es, hi_reads := hi_reads h @ ev, hi_stored := hi_stored h \<union> queue_saves es\<rparr>)"

inductive system_run ::
  "read_env \<Rightarrow> writer_env \<Rightarrow> string \<Rightarrow> weed_system \<times> weed_history \<Rightarrow> weed_system \<times> weed_history \<Rightarrow> bool"
  for e :: read_env and we :: writer_env and dir :: string where
  sys_refl: "system_run e we dir c c"
| sys_step: "system_run e we dir c c' \<Longrightarrow> system_step e we dir c' c'' \<Longrightarrow> system_run e we dir c c''"

lemma system_run_trans:
  "system_run e we dir c c' \<Longrightarrow> system_run e we dir c' c'' \<Longrightarrow> system_run e we dir c c''"
  by (rotate_tac 1, induction rule: system_run.induct) (auto intro: sys_step)

section \<open>What nothing disturbs is the service of before\<close>

lemma write_undisturbed:
  assumes "caller_has (hi_stored h) m" and "w_key m = Some k"
    and "weed_write dir m (sy_service y) = Some (Inr es, s)"
  shows "\<exists>h'. system_run e we dir (y, h) (y\<lparr>sy_service := s\<rparr>, h') \<and> hi_effects h' = hi_effects h @ es"
proof (cases "ws_connected (sy_service y)")
  case False
  with assms(3) have es: "s = sy_service y" "es = [SaveQueue m]" by (simp_all add: weed_write_def)
  from sys_step [OF sys_refl y_call_offline [OF assms(1) False]]
  have "system_run e we dir (y, h) (y, h\<lparr>hi_effects := hi_effects h @ [SaveQueue m], hi_stored := hi_stored h \<union> {m}\<rparr>)" .
  with es show ?thesis by (intro exI [of _ "h\<lparr>hi_effects := hi_effects h @ [SaveQueue m], hi_stored := hi_stored h \<union> {m}\<rparr>"]) simp
next
  case True
  let ?y = "\<lambda>pc. y\<lparr>sy_calls := sy_calls y @ [(pc, m)]\<rparr>"
  have call: "system_run e we dir (y, h) (?y WCheckError, h)" by (rule sys_step [OF sys_refl y_call [OF assms(1) True]])
  have calls: "sy_calls (?y pc) = sy_calls y @ (pc, m) # []" for pc by simp
  show ?thesis
  proof (cases "ws_serverError (sy_service y)")
    case err: True
    with assms(3) True have es: "s = sy_service y" "es = [DeleteFile (dir @ ''/'' @ filename m)]" by (simp_all add: weed_write_def)
    from sys_step [OF call y_error [OF calls]] err
    have "system_run e we dir (y, h) (y, h\<lparr>hi_effects := hi_effects h @ es\<rparr>)" by (simp add: es)
    then show ?thesis using es(1) by (intro exI [of _ "h\<lparr>hi_effects := hi_effects h @ es\<rparr>"]) simp
  next
    case False
    then obtain q where q: "offer m (ws_writeQueue (sy_service y)) = (True, q)" and es: "es = []"
      and s: "s = (sy_service y)\<lparr>ws_writeQueue := q, ws_metaMap := (ws_metaMap (sy_service y))(k \<mapsto> m)\<rparr>"
      using assms(2,3) True by (auto simp: weed_write_def Let_def split: prod.splits bool.splits)
    from sys_step [OF call y_no_error [OF calls]] False have "system_run e we dir (y, h) (?y WPut, h)" by simp
    from sys_step [OF this y_put [OF calls]] q
    have put: "system_run e we dir (y, h) (y\<lparr>sy_service := (sy_service y)\<lparr>ws_writeQueue := q\<rparr>, sy_calls := sy_calls y @ [(WRegister, m)]\<rparr>,
        h\<lparr>hi_accepted := hi_accepted h @ [m]\<rparr>)" by simp
    from sys_step [OF this y_register [where xs = "sy_calls y" and ys = "[]" and m = m, OF _ assms(2)]]
    have "system_run e we dir (y, h) (y\<lparr>sy_service := s\<rparr>,
        h\<lparr>hi_accepted := hi_accepted h @ [m], hi_registered := hi_registered h @ [m],
          hi_replaced := hi_replaced h + entry_under (ws_metaMap (sy_service y)) k\<rparr>)" by (simp add: s)
    then show ?thesis by (rule_tac exI, rule_tac conjI, assumption) (simp add: es)
  qed
qed

lemma reader_run_system:
  assumes "reader_run e c es ev (r, s)" and "c = (sy_readers y ! i, sy_service y)"
    and "i < length (sy_readers y)" and "rt_started (sy_readers y ! i)"
  shows "rt_started r \<and> system_run e we dir (y, h)
      (y\<lparr>sy_service := s, sy_readers := (sy_readers y)[i := r]\<rparr>,
       h\<lparr>hi_effects := hi_effects h @ es, hi_reads := hi_reads h @ ev, hi_stored := hi_stored h \<union> queue_saves es\<rparr>)"
  using assms
proof (induction c es ev "(r, s)" arbitrary: r s rule: reader_run.induct)
  case rr_refl
  then have r: "r = sy_readers y ! i" "s = sy_service y" by simp_all
  with rr_refl(2,3) show ?case using sys_refl [of e we dir "(y, h)"] by (simp add: queue_saves_def)
next
  case (rr_step c es ev c' es' ev')
  obtain r0 s0 where c': "c' = (r0, s0)" by fastforce
  let ?y = "y\<lparr>sy_service := s0, sy_readers := (sy_readers y)[i := r0]\<rparr>"
  let ?h = "h\<lparr>hi_effects := hi_effects h @ es, hi_reads := hi_reads h @ ev, hi_stored := hi_stored h \<union> queue_saves es\<rparr>"
  from rr_step.hyps(2) [OF c'] rr_step.prems have IH: "rt_started r0" "system_run e we dir (y, h) (?y, ?h)" by simp_all
  have "reader_step e (sy_readers ?y ! i, sy_service ?y) es' ev' (r, s)" using rr_step.hyps(3) c' rr_step.prems(2) by simp
  from y_reader [OF _ _ this, of we dir ?h] rr_step.prems(2) IH(1)
  have st: "system_step e we dir (?y, ?h)
      (y\<lparr>sy_service := s, sy_readers := (sy_readers y)[i := r]\<rparr>,
       h\<lparr>hi_effects := hi_effects h @ es @ es', hi_reads := hi_reads h @ ev @ ev', hi_stored := hi_stored h \<union> queue_saves (es @ es')\<rparr>)"
    by (simp add: queue_saves_def Collect_disj_eq Un_assoc)
  have "rt_started r" using rr_step.hyps(3) IH(1) unfolding c' by cases (auto simp: next_response_def)
  with sys_step [OF IH(2) st] show ?case by simp
qed


section \<open>What every step keeps\<close>

definition writer_hands :: "writer list \<Rightarrow> weed_meta multiset" where
  "writer_hands ws = sum_list (map (\<lambda>w. mset (writer_hand w)) ws)"

definition half_saved :: "reader list \<Rightarrow> payload multiset" where
  "half_saved rs = sum_list (map (\<lambda>r. saved_by_pc (rt_pc r)) rs)"

definition registering :: "weed_system \<Rightarrow> weed_meta list" where
  "registering y = concat (map (\<lambda>(pc, m). if pc = WRegister then [m] else []) (sy_calls y))"

lemma sum_list_update_mset:
  "i < length xs \<Longrightarrow> sum_list (map f (xs[i := x])) + f (xs ! i) = sum_list (map f xs) + (f x :: 'b multiset)"
  by (induction xs arbitrary: i) (auto simp: nth_Cons less_Suc_eq_0_disj ac_simps split: nat.splits)

lemma sum_map_last: "(\<And>x. f (g x) = f x) \<Longrightarrow> sum_list (map f (map_last g xs)) = (sum_list (map f xs) :: 'b multiset)"
  by (cases xs rule: rev_cases) (simp_all add: map_last_def)

lemma set_map_last: "x \<in> set (map_last g xs) \<Longrightarrow> x \<in> set xs \<or> (\<exists>x0 \<in> set xs. x = g x0)"
  by (cases xs rule: rev_cases) (auto simp: map_last_def)

lemma writer_hand_ops [simp]:
  "writer_hand (writer_start w) = writer_hand w" "writer_hand (writer_closes w) = writer_hand w"
  "writer_hand (writer_stop w) = writer_hand w" "writer_hand new_writer = []"
  "wr_hand (writer_start w) = wr_hand w" "wr_hand (writer_closes w) = wr_hand w"
  "wr_hand (writer_stop w) = wr_hand w" "wr_hand new_writer = None"
  by (simp_all add: writer_hand_def writer_start_def writer_closes_def writer_stop_def new_writer_def)

lemma reader_ops [simp]:
  "rt_pc (reader_start r) = rt_pc r" "rt_pc (reader_stop r) = rt_pc r" "rt_pc new_reader = ReadLoop"
  "reader_ok e known (reader_start r) = reader_ok e known r" "reader_ok e known (reader_stop r) = reader_ok e known r"
  "reader_ok e known new_reader"
  by (simp_all add: reader_start_def reader_stop_def new_reader_def reader_ok_def)

lemma offer_accepted: "offer m q = (True, q') \<Longrightarrow> queue_ok q' \<and> q_items q' = q_items q @ [m]"
  by (auto simp: offer_def queue_ok_def split: if_splits)

subsection \<open>From the queue to the writers\<close>

definition flow_ok :: "weed_system \<Rightarrow> weed_history \<Rightarrow> bool" where
  "flow_ok y h \<longleftrightarrow> queue_ok (ws_writeQueue (sy_service y))
     \<and> map bare (hi_accepted h) = taken (hi_events h) @ map bare (q_items (ws_writeQueue (sy_service y)))
     \<and> mset (taken (hi_events h)) = mset (finished (hi_events h)) + writer_hands (sy_writers y)"

lemma reader_step_queue: "reader_step e (r, s) es ev (r', s') \<Longrightarrow> ws_writeQueue s' = ws_writeQueue s"
  by (erule reader_step.cases) auto

lemma flow_step:
  assumes "system_step e we dir (y, h) (y', h')" and "flow_ok y h"
  shows "flow_ok y' h'"
  using assms(1)
proof cases
  case (y_put xs m ys q)
  with assms(2) offer_accepted [of m "ws_writeQueue (sy_service y)" q] show ?thesis by (simp add: flow_ok_def)
next
  case (y_writer i ev w q)
  let ?w = "sy_writers y ! i"
  from writer_step_balance [OF y_writer(5)] assms(2) have b: "map bare (q_items (ws_writeQueue (sy_service y))) = taken ev @ map bare (q_items q)"
    "queue_ok q" "writer_hand ?w @ taken ev = finished ev @ writer_hand w" by (auto simp: flow_ok_def)
  from b(3) have "mset (writer_hand ?w) + mset (taken ev) = mset (finished ev) + mset (writer_hand w)"
    by (metis mset_append)
  with sum_list_update_mset [OF y_writer(3), of "\<lambda>w. mset (writer_hand w)" w] assms(2)
  have "mset (taken (hi_events h)) + mset (taken ev) + mset (writer_hand ?w)
      = mset (finished (hi_events h)) + mset (finished ev) + writer_hands ((sy_writers y)[i := w]) + mset (writer_hand ?w)"
    by (simp add: flow_ok_def writer_hands_def ac_simps)
  then have "mset (taken (hi_events h)) + mset (taken ev) = mset (finished (hi_events h)) + mset (finished ev) + writer_hands ((sy_writers y)[i := w])"
    by (rule add_right_imp_eq)
  with assms(2) b(1,2) y_writer(1,2) show ?thesis by (simp add: flow_ok_def)
next
  case (y_reader i es ev r s)
  with assms(2) reader_step_queue [OF y_reader(5)] show ?thesis by (simp add: flow_ok_def)
qed (use assms(2) in \<open>simp_all add: flow_ok_def writer_hands_def sum_map_last\<close>)

subsection \<open>From the calls through the map to the database\<close>

definition books_ok :: "weed_system \<Rightarrow> weed_history \<Rightarrow> bool" where
  "books_ok y h \<longleftrightarrow> finite (dom (ws_metaMap (sy_service y)))
     \<and> mset (hi_accepted h) = mset (hi_registered h) + mset (registering y)
     \<and> mset (map payload_of (hi_registered h))
         = sum_list (map read_removed (hi_reads h)) + waiting (ws_metaMap (sy_service y)) + hi_replaced h + hi_cleared h
     \<and> mset (saved (hi_effects h)) = sum_list (map read_saved (hi_reads h)) + half_saved (sy_readers y)"

lemma books_step:
  assumes "system_step e we dir (y, h) (y', h')" and "books_ok y h"
  shows "books_ok y' h'"
  using assms(1)
proof cases
  case (y_register xs m ys k)
  have fin: "finite (dom (ws_metaMap (sy_service y)))" using assms(2) by (simp add: books_ok_def)
  from waiting_register [OF this, of k m] assms(2) y_register fin show ?thesis
    by (simp add: books_ok_def registering_def ac_simps)
next
  case (y_clear xs k ys)
  have fin: "finite (dom (ws_metaMap (sy_service y)))" using assms(2) by (simp add: books_ok_def)
  from waiting_remove [OF this, of k] assms(2) y_clear fin show ?thesis
    by (simp add: books_ok_def registering_def ac_simps)
next
  case (y_reader i es ev r s)
  let ?r = "sy_readers y ! i"
  have fin: "finite (dom (ws_metaMap (sy_service y)))" using assms(2) by (simp add: books_ok_def)
  note b = reader_step_books [OF y_reader(5) fin]
  have "half_saved ((sy_readers y)[i := r]) + saved_by_pc (rt_pc ?r) = half_saved (sy_readers y) + saved_by_pc (rt_pc r)"
    unfolding half_saved_def by (rule sum_list_update_mset [OF y_reader(3)])
  with b have "half_saved (sy_readers y) + mset (saved es) + saved_by_pc (rt_pc ?r)
      = half_saved ((sy_readers y)[i := r]) + sum_list (map read_saved ev) + saved_by_pc (rt_pc ?r)"
    by (metis (no_types, lifting) add.assoc add.commute)
  then have "half_saved (sy_readers y) + mset (saved es) = half_saved ((sy_readers y)[i := r]) + sum_list (map read_saved ev)"
    by (rule add_right_imp_eq)
  with b assms(2) y_reader(1,2) show ?thesis by (simp add: books_ok_def registering_def ac_simps)
qed (use assms(2) in \<open>simp_all add: books_ok_def registering_def half_saved_def sum_map_last\<close>)


subsection \<open>What the metas are\<close>

definition typed_ok :: "read_env \<Rightarrow> weed_system \<Rightarrow> weed_history \<Rightarrow> bool" where
  "typed_ok e y h \<longleftrightarrow> (\<forall>m \<in> hi_stored h. built m) \<and> (\<forall>(pc, m) \<in> set (sy_calls y). built m)
     \<and> (\<forall>m \<in> set (hi_registered h). built m)
     \<and> queue_ok (ws_writeQueue (sy_service y)) \<and> list_all built (q_items (ws_writeQueue (sy_service y)))
     \<and> queue_ok (ws_readQueue (sy_service y)) \<and> list_all response_ok (q_items (ws_readQueue (sy_service y)))
     \<and> map_ok (ws_metaMap (sy_service y)) \<and> ran (ws_metaMap (sy_service y)) \<subseteq> set (hi_registered h)
     \<and> (\<forall>w \<in> set (sy_writers y). pred_option built (wr_hand w))
     \<and> (\<forall>r \<in> set (sy_readers y). reader_ok e (set (hi_registered h)) r)
     \<and> set (saved (hi_effects h)) \<subseteq> payload_of ` set (hi_registered h)"

lemma caller_built: "caller_has st m \<Longrightarrow> \<forall>m \<in> st. built m \<Longrightarrow> built m"
  by (auto simp: caller_has_def loaded_from_def intro: weed_of_built built_update simp del: weed_of.simps)

lemma reader_ok_mono: "reader_ok e known r \<Longrightarrow> known \<subseteq> known' \<Longrightarrow> reader_ok e known' r"
  by (fastforce simp: reader_ok_def)

lemma writer_step_typed:
  assumes "writer_step we (w, q) ev (w', q')" and "pred_option built (wr_hand w)"
    and "queue_ok q" and "list_all built (q_items q)"
  shows "pred_option built (wr_hand w') \<and> queue_ok q' \<and> list_all built (q_items q') \<and> (\<forall>m \<in> marks ev. built m)"
  using assms(1)
proof (cases rule: writer_stepE)
qed (use assms(2-4) in \<open>auto simp: marks_def pred_option_def process_meta_def intro: built_update
    dest: poll_items_ok [of q built] split: file_state.splits if_splits\<close>)

lemma typed_step:
  assumes "system_step e we dir (y, h) (y', h')" and "typed_ok e y h"
  shows "typed_ok e y' h'"
  using assms(1)
proof cases
  case (y_call m)
  with assms(2) caller_built [of "hi_stored h" m] show ?thesis by (auto simp: typed_ok_def)
next
  case (y_call_offline m)
  with assms(2) caller_built [of "hi_stored h" m] show ?thesis by (auto simp: typed_ok_def)
next
  case (y_put xs m ys q)
  with assms(2) offer_items_ok [of "ws_writeQueue (sy_service y)" built m True q] show ?thesis
    by (auto simp: typed_ok_def)
next
  case (y_register xs m ys k)
  have "ran ((ws_metaMap (sy_service y))(k \<mapsto> m)) \<subseteq> insert m (ran (ws_metaMap (sy_service y)))" by (auto simp: ran_def)
  moreover have "built m" using assms(2) y_register(3) by (simp add: typed_ok_def)
  moreover have "map_ok ((ws_metaMap (sy_service y))(k \<mapsto> m))"
    using assms(2) \<open>built m\<close> y_register(4) by (auto simp: typed_ok_def map_ok_def)
  moreover have "reader_ok e (insert m (set (hi_registered h))) r" if "r \<in> set (sy_readers y)" for r
    using assms(2) that reader_ok_mono [OF _ subset_insertI] by (auto simp: typed_ok_def)
  ultimately show ?thesis using assms(2) y_register(1-3) unfolding typed_ok_def by auto
next
  case (y_answer content now q)
  have "response_ok (createWeedResponse now content)"
    by (simp add: response_ok_def createWeedResponse_def new_weed_meta_def has_id_def)
  with y_answer assms(2) offer_items_ok [of "ws_readQueue (sy_service y)" response_ok "createWeedResponse now content" True q]
  show ?thesis by (auto simp: typed_ok_def)
next
  case (y_clear xs k ys)
  have "ran ((ws_metaMap (sy_service y))(k := None)) \<subseteq> ran (ws_metaMap (sy_service y))" by (auto simp: ran_def)
  moreover have "map_ok ((ws_metaMap (sy_service y))(k := None))" using assms(2) by (simp add: typed_ok_def map_ok_def)
  ultimately show ?thesis using assms(2) y_clear(1,2) by (auto simp: typed_ok_def)
next
  case (y_writer i ev w q)
  have "pred_option built (wr_hand (sy_writers y ! i))" using assms(2) y_writer(3) by (simp add: typed_ok_def)
  from writer_step_typed [OF y_writer(5) this] assms(2) y_writer(1,2) show ?thesis
    by (auto simp: typed_ok_def dest!: set_update_subset_insert [THEN subsetD])
next
  case (y_reader i es ev r s)
  let ?known = "set (hi_registered h)"
  have r: "reader_ok e ?known (sy_readers y ! i)" using assms(2) y_reader(3) by (simp add: typed_ok_def)
  have k: "reader_ok e ?known r \<and> map_ok (ws_metaMap s) \<and> ran (ws_metaMap s) \<subseteq> ?known
    \<and> queue_ok (ws_readQueue s) \<and> list_all response_ok (q_items (ws_readQueue s)) \<and> queue_saves es = {}"
    by (rule reader_step_keeps [OF y_reader(5) r]) (use assms(2) in \<open>simp_all add: typed_ok_def\<close>)
  with assms(2) y_reader(1,2) reader_step_queue [OF y_reader(5)] reader_step_saves [OF y_reader(5) r] show ?thesis
    by (auto simp: typed_ok_def dest!: set_update_subset_insert [THEN subsetD])
qed (use assms(2) in \<open>auto simp: typed_ok_def dest!: set_map_last\<close>)

subsection \<open>Keys used once\<close>

definition single_ok :: "weed_system \<Rightarrow> weed_history \<Rightarrow> bool" where
  "single_ok y h \<longleftrightarrow> (distinct (map w_key (hi_accepted h)) \<longrightarrow> hi_replaced h = {#} \<and> lost_by_answers (hi_reads h) = {#})"

lemma distinct_keys:
  assumes "distinct (map f xs)" and "mset xs = mset ys + mset zs" and "a \<in> set ys" and "b \<in> set zs"
  shows "f a \<noteq> f b"
proof -
  have "mset (map f xs) = mset (map f ys @ map f zs)" using assms(2) by simp
  then have "distinct (map f ys @ map f zs)" using assms(1) by (metis mset_eq_imp_distinct_iff)
  with assms(3,4) show ?thesis by auto
qed

lemma single_step:
  assumes "system_step e we dir (y, h) (y', h')" and "single_ok y h" and "typed_ok e y h" and "books_ok y h"
  shows "single_ok y' h'"
  using assms(1)
proof cases
  case (y_put xs m ys q)
  with assms(2) show ?thesis by (simp add: single_ok_def)
next
  case (y_register xs m ys k)
  have "entry_under (ws_metaMap (sy_service y)) k = {#}" if d: "distinct (map w_key (hi_accepted h))"
  proof (cases "ws_metaMap (sy_service y) k")
    case (Some m')
    then have "m' \<in> set (hi_registered h)" "w_key m' = Some k" using assms(3) by (auto simp: typed_ok_def map_ok_def ran_def)
    moreover have "m \<in> set (registering y)" using y_register(3) by (simp add: registering_def)
    ultimately show ?thesis
      using distinct_keys [OF d, of "hi_registered h" "registering y" m' m] assms(4) y_register(4) by (simp add: books_ok_def)
  qed (simp add: entry_under_def)
  with y_register assms(2) show ?thesis by (simp add: single_ok_def)
next
  case (y_reader i es ev r s)
  have r: "reader_ok e (set (hi_registered h)) (sy_readers y ! i)" using assms(3) y_reader(3) by (simp add: typed_ok_def)
  have "lost_by_answers ev = {#}" if "distinct (map w_key (hi_accepted h))"
  proof (rule removed_saved [OF y_reader(5) r])
    have "set (hi_registered h) \<subseteq> set (hi_accepted h)"
      using assms(4) arg_cong [of _ _ set_mset] by (metis books_ok_def set_mset_mset set_mset_union Un_upper1)
    with that show "\<forall>m \<in> set (hi_registered h). \<forall>m' \<in> set (hi_registered h). w_key m = w_key m' \<longrightarrow> m = m'"
      by (auto simp: distinct_map inj_on_def)
  qed (use assms(3) in \<open>simp_all add: typed_ok_def\<close>)
  with y_reader assms(2) show ?thesis by (simp add: single_ok_def)
qed (use assms(2) in \<open>simp_all add: single_ok_def\<close>)

lemma new_ok:
  assumes "\<forall>m \<in> st. built m"
  shows "flow_ok (newWeedSystem capacity) (no_history st) \<and> books_ok (newWeedSystem capacity) (no_history st)
    \<and> typed_ok e (newWeedSystem capacity) (no_history st) \<and> single_ok (newWeedSystem capacity) (no_history st)"
  using assms
  by (simp add: flow_ok_def books_ok_def typed_ok_def single_ok_def newWeedSystem_def no_history_def newWeedService_def
      queue_ok_def map_ok_def writer_hands_def half_saved_def registering_def)

lemma run_ok:
  assumes "system_run e we dir c (y, h)" and "c = (newWeedSystem capacity, no_history st)" and "\<forall>m \<in> st. built m"
  shows "flow_ok y h \<and> books_ok y h \<and> typed_ok e y h \<and> single_ok y h"
  using assms
proof (induction c "(y, h)" arbitrary: y h rule: system_run.induct)
  case sys_refl
  then show ?case using new_ok [of st capacity e] by simp
next
  case (sys_step c c')
  obtain y0 h0 where c': "c' = (y0, h0)" by fastforce
  from sys_step.hyps(2) [OF c' sys_step.prems]
  have "flow_ok y0 h0" "books_ok y0 h0" "typed_ok e y0 h0" "single_ok y0 h0" by simp_all
  with sys_step.hyps(3) [unfolded c'] show ?case
    by (intro conjI) (rule flow_step books_step typed_step single_step, assumption+)+
qed


text \<open>
  Claim C6. Nothing gets lost between the parts: in every run of the whole client - any number of calls,
  reconnects and threads, interleaved at every access to the shared state, with failing saves - every
  meta that was queued is exactly once finished by a writer, in the hand of one or still in the queue, and
  is taken in the order of the queue. Its payload is exactly once answered (a read thread saved it and
  took it out of the map), waiting in the map, about to be registered, replaced by another registration of
  its key, removed by the clean-up, or removed by an answer that had saved another meta; the second and the
  last of these losses do not happen while no key is queued twice. What is in the database is what was
  answered, what was saved by a handling that then did not remove it (it raised, or the entry was gone), and
  what a read thread has just saved; nothing is saved that was not queued, and the weed queue collection gets
  only metas of files, so that the next run of the server starts as this one did.
\<close>

theorem weed_system_conserved:
  assumes "\<forall>m \<in> st. built m" and "system_run e we dir (newWeedSystem capacity, no_history st) (y, h)"
  shows "map bare (hi_accepted h) = taken (hi_events h) @ map bare (q_items (ws_writeQueue (sy_service y)))
    \<and> mset (map bare (hi_accepted h))
        = mset (finished (hi_events h)) + writer_hands (sy_writers y) + mset (map bare (q_items (ws_writeQueue (sy_service y))))
    \<and> mset (map payload_of (hi_accepted h))
        = answered (hi_reads h) + waiting (ws_metaMap (sy_service y)) + mset (map payload_of (registering y))
          + hi_replaced h + hi_cleared h + lost_by_answers (hi_reads h)
    \<and> (distinct (map w_key (hi_accepted h)) \<longrightarrow> hi_replaced h = {#} \<and> lost_by_answers (hi_reads h) = {#})
    \<and> mset (saved (hi_effects h)) = answered (hi_reads h) + saved_again (hi_reads h) + half_saved (sy_readers y)
    \<and> set (saved (hi_effects h)) \<subseteq> payload_of ` set (hi_accepted h)
    \<and> (\<forall>m \<in> hi_stored h. built m)"
proof -
  from run_ok [OF assms(2) refl assms(1)] have ok: "flow_ok y h" "books_ok y h" "typed_ok e y h" "single_ok y h" by simp_all
  have acc: "mset (hi_accepted h) = mset (hi_registered h) + mset (registering y)" using ok(2) by (simp add: books_ok_def)
  have "mset (map bare (hi_accepted h)) = mset (taken (hi_events h)) + mset (map bare (q_items (ws_writeQueue (sy_service y))))"
    using ok(1) by (simp add: flow_ok_def)
  moreover have "mset (map payload_of (hi_accepted h)) = mset (map payload_of (hi_registered h)) + mset (map payload_of (registering y))"
    using acc by simp
  moreover have "set (hi_registered h) \<subseteq> set (hi_accepted h)"
    using arg_cong [OF acc, of set_mset] by auto
  ultimately show ?thesis
    using ok answered_removed [of "hi_reads h", symmetric] answered_saved [of "hi_reads h", symmetric]
    unfolding flow_ok_def books_ok_def typed_ok_def single_ok_def
    by (intro conjI) (simp_all add: ac_simps, blast)
qed

section \<open>An example run, and the race\<close>

text \<open>A file is queued, uploaded and answered before the request that wrote it registers its meta.\<close>

abbreviation sample_file_meta :: weed_meta where
  "sample_file_meta \<equiv> weed_of 5 ''k'' ''log'' (Attachment sample_attach)"

definition sample_at :: "weed_meta list \<Rightarrow> weed_meta list \<Rightarrow> weed_service" where
  "sample_at wq rq =
     \<lparr>ws_connected = True, ws_serverError = False, ws_writeQueue = \<lparr>q_items = wq, q_capacity = 2\<rparr>,
      ws_readQueue = \<lparr>q_items = rq, q_capacity = 2\<rparr>, ws_metaMap = Map.empty\<rparr>"

definition sample_writer :: "sender_pc \<Rightarrow> weed_meta option \<Rightarrow> writer" where
  "sample_writer pc hand = \<lparr>wr_running = True, wr_interrupted = False, wr_channel = Some True, wr_pc = pc, wr_hand = hand\<rparr>"

definition sample_reader :: reader where
  "sample_reader = reader_start new_reader"

definition sample_system :: "weed_service \<Rightarrow> (write_pc \<times> weed_meta) list \<Rightarrow> writer \<Rightarrow> weed_system" where
  "sample_system s cs w = \<lparr>sy_service = s, sy_calls = cs, sy_clearing = [], sy_writers = [w], sy_readers = [sample_reader]\<rparr>"

definition sample_history :: "weed_meta list \<Rightarrow> weed_event list \<Rightarrow> weed_history" where
  "sample_history ac ev = (no_history {})\<lparr>hi_accepted := ac, hi_events := ev\<rparr>"

abbreviation sample_run :: "weed_system \<times> weed_history \<Rightarrow> bool" where
  "sample_run \<equiv> system_run sample_read_env sample_writer_env ''/w'' (newWeedSystem 2, no_history {})"

lemmas sample_defs = sample_at_def sample_writer_def sample_reader_def sample_system_def sample_history_def no_history_def

lemma sample_writes:
  assumes "sample_run (sample_system (sample_at wq rq) cs (sample_writer pc hand), sample_history ac tr)"
    and "writer_step sample_writer_env (sample_writer pc hand, \<lparr>q_items = wq, q_capacity = 2\<rparr>) ev
           (sample_writer pc' hand', \<lparr>q_items = wq', q_capacity = 2\<rparr>)" and "marks ev = {}"
  shows "sample_run (sample_system (sample_at wq' rq) cs (sample_writer pc' hand'), sample_history ac (tr @ ev))"
proof (rule sys_step [OF assms(1)])
  show "system_step sample_read_env sample_writer_env ''/w''
      (sample_system (sample_at wq rq) cs (sample_writer pc hand), sample_history ac tr)
      (sample_system (sample_at wq' rq) cs (sample_writer pc' hand'), sample_history ac (tr @ ev))"
    using y_writer [where i = 0 and y = "sample_system (sample_at wq rq) cs (sample_writer pc hand)"
        and w = "sample_writer pc' hand'" and q = "\<lparr>q_items = wq', q_capacity = 2\<rparr>" and we = sample_writer_env and ev = ev
        and e = sample_read_env and dir = "''/w''" and h = "sample_history ac tr"] assms(2,3)
    by (simp add: sample_defs)
qed

lemma sample_connects: "sample_run (sample_system (sample_at [] []) [] (sample_writer LoopTest None), sample_history [] [])"
proof -
  from sys_step [OF sys_refl y_connected [of sample_read_env sample_writer_env "''/w''" "newWeedSystem 2" "no_history {}" True]]
  have "sample_run (sample_system (sample_at [] []) [] new_writer\<lparr>sy_readers := [new_reader]\<rparr>, sample_history [] [])"
    by (simp add: sample_defs newWeedSystem_def newWeedService_def)
  from sys_step [OF this y_start_writer] sys_step [OF sys_step [OF this y_start_writer] y_start_reader]
  show ?thesis by (simp add: sample_defs map_last_def writer_start_def new_writer_def)
qed

lemma overtaking_run:
  "sample_run (sample_system (sample_at [] [createWeedResponse 6 [1]]) [(WRegister, sample_file_meta)] (sample_writer LoopTest None),
     sample_history [sample_file_meta] [Taken sample_file_meta, process_meta sample_writer_env sample_file_meta])"
proof -
  let ?m = sample_file_meta
  have has: "caller_has (hi_stored (sample_history [] [])) ?m" unfolding caller_has_def by (intro disjI1 exI) (rule refl)
  have con: "ws_connected (sy_service (sample_system (sample_at [] []) [] (sample_writer LoopTest None)))"
    by (simp add: sample_system_def sample_at_def)
  from sys_step [OF sample_connects y_call [OF has con]]
  have "sample_run (sample_system (sample_at [] []) [(WCheckError, ?m)] (sample_writer LoopTest None), sample_history [] [])"
    by (simp add: sample_system_def del: weed_of.simps)
  from sys_step [OF this y_no_error [of _ "[]" ?m "[]"]]
  have "sample_run (sample_system (sample_at [] []) [(WPut, ?m)] (sample_writer LoopTest None), sample_history [] [])"
    by (simp add: sample_system_def sample_at_def del: weed_of.simps)
  from sys_step [OF this y_put [of _ "[]" ?m "[]" "\<lparr>q_items = [?m], q_capacity = 2\<rparr>"]]
  have "sample_run (sample_system (sample_at [?m] []) [(WRegister, ?m)] (sample_writer LoopTest None), sample_history [?m] [])"
    by (simp add: sample_defs offer_def del: weed_of.simps)
  from sample_writes [OF this, of "[]" AwaitTest None]
  have "sample_run (sample_system (sample_at [?m] []) [(WRegister, ?m)] (sample_writer AwaitTest None), sample_history [?m] [])"
    using w_loop [of "sample_writer LoopTest None" sample_writer_env] by (simp add: sample_writer_def marks_def)
  from sample_writes [OF this, of "[]" Polling None]
  have "sample_run (sample_system (sample_at [?m] []) [(WRegister, ?m)] (sample_writer Polling None), sample_history [?m] [])"
    using w_await_done [of "sample_writer AwaitTest None" sample_writer_env] by (simp add: sample_writer_def writer_active_def marks_def)
  from sample_writes [OF this, of "[Taken ?m]" HandTest "Some ?m" "[]"]
  have "sample_run (sample_system (sample_at [] []) [(WRegister, ?m)] (sample_writer HandTest (Some ?m)), sample_history [?m] [Taken ?m])"
    using w_poll_meta [of "sample_writer Polling None" "\<lparr>q_items = [?m], q_capacity = 2\<rparr>" ?m "\<lparr>q_items = [], q_capacity = 2\<rparr>" sample_writer_env]
    by (simp add: sample_writer_def poll_def marks_def del: weed_of.simps)
  from sample_writes [OF this, of "[process_meta sample_writer_env ?m]" LoopTest None "[]"]
  have "sample_run (sample_system (sample_at [] []) [(WRegister, ?m)] (sample_writer LoopTest None),
      sample_history [?m] [Taken ?m, process_meta sample_writer_env ?m])"
    using w_process [of "sample_writer HandTest (Some ?m)" ?m sample_writer_env "\<lparr>q_items = [], q_capacity = 2\<rparr>"]
    by (simp add: sample_writer_def writer_active_def sample_writer_env_def marks_def process_meta_def del: weed_of.simps)
  from sys_step [OF this y_answer [of "[1]" 6 _ "\<lparr>q_items = [createWeedResponse 6 [1]], q_capacity = 2\<rparr>"]]
  show ?thesis by (simp add: sample_defs offer_def)
qed

text \<open>
  Claim C31. A fast answer loses the file: if the answer for an upload is handled before the request that
  queued the meta has registered it, nothing is saved, but the local file is deleted; the meta,
  registered afterwards, waits for an answer that has been and is forgotten by the next clean-up. The
  file stays on the server under an id nobody knows.
\<close>

theorem answer_overtakes_registration:
  assumes "sy_calls y = xs @ (WRegister, m) # ys" and "w_key m = Some k" and "w_extension m = Some ext"
    and "ws_metaMap (sy_service y) k = None"
    and "i < length (sy_readers y)" and "sy_readers y ! i = r" and "rt_started r" and "at_loop r" and "rt_hand r = None"
    and "q_items (ws_readQueue (sy_service y)) = createWeedResponse now bytes # rest"
    and "answers e bytes fid (k @ ''.'' @ ext) sz" and "re_baseName e (k @ ''.'' @ ext) = k" and "re_dirPath e \<noteq> []"
  shows "\<exists>y' h'. system_run e we dir (y, h) (y', h')
    \<and> hi_effects h' = hi_effects h @ [DeleteFile (re_dirPath e @ ''/'' @ k @ ''.'' @ ext)]
    \<and> ws_metaMap (sy_service y') k = Some m
    \<and> (\<forall>exists. \<not> exists (dir @ ''/'' @ k @ ''.'' @ ext) \<longrightarrow> clearMemory exists dir (ws_metaMap (sy_service y')) k = None)"
proof -
  let ?s = "sy_service y" and ?q = "(ws_readQueue (sy_service y))\<lparr>q_items := rest\<rparr>"
  let ?del = "[DeleteFile (re_dirPath e @ ''/'' @ k @ ''.'' @ ext)]"
  obtain b bs where bytes: "bytes = b # bs" using assms(11) by (cases bytes) (auto simp: answers_def)
  have "handle_response e (createWeedResponse now bytes) (ws_metaMap ?s) = (?del, ws_metaMap ?s)"
    using assms(4,11,12) by (simp add: handle_response_def createWeedResponse_def new_weed_meta_def bytes answers_def has_id_def)
  then have "read_step e (rt_hand r) ?s = (?del, None, ?s\<lparr>ws_readQueue := ?q\<rparr>)"
    using assms(9,10,13) by (simp add: read_step_def poll_def)
  from reader_undisturbed [OF assms(8) this] obtain ev
    where run: "reader_run e (r, ?s) ?del ev (r\<lparr>rt_hand := None\<rparr>, ?s\<lparr>ws_readQueue := ?q\<rparr>)" by blast
  from conjunct2 [OF reader_run_system [OF run _ assms(5)], of we dir h] assms(6,7)
  have 1: "system_run e we dir (y, h) (y\<lparr>sy_service := ?s\<lparr>ws_readQueue := ?q\<rparr>, sy_readers := (sy_readers y)[i := r\<lparr>rt_hand := None\<rparr>]\<rparr>,
      h\<lparr>hi_effects := hi_effects h @ ?del, hi_reads := hi_reads h @ ev, hi_stored := hi_stored h \<union> queue_saves ?del\<rparr>)"
    (is "system_run e we dir (y, h) (?y, ?h)") by simp
  have "sy_calls ?y = xs @ (WRegister, m) # ys" using assms(1) by simp
  from sys_step [OF 1 y_register [OF this assms(2)]]
  show ?thesis
    by (rule_tac exI, rule_tac exI, rule_tac conjI, assumption) (simp add: clearMemory_def assms(3))
qed

theorem answer_overtakes_registration_witness:
  "\<exists>y h. sample_run (y, h) \<and> hi_effects h = [DeleteFile ''/w/k.log''] \<and> ws_metaMap (sy_service y) ''k'' = Some sample_file_meta
     \<and> clearMemory (\<lambda>f. False) ''/w'' (ws_metaMap (sy_service y)) ''k'' = None"
proof -
  let ?y = "sample_system (sample_at [] [createWeedResponse 6 [1]]) [(WRegister, sample_file_meta)] (sample_writer LoopTest None)"
  let ?h = "sample_history [sample_file_meta] [Taken sample_file_meta, process_meta sample_writer_env sample_file_meta]"
  have reg: "sy_calls ?y = [] @ (WRegister, sample_file_meta) # []" by (simp add: sample_system_def)
  have ext: "w_extension sample_file_meta = Some ''log''" by (simp add: createWeedAttach_def new_weed_meta_def)
  have none: "ws_metaMap (sy_service ?y) ''k'' = None" "0 < length (sy_readers ?y)" "sy_readers ?y ! 0 = sample_reader"
    "rt_started sample_reader" "at_loop sample_reader" "rt_hand sample_reader = None"
    "q_items (ws_readQueue (sy_service ?y)) = createWeedResponse 6 [1] # []"
    by (simp_all add: sample_system_def sample_at_def sample_reader_def reader_start_def new_reader_def at_loop_def)
  have ans: "answers sample_read_env [1] ''3,01'' (''k'' @ ''.'' @ ''log'') 9"
    "re_baseName sample_read_env (''k'' @ ''.'' @ ''log'') = ''k''" "re_dirPath sample_read_env \<noteq> []"
    by (simp_all add: sample_read_env_def answers_def)
  have path: "re_dirPath sample_read_env @ ''/'' @ ''k'' @ ''.'' @ ''log'' = ''/w/k.log''" by (simp add: sample_read_env_def)
  note r = answer_overtakes_registration [OF reg weed_of_fields(1) ext none ans, of sample_writer_env "''/w''" ?h, unfolded path]
  from r obtain y' h' where
    run: "system_run sample_read_env sample_writer_env ''/w'' (?y, ?h) (y', h')"
    and h': "hi_effects h' = hi_effects ?h @ [DeleteFile ''/w/k.log'']" "ws_metaMap (sy_service y') ''k'' = Some sample_file_meta"
    and c: "\<forall>exists. \<not> exists (''/w'' @ ''/'' @ ''k'' @ ''.'' @ ''log'') \<longrightarrow>
      clearMemory exists ''/w'' (ws_metaMap (sy_service y')) ''k'' = None"
    by (elim exE conjE) (rule that)
  have "sample_run (y', h')" using run overtaking_run by (rule system_run_trans [rotated])
  moreover have "hi_effects h' = [DeleteFile ''/w/k.log'']" using h'(1) by (simp add: sample_history_def no_history_def)
  moreover have "clearMemory (\<lambda>f. False) ''/w'' (ws_metaMap (sy_service y')) ''k'' = None" by (rule c [rule_format]) (rule notI)
  ultimately show ?thesis using h'(2) by (intro exI [of _ y'] exI [of _ h'] conjI)
qed

text \<open>The usual order: the meta is registered before its answer comes.\<close>

lemma answered_run:
  "\<exists>y h. sample_run (y, h) \<and> hi_accepted h = [sample_file_meta] \<and> hi_cleared h = {#}
     \<and> ws_metaMap (sy_service y) = Map.empty \<and> sy_calls y = []
     \<and> hi_effects h = [SaveAttachMeta (sample_attach\<lparr>af_fid := Some ''3,01'', af_size := 9\<rparr>), DeleteFile ''/w/k.log'']"
proof -
  let ?m = sample_file_meta
  let ?es = "[SaveAttachMeta (sample_attach\<lparr>af_fid := Some ''3,01'', af_size := 9\<rparr>), DeleteFile ''/w/k.log'']"
  let ?y = "sample_system ((sample_at [] [createWeedResponse 6 [1]])\<lparr>ws_metaMap := [''k'' \<mapsto> ?m]\<rparr>) [] (sample_writer LoopTest None)"
  have key: "w_key ?m = Some ''k''" by (rule weed_of_fields)
  from sys_step [OF overtaking_run y_register [of _ "[]" ?m "[]", OF _ key]]
  obtain h where run: "sample_run (?y, h)" and h: "hi_accepted h = [?m]" "hi_cleared h = {#}" "hi_effects h = []"
    by (simp add: sample_defs del: weed_of.simps)
  have "read_step sample_read_env (rt_hand sample_reader) (sy_service ?y) = (?es, None, sample_at [] [])"
    by (simp add: sample_defs reader_start_def new_reader_def read_step_def poll_def handle_response_def
        createWeedResponse_def new_weed_meta_def has_id_def sample_read_env_def store_meta_kind Let_def
        fun_upd_def fun_eq_iff del: weed_of.simps)
  from reader_undisturbed [OF _ this] obtain ev
    where "reader_run sample_read_env (sample_reader, sy_service ?y) ?es ev (sample_reader\<lparr>rt_hand := None\<rparr>, sample_at [] [])"
    by (auto simp: at_loop_def sample_reader_def reader_start_def new_reader_def)
  from conjunct2 [OF reader_run_system [where y = ?y and i = 0 and h = h, OF this]]
  have "system_run sample_read_env sample_writer_env ''/w'' (?y, h)
      (?y\<lparr>sy_service := sample_at [] [], sy_readers := (sy_readers ?y)[0 := sample_reader\<lparr>rt_hand := None\<rparr>]\<rparr>,
       h\<lparr>hi_effects := hi_effects h @ ?es, hi_reads := hi_reads h @ ev, hi_stored := hi_stored h \<union> queue_saves ?es\<rparr>)"
    (is "system_run _ _ _ _ (?y', ?h')") by (simp add: sample_system_def sample_reader_def reader_start_def)
  from system_run_trans [OF run this] have "sample_run (?y', ?h')" .
  then show ?thesis
    by (intro exI [of _ ?y'] exI [of _ ?h'] conjI) (simp_all add: h sample_system_def sample_at_def del: weed_of.simps)
qed

theorem weed_system_conserved_witness:
  "\<exists>y h. sample_run (y, h) \<and> hi_accepted h = [sample_file_meta]
     \<and> answered (hi_reads h) = {#payload_of sample_file_meta#}
     \<and> mset (saved (hi_effects h)) = {#payload_of sample_file_meta#} + saved_again (hi_reads h) + half_saved (sy_readers y)"
proof -
  obtain y h where run: "sample_run (y, h)" and h: "hi_accepted h = [sample_file_meta]" "hi_cleared h = {#}"
    "ws_metaMap (sy_service y) = Map.empty" "sy_calls y = []" using answered_run by blast
  have "\<forall>m \<in> {}. built m" by simp
  note c = weed_system_conserved [OF this run]
  have none: "hi_replaced h = {#} \<and> lost_by_answers (hi_reads h) = {#}" using c h(1) by simp
  have "registering y = []" by (simp add: registering_def h(4))
  then have "answered (hi_reads h) = {#payload_of sample_file_meta#}" using c none h by (simp del: weed_of.simps)
  with c run h(1) show ?thesis by (intro exI [of _ y] exI [of _ h]) (simp del: weed_of.simps)
qed

end
