(* ===== verification/Retry_Store.thy ===== *)
theory Retry_Store
  imports Weed_Invariant Mongo_Collection
begin

text \<open>
  What waits in the database for a retry: \<open>mongod/LogMessageRepository.java\<close>,
  \<open>weed/WeedQueueRepository.java\<close> and \<open>retryPutQueue\<close> of \<open>schedule/ScheduledTasks.java\<close> over both of their
  collections. The index of \<open>GraylogClientService.create\<close> lets MongoDB delete the log messages whose
  \<open>writeDate\<close> is too old, which is an operation of the runs.
\<close>

section \<open>The repositories\<close>

definition set_lm_id :: "string option \<Rightarrow> log_message \<Rightarrow> log_message" where
  "set_lm_id i m = m\<lparr>lm_id := i\<rparr>"

definition set_w_id :: "string option \<Rightarrow> weed_meta \<Rightarrow> weed_meta" where
  "set_w_id i m = m\<lparr>w_id := i\<rparr>"

definition PAGE_LIMIT :: nat where "PAGE_LIMIT = 2048"

text \<open>\<open>find\<close> of a query with a limit: some of its documents, as many as there are up to the limit.\<close>

type_synonym ('d, 'db) page = "nat \<Rightarrow> ('d \<Rightarrow> bool) \<Rightarrow> 'db \<Rightarrow> 'd list"

definition pages :: "('d, 'db) mongo \<Rightarrow> ('d, 'db) page \<Rightarrow> bool" where
  "pages mg page \<longleftrightarrow> (\<forall>n q db. set (page n q db) \<subseteq> mg_find mg q db \<and> distinct (page n q db)
     \<and> length (page n q db) = min n (mg_count mg q db))"

definition not_sent :: "log_message \<Rightarrow> bool" where
  "not_sent m \<longleftrightarrow> lm_status m = STATE_NORMAL"

definition not_written :: "weed_meta \<Rightarrow> bool" where
  "not_written m \<longleftrightarrow> w_status m = WEED_NORMAL"

definition log_message_findById :: "(log_message, 'l) mongo \<Rightarrow> string \<Rightarrow> 'l \<Rightarrow> log_message option" where
  "log_message_findById mg i db = mg_findOne mg (\<lambda>m. lm_id m = Some i) db"

definition log_message_delete :: "(log_message, 'l) mongo \<Rightarrow> log_message \<Rightarrow> 'l \<Rightarrow> bool \<times> 'l" where
  "log_message_delete mg m db =
     (0 < mg_count mg (\<lambda>x. lm_id x = lm_id m) db, mg_remove mg (\<lambda>x. lm_id x = lm_id m) db)"

definition findAllNotSend :: "(log_message, 'l) mongo \<Rightarrow> 'l \<Rightarrow> log_message set" where
  "findAllNotSend mg db = mg_find mg not_sent db"

definition findAllNotSendLimit :: "(log_message, 'l) page \<Rightarrow> nat \<Rightarrow> 'l \<Rightarrow> log_message list" where
  "findAllNotSendLimit page limit db = page limit not_sent db"

text \<open>\<open>findAndRemove\<close> removes the one document it finds.\<close>

definition deleteAllSendSuccessRecord :: "(log_message, 'l) mongo \<Rightarrow> 'l \<Rightarrow> 'l" where
  "deleteAllSendSuccessRecord mg db =
     (case mg_findOne mg (\<lambda>m. lm_status m = STATE_SUCCESSFUL) db of
        None \<Rightarrow> db
      | Some d \<Rightarrow> mg_remove mg (\<lambda>m. lm_id m = lm_id d) db)"

definition findAllNotWriteLimit :: "(weed_meta, 'w) page \<Rightarrow> nat \<Rightarrow> 'w \<Rightarrow> weed_meta list" where
  "findAllNotWriteLimit page limit db = page limit not_written db"

lemma page_laws:
  assumes "pages mg page"
  shows "set (page n q db) \<subseteq> mg_find mg q db" "distinct (page n q db)" "length (page n q db) = min n (mg_count mg q db)"
  using assms by (simp_all add: pages_def)

lemma full_page:
  assumes "pages mg page" and "finite (mg_docs mg db)" and "mg_count mg q db \<le> n"
  shows "set (page n q db) = mg_find mg q db"
proof (rule card_subset_eq)
  show "finite (mg_find mg q db)" using assms(2) by (simp add: mg_find_def)
  show "set (page n q db) \<subseteq> mg_find mg q db" using assms(1) by (simp add: pages_def)
  show "card (set (page n q db)) = card (mg_find mg q db)"
    using assms(1,3) by (simp add: pages_def distinct_card mg_count_def)
qed

text \<open>Of all the messages sent successfully, \<open>deleteAllSendSuccessRecord\<close> deletes one.\<close>

lemma delete_all_deletes_one:
  assumes "mongo_documented lm_id set_lm_id mg" and "ids_ok lm_id mg db"
  shows "mg_count mg (\<lambda>m. lm_status m = STATE_SUCCESSFUL) (deleteAllSendSuccessRecord mg db)
      = mg_count mg (\<lambda>m. lm_status m = STATE_SUCCESSFUL) db - 1"
  using assms(1)
proof (cases rule: find_one_cases [where q = "\<lambda>m. lm_status m = STATE_SUCCESSFUL" and db = db])
  case none
  then have "mg_find mg (\<lambda>m. lm_status m = STATE_SUCCESSFUL) db = {}" by (simp add: mg_find_def)
  with none(1) show ?thesis by (simp add: deleteAllSendSuccessRecord_def mg_count_def)
next
  case (some d)
  have "mg_find mg (\<lambda>m. lm_status m = STATE_SUCCESSFUL) (deleteAllSendSuccessRecord mg db)
      = mg_find mg (\<lambda>m. lm_status m = STATE_SUCCESSFUL) db - {d}"
    using some assms(2) remove_docs [OF assms(1)]
    by (auto simp: deleteAllSendSuccessRecord_def mg_find_def ids_ok_def inj_on_def)
  then show ?thesis using some assms(2) by (simp add: mg_count_def mg_find_def ids_ok_def)
qed

section \<open>One run of the task\<close>

record ('l, 'w) retry_stores =
  rs_logs :: "(log_message, 'l) mongo"
  rs_metas :: "(weed_meta, 'w) mongo"
  rs_logPage :: "(log_message, 'l) page"
  rs_metaPage :: "(weed_meta, 'w) page"

text \<open>
  \<open>flags 0\<close> is what \<open>isConnected\<close> answers the task, \<open>flags (i + 1)\<close> the flag when the message \<open>i\<close> is sent. An
  exception of the first loop ends the task before it reaches the second.
\<close>

definition retry_found :: "('l, 'w) retry_stores \<Rightarrow> (nat \<Rightarrow> bool) \<Rightarrow> 'l \<Rightarrow> (log_message \<times> bool) list" where
  "retry_found rs flags db =
     (if flags 0
      then map (\<lambda>(i, m). (m, flags i)) (enumerate 1 (findAllNotSendLimit (rs_logPage rs) PAGE_LIMIT db))
      else [])"

definition retryPutQueue ::
  "numbers \<Rightarrow> (layout_cache \<Rightarrow> string) \<Rightarrow> double \<Rightarrow> ('l, 'w) retry_stores \<Rightarrow> string \<Rightarrow> (nat \<Rightarrow> bool) \<Rightarrow> 'l \<times> 'w
   \<Rightarrow> layout_cache \<Rightarrow> weed_service
   \<Rightarrow> (effect list \<times> weed_effect list \<times> exn option \<times> layout_cache \<times> weed_service) option" where
  "retryPutQueue num pick now rs weedDir flags db cache s =
     (case retry_logs num pick now (retry_found rs flags (fst db)) cache of
        ((es, Some e), c) \<Rightarrow> Some (es, [], Some e, c, resetServerError s)
      | ((es, None), c) \<Rightarrow>
          (case retryPutQueue_weed weedDir (findAllNotWriteLimit (rs_metaPage rs) PAGE_LIMIT (snd db)) s of
             None \<Rightarrow> None
           | Some ((ws, x), s') \<Rightarrow> Some (es, ws, x, c, s')))"

text \<open>What the effects do to the collections; \<open>save\<close> refuses null.\<close>

fun apply_log :: "(log_message, 'l) mongo \<Rightarrow> effect \<Rightarrow> 'l \<Rightarrow> 'l" where
  "apply_log mg (Enqueue m) db = db"
| "apply_log mg (SaveLog None) db = db"
| "apply_log mg (SaveLog (Some m)) db = mg_save mg m db"

section \<open>Everything that changes the stored log messages\<close>

text \<open>
  A message of a client or a crash is written, the task runs, the transport reports what it sent
  of what this service gave it - a retried message it calls successful, or a message it could not send -
  and the database expires what was written up to a time, which is the present less \<open>expires\<close>.
\<close>

datatype log_op =
    WriteLog double log_message bool bool
  | RetryLogs double "nat \<Rightarrow> bool"
  | SentMessage gmsg
  | FailedMessage gmsg
  | ExpireLogs jlong

definition expired_by :: "jlong \<Rightarrow> log_message \<Rightarrow> bool" where
  "expired_by t m = (case lm_writeDate m of None \<Rightarrow> False | Some d \<Rightarrow> d \<le>s t)"

definition expires_in :: "log_op list \<Rightarrow> log_message \<Rightarrow> bool" where
  "expires_in ops m \<longleftrightarrow> (\<exists>t. ExpireLogs t \<in> set ops \<and> expired_by t m)"

fun log_op_ok :: "log_op \<Rightarrow> bool" where
  "log_op_ok (WriteLog now m conn interrupted) = (lm_id m = None)"
| "log_op_ok (RetryLogs now flags) = True"
| "log_op_ok (SentMessage m) = from_service m"
| "log_op_ok (FailedMessage m) = from_service m"
| "log_op_ok (ExpireLogs t) = True"

fun log_op_effects ::
  "numbers \<Rightarrow> (layout_cache \<Rightarrow> string) \<Rightarrow> ('l, 'w) retry_stores \<Rightarrow> log_op \<Rightarrow> 'l \<Rightarrow> layout_cache \<Rightarrow> effect list \<times> layout_cache" where
  "log_op_effects num pick rs (WriteLog now m conn interrupted) db cache =
     (case write_log num pick now conn interrupted m cache of (Inl e, c) \<Rightarrow> ([], c) | (Inr es, c) \<Rightarrow> (es, c))"
| "log_op_effects num pick rs (RetryLogs now flags) db cache =
     (case retry_logs num pick now (retry_found rs flags db) cache of ((es, x), c) \<Rightarrow> (es, c))"
| "log_op_effects num pick rs (SentMessage m) db cache =
     (case g_logMessage m of None \<Rightarrow> [] | Some lm \<Rightarrow> on_retrySuccessful lm, cache)"
| "log_op_effects num pick rs (FailedMessage m) db cache = (on_failed (g_logMessage m), cache)"
| "log_op_effects num pick rs (ExpireLogs t) db cache = ([], cache)"

fun expire :: "(log_message, 'l) mongo \<Rightarrow> log_op \<Rightarrow> 'l \<Rightarrow> 'l" where
  "expire mg (ExpireLogs t) db = mg_remove mg (expired_by t) db"
| "expire mg x db = db"

fun log_run ::
  "numbers \<Rightarrow> (layout_cache \<Rightarrow> string) \<Rightarrow> ('l, 'w) retry_stores \<Rightarrow> log_op list \<Rightarrow> 'l \<Rightarrow> layout_cache
   \<Rightarrow> effect list \<times> 'l \<times> layout_cache" where
  "log_run num pick rs [] db cache = ([], db, cache)"
| "log_run num pick rs (x # xs) db cache =
     (case log_op_effects num pick rs x db cache of
        (es, c) \<Rightarrow> (case log_run num pick rs xs (expire (rs_logs rs) x (fold (apply_log (rs_logs rs)) es db)) c of
                     (es', db', c') \<Rightarrow> (es @ es', db', c')))"

text \<open>Effects that only save messages as they are stored, or new ones.\<close>

definition keeps_stored :: "(log_message, 'l) mongo \<Rightarrow> 'l \<Rightarrow> effect \<Rightarrow> bool" where
  "keeps_stored mg db e \<longleftrightarrow>
     (case e of SaveLog (Some m) \<Rightarrow> m \<in> mg_docs mg db \<or> lm_id m = None | SaveLog None \<Rightarrow> True | Enqueue m \<Rightarrow> True)"

lemma set_lm_id_simps [simp]: "lm_id (set_lm_id i m) = i"
  by (simp add: set_lm_id_def)

lemma save_same:
  assumes "mongo_documented lm_id set_lm_id mg" and "ids_ok lm_id mg db" and "m \<in> mg_docs mg db"
  shows "mg_docs mg (mg_save mg m db) = mg_docs mg db"
proof -
  obtain i where i: "lm_id m = Some i" using assms(2,3) by (cases "lm_id m") (force simp: ids_ok_def)+
  have inj: "inj_on lm_id (mg_docs mg db)" using assms(2) by (simp add: ids_ok_def)
  have "x = m" if "x \<in> mg_docs mg db" "lm_id x = Some i" for x
    by (rule inj_onD [OF inj]) (use that assms(3) i in simp_all)
  then have "{x \<in> mg_docs mg db. lm_id x \<noteq> Some i} = mg_docs mg db - {m}" using i by auto
  with save_old [OF assms(1) i, of db] assms(3) show ?thesis by auto
qed

lemma keeps_stored_mono: "keeps_stored mg db e \<Longrightarrow> mg_docs mg db \<subseteq> mg_docs mg db' \<Longrightarrow> keeps_stored mg db' e"
  by (auto simp: keeps_stored_def split: effect.splits option.splits)

lemma keeps_stored_step:
  assumes "mongo_documented lm_id set_lm_id mg" and "ids_ok lm_id mg db" and "keeps_stored mg db e"
  shows "mg_docs mg db \<subseteq> mg_docs mg (apply_log mg e db) \<and> ids_ok lm_id mg (apply_log mg e db)"
proof (cases e)
  case (SaveLog lm)
  show ?thesis
  proof (cases lm)
    case (Some m)
    have "ids_ok lm_id mg (mg_save mg m db)" by (rule ids_ok_save [OF assms(1,2)]) simp
    moreover have "mg_docs mg db \<subseteq> mg_docs mg (mg_save mg m db)"
    proof (cases "lm_id m")
      case None
      obtain i where "Some i \<notin> lm_id ` mg_docs mg db" "mg_docs mg (mg_save mg m db) = insert (set_lm_id (Some i) m) (mg_docs mg db)"
        by (rule save_new [OF assms(1) None])
      then show ?thesis by blast
    next
      case (Some i)
      with assms(3) have "m \<in> mg_docs mg db" by (simp add: keeps_stored_def SaveLog \<open>lm = Some m\<close>)
      with save_same [OF assms(1,2)] show ?thesis by simp
    qed
    ultimately show ?thesis by (simp add: SaveLog Some)
  qed (simp add: SaveLog assms(2))
qed (simp add: assms(2))

lemma keeps_stored_all:
  assumes "mongo_documented lm_id set_lm_id mg" and "ids_ok lm_id mg db" and "\<forall>e \<in> set es. keeps_stored mg db e"
  shows "mg_docs mg db \<subseteq> mg_docs mg (fold (apply_log mg) es db) \<and> ids_ok lm_id mg (fold (apply_log mg) es db)"
  using assms(2,3)
proof (induction es arbitrary: db)
  case (Cons e es)
  have 1: "mg_docs mg db \<subseteq> mg_docs mg (apply_log mg e db) \<and> ids_ok lm_id mg (apply_log mg e db)"
    by (rule keeps_stored_step [OF assms(1) Cons.prems(1)]) (use Cons.prems(2) in simp)
  then have "\<forall>e' \<in> set es. keeps_stored mg (apply_log mg e db) e'"
    using Cons.prems(2) keeps_stored_mono [of mg db _ "apply_log mg e db"] by simp
  with Cons.IH [of "apply_log mg e db"] 1 show ?case by auto
qed simp

lemma write_log_effects:
  "write_log num pick now conn interrupted m cache = (Inr es, c) \<Longrightarrow> set es \<subseteq> insert (SaveLog (Some m)) (range Enqueue)"
  by (auto simp: write_log_def split: if_splits prod.splits sum.splits option.splits)

lemma retry_logs_effects:
  "retry_logs num pick now lms cache = ((es, x), c) \<Longrightarrow> set es \<subseteq> (\<lambda>m. SaveLog (Some m)) ` fst ` set lms \<union> range Enqueue"
proof (induction lms arbitrary: cache es x c)
  case (Cons p lms)
  obtain m b where p: "p = (m, b)" by fastforce
  show ?case
  proof (cases "write_log num pick now b False m cache")
    case (Pair r c1)
    show ?thesis
    proof (cases r)
      case (Inr es1)
      obtain es2 x2 c2 where r: "retry_logs num pick now lms c1 = ((es2, x2), c2)" by (metis surj_pair)
      have "es = es1 @ es2" using Cons.prems Pair by (simp add: p Inr r)
      with Cons.IH [OF r] write_log_effects [of num pick now b False m cache es1 c1] Pair show ?thesis
        by (auto simp: p Inr)
    qed (use Cons.prems Pair in \<open>simp add: p\<close>)
  qed
qed simp

lemma log_op_keeps:
  assumes "log_op_ok x" and "pages (rs_logs rs) (rs_logPage rs)" and "log_op_effects num pick rs x db cache = (es, c)"
  shows "\<forall>e \<in> set es. keeps_stored (rs_logs rs) db e"
proof (cases x)
  case (WriteLog now m conn interrupted)
  with assms(3) have "set es \<subseteq> insert (SaveLog (Some m)) (range Enqueue)"
    using write_log_effects [of num pick now conn interrupted m cache es c] by (auto split: prod.splits sum.splits)
  then show ?thesis using assms(1) by (auto simp: WriteLog keeps_stored_def)
next
  case (RetryLogs now flags)
  obtain ex where "retry_logs num pick now (retry_found rs flags db) cache = ((es, ex), c)"
    using assms(3) by (auto simp: RetryLogs split: prod.splits)
  from retry_logs_effects [OF this]
  have es: "set es \<subseteq> (\<lambda>m. SaveLog (Some m)) ` fst ` set (retry_found rs flags db) \<union> range Enqueue" .
  have "set (findAllNotSendLimit (rs_logPage rs) PAGE_LIMIT db) \<subseteq> mg_docs (rs_logs rs) db"
    using assms(2) by (auto simp: findAllNotSendLimit_def pages_def mg_find_def)
  moreover have "fst ` set (retry_found rs flags db) \<subseteq> set (findAllNotSendLimit (rs_logPage rs) PAGE_LIMIT db)"
    by (auto simp: retry_found_def in_set_enumerate_eq)
  ultimately show ?thesis using es by (fastforce simp: keeps_stored_def)
next
  case (SentMessage m)
  with assms(1,3) from_service_log show ?thesis by auto
next
  case (FailedMessage m)
  with assms(1,3) from_service_log show ?thesis by (auto simp: on_failed_def keeps_stored_def)
next
  case (ExpireLogs t)
  with assms(3) show ?thesis by simp
qed

text \<open>The layout cache stays correct.\<close>

lemma write_log_cache:
  assumes "picks_entry pick" and "cache_ok cache" and "write_log num pick now conn interrupted m cache = (r, c)"
  shows "cache_ok c"
  using assms(3) createMessage_spec [OF assms(1,2), of num now m] assms(2)
  by (auto simp: write_log_def split: if_splits prod.splits sum.splits option.splits)

lemma retry_logs_cache:
  "picks_entry pick \<Longrightarrow> cache_ok cache \<Longrightarrow> cache_ok (snd (retry_logs num pick now lms cache))"
proof (induction lms arbitrary: cache)
  case (Cons p lms)
  obtain m b where p: "p = (m, b)" by fastforce
  obtain r c where w: "write_log num pick now b False m cache = (r, c)" by fastforce
  have "cache_ok c" by (rule write_log_cache [OF Cons.prems w])
  from Cons.IH [OF Cons.prems(1) this] w \<open>cache_ok c\<close> show ?case by (cases r) (auto simp: p split: prod.splits)
qed simp

lemma log_op_cache:
  assumes "picks_entry pick" and "cache_ok cache" and "log_op_effects num pick rs x db cache = (es, c)"
  shows "cache_ok c"
proof (cases x)
  case (WriteLog now m conn interrupted)
  then show ?thesis using assms(3) write_log_cache [OF assms(1,2)] by (auto split: prod.splits sum.splits)
next
  case (RetryLogs now flags)
  then show ?thesis using assms(3) retry_logs_cache [OF assms(1,2), of num now "retry_found rs flags db"]
    by (auto split: prod.splits)
qed (use assms(2,3) in auto)

definition logs_ok :: "('l, 'w) retry_stores \<Rightarrow> 'l \<Rightarrow> bool" where
  "logs_ok rs db \<longleftrightarrow> mongo_documented lm_id set_lm_id (rs_logs rs) \<and> pages (rs_logs rs) (rs_logPage rs)
     \<and> ids_ok lm_id (rs_logs rs) db"

lemma expire_docs:
  assumes "mongo_documented lm_id set_lm_id mg"
  shows "mg_docs mg (expire mg x db) = {m \<in> mg_docs mg db. \<not> expires_in [x] m}"
  using remove_docs [OF assms] by (cases x) (auto simp: expires_in_def)

lemma expire_ids: "mongo_documented lm_id set_lm_id mg \<Longrightarrow> ids_ok lm_id mg db \<Longrightarrow> ids_ok lm_id mg (expire mg x db)"
  using ids_ok_remove by (cases x) auto

lemma log_run_keeps:
  "logs_ok rs db \<Longrightarrow> picks_entry pick \<Longrightarrow> cache_ok cache \<Longrightarrow> list_all log_op_ok xs \<Longrightarrow>
     log_run num pick rs xs db cache = (es, db', c) \<Longrightarrow>
     {m \<in> mg_docs (rs_logs rs) db. \<not> expires_in xs m} \<subseteq> mg_docs (rs_logs rs) db' \<and> logs_ok rs db' \<and> cache_ok c"
proof (induction xs arbitrary: db cache es)
  case (Cons x xs)
  obtain es1 c1 where e: "log_op_effects num pick rs x db cache = (es1, c1)" by fastforce
  let ?db1 = "fold (apply_log (rs_logs rs)) es1 db"
  let ?db = "expire (rs_logs rs) x ?db1"
  obtain es2 where r: "log_run num pick rs xs ?db c1 = (es2, db', c)"
    using Cons.prems(5) e by (auto split: prod.splits)
  have ok: "log_op_ok x" "pages (rs_logs rs) (rs_logPage rs)" and doc: "mongo_documented lm_id set_lm_id (rs_logs rs)"
    using Cons.prems(1,4) by (simp_all add: logs_ok_def)
  have 1: "mg_docs (rs_logs rs) db \<subseteq> mg_docs (rs_logs rs) ?db1 \<and> ids_ok lm_id (rs_logs rs) ?db1"
    using keeps_stored_all [OF _ _ log_op_keeps [OF ok e]] Cons.prems(1) by (simp add: logs_ok_def)
  then have "logs_ok rs ?db" using Cons.prems(1) expire_ids [OF doc] by (simp add: logs_ok_def)
  moreover have "cache_ok c1" by (rule log_op_cache [OF Cons.prems(2,3) e])
  ultimately have "{m \<in> mg_docs (rs_logs rs) ?db. \<not> expires_in xs m} \<subseteq> mg_docs (rs_logs rs) db' \<and> logs_ok rs db' \<and> cache_ok c"
    using Cons.IH [OF _ Cons.prems(2) _ _ r] Cons.prems(4) by simp
  moreover have "{m \<in> mg_docs (rs_logs rs) db. \<not> expires_in (x # xs) m} \<subseteq> {m \<in> mg_docs (rs_logs rs) ?db. \<not> expires_in xs m}"
    using 1 expire_docs [OF doc] by (auto simp: expires_in_def)
  ultimately show ?case by blast
qed (simp add: expires_in_def)

section \<open>What a run of the task sends\<close>

text \<open>The message that goes to Graylog, if any, and the stored messages that raise instead.\<close>

definition message_of :: "numbers \<Rightarrow> log_message \<Rightarrow> gmsg option" where
  "message_of num m =
     (case lm_message m of
        None \<Rightarrow> None
      | Some msg \<Rightarrow>
          (case layout_of (lm_msgLayout m) of
             Inl e \<Rightarrow> None
           | Inr layout \<Rightarrow> if None \<in> set (column_results num layout (split_char (CHR ''|'') msg)) then None
                           else Some (expected_message num layout m msg)))"

definition poisoned :: "log_message \<Rightarrow> bool" where
  "poisoned m \<longleftrightarrow> lm_message m = None \<or> (\<exists>e. layout_of (lm_msgLayout m) = Inl e)"

lemma write_log_connected:
  assumes "picks_entry pick" and "cache_ok cache"
  shows "\<exists>c. cache_ok c \<and> (if poisoned m then \<exists>e. write_log num pick now True False m cache = (Inl e, c)
     else write_log num pick now True False m cache = (Inr (map Enqueue (case message_of num m of None \<Rightarrow> [] | Some g \<Rightarrow> [g])), c))"
proof -
  obtain r c where cr: "createMessage num pick now m cache = (r, c)" by fastforce
  with createMessage_spec [OF assms, of num now m] show ?thesis
    by (cases "lm_message m"; cases "layout_of (lm_msgLayout m)")
      (auto simp: write_log_def poisoned_def message_of_def split: sum.splits)
qed

text \<open>Messages of which none raises are all sent; one that raises ends the loop.\<close>

lemma retry_logs_all:
  "picks_entry pick \<Longrightarrow> cache_ok cache \<Longrightarrow> \<forall>m \<in> set lms. \<not> poisoned m \<Longrightarrow>
     fst (retry_logs num pick now (map (\<lambda>m. (m, True)) lms) cache)
       = (map Enqueue (List.map_filter (message_of num) lms), None)"
proof (induction lms arbitrary: cache)
  case (Cons m lms)
  from write_log_connected [OF Cons.prems(1,2), of m num now] Cons.prems(3) obtain c where c: "cache_ok c"
    "write_log num pick now True False m cache = (Inr (map Enqueue (case message_of num m of None \<Rightarrow> [] | Some g \<Rightarrow> [g])), c)"
    by auto
  with Cons.IH [OF Cons.prems(1) c(1)] Cons.prems(3) show ?case
    by (auto simp: map_filter_simps split: option.splits prod.splits)
qed (simp add: map_filter_simps)

text \<open>The loop raises exactly if a message that raises is sent while the connection is there.\<close>

lemma write_log_offline: "write_log num pick now False interrupted m cache = (Inr [SaveLog (Some m)], cache)"
  by (simp add: write_log_def)

lemma retry_logs_raises:
  "picks_entry pick \<Longrightarrow> cache_ok cache \<Longrightarrow>
     snd (fst (retry_logs num pick now lms cache)) \<noteq> None \<longleftrightarrow> (\<exists>p \<in> set lms. poisoned (fst p) \<and> snd p)"
proof (induction lms arbitrary: cache)
  case (Cons p lms)
  obtain m b where p: "p = (m, b)" by fastforce
  show ?case
  proof (cases b)
    case False
    obtain es x c where "retry_logs num pick now lms cache = ((es, x), c)" by (metis surj_pair)
    with False Cons.IH [OF Cons.prems] show ?thesis by (simp add: p write_log_offline)
  next
    case True
    from write_log_connected [OF Cons.prems(1,2), of m num now] obtain c where c: "cache_ok c" and
      w: "if poisoned m then \<exists>e. write_log num pick now True False m cache = (Inl e, c)
       else write_log num pick now True False m cache = (Inr (map Enqueue (case message_of num m of None \<Rightarrow> [] | Some g \<Rightarrow> [g])), c)"
      by blast
    show ?thesis
    proof (cases "poisoned m")
      case False
      obtain es x c' where "retry_logs num pick now lms c = ((es, x), c')" by (metis surj_pair)
      with False Cons.IH [OF Cons.prems(1) c] w True show ?thesis by (simp add: p)
    qed (use w True in \<open>auto simp: p\<close>)
  qed
qed simp

lemma retry_found_set:
  "set (retry_found rs flags db) =
     (if flags 0 then {(findAllNotSendLimit (rs_logPage rs) PAGE_LIMIT db ! i, flags (Suc i)) | i.
        i < length (findAllNotSendLimit (rs_logPage rs) PAGE_LIMIT db)} else {})"
proof (cases "flags 0")
  case True
  let ?p = "findAllNotSendLimit (rs_logPage rs) PAGE_LIMIT db"
  have "retry_found rs flags db = map (\<lambda>i. (?p ! i, flags (Suc i))) [0..<length ?p]"
    by (rule nth_equalityI) (simp_all add: retry_found_def nth_enumerate_eq True)
  with True show ?thesis by auto
qed (simp add: retry_found_def)

lemma retry_found_connected:
  "retry_found rs (\<lambda>_. True) db = map (\<lambda>m. (m, True)) (findAllNotSendLimit (rs_logPage rs) PAGE_LIMIT db)"
  by (simp add: retry_found_def case_prod_unfold flip: map_map [of "\<lambda>m. (m, True)" snd, unfolded comp_def])

abbreviation stored_logs :: "('l, 'w) retry_stores \<Rightarrow> 'l \<Rightarrow> log_message list" where
  "stored_logs rs db \<equiv> findAllNotSendLimit (rs_logPage rs) PAGE_LIMIT db"

lemma stored_logs_all:
  assumes "logs_ok rs db" and "mg_count (rs_logs rs) not_sent db \<le> PAGE_LIMIT"
  shows "set (stored_logs rs db) = {m \<in> mg_docs (rs_logs rs) db. not_sent m}"
  using full_page [of "rs_logs rs" "rs_logPage rs" db not_sent PAGE_LIMIT] assms
  by (simp add: logs_ok_def ids_ok_def findAllNotSendLimit_def mg_find_def)

lemma fold_enqueue [simp]: "fold (apply_log mg) (map Enqueue gs) db = db"
  by (induction gs) simp_all

lemma complete_round:
  assumes "picks_entry pick" and "cache_ok cache" and "\<forall>m \<in> set (stored_logs rs db). \<not> poisoned m"
  shows "\<exists>c. cache_ok c \<and> log_op_effects num pick rs (RetryLogs now (\<lambda>_. True)) db cache
    = (map Enqueue (List.map_filter (message_of num) (stored_logs rs db)), c)"
proof -
  let ?r = "retry_logs num pick now (map (\<lambda>m. (m, True)) (stored_logs rs db)) cache"
  obtain es x c where r: "?r = ((es, x), c)" by (metis surj_pair)
  have "cache_ok c" using retry_logs_cache [OF assms(1,2), of num now "map (\<lambda>m. (m, True)) (stored_logs rs db)"] by (simp add: r)
  then show ?thesis using retry_logs_all [OF assms, of num now] by (simp add: retry_found_connected r)
qed

lemma complete_rounds:
  "picks_entry pick \<Longrightarrow> cache_ok cache \<Longrightarrow> \<forall>m \<in> set (stored_logs rs db). \<not> poisoned m \<Longrightarrow>
     \<exists>c. log_run num pick rs (replicate n (RetryLogs now (\<lambda>_. True))) db cache
       = (concat (replicate n (map Enqueue (List.map_filter (message_of num) (stored_logs rs db)))), db, c)"
proof (induction n arbitrary: cache)
  case (Suc n)
  from complete_round [OF Suc.prems] obtain c where c: "cache_ok c"
    "log_op_effects num pick rs (RetryLogs now (\<lambda>_. True)) db cache
      = (map Enqueue (List.map_filter (message_of num) (stored_logs rs db)), c)" by blast
  from Suc.IH [OF Suc.prems(1) c(1) Suc.prems(3)] obtain c' where
    "log_run num pick rs (replicate n (RetryLogs now (\<lambda>_. True))) db c
      = (concat (replicate n (map Enqueue (List.map_filter (message_of num) (stored_logs rs db)))), db, c')" ..
  then show ?case by (simp add: c(2) del: log_op_effects.simps)
qed simp

lemma mset_map_filter:
  "mset (List.map_filter f xs) = image_mset (\<lambda>x. the (f x)) (filter_mset (\<lambda>x. f x \<noteq> None) (mset xs))"
  by (induction xs) (auto simp: map_filter_simps split: option.splits)

lemma repeat_mset_single: "repeat_mset n {#x#} = replicate_mset n x"
  by (induction n) simp_all

lemma mset_replicate: "mset (concat (replicate n xs)) = repeat_mset n (mset xs)"
  by (induction n) simp_all

lemma stored_logs_mset:
  assumes "logs_ok rs db" and "mg_count (rs_logs rs) not_sent db \<le> PAGE_LIMIT"
  shows "mset (stored_logs rs db) = mset_set {m \<in> mg_docs (rs_logs rs) db. not_sent m}"
proof -
  have "distinct (stored_logs rs db)" using assms(1) page_laws(2) by (auto simp: logs_ok_def findAllNotSendLimit_def)
  then show ?thesis using stored_logs_all [OF assms] by (metis mset_set_set)
qed

text \<open>
  Claim C18. A stored log message is sent again until it expires: whatever clients and crashes write,
  however often the task ran, with or without a connection, and whatever the transport reported, every
  message stored as not sent is still stored so, unchanged, unless the index on \<open>writeDate\<close> has let the
  database delete it. If then none of the stored ones raises and they fit one page, every complete run
  of the task (one that keeps its connection) gives the transport exactly one message for each of them,
  except for those whose columns do not parse, and changes nothing in the database: \<open>n\<close> runs give it
  exactly \<open>n\<close>.
\<close>

theorem logs_retried_forever:
  assumes "logs_ok rs db" and "picks_entry pick" and "cache_ok cache" and "list_all log_op_ok ops"
    and "log_run num pick rs ops db cache = (es, db', cache')"
  shows "{m \<in> mg_docs (rs_logs rs) db. \<not> expires_in ops m} \<subseteq> mg_docs (rs_logs rs) db'
    \<and> (mg_count (rs_logs rs) not_sent db' \<le> PAGE_LIMIT \<longrightarrow> (\<forall>m \<in> mg_docs (rs_logs rs) db'. not_sent m \<longrightarrow> \<not> poisoned m) \<longrightarrow>
        (\<forall>n now. \<exists>es c. log_run num pick rs (replicate n (RetryLogs now (\<lambda>_. True))) db' cache' = (es, db', c)
            \<and> mset es = repeat_mset n (image_mset (\<lambda>m. Enqueue (the (message_of num m)))
                (mset_set {m \<in> mg_docs (rs_logs rs) db'. not_sent m \<and> message_of num m \<noteq> None}))))"
proof (intro conjI impI allI)
  fix n now
  from log_run_keeps [OF assms] have k: "{m \<in> mg_docs (rs_logs rs) db. \<not> expires_in ops m} \<subseteq> mg_docs (rs_logs rs) db'"
    "logs_ok rs db'" "cache_ok cache'" by simp_all
  show "{m \<in> mg_docs (rs_logs rs) db. \<not> expires_in ops m} \<subseteq> mg_docs (rs_logs rs) db'" by (rule k(1))
  assume fits: "mg_count (rs_logs rs) not_sent db' \<le> PAGE_LIMIT" and ok: "\<forall>m \<in> mg_docs (rs_logs rs) db'. not_sent m \<longrightarrow> \<not> poisoned m"
  let ?gs = "List.map_filter (message_of num) (stored_logs rs db')"
  have "\<forall>m \<in> set (stored_logs rs db'). \<not> poisoned m" using stored_logs_all [OF k(2) fits] ok by simp
  from complete_rounds [OF assms(2) k(3) this, of num n now] obtain c where
    r: "log_run num pick rs (replicate n (RetryLogs now (\<lambda>_. True))) db' cache' = (concat (replicate n (map Enqueue ?gs)), db', c)" ..
  have "{#x \<in># mset_set {m \<in> mg_docs (rs_logs rs) db'. not_sent m}. message_of num x \<noteq> None#}
      = mset_set {m \<in> mg_docs (rs_logs rs) db'. not_sent m \<and> message_of num m \<noteq> None}"
    using k(2) by (subst filter_mset_mset_set) (auto simp: logs_ok_def ids_ok_def intro: arg_cong [where f = mset_set])
  then have "mset (concat (replicate n (map Enqueue ?gs))) = repeat_mset n (image_mset (\<lambda>m. Enqueue (the (message_of num m)))
      (mset_set {m \<in> mg_docs (rs_logs rs) db'. not_sent m \<and> message_of num m \<noteq> None}))"
    by (simp add: mset_replicate mset_map_filter stored_logs_mset [OF k(2) fits] comp_def image_mset.compositionality del: not_None_eq)
  with r show "\<exists>es c. log_run num pick rs (replicate n (RetryLogs now (\<lambda>_. True))) db' cache' = (es, db', c)
      \<and> mset es = repeat_mset n (image_mset (\<lambda>m. Enqueue (the (message_of num m)))
          (mset_set {m \<in> mg_docs (rs_logs rs) db'. not_sent m \<and> message_of num m \<noteq> None}))" by blast
qed

text \<open>Collections that are lists, and pages in their order.\<close>

definition list_page :: "('d, 'd list) page" where
  "list_page n q ds = take n (filter q (remdups ds))"

lemma list_pages:
  fixes get_id :: "'d \<Rightarrow> string option"
  shows "pages (list_mongo get_id set_id) list_page"
proof -
  have "card {d \<in> set ds. q d} = length (filter q (remdups ds))" for q and ds :: "'d list"
    using distinct_card [of "filter q (remdups ds)"] by simp
  then show ?thesis
    by (auto simp: pages_def list_page_def mg_find_def mg_count_def min.commute dest: in_set_takeD)
qed

definition sample_stores :: "(log_message list, weed_meta list) retry_stores" where
  "sample_stores = \<lparr>rs_logs = list_mongo lm_id set_lm_id, rs_metas = list_mongo w_id set_w_id,
     rs_logPage = list_page, rs_metaPage = list_page\<rparr>"

lemma sample_stores_ok: "logs_ok sample_stores []"
  by (simp add: logs_ok_def sample_stores_def list_mongo_documented list_pages ids_ok_def)

abbreviation first_id :: string where
  "first_id \<equiv> fresh_id (lm_id :: log_message \<Rightarrow> string option) []"

lemma sample_run_stored:
  assumes "lm_id m = None"
  shows "log_run num pick sample_stores [WriteLog t m False i] [] c
    = ([SaveLog (Some m)], [set_lm_id (Some (first_id)) m], c)"
  using assms by (simp add: write_log_def sample_stores_def list_mongo_def)

lemma sample_fits: "mg_count (rs_logs sample_stores) q [m] \<le> PAGE_LIMIT"
proof -
  have "card {d. d = m \<and> q d} \<le> card {m}" by (rule card_mono) auto
  then show ?thesis by (simp add: mg_count_def mg_find_def sample_stores_def PAGE_LIMIT_def)
qed

theorem logs_retried_forever_witness:
  "\<exists>db c g. log_run sample_numbers pick_first sample_stores [WriteLog 0 sample_log False False] [] [] = ([SaveLog (Some sample_log)], db, c)
     \<and> (\<forall>n now. \<exists>es c'. log_run sample_numbers pick_first sample_stores (replicate n (RetryLogs now (\<lambda>_. True))) db c = (es, db, c')
           \<and> mset es = replicate_mset n (Enqueue g))"
proof -
  let ?m = "set_lm_id (Some (first_id)) sample_log"
  have new: "lm_id sample_log = None" by (simp add: sample_log_def createLogMessage_def)
  obtain g where g: "message_of sample_numbers ?m = Some g"
    by (simp add: message_of_def set_lm_id_def sample_log_def createLogMessage_def layout_of_def sample_layout sample_columns)
  have docs: "mg_docs (rs_logs sample_stores) = set" by (simp add: sample_stores_def)
  have fine: "\<forall>m \<in> mg_docs (rs_logs sample_stores) [?m]. not_sent m \<longrightarrow> \<not> poisoned m"
    by (simp add: docs poisoned_def set_lm_id_def sample_log_def createLogMessage_def layout_of_def sample_layout)
  have "not_sent ?m" by (simp add: not_sent_def set_lm_id_def sample_log_def createLogMessage_def)
  then have one: "{m \<in> mg_docs (rs_logs sample_stores) [?m]. not_sent m \<and> message_of sample_numbers m \<noteq> None} = {?m}"
    using g by (auto simp: docs)
  have "list_all log_op_ok [WriteLog 0 sample_log False False]" using new by simp
  note c = logs_retried_forever [where num = sample_numbers, OF sample_stores_ok sample_cache this sample_run_stored [OF new]]
  have "\<exists>es c'. log_run sample_numbers pick_first sample_stores (replicate n (RetryLogs now (\<lambda>_. True))) [?m] [] = (es, [?m], c')
      \<and> mset es = replicate_mset n (Enqueue g)" for n now
    using spec [OF spec [OF mp [OF mp [OF conjunct2 [OF c] sample_fits] fine]], of n now]
    by (simp add: one g repeat_mset_single del: not_None_eq)
  then show ?thesis using sample_run_stored [OF new] by blast
qed

text \<open>
  Claim C22. One bad message stops the retries: once a message that raises (a layout that does not parse,
  or no text) is stored, which \<open>write\<close> does unseen while Graylog is away, it stays until it expires; and
  each run of the task that finds the service connected and still has the connection when it comes to this
  message raises before it reaches the files of WeedFS, of which it writes none. Only a run that has no
  connection at each bad message, or from the start, goes on to the files.
\<close>

theorem poison_blocks_retry:
  assumes "logs_ok rs db" and "picks_entry pick" and "cache_ok cache" and "list_all log_op_ok ops"
    and "lm_id m = None" and "poisoned m" and "lm_status m = STATE_NORMAL" and "\<not> expires_in ops m"
    and "log_run num pick rs (WriteLog t m False i # ops) db cache = (es, db', cache')"
    and "mg_count (rs_logs rs) not_sent db' \<le> PAGE_LIMIT"
  shows "\<exists>d page. d \<in> mg_docs (rs_logs rs) db' \<and> (\<exists>j. d = set_lm_id (Some j) m)
    \<and> page = findAllNotSendLimit (rs_logPage rs) PAGE_LIMIT db' \<and> d \<in> set page
    \<and> (\<forall>flags now dir wdb s.
         (if flags 0 \<and> (\<exists>k < length page. poisoned (page ! k) \<and> flags (Suc k))
          then \<exists>es e c. retryPutQueue num pick now rs dir flags (db', wdb) cache' s = Some (es, [], Some e, c, resetServerError s)
          else \<exists>es c. retryPutQueue num pick now rs dir flags (db', wdb) cache' s =
                 map_option (\<lambda>((ws, x), s'). (es, ws, x, c, s'))
                   (retryPutQueue_weed dir (findAllNotWriteLimit (rs_metaPage rs) PAGE_LIMIT wdb) s)))
    \<and> (\<forall>flags. (\<forall>k < length page. page ! k = d \<longrightarrow> flags (Suc k)) \<longrightarrow> (\<exists>k < length page. poisoned (page ! k) \<and> flags (Suc k)))"
proof -
  let ?db = "mg_save (rs_logs rs) m db"
  obtain es' where r: "log_run num pick rs ops ?db cache = (es', db', cache')"
    using assms(9) by (auto simp: write_log_def split: prod.splits)
  have doc: "mongo_documented lm_id set_lm_id (rs_logs rs)" using assms(1) by (simp add: logs_ok_def)
  obtain j where "Some j \<notin> lm_id ` mg_docs (rs_logs rs) db"
    and j: "mg_docs (rs_logs rs) ?db = insert (set_lm_id (Some j) m) (mg_docs (rs_logs rs) db)"
    by (rule save_new [OF doc assms(5)])
  let ?d = "set_lm_id (Some j) m" and ?page = "stored_logs rs db'"
  have "logs_ok rs ?db" using assms(1) ids_ok_save [of lm_id set_lm_id "rs_logs rs" db m] by (simp add: logs_ok_def)
  from log_run_keeps [OF this assms(2-4) r] have k: "{x \<in> mg_docs (rs_logs rs) ?db. \<not> expires_in ops x} \<subseteq> mg_docs (rs_logs rs) db'"
    "logs_ok rs db'" "cache_ok cache'" by simp_all
  have "\<not> expires_in ops ?d" using assms(8) by (simp add: expires_in_def expired_by_def set_lm_id_def)
  then have stored: "?d \<in> mg_docs (rs_logs rs) db'" using k(1) j by auto
  have bad: "poisoned ?d" "not_sent ?d" using assms(6,7) by (simp_all add: poisoned_def not_sent_def set_lm_id_def)
  with stored stored_logs_all [OF k(2) assms(10)] have page: "?d \<in> set ?page" by auto
  then have found: "\<exists>n < length ?page. poisoned (?page ! n) \<and> flags (Suc n)"
    if "\<forall>n < length ?page. ?page ! n = ?d \<longrightarrow> flags (Suc n)" for flags
    using that bad(1) by (metis in_set_conv_nth)
  have "if flags 0 \<and> (\<exists>n < length ?page. poisoned (?page ! n) \<and> flags (Suc n))
      then \<exists>es e c. retryPutQueue num pick now rs dir flags (db', wdb) cache' s = Some (es, [], Some e, c, resetServerError s)
      else \<exists>es c. retryPutQueue num pick now rs dir flags (db', wdb) cache' s =
             map_option (\<lambda>((ws, x), s'). (es, ws, x, c, s'))
               (retryPutQueue_weed dir (findAllNotWriteLimit (rs_metaPage rs) PAGE_LIMIT wdb) s)" for flags now dir wdb s
  proof -
    obtain es2 x2 c2 where run: "retry_logs num pick now (retry_found rs flags db') cache' = ((es2, x2), c2)" by (metis surj_pair)
    have "x2 \<noteq> None \<longleftrightarrow> flags 0 \<and> (\<exists>n < length ?page. poisoned (?page ! n) \<and> flags (Suc n))"
      using retry_logs_raises [OF assms(2) k(3), of num now "retry_found rs flags db'"] by (auto simp: run retry_found_set)
    then show ?thesis
      by (cases x2) (auto simp: retryPutQueue_def run split: option.splits)
  qed
  with stored page found show ?thesis by (intro exI [of _ ?d] exI [of _ ?page]) blast
qed

theorem poison_blocks_retry_witness:
  "\<exists>db c es e c'. log_run sample_numbers pick_first sample_stores [WriteLog 0 (sample_log\<lparr>lm_message := None\<rparr>) False False] [] []
       = ([SaveLog (Some (sample_log\<lparr>lm_message := None\<rparr>))], db, c)
     \<and> retryPutQueue sample_numbers pick_first 1 sample_stores ''/w'' (\<lambda>_. True) (db, [sample_meta]) c sample_service
       = Some (es, [], Some e, c', resetServerError sample_service)"
proof -
  let ?m = "sample_log\<lparr>lm_message := None\<rparr>"
  have m: "lm_id ?m = None" "poisoned ?m" "lm_status ?m = STATE_NORMAL" "\<not> expires_in [] ?m"
    by (simp_all add: sample_log_def createLogMessage_def poisoned_def expires_in_def)
  have "list_all log_op_ok []" by simp
  from poison_blocks_retry [where num = sample_numbers, OF sample_stores_ok sample_cache this m sample_run_stored [OF m(1)] sample_fits]
  obtain d page where
    p: "\<forall>flags now dir wdb s.
         (if flags 0 \<and> (\<exists>k < length page. poisoned (page ! k) \<and> flags (Suc k))
          then \<exists>es e c. retryPutQueue sample_numbers pick_first now sample_stores dir flags ([set_lm_id (Some first_id) ?m], wdb) [] s
             = Some (es, [], Some e, c, resetServerError s)
          else \<exists>es c. retryPutQueue sample_numbers pick_first now sample_stores dir flags ([set_lm_id (Some first_id) ?m], wdb) [] s =
                 map_option (\<lambda>((ws, x), s'). (es, ws, x, c, s'))
                   (retryPutQueue_weed dir (findAllNotWriteLimit (rs_metaPage sample_stores) PAGE_LIMIT wdb) s))"
    and f: "\<forall>flags. (\<forall>k < length page. page ! k = d \<longrightarrow> flags (Suc k)) \<longrightarrow> (\<exists>k < length page. poisoned (page ! k) \<and> flags (Suc k))"
    by (elim exE conjE) (rule that)
  have "\<exists>es e c. retryPutQueue sample_numbers pick_first 1 sample_stores ''/w'' (\<lambda>_. True)
      ([set_lm_id (Some first_id) ?m], [sample_meta]) [] sample_service = Some (es, [], Some e, c, resetServerError sample_service)"
    using p [rule_format, of "\<lambda>_. True" 1 "''/w''" "[sample_meta]" sample_service] f [rule_format, of "\<lambda>_. True"] by simp
  then show ?thesis using sample_run_stored [OF m(1)] by blast
qed

section \<open>The life of a stored file\<close>

text \<open>The metas the write thread marks are saved.\<close>

fun mark_deleted :: "(weed_meta, 'w) mongo \<Rightarrow> weed_event \<Rightarrow> 'w \<Rightarrow> 'w" where
  "mark_deleted mg (MarkedDeleted m) db = mg_save mg m db"
| "mark_deleted mg (Taken m) db = db"
| "mark_deleted mg (Uploaded m rq) db = db"
| "mark_deleted mg (Skipped m) db = db"

lemma one_page:
  assumes "pages mg page" and "mg_find mg q db = {m}"
  shows "page PAGE_LIMIT q db = [m]"
proof -
  have "length (page PAGE_LIMIT q db) = 1" "set (page PAGE_LIMIT q db) \<subseteq> {m}"
    using page_laws [OF assms(1), of PAGE_LIMIT q db] assms(2) by (simp_all add: mg_count_def PAGE_LIMIT_def)
  then show ?thesis by (cases "page PAGE_LIMIT q db") auto
qed

lemma no_page: "pages mg page \<Longrightarrow> mg_find mg q db = {} \<Longrightarrow> page n q db = []"
  using page_laws(1) [of mg page n q db] by simp

lemma retry_one:
  assumes "pages mg page" and "mg_find mg not_written db = {m}" and "w_key m = Some k"
    and "ws_connected s" and "q_items (ws_writeQueue s) = []" and "0 < q_capacity (ws_writeQueue s)"
  shows "retryPutQueue_weed dir (findAllNotWriteLimit page PAGE_LIMIT db) s = Some (([], None),
      s\<lparr>ws_serverError := False, ws_writeQueue := (ws_writeQueue s)\<lparr>q_items := [m]\<rparr>, ws_metaMap := (ws_metaMap s)(k \<mapsto> m)\<rparr>)"
  using one_page [OF assms(1,2)] assms(3-6)
  by (simp add: retryPutQueue_weed_def findAllNotWriteLimit_def resetServerError_def weed_write_def offer_def Let_def)

lemma stored_meta_fields:
  "store_meta now newId a (m\<lparr>w_id := i\<rparr>) = store_meta now newId a m" "filename (m\<lparr>w_id := i\<rparr>) = filename m"
  "w_status (weed_of t k ext kind) = WEED_NORMAL"
  by (simp_all add: store_meta_def filename_def)
    (cases kind; simp add: createWeedLog_def createWeedAttach_def createWeedCrash_def new_weed_meta_def)

lemma stored_answer:
  assumes "answers re bytes fid (k @ ''.'' @ ext) sz" and "re_baseName re (k @ ''.'' @ ext) = k" and "re_dirPath re \<noteq> []"
    and "q_items (ws_readQueue s) = []" and "0 < q_capacity (ws_readQueue s)"
    and "ws_metaMap s k = Some ((weed_of t k ext kind)\<lparr>w_id := i\<rparr>)" and "dated kind"
  shows "\<exists>s2. channelRead0 now 201 bytes s = Some s2
    \<and> read_step re None s2 = (expected_effects (re_now re) (re_newId re) fid sz kind @ [DeleteFile (re_dirPath re @ ''/'' @ k @ ''.'' @ ext)], None,
        s\<lparr>ws_serverError := False, ws_metaMap := (ws_metaMap s)(k := None)\<rparr>)"
proof -
  obtain b bs where bytes: "bytes = b # bs" using assms(1) by (cases bytes) (auto simp: answers_def)
  let ?q = "(ws_readQueue s)\<lparr>q_items := [createWeedResponse now bytes]\<rparr>"
  let ?s2 = "s\<lparr>ws_serverError := False, ws_readQueue := ?q\<rparr>"
  have 1: "channelRead0 now 201 bytes s = Some ?s2"
    using assms(4,5) by (simp add: channelRead0_def offer_def bytes Let_def)
  have resp: "w_response (createWeedResponse now bytes) = Some (b # bs)" "\<not> has_id (w_id (createWeedResponse now bytes))"
    by (simp_all add: createWeedResponse_def new_weed_meta_def bytes has_id_def)
  have "handle_response re (createWeedResponse now bytes) (ws_metaMap s)
      = (expected_effects (re_now re) (re_newId re) fid sz kind @ [DeleteFile (re_dirPath re @ ''/'' @ k @ ''.'' @ ext)],
         (ws_metaMap s)(k := None))"
    using assms(1,2,6,7) resp
    by (simp add: handle_response_def answers_def bytes stored_meta_fields store_meta_kind del: weed_of.simps)
  moreover have "(ws_readQueue s)\<lparr>q_items := []\<rparr> = ws_readQueue s" using assms(4) by (cases "ws_readQueue s") simp
  ultimately have "read_step re None ?s2 = (expected_effects (re_now re) (re_newId re) fid sz kind
        @ [DeleteFile (re_dirPath re @ ''/'' @ k @ ''.'' @ ext)], None,
        s\<lparr>ws_serverError := False, ws_metaMap := (ws_metaMap s)(k := None)\<rparr>)"
    using assms(3) by (cases s) (simp add: read_step_def poll_def)
  with 1 show ?thesis by blast
qed

text \<open>
  Claim C30. The life of a file that waited in the database. The task queues it and the write thread
  uploads it; when the answer comes, its meta is stored and the local file is deleted, but nothing
  tells the database that the retry is done. So the next run queues it once more and it waits in the
  map again; the write thread, which finds no file, marks it deleted, and only then the task stops
  finding it: a retry that succeeded ends as a deleted one.
\<close>

theorem stored_file_ends_deleted:
  assumes "mongo_documented w_id set_w_id mg" and "pages mg page"
    and "m = (weed_of t k ext kind)\<lparr>w_id := Some i\<rparr>" and "i \<noteq> []" and "mg_find mg not_written db = {m}"
    and "ws_connected s" and "q_items (ws_writeQueue s) = []" and "0 < q_capacity (ws_writeQueue s)"
    and "q_items (ws_readQueue s) = []" and "0 < q_capacity (ws_readQueue s)"
    and "we_files we (we_dirPath we @ ''/'' @ filename m) = Content content"
    and "answers re bytes fid (k @ ''.'' @ ext) sz" and "re_baseName re (k @ ''.'' @ ext) = k" and "re_dirPath re \<noteq> []"
    and "dated kind" and "we_files we' (we_dirPath we' @ ''/'' @ filename m) = Missing"
  shows "\<exists>s1 q rq s2 s3 s4 m'. retryPutQueue_weed dir (findAllNotWriteLimit page PAGE_LIMIT db) s = Some (([], None), s1)
    \<and> poll (ws_writeQueue s1) = (Some m, q) \<and> process_meta we m = Uploaded m rq
    \<and> channelRead0 now 201 bytes (s1\<lparr>ws_writeQueue := q\<rparr>) = Some s2
    \<and> read_step re None s2 = (expected_effects (re_now re) (re_newId re) fid sz kind
          @ [DeleteFile (re_dirPath re @ ''/'' @ filename m)], None, s3)
    \<and> (\<forall>x. SaveQueue x \<notin> set (expected_effects (re_now re) (re_newId re) fid sz kind))
    \<and> retryPutQueue_weed dir (findAllNotWriteLimit page PAGE_LIMIT db) s3 = Some (([], None), s4)
    \<and> q_items (ws_writeQueue s4) = [m] \<and> ws_metaMap s4 k = Some m
    \<and> process_meta we' m = MarkedDeleted m' \<and> w_status m' = WEED_DELETED
    \<and> m' \<in> mg_docs mg (mark_deleted mg (process_meta we' m) db)
    \<and> findAllNotWriteLimit page PAGE_LIMIT (mark_deleted mg (process_meta we' m) db) = []"
proof -
  have k: "w_key m = Some k" and f: "filename m = k @ ''.'' @ ext" and id: "has_id (w_id m)" "w_id m = Some i"
    using assms(3,4) by (simp_all add: stored_meta_fields has_id_def del: weed_of.simps)
  let ?q = "ws_writeQueue s"
  let ?s1 = "s\<lparr>ws_serverError := False, ws_writeQueue := ?q\<lparr>q_items := [m]\<rparr>, ws_metaMap := (ws_metaMap s)(k \<mapsto> m)\<rparr>"
  let ?s1' = "?s1\<lparr>ws_writeQueue := ?q\<lparr>q_items := []\<rparr>\<rparr>"
  let ?s3 = "?s1'\<lparr>ws_serverError := False, ws_metaMap := (ws_metaMap ?s1')(k := None)\<rparr>"
  let ?s4 = "?s3\<lparr>ws_serverError := False, ws_writeQueue := (ws_writeQueue ?s3)\<lparr>q_items := [m]\<rparr>, ws_metaMap := (ws_metaMap ?s3)(k \<mapsto> m)\<rparr>"
  let ?m' = "m\<lparr>w_status := WEED_DELETED\<rparr>"
  have 1: "retryPutQueue_weed dir (findAllNotWriteLimit page PAGE_LIMIT db) s = Some (([], None), ?s1)"
    by (rule retry_one [OF assms(2,5) k assms(6-8)])
  have 2: "poll (ws_writeQueue ?s1) = (Some m, ?q\<lparr>q_items := []\<rparr>)" by (simp add: poll_def)
  have 3: "process_meta we m = Uploaded m (upload_request (we_uri we) (we_boundary we) (filename m) content)"
    using assms(11) by (simp add: process_meta_def)
  have "ws_metaMap ?s1' k = Some ((weed_of t k ext kind)\<lparr>w_id := Some i\<rparr>)" using assms(3) by (simp del: weed_of.simps)
  from stored_answer [OF assms(12-14) _ _ this assms(15), of now] assms(9,10) obtain s2 where
    4: "channelRead0 now 201 bytes ?s1' = Some s2"
    "read_step re None s2 = (expected_effects (re_now re) (re_newId re) fid sz kind
        @ [DeleteFile (re_dirPath re @ ''/'' @ filename m)], None, ?s3)" by (auto simp: f)
  have 5: "retryPutQueue_weed dir (findAllNotWriteLimit page PAGE_LIMIT db) ?s3 = Some (([], None), ?s4)"
    by (rule retry_one [OF assms(2,5) k]) (use assms(6,8) in simp_all)
  have 6: "process_meta we' m = MarkedDeleted ?m'" using assms(16) id(1) by (simp add: process_meta_def)
  have docs: "mg_docs mg (mg_save mg ?m' db) = insert ?m' {x \<in> mg_docs mg db. w_id x \<noteq> Some i}"
    by (rule save_old [OF assms(1)]) (simp add: id(2))
  have "{x \<in> mg_docs mg db. not_written x} = {m}" using assms(5) by (simp add: mg_find_def)
  then have "mg_find mg not_written (mg_save mg ?m' db) = {}"
    using id(2) unfolding mg_find_def docs by (auto simp: not_written_def WEED_NORMAL_def WEED_DELETED_def)
  from no_page [OF assms(2) this] have 7: "findAllNotWriteLimit page PAGE_LIMIT (mg_save mg ?m' db) = []"
    by (simp add: findAllNotWriteLimit_def)
  have 8: "SaveQueue x \<notin> set (expected_effects (re_now re) (re_newId re) fid sz kind)" for x
    by (cases kind) (auto split: option.splits)
  show ?thesis
    by (rule exI [of _ ?s1], rule exI [of _ "?q\<lparr>q_items := []\<rparr>"],
        rule exI [of _ "upload_request (we_uri we) (we_boundary we) (filename m) content"], rule exI [of _ s2], rule exI [of _ ?s3],
        rule exI [of _ ?s4], rule exI [of _ ?m'], intro conjI allI 1 2 3 4 5 6 8) (simp_all add: 6 7 docs)
qed

theorem stored_file_ends_deleted_witness:
  "\<exists>m s s' m'. retryPutQueue_weed ''/w'' (findAllNotWriteLimit list_page PAGE_LIMIT [m]) s = Some (([], None), s')
     \<and> q_items (ws_writeQueue s') = [m] \<and> process_meta (sample_writer_env\<lparr>we_files := \<lambda>p. Missing\<rparr>) m = MarkedDeleted m'
     \<and> findAllNotWriteLimit list_page PAGE_LIMIT (mark_deleted (list_mongo w_id set_w_id) (MarkedDeleted m') [m]) = []"
proof -
  let ?m = "(weed_of 5 ''k'' ''log'' (Attachment sample_attach))\<lparr>w_id := Some ''7''\<rparr>"
  have q: "mg_find (list_mongo w_id set_w_id) not_written [?m] = {?m}"
    by (auto simp: mg_find_def not_written_def stored_meta_fields simp del: weed_of.simps)
  have s: "ws_connected sample_service" "q_items (ws_writeQueue sample_service) = []" "0 < q_capacity (ws_writeQueue sample_service)"
    "q_items (ws_readQueue sample_service) = []" "0 < q_capacity (ws_readQueue sample_service)"
    by (simp_all add: sample_service_def)
  have f: "filename ?m = ''k.log''" by (simp add: stored_meta_fields del: weed_of.simps)
  have we: "we_files sample_writer_env (we_dirPath sample_writer_env @ ''/'' @ filename ?m) = Content [1]"
    "we_files (sample_writer_env\<lparr>we_files := \<lambda>p. Missing\<rparr>)
       (we_dirPath (sample_writer_env\<lparr>we_files := \<lambda>p. Missing\<rparr>) @ ''/'' @ filename ?m) = Missing"
    unfolding f by (simp_all add: sample_writer_env_def)
  have re: "answers sample_read_env [1] ''3,01'' (''k'' @ ''.'' @ ''log'') 9"
    "re_baseName sample_read_env (''k'' @ ''.'' @ ''log'') = ''k''" "re_dirPath sample_read_env \<noteq> []" "dated (Attachment sample_attach)"
    by (simp_all add: sample_read_env_def answers_def)
  have "''7'' \<noteq> []" by simp
  from stored_file_ends_deleted [OF list_mongo_documented list_pages refl this q s we(1) re we(2), of "''/w''" 6]
  obtain s3 s4 m' where r: "retryPutQueue_weed ''/w'' (findAllNotWriteLimit list_page PAGE_LIMIT [?m]) s3 = Some (([], None), s4)"
    "q_items (ws_writeQueue s4) = [?m]" "process_meta (sample_writer_env\<lparr>we_files := \<lambda>p. Missing\<rparr>) ?m = MarkedDeleted m'"
    "findAllNotWriteLimit list_page PAGE_LIMIT (mark_deleted (list_mongo w_id set_w_id)
       (process_meta (sample_writer_env\<lparr>we_files := \<lambda>p. Missing\<rparr>) ?m) [?m]) = []"
    by (elim exE conjE) (rule that)
  from r(4) have "findAllNotWriteLimit list_page PAGE_LIMIT (mark_deleted (list_mongo w_id set_w_id) (MarkedDeleted m') [?m]) = []"
    unfolding r(3) .
  with r(1-3) show ?thesis by (intro exI conjI)
qed

end
