(* ===== verification/Clear_Files.thy ===== *)
theory Clear_Files
  imports Weed_Service Server_Properties
begin

text \<open>
  \<open>schedule/ScheduledTasks.clearFiles\<close>: the walk over the data directory that deletes old files, as
  \<open>Files.walkFileTree\<close> drives its visitor. The tree, the readings of the clock and the deletions that
  fail are parameters.
\<close>

section \<open>The walk\<close>

record file_attrs =
  fa_path :: string
  fa_regular :: bool
  fa_hidden :: bool
  fa_created :: jlong

text \<open>
  What the walk meets: a file, an entry whose attributes cannot be read, a directory with the entries its
  listing gives. A listing that breaks off just ends: the exception is handed to \<open>postVisitDirectory\<close>,
  which only looks at the clock, as after a whole one (the last reading of a directory below).
\<close>

datatype entry = File file_attrs | Failing string | Directory string "entry list"

text \<open>
  \<open>clock n\<close> is the answer of the n-th call of \<open>currentTimeMillis\<close>. A step of the walk answers the
  deleted files, how it ended and the number of the next reading.
\<close>

record walk_env =
  wk_clock :: "nat \<Rightarrow> jlong"
  wk_undeletable :: "string \<Rightarrow> bool"

datatype walk_end = GoesOn | Terminated | Raised

type_synonym walked = "string list \<times> walk_end \<times> nat"

definition goes_on :: "walk_env \<Rightarrow> jlong \<Rightarrow> nat \<Rightarrow> walk_end" where
  "goes_on e start n = (if walk_continues start (wk_clock e n) then GoesOn else Terminated)"

definition visitFile :: "walk_env \<Rightarrow> jlong \<Rightarrow> jlong \<Rightarrow> file_attrs \<Rightarrow> nat \<Rightarrow> walked" where
  "visitFile e start ttl f n =
     (if visit_deletes ttl (wk_clock e n) (fa_regular f) (fa_hidden f) (fa_created f)
      then if wk_undeletable e (fa_path f) then ([], Raised, Suc n) else ([fa_path f], goes_on e start n, Suc n)
      else ([], goes_on e start n, Suc n))"

fun walk_entry :: "walk_env \<Rightarrow> jlong \<Rightarrow> jlong \<Rightarrow> entry \<Rightarrow> nat \<Rightarrow> walked"
  and walk_entries :: "walk_env \<Rightarrow> jlong \<Rightarrow> jlong \<Rightarrow> entry list \<Rightarrow> nat \<Rightarrow> walked" where
  "walk_entry e start ttl (File f) n = visitFile e start ttl f n"
| "walk_entry e start ttl (Failing p) n = ([], Terminated, n)"
| "walk_entry e start ttl (Directory p entries) n =
     (case goes_on e start n of
        GoesOn \<Rightarrow>
          (case walk_entries e start ttl entries (Suc n) of
             (ds, GoesOn, m) \<Rightarrow> (ds, goes_on e start m, Suc m)
           | (ds, r, m) \<Rightarrow> (ds, r, m))
      | stop \<Rightarrow> ([], stop, Suc n))"
| "walk_entries e start ttl [] n = ([], GoesOn, n)"
| "walk_entries e start ttl (x # xs) n =
     (case walk_entry e start ttl x n of
        (ds, GoesOn, m) \<Rightarrow> (case walk_entries e start ttl xs m of (ds', r, k) \<Rightarrow> (ds @ ds', r, k))
      | (ds, r, m) \<Rightarrow> (ds, r, m))"

text \<open>The task: every exception is caught and logged, so its effect is the deleted files.\<close>

definition clearFiles :: "walk_env \<Rightarrow> server_properties \<Rightarrow> entry \<Rightarrow> string list" where
  "clearFiles e p root =
     (let start = wk_clock e 0; ttl = ttl_millis p in fst (walk_entry e start ttl root 1))"

section \<open>What should be deleted\<close>

text \<open>
  The files of a tree with the reading that decides over each in a walk that is not stopped, and the
  number of readings such a walk makes.
\<close>

fun readings :: "entry \<Rightarrow> nat" where
  "readings (File f) = 1"
| "readings (Failing p) = 0"
| "readings (Directory p entries) = 2 + sum_list (map readings entries)"

fun listed :: "entry \<Rightarrow> nat \<Rightarrow> (file_attrs \<times> nat) list"
  and listed_all :: "entry list \<Rightarrow> nat \<Rightarrow> (file_attrs \<times> nat) list" where
  "listed (File f) n = [(f, n)]"
| "listed (Failing p) n = []"
| "listed (Directory p entries) n = listed_all entries (Suc n)"
| "listed_all [] n = []"
| "listed_all (x # xs) n = listed x n @ listed_all xs (n + readings x)"

fun clean :: "entry \<Rightarrow> bool" where
  "clean (File f) = True"
| "clean (Failing p) = False"
| "clean (Directory p entries) = list_all clean entries"

definition expired :: "walk_env \<Rightarrow> jlong \<Rightarrow> (file_attrs \<times> nat) \<Rightarrow> bool" where
  "expired e ttl fn = visit_deletes ttl (wk_clock e (snd fn)) (fa_regular (fst fn)) (fa_hidden (fst fn)) (fa_created (fst fn))"

definition old_files :: "walk_env \<Rightarrow> jlong \<Rightarrow> (file_attrs \<times> nat) list \<Rightarrow> string list" where
  "old_files e ttl fs = map (fa_path \<circ> fst) (filter (expired e ttl) fs)"

lemma old_files_simps [simp]:
  "old_files e ttl [] = []" "old_files e ttl (xs @ ys) = old_files e ttl xs @ old_files e ttl ys"
  "old_files e ttl (x # xs) = (if expired e ttl x then fa_path (fst x) # old_files e ttl xs else old_files e ttl xs)"
  by (simp_all add: old_files_def)

text \<open>A walk that goes on has done the whole entry; a stopped one a front part of it.\<close>

definition walked_ok :: "walk_env \<Rightarrow> jlong \<Rightarrow> walked \<Rightarrow> (file_attrs \<times> nat) list \<Rightarrow> nat \<Rightarrow> bool" where
  "walked_ok e ttl w fs n \<longleftrightarrow>
     (case w of
        (ds, GoesOn, m) \<Rightarrow> ds = old_files e ttl fs \<and> m = n
      | (ds, r, m) \<Rightarrow> prefix ds (takeWhile (\<lambda>p. \<not> wk_undeletable e p) (old_files e ttl fs)))
     \<and> list_all (\<lambda>p. \<not> wk_undeletable e p) (fst w)"

lemma takeWhile_all_append: "list_all P xs \<Longrightarrow> takeWhile P (xs @ ys) = xs @ takeWhile P ys"
  by (induction xs) auto

lemma takeWhile_all: "list_all P xs \<Longrightarrow> takeWhile P xs = xs"
  by (induction xs) auto

lemma takeWhile_stops: "\<not> list_all P xs \<Longrightarrow> takeWhile P (xs @ ys) = takeWhile P xs"
  by (induction xs) auto

lemma prefix_takeWhile_append: "prefix ds (takeWhile P xs) \<Longrightarrow> prefix ds (takeWhile P (xs @ ys))"
proof -
  have "prefix (takeWhile P xs) (takeWhile P (xs @ ys))" by (induction xs) auto
  then show "prefix ds (takeWhile P xs) \<Longrightarrow> prefix ds (takeWhile P (xs @ ys))" by (rule prefix_order.order_trans [rotated])
qed

lemma walk_ok:
  "walked_ok e ttl (walk_entry e start ttl x n) (listed x n) (n + readings x)"
  "walked_ok e ttl (walk_entries e start ttl xs n) (listed_all xs n) (n + sum_list (map readings xs))"
proof (induction x n and xs n rule: listed_listed_all.induct)
  case (1 f n)
  show ?case by (auto simp: walked_ok_def visitFile_def goes_on_def expired_def split: walk_end.splits)
next
  case (3 p entries n)
  then show ?case
    by (auto simp: walked_ok_def goes_on_def takeWhile_all split: walk_end.splits prod.splits if_splits)
next
  case (5 x xs n)
  obtain ds r m where x: "walk_entry e start ttl x n = (ds, r, m)" by (metis surj_pair)
  obtain ds' r' m' where xs: "walk_entries e start ttl xs (n + readings x) = (ds', r', m')" by (metis surj_pair)
  show ?case
  proof (cases r)
    case GoesOn
    with 5(1) x have d: "ds = old_files e ttl (listed x n)" "m = n + readings x" "list_all (\<lambda>p. \<not> wk_undeletable e p) ds"
      by (auto simp: walked_ok_def)
    with 5(2) xs x GoesOn show ?thesis
      by (cases r') (auto simp: walked_ok_def takeWhile_all_append add.assoc)
  next
    case Terminated
    with 5(1) x show ?thesis by (simp add: walked_ok_def prefix_takeWhile_append)
  next
    case Raised
    with 5(1) x show ?thesis by (simp add: walked_ok_def prefix_takeWhile_append)
  qed
qed (simp_all add: walked_ok_def)

text \<open>A walk with time enough, over a tree that can be read, ends early only at a file it cannot delete.\<close>

abbreviation deletable :: "walk_env \<Rightarrow> string \<Rightarrow> bool" where
  "deletable e p \<equiv> \<not> wk_undeletable e p"

definition runs_to :: "walk_env \<Rightarrow> jlong \<Rightarrow> walked \<Rightarrow> (file_attrs \<times> nat) list \<Rightarrow> nat \<Rightarrow> bool" where
  "runs_to e ttl w fs n \<longleftrightarrow>
     (if list_all (deletable e) (old_files e ttl fs) then w = (old_files e ttl fs, GoesOn, n)
      else fst w = takeWhile (deletable e) (old_files e ttl fs) \<and> fst (snd w) = Raised)"

lemma walk_runs:
  "clean x \<Longrightarrow> \<forall>m < n + readings x. walk_continues start (wk_clock e m) \<Longrightarrow>
     runs_to e ttl (walk_entry e start ttl x n) (listed x n) (n + readings x)"
  "list_all clean xs \<Longrightarrow> \<forall>m < n + sum_list (map readings xs). walk_continues start (wk_clock e m) \<Longrightarrow>
     runs_to e ttl (walk_entries e start ttl xs n) (listed_all xs n) (n + sum_list (map readings xs))"
proof (induction x n and xs n rule: listed_listed_all.induct)
  case (1 f n)
  then show ?case by (auto simp: runs_to_def visitFile_def goes_on_def expired_def)
next
  case (3 p entries n)
  have "runs_to e ttl (walk_entries e start ttl entries (Suc n)) (listed_all entries (Suc n)) (Suc n + sum_list (map readings entries))"
    using 3 by simp
  then show ?case using 3(3)
    by (auto simp: runs_to_def goes_on_def split: walk_end.splits prod.splits if_splits)
next
  case (5 x xs n)
  have x: "runs_to e ttl (walk_entry e start ttl x n) (listed x n) (n + readings x)" using 5 by simp
  have xs: "runs_to e ttl (walk_entries e start ttl xs (n + readings x)) (listed_all xs (n + readings x))
      (n + readings x + sum_list (map readings xs))" using 5 by (simp add: add.assoc)
  obtain ds' r' m' where w: "walk_entries e start ttl xs (n + readings x) = (ds', r', m')" by (metis surj_pair)
  show ?case
  proof (cases "list_all (deletable e) (old_files e ttl (listed x n))")
    case True
    with x have "walk_entry e start ttl x n = (old_files e ttl (listed x n), GoesOn, n + readings x)"
      by (simp add: runs_to_def)
    with True xs w show ?thesis by (auto simp: runs_to_def takeWhile_all_append add.assoc split: if_splits)
  next
    case False
    with x obtain m where "walk_entry e start ttl x n = (takeWhile (deletable e) (old_files e ttl (listed x n)), Raised, m)"
      by (cases "walk_entry e start ttl x n") (auto simp: runs_to_def)
    with False show ?thesis by (simp add: runs_to_def takeWhile_stops)
  qed
qed (simp_all add: runs_to_def)

text \<open>
  Claim C36. The clean-up deletes nothing but regular files that are not hidden and, at the moment they
  are visited, at least as old as the time to live; in the order of the tree and never beyond the
  first one it cannot delete. If the tree can be read and the hour is not over, it deletes all of
  them up to that file, in this run and in every other: one file that cannot be deleted keeps every
  old file behind it.
\<close>

theorem clear_files_correct:
  shows "prefix (clearFiles e p root) (takeWhile (deletable e) (old_files e (ttl_millis p) (listed root 1)))
    \<and> (f \<in> set (clearFiles e p root) \<longrightarrow>
         (\<exists>a n. (a, n) \<in> set (listed root 1) \<and> fa_path a = f \<and> fa_regular a \<and> \<not> fa_hidden a
            \<and> sint (ttl_millis p) \<le> sint (wk_clock e n - fa_created a)))
    \<and> (clean root \<longrightarrow> (\<forall>n \<le> readings root. walk_continues (wk_clock e 0) (wk_clock e n)) \<longrightarrow>
         clearFiles e p root = takeWhile (deletable e) (old_files e (ttl_millis p) (listed root 1)))"
proof (intro conjI impI)
  let ?old = "old_files e (ttl_millis p) (listed root 1)"
  let ?w = "walk_entry e (wk_clock e 0) (ttl_millis p) root 1"
  have fst: "clearFiles e p root = fst ?w" by (simp add: clearFiles_def Let_def)
  have "walked_ok e (ttl_millis p) ?w (listed root 1) (1 + readings root)" by (rule walk_ok)
  moreover obtain ds r m where "?w = (ds, r, m)" by (metis surj_pair)
  ultimately show pre: "prefix (clearFiles e p root) (takeWhile (deletable e) ?old)"
    unfolding fst by (cases r) (auto simp: walked_ok_def takeWhile_all)
  assume "f \<in> set (clearFiles e p root)"
  then have "f \<in> set ?old" using set_mono_prefix [OF pre] set_takeWhileD by fastforce
  then obtain a n where "(a, n) \<in> set (listed root 1)" "fa_path a = f" "expired e (ttl_millis p) (a, n)"
    by (auto simp: old_files_def)
  then show "\<exists>a n. (a, n) \<in> set (listed root 1) \<and> fa_path a = f \<and> fa_regular a \<and> \<not> fa_hidden a
            \<and> sint (ttl_millis p) \<le> sint (wk_clock e n - fa_created a)"
    unfolding expired_def visit_deletes_def word_sle_eq by (metis fst_conv snd_conv)
next
  assume "clean root" "\<forall>n \<le> readings root. walk_continues (wk_clock e 0) (wk_clock e n)"
  then have "runs_to e (ttl_millis p) (walk_entry e (wk_clock e 0) (ttl_millis p) root 1) (listed root 1) (1 + readings root)"
    by (intro walk_runs) (simp_all add: less_Suc_eq_le)
  then show "clearFiles e p root = takeWhile (deletable e) (old_files e (ttl_millis p) (listed root 1))"
    by (auto simp: runs_to_def clearFiles_def Let_def takeWhile_all split: if_splits)
qed

text \<open>A directory with a young file, an old one, one that cannot be deleted and one behind it.\<close>

definition sample_file :: "string \<Rightarrow> jlong \<Rightarrow> entry" where
  "sample_file path created = File \<lparr>fa_path = path, fa_regular = True, fa_hidden = False, fa_created = created\<rparr>"

definition sample_tree :: entry where
  "sample_tree = Directory ''d'' [sample_file ''young'' 5000, sample_file ''old'' 0, sample_file ''stuck'' 0, sample_file ''behind'' 0]"

definition sample_walk :: walk_env where
  "sample_walk = \<lparr>wk_clock = (\<lambda>n. 5000), wk_undeletable = (\<lambda>p. p = ''stuck'')\<rparr>"

definition short_ttl :: "server_properties \<Rightarrow> server_properties" where
  "short_ttl p = p\<lparr>ttlSeconds := 1\<rparr>"

theorem clear_files_correct_witness:
  "\<forall>p. clearFiles sample_walk (short_ttl p) sample_tree = [''old'']"
proof
  fix p
  have "clean sample_tree" "\<forall>n \<le> readings sample_tree. walk_continues (wk_clock sample_walk 0) (wk_clock sample_walk n)"
    by (simp_all add: sample_tree_def sample_file_def sample_walk_def walk_continues_def MAX_EXEC_MILLISECOND_def word_sle_eq)
  moreover have "old_files sample_walk (ttl_millis (short_ttl p)) (listed sample_tree 1) = [''old'', ''stuck'', ''behind'']"
    by (simp add: sample_tree_def sample_file_def sample_walk_def short_ttl_def ttl_millis_def expires_def expired_def
        visit_deletes_def word_sle_eq)
  ultimately show "clearFiles sample_walk (short_ttl p) sample_tree = [''old'']"
    using clear_files_correct [of sample_walk "short_ttl p" sample_tree "[]"] by (simp add: sample_walk_def)
qed

text \<open>
  A time to live that overflows (the configuration accepts it) is negative, and the clean-up deletes
  every file of the past, the newest included.
\<close>

lemma overflow_deletes:
  assumes "expires p = 66795331356288000" and "0 \<le> sint (now - created)"
  shows "visit_deletes (ttl_millis p) now True False created"
proof -
  have "sint (ttl_millis p) < 0" by (simp add: ttl_millis_def assms(1))
  then show ?thesis using assms(2) by (simp add: visit_deletes_def word_sle_eq)
qed

end
