(* ===== verification/Spec2Isabelle.thy ===== *)
theory Spec2Isabelle
  imports Obj_Registry Error_Registry Typed_Containers Startup Access_Control File_Downloads Weed_System
    Retry_Store Clear_Files
begin

text \<open>
  Logful server: a verification of the code that receives, parses, stores and forwards client logs.

  The program. Clients write log records into a binary file, compress and encrypt it and upload it
  together with attachments and crash reports (\<open>controller/ClientRestController.java\<close>). A task parses each
  log file (\<open>parse/LogFileParser.java\<close>, \<open>parse/LogFileParseTask.java\<close>), decrypts its records
  (\<open>util/CryptoTool.java\<close>, whose keys for old clients come from \<open>native/interface.c\<close> on OpenSSL), sends
  every record to Graylog (\<open>parse/GraylogClientService.java\<close> on the vendored client \<open>org/graylog2/gelfclient\<close>) and
  writes it as a line of a local file. The local file goes to a WeedFS server (\<open>weed/\<close>), and the meta with
  the file id it got is stored in MongoDB. What could not be sent is retried by
  \<open>schedule/ScheduledTasks.java\<close>. Administrators set the level and the granted clients through \<open>rest/\<close>.

  Which theory models which part, in the order of the calls:

  \<^item> \<open>Java_Prelude\<close>: machine types as words, exceptions as values, the pieces of \<open>String\<close> and
    \<open>Integer\<close> in use. \<open>Interfaces\<close>: the contracts as locales (byte codecs, framed formats, memoising
    caches, bounded queues, queue workers, keyed stores); each is interpreted on the model in the
    theory that provides it. \<open>Mongo_Collection\<close>: a collection of MongoDB with its documented laws, and
    the locale of documents that are kept one for each key.
  \<^item> \<open>Byte_Util\<close>, \<open>String_Util\<close>, \<open>Server_Properties\<close>, \<open>Entities\<close>: the utilities, the configuration and
    the stored documents.
  \<^item> \<open>Native_Security\<close>: the JNI function of \<open>interface.c\<close> with its resources; \<open>Obj_Mac\<close> and
    \<open>Obj_Registry\<close>: the object tables of \<open>openssl/obj_mac.h\<close>, their ids and identifiers;
    \<open>Error_Codes\<close> and \<open>Error_Registry\<close>: the error codes of all the headers and the macros that pack them;
    \<open>Typed_Macros\<close>, \<open>Stack_Tables_1\<close> to \<open>Stack_Tables_3\<close>, \<open>Container_Tables\<close> and \<open>Typed_Containers\<close>: the macros
    of \<open>openssl/safestack.h\<close> as the checked calls they expand to, and their typing; \<open>Crypto_Tool\<close>: both decryptions and the certificate cache.
  \<^item> \<open>Log_File_Parser\<close>: the loop over the binary format, every break and exception path.
  \<^item> \<open>Layouts\<close>: message templates and their cache. \<open>Gelf_Message\<close>, \<open>Gelf_Chunk_Encoder\<close>, \<open>Gelf_Config\<close>:
    messages, JSON, UDP chunks, the queue and both encoder pipelines. \<open>Gelf_Sender\<close>, \<open>Gelf_Transport\<close>:
    the sender thread and the reconnecting TCP transport as step relations. \<open>Graylog_Service\<close>: from a
    log message to the transport, and back through the listener.
  \<^item> \<open>Weed_Writer\<close>, \<open>Weed_Service\<close>, \<open>Weed_Invariant\<close>: the upload thread, the service with its queues, map
    and answers, the scheduled tasks, and the states that their operations reach, restarts included.
    \<open>Weed_Reader\<close>: the read thread one access at a time, with every exception it swallows.
    \<open>Weed_Conservation\<close>: what is saved, waits and is lost, balanced over its steps. \<open>Weed_System\<close>: all calls of
    \<open>write\<close>, threads, answers and clean-ups, interleaved at each access to shared state. \<open>Retry_Store\<close>: the
    stored messages and files, their expiry and the task that retries them. \<open>Clear_Files\<close>: the walk that
    deletes old files.
  \<^item> \<open>Log_File_Task\<close>: what happens to one uploaded file, as a list of effects.
  \<^item> \<open>Global_Grants\<close>, \<open>Client_Controller\<close>, \<open>Client_Details\<close>, \<open>Rest_Queries\<close>: grants and levels, the upload
    requests and the key pairs, the registered applications, the database queries of requests.
    \<open>Token_Store\<close>: the OAuth2 tokens and their enhancer. \<open>User_Profiles\<close>: users and control profiles.
    \<open>App_Admin\<close>: updating, deleting and counting applications, push messages. \<open>File_Downloads\<close>: what
    was uploaded, found by its meta and fetched from WeedFS. \<open>Access_Control\<close>: the table of all requests
    with the rules that protect them, and what a caller without a token can do. \<open>Startup\<close>: the
    expansion of the native library before the server runs, and the sums of files.
  \<^item> This theory: the way of a log file through all of it.

  How the code corresponds. A class with state is a record and a method a function from state to
  state with the same name, a suffix apart where HOL has the name already. A method that may throw
  returns a sum; a reference that may be null is an option. A thread is an inductive step relation
  with a program counter, its surroundings are steps of their own, and what happened is a list of
  events. Files, saved documents and messages given to another service are lists of effects. A
  call that blocks on a full queue is \<open>None\<close>, or a step that is not enabled.

  What the lemmas show. Round trips: the file format, byte codecs, layouts, chunks, multipart
  requests, the TCP and UDP streams, the public key in a token, an uploaded file and its download.
  Refinement: every parse is the delivery of the file's meaning, every task has the effects of its
  specification, the requests for grants run an abstract machine, the token store two multisets.
  Invariants of step relations: messages are neither lost, doubled nor reordered between the queue
  and the network, one sender at most has a live channel, queues and maps of the WeedFS service stay
  well-typed, every file given to WeedFS is accounted for in every interleaving, and a stored message
  is retried until it expires. Liveness and termination: stopped senders end, the parser ends on every input. Errors:
  truncated and damaged files, malformed columns, raising listeners, revoked grants, answers that come
  too early, stored messages that raise, deleted applications. Safety: which requests need a token, what
  an administrator's request can and cannot change, which files are deleted. Several of these
  theorems state what the code does where that is not what it means to do: they are listed as
  findings beside the development.

  Bounds and fuel. Java integers keep their width, so wrap-around is in the model (\<open>expires() * 1000\<close>,
  the chunk count as a byte, lengths as signed shorts). The only fuel is that of
  \<open>Log_File_Parser.parse_fuel\<close>, which counts runs of the loop body; one for each 20 bytes and one more is
  proved enough. Strings are Latin-1.

  Not in the repository, so parameters with their documented laws: OpenSSL's functions, AES, RSA, MD5,
  Base64, GZIP, the JSON libraries, dates and calendars, double arithmetic, MongoDB and Spring Data,
  Netty, Spring Security, the file system, random ids and the clock.

  Not modelled: the expiry of stored documents other than log messages, system statistics read from the JVM, the registration
  of beans with Spring, and, besides the constants and macros named above, the declarations of the
  other OpenSSL headers, whose code the repository does not contain.
\<close>

section \<open>A log file from the upload to its stored meta\<close>

lemma create_meta_shape:
  "create_meta parse_date now p = Inr (Some m) \<Longrightarrow> \<exists>l. m = weed_of now (lp_key p) (lp_extension p) (LogFile l)"
  by (auto simp: create_meta_def Let_def split: if_splits option.splits sum.splits prod.splits)

lemma out_file:
  "weedPath p @ ''/'' @ filename (weed_of now (lp_key p) (lp_extension p) (LogFile l)) = outFilePath p"
  by (simp add: weedPath_def outFilePath_def del: weed_of.simps)

text \<open>
  The hand-over between the parts: the task of an accepted upload, the write thread and the read
  thread all work in the weed directory of the server, and the answer of the master names the file
  that was sent.
\<close>

definition same_place :: "log_file_properties \<Rightarrow> writer_env \<Rightarrow> read_env \<Rightarrow> bool" where
  "same_place p we re \<longleftrightarrow> we_dirPath we = weedPath p \<and> re_dirPath re = weedPath p"

text \<open>
  Claim C3. The whole way of a log file. If its records are well-formed and none raises, and its name
  gives a meta, then the task hands exactly this meta to the WeedFS service, which registers it; the
  write thread, which finds the local file the task has written, sends a request from which the
  receiver gets back exactly one line for each record, in their order; and when the master answers
  with an id, the meta of the log file is stored with this id and nothing else, the local file is
  deleted and the service has forgotten the key.
\<close>

theorem log_file_end_to_end:
  assumes "picks_entry (te_pick e)" and "cache_ok (ts_cache st)" and "te_local e"
    and "\<forall>r \<in> set rs. readable dec r" and "list_all (\<lambda>w. \<not> raises e p w) (map (record_output dec) rs)"
    and "create_meta (te_parseDate e) (te_now e) p = Inr (Some m)" and "ts_effects st = []"
    and "es = ts_effects (task_run e dec p (Inr (stream (concat (map render_record rs)) False)) st)"
    and "same_place p we re" and "we_files we (outFilePath p) = Content (local_file newline es)"
    and "CHR 0x0D \<notin> set (filename m)" and "CHR 0x0D \<notin> set (we_boundary we)"
    and "\<not> sublist (delimiter (we_boundary we)) (local_file newline es)"
    and "ws_connected s" and "\<not> ws_serverError s" and "writeQueueSize s < q_capacity (ws_writeQueue s)"
    and "q_items (ws_readQueue s) = []" and "0 < q_capacity (ws_readQueue s)"
    and "answers re bytes fid (lp_key p @ ''.'' @ lp_extension p) sz"
    and "re_baseName re (lp_key p @ ''.'' @ lp_extension p) = lp_key p"
  shows "\<exists>l req s1 s2 s3. metas_of es = [m] \<and> w_log m = Some l
    \<and> weed_write dir m s = Some (Inr [], s1) \<and> ws_metaMap s1 (lp_key p) = Some m
    \<and> process_meta we m = Uploaded m req
    \<and> parse_multipart (we_boundary we) (rq_body req)
        = Some (disposition (filename m), concat (map (\<lambda>r. str_bytes (line_of e p (record_output dec r)) @ newline) rs))
    \<and> channelRead0 now 201 bytes s1 = Some s2
    \<and> read_step re None s2
        = ([SaveLogMeta (l\<lparr>lf_fid := Some fid, lf_size := sz\<rparr>), DeleteFile (outFilePath p)], None, s3)
    \<and> ws_metaMap s3 (lp_key p) = None"
proof -
  obtain l where m: "m = weed_of (te_now e) (lp_key p) (lp_extension p) (LogFile l)"
    using create_meta_shape [OF assms(6)] by blast
  let ?c = "concat (map (\<lambda>r. str_bytes (line_of e p (record_output dec r)) @ newline) rs)"
  let ?req = "upload_request (we_uri we) (we_boundary we) (filename m) (local_file newline es)"
  note task = task_delivers_file [OF assms(1-7)]
  have es: "es = concat (map (handled e p) (map (record_output dec) rs)) @ [CloseFile, ToWeed m, DeleteCacheFile]"
    unfolding assms(8) by (rule conjunct1 [OF task])
  have ls: "lines_of es = map (\<lambda>r. line_of e p (record_output dec r)) rs"
    unfolding assms(8) by (rule conjunct2 [OF task])
  have 1: "metas_of es = [m]" unfolding es by (simp add: handled_metas del: map_map)
  have c: "local_file newline es = ?c" by (simp add: local_file_def ls comp_def)
  have path: "we_dirPath we @ ''/'' @ filename m = outFilePath p"
    using assms(9) out_file [of p "te_now e" l] by (simp only: same_place_def m)
  then have 2: "process_meta we m = Uploaded m ?req"
    using assms(10) by (simp add: process_meta_def)
  have 3: "parse_multipart (we_boundary we) (rq_body ?req) = Some (disposition (filename m), ?c)"
    using upload_roundtrip [OF assms(11-13), of "we_uri we"] by (simp only: c)
  have dir: "re_dirPath re = weedPath p" using assms(9) by (simp add: same_place_def)
  then have "re_dirPath re \<noteq> []" by (simp add: weedPath_def)
  from upload_completes [OF assms(14-20) this, of dir "te_now e" "LogFile l" now]
  obtain s1 s2 s3 where 4: "weed_write dir m s = Some (Inr [], s1)" "ws_metaMap s1 (lp_key p) = Some m"
      "channelRead0 now 201 bytes s1 = Some s2"
    and 5: "read_step re None s2 = (expected_effects (re_now re) (re_newId re) fid sz (LogFile l)
        @ (if dated (LogFile l) then [DeleteFile (re_dirPath re @ ''/'' @ lp_key p @ ''.'' @ lp_extension p)] else []), None, s3)"
    and 6: "ws_metaMap s3 (lp_key p) = (if dated (LogFile l) then None else Some m)"
    unfolding m by blast
  have "read_step re None s2 = ([SaveLogMeta (l\<lparr>lf_fid := Some fid, lf_size := sz\<rparr>), DeleteFile (outFilePath p)], None, s3)"
    using 5 out_file [of p "te_now e" l] by (simp add: dir outFilePath_def weedPath_def)
  moreover have "w_log m = Some l" by (simp add: m createWeedLog_def new_weed_meta_def)
  moreover have "ws_metaMap s3 (lp_key p) = None" using 6 by simp
  ultimately show ?thesis using 1 2 3 4 by blast
qed

definition sample_effects :: "task_effect list" where
  "sample_effects = ts_effects (task_run sample_env ascii_dec sample_properties
     (Inr (stream (concat (map render_record [short_record])) False)) sample_state)"

definition sample_place :: writer_env where
  "sample_place = \<lparr>we_dirPath = weedPath sample_properties, we_uri = ''u'', we_boundary = ''b'',
     we_files = (\<lambda>p. Content (local_file [10] sample_effects))\<rparr>"

definition sample_answers :: read_env where
  "sample_answers = sample_read_env\<lparr>re_dirPath := weedPath sample_properties\<rparr>"

lemma sample_effects_lines: "lines_of sample_effects = [''5 [A]: BC'']"
proof -
  have a: "\<forall>r \<in> set [short_record]. readable ascii_dec r" by (simp add: short_readable)
  have b: "list_all (\<lambda>w. \<not> raises sample_env sample_properties w) (map (record_output ascii_dec) [short_record])"
    by (simp add: short_fine)
  from conjunct2 [OF task_delivers_file [OF sample_state_ok(1,2,4) a b sample_task_meta sample_state_ok(3)]]
  show ?thesis unfolding sample_effects_def by (simp only: list.map short_line)
qed

lemma sample_delimiter: "\<not> sublist (delimiter ''b'') (local_file [10] sample_effects)"
proof
  assume "sublist (delimiter ''b'') (local_file [10] sample_effects)"
  then have "set (delimiter ''b'') \<subseteq> set (local_file [10] sample_effects)" by (rule set_mono_sublist)
  moreover have "13 \<in> set (delimiter ''b'')" by (simp add: delimiter_def CRLF_def)
  moreover have "13 \<notin> set (local_file [10] sample_effects)"
    using no_cr_str [of "''5 [A]: BC''"] by (simp add: local_file_def sample_effects_lines)
  ultimately show False by blast
qed

theorem log_file_end_to_end_witness:
  "\<exists>l req s1 s2 s3. metas_of sample_effects = [sample_log_meta] \<and> w_log sample_log_meta = Some l
     \<and> process_meta sample_place sample_log_meta = Uploaded sample_log_meta req
     \<and> parse_multipart ''b'' (rq_body req) = Some (disposition ''k.log'', str_bytes ''5 [A]: BC'' @ [10])
     \<and> weed_write ''/w'' sample_log_meta sample_service = Some (Inr [], s1) \<and> channelRead0 6 201 [1] s1 = Some s2
     \<and> read_step sample_answers None s2
         = ([SaveLogMeta (l\<lparr>lf_fid := Some ''3,01'', lf_size := 9\<rparr>), DeleteFile (outFilePath sample_properties)], None, s3)"
proof -
  have a: "\<forall>r \<in> set [short_record]. readable ascii_dec r" by (simp add: short_readable)
  have b: "list_all (\<lambda>w. \<not> raises sample_env sample_properties w) (map (record_output ascii_dec) [short_record])"
    by (simp add: short_fine)
  have place: "same_place sample_properties sample_place sample_answers"
    "we_files sample_place (outFilePath sample_properties) = Content (local_file [10] sample_effects)"
    "CHR 0x0D \<notin> set (we_boundary sample_place)" "\<not> sublist (delimiter (we_boundary sample_place)) (local_file [10] sample_effects)"
    using sample_delimiter by (simp_all add: same_place_def sample_place_def sample_answers_def)
  have name: "filename sample_log_meta = ''k.log''" 
    by (simp add: sample_log_meta_def createWeedLog_def new_weed_meta_def filename_def)
  then have cr: "CHR 0x0D \<notin> set (filename sample_log_meta)" by simp
  have svc: "ws_connected sample_service" "\<not> ws_serverError sample_service"
    "writeQueueSize sample_service < q_capacity (ws_writeQueue sample_service)"
    "q_items (ws_readQueue sample_service) = []" "0 < q_capacity (ws_readQueue sample_service)"
    by (simp_all add: sample_service_def writeQueueSize_def)
  have ans: "answers sample_answers [1] ''3,01'' (lp_key sample_properties @ ''.'' @ lp_extension sample_properties) 9"
    "re_baseName sample_answers (lp_key sample_properties @ ''.'' @ lp_extension sample_properties) = lp_key sample_properties"
    by (simp_all add: answers_def sample_answers_def sample_read_env_def sample_properties_def)
  note e = log_file_end_to_end [OF sample_state_ok(1,2,4) a b sample_task_meta sample_state_ok(3) sample_effects_def
      place(1,2) cr place(3,4) svc ans, of "''/w''" 6]
  have bnd: "we_boundary sample_place = ''b''" by (simp add: sample_place_def)
  show ?thesis using e unfolding name bnd list.map short_line concat.simps append_Nil2 by blast
qed

end
